(* ===== verification/FPrelude.thy ===== *)
theory FPrelude
  imports Complex_Main "HOL-Library.Char_ord" "HOL-Library.List_Lexorder"
    "HOL-Library.Product_Lexorder"
begin

text \<open>
  Shared vocabulary of the development: the exception hierarchy of
  src/backend/app/exceptions.py as a datatype, the result type
  \<^typ>\<open>'e + 'a\<close> of handlers that may raise, lookups and updates of a table
  held as a list of rows, the stable descending sort that the queries use, and the
  fixed-point rounding of Python's \<open>Decimal.quantize\<close>.
\<close>

named_theorems table_simps \<open>lookups and updates of tables\<close>
named_theorems result_iffs \<open>when a composed computation succeeds or fails\<close>

section \<open>Identifiers, time, errors\<close>

text \<open>
  A uuid4 primary key is a natural number taken from a counter: the code relies on
  uuids being distinct and on nothing else.  Timestamps that the database compares
  are microseconds on the UTC time line.
\<close>

type_synonym uuid = nat
type_synonym timestamp = int
type_synonym money = rat

datatype err =
    NotFoundError string
  | ConflictError string
  | AuthorizationError string
  | TenantIsolationError string
  | ValidationError string
  | StateTransitionError string
  | DomainError string
  | ValueError string
  | InvalidOperation
  | IntegrityError string
  | MultipleResultsFound
  | DataError string
  | ProviderError string
  | AttributeError string
  | ReviewEligibilityError string
  | TypeError string
  | ImportError string
  | KeyError string
  | AuthenticationError string
  | HTTPException nat string

text \<open>The HTTP status that the exception handlers of the API give to each error.\<close>

fun status_code :: "err \<Rightarrow> nat" where
  "status_code (NotFoundError _) = 404"
| "status_code (ConflictError _) = 409"
| "status_code (AuthorizationError _) = 403"
| "status_code (TenantIsolationError _) = 403"
| "status_code (ValidationError _) = 422"
| "status_code (StateTransitionError _) = 422"
| "status_code (DomainError _) = 422"
| "status_code (AuthenticationError _) = 401"
| "status_code (HTTPException n _) = n"
| "status_code _ = 500"

section \<open>Results\<close>

definition bindE :: "'e + 'a \<Rightarrow> ('a \<Rightarrow> 'e + 'b) \<Rightarrow> 'e + 'b" where
  "bindE m f = (case m of Inl e \<Rightarrow> Inl e | Inr x \<Rightarrow> f x)"

definition guardE :: "bool \<Rightarrow> 'e \<Rightarrow> 'e + unit" where
  "guardE b e = (if b then Inr () else Inl e)"

definition requireE :: "'e \<Rightarrow> 'a option \<Rightarrow> 'e + 'a" where
  "requireE e v = (case v of None \<Rightarrow> Inl e | Some x \<Rightarrow> Inr x)"

fun foldE :: "('a \<Rightarrow> 's \<Rightarrow> 'e + 's) \<Rightarrow> 'a list \<Rightarrow> 's \<Rightarrow> 'e + 's" where
  "foldE f [] s = Inr s"
| "foldE f (x # xs) s = bindE (f x s) (foldE f xs)"

lemma bindE_simps [simp]:
  "bindE (Inl e) f = Inl e"
  "bindE (Inr x) f = f x"
  by (simp_all add: bindE_def)

lemma guardE_simps [simp]:
  "guardE True e = Inr ()"
  "guardE False e = Inl e"
  by (simp_all add: guardE_def)

lemma requireE_simps [simp]:
  "requireE e None = Inl e"
  "requireE e (Some x) = Inr x"
  by (simp_all add: requireE_def)

lemma bindE_Inr_iff [result_iffs]:
  "bindE m f = Inr y \<longleftrightarrow> (\<exists>x. m = Inr x \<and> f x = Inr y)"
  by (cases m) simp_all

lemma bindE_Inl_iff:
  "bindE m f = Inl e \<longleftrightarrow> m = Inl e \<or> (\<exists>x. m = Inr x \<and> f x = Inl e)"
  by (cases m) simp_all

lemma guardE_Inr_iff [result_iffs]: "guardE b e = Inr u \<longleftrightarrow> b"
  by (simp add: guardE_def)

lemma guardE_Inl_iff: "guardE b e = Inl e' \<longleftrightarrow> \<not> b \<and> e' = e"
  by (auto simp: guardE_def)

lemma requireE_Inr_iff [result_iffs]: "requireE e v = Inr x \<longleftrightarrow> v = Some x"
  by (cases v) simp_all

lemma bindE_guardE: "bindE (guardE b e) f = (if b then f () else Inl e)"
  by simp

lemma bindE_cong [fundef_cong]:
  "m = m' \<Longrightarrow> (\<And>x. m' = Inr x \<Longrightarrow> f x = f' x) \<Longrightarrow> bindE m f = bindE m' f'"
  by (cases m) auto

lemma foldE_invariant:
  assumes "foldE f xs s = Inr s'" "P s"
    and "\<And>x s s'. x \<in> set xs \<Longrightarrow> P s \<Longrightarrow> f x s = Inr s' \<Longrightarrow> P s'"
  shows "P s'"
  using assms
proof (induction xs arbitrary: s)
  case (Cons x xs)
  then obtain t where t: "f x s = Inr t" "foldE f xs t = Inr s'"
    by (auto simp: result_iffs)
  then have "P t" using Cons.prems by auto
  then show ?case using Cons.IH [OF t(2)] Cons.prems(3) by auto
qed simp

section \<open>Tables\<close>

text \<open>
  A table is the list of its rows in insertion order; \<open>find_row\<close> is the lookup by
  primary key and \<open>upd_row\<close> the assignment of attributes to the row of a key.
\<close>

definition find_row :: "('r \<Rightarrow> uuid) \<Rightarrow> uuid \<Rightarrow> 'r list \<Rightarrow> 'r option" where
  "find_row key k rows = List.find (\<lambda>r. key r = k) rows"

definition upd_row :: "('r \<Rightarrow> uuid) \<Rightarrow> uuid \<Rightarrow> ('r \<Rightarrow> 'r) \<Rightarrow> 'r list \<Rightarrow> 'r list" where
  "upd_row key k f rows = map (\<lambda>r. if key r = k then f r else r) rows"

definition keys_distinct :: "('r \<Rightarrow> uuid) \<Rightarrow> 'r list \<Rightarrow> bool" where
  "keys_distinct key rows \<longleftrightarrow> distinct (map key rows)"

lemma find_row_simps [simp, table_simps]:
  "find_row key k [] = None"
  "find_row key k (r # rows) = (if key r = k then Some r else find_row key k rows)"
  by (simp_all add: find_row_def)

lemma find_row_SomeD: "find_row key k rows = Some r \<Longrightarrow> r \<in> set rows \<and> key r = k"
  by (induction rows) (auto split: if_splits)

lemma find_row_None_iff: "find_row key k rows = None \<longleftrightarrow> k \<notin> key ` set rows"
  by (induction rows) (auto split: if_splits)

lemma find_row_append:
  "find_row key k (xs @ ys) =
     (case find_row key k xs of None \<Rightarrow> find_row key k ys | Some r \<Rightarrow> Some r)"
  by (induction xs) auto

lemma find_row_distinct:
  "keys_distinct key rows \<Longrightarrow> r \<in> set rows \<Longrightarrow> find_row key (key r) rows = Some r"
  by (induction rows) (force simp: keys_distinct_def image_iff)+

lemma upd_row_simps [simp, table_simps]:
  "upd_row key k f [] = []"
  "upd_row key k f (r # rows) = (if key r = k then f r else r) # upd_row key k f rows"
  by (simp_all add: upd_row_def)

lemma upd_row_append [simp]:
  "upd_row key k f (xs @ ys) = upd_row key k f xs @ upd_row key k f ys"
  by (simp add: upd_row_def)

lemma length_upd_row [simp]: "length (upd_row key k f rows) = length rows"
  by (simp add: upd_row_def)

lemma map_key_upd_row:
  "(\<And>r. key (f r) = key r) \<Longrightarrow> map key (upd_row key k f rows) = map key rows"
  by (simp add: upd_row_def)

lemma keys_distinct_upd_row [table_simps]:
  "(\<And>r. key (f r) = key r) \<Longrightarrow>
    keys_distinct key (upd_row key k f rows) = keys_distinct key rows"
  by (simp add: keys_distinct_def map_key_upd_row)

lemma find_row_upd_row_same:
  "(\<And>r. key (f r) = key r) \<Longrightarrow>
    find_row key k (upd_row key k f rows) = map_option f (find_row key k rows)"
  by (induction rows) auto

lemma find_row_upd_row_other:
  "(\<And>r. key (f r) = key r) \<Longrightarrow> k' \<noteq> k \<Longrightarrow>
    find_row key k' (upd_row key k f rows) = find_row key k' rows"
  by (induction rows) auto

lemma in_set_upd_rowE:
  assumes "r \<in> set (upd_row key k f rows)"
  obtains "r \<in> set rows" "key r \<noteq> k" | s where "s \<in> set rows" "key s = k" "r = f s"
  using assms by (auto simp: upd_row_def split: if_splits)

lemma upd_row_cong_set:
  "(\<And>r. r \<in> set rows \<Longrightarrow> key r = k \<Longrightarrow> f r = g r) \<Longrightarrow>
    upd_row key k f rows = upd_row key k g rows"
  by (simp add: upd_row_def)

lemma upd_row_unknown: "k \<notin> key ` set rows \<Longrightarrow> upd_row key k f rows = rows"
  by (induction rows) auto

lemma filter_upd_row_unchanged:
  "(\<And>r. r \<in> set rows \<Longrightarrow> key r = k \<Longrightarrow> P (f r) = P r) \<Longrightarrow>
    map key (filter P (upd_row key k f rows)) =
    map (\<lambda>r. if key r = k then key (f r) else key r) (filter P rows)"
  by (induction rows) auto

lemma sum_list_upd_row:
  fixes g :: "'r \<Rightarrow> rat"
  assumes "keys_distinct key rows" "find_row key k rows = Some r"
  shows "sum_list (map g (upd_row key k f rows)) = sum_list (map g rows) - g r + g (f r)"
  using assms
proof (induction rows)
  case (Cons a rows)
  then have d: "keys_distinct key rows" "key a \<notin> key ` set rows"
    by (auto simp: keys_distinct_def)
  show ?case
  proof (cases "key a = k")
    case True
    then have "a = r" "upd_row key k f rows = rows"
      using Cons.prems(2) d(2) by (auto simp: upd_row_unknown)
    then show ?thesis using True by simp
  next
    case False
    then show ?thesis using Cons.IH [OF d(1)] Cons.prems(2) by simp
  qed
qed simp

text \<open>
  \<open>scalar_one_or_none\<close> of a query that is not by primary key: no row is None, one row
  is that row, and more than one row raises.
\<close>

fun scalar_one_or_none :: "'r list \<Rightarrow> err + 'r option" where
  "scalar_one_or_none [] = Inr None"
| "scalar_one_or_none [r] = Inr (Some r)"
| "scalar_one_or_none (_ # _ # _) = Inl MultipleResultsFound"

definition first_row :: "'r list \<Rightarrow> 'r option" where
  "first_row rows = (case rows of [] \<Rightarrow> None | r # _ \<Rightarrow> Some r)"

lemma first_row_simps [simp]:
  "first_row [] = None" "first_row (r # rs) = Some r"
  by (simp_all add: first_row_def)

lemma first_row_map: "first_row (map h xs) = map_option h (first_row xs)"
  by (cases xs) simp_all

lemma first_row_SomeD: "first_row rows = Some r \<Longrightarrow> r \<in> set rows"
  by (cases rows) simp_all

lemma scalar_one_or_none_Inr_SomeD:
  "scalar_one_or_none rows = Inr (Some r) \<Longrightarrow> rows = [r]"
  by (cases rows rule: scalar_one_or_none.cases) simp_all

lemma scalar_one_or_none_Inr_NoneD: "scalar_one_or_none rows = Inr None \<Longrightarrow> rows = []"
  by (cases rows rule: scalar_one_or_none.cases) simp_all

lemma scalar_in: "scalar_one_or_none (filter P rows) = Inr (Some x) \<Longrightarrow> x \<in> set rows \<and> P x"
  using scalar_one_or_none_Inr_SomeD [of "filter P rows" x] filter_eq_ConsD [of P rows x "[]"] by auto

lemma filter_key_single:
  assumes "distinct (map f xs)" "x \<in> set xs" "P x"
  shows "filter (\<lambda>y. f y = f x \<and> P y) xs = [x]"
proof -
  have "filter (\<lambda>y. f y = f x) xs = [x]"
    using assms(1,2)
  proof (induction xs)
    case (Cons a xs)
    have "filter (\<lambda>y. f y = f x) xs = []" if "f a = f x"
      using Cons.prems(1) that by (auto simp: filter_empty_conv image_iff)
    moreover have "f a \<noteq> f x" if "x \<in> set xs" using Cons.prems(1) that by auto
    ultimately show ?case using Cons by auto
  qed simp
  moreover have "filter (\<lambda>y. f y = f x \<and> P y) xs = filter P (filter (\<lambda>y. f y = f x) xs)"
    by (simp add: filter_filter conj_commute)
  ultimately show ?thesis using assms(3) by simp
qed

lemma filter_upd_row_none:
  "(\<And>r. r \<in> set rows \<Longrightarrow> key r = k \<Longrightarrow> \<not> P r \<and> \<not> P (f r)) \<Longrightarrow> filter P (upd_row key k f rows) = filter P rows"
  by (induction rows) auto

lemma filter_upd_row_single:
  assumes "filter P rows = [e]" and "keys_distinct key rows" and "P e'" and "key e' = key e"
  shows "filter P (upd_row key (key e) (\<lambda>_. e') rows) = [e']"
  using assms
proof (induction rows)
  case (Cons r rows)
  show ?case
  proof (cases "P r")
    case True
    then have "r = e" "filter P rows = []" using Cons.prems(1) by auto
    moreover have "upd_row key (key e) (\<lambda>_. e') rows = rows"
      using Cons.prems(2) \<open>r = e\<close> by (intro upd_row_unknown) (simp add: keys_distinct_def)
    ultimately show ?thesis using Cons.prems(3) by simp
  next
    case False
    then have one: "filter P rows = [e]" using Cons.prems(1) by simp
    then have "e \<in> set rows" by (metis filter_is_subset list.set_intros(1) subsetD)
    then have "key r \<noteq> key e" using Cons.prems(2) by (auto simp: keys_distinct_def)
    then show ?thesis using Cons.IH [OF one] Cons.prems False by (simp add: keys_distinct_def)
  qed
qed simp

lemma ids_upd_row: "key r = k \<Longrightarrow> map key (upd_row key k (\<lambda>_. r) rows) = map key rows"
  by (induction rows) auto

lemma map_upd_row_same:
  assumes "distinct (map key rows)" "r \<in> set rows" "key r' = key r" "f r' = f r"
  shows "map f (upd_row key (key r') (\<lambda>_. r') rows) = map f rows"
proof -
  have "x = r" if "x \<in> set rows" "key x = key r" for x
    using assms that by (auto simp: distinct_map dest: inj_onD)
  then show ?thesis using assms(3,4) by (auto simp: upd_row_def)
qed

lemma filter_key_one: "distinct (map f xs) \<Longrightarrow> x \<in> set xs \<Longrightarrow> filter (\<lambda>y. f y = f x) xs = [x]"
  by (induction xs) (auto simp: filter_empty_conv image_iff)

lemma scalar_singleton_or_empty:
  assumes "distinct (map f xs)"
  shows "\<exists>found. scalar_one_or_none (filter (\<lambda>x. f x = k) xs) = Inr found"
proof (cases "k \<in> f ` set xs")
  case True
  then obtain x where "x \<in> set xs" "f x = k" by blast
  then have "filter (\<lambda>y. f y = k) xs = [x]" using filter_key_one [OF assms] by auto
  then show ?thesis by simp
next
  case False
  then have "filter (\<lambda>y. f y = k) xs = []" by (auto simp: filter_empty_conv)
  then show ?thesis by simp
qed

section \<open>Sorting\<close>

text \<open>
  \<open>order_by(k.desc())\<close> and \<open>list.sort(key=k, reverse=True)\<close>: descending and
  stable.  (SQL leaves the order of equal keys open; insertion order is kept here.)
\<close>

definition sort_desc :: "('a \<Rightarrow> 'k::linorder) \<Rightarrow> 'a list \<Rightarrow> 'a list" where
  "sort_desc k xs = rev (sort_key k (rev xs))"

lemma sort_desc_simps [simp]: "sort_desc k [] = []" "sort_desc k [x] = [x]"
  by (simp_all add: sort_desc_def)

lemma sort_key_map: "sort_key k (map h xs) = map h (sort_key (k \<circ> h) xs)"
proof -
  have ins: "insort_key k (h x) (map h ys) = map h (insort_key (k \<circ> h) x ys)" for x ys
    by (induction ys) simp_all
  show ?thesis by (induction xs) (simp_all add: ins [unfolded comp_def] comp_def)
qed

lemma sort_desc_map: "sort_desc k (map h xs) = map h (sort_desc (k \<circ> h) xs)"
  unfolding sort_desc_def rev_map sort_key_map ..

lemma set_sort_desc [simp]: "set (sort_desc k xs) = set xs"
  by (simp add: sort_desc_def)

lemma length_sort_desc [simp]: "length (sort_desc k xs) = length xs"
  by (simp add: sort_desc_def)

lemma sort_desc_Nil_iff [simp]: "sort_desc k xs = [] \<longleftrightarrow> xs = []"
  by (metis length_0_conv length_sort_desc)

lemma sort_desc_sorted: "sorted (rev (map k (sort_desc k xs)))"
  by (simp add: sort_desc_def rev_map)

lemma sort_desc_hd_max:
  assumes "x \<in> set xs"
  shows "k x \<le> k (hd (sort_desc k xs))"
proof -
  obtain h t where ht: "sort_desc k xs = h # t"
    using assms by (cases "sort_desc k xs") auto
  have "sorted (rev (map k (h # t)))"
    using sort_desc_sorted [of k xs] ht by simp
  then have "\<forall>y\<in>set t. k y \<le> k h"
    by (simp add: sorted_append)
  moreover have "x \<in> set (h # t)"
    using assms ht by (metis set_sort_desc)
  ultimately show ?thesis
    unfolding ht by auto
qed

section \<open>Decimal arithmetic\<close>

text \<open>
  \<open>Decimal.quantize(TWO_PLACES, rounding=ROUND_HALF_UP)\<close>: round to two places, ties
  away from zero.  Amounts are exact rationals; the 28 digits of Python's default
  context hold every sum and product of the \<open>Numeric(12, 2)\<close> and \<open>Numeric(7, 4)\<close>
  columns exactly.
\<close>

definition quantize2 :: "rat \<Rightarrow> rat" where
  "quantize2 x = sgn x * of_int \<lfloor>\<bar>x\<bar> * 100 + 1/2\<rfloor> / 100"

lemma floor_rat_fraction [simp]:
  "\<lfloor>(numeral a :: rat) / numeral b\<rfloor> = numeral a div numeral b"
  "\<lfloor>(1 :: rat) / numeral b\<rfloor> = 1 div numeral b"
  using floor_divide_of_int_eq [of "numeral a" "numeral b", where ?'a = rat]
    floor_divide_of_int_eq [of 1 "numeral b", where ?'a = rat] by simp_all

definition two_places :: "rat \<Rightarrow> bool" where
  "two_places x \<longleftrightarrow> x * 100 = of_int \<lfloor>x * 100\<rfloor>"

lemma two_places_iff: "two_places x \<longleftrightarrow> (\<exists>n::int. x = of_int n / 100)"
proof
  assume "two_places x"
  then have "x = of_int \<lfloor>x * 100\<rfloor> / 100"
    by (simp add: two_places_def)
  then show "\<exists>n::int. x = of_int n / 100" by blast
next
  assume "\<exists>n::int. x = of_int n / 100"
  then obtain n :: int where "x = of_int n / 100" by blast
  then show "two_places x" by (simp add: two_places_def)
qed

lemma two_places_0 [simp]: "two_places 0"
  by (simp add: two_places_def)

lemma two_places_add: "two_places x \<Longrightarrow> two_places y \<Longrightarrow> two_places (x + y)"
proof -
  assume "two_places x" "two_places y"
  then obtain m n :: int where "x = of_int m / 100" "y = of_int n / 100"
    by (auto simp: two_places_iff)
  then have "x + y = of_int (m + n) / 100"
    by (simp add: add_divide_distrib)
  then show ?thesis using two_places_iff by blast
qed

lemma two_places_uminus: "two_places x \<Longrightarrow> two_places (- x)"
proof -
  assume "two_places x"
  then obtain m :: int where "x = of_int m / 100"
    by (auto simp: two_places_iff)
  then have "- x = of_int (- m) / 100" by simp
  then show ?thesis using two_places_iff by blast
qed

lemma two_places_diff: "two_places x \<Longrightarrow> two_places y \<Longrightarrow> two_places (x - y)"
  using two_places_add [of x "- y"] two_places_uminus [of y] by simp

lemma two_places_sum_list: "(\<And>x. x \<in> set xs \<Longrightarrow> two_places x) \<Longrightarrow> two_places (sum_list xs)"
  by (induction xs) (auto intro: two_places_add)

lemma two_places_quantize2 [simp]: "two_places (quantize2 x)"
proof (cases "x < 0")
  case True
  then have "quantize2 x = of_int (- \<lfloor>\<bar>x\<bar> * 100 + 1/2\<rfloor>) / 100"
    by (simp add: quantize2_def)
  then show ?thesis using two_places_iff by blast
next
  case False
  then have "quantize2 x = 0 \<or> quantize2 x = of_int \<lfloor>\<bar>x\<bar> * 100 + 1/2\<rfloor> / 100"
    by (cases "x = 0") (simp_all add: quantize2_def)
  then show ?thesis using two_places_iff two_places_0 by metis
qed

lemma quantize2_id [simp]: "two_places x \<Longrightarrow> quantize2 x = x"
proof -
  assume "two_places x"
  then obtain n :: int where n: "x = of_int n / 100"
    by (auto simp: two_places_iff)
  have fl: "\<lfloor>of_int \<bar>n\<bar> + (1/2 :: rat)\<rfloor> = \<bar>n\<bar>" by linarith
  have "\<bar>x\<bar> * 100 = of_int \<bar>n\<bar>" by (simp add: n)
  then have "quantize2 x = sgn x * of_int \<bar>n\<bar> / 100"
    by (simp only: quantize2_def fl)
  also have "\<dots> = x"
    by (cases "n = 0"; cases "n < 0") (simp_all add: n sgn_if)
  finally show ?thesis .
qed

lemma quantize2_0 [simp]: "quantize2 0 = 0"
  by simp

lemma quantize2_nonneg [simp]: "0 \<le> x \<Longrightarrow> 0 \<le> quantize2 x"
  by (cases "x = 0") (simp_all add: quantize2_def)

lemma quantize2_pos_eq: "0 \<le> x \<Longrightarrow> quantize2 x = of_int \<lfloor>x * 100 + 1/2\<rfloor> / 100"
  by (cases "x = 0") (simp_all add: quantize2_def)

lemma quantize2_close: "\<bar>quantize2 x - x\<bar> \<le> 1/200"
proof -
  have pos: "\<bar>quantize2 y - y\<bar> \<le> 1/200" if "0 \<le> y" for y
  proof -
    let ?f = "\<lfloor>y * 100 + 1/2\<rfloor>"
    have "of_int ?f \<le> y * 100 + 1/2" "y * 100 + 1/2 < of_int ?f + 1"
      by linarith+
    then show ?thesis
      unfolding quantize2_pos_eq [OF that] abs_le_iff by linarith
  qed
  show ?thesis
  proof (cases "0 \<le> x")
    case True
    then show ?thesis by (rule pos)
  next
    case False
    then have "quantize2 x = - quantize2 (- x)"
      by (simp add: quantize2_def)
    then have "\<bar>quantize2 x - x\<bar> = \<bar>quantize2 (- x) - (- x)\<bar>"
      by simp
    then show ?thesis using pos [of "- x"] False by linarith
  qed
qed

lemma quantize2_mono: "0 \<le> x \<Longrightarrow> x \<le> y \<Longrightarrow> quantize2 x \<le> quantize2 y"
  by (simp add: quantize2_pos_eq divide_right_mono floor_mono)

lemma quantize2_le:
  "0 \<le> x \<Longrightarrow> x \<le> y \<Longrightarrow> two_places y \<Longrightarrow> quantize2 x \<le> y"
  using quantize2_mono [of x y] by simp

end
