(* ===== verification/Py_Values.thy ===== *)
theory Py_Values
  imports FPrelude
begin

text \<open>
  The Python values the rule engine works on: JSON data as the JSONB columns hold it,
  the numerals that \<open>Decimal(...)\<close>, \<open>float(...)\<close> and \<open>int(...)\<close> read, string case and
  splitting, truth values and equality, and aware datetimes.

  A JSON number with a decimal point is kept as the decimal numeral it was written as
  (\<open>JNum m k\<close> is m / 10^k); comparisons of floats are comparisons of these exact
  values.  NaN and the infinities, which no JSON document holds, are outside the model,
  also as strings.
\<close>

section \<open>JSON\<close>

datatype json =
    JNull
  | JBool bool
  | JInt int
  | JNum int nat
  | JStr string
  | JList "json list"
  | JObj "(string \<times> json) list"

type_synonym json_obj = "(string \<times> json) list"

text \<open>\<open>d.get(k, default)\<close> of a dictionary.\<close>

definition dget :: "json_obj \<Rightarrow> string \<Rightarrow> json \<Rightarrow> json" where
  "dget d k v = (case map_of d k of None \<Rightarrow> v | Some x \<Rightarrow> x)"

definition dget_none :: "json_obj \<Rightarrow> string \<Rightarrow> json" where
  "dget_none d k = dget d k JNull"

lemma dget_simps [simp]:
  "dget [] k v = v"
  "dget ((k', x) # d) k v = (if k = k' then x else dget d k v)"
  by (auto simp: dget_def)

lemma dget_none_simps [simp]:
  "dget_none [] k = JNull"
  "dget_none ((k', x) # d) k = (if k = k' then x else dget_none d k)"
  by (simp_all add: dget_none_def)

text \<open>The truth value of \<open>if x\<close>.\<close>

fun truthy :: "json \<Rightarrow> bool" where
  "truthy JNull = False"
| "truthy (JBool b) = b"
| "truthy (JInt i) = (i \<noteq> 0)"
| "truthy (JNum m k) = (m \<noteq> 0)"
| "truthy (JStr s) = (s \<noteq> [])"
| "truthy (JList xs) = (xs \<noteq> [])"
| "truthy (JObj d) = (d \<noteq> [])"

text \<open>The numeric value of bool, int and float, which compare across types.\<close>

fun num_value :: "json \<Rightarrow> rat option" where
  "num_value (JBool b) = Some (if b then 1 else 0)"
| "num_value (JInt i) = Some (of_int i)"
| "num_value (JNum m k) = Some (of_int m / 10 ^ k)"
| "num_value _ = None"

text \<open>\<open>==\<close> on JSON values: numbers by value, dictionaries without regard to order.\<close>

fun py_eq :: "json \<Rightarrow> json \<Rightarrow> bool"
  and py_eq_list :: "json list \<Rightarrow> json list \<Rightarrow> bool"
  and py_sub_obj :: "json_obj \<Rightarrow> json_obj \<Rightarrow> bool" where
  "py_eq (JStr s) y = (y = JStr s)"
| "py_eq JNull y = (y = JNull)"
| "py_eq (JBool b) y = (num_value y = Some (if b then 1 else 0))"
| "py_eq (JInt i) y = (num_value y = Some (of_int i))"
| "py_eq (JNum m k) y = (num_value y = Some (of_int m / 10 ^ k))"
| "py_eq (JList xs) y = (case y of JList ys \<Rightarrow> py_eq_list xs ys | _ \<Rightarrow> False)"
| "py_eq (JObj xs) y = (case y of JObj ys \<Rightarrow> length xs = length ys \<and> py_sub_obj xs ys | _ \<Rightarrow> False)"
| "py_eq_list [] ys = (ys = [])"
| "py_eq_list (x # xs) ys = (case ys of [] \<Rightarrow> False | y # ys' \<Rightarrow> py_eq x y \<and> py_eq_list xs ys')"
| "py_sub_obj [] ys = True"
| "py_sub_obj ((k, x) # xs) ys =
     ((case map_of ys k of None \<Rightarrow> False | Some y \<Rightarrow> py_eq x y) \<and> py_sub_obj xs ys)"

section \<open>Strings\<close>

definition upper_char :: "char \<Rightarrow> char" where
  "upper_char c = (case map_of (zip ''abcdefghijklmnopqrstuvwxyz'' ''ABCDEFGHIJKLMNOPQRSTUVWXYZ'') c of
     None \<Rightarrow> c | Some d \<Rightarrow> d)"

definition lower_char :: "char \<Rightarrow> char" where
  "lower_char c = (case map_of (zip ''ABCDEFGHIJKLMNOPQRSTUVWXYZ'' ''abcdefghijklmnopqrstuvwxyz'') c of
     None \<Rightarrow> c | Some d \<Rightarrow> d)"

definition upper :: "string \<Rightarrow> string" where
  "upper = map upper_char"

definition lower :: "string \<Rightarrow> string" where
  "lower = map lower_char"

text \<open>\<open>s.split(sep)\<close> for a one-character separator.\<close>

fun split_on :: "char \<Rightarrow> string \<Rightarrow> string list" where
  "split_on c [] = [[]]"
| "split_on c (x # xs) =
     (if x = c then [] # split_on c xs
      else (case split_on c xs of [] \<Rightarrow> [[x]] | w # ws \<Rightarrow> (x # w) # ws))"

definition py_prefix :: "string \<Rightarrow> string \<Rightarrow> bool" where
  "py_prefix p s \<longleftrightarrow> take (length p) s = p"

definition py_suffix :: "string \<Rightarrow> string \<Rightarrow> bool" where
  "py_suffix p s \<longleftrightarrow> py_prefix (rev p) (rev s)"

fun py_infix :: "string \<Rightarrow> string \<Rightarrow> bool" where
  "py_infix p [] = (p = [])"
| "py_infix p (x # xs) = (py_prefix p (x # xs) \<or> py_infix p xs)"

definition is_space :: "char \<Rightarrow> bool" where
  "is_space c \<longleftrightarrow> c \<in> set [CHR '' '', CHR 0x09, CHR 0x0A, CHR 0x0B, CHR 0x0C, CHR 0x0D]"

definition strip :: "string \<Rightarrow> string" where
  "strip s = rev (dropWhile is_space (rev (dropWhile is_space s)))"

section \<open>Numerals\<close>

definition digit_value :: "char \<Rightarrow> nat option" where
  "digit_value c = map_of (zip ''0123456789'' [0, 1, 2, 3, 4, 5, 6, 7, 8, 9]) c"

definition is_digit :: "char \<Rightarrow> bool" where
  "is_digit c \<longleftrightarrow> digit_value c \<noteq> None"

fun digits_value :: "nat \<Rightarrow> string \<Rightarrow> nat" where
  "digits_value acc [] = acc"
| "digits_value acc (c # cs) =
     digits_value (10 * acc + (case digit_value c of None \<Rightarrow> 0 | Some d \<Rightarrow> d)) cs"

fun split_sign :: "string \<Rightarrow> int \<times> string" where
  "split_sign [] = (1, [])"
| "split_sign (c # cs) =
     (if c = CHR ''-'' then (-1, cs) else if c = CHR ''+'' then (1, cs) else (1, c # cs))"

text \<open>\<open>int(s)\<close> of a string; None is ValueError.\<close>

definition parse_int :: "string \<Rightarrow> int option" where
  "parse_int s =
     (let (sg, ds) = split_sign (strip s)
      in if ds \<noteq> [] \<and> list_all is_digit ds then Some (sg * int (digits_value 0 ds)) else None)"

definition scale10 :: "rat \<Rightarrow> int \<Rightarrow> rat" where
  "scale10 x e = (if 0 \<le> e then x * 10 ^ nat e else x / 10 ^ nat (- e))"

text \<open>
  \<open>Decimal(s)\<close> of a string: sign, digits with an optional point, optional exponent,
  after stripping whitespace and dropping underscores; None is InvalidOperation.
\<close>

definition parse_decimal :: "string \<Rightarrow> rat option" where
  "parse_decimal s =
     (let (sg, body) = split_sign (strip (filter (\<lambda>c. c \<noteq> CHR ''_'') s));
          ip = takeWhile is_digit body;
          r = dropWhile is_digit body;
          (fp, r') = (case r of
             c # cs \<Rightarrow> if c = CHR ''.'' then (takeWhile is_digit cs, dropWhile is_digit cs) else ([], r)
           | [] \<Rightarrow> ([], []));
          m = of_int (sg * int (digits_value 0 (ip @ fp)))
      in if ip @ fp = [] then None
         else case r' of
             [] \<Rightarrow> Some (scale10 m (- int (length fp)))
           | c # cs \<Rightarrow>
               if c = CHR ''e'' \<or> c = CHR ''E'' then
                 (case split_sign cs of (es, ds) \<Rightarrow>
                    if ds \<noteq> [] \<and> list_all is_digit ds
                    then Some (scale10 m (es * int (digits_value 0 ds) - int (length fp)))
                    else None)
               else None)"

text \<open>\<open>_to_decimal\<close> of the pricing engine: \<open>Decimal(str(value))\<close>, None where it raises.\<close>

fun to_decimal :: "json \<Rightarrow> rat option" where
  "to_decimal JNull = None"
| "to_decimal (JBool b) = None"
| "to_decimal (JInt i) = Some (of_int i)"
| "to_decimal (JNum m k) = Some (of_int m / 10 ^ k)"
| "to_decimal (JStr s) = parse_decimal s"
| "to_decimal (JList xs) = None"
| "to_decimal (JObj d) = None"

text \<open>\<open>_to_float(value, None)\<close> of the rule evaluator.\<close>

fun to_float :: "json \<Rightarrow> rat option" where
  "to_float JNull = None"
| "to_float (JBool b) = Some (if b then 1 else 0)"
| "to_float (JInt i) = Some (of_int i)"
| "to_float (JNum m k) = Some (of_int m / 10 ^ k)"
| "to_float (JStr s) = parse_decimal s"
| "to_float (JList xs) = None"
| "to_float (JObj d) = None"

text \<open>\<open>int(value)\<close>: truncation of floats, parsing of strings; None where it raises.\<close>

definition truncate_rat :: "rat \<Rightarrow> int" where
  "truncate_rat x = (if 0 \<le> x then \<lfloor>x\<rfloor> else \<lceil>x\<rceil>)"

fun to_int :: "json \<Rightarrow> int option" where
  "to_int JNull = None"
| "to_int (JBool b) = Some (if b then 1 else 0)"
| "to_int (JInt i) = Some i"
| "to_int (JNum m k) = Some (truncate_rat (of_int m / 10 ^ k))"
| "to_int (JStr s) = parse_int s"
| "to_int (JList xs) = None"
| "to_int (JObj d) = None"

section \<open>Rendering\<close>

text \<open>\<open>str(value)\<close>; a float is rendered positionally, which Python does between 1e-4 and 1e16.\<close>

definition digit_char :: "nat \<Rightarrow> char" where
  "digit_char d = (''0123456789'' ! (d mod 10))"

fun nat_str :: "nat \<Rightarrow> string" where
  "nat_str n = (if n < 10 then [digit_char n] else nat_str (n div 10) @ [digit_char n])"

declare nat_str.simps [simp del]

definition int_str :: "int \<Rightarrow> string" where
  "int_str i = (if i < 0 then CHR ''-'' # nat_str (nat (- i)) else nat_str (nat i))"

fun pad_digits :: "nat \<Rightarrow> nat \<Rightarrow> string" where
  "pad_digits 0 n = []"
| "pad_digits (Suc k) n = pad_digits k (n div 10) @ [digit_char n]"

definition frac_str :: "nat \<Rightarrow> nat \<Rightarrow> string" where
  "frac_str k n =
     (case rev (dropWhile (\<lambda>c. c = CHR ''0'') (rev (pad_digits k n))) of
        [] \<Rightarrow> ''0'' | ds \<Rightarrow> ds)"

definition num_str :: "int \<Rightarrow> nat \<Rightarrow> string" where
  "num_str m k =
     (if m < 0 then ''-'' else '''') @ nat_str (nat \<bar>m\<bar> div 10 ^ k) @ ''.'' @ frac_str k (nat \<bar>m\<bar> mod 10 ^ k)"

fun py_repr :: "json \<Rightarrow> string"
  and py_repr_list :: "json list \<Rightarrow> string"
  and py_repr_obj :: "json_obj \<Rightarrow> string" where
  "py_repr JNull = ''None''"
| "py_repr (JBool b) = (if b then ''True'' else ''False'')"
| "py_repr (JInt i) = int_str i"
| "py_repr (JNum m k) = num_str m k"
| "py_repr (JStr s) = CHR 0x27 # s @ [CHR 0x27]"
| "py_repr (JList xs) = ''['' @ py_repr_list xs @ '']''"
| "py_repr (JObj d) = ''{'' @ py_repr_obj d @ ''}''"
| "py_repr_list [] = ''''"
| "py_repr_list (x # xs) = py_repr x @ (if xs = [] then '''' else '', '' @ py_repr_list xs)"
| "py_repr_obj [] = ''''"
| "py_repr_obj ((k, x) # xs) =
     CHR 0x27 # k @ [CHR 0x27] @ '': '' @ py_repr x @ (if xs = [] then '''' else '', '' @ py_repr_obj xs)"

fun py_str :: "json \<Rightarrow> string" where
  "py_str (JStr s) = s"
| "py_str x = py_repr x"

section \<open>Datetimes\<close>

text \<open>
  An aware datetime: the wall clock as microseconds since 1970-01-01 00:00 in its own
  zone, and the zone's offset from UTC in microseconds.  Comparison and subtraction of
  aware datetimes use the instant; \<open>.date()\<close>, \<open>.hour\<close>, \<open>.minute\<close> and \<open>.weekday()\<close> read
  the wall clock.
\<close>

record datetime =
  dt_wall :: int
  dt_offset :: int

definition instant :: "datetime \<Rightarrow> timestamp" where
  "instant t = dt_wall t - dt_offset t"

definition utc_datetime :: "timestamp \<Rightarrow> datetime" where
  "utc_datetime i = \<lparr>dt_wall = i, dt_offset = 0\<rparr>"

definition us_per_second :: int where "us_per_second = 1000000"
definition us_per_minute :: int where "us_per_minute = 60000000"
definition us_per_hour :: int where "us_per_hour = 3600000000"
definition us_per_day :: int where "us_per_day = 86400000000"

lemmas us_units = us_per_second_def us_per_minute_def us_per_hour_def us_per_day_def

definition dt_day :: "datetime \<Rightarrow> int" where
  "dt_day t = dt_wall t div us_per_day"

definition dt_hour :: "datetime \<Rightarrow> int" where
  "dt_hour t = (dt_wall t mod us_per_day) div us_per_hour"

definition dt_minute :: "datetime \<Rightarrow> int" where
  "dt_minute t = (dt_wall t mod us_per_hour) div us_per_minute"

definition dt_weekday :: "datetime \<Rightarrow> int" where
  "dt_weekday t = (dt_day t + 3) mod 7"

lemma instant_utc [simp]: "instant (utc_datetime i) = i"
  by (simp add: instant_def utc_datetime_def)

text \<open>Days since 1970-01-01 of a date of the proleptic Gregorian calendar.\<close>

definition days_from_civil :: "int \<Rightarrow> int \<Rightarrow> int \<Rightarrow> int" where
  "days_from_civil y m d =
     (let y' = (if m \<le> 2 then y - 1 else y);
          era = y' div 400;
          yoe = y' - era * 400;
          doy = (153 * (if m > 2 then m - 3 else m + 9) + 2) div 5 + d - 1;
          doe = yoe * 365 + yoe div 4 - yoe div 100 + doy
      in era * 146097 + doe - 719468)"

definition is_leap :: "int \<Rightarrow> bool" where
  "is_leap y \<longleftrightarrow> y mod 4 = 0 \<and> (y mod 100 \<noteq> 0 \<or> y mod 400 = 0)"

definition days_in_month :: "int \<Rightarrow> int \<Rightarrow> int" where
  "days_in_month y m =
     (if m = 2 then (if is_leap y then 29 else 28)
      else if m \<in> set [4, 6, 9, 11] then 30 else 31)"

lemma epoch_day: "days_from_civil 1970 1 1 = 0"
  by (simp add: days_from_civil_def Let_def)

definition fixed_int :: "nat \<Rightarrow> string \<Rightarrow> int option" where
  "fixed_int n s = (if length s = n \<and> list_all is_digit s then Some (int (digits_value 0 s)) else None)"

text \<open>
  \<open>datetime.fromisoformat\<close> in its extended form: a date, an optional time
  \<open>HH:MM[:SS[.ffffff]]\<close> and an optional offset \<open>Z\<close> or \<open>+HH:MM\<close>.  The basic and week-date
  forms are not modelled.  A value without offset is read as UTC, as \<open>_parse_datetime\<close>
  does; None is ValueError.
\<close>

definition parse_date :: "string \<Rightarrow> int option" where
  "parse_date s =
     (case split_on CHR ''-'' s of
        [ys, ms, ds] \<Rightarrow>
          (case (fixed_int 4 ys, fixed_int 2 ms, fixed_int 2 ds) of
             (Some y, Some m, Some d) \<Rightarrow>
               if 1 \<le> y \<and> 1 \<le> m \<and> m \<le> 12 \<and> 1 \<le> d \<and> d \<le> days_in_month y m
               then Some (days_from_civil y m d) else None
           | _ \<Rightarrow> None)
      | _ \<Rightarrow> None)"

definition parse_clock :: "string \<Rightarrow> int option" where
  "parse_clock s =
     (let hms = (\<lambda>h m sec us.
             if h < 24 \<and> m < 60 \<and> sec < 60
             then Some (h * us_per_hour + m * us_per_minute + sec * us_per_second + us) else None)
      in case split_on CHR '':'' s of
        [hs, ms] \<Rightarrow>
          (case (fixed_int 2 hs, fixed_int 2 ms) of
             (Some h, Some m) \<Rightarrow> hms h m 0 0 | _ \<Rightarrow> None)
      | [hs, ms, ss] \<Rightarrow>
          (case (fixed_int 2 hs, fixed_int 2 ms, split_on CHR ''.'' ss) of
             (Some h, Some m, [sec]) \<Rightarrow>
               (case fixed_int 2 sec of Some x \<Rightarrow> hms h m x 0 | None \<Rightarrow> None)
           | (Some h, Some m, [sec, fr]) \<Rightarrow>
               (case (fixed_int 2 sec, fixed_int 6 fr) of
                  (Some x, Some u) \<Rightarrow> hms h m x u | _ \<Rightarrow> None)
           | _ \<Rightarrow> None)
      | _ \<Rightarrow> None)"

definition split_offset :: "string \<Rightarrow> (string \<times> int) option" where
  "split_offset s =
     (if s \<noteq> [] \<and> last s = CHR ''Z'' then Some (butlast s, 0)
      else if 6 \<le> length s \<and> s ! (length s - 6) \<in> set [CHR ''+'', CHR ''-'']
      then (case parse_clock (drop (length s - 5) s) of
              None \<Rightarrow> None
            | Some u \<Rightarrow> Some (take (length s - 6) s, if s ! (length s - 6) = CHR ''-'' then - u else u))
      else Some (s, 0))"

definition fromisoformat :: "string \<Rightarrow> datetime option" where
  "fromisoformat s =
     (if length s = 10 then map_option (\<lambda>d. \<lparr>dt_wall = d * us_per_day, dt_offset = 0\<rparr>) (parse_date s)
      else if 10 < length s then
        (case (parse_date (take 10 s), split_offset (drop 11 s)) of
           (Some d, Some (t, off)) \<Rightarrow>
             map_option (\<lambda>u. \<lparr>dt_wall = d * us_per_day + u, dt_offset = off\<rparr>) (parse_clock t)
         | _ \<Rightarrow> None)
      else None)"

text \<open>
  \<open>datetime.isoformat()\<close> of an aware datetime: microseconds are left out when zero, and so are
  the seconds of the offset.
\<close>

definition civil_from_days :: "int \<Rightarrow> int \<times> int \<times> int" where
  "civil_from_days n =
     (let z = n + 719468; era = z div 146097; doe = z mod 146097;
          yoe = (doe - doe div 1460 + doe div 36524 - doe div 146096) div 365;
          doy = doe - (365 * yoe + yoe div 4 - yoe div 100);
          mp = (5 * doy + 2) div 153;
          m = (if mp < 10 then mp + 3 else mp - 9)
      in (yoe + era * 400 + (if m \<le> 2 then 1 else 0), m, doy - (153 * mp + 2) div 5 + 1))"

lemma civil_from_days_examples:
  "civil_from_days 0 = (1970, 1, 1)" "civil_from_days 11016 = (2000, 2, 29)" "civil_from_days 20543 = (2026, 3, 31)"
  by code_simp+

definition two_digits :: "int \<Rightarrow> string" where
  "two_digits n = pad_digits 2 (nat n)"

definition date_str :: "int \<Rightarrow> string" where
  "date_str day =
     (case civil_from_days day of (y, m, d) \<Rightarrow>
        pad_digits 4 (nat y) @ ''-'' @ two_digits m @ ''-'' @ two_digits d)"

definition clock_str :: "int \<Rightarrow> string" where
  "clock_str us =
     two_digits (us div us_per_hour) @ '':'' @ two_digits (us mod us_per_hour div us_per_minute)"

definition second_str :: "int \<Rightarrow> string" where
  "second_str us =
     '':'' @ two_digits (us mod us_per_minute div us_per_second) @
     (if us mod us_per_second = 0 then [] else ''.'' @ pad_digits 6 (nat (us mod us_per_second)))"

definition offset_str :: "int \<Rightarrow> string" where
  "offset_str off =
     (if off < 0 then ''-'' else ''+'') @ clock_str \<bar>off\<bar> @
     (if \<bar>off\<bar> mod us_per_minute = 0 then [] else second_str \<bar>off\<bar>)"

definition isoformat :: "datetime \<Rightarrow> string" where
  "isoformat t =
     (let us = dt_wall t mod us_per_day
      in date_str (dt_day t) @ ''T'' @ clock_str us @ second_str us @ offset_str (dt_offset t))"

section \<open>Members of decoded JSON\<close>

text \<open>Attributes of a value that is not of the expected kind are an AttributeError.\<close>

fun as_object :: "json \<Rightarrow> err + json_obj" where
  "as_object (JObj o') = Inr o'"
| "as_object _ = Inl (AttributeError ''get'')"

fun as_text :: "json \<Rightarrow> err + string" where
  "as_text (JStr s) = Inr s"
| "as_text _ = Inl (AttributeError ''str'')"

definition first_truthy :: "json \<Rightarrow> json \<Rightarrow> json \<Rightarrow> json" where
  "first_truthy a b dflt = (if truthy a then a else if truthy b then b else dflt)"

text \<open>\<open>uuid.UUID(s)\<close>; a uuid is written as its number.\<close>

definition uuid_of_str :: "string \<Rightarrow> uuid option" where
  "uuid_of_str s = (if s \<noteq> [] \<and> list_all is_digit s then Some (digits_value 0 s) else None)"

end
