(* ===== verification/Enums.thy ===== *)
theory Enums
  imports FPrelude
begin

text \<open>
  The status enumerations and transition tables of
  src/backend/app/domain/common/enums.py, member by member.  A constructor is the
  member's name behind a prefix that keeps the enumerations apart, and \<open>_value\<close> gives
  the string value where the code builds text from it.  The second part states what a
  table means: reachability along allowed transitions, terminal states, and the
  \<open>ranked_machine\<close> interface of a lifecycle that never revisits a status.
\<close>

section \<open>Enumerations\<close>

datatype EnquiryStatus =
    Enq_DRAFT
  | Enq_SUBMITTED
  | Enq_RECEIVED
  | Enq_IN_REVIEW
  | Enq_NEEDS_INFORMATION
  | Enq_QUOTED
  | Enq_CUSTOMER_ACCEPTED
  | Enq_BOOKING_PROPOSED
  | Enq_BOOKED
  | Enq_IN_PROGRESS
  | Enq_COMPLETED
  | Enq_DECLINED
  | Enq_CANCELLED
  | Enq_EXPIRED
  | Enq_REJECTED

fun EnquiryStatus_value :: "EnquiryStatus \<Rightarrow> string" where
  "EnquiryStatus_value Enq_DRAFT = ''draft''"
| "EnquiryStatus_value Enq_SUBMITTED = ''submitted''"
| "EnquiryStatus_value Enq_RECEIVED = ''received''"
| "EnquiryStatus_value Enq_IN_REVIEW = ''in_review''"
| "EnquiryStatus_value Enq_NEEDS_INFORMATION = ''needs_information''"
| "EnquiryStatus_value Enq_QUOTED = ''quoted''"
| "EnquiryStatus_value Enq_CUSTOMER_ACCEPTED = ''customer_accepted''"
| "EnquiryStatus_value Enq_BOOKING_PROPOSED = ''booking_proposed''"
| "EnquiryStatus_value Enq_BOOKED = ''booked''"
| "EnquiryStatus_value Enq_IN_PROGRESS = ''in_progress''"
| "EnquiryStatus_value Enq_COMPLETED = ''completed''"
| "EnquiryStatus_value Enq_DECLINED = ''declined''"
| "EnquiryStatus_value Enq_CANCELLED = ''cancelled''"
| "EnquiryStatus_value Enq_EXPIRED = ''expired''"
| "EnquiryStatus_value Enq_REJECTED = ''rejected''"

fun ENQUIRY_TRANSITIONS :: "EnquiryStatus \<Rightarrow> EnquiryStatus set" where
  "ENQUIRY_TRANSITIONS Enq_DRAFT = {Enq_SUBMITTED, Enq_CANCELLED}"
| "ENQUIRY_TRANSITIONS Enq_SUBMITTED = {Enq_RECEIVED, Enq_EXPIRED, Enq_CANCELLED}"
| "ENQUIRY_TRANSITIONS Enq_RECEIVED = {Enq_IN_REVIEW, Enq_DECLINED, Enq_EXPIRED}"
| "ENQUIRY_TRANSITIONS Enq_IN_REVIEW = {Enq_NEEDS_INFORMATION, Enq_QUOTED, Enq_DECLINED, Enq_EXPIRED}"
| "ENQUIRY_TRANSITIONS Enq_NEEDS_INFORMATION = {Enq_IN_REVIEW, Enq_DECLINED, Enq_EXPIRED}"
| "ENQUIRY_TRANSITIONS Enq_QUOTED = {Enq_CUSTOMER_ACCEPTED, Enq_EXPIRED, Enq_CANCELLED}"
| "ENQUIRY_TRANSITIONS Enq_CUSTOMER_ACCEPTED = {Enq_BOOKING_PROPOSED, Enq_CANCELLED}"
| "ENQUIRY_TRANSITIONS Enq_BOOKING_PROPOSED = {Enq_BOOKED, Enq_CANCELLED}"
| "ENQUIRY_TRANSITIONS Enq_BOOKED = {Enq_IN_PROGRESS, Enq_CANCELLED}"
| "ENQUIRY_TRANSITIONS Enq_IN_PROGRESS = {Enq_COMPLETED, Enq_CANCELLED}"
| "ENQUIRY_TRANSITIONS Enq_COMPLETED = {}"
| "ENQUIRY_TRANSITIONS Enq_DECLINED = {}"
| "ENQUIRY_TRANSITIONS Enq_CANCELLED = {}"
| "ENQUIRY_TRANSITIONS Enq_EXPIRED = {}"
| "ENQUIRY_TRANSITIONS Enq_REJECTED = {}"

datatype QuoteStatus =
    Quo_DRAFT
  | Quo_ISSUED
  | Quo_ACCEPTED
  | Quo_DECLINED
  | Quo_EXPIRED

fun QuoteStatus_value :: "QuoteStatus \<Rightarrow> string" where
  "QuoteStatus_value Quo_DRAFT = ''draft''"
| "QuoteStatus_value Quo_ISSUED = ''issued''"
| "QuoteStatus_value Quo_ACCEPTED = ''accepted''"
| "QuoteStatus_value Quo_DECLINED = ''declined''"
| "QuoteStatus_value Quo_EXPIRED = ''expired''"

fun QUOTE_TRANSITIONS :: "QuoteStatus \<Rightarrow> QuoteStatus set" where
  "QUOTE_TRANSITIONS Quo_DRAFT = {Quo_ISSUED}"
| "QUOTE_TRANSITIONS Quo_ISSUED = {Quo_ACCEPTED, Quo_DECLINED, Quo_EXPIRED}"
| "QUOTE_TRANSITIONS Quo_ACCEPTED = {}"
| "QUOTE_TRANSITIONS Quo_DECLINED = {}"
| "QUOTE_TRANSITIONS Quo_EXPIRED = {}"

datatype BookingStatus =
    Bkg_REQUESTED
  | Bkg_PROPOSED
  | Bkg_ACCEPTED
  | Bkg_CONFIRMED
  | Bkg_IN_PROGRESS
  | Bkg_COMPLETED
  | Bkg_DECLINED
  | Bkg_CANCELLED
  | Bkg_EXPIRED
  | Bkg_RESCHEDULED
  | Bkg_NO_SHOW

fun BookingStatus_value :: "BookingStatus \<Rightarrow> string" where
  "BookingStatus_value Bkg_REQUESTED = ''requested''"
| "BookingStatus_value Bkg_PROPOSED = ''proposed''"
| "BookingStatus_value Bkg_ACCEPTED = ''accepted''"
| "BookingStatus_value Bkg_CONFIRMED = ''confirmed''"
| "BookingStatus_value Bkg_IN_PROGRESS = ''in_progress''"
| "BookingStatus_value Bkg_COMPLETED = ''completed''"
| "BookingStatus_value Bkg_DECLINED = ''declined''"
| "BookingStatus_value Bkg_CANCELLED = ''cancelled''"
| "BookingStatus_value Bkg_EXPIRED = ''expired''"
| "BookingStatus_value Bkg_RESCHEDULED = ''rescheduled''"
| "BookingStatus_value Bkg_NO_SHOW = ''no_show''"

fun BOOKING_TRANSITIONS :: "BookingStatus \<Rightarrow> BookingStatus set" where
  "BOOKING_TRANSITIONS Bkg_REQUESTED = {Bkg_PROPOSED, Bkg_DECLINED, Bkg_CANCELLED, Bkg_EXPIRED}"
| "BOOKING_TRANSITIONS Bkg_PROPOSED = {Bkg_ACCEPTED, Bkg_DECLINED, Bkg_CANCELLED, Bkg_EXPIRED}"
| "BOOKING_TRANSITIONS Bkg_ACCEPTED = {Bkg_CONFIRMED, Bkg_CANCELLED, Bkg_EXPIRED}"
| "BOOKING_TRANSITIONS Bkg_CONFIRMED = {Bkg_IN_PROGRESS, Bkg_COMPLETED, Bkg_CANCELLED, Bkg_NO_SHOW}"
| "BOOKING_TRANSITIONS Bkg_IN_PROGRESS = {Bkg_COMPLETED, Bkg_CANCELLED}"
| "BOOKING_TRANSITIONS Bkg_COMPLETED = {}"
| "BOOKING_TRANSITIONS Bkg_DECLINED = {}"
| "BOOKING_TRANSITIONS Bkg_CANCELLED = {}"
| "BOOKING_TRANSITIONS Bkg_EXPIRED = {}"
| "BOOKING_TRANSITIONS Bkg_RESCHEDULED = {}"
| "BOOKING_TRANSITIONS Bkg_NO_SHOW = {}"

datatype BrainVersionStatus =
    Bvs_DRAFT
  | Bvs_VALIDATING
  | Bvs_REVIEW
  | Bvs_APPROVED
  | Bvs_ACTIVE
  | Bvs_SUPERSEDED

fun BRAIN_VERSION_TRANSITIONS :: "BrainVersionStatus \<Rightarrow> BrainVersionStatus set" where
  "BRAIN_VERSION_TRANSITIONS Bvs_DRAFT = {Bvs_VALIDATING, Bvs_REVIEW}"
| "BRAIN_VERSION_TRANSITIONS Bvs_VALIDATING = {Bvs_REVIEW, Bvs_DRAFT}"
| "BRAIN_VERSION_TRANSITIONS Bvs_REVIEW = {Bvs_APPROVED, Bvs_DRAFT}"
| "BRAIN_VERSION_TRANSITIONS Bvs_APPROVED = {Bvs_ACTIVE}"
| "BRAIN_VERSION_TRANSITIONS Bvs_ACTIVE = {Bvs_SUPERSEDED}"
| "BRAIN_VERSION_TRANSITIONS Bvs_SUPERSEDED = {}"

datatype ServiceOfferStatus =
    Sof_DRAFT
  | Sof_ACTIVE
  | Sof_PAUSED
  | Sof_ARCHIVED

fun SERVICE_OFFER_TRANSITIONS :: "ServiceOfferStatus \<Rightarrow> ServiceOfferStatus set" where
  "SERVICE_OFFER_TRANSITIONS Sof_DRAFT = {Sof_ACTIVE, Sof_ARCHIVED}"
| "SERVICE_OFFER_TRANSITIONS Sof_ACTIVE = {Sof_PAUSED, Sof_ARCHIVED}"
| "SERVICE_OFFER_TRANSITIONS Sof_PAUSED = {Sof_ACTIVE, Sof_ARCHIVED}"
| "SERVICE_OFFER_TRANSITIONS Sof_ARCHIVED = {}"

datatype BusinessStatus =
    Biz_PENDING
  | Biz_ACTIVE
  | Biz_SUSPENDED
  | Biz_DEACTIVATED

fun BUSINESS_TRANSITIONS :: "BusinessStatus \<Rightarrow> BusinessStatus set" where
  "BUSINESS_TRANSITIONS Biz_PENDING = {Biz_ACTIVE, Biz_DEACTIVATED}"
| "BUSINESS_TRANSITIONS Biz_ACTIVE = {Biz_SUSPENDED, Biz_DEACTIVATED}"
| "BUSINESS_TRANSITIONS Biz_SUSPENDED = {Biz_ACTIVE, Biz_DEACTIVATED}"
| "BUSINESS_TRANSITIONS Biz_DEACTIVATED = {}"

datatype BusinessProfileStatus =
    Bps_INCOMPLETE
  | Bps_ACTIVE
  | Bps_SUSPENDED

fun BUSINESS_PROFILE_TRANSITIONS :: "BusinessProfileStatus \<Rightarrow> BusinessProfileStatus set" where
  "BUSINESS_PROFILE_TRANSITIONS Bps_INCOMPLETE = {Bps_ACTIVE}"
| "BUSINESS_PROFILE_TRANSITIONS Bps_ACTIVE = {Bps_SUSPENDED}"
| "BUSINESS_PROFILE_TRANSITIONS Bps_SUSPENDED = {Bps_ACTIVE}"

datatype ServiceExecutionStatus =
    Exec_SCHEDULED
  | Exec_IN_PROGRESS
  | Exec_COMPLETED
  | Exec_CANCELLED
  | Exec_NO_SHOW

fun ServiceExecutionStatus_value :: "ServiceExecutionStatus \<Rightarrow> string" where
  "ServiceExecutionStatus_value Exec_SCHEDULED = ''scheduled''"
| "ServiceExecutionStatus_value Exec_IN_PROGRESS = ''in_progress''"
| "ServiceExecutionStatus_value Exec_COMPLETED = ''completed''"
| "ServiceExecutionStatus_value Exec_CANCELLED = ''cancelled''"
| "ServiceExecutionStatus_value Exec_NO_SHOW = ''no_show''"

fun SERVICE_EXECUTION_TRANSITIONS :: "ServiceExecutionStatus \<Rightarrow> ServiceExecutionStatus set" where
  "SERVICE_EXECUTION_TRANSITIONS Exec_SCHEDULED = {Exec_IN_PROGRESS, Exec_CANCELLED, Exec_NO_SHOW}"
| "SERVICE_EXECUTION_TRANSITIONS Exec_IN_PROGRESS = {Exec_COMPLETED, Exec_CANCELLED}"
| "SERVICE_EXECUTION_TRANSITIONS Exec_COMPLETED = {}"
| "SERVICE_EXECUTION_TRANSITIONS Exec_CANCELLED = {}"
| "SERVICE_EXECUTION_TRANSITIONS Exec_NO_SHOW = {}"

datatype InvoicePaymentStatus =
    Ips_UNPAID
  | Ips_PARTIALLY_PAID
  | Ips_PAID
  | Ips_FAILED
  | Ips_REFUNDED
  | Ips_PARTIALLY_REFUNDED
  | Ips_VOID

datatype InvoiceStatus =
    Inv_DRAFT
  | Inv_ISSUED
  | Inv_VOID

fun INVOICE_TRANSITIONS :: "InvoiceStatus \<Rightarrow> InvoiceStatus set" where
  "INVOICE_TRANSITIONS Inv_DRAFT = {Inv_ISSUED, Inv_VOID}"
| "INVOICE_TRANSITIONS Inv_ISSUED = {Inv_VOID}"
| "INVOICE_TRANSITIONS Inv_VOID = {}"

datatype OutboxStatus =
    Obx_PENDING
  | Obx_PROCESSING
  | Obx_PROCESSED
  | Obx_RETRYABLE
  | Obx_FAILED

datatype PaymentStatus =
    Pay_PENDING
  | Pay_PROCESSING
  | Pay_SUCCEEDED
  | Pay_FAILED
  | Pay_EXPIRED
  | Pay_CANCELLED
  | Pay_REFUNDED
  | Pay_PARTIALLY_REFUNDED
  | Pay_DISPUTED

fun PaymentStatus_value :: "PaymentStatus \<Rightarrow> string" where
  "PaymentStatus_value Pay_PENDING = ''pending''"
| "PaymentStatus_value Pay_PROCESSING = ''processing''"
| "PaymentStatus_value Pay_SUCCEEDED = ''succeeded''"
| "PaymentStatus_value Pay_FAILED = ''failed''"
| "PaymentStatus_value Pay_EXPIRED = ''expired''"
| "PaymentStatus_value Pay_CANCELLED = ''cancelled''"
| "PaymentStatus_value Pay_REFUNDED = ''refunded''"
| "PaymentStatus_value Pay_PARTIALLY_REFUNDED = ''partially_refunded''"
| "PaymentStatus_value Pay_DISPUTED = ''disputed''"

fun PAYMENT_TRANSITIONS :: "PaymentStatus \<Rightarrow> PaymentStatus set" where
  "PAYMENT_TRANSITIONS Pay_PENDING = {Pay_PROCESSING, Pay_FAILED, Pay_EXPIRED, Pay_CANCELLED}"
| "PAYMENT_TRANSITIONS Pay_PROCESSING = {Pay_SUCCEEDED, Pay_FAILED, Pay_EXPIRED, Pay_CANCELLED}"
| "PAYMENT_TRANSITIONS Pay_SUCCEEDED = {Pay_REFUNDED, Pay_PARTIALLY_REFUNDED, Pay_DISPUTED}"
| "PAYMENT_TRANSITIONS Pay_FAILED = {}"
| "PAYMENT_TRANSITIONS Pay_EXPIRED = {}"
| "PAYMENT_TRANSITIONS Pay_CANCELLED = {}"
| "PAYMENT_TRANSITIONS Pay_REFUNDED = {}"
| "PAYMENT_TRANSITIONS Pay_PARTIALLY_REFUNDED = {Pay_REFUNDED, Pay_DISPUTED}"
| "PAYMENT_TRANSITIONS Pay_DISPUTED = {Pay_REFUNDED, Pay_SUCCEEDED}"

datatype StripeConnectAccountStatus =
    Sca_NONE
  | Sca_PENDING
  | Sca_RESTRICTED
  | Sca_ACTIVE
  | Sca_CHARGES_DISABLED
  | Sca_PAYOUTS_DISABLED

datatype CommercialPolicyScope =
    Cps_GLOBAL_DEFAULT
  | Cps_CATEGORY_DEFAULT
  | Cps_BUSINESS_PLAN
  | Cps_PROMOTION
  | Cps_BUSINESS_SPECIFIC

definition CommercialPolicyScope_of :: "string \<Rightarrow> CommercialPolicyScope option" where
  "CommercialPolicyScope_of s = map_of [(''global_default'', Cps_GLOBAL_DEFAULT),
     (''category_default'', Cps_CATEGORY_DEFAULT),
     (''business_plan'', Cps_BUSINESS_PLAN),
     (''promotion'', Cps_PROMOTION),
     (''business_specific'', Cps_BUSINESS_SPECIFIC)] s"

datatype CommercialPolicyFeeType =
    Cpf_PERCENTAGE
  | Cpf_FIXED
  | Cpf_COMBINED
  | Cpf_ZERO

definition CommercialPolicyFeeType_of :: "string \<Rightarrow> CommercialPolicyFeeType option" where
  "CommercialPolicyFeeType_of s = map_of [(''percentage'', Cpf_PERCENTAGE),
     (''fixed'', Cpf_FIXED),
     (''combined'', Cpf_COMBINED),
     (''zero'', Cpf_ZERO)] s"

datatype CommercialPolicyStatus =
    Cpl_DRAFT
  | Cpl_ACTIVE
  | Cpl_INACTIVE
  | Cpl_SUPERSEDED

fun COMMERCIAL_POLICY_TRANSITIONS :: "CommercialPolicyStatus \<Rightarrow> CommercialPolicyStatus set" where
  "COMMERCIAL_POLICY_TRANSITIONS Cpl_DRAFT = {Cpl_ACTIVE, Cpl_INACTIVE}"
| "COMMERCIAL_POLICY_TRANSITIONS Cpl_ACTIVE = {Cpl_INACTIVE, Cpl_SUPERSEDED}"
| "COMMERCIAL_POLICY_TRANSITIONS Cpl_INACTIVE = {Cpl_ACTIVE}"
| "COMMERCIAL_POLICY_TRANSITIONS Cpl_SUPERSEDED = {}"

datatype BusinessMemberRole =
    Bmr_OWNER
  | Bmr_ADMIN
  | Bmr_STAFF


section \<open>Precedence and authority orders\<close>

text \<open>The numeric precedence of the policy scopes makes them a linear order.\<close>

fun COMMERCIAL_POLICY_PRECEDENCE :: "CommercialPolicyScope \<Rightarrow> int" where
  "COMMERCIAL_POLICY_PRECEDENCE Cps_GLOBAL_DEFAULT = 0"
| "COMMERCIAL_POLICY_PRECEDENCE Cps_CATEGORY_DEFAULT = 10"
| "COMMERCIAL_POLICY_PRECEDENCE Cps_BUSINESS_PLAN = 20"
| "COMMERCIAL_POLICY_PRECEDENCE Cps_PROMOTION = 30"
| "COMMERCIAL_POLICY_PRECEDENCE Cps_BUSINESS_SPECIFIC = 40"

lemma COMMERCIAL_POLICY_PRECEDENCE_inject [simp]:
  "COMMERCIAL_POLICY_PRECEDENCE s = COMMERCIAL_POLICY_PRECEDENCE t \<longleftrightarrow> s = t"
  by (cases s; cases t) simp_all

instantiation CommercialPolicyScope :: linorder
begin

definition less_eq_CommercialPolicyScope :: "CommercialPolicyScope \<Rightarrow> CommercialPolicyScope \<Rightarrow> bool" where
  "s \<le> t \<longleftrightarrow> COMMERCIAL_POLICY_PRECEDENCE s \<le> COMMERCIAL_POLICY_PRECEDENCE t"

definition less_CommercialPolicyScope :: "CommercialPolicyScope \<Rightarrow> CommercialPolicyScope \<Rightarrow> bool" where
  "s < t \<longleftrightarrow> COMMERCIAL_POLICY_PRECEDENCE s < COMMERCIAL_POLICY_PRECEDENCE t"

instance
  by standard (auto simp: less_eq_CommercialPolicyScope_def less_CommercialPolicyScope_def)

end

section \<open>Lifecycles\<close>

text \<open>\<open>reach T s t\<close>: status t can be reached from s along allowed transitions.\<close>

inductive reach :: "('s \<Rightarrow> 's set) \<Rightarrow> 's \<Rightarrow> 's \<Rightarrow> bool" for T where
  reach_refl: "reach T s s"
| reach_step: "reach T s t \<Longrightarrow> u \<in> T t \<Longrightarrow> reach T s u"

definition terminal :: "('s \<Rightarrow> 's set) \<Rightarrow> 's \<Rightarrow> bool" where
  "terminal T s \<longleftrightarrow> T s = {}"

lemma reach_trans: "reach T t u \<Longrightarrow> reach T s t \<Longrightarrow> reach T s u"
  by (induction rule: reach.induct) (auto intro: reach_step)

lemma reach_one: "t \<in> T s \<Longrightarrow> reach T s t"
  by (rule reach_step [OF reach_refl])

lemma terminal_reach: "reach T s t \<Longrightarrow> terminal T s \<Longrightarrow> t = s"
  by (induction rule: reach.induct) (auto simp: terminal_def)

text \<open>
  A lifecycle whose transitions strictly increase a rank: no status is entered twice,
  which is what the idempotency keys of the outbox rest on.
\<close>

locale ranked_machine =
  fixes T :: "'s \<Rightarrow> 's set"
    and rank :: "'s \<Rightarrow> nat"
  assumes rank_less: "t \<in> T s \<Longrightarrow> rank s < rank t"
begin

lemma reach_rank: "reach T s t \<Longrightarrow> rank s \<le> rank t"
  by (induction rule: reach.induct) (auto dest: rank_less)

lemma no_return: "t \<in> T s \<Longrightarrow> \<not> reach T t s"
  using reach_rank rank_less by fastforce

lemma no_loop: "s \<notin> T s"
  using rank_less by blast

lemma reach_antisym:
  assumes "reach T s t" "reach T t s"
  shows "s = t"
  using assms
proof (cases rule: reach.cases)
  case (reach_step v)
  then have "rank s < rank t"
    using reach_rank [of s v] rank_less [of t v] by simp
  then show ?thesis using reach_rank [OF assms(2)] by simp
qed simp

end

fun quote_rank :: "QuoteStatus \<Rightarrow> nat" where
  "quote_rank Quo_DRAFT = 0"
| "quote_rank Quo_ISSUED = 1"
| "quote_rank _ = 2"

interpretation quote_machine: ranked_machine QUOTE_TRANSITIONS quote_rank
proof
  show "quote_rank s < quote_rank t" if "t \<in> QUOTE_TRANSITIONS s" for s t
    using that by (cases s) auto
qed

fun booking_rank :: "BookingStatus \<Rightarrow> nat" where
  "booking_rank Bkg_REQUESTED = 0"
| "booking_rank Bkg_PROPOSED = 1"
| "booking_rank Bkg_ACCEPTED = 2"
| "booking_rank Bkg_CONFIRMED = 3"
| "booking_rank Bkg_IN_PROGRESS = 4"
| "booking_rank _ = 5"

interpretation booking_machine: ranked_machine BOOKING_TRANSITIONS booking_rank
proof
  show "booking_rank s < booking_rank t" if "t \<in> BOOKING_TRANSITIONS s" for s t
    using that by (cases s) auto
qed

fun execution_rank :: "ServiceExecutionStatus \<Rightarrow> nat" where
  "execution_rank Exec_SCHEDULED = 0"
| "execution_rank Exec_IN_PROGRESS = 1"
| "execution_rank _ = 2"

interpretation execution_machine: ranked_machine SERVICE_EXECUTION_TRANSITIONS execution_rank
proof
  show "execution_rank s < execution_rank t" if "t \<in> SERVICE_EXECUTION_TRANSITIONS s" for s t
    using that by (cases s) auto
qed

fun invoice_rank :: "InvoiceStatus \<Rightarrow> nat" where
  "invoice_rank Inv_DRAFT = 0"
| "invoice_rank Inv_ISSUED = 1"
| "invoice_rank Inv_VOID = 2"

interpretation invoice_machine: ranked_machine INVOICE_TRANSITIONS invoice_rank
proof
  show "invoice_rank s < invoice_rank t" if "t \<in> INVOICE_TRANSITIONS s" for s t
    using that by (cases s) auto
qed

end
