(* ===== verification/Rule_Evaluator.thy ===== *)
theory Rule_Evaluator
  imports Py_Values Enums "HOL-Library.Multiset"
begin

text \<open>
  The Business Brain runtime, src/backend/app/domain/business/evaluator.py: conditions
  of a rule against the transaction context, the rules of a version one by one, conflict
  detection and the resolution of the overall decision.  Raising inside one rule skips
  that rule; raising outside makes the evaluation None.  The regular-expression engine
  of the interpreter is the parameter \<open>re_search\<close> (None is \<open>re.error\<close>).
\<close>

section \<open>Data\<close>

record BusinessRule =
  rule_id :: uuid
  rule_type :: string
  rule_name :: string
  rule_description :: "string option"
  rule_data :: json_obj
  rule_priority :: int
  rule_is_active :: bool
  rule_deleted :: bool

record BrainVersion =
  bv_id :: uuid
  bv_brain_id :: uuid
  bv_version_number :: nat
  bv_status :: BrainVersionStatus
  bv_identity_config :: json
  bv_services_config :: json
  bv_pricing_config :: json
  bv_availability_config :: json
  bv_qualification_config :: json
  bv_policies_config :: json
  bv_escalation_config :: json
  bv_communication_config :: json
  bv_rules :: "BusinessRule list"
  bv_deleted :: bool

datatype BrainDecisionOutcome =
    ALLOW | DENY | REQUIRE_APPROVAL | ESCALATE | NEEDS_INFORMATION | FAILED

record MatchedRule =
  mr_rule_id :: uuid
  mr_rule_type :: string
  mr_name :: string
  mr_priority :: int
  mr_outcome :: json
  mr_actions :: "json list"
  mr_reason :: string

record RuleConflict =
  rc_rule_a_id :: uuid
  rc_rule_b_id :: uuid
  rc_rule_a_name :: string
  rc_rule_b_name :: string
  rc_rule_a_outcome :: json
  rc_rule_b_outcome :: json

record BrainDecision =
  bd_decision :: BrainDecisionOutcome
  bd_brain_version_id :: "uuid option"
  bd_matched_rules :: "MatchedRule list"
  bd_conflicts :: "RuleConflict list"
  bd_required_information :: "string list"
  bd_required_approval :: json_obj
  bd_actions :: "json list"
  bd_reason :: string
  bd_evidence :: json_obj

definition is_allowed :: "BrainDecision \<Rightarrow> bool" where
  "is_allowed d \<longleftrightarrow> bd_decision d = ALLOW"

definition is_denied :: "BrainDecision \<Rightarrow> bool" where
  "is_denied d \<longleftrightarrow> bd_decision d = DENY"

section \<open>Conditions\<close>

text \<open>\<open>DecisionContext.get_value\<close>: None is a field path that is not a string.\<close>

fun get_path :: "json \<Rightarrow> string list \<Rightarrow> json" where
  "get_path cur [] = cur"
| "get_path cur (p # ps) =
     (case cur of JObj d \<Rightarrow> (case map_of d p of None \<Rightarrow> JNull | Some v \<Rightarrow> get_path v ps) | _ \<Rightarrow> JNull)"

fun get_value :: "json_obj \<Rightarrow> json \<Rightarrow> json option" where
  "get_value ctx (JStr path) = Some (get_path (JObj ctx) (split_on CHR ''.'' path))"
| "get_value ctx _ = None"

definition json_in :: "json \<Rightarrow> json list \<Rightarrow> bool" where
  "json_in x xs \<longleftrightarrow> list_ex (py_eq x) xs"

definition float_cmp :: "(rat \<Rightarrow> rat \<Rightarrow> bool) \<Rightarrow> json \<Rightarrow> json \<Rightarrow> bool" where
  "float_cmp cmp actual expected =
     (case to_float actual of
        None \<Rightarrow> False
      | Some a \<Rightarrow> cmp a (case to_float expected of None \<Rightarrow> 0 | Some e \<Rightarrow> e))"

definition is_empty_value :: "json \<Rightarrow> bool" where
  "is_empty_value v \<longleftrightarrow> v = JNull \<or> v = JStr [] \<or> v = JList []"

definition in_expected :: "json \<Rightarrow> json \<Rightarrow> bool option" where
  "in_expected actual expected =
     (case expected of
        JList xs \<Rightarrow> Some (json_in actual xs)
      | JStr s \<Rightarrow> Some (json_in actual (map JStr (split_on CHR '','' s)))
      | _ \<Rightarrow> None)"

definition between_bounds :: "json \<Rightarrow> json \<Rightarrow> bool" where
  "between_bounds actual expected =
     (case expected of
        JList [l, h] \<Rightarrow>
          (case (to_float actual, to_float l, to_float h) of
             (Some a, Some lo, Some hi) \<Rightarrow> lo \<le> a \<and> a \<le> hi
           | _ \<Rightarrow> False)
      | _ \<Rightarrow> False)"

definition apply_operator ::
  "(string \<Rightarrow> string \<Rightarrow> bool option) \<Rightarrow> json \<Rightarrow> json \<Rightarrow> json \<Rightarrow> bool" where
  "apply_operator re_search actual op expected =
     (if op = JStr ''is_empty'' then is_empty_value actual
      else if op = JStr ''is_not_empty'' then \<not> is_empty_value actual
      else if actual = JNull then False
      else if op = JStr ''equals'' then py_eq actual expected
      else if op = JStr ''not_equals'' then \<not> py_eq actual expected
      else if op = JStr ''greater_than'' then float_cmp (>) actual expected
      else if op = JStr ''less_than'' then float_cmp (<) actual expected
      else if op = JStr ''greater_than_or_equal'' then float_cmp (\<ge>) actual expected
      else if op = JStr ''less_than_or_equal'' then float_cmp (\<le>) actual expected
      else if op = JStr ''in'' then
        (case in_expected actual expected of None \<Rightarrow> False | Some b \<Rightarrow> b)
      else if op = JStr ''not_in'' then
        (case in_expected actual expected of None \<Rightarrow> True | Some b \<Rightarrow> \<not> b)
      else if op = JStr ''contains'' then
        (case actual of JStr s \<Rightarrow> py_infix (py_str expected) s | _ \<Rightarrow> False)
      else if op = JStr ''between'' then between_bounds actual expected
      else if op = JStr ''matches_regex'' then
        (case re_search (py_str expected) (py_str actual) of None \<Rightarrow> False | Some b \<Rightarrow> b)
      else if op = JStr ''starts_with'' then py_prefix (py_str expected) (py_str actual)
      else if op = JStr ''ends_with'' then py_suffix (py_str expected) (py_str actual)
      else False)"

definition evaluate_single ::
  "(string \<Rightarrow> string \<Rightarrow> bool option) \<Rightarrow> json_obj \<Rightarrow> json_obj \<Rightarrow> bool option" where
  "evaluate_single re_search cond ctx =
     (case get_value ctx (dget cond ''field'' (JStr [])) of
        None \<Rightarrow> None
      | Some actual \<Rightarrow>
          Some (apply_operator re_search actual (dget cond ''operator'' (JStr [])) (dget_none cond ''value'')))"

text \<open>Iteration over a JSON value; None is TypeError.\<close>

fun py_iter :: "json \<Rightarrow> json list option" where
  "py_iter (JList xs) = Some xs"
| "py_iter (JStr s) = Some (map (\<lambda>c. JStr [c]) s)"
| "py_iter (JObj d) = Some (map (\<lambda>kv. JStr (fst kv)) d)"
| "py_iter _ = None"

text \<open>\<open>all(...)\<close> stops at the first condition that is false.\<close>

fun all_conditions ::
  "(string \<Rightarrow> string \<Rightarrow> bool option) \<Rightarrow> json list \<Rightarrow> json_obj \<Rightarrow> bool option" where
  "all_conditions re_search [] ctx = Some True"
| "all_conditions re_search (c # cs) ctx =
     (case c of
        JObj cond \<Rightarrow>
          (case evaluate_single re_search cond ctx of
             None \<Rightarrow> None
           | Some b \<Rightarrow> if b then all_conditions re_search cs ctx else Some False)
      | _ \<Rightarrow> None)"

definition evaluate_conditions ::
  "(string \<Rightarrow> string \<Rightarrow> bool option) \<Rightarrow> json \<Rightarrow> json_obj \<Rightarrow> bool option" where
  "evaluate_conditions re_search conds ctx =
     (if \<not> truthy conds then Some True
      else case py_iter conds of None \<Rightarrow> None | Some cs \<Rightarrow> all_conditions re_search cs ctx)"

fun required_fields :: "json list \<Rightarrow> json_obj \<Rightarrow> string list option" where
  "required_fields [] ctx = Some []"
| "required_fields (c # cs) ctx =
     (case c of
        JObj cond \<Rightarrow>
          (let path = dget cond ''field'' (JStr []) in
           if \<not> truthy path then required_fields cs ctx
           else case get_value ctx path of
               None \<Rightarrow> None
             | Some v \<Rightarrow>
                 (case required_fields cs ctx of
                    None \<Rightarrow> None
                  | Some ms \<Rightarrow> Some ((if v = JNull then [py_str path] else []) @ ms)))
      | _ \<Rightarrow> None)"

definition get_required_fields :: "json \<Rightarrow> json_obj \<Rightarrow> string list option" where
  "get_required_fields conds ctx =
     (case py_iter conds of None \<Rightarrow> None | Some cs \<Rightarrow> required_fields cs ctx)"

section \<open>One rule\<close>

text \<open>The first truthy \<open>outcome\<close> among the actions, "allow" when there is none.\<close>

fun extract_outcome :: "json list \<Rightarrow> json option" where
  "extract_outcome [] = Some (JStr ''allow'')"
| "extract_outcome (a # as) =
     (case a of
        JObj act \<Rightarrow>
          (if truthy (dget_none act ''outcome'') then Some (dget_none act ''outcome'')
           else extract_outcome as)
      | _ \<Rightarrow> None)"

datatype rule_verdict = RSkip | RMissing "string list" | RMatch MatchedRule

definition match_rule :: "BusinessRule \<Rightarrow> json list \<Rightarrow> json \<Rightarrow> MatchedRule" where
  "match_rule r acts outcome =
     \<lparr>mr_rule_id = rule_id r, mr_rule_type = rule_type r, mr_name = rule_name r,
      mr_priority = rule_priority r, mr_outcome = outcome, mr_actions = acts,
      mr_reason = ''Rule '' @ rule_name r @ '' ('' @ rule_type r @ '') -> '' @ py_str outcome\<rparr>"

definition evaluate_rule ::
  "(string \<Rightarrow> string \<Rightarrow> bool option) \<Rightarrow> json_obj \<Rightarrow> BusinessRule \<Rightarrow> rule_verdict" where
  "evaluate_rule re_search ctx r =
     (if \<not> rule_is_active r then RSkip
      else
        let conds = dget (rule_data r) ''conditions'' (JList []);
            actions = dget (rule_data r) ''actions'' (JList [])
        in case get_required_fields conds ctx of
             None \<Rightarrow> RSkip
           | Some (m # ms) \<Rightarrow> RMissing (m # ms)
           | Some [] \<Rightarrow>
               (case evaluate_conditions re_search conds ctx of
                  Some True \<Rightarrow>
                    (case py_iter actions of
                       None \<Rightarrow> RSkip
                     | Some acts \<Rightarrow>
                         (case extract_outcome acts of
                            None \<Rightarrow> RSkip
                          | Some out \<Rightarrow> RMatch (match_rule r acts out)))
                | _ \<Rightarrow> RSkip))"

definition matched_rules :: "rule_verdict list \<Rightarrow> MatchedRule list" where
  "matched_rules vs = concat (map (\<lambda>v. case v of RMatch m \<Rightarrow> [m] | _ \<Rightarrow> []) vs)"

definition missing_fields :: "rule_verdict list \<Rightarrow> string list" where
  "missing_fields vs = concat (map (\<lambda>v. case v of RMissing ms \<Rightarrow> ms | _ \<Rightarrow> []) vs)"

section \<open>Conflicts\<close>

fun hashable :: "json \<Rightarrow> bool" where
  "hashable (JList xs) = False"
| "hashable (JObj d) = False"
| "hashable _ = True"

definition outcomes_conflict :: "json \<Rightarrow> json \<Rightarrow> bool" where
  "outcomes_conflict a b \<longleftrightarrow>
     {a, b} = {JStr ''allow'', JStr ''deny''} \<or> {a, b} = {JStr ''allow'', JStr ''escalate''}"

fun pairs :: "'a list \<Rightarrow> ('a \<times> 'a) list" where
  "pairs [] = []"
| "pairs (x # xs) = map (Pair x) xs @ pairs xs"

definition rule_types_in_order :: "MatchedRule list \<Rightarrow> string list" where
  "rule_types_in_order ms = rev (remdups (rev (map mr_rule_type ms)))"

definition same_type_pairs :: "MatchedRule list \<Rightarrow> (MatchedRule \<times> MatchedRule) list" where
  "same_type_pairs ms =
     concat (map (\<lambda>t. pairs (filter (\<lambda>m. mr_rule_type m = t) ms)) (rule_types_in_order ms))"

definition conflict_of :: "MatchedRule \<times> MatchedRule \<Rightarrow> RuleConflict" where
  "conflict_of p =
     \<lparr>rc_rule_a_id = mr_rule_id (fst p), rc_rule_b_id = mr_rule_id (snd p),
      rc_rule_a_name = mr_name (fst p), rc_rule_b_name = mr_name (snd p),
      rc_rule_a_outcome = mr_outcome (fst p), rc_rule_b_outcome = mr_outcome (snd p)\<rparr>"

text \<open>None is the TypeError of putting an unhashable outcome into a frozenset.\<close>

definition detect_conflicts :: "MatchedRule list \<Rightarrow> RuleConflict list option" where
  "detect_conflicts ms =
     (if list_all (\<lambda>p. hashable (mr_outcome (fst p)) \<and> hashable (mr_outcome (snd p))) (same_type_pairs ms)
      then Some (map conflict_of
             (filter (\<lambda>p. outcomes_conflict (mr_outcome (fst p)) (mr_outcome (snd p))) (same_type_pairs ms)))
      else None)"

section \<open>The decision\<close>

fun join :: "string \<Rightarrow> string list \<Rightarrow> string" where
  "join sep [] = []"
| "join sep [w] = w"
| "join sep (w # ws) = w @ sep @ join sep ws"

fun action_role :: "json list \<Rightarrow> json option option" where
  "action_role [] = Some None"
| "action_role (a # as) =
     (case a of
        JObj act \<Rightarrow>
          (if truthy (dget_none act ''approver_role'') then Some (Some (dget_none act ''approver_role''))
           else action_role as)
      | _ \<Rightarrow> None)"

fun resolve_approver_role :: "MatchedRule list \<Rightarrow> json option" where
  "resolve_approver_role [] = Some (JStr ''owner'')"
| "resolve_approver_role (m # ms) =
     (case action_role (mr_actions m) of
        None \<Rightarrow> None
      | Some None \<Rightarrow> resolve_approver_role ms
      | Some (Some role) \<Rightarrow> Some role)"

definition with_outcome :: "string \<Rightarrow> MatchedRule list \<Rightarrow> MatchedRule list" where
  "with_outcome out ms = filter (\<lambda>m. mr_outcome m = JStr out) ms"

definition rule_names :: "MatchedRule list \<Rightarrow> string" where
  "rule_names ms = join '', '' (map mr_name ms)"

definition names_json :: "MatchedRule list \<Rightarrow> json" where
  "names_json ms = JList (map (\<lambda>m. JStr (mr_name m)) ms)"

definition all_actions :: "MatchedRule list \<Rightarrow> json list" where
  "all_actions ms = concat (map mr_actions ms)"

definition total_evidence :: "MatchedRule list \<Rightarrow> string \<times> json" where
  "total_evidence ms = (''total_rules_evaluated'', JInt (int (length ms)))"

definition simple_decision ::
  "BrainDecisionOutcome \<Rightarrow> uuid option \<Rightarrow> string \<Rightarrow> BrainDecision" where
  "simple_decision out vid reason =
     \<lparr>bd_decision = out, bd_brain_version_id = vid, bd_matched_rules = [], bd_conflicts = [],
      bd_required_information = [], bd_required_approval = [], bd_actions = [],
      bd_reason = reason, bd_evidence = []\<rparr>"

text \<open>
  \<open>_build_decision\<close>, the most restrictive outcome first.  \<open>list(set(...))\<close> has no fixed
  order in Python; the model keeps one occurrence of each field.
\<close>

definition build_decision ::
  "uuid \<Rightarrow> MatchedRule list \<Rightarrow> RuleConflict list \<Rightarrow> string list \<Rightarrow> BrainDecision option" where
  "build_decision vid ms conflicts info =
     (let base = (simple_decision ALLOW (Some vid) [])
                   \<lparr>bd_matched_rules := ms, bd_required_information := remdups info\<rparr>
      in
      if conflicts \<noteq> [] then
        Some (base\<lparr>bd_decision := ESCALATE, bd_conflicts := conflicts,
                   bd_reason := ''Rule conflicts detected: '' @ nat_str (length conflicts) @ '' conflict(s)'',
                   bd_evidence := [total_evidence ms, (''conflict_count'', JInt (int (length conflicts)))]\<rparr>)
      else if \<not> list_all (\<lambda>m. hashable (mr_outcome m)) ms then None
      else if with_outcome ''deny'' ms \<noteq> [] then
        (let ds = with_outcome ''deny'' ms in
         Some (base\<lparr>bd_decision := DENY, bd_actions := all_actions ds,
                    bd_reason := ''Denied by rule(s): '' @ rule_names ds,
                    bd_evidence := [total_evidence ms, (''deny_rules'', names_json ds)]\<rparr>))
      else if with_outcome ''escalate'' ms \<noteq> [] then
        (let es = with_outcome ''escalate'' ms in
         Some (base\<lparr>bd_decision := ESCALATE, bd_actions := all_actions es,
                    bd_reason := ''Escalation required by rule(s): '' @ rule_names es,
                    bd_evidence := [total_evidence ms, (''escalation_rules'', names_json es)]\<rparr>))
      else if with_outcome ''require_approval'' ms \<noteq> [] then
        (let as = with_outcome ''require_approval'' ms;
             reason = ''Approval required by rule(s): '' @ rule_names as
         in case resolve_approver_role as of
              None \<Rightarrow> None
            | Some role \<Rightarrow>
                Some (base\<lparr>bd_decision := REQUIRE_APPROVAL,
                           bd_required_approval :=
                             [(''required'', JBool True), (''reason'', JStr reason), (''approver_role'', role)],
                           bd_actions := all_actions as, bd_reason := reason,
                           bd_evidence := [total_evidence ms, (''approval_rules'', names_json as)]\<rparr>))
      else if remdups info \<noteq> [] then
        Some (base\<lparr>bd_decision := NEEDS_INFORMATION,
                   bd_reason := ''Missing required information: '' @ join '', '' (remdups info),
                   bd_evidence := [total_evidence ms, (''missing_fields'', JList (map JStr (remdups info)))]\<rparr>)
      else
        Some (base\<lparr>bd_required_information := [], bd_actions := all_actions ms,
                   bd_reason := (if ms \<noteq> [] then ''All rules permit this transaction'' else ''No applicable rules''),
                   bd_evidence := [total_evidence ms]\<rparr>))"

definition brain_evaluate ::
  "(string \<Rightarrow> string \<Rightarrow> bool option) \<Rightarrow> BrainVersion \<Rightarrow> json_obj \<Rightarrow> BrainDecision option" where
  "brain_evaluate re_search v ctx =
     (let vs = map (evaluate_rule re_search ctx) (bv_rules v);
          ms = matched_rules vs
      in case detect_conflicts ms of
           None \<Rightarrow> None
         | Some cs \<Rightarrow> build_decision (bv_id v) ms cs (missing_fields vs))"


section \<open>Lemmas\<close>

lemma set_rule_types_in_order [simp]: "set (rule_types_in_order ms) = mr_rule_type ` set ms"
  by (simp add: rule_types_in_order_def)

lemma outcomes_conflict_sym: "outcomes_conflict a b = outcomes_conflict b a"
  by (auto simp: outcomes_conflict_def insert_commute)

lemma outcomes_conflict_irrefl [simp]: "\<not> outcomes_conflict a a"
  unfolding outcomes_conflict_def doubleton_eq_iff by auto

lemma pairs_subset: "(x, y) \<in> set (pairs xs) \<Longrightarrow> x \<in> set xs \<and> y \<in> set xs"
  by (induction xs) auto

lemma pairs_ex_iff:
  assumes sym: "\<And>x y. Q x y = Q y x" and irr: "\<And>x. \<not> Q x x"
  shows "(\<exists>p\<in>set (pairs xs). Q (fst p) (snd p)) \<longleftrightarrow> (\<exists>x\<in>set xs. \<exists>y\<in>set xs. Q x y)"
proof (induction xs)
  case (Cons a xs)
  have "(\<exists>p\<in>set (pairs (a # xs)). Q (fst p) (snd p)) \<longleftrightarrow>
        (\<exists>y\<in>set xs. Q a y) \<or> (\<exists>x\<in>set xs. \<exists>y\<in>set xs. Q x y)"
    using Cons.IH by (simp add: bex_Un)
  also have "\<dots> \<longleftrightarrow> (\<exists>x\<in>set (a # xs). \<exists>y\<in>set (a # xs). Q x y)"
    using sym irr by auto
  finally show ?case .
qed simp

lemma same_type_pairs_ex_iff:
  assumes "\<And>x y. Q x y = Q y x" "\<And>x. \<not> Q x x"
  shows "(\<exists>p\<in>set (same_type_pairs ms). Q (fst p) (snd p)) \<longleftrightarrow>
    (\<exists>a\<in>set ms. \<exists>b\<in>set ms. mr_rule_type a = mr_rule_type b \<and> Q a b)"
proof -
  have "(\<exists>p\<in>set (same_type_pairs ms). Q (fst p) (snd p)) \<longleftrightarrow>
    (\<exists>t\<in>mr_rule_type ` set ms.
       \<exists>p\<in>set (pairs (filter (\<lambda>m. mr_rule_type m = t) ms)). Q (fst p) (snd p))"
    by (auto simp: same_type_pairs_def)
  also have "\<dots> \<longleftrightarrow> (\<exists>t\<in>mr_rule_type ` set ms.
       \<exists>a\<in>set (filter (\<lambda>m. mr_rule_type m = t) ms).
       \<exists>b\<in>set (filter (\<lambda>m. mr_rule_type m = t) ms). Q a b)"
    using pairs_ex_iff [of Q, OF assms] by simp
  also have "\<dots> \<longleftrightarrow> (\<exists>a\<in>set ms. \<exists>b\<in>set ms. mr_rule_type a = mr_rule_type b \<and> Q a b)"
    by (auto; metis)
  finally show ?thesis .
qed

definition has_conflict :: "MatchedRule list \<Rightarrow> bool" where
  "has_conflict ms \<longleftrightarrow> (\<exists>a\<in>set ms. \<exists>b\<in>set ms.
     mr_rule_type a = mr_rule_type b \<and> outcomes_conflict (mr_outcome a) (mr_outcome b))"

lemma detect_conflicts_nonempty:
  assumes "detect_conflicts ms = Some cs"
  shows "cs \<noteq> [] \<longleftrightarrow> has_conflict ms"
proof -
  have "cs \<noteq> [] \<longleftrightarrow>
    (\<exists>p\<in>set (same_type_pairs ms). outcomes_conflict (mr_outcome (fst p)) (mr_outcome (snd p)))"
    using assms by (simp add: detect_conflicts_def filter_empty_conv split: if_splits)
      (metis (no_types, lifting) filter_empty_conv list.map_disc_iff)
  also have "\<dots> \<longleftrightarrow> has_conflict ms"
    unfolding has_conflict_def
    by (rule same_type_pairs_ex_iff) (simp_all add: outcomes_conflict_sym)
  finally show ?thesis .
qed

lemma with_outcome_empty_iff: "with_outcome out ms = [] \<longleftrightarrow> JStr out \<notin> mr_outcome ` set ms"
  unfolding with_outcome_def filter_empty_conv by (metis imageE imageI)

text \<open>
  The abstract resolution: which outcome follows from a conflict, the set of outcomes of
  the matched rules and the presence of missing information.
\<close>

definition resolution :: "bool \<Rightarrow> json set \<Rightarrow> bool \<Rightarrow> BrainDecisionOutcome" where
  "resolution conflict outs missing =
     (if conflict then ESCALATE
      else if JStr ''deny'' \<in> outs then DENY
      else if JStr ''escalate'' \<in> outs then ESCALATE
      else if JStr ''require_approval'' \<in> outs then REQUIRE_APPROVAL
      else if missing then NEEDS_INFORMATION
      else ALLOW)"

lemma build_decision_resolution:
  assumes "build_decision vid ms cs info = Some d"
  shows "bd_decision d = resolution (cs \<noteq> []) (mr_outcome ` set ms) (info \<noteq> [])"
    and "bd_brain_version_id d = Some vid"
    and "bd_matched_rules d = ms"
  using assms
  by (auto simp: build_decision_def Let_def resolution_def with_outcome_empty_iff simple_decision_def
      split: if_splits option.splits)

definition verdicts ::
  "(string \<Rightarrow> string \<Rightarrow> bool option) \<Rightarrow> json_obj \<Rightarrow> BrainVersion \<Rightarrow> rule_verdict list" where
  "verdicts re_search ctx v = map (evaluate_rule re_search ctx) (bv_rules v)"

lemma brain_evaluate_resolution:
  assumes "brain_evaluate re_search v ctx = Some d"
  shows "bd_decision d =
     resolution (has_conflict (matched_rules (verdicts re_search ctx v)))
       (mr_outcome ` set (matched_rules (verdicts re_search ctx v)))
       (missing_fields (verdicts re_search ctx v) \<noteq> [])"
  using assms detect_conflicts_nonempty build_decision_resolution(1)
  by (fastforce simp: brain_evaluate_def verdicts_def Let_def split: option.splits)

lemma brain_evaluate_version:
  "brain_evaluate re_search v ctx = Some d \<Longrightarrow> bd_brain_version_id d = Some (bv_id v)"
  using build_decision_resolution(2)
  by (fastforce simp: brain_evaluate_def Let_def split: option.splits)

lemma set_matched_rules: "set (matched_rules vs) = {m. RMatch m \<in> set vs}"
  by (auto simp: matched_rules_def split: rule_verdict.splits)

lemma missing_fields_empty_iff: "missing_fields vs = [] \<longleftrightarrow> (\<forall>ms. RMissing ms \<in> set vs \<longrightarrow> ms = [])"
  by (auto simp: missing_fields_def split: rule_verdict.splits)

lemma evaluate_rule_RMissing_nonempty: "evaluate_rule re_search ctx r \<noteq> RMissing []"
  by (auto simp: evaluate_rule_def Let_def split: option.splits list.splits bool.splits)

lemma resolution_ALLOW_iff:
  "resolution c outs m = ALLOW \<longleftrightarrow>
     \<not> c \<and> \<not> m \<and> JStr ''deny'' \<notin> outs \<and> JStr ''escalate'' \<notin> outs \<and> JStr ''require_approval'' \<notin> outs"
  by (simp add: resolution_def)

lemma required_fields_Nil_present:
  "required_fields cs ctx = Some [] \<Longrightarrow> JObj cond \<in> set cs \<Longrightarrow> truthy (dget cond ''field'' (JStr [])) \<Longrightarrow>
    \<exists>v. get_value ctx (dget cond ''field'' (JStr [])) = Some v \<and> v \<noteq> JNull"
  by (induction cs) (auto simp: Let_def split: json.splits option.splits if_splits)

lemma evaluate_rule_RMatchD:
  assumes "evaluate_rule re_search ctx r = RMatch m"
  shows "rule_is_active r"
    and "get_required_fields (dget (rule_data r) ''conditions'' (JList [])) ctx = Some []"
    and "evaluate_conditions re_search (dget (rule_data r) ''conditions'' (JList [])) ctx = Some True"
    and "mr_rule_id m = rule_id r" "mr_rule_type m = rule_type r"
  using assms
  by (auto simp: evaluate_rule_def Let_def match_rule_def split: if_splits option.splits list.splits bool.splits)

text \<open>
  \<open>BusinessRuleRepository.delete\<close>: a soft delete of the rule inside its version; the
  relationship \<open>BrainVersion.rules\<close> still yields the row.
\<close>

definition delete_rule :: "uuid \<Rightarrow> BrainVersion \<Rightarrow> BrainVersion" where
  "delete_rule i v = v\<lparr>bv_rules := upd_row rule_id i (\<lambda>r. r\<lparr>rule_deleted := True\<rparr>) (bv_rules v)\<rparr>"

lemma match_rule_deleted [simp]: "match_rule (r\<lparr>rule_deleted := b\<rparr>) acts out = match_rule r acts out"
  by (simp add: match_rule_def)

lemma evaluate_rule_deleted [simp]:
  "evaluate_rule re_search ctx (r\<lparr>rule_deleted := b\<rparr>) = evaluate_rule re_search ctx r"
  unfolding evaluate_rule_def match_rule_deleted by simp

lemma brain_evaluate_delete_rule:
  "brain_evaluate re_search (delete_rule i v) ctx = brain_evaluate re_search v ctx"
proof -
  have "map (evaluate_rule re_search ctx) (bv_rules (delete_rule i v)) =
        map (evaluate_rule re_search ctx) (bv_rules v)"
    by (simp add: delete_rule_def upd_row_def)
  moreover have "bv_id (delete_rule i v) = bv_id v"
    by (simp add: delete_rule_def)
  ultimately show ?thesis
    by (simp add: brain_evaluate_def Let_def cong: option.case_cong)
qed

lemma required_fields_present_cond:
  assumes "get_required_fields (JList cs) ctx = Some []" "JObj cond \<in> set cs"
    and "truthy (dget cond ''field'' (JStr []))"
  shows "get_value ctx (dget cond ''field'' (JStr [])) \<noteq> Some JNull"
  using required_fields_Nil_present [of cs ctx cond] assms by (auto simp: get_required_fields_def)

section \<open>Properties\<close>

text \<open>The facts about the rules of a version that decide.\<close>

definition rules_conflict :: "(BusinessRule \<Rightarrow> rule_verdict) \<Rightarrow> BusinessRule set \<Rightarrow> bool" where
  "rules_conflict ev rs \<longleftrightarrow> (\<exists>r\<in>rs. \<exists>r'\<in>rs. \<exists>m m'. ev r = RMatch m \<and> ev r' = RMatch m' \<and>
     rule_type r = rule_type r' \<and> outcomes_conflict (mr_outcome m) (mr_outcome m'))"

definition rule_outcomes :: "(BusinessRule \<Rightarrow> rule_verdict) \<Rightarrow> BusinessRule set \<Rightarrow> json set" where
  "rule_outcomes ev rs = {mr_outcome m | m. \<exists>r\<in>rs. ev r = RMatch m}"

definition rules_missing :: "(BusinessRule \<Rightarrow> rule_verdict) \<Rightarrow> BusinessRule set \<Rightarrow> bool" where
  "rules_missing ev rs \<longleftrightarrow> (\<exists>r\<in>rs. \<exists>ms. ev r = RMissing ms)"

lemma matched_verdicts:
  "m \<in> set (matched_rules (verdicts re_search ctx v)) \<longleftrightarrow>
     (\<exists>r\<in>set (bv_rules v). evaluate_rule re_search ctx r = RMatch m)"
  unfolding set_matched_rules verdicts_def set_map mem_Collect_eq image_iff by metis

lemma has_conflict_verdicts:
  "has_conflict (matched_rules (verdicts re_search ctx v)) \<longleftrightarrow>
     rules_conflict (evaluate_rule re_search ctx) (set (bv_rules v))" (is "?L \<longleftrightarrow> ?R")
proof
  assume ?L
  then obtain m m' where "m \<in> set (matched_rules (verdicts re_search ctx v))"
    "m' \<in> set (matched_rules (verdicts re_search ctx v))"
    "mr_rule_type m = mr_rule_type m'" "outcomes_conflict (mr_outcome m) (mr_outcome m')"
    unfolding has_conflict_def by blast
  then show ?R
    unfolding rules_conflict_def matched_verdicts using evaluate_rule_RMatchD(5) by metis
next
  assume ?R
  then obtain r r' m m' where "r \<in> set (bv_rules v)" "evaluate_rule re_search ctx r = RMatch m"
    "r' \<in> set (bv_rules v)" "evaluate_rule re_search ctx r' = RMatch m'"
    "rule_type r = rule_type r'" "outcomes_conflict (mr_outcome m) (mr_outcome m')"
    unfolding rules_conflict_def by blast
  moreover from this have "m \<in> set (matched_rules (verdicts re_search ctx v))"
    "m' \<in> set (matched_rules (verdicts re_search ctx v))"
    unfolding matched_verdicts by blast+
  ultimately show ?L
    unfolding has_conflict_def using evaluate_rule_RMatchD(5) by metis
qed

lemma outcomes_verdicts:
  "mr_outcome ` set (matched_rules (verdicts re_search ctx v)) =
     rule_outcomes (evaluate_rule re_search ctx) (set (bv_rules v))"
  unfolding rule_outcomes_def matched_verdicts [symmetric] by auto

lemma missing_verdicts:
  "missing_fields (verdicts re_search ctx v) \<noteq> [] \<longleftrightarrow>
     rules_missing (evaluate_rule re_search ctx) (set (bv_rules v))"
proof -
  have "missing_fields (verdicts re_search ctx v) \<noteq> [] \<longleftrightarrow>
      (\<exists>ms. RMissing ms \<in> set (verdicts re_search ctx v) \<and> ms \<noteq> [])"
    by (auto simp: missing_fields_empty_iff)
  also have "\<dots> \<longleftrightarrow> rules_missing (evaluate_rule re_search ctx) (set (bv_rules v))"
    using evaluate_rule_RMissing_nonempty unfolding rules_missing_def verdicts_def
    by (auto simp: image_iff) metis+
  finally show ?thesis .
qed

lemma decision_of_rules:
  assumes "brain_evaluate re_search v ctx = Some d"
  shows "bd_decision d = resolution (rules_conflict (evaluate_rule re_search ctx) (set (bv_rules v)))
    (rule_outcomes (evaluate_rule re_search ctx) (set (bv_rules v)))
    (rules_missing (evaluate_rule re_search ctx) (set (bv_rules v)))"
  using brain_evaluate_resolution [OF assms]
  unfolding has_conflict_verdicts outcomes_verdicts missing_verdicts .

text \<open>C1: The decision is the most restrictive one the rules call for: a conflict between matching rules
  of one type escalates, else any deny denies, else any escalate escalates, else any required
  approval asks for it, else missing information is requested, and only then is the
  transaction allowed; the decision is bound to the version that was evaluated.\<close>

theorem decision_is_most_restrictive:
  assumes "brain_evaluate re_search v ctx = Some d"
  shows "bd_decision d =
    (let ev = evaluate_rule re_search ctx; rs = set (bv_rules v); outs = rule_outcomes ev rs in
     if rules_conflict ev rs then ESCALATE
     else if JStr ''deny'' \<in> outs then DENY
     else if JStr ''escalate'' \<in> outs then ESCALATE
     else if JStr ''require_approval'' \<in> outs then REQUIRE_APPROVAL
     else if rules_missing ev rs then NEEDS_INFORMATION
     else ALLOW) \<and> bd_brain_version_id d = Some (bv_id v)"
  using decision_of_rules [OF assms] brain_evaluate_version [OF assms]
  by (simp add: Let_def resolution_def)

definition outcome_rule :: "uuid \<Rightarrow> string \<Rightarrow> json_obj \<Rightarrow> BusinessRule" where
  "outcome_rule i out cond =
     \<lparr>rule_id = i, rule_type = ''approval'', rule_name = out, rule_description = None,
      rule_data = [(''conditions'', JList [JObj cond]), (''actions'', JList [JObj [(''outcome'', JStr out)]])],
      rule_priority = 0, rule_is_active = True, rule_deleted = False\<rparr>"

definition outcome_version :: "BusinessRule list \<Rightarrow> BrainVersion" where
  "outcome_version rs =
     \<lparr>bv_id = 3, bv_brain_id = 2, bv_version_number = 1, bv_status = Bvs_ACTIVE,
      bv_identity_config = JNull, bv_services_config = JNull, bv_pricing_config = JNull, bv_availability_config = JNull,
      bv_qualification_config = JNull, bv_policies_config = JNull, bv_escalation_config = JNull, bv_communication_config = JNull,
      bv_rules = rs, bv_deleted = False\<rparr>"

definition has_field :: "string \<Rightarrow> json_obj" where
  "has_field f = [(''field'', JStr f), (''operator'', JStr ''is_not_empty'')]"

definition sample_rules :: "BusinessRule list" where
  "sample_rules = [outcome_rule 1 ''allow'' (has_field ''size''), outcome_rule 2 ''escalate'' (has_field ''rooms'')]"

lemmas evaluator_eval =
  brain_evaluate_def evaluate_rule_def get_required_fields_def evaluate_conditions_def evaluate_single_def
  apply_operator_def is_empty_value_def match_rule_def detect_conflicts_def
  same_type_pairs_def rule_types_in_order_def matched_rules_def missing_fields_def
  build_decision_def with_outcome_def outcome_rule_def outcome_version_def has_field_def sample_rules_def

theorem decision_is_most_restrictive_witness:
  "\<exists>d. brain_evaluate (\<lambda>_ _. None) (outcome_version sample_rules) [(''size'', JInt 3)] = Some d \<and>
     bd_brain_version_id d = Some 3"
proof -
  obtain d where d: "brain_evaluate (\<lambda>_ _. None) (outcome_version sample_rules) [(''size'', JInt 3)] = Some d"
    by (simp add: evaluator_eval Let_def)
  have "bv_id (outcome_version sample_rules) = 3" by (simp add: outcome_version_def)
  then show ?thesis using decision_is_most_restrictive [OF d] d by auto
qed



text \<open>A rule never matches while a field one of its conditions names is absent, so an
  \<open>is_empty\<close> condition on an absent field, true on its own, never lets its rule match.\<close>

theorem is_empty_on_absent_field_never_matches:
  assumes "dget (rule_data r) ''conditions'' (JList []) = JList cs" and "JObj cond \<in> set cs"
    and "dget cond ''field'' (JStr []) = JStr f" and "f \<noteq> []"
    and "dget cond ''operator'' (JStr []) = JStr ''is_empty''"
    and "get_value ctx (JStr f) = Some JNull"
  shows "evaluate_single re_search cond ctx = Some True \<and> evaluate_rule re_search ctx r \<noteq> RMatch m"
proof
  show "evaluate_single re_search cond ctx = Some True"
    using assms(3,5,6) by (simp add: evaluate_single_def apply_operator_def is_empty_value_def)
  show "evaluate_rule re_search ctx r \<noteq> RMatch m"
  proof
    assume "evaluate_rule re_search ctx r = RMatch m"
    from evaluate_rule_RMatchD(2) [OF this] required_fields_present_cond [of cs ctx cond] assms
    show False by simp
  qed
qed

theorem is_empty_on_absent_field_never_matches_witness:
  "evaluate_rule (\<lambda>_ _. None) [] (outcome_rule 1 ''deny'' [(''field'', JStr ''notes''), (''operator'', JStr ''is_empty'')])
     \<noteq> RMatch (match_rule (outcome_rule 1 ''deny'' []) [] JNull)"
proof -
  let ?cond = "[(''field'', JStr ''notes''), (''operator'', JStr ''is_empty'')]"
  let ?r = "outcome_rule 1 ''deny'' ?cond"
  have "dget (rule_data ?r) ''conditions'' (JList []) = JList [JObj ?cond]"
    by (simp add: outcome_rule_def)
  from is_empty_on_absent_field_never_matches [OF this, of ?cond "''notes''" "[]" "\<lambda>_ _. None"]
  show ?thesis by simp
qed

end
