(* ===== verification/Pricing.thy ===== *)
theory Pricing
  imports Rule_Evaluator
begin

text \<open>
  The deterministic pricing engine, src/backend/app/domain/quote/pricing.py: the base
  amount of a service offer, the surcharges and discounts of the active pricing rules,
  floor, cap and rounding.  ValueError is \<open>Inl\<close>; raising inside one rule leaves the
  rule's id recorded and goes on.
\<close>

section \<open>Data\<close>

record ServiceOffer =
  so_id :: uuid
  so_business_id :: uuid
  so_name :: string
  so_slug :: string
  so_description :: "string option"
  so_category_id :: "uuid option"
  so_delivery_mode :: string
  so_pricing_model :: string
  so_pricing_config :: json_obj
  so_qualification_requirements :: json
  so_booking_rules :: json
  so_cancellation_policy :: json
  so_service_area :: json
  so_status :: ServiceOfferStatus
  so_deleted :: bool

record PriceLine =
  pl_rule_id :: uuid
  pl_name :: json
  pl_amount :: money
  pl_reason :: json

record PricingResult =
  pr_amount :: money
  pr_currency :: string
  pr_base_amount :: money
  pr_surcharges :: "PriceLine list"
  pr_discounts :: "PriceLine list"
  pr_floor_applied :: bool
  pr_cap_applied :: bool
  pr_minimum_charge_applied :: bool
  pr_quote_required :: bool
  pr_brain_version_id :: "uuid option"
  pr_applied_rule_ids :: "uuid list"

section \<open>Base amount\<close>

text \<open>
  \<open>pricing_config.get("currency") or business_currency\<close>; a currency that is not a string
  has no meaning further on and is read as absent.
\<close>

definition resolve_currency :: "json_obj \<Rightarrow> string option \<Rightarrow> string option" where
  "resolve_currency cfg business_currency =
     (case dget_none cfg ''currency'' of
        JStr c \<Rightarrow> if c \<noteq> [] then Some c else business_currency
      | _ \<Rightarrow> business_currency)"

definition config_decimal :: "json_obj \<Rightarrow> string \<Rightarrow> money option" where
  "config_decimal cfg k = to_decimal (dget_none cfg k)"

definition hourly_amount :: "json_obj \<Rightarrow> money \<Rightarrow> money" where
  "hourly_amount cfg rate =
     (let hours = (case config_decimal cfg ''estimated_hours'' of None \<Rightarrow> 1 | Some h \<Rightarrow> h);
          hours' = (case config_decimal cfg ''minimum_hours'' of
                      None \<Rightarrow> hours | Some m \<Rightarrow> if hours < m then m else hours)
      in quantize2 (rate * hours'))"

definition model_amount :: "string \<Rightarrow> json_obj \<Rightarrow> err + money" where
  "model_amount model cfg =
     (if model = ''fixed'' then
        requireE (ValueError ''Fixed pricing requires amount'') (config_decimal cfg ''amount'')
      else if model = ''hourly'' then
        bindE (requireE (ValueError ''Hourly pricing requires hourly_rate'') (config_decimal cfg ''hourly_rate''))
          (\<lambda>rate. Inr (hourly_amount cfg rate))
      else if model = ''starting_at'' then
        requireE (ValueError ''Starting-at pricing requires base_price'') (config_decimal cfg ''base_price'')
      else if model = ''quote_required'' then Inr 0
      else if model = ''custom'' then
        Inr (case config_decimal cfg ''amount'' of None \<Rightarrow> 0 | Some a \<Rightarrow> a)
      else Inl (ValueError ''Unknown pricing model''))"

definition resolve_base_amount ::
  "string \<Rightarrow> json_obj \<Rightarrow> string option \<Rightarrow> err + (money \<times> string)" where
  "resolve_base_amount model cfg business_currency =
     (case resolve_currency cfg business_currency of
        None \<Rightarrow> Inl (ValueError ''Currency must be configured'')
      | Some currency \<Rightarrow>
          if currency = [] then Inl (ValueError ''Currency must be configured'')
          else bindE (model_amount model cfg) (\<lambda>amount. Inr (amount, currency)))"

section \<open>Rules\<close>

definition PRICING_RULE_TYPES :: "string list" where
  "PRICING_RULE_TYPES =
     [''base_pricing'', ''surcharge'', ''discount'', ''price_floor'', ''price_cap'',
      ''quote_threshold'', ''payment_terms'']"

definition calculate_surcharge :: "json_obj \<Rightarrow> money \<Rightarrow> money" where
  "calculate_surcharge rd base =
     (case config_decimal rd ''percentage'' of
        Some p \<Rightarrow> quantize2 (base * p / 100)
      | None \<Rightarrow> (case config_decimal rd ''amount'' of None \<Rightarrow> 0 | Some a \<Rightarrow> a))"

definition calculate_discount :: "json_obj \<Rightarrow> money \<Rightarrow> money" where
  "calculate_discount rd base =
     (let a1 = (case config_decimal rd ''percentage'' of
                  None \<Rightarrow> 0 | Some p \<Rightarrow> quantize2 (base * p / 100));
          a2 = (case config_decimal rd ''amount'' of
                  None \<Rightarrow> a1 | Some f \<Rightarrow> if f > a1 then f else a1);
          a3 = (case config_decimal rd ''max_discount'' of
                  None \<Rightarrow> a2 | Some m \<Rightarrow> if a2 > m then m else a2)
      in if a3 > base then base else a3)"

definition price_line :: "BusinessRule \<Rightarrow> string \<Rightarrow> money \<Rightarrow> PriceLine" where
  "price_line r name_key amount =
     \<lparr>pl_rule_id = rule_id r,
      pl_name = dget (rule_data r) name_key (JStr (rule_name r)),
      pl_amount = amount,
      pl_reason = dget (rule_data r) ''reason'' (JStr [])\<rparr>"

record PricingState =
  ps_applied :: "uuid list"
  ps_surcharges :: "PriceLine list"
  ps_discounts :: "PriceLine list"
  ps_floor :: "money option"
  ps_cap :: "money option"
  ps_minimum_charge :: "money option"
  ps_quote_required :: bool

definition empty_pricing :: PricingState where
  "empty_pricing = \<lparr>ps_applied = [], ps_surcharges = [], ps_discounts = [], ps_floor = None,
     ps_cap = None, ps_minimum_charge = None, ps_quote_required = False\<rparr>"

text \<open>\<open>_apply_pricing_rule\<close>: the action of one rule and its effect on the lists.\<close>

definition apply_pricing_rule ::
  "BusinessRule \<Rightarrow> money \<Rightarrow> PricingState \<Rightarrow> string \<times> PricingState" where
  "apply_pricing_rule r base st =
     (let t = rule_type r; rd = rule_data r in
      if t = ''base_pricing'' then (''base_override'', st)
      else if t = ''surcharge'' then
        (let a = calculate_surcharge rd base in
         (''surcharge'',
          if a > 0 then st\<lparr>ps_surcharges := ps_surcharges st @ [price_line r ''surcharge_name'' a]\<rparr> else st))
      else if t = ''discount'' then
        (let a = calculate_discount rd base in
         (''discount'',
          if a > 0 then st\<lparr>ps_discounts := ps_discounts st @ [price_line r ''discount_name'' a]\<rparr> else st))
      else if t = ''price_floor'' then (''floor'', st)
      else if t = ''price_cap'' then (''cap'', st)
      else if t = ''quote_threshold'' then (''quote_required'', st)
      else if t = ''payment_terms'' then (''info'', st)
      else (''unknown'', st))"

definition record_action :: "string \<Rightarrow> json_obj \<Rightarrow> PricingState \<Rightarrow> PricingState" where
  "record_action action rd st =
     (if action = ''floor'' then st\<lparr>ps_floor := config_decimal rd ''minimum_amount''\<rparr>
      else if action = ''cap'' then st\<lparr>ps_cap := config_decimal rd ''maximum_amount''\<rparr>
      else if action = ''minimum_charge'' then st\<lparr>ps_minimum_charge := config_decimal rd ''amount''\<rparr>
      else if action = ''quote_required'' then st\<lparr>ps_quote_required := True\<rparr>
      else st)"

text \<open>One iteration of the loop; conditions that raise skip the rule.\<close>

definition pricing_rule_step ::
  "(string \<Rightarrow> string \<Rightarrow> bool option) \<Rightarrow> json_obj \<Rightarrow> money \<Rightarrow> BusinessRule \<Rightarrow> PricingState \<Rightarrow> PricingState" where
  "pricing_rule_step re_search ctx base r st =
     (if rule_type r \<in> set PRICING_RULE_TYPES \<and> rule_is_active r \<and>
         evaluate_conditions re_search (dget (rule_data r) ''conditions'' (JList [])) ctx = Some True
      then
        let st1 = st\<lparr>ps_applied := ps_applied st @ [rule_id r]\<rparr>;
            (action, st2) = apply_pricing_rule r base st1
        in record_action action (rule_data r) st2
      else st)"

definition pricing_rules_state ::
  "(string \<Rightarrow> string \<Rightarrow> bool option) \<Rightarrow> json_obj \<Rightarrow> money \<Rightarrow> BusinessRule list \<Rightarrow> PricingState" where
  "pricing_rules_state re_search ctx base rules =
     fold (pricing_rule_step re_search ctx base) rules empty_pricing"

section \<open>The total\<close>

definition raise_to :: "money option \<Rightarrow> money \<Rightarrow> money \<times> bool" where
  "raise_to lo x = (case lo of None \<Rightarrow> (x, False) | Some m \<Rightarrow> if x < m then (m, True) else (x, False))"

definition lower_to :: "money option \<Rightarrow> money \<Rightarrow> money \<times> bool" where
  "lower_to hi x = (case hi of None \<Rightarrow> (x, False) | Some m \<Rightarrow> if x > m then (m, True) else (x, False))"

definition line_total :: "PriceLine list \<Rightarrow> money" where
  "line_total ls = sum_list (map pl_amount ls)"

definition price_of :: "money \<Rightarrow> string \<Rightarrow> uuid option \<Rightarrow> PricingState \<Rightarrow> PricingResult" where
  "price_of base currency vid st =
     (let r0 = base + line_total (ps_surcharges st) - line_total (ps_discounts st);
          (r1, floored) = raise_to (ps_floor st) r0;
          (r2, capped) = lower_to (ps_cap st) r1;
          (r3, charged) = raise_to (ps_minimum_charge st) r2;
          r4 = (if r3 < 0 then 0 else r3)
      in \<lparr>pr_amount = quantize2 r4, pr_currency = currency, pr_base_amount = base,
          pr_surcharges = ps_surcharges st, pr_discounts = ps_discounts st,
          pr_floor_applied = floored, pr_cap_applied = capped,
          pr_minimum_charge_applied = charged, pr_quote_required = ps_quote_required st,
          pr_brain_version_id = vid, pr_applied_rule_ids = ps_applied st\<rparr>)"

definition applied_pricing ::
  "(string \<Rightarrow> string \<Rightarrow> bool option) \<Rightarrow> BrainVersion option \<Rightarrow> json_obj option \<Rightarrow> money \<Rightarrow> PricingState" where
  "applied_pricing re_search version ctx base =
     (case (version, ctx) of
        (Some v, Some c) \<Rightarrow> pricing_rules_state re_search c base (bv_rules v)
      | _ \<Rightarrow> empty_pricing)"

definition calculate_price ::
  "(string \<Rightarrow> string \<Rightarrow> bool option) \<Rightarrow> ServiceOffer \<Rightarrow> BrainVersion option \<Rightarrow> json_obj option \<Rightarrow>
   string option \<Rightarrow> err + PricingResult" where
  "calculate_price re_search offer version ctx business_currency =
     bindE (resolve_base_amount (so_pricing_model offer) (so_pricing_config offer) business_currency)
       (\<lambda>(base, currency).
          Inr (price_of base currency (map_option bv_id version)
                (applied_pricing re_search version ctx base)))"

section \<open>Lemmas\<close>

text \<open>What every run of the rules keeps: recorded lines are positive, no minimum charge.\<close>

definition pricing_inv :: "PricingState \<Rightarrow> bool" where
  "pricing_inv st \<longleftrightarrow>
     ps_minimum_charge st = None \<and>
     (\<forall>l\<in>set (ps_surcharges st). 0 < pl_amount l) \<and>
     (\<forall>l\<in>set (ps_discounts st). 0 < pl_amount l)"

lemma pricing_inv_empty [simp]: "pricing_inv empty_pricing"
  by (simp add: pricing_inv_def empty_pricing_def)

lemma pricing_inv_step:
  "pricing_inv st \<Longrightarrow> pricing_inv (pricing_rule_step re_search ctx base r st)"
  by (auto simp: pricing_rule_step_def apply_pricing_rule_def record_action_def pricing_inv_def
      price_line_def Let_def)

lemma pricing_inv_rules [simp]: "pricing_inv (pricing_rules_state re_search ctx base rules)"
proof -
  have "pricing_inv st \<Longrightarrow> pricing_inv (fold (pricing_rule_step re_search ctx base) rules st)" for st
    by (induction rules arbitrary: st) (simp_all add: pricing_inv_step)
  then show ?thesis by (simp add: pricing_rules_state_def)
qed

lemma calculate_discount_le_base: "calculate_discount rd base \<le> base"
  by (simp add: calculate_discount_def Let_def)

lemma calculate_discount_le_max:
  "config_decimal rd ''max_discount'' = Some m \<Longrightarrow> calculate_discount rd base \<le> m"
  by (auto simp: calculate_discount_def Let_def)

lemma snd_raise_to [simp]: "raise_to None x = (x, False)"
  by (simp add: raise_to_def)

lemma price_of_amount_nonneg: "0 \<le> pr_amount (price_of base cur vid st)"
  by (simp add: price_of_def Let_def split: prod.splits)

lemma price_of_amount_two_places: "two_places (pr_amount (price_of base cur vid st))"
  by (simp add: price_of_def Let_def split: prod.splits)

lemma price_of_cap:
  assumes "ps_minimum_charge st = None" "ps_cap st = Some c" "0 \<le> c"
  shows "pr_amount (price_of base cur vid st) \<le> quantize2 c"
  using assms by (auto simp: price_of_def Let_def lower_to_def intro: quantize2_mono split: prod.splits)

lemma price_of_floor:
  assumes "ps_floor st = Some f" "ps_minimum_charge st = None" "0 \<le> f"
    and "\<And>c. ps_cap st = Some c \<Longrightarrow> f \<le> c"
  shows "quantize2 f \<le> pr_amount (price_of base cur vid st)"
  using assms
  by (auto simp: price_of_def Let_def lower_to_def raise_to_def intro!: quantize2_mono split: option.splits)

lemma pricing_inv_applied [simp]: "pricing_inv (applied_pricing re_search version ctx base)"
  by (simp add: applied_pricing_def split: option.splits)

lemma calculate_price_Inr:
  assumes "calculate_price re_search offer version ctx bc = Inr res"
  obtains base currency where
    "resolve_base_amount (so_pricing_model offer) (so_pricing_config offer) bc = Inr (base, currency)"
    "res = price_of base currency (map_option bv_id version) (applied_pricing re_search version ctx base)"
  using assms by (auto simp: calculate_price_def result_iffs)

lemma pricing_rule_step_deleted [simp]:
  "pricing_rule_step re_search ctx base (r\<lparr>rule_deleted := b\<rparr>) st = pricing_rule_step re_search ctx base r st"
  by (simp add: pricing_rule_step_def apply_pricing_rule_def price_line_def Let_def)

lemma pricing_rules_delete_rule:
  "pricing_rules_state re_search ctx base (bv_rules (delete_rule i v)) =
   pricing_rules_state re_search ctx base (bv_rules v)"
proof -
  have "fold (pricing_rule_step re_search ctx base)
          (upd_row rule_id i (\<lambda>r. r\<lparr>rule_deleted := True\<rparr>) rules) st =
        fold (pricing_rule_step re_search ctx base) rules st" for rules st
    by (induction rules arbitrary: st) simp_all
  then show ?thesis by (simp add: pricing_rules_state_def delete_rule_def)
qed

lemma bv_id_delete_rule [simp]: "bv_id (delete_rule i v) = bv_id v"
  by (simp add: delete_rule_def)

lemma applied_pricing_delete_rule [simp]:
  "applied_pricing re_search (Some (delete_rule i v)) ctx base = applied_pricing re_search (Some v) ctx base"
  by (simp add: applied_pricing_def pricing_rules_delete_rule split: option.splits)

lemma calculate_price_delete_rule:
  "calculate_price re_search offer (Some (delete_rule i v)) ctx bc =
   calculate_price re_search offer (Some v) ctx bc"
  by (simp add: calculate_price_def)


text \<open>Two states that agree on everything but the recorded rule ids give the same price.\<close>

definition same_effect :: "PricingState \<Rightarrow> PricingState \<Rightarrow> bool" where
  "same_effect st st' \<longleftrightarrow> st\<lparr>ps_applied := []\<rparr> = st'\<lparr>ps_applied := []\<rparr>"

lemma same_effect_fields:
  assumes "same_effect st st'"
  shows "ps_surcharges st = ps_surcharges st'" "ps_discounts st = ps_discounts st'"
    "ps_floor st = ps_floor st'" "ps_cap st = ps_cap st'"
    "ps_minimum_charge st = ps_minimum_charge st'" "ps_quote_required st = ps_quote_required st'"
proof -
  have eq: "st\<lparr>ps_applied := []\<rparr> = st'\<lparr>ps_applied := []\<rparr>"
    using assms by (simp add: same_effect_def)
  show "ps_surcharges st = ps_surcharges st'" using arg_cong [OF eq, of ps_surcharges] by simp
  show "ps_discounts st = ps_discounts st'" using arg_cong [OF eq, of ps_discounts] by simp
  show "ps_floor st = ps_floor st'" using arg_cong [OF eq, of ps_floor] by simp
  show "ps_cap st = ps_cap st'" using arg_cong [OF eq, of ps_cap] by simp
  show "ps_minimum_charge st = ps_minimum_charge st'" using arg_cong [OF eq, of ps_minimum_charge] by simp
  show "ps_quote_required st = ps_quote_required st'" using arg_cong [OF eq, of ps_quote_required] by simp
qed

lemma same_effectI:
  "ps_surcharges st = ps_surcharges st' \<Longrightarrow> ps_discounts st = ps_discounts st' \<Longrightarrow>
   ps_floor st = ps_floor st' \<Longrightarrow> ps_cap st = ps_cap st' \<Longrightarrow>
   ps_minimum_charge st = ps_minimum_charge st' \<Longrightarrow> ps_quote_required st = ps_quote_required st' \<Longrightarrow>
   same_effect st st'"
  by (cases st; cases st') (simp add: same_effect_def)

lemma same_effect_step:
  "same_effect st st' \<Longrightarrow>
   same_effect (pricing_rule_step re_search ctx base r st) (pricing_rule_step re_search ctx base r st')"
  by (rule same_effectI)
    (auto simp: pricing_rule_step_def apply_pricing_rule_def record_action_def Let_def
       dest: same_effect_fields)

lemma same_effect_fold:
  "same_effect st st' \<Longrightarrow>
   same_effect (fold (pricing_rule_step re_search ctx base) rules st)
     (fold (pricing_rule_step re_search ctx base) rules st')"
  by (induction rules arbitrary: st st') (simp_all add: same_effect_step)

lemma same_effect_price:
  "same_effect st st' \<Longrightarrow> pr_amount (price_of base cur vid st) = pr_amount (price_of base cur vid st')"
  using same_effect_fields [of st st'] by (simp add: price_of_def Let_def split: prod.splits)

lemma inert_rule_step:
  "rule_type r \<in> {''base_pricing'', ''payment_terms''} \<Longrightarrow>
   same_effect (pricing_rule_step re_search ctx base r st) st"
  by (rule same_effectI) (auto simp: pricing_rule_step_def apply_pricing_rule_def record_action_def Let_def)

lemma inert_rule_price:
  assumes "rule_type r \<in> {''base_pricing'', ''payment_terms''}"
  shows "pr_amount (price_of base cur vid (pricing_rules_state re_search ctx base (rs @ r # rs'))) =
         pr_amount (price_of base cur vid (pricing_rules_state re_search ctx base (rs @ rs')))"
  by (rule same_effect_price) (simp add: pricing_rules_state_def same_effect_fold inert_rule_step [OF assms])

text \<open>The cap in force is that of the last matching cap rule.\<close>

definition pricing_rule_applies ::
  "(string \<Rightarrow> string \<Rightarrow> bool option) \<Rightarrow> json_obj \<Rightarrow> BusinessRule \<Rightarrow> bool" where
  "pricing_rule_applies re_search ctx r \<longleftrightarrow>
     rule_is_active r \<and> evaluate_conditions re_search (dget (rule_data r) ''conditions'' (JList [])) ctx = Some True"

lemma other_rule_keeps_cap:
  "rule_type r \<noteq> ''price_cap'' \<or> \<not> pricing_rule_applies re_search ctx r \<Longrightarrow>
   ps_cap (pricing_rule_step re_search ctx base r st) = ps_cap st"
  by (auto simp: pricing_rule_step_def pricing_rule_applies_def apply_pricing_rule_def record_action_def Let_def)

lemma fold_keeps_cap:
  "(\<And>r. r \<in> set rules \<Longrightarrow> rule_type r \<noteq> ''price_cap'' \<or> \<not> pricing_rule_applies re_search ctx r) \<Longrightarrow>
   ps_cap (fold (pricing_rule_step re_search ctx base) rules st) = ps_cap st"
  by (induction rules arbitrary: st) (simp_all add: other_rule_keeps_cap)

lemma cap_rule_sets_cap:
  "rule_type r = ''price_cap'' \<Longrightarrow> pricing_rule_applies re_search ctx r \<Longrightarrow>
   ps_cap (pricing_rule_step re_search ctx base r st) = config_decimal (rule_data r) ''maximum_amount''"
  by (simp add: pricing_rule_step_def pricing_rule_applies_def apply_pricing_rule_def record_action_def
      PRICING_RULE_TYPES_def Let_def)

section \<open>Properties\<close>

text \<open>C2: Every price the engine returns is non-negative and has two decimal places, whatever
  the offer's configuration and the rules say (discounts, negative base amounts and caps included).\<close>

theorem price_nonneg_two_places:
  assumes "calculate_price re_search offer version ctx bc = Inr res"
  shows "0 \<le> pr_amount res \<and> two_places (pr_amount res)"
  using assms
  by (elim calculate_price_Inr) (simp add: price_of_amount_nonneg price_of_amount_two_places)

definition sample_offer :: "string \<Rightarrow> json_obj \<Rightarrow> ServiceOffer" where
  "sample_offer model cfg =
     \<lparr>so_id = 7, so_business_id = 1, so_name = ''Clean'', so_slug = ''clean'', so_description = None, so_category_id = None,
      so_delivery_mode = ''on_site'', so_pricing_model = model, so_pricing_config = cfg,
      so_qualification_requirements = JNull, so_booking_rules = JNull, so_cancellation_policy = JNull, so_service_area = JNull,
      so_status = Sof_ACTIVE, so_deleted = False\<rparr>"

definition sample_rule :: "uuid \<Rightarrow> string \<Rightarrow> json_obj \<Rightarrow> BusinessRule" where
  "sample_rule i t rd =
     \<lparr>rule_id = i, rule_type = t, rule_name = t, rule_description = None, rule_data = rd, rule_priority = 0,
      rule_is_active = True, rule_deleted = False\<rparr>"

definition sample_version :: "BusinessRule list \<Rightarrow> BrainVersion" where
  "sample_version rs =
     \<lparr>bv_id = 3, bv_brain_id = 2, bv_version_number = 1, bv_status = Bvs_ACTIVE,
      bv_identity_config = JNull, bv_services_config = JNull, bv_pricing_config = JNull, bv_availability_config = JNull,
      bv_qualification_config = JNull, bv_policies_config = JNull, bv_escalation_config = JNull, bv_communication_config = JNull,
      bv_rules = rs, bv_deleted = False\<rparr>"

definition no_regex :: "string \<Rightarrow> string \<Rightarrow> bool option" where
  "no_regex pat s = None"

lemmas sample_defs = sample_offer_def sample_rule_def sample_version_def no_regex_def

lemmas pricing_eval =
  calculate_price_def applied_pricing_def resolve_base_amount_def resolve_currency_def model_amount_def
  config_decimal_def pricing_rules_state_def pricing_rule_step_def PRICING_RULE_TYPES_def
  evaluate_conditions_def apply_pricing_rule_def record_action_def calculate_surcharge_def
  calculate_discount_def price_line_def empty_pricing_def price_of_def raise_to_def lower_to_def
  line_total_def quantize2_def

theorem price_nonneg_two_places_witness:
  "0 \<le> pr_amount (projr (calculate_price no_regex (sample_offer ''fixed'' [(''amount'', JInt 80)])
     (Some (sample_version [sample_rule 11 ''surcharge'' [(''percentage'', JInt 10)]])) (Some []) (Some ''GBP'')))"
proof -
  have "calculate_price no_regex (sample_offer ''fixed'' [(''amount'', JInt 80)])
     (Some (sample_version [sample_rule 11 ''surcharge'' [(''percentage'', JInt 10)]])) (Some []) (Some ''GBP'') =
     Inr \<lparr>pr_amount = 88, pr_currency = ''GBP'', pr_base_amount = 80,
          pr_surcharges = [\<lparr>pl_rule_id = 11, pl_name = JStr ''surcharge'', pl_amount = 8, pl_reason = JStr []\<rparr>],
          pr_discounts = [], pr_floor_applied = False, pr_cap_applied = False,
          pr_minimum_charge_applied = False, pr_quote_required = False,
          pr_brain_version_id = Some 3, pr_applied_rule_ids = [11]\<rparr>"
    by (simp add: pricing_eval sample_defs Let_def)
  from price_nonneg_two_places [OF this] show ?thesis
    unfolding \<open>calculate_price _ _ _ _ _ = _\<close> by simp
qed

text \<open>The cap of the last matching active price-cap rule bounds the price, also against
  surcharges and against a price floor above the cap.\<close>

theorem price_cap_respected:
  assumes "calculate_price re_search offer (Some v) (Some ctx) bc = Inr res"
    and "bv_rules v = rs @ r # rs'"
    and "rule_type r = ''price_cap''" and "pricing_rule_applies re_search ctx r"
    and "config_decimal (rule_data r) ''maximum_amount'' = Some c" and "0 \<le> c"
    and "\<And>r'. r' \<in> set rs' \<Longrightarrow> rule_type r' \<noteq> ''price_cap'' \<or> \<not> pricing_rule_applies re_search ctx r'"
  shows "pr_amount res \<le> quantize2 c"
  using assms(1)
proof (elim calculate_price_Inr)
  fix base currency
  let ?st = "applied_pricing re_search (Some v) (Some ctx) base"
  assume res: "res = price_of base currency (map_option bv_id (Some v)) ?st"
  have "ps_cap ?st = Some c"
    using fold_keeps_cap [of rs', OF assms(7)] assms(2-5)
    by (simp add: applied_pricing_def pricing_rules_state_def cap_rule_sets_cap)
  then show ?thesis
    unfolding res using pricing_inv_applied assms(6)
    by (intro price_of_cap) (auto simp: pricing_inv_def)
qed

theorem price_cap_respected_witness:
  "\<exists>res. calculate_price no_regex (sample_offer ''fixed'' [(''amount'', JInt 80)])
     (Some (sample_version [sample_rule 11 ''price_cap'' [(''maximum_amount'', JInt 60)]])) (Some []) (Some ''GBP'') = Inr res \<and>
     pr_amount res \<le> quantize2 60"
proof -
  let ?r = "sample_rule 11 ''price_cap'' [(''maximum_amount'', JInt 60)]"
  obtain res where res: "calculate_price no_regex (sample_offer ''fixed'' [(''amount'', JInt 80)])
     (Some (sample_version [?r])) (Some []) (Some ''GBP'') = Inr res"
    by (simp add: pricing_eval sample_defs Let_def)
  have "pr_amount res \<le> quantize2 60"
    by (rule price_cap_respected [OF res, where rs = "[]" and rs' = "[]" and r = ?r])
      (simp_all add: sample_defs pricing_rule_applies_def PRICING_RULE_TYPES_def evaluate_conditions_def
        config_decimal_def)
  then show ?thesis using res by blast
qed

text \<open>A base-pricing rule never changes the price and no minimum charge is ever applied,
  although the engine documents both as effects of the rules.\<close>

theorem base_pricing_and_minimum_charge_ineffective:
  assumes "calculate_price re_search offer (Some (v\<lparr>bv_rules := rs @ r # rs'\<rparr>)) (Some ctx) bc = Inr res"
    and "rule_type r = ''base_pricing''"
  shows "\<not> pr_minimum_charge_applied res \<and>
    map_sum id pr_amount (calculate_price re_search offer (Some (v\<lparr>bv_rules := rs @ rs'\<rparr>)) (Some ctx) bc) =
    Inr (pr_amount res)"
  using assms(1)
proof (elim calculate_price_Inr)
  fix base currency
  let ?st = "\<lambda>rules. pricing_rules_state re_search ctx base rules"
  assume base: "resolve_base_amount (so_pricing_model offer) (so_pricing_config offer) bc = Inr (base, currency)"
    and res: "res = price_of base currency (map_option bv_id (Some (v\<lparr>bv_rules := rs @ r # rs'\<rparr>)))
      (applied_pricing re_search (Some (v\<lparr>bv_rules := rs @ r # rs'\<rparr>)) (Some ctx) base)"
  then have r: "res = price_of base currency (Some (bv_id v)) (?st (rs @ r # rs'))"
    by (simp add: applied_pricing_def)
  have "ps_minimum_charge (?st (rs @ r # rs')) = None"
    using pricing_inv_rules by (simp add: pricing_inv_def)
  then have "\<not> pr_minimum_charge_applied res"
    by (simp add: r price_of_def Let_def split: prod.splits)
  then show ?thesis
    using base assms(2) inert_rule_price [of r base currency "Some (bv_id v)" re_search ctx rs rs']
    by (simp add: r calculate_price_def applied_pricing_def)
qed

theorem base_pricing_and_minimum_charge_ineffective_witness:
  "\<exists>res. calculate_price no_regex (sample_offer ''fixed'' [(''amount'', JInt 80)])
     (Some (sample_version [sample_rule 11 ''base_pricing'' [(''base_amount'', JInt 60)]])) (Some []) (Some ''GBP'') = Inr res \<and>
     \<not> pr_minimum_charge_applied res"
proof -
  let ?r = "sample_rule 11 ''base_pricing'' [(''base_amount'', JInt 60)]"
  obtain res where res: "calculate_price no_regex (sample_offer ''fixed'' [(''amount'', JInt 80)])
     (Some ((sample_version [])\<lparr>bv_rules := [] @ ?r # []\<rparr>)) (Some []) (Some ''GBP'') = Inr res"
    by (simp add: pricing_eval sample_defs Let_def)
  have "(sample_version [])\<lparr>bv_rules := [] @ ?r # []\<rparr> = sample_version [?r]"
    by (simp add: sample_version_def)
  then show ?thesis
    using base_pricing_and_minimum_charge_ineffective [OF res] res by (auto simp: sample_rule_def)
qed

text \<open>The price depends on the order in which the version's rules are listed, an order the
  relationship that loads them leaves open: with two floor rules the last one wins.\<close>

theorem price_depends_on_rule_order:
  "\<exists>offer rs rs'. mset rs = mset rs' \<and>
     map_sum id pr_amount (calculate_price no_regex offer (Some (sample_version rs)) (Some []) None) \<noteq>
     map_sum id pr_amount (calculate_price no_regex offer (Some (sample_version rs')) (Some []) None)"
proof (intro exI conjI)
  let ?offer = "sample_offer ''fixed'' [(''amount'', JInt 5), (''currency'', JStr ''GBP'')]"
  let ?a = "sample_rule 1 ''price_floor'' [(''minimum_amount'', JInt 10)]"
  let ?b = "sample_rule 2 ''price_floor'' [(''minimum_amount'', JInt 20)]"
  show "mset [?a, ?b] = mset [?b, ?a]" by (simp add: add_mset_commute)
  show "map_sum id pr_amount (calculate_price no_regex ?offer (Some (sample_version [?a, ?b])) (Some []) None) \<noteq>
        map_sum id pr_amount (calculate_price no_regex ?offer (Some (sample_version [?b, ?a])) (Some []) None)"
    by (simp add: pricing_eval sample_defs)
qed

end
