(* ===== verification/Availability.thy ===== *)
theory Availability
  imports Pricing
begin

text \<open>
  The availability evaluator, src/backend/app/domain/booking/availability.py: the
  blackout, operating-hours, notice, advance, capacity and concurrency checks of the
  active availability rules of a version.  A check that raises does not block (its rule
  still counts as matched).  Requested times keep the wall clock and offset of the
  request; stored booking times come back from the database in UTC.
\<close>

section \<open>Data\<close>

record SlotBooking =
  sb_requested_at :: timestamp
  sb_status :: BookingStatus

record RuleRef =
  rr_rule_id :: uuid
  rr_rule_type :: string
  rr_name :: string

record AvailabilityResult =
  av_available :: bool
  av_requested_at :: datetime
  av_reason :: string
  av_brain_version_id :: "uuid option"
  av_matched_rules :: "RuleRef list"
  av_blocked_by :: "string list"

definition AVAILABILITY_RULE_TYPES :: "string list" where
  "AVAILABILITY_RULE_TYPES =
     [''operating_hours'', ''minimum_notice'', ''maximum_advance'', ''capacity_limit'',
      ''blackout_period'', ''slot_configuration'', ''concurrent_limit'']"

section \<open>The checks (True is blocked)\<close>

fun parse_datetime :: "json \<Rightarrow> datetime option" where
  "parse_datetime JNull = None"
| "parse_datetime v = fromisoformat (py_str v)"

definition check_blackout :: "json_obj \<Rightarrow> datetime \<Rightarrow> bool" where
  "check_blackout rd t =
     (case (parse_datetime (dget_none rd ''start_date''), parse_datetime (dget_none rd ''end_date'')) of
        (Some s, Some e) \<Rightarrow> instant s \<le> instant t \<and> instant t \<le> instant e
      | _ \<Rightarrow> False)"

definition DAY_MAP :: "(string \<times> int) list" where
  "DAY_MAP = [(''monday'', 0), (''tuesday'', 1), (''wednesday'', 2), (''thursday'', 3),
     (''friday'', 4), (''saturday'', 5), (''sunday'', 6)]"

text \<open>\<open>map(int, s.split(":"))\<close> unpacked into two numbers, as minutes; None is ValueError.\<close>

definition hhmm_minutes :: "json \<Rightarrow> int option" where
  "hhmm_minutes v =
     (case split_on CHR '':'' (py_str v) of
        [h, m] \<Rightarrow> (case (parse_int h, parse_int m) of
                    (Some h', Some m') \<Rightarrow> Some (h' * 60 + m') | _ \<Rightarrow> None)
      | _ \<Rightarrow> None)"

definition in_break :: "json_obj \<Rightarrow> int \<Rightarrow> bool" where
  "in_break rd minutes =
     (let bs = dget_none rd ''break_start''; be = dget_none rd ''break_end'' in
      truthy bs \<and> truthy be \<and>
      (case (hhmm_minutes bs, hhmm_minutes be) of
         (Some s, Some e) \<Rightarrow> s \<le> minutes \<and> minutes \<le> e
       | _ \<Rightarrow> False))"

definition check_operating_hours :: "json_obj \<Rightarrow> datetime \<Rightarrow> bool" where
  "check_operating_hours rd t =
     (let dow = dget rd ''day_of_week'' (JStr []);
          ot = dget rd ''open_time'' (JStr []);
          ct = dget rd ''close_time'' (JStr []);
          minutes = dt_hour t * 60 + dt_minute t
      in if \<not> truthy dow \<or> \<not> truthy ot \<or> \<not> truthy ct then False
         else case map_of DAY_MAP (lower (py_str dow)) of
             None \<Rightarrow> False
           | Some day \<Rightarrow>
               if dt_weekday t \<noteq> day then False
               else case (hhmm_minutes ot, hhmm_minutes ct) of
                   (Some o', Some c) \<Rightarrow> in_break rd minutes \<or> minutes < o' \<or> minutes > c
                 | _ \<Rightarrow> False)"

text \<open>
  \<open>timedelta(hours=x)\<close>: rounded to the microsecond, ties to even; None is OverflowError
  beyond 999999999 days.
\<close>

definition round_half_even :: "rat \<Rightarrow> int" where
  "round_half_even x =
     (let f = \<lfloor>x\<rfloor>; r = x - of_int f in
      if r < 1/2 then f else if r > 1/2 then f + 1 else if even f then f else f + 1)"

definition timedelta_us :: "int \<Rightarrow> rat \<Rightarrow> int option" where
  "timedelta_us unit x =
     (let us = round_half_even (x * of_int unit)
      in if \<bar>us\<bar> < 1000000000 * us_per_day then Some us else None)"

definition check_minimum_notice :: "json_obj \<Rightarrow> datetime \<Rightarrow> timestamp \<Rightarrow> bool" where
  "check_minimum_notice rd t now =
     (case to_float (dget_none rd ''notice_hours'') of
        None \<Rightarrow> False
      | Some h \<Rightarrow>
          (case timedelta_us us_per_hour h of
             None \<Rightarrow> False
           | Some req \<Rightarrow> instant t - now < req))"

definition check_maximum_advance :: "json_obj \<Rightarrow> datetime \<Rightarrow> timestamp \<Rightarrow> bool" where
  "check_maximum_advance rd t now =
     (case to_float (dget_none rd ''advance_days'') of
        None \<Rightarrow> False
      | Some n \<Rightarrow>
          (case timedelta_us us_per_day n of
             None \<Rightarrow> False
           | Some adv \<Rightarrow> instant t - now > adv))"

definition slot_taken :: "BookingStatus \<Rightarrow> bool" where
  "slot_taken s \<longleftrightarrow> s \<notin> {Bkg_CANCELLED, Bkg_DECLINED, Bkg_EXPIRED}"

definition capacity_count :: "int \<Rightarrow> datetime \<Rightarrow> SlotBooking list \<Rightarrow> nat" where
  "capacity_count half t bookings =
     length (filter (\<lambda>b. instant t - half \<le> sb_requested_at b \<and> sb_requested_at b \<le> instant t + half
                        \<and> slot_taken (sb_status b)) bookings)"

text \<open>The window reaches \<open>time_window_minutes / 2\<close> minutes to either side.\<close>

definition check_capacity :: "json_obj \<Rightarrow> datetime \<Rightarrow> SlotBooking list \<Rightarrow> bool" where
  "check_capacity rd t bookings =
     (case to_int (dget_none rd ''max_capacity'') of
        None \<Rightarrow> False
      | Some cap \<Rightarrow>
          (case to_int (dget rd ''time_window_minutes'' (JInt 60)) of
             None \<Rightarrow> False
           | Some w \<Rightarrow>
               (case timedelta_us us_per_minute (of_int w / 2) of
                  None \<Rightarrow> False
                | Some half \<Rightarrow> int (capacity_count half t bookings) \<ge> cap)))"

text \<open>Same calendar date and hour: the stored time in UTC against the request's wall clock.\<close>

definition same_hour :: "datetime \<Rightarrow> timestamp \<Rightarrow> bool" where
  "same_hour t stored \<longleftrightarrow>
     dt_day (utc_datetime stored) = dt_day t \<and> dt_hour (utc_datetime stored) = dt_hour t"

definition concurrent_count :: "datetime \<Rightarrow> SlotBooking list \<Rightarrow> nat" where
  "concurrent_count t bookings =
     length (filter (\<lambda>b. same_hour t (sb_requested_at b) \<and> slot_taken (sb_status b)) bookings)"

definition check_concurrent :: "json_obj \<Rightarrow> datetime \<Rightarrow> SlotBooking list \<Rightarrow> bool" where
  "check_concurrent rd t bookings =
     (case to_int (dget_none rd ''max_concurrent'') of
        None \<Rightarrow> False
      | Some m \<Rightarrow> int (concurrent_count t bookings) \<ge> m)"

definition evaluate_availability_rule ::
  "BusinessRule \<Rightarrow> datetime \<Rightarrow> timestamp \<Rightarrow> SlotBooking list \<Rightarrow> bool" where
  "evaluate_availability_rule r t now bookings =
     (let ty = rule_type r; rd = rule_data r in
      if ty = ''blackout_period'' then check_blackout rd t
      else if ty = ''operating_hours'' then check_operating_hours rd t
      else if ty = ''minimum_notice'' then check_minimum_notice rd t now
      else if ty = ''maximum_advance'' then check_maximum_advance rd t now
      else if ty = ''capacity_limit'' then check_capacity rd t bookings
      else if ty = ''concurrent_limit'' then check_concurrent rd t bookings
      else False)"

section \<open>The evaluation\<close>

definition availability_rule_matches ::
  "(string \<Rightarrow> string \<Rightarrow> bool option) \<Rightarrow> json_obj option \<Rightarrow> BusinessRule \<Rightarrow> bool" where
  "availability_rule_matches re_search ctx r \<longleftrightarrow>
     rule_type r \<in> set AVAILABILITY_RULE_TYPES \<and> rule_is_active r \<and>
     (case ctx of
        None \<Rightarrow> True
      | Some c \<Rightarrow>
          evaluate_conditions re_search (dget (rule_data r) ''conditions'' (JList [])) c = Some True)"

definition rule_ref :: "BusinessRule \<Rightarrow> RuleRef" where
  "rule_ref r = \<lparr>rr_rule_id = rule_id r, rr_rule_type = rule_type r, rr_name = rule_name r\<rparr>"

definition block_label :: "BusinessRule \<Rightarrow> string" where
  "block_label r = rule_name r @ '' ('' @ rule_type r @ '')''"

definition evaluate_availability ::
  "(string \<Rightarrow> string \<Rightarrow> bool option) \<Rightarrow> timestamp \<Rightarrow> datetime \<Rightarrow> BrainVersion option \<Rightarrow> json_obj option \<Rightarrow>
   SlotBooking list \<Rightarrow> AvailabilityResult" where
  "evaluate_availability re_search now t version ctx bookings =
     (case version of
        None \<Rightarrow>
          \<lparr>av_available = True, av_requested_at = t,
           av_reason = ''No Business Brain - availability allowed by default'',
           av_brain_version_id = None, av_matched_rules = [], av_blocked_by = []\<rparr>
      | Some v \<Rightarrow>
          (let matched = filter (availability_rule_matches re_search ctx) (bv_rules v);
               blocked = map block_label
                           (filter (\<lambda>r. evaluate_availability_rule r t now bookings) matched)
           in \<lparr>av_available = (blocked = []), av_requested_at = t,
               av_reason = (if blocked = [] then ''All availability rules permit this time''
                            else ''Blocked by: '' @ join ''; '' blocked),
               av_brain_version_id = Some (bv_id v),
               av_matched_rules = map rule_ref matched, av_blocked_by = blocked\<rparr>))"

section \<open>Lemmas\<close>

lemma available_iff:
  "av_available (evaluate_availability re_search now t (Some v) ctx bookings) \<longleftrightarrow>
     (\<forall>r\<in>set (bv_rules v). availability_rule_matches re_search ctx r \<longrightarrow>
        \<not> evaluate_availability_rule r t now bookings)"
  by (auto simp: evaluate_availability_def Let_def filter_empty_conv)

lemma availability_rule_deleted [simp]:
  "availability_rule_matches re_search ctx (r\<lparr>rule_deleted := b\<rparr>) = availability_rule_matches re_search ctx r"
  "evaluate_availability_rule (r\<lparr>rule_deleted := b\<rparr>) t now bookings = evaluate_availability_rule r t now bookings"
  by (simp_all add: availability_rule_matches_def evaluate_availability_rule_def cong: option.case_cong)

lemma ball_upd_row:
  "(\<And>r. P (f r) = P r) \<Longrightarrow> (\<forall>r\<in>set (upd_row key i f rows). P r) = (\<forall>r\<in>set rows. P r)"
  by (induction rows) auto

lemma available_delete_rule:
  "av_available (evaluate_availability re_search now t (Some (delete_rule i v)) ctx bookings) =
   av_available (evaluate_availability re_search now t (Some v) ctx bookings)"
  by (simp add: available_iff delete_rule_def ball_upd_row)

lemma length_filter_mono: "(\<And>x. x \<in> set xs \<Longrightarrow> P x \<Longrightarrow> Q x) \<Longrightarrow> length (filter P xs) \<le> length (filter Q xs)"
  by (induction xs) (auto simp: le_SucI)

lemma round_half_even_of_int [simp]: "round_half_even (of_int n) = n"
  by (simp add: round_half_even_def)

section \<open>Properties\<close>


definition capacity_rule :: "int \<Rightarrow> int \<Rightarrow> BusinessRule" where
  "capacity_rule cap w = sample_rule 5 ''capacity_limit''
     [(''max_capacity'', JInt cap), (''time_window_minutes'', JInt w)]"

lemma check_capacity_rule:
  assumes "0 \<le> w" "w \<le> 1000000000"
  shows "check_capacity [(''max_capacity'', JInt cap), (''time_window_minutes'', JInt w)] t bookings \<longleftrightarrow>
    cap \<le> int (capacity_count (w * 30000000) t bookings)"
proof -
  have "of_int w / 2 * (60000000 :: rat) = of_int (w * 30000000)"
    by simp
  then have "timedelta_us us_per_minute (of_int w / 2) = Some (w * 30000000)"
    using assms unfolding timedelta_us_def us_per_minute_def us_per_day_def
    by (simp only: Let_def of_int_numeral round_half_even_of_int) simp
  then show ?thesis by (simp add: check_capacity_def)
qed

text \<open>A capacity rule holds the line: when it admits a time, fewer than its capacity of the
  known taken bookings lie within half a window of that time, so one more does not exceed it.\<close>

theorem capacity_not_exceeded:
  assumes "av_available (evaluate_availability re_search now t (Some v) ctx bookings)"
    and "r \<in> set (bv_rules v)" and "rule_is_active r" and "rule_type r = ''capacity_limit''"
    and "rule_data r = [(''max_capacity'', JInt cap), (''time_window_minutes'', JInt w)]"
    and "0 \<le> w" and "w \<le> 1000000000"
  shows "int (capacity_count (w * 30000000) t bookings) + 1 \<le> cap"
proof -
  have "availability_rule_matches re_search ctx r"
    using assms(3-5)
    by (simp add: availability_rule_matches_def AVAILABILITY_RULE_TYPES_def evaluate_conditions_def
        split: option.split)
  then have "\<not> check_capacity (rule_data r) t bookings"
    using assms(1,2,4) by (auto simp: available_iff evaluate_availability_rule_def)
  then show ?thesis
    using check_capacity_rule [OF assms(6,7), of cap t bookings] by (simp add: assms(5))
qed

theorem capacity_not_exceeded_witness:
  "int (capacity_count (60 * 30000000) (utc_datetime 0)
     [\<lparr>sb_requested_at = 5, sb_status = Bkg_CONFIRMED\<rparr>]) + 1 \<le> 2"
proof (rule capacity_not_exceeded [where v = "sample_version [capacity_rule 2 60]" and r = "capacity_rule 2 60"
      and re_search = no_regex and now = 0 and ctx = None])
  show "av_available (evaluate_availability no_regex 0 (utc_datetime 0)
    (Some (sample_version [capacity_rule 2 60])) None [\<lparr>sb_requested_at = 5, sb_status = Bkg_CONFIRMED\<rparr>])"
    using check_capacity_rule [of 60 2 "utc_datetime 0"]
    by (simp add: available_iff evaluate_availability_rule_def capacity_rule_def sample_defs
        capacity_count_def slot_taken_def)
qed (simp_all add: capacity_rule_def sample_defs)

text \<open>The concurrency limit compares the date and hour of the request in its own zone with
  those of the stored time in UTC, so the same instant asked for in another zone escapes a
  full slot: a limit of one booking lets a second booking for the very same instant through.\<close>

theorem concurrent_limit_misses_same_instant:
  "\<exists>r t b now. rule_type r = ''concurrent_limit'' \<and> rule_is_active r \<and>
     sb_requested_at b = instant t \<and> slot_taken (sb_status b) \<and>
     \<not> av_available (evaluate_availability no_regex now (utc_datetime (instant t)) (Some (sample_version [r])) None [b]) \<and>
     av_available (evaluate_availability no_regex now t (Some (sample_version [r])) None [b])"
proof (intro exI conjI)
  let ?r = "sample_rule 5 ''concurrent_limit'' [(''max_concurrent'', JInt 1)]"
  let ?t = "\<lparr>dt_wall = 36000000000, dt_offset = 3600000000\<rparr>"
  let ?b = "\<lparr>sb_requested_at = 32400000000, sb_status = Bkg_CONFIRMED\<rparr>"
  note eval = available_iff evaluate_availability_rule_def availability_rule_matches_def
    AVAILABILITY_RULE_TYPES_def check_concurrent_def concurrent_count_def same_hour_def
    slot_taken_def dt_day_def dt_hour_def us_units instant_def utc_datetime_def sample_defs
  show "rule_type ?r = ''concurrent_limit''" "rule_is_active ?r" by (simp_all add: sample_defs)
  show "sb_requested_at ?b = instant ?t" "slot_taken (sb_status ?b)"
    by (simp_all add: instant_def slot_taken_def)
  show "\<not> av_available (evaluate_availability no_regex 0 (utc_datetime (instant ?t))
      (Some (sample_version [?r])) None [?b])"
    by (simp add: eval)
  show "av_available (evaluate_availability no_regex 0 ?t (Some (sample_version [?r])) None [?b])"
    by (simp add: eval)
qed

text \<open>Deleting a rule has no effect on the version that contains it: the soft-deleted rule still
  takes part in the Brain's decision, in the price and in the availability of a time.\<close>

theorem deleted_rules_still_apply:
  "brain_evaluate re_search (delete_rule i v) ctx = brain_evaluate re_search v ctx \<and>
   calculate_price re_search offer (Some (delete_rule i v)) pctx bc = calculate_price re_search offer (Some v) pctx bc \<and>
   av_available (evaluate_availability re_search now t (Some (delete_rule i v)) pctx bookings) =
     av_available (evaluate_availability re_search now t (Some v) pctx bookings)"
  by (intro conjI brain_evaluate_delete_rule calculate_price_delete_rule available_delete_rule)

end
