(* ===== verification/Commercial_Policy.thy ===== *)
theory Commercial_Policy
  imports Py_Values Enums
begin

text \<open>
  Commercial policies, src/backend/app/domain/commercial_policy: the policy row, the fee
  calculator, the repository queries, resolution of the effective policy by precedence,
  and the policy lifecycle.  The table of policies is the list of its rows; operations
  that change it return the new list.  Foreign keys are not modelled.
\<close>

section \<open>Data\<close>

record CommercialPolicy =
  cp_id :: uuid
  cp_name :: string
  cp_description :: "string option"
  cp_scope :: string
  cp_version :: nat
  cp_business_id :: "uuid option"
  cp_category_id :: "uuid option"
  cp_plan_key :: "string option"
  cp_promotion_code :: "string option"
  cp_fee_type :: string
  cp_percentage :: rat
  cp_fixed_amount :: money
  cp_fixed_currency :: string
  cp_effective_from :: timestamp
  cp_effective_until :: "timestamp option"
  cp_status :: CommercialPolicyStatus
  cp_eligibility :: "json_obj option"
  cp_disclosure :: "string option"
  cp_config :: "json_obj option"
  cp_is_active :: bool
  cp_created_at :: timestamp
  cp_deleted :: bool

text \<open>\<open>to_evidence_dict\<close> serializes the result field by field; the record is the evidence.\<close>

record FeeResult =
  fr_customer_amount :: money
  fr_platform_fee :: money
  fr_fee_type :: string
  fr_percentage_applied :: rat
  fr_fixed_applied :: money
  fr_business_proceeds :: money
  fr_currency :: string
  fr_policy_id :: uuid
  fr_policy_name :: string
  fr_policy_scope :: string
  fr_policy_version :: nat
  fr_effective_from :: timestamp
  fr_effective_until :: "timestamp option"
  fr_disclosure :: "string option"

section \<open>Fee calculator\<close>

definition check_fee_components :: "string \<Rightarrow> rat \<Rightarrow> money \<Rightarrow> err + unit" where
  "check_fee_components fee_type pct fixed =
     (if fee_type = ''percentage'' \<and> (pct < 0 \<or> pct > 100) then Inl (ValueError ''Percentage must be 0-100'')
      else if fee_type = ''fixed'' \<and> fixed < 0 then Inl (ValueError ''Fixed amount must be non-negative'')
      else if fee_type = ''combined'' \<and> (pct < 0 \<or> pct > 100) then
        Inl (ValueError ''Combined percentage must be 0-100'')
      else if fee_type = ''combined'' \<and> fixed < 0 then
        Inl (ValueError ''Combined fixed amount must be non-negative'')
      else Inr ())"

definition fee_components :: "string \<Rightarrow> rat \<Rightarrow> money \<Rightarrow> money \<Rightarrow> err + (money \<times> money)" where
  "fee_components fee_type pct fixed amount =
     (if fee_type = ''percentage'' then Inr (quantize2 (amount * pct / 100), 0)
      else if fee_type = ''fixed'' then Inr (0, quantize2 fixed)
      else if fee_type = ''combined'' then Inr (quantize2 (amount * pct / 100), quantize2 fixed)
      else if fee_type = ''zero'' then Inr (0, 0)
      else Inl (ValueError ''Unknown fee type''))"

definition fee_result :: "CommercialPolicy \<Rightarrow> money \<Rightarrow> string \<Rightarrow> money \<times> money \<Rightarrow> FeeResult" where
  "fee_result p amount currency c =
     (let raw = quantize2 (fst c + snd c);
          fee = (if raw > amount then quantize2 amount else raw)
      in \<lparr>fr_customer_amount = quantize2 amount, fr_platform_fee = fee, fr_fee_type = cp_fee_type p,
          fr_percentage_applied = cp_percentage p, fr_fixed_applied = snd c,
          fr_business_proceeds = quantize2 (amount - fee), fr_currency = currency,
          fr_policy_id = cp_id p, fr_policy_name = cp_name p, fr_policy_scope = cp_scope p,
          fr_policy_version = cp_version p, fr_effective_from = cp_effective_from p,
          fr_effective_until = cp_effective_until p, fr_disclosure = cp_disclosure p\<rparr>)"

definition calculate :: "CommercialPolicy \<Rightarrow> money \<Rightarrow> string \<Rightarrow> err + FeeResult" where
  "calculate p amount currency =
     bindE (guardE (\<not> amount < 0) (ValueError ''Transaction amount must be non-negative'')) (\<lambda>_.
     bindE (check_fee_components (cp_fee_type p) (cp_percentage p) (cp_fixed_amount p)) (\<lambda>_.
     bindE (fee_components (cp_fee_type p) (cp_percentage p) (cp_fixed_amount p) amount) (\<lambda>c.
     Inr (fee_result p amount currency c))))"

section \<open>Queries\<close>

definition get_policy_by_id :: "uuid \<Rightarrow> CommercialPolicy list \<Rightarrow> CommercialPolicy option" where
  "get_policy_by_id i ps = find_row cp_id i (filter (\<lambda>p. \<not> cp_deleted p) ps)"

definition in_window :: "CommercialPolicy \<Rightarrow> timestamp \<Rightarrow> bool" where
  "in_window p now \<longleftrightarrow>
     cp_effective_from p \<le> now \<and> (case cp_effective_until p of None \<Rightarrow> True | Some u \<Rightarrow> u > now)"

definition policy_in_force :: "CommercialPolicy \<Rightarrow> bool" where
  "policy_in_force p \<longleftrightarrow> cp_status p = Cpl_ACTIVE \<and> cp_is_active p"

definition promotion_matches :: "string option \<Rightarrow> CommercialPolicy \<Rightarrow> bool" where
  "promotion_matches code p \<longleftrightarrow>
     (if code \<noteq> None \<and> code \<noteq> Some [] then cp_promotion_code p = None \<or> cp_promotion_code p = code
      else cp_promotion_code p = None)"

definition scope_matches :: "uuid \<Rightarrow> uuid option \<Rightarrow> string option \<Rightarrow> CommercialPolicy \<Rightarrow> bool" where
  "scope_matches business_id category_id code p \<longleftrightarrow>
     policy_in_force p \<and>
     (cp_scope p = ''global_default''
      \<or> cp_scope p = ''category_default'' \<and> cp_category_id p = category_id
      \<or> cp_scope p = ''business_plan'' \<and> cp_business_id p = Some business_id
      \<or> cp_scope p = ''promotion'' \<and> (cp_business_id p = Some business_id \<or> cp_business_id p = None)
          \<and> promotion_matches code p
      \<or> cp_scope p = ''business_specific'' \<and> cp_business_id p = Some business_id)"

definition applicable ::
  "uuid \<Rightarrow> uuid option \<Rightarrow> string option \<Rightarrow> timestamp \<Rightarrow> CommercialPolicy \<Rightarrow> bool" where
  "applicable business_id category_id code now p \<longleftrightarrow>
     \<not> cp_deleted p \<and> in_window p now \<and> scope_matches business_id category_id code p"

definition get_effective_policies ::
  "uuid \<Rightarrow> uuid option \<Rightarrow> string option \<Rightarrow> timestamp \<Rightarrow> CommercialPolicy list \<Rightarrow> CommercialPolicy list" where
  "get_effective_policies business_id category_id code now ps =
     sort_desc cp_created_at (filter (applicable business_id category_id code now) ps)"

definition get_global_default :: "timestamp \<Rightarrow> CommercialPolicy list \<Rightarrow> CommercialPolicy option" where
  "get_global_default now ps =
     first_row (sort_desc cp_version
       (filter (\<lambda>p. \<not> cp_deleted p \<and> cp_scope p = ''global_default'' \<and> policy_in_force p \<and> in_window p now) ps))"

definition get_next_version :: "string \<Rightarrow> string \<Rightarrow> CommercialPolicy list \<Rightarrow> nat" where
  "get_next_version scope name ps =
     (case first_row (sort_desc id (map cp_version
             (filter (\<lambda>p. cp_scope p = scope \<and> cp_name p = name \<and> \<not> cp_deleted p) ps))) of
        None \<Rightarrow> 0 | Some v \<Rightarrow> v) + 1"

definition list_policies ::
  "string option \<Rightarrow> CommercialPolicyStatus option \<Rightarrow> nat \<Rightarrow> nat \<Rightarrow> CommercialPolicy list \<Rightarrow> CommercialPolicy list" where
  "list_policies scope status limit offset ps =
     take limit (drop offset (sort_desc cp_created_at
       (filter (\<lambda>p. \<not> cp_deleted p \<and>
          (scope = None \<or> scope = Some [] \<or> scope = Some (cp_scope p)) \<and>
          (status = None \<or> status = Some (cp_status p))) ps)))"

section \<open>Resolution\<close>

text \<open>\<open>COMMERCIAL_POLICY_PRECEDENCE.get(CommercialPolicyScope(p.scope), 0)\<close>.\<close>

definition scope_precedence :: "string \<Rightarrow> int" where
  "scope_precedence s =
     (case CommercialPolicyScope_of s of None \<Rightarrow> 0 | Some c \<Rightarrow> COMMERCIAL_POLICY_PRECEDENCE c)"

definition policy_sort_key :: "CommercialPolicy \<Rightarrow> int \<times> int" where
  "policy_sort_key p = (scope_precedence (cp_scope p), cp_created_at p)"

definition resolve_effective_policy ::
  "uuid \<Rightarrow> uuid option \<Rightarrow> string option \<Rightarrow> timestamp \<Rightarrow> CommercialPolicy list \<Rightarrow> CommercialPolicy option" where
  "resolve_effective_policy business_id category_id code now ps =
     (let candidates = get_effective_policies business_id category_id code now ps in
      if candidates = [] then get_global_default now ps
      else first_row (sort_desc policy_sort_key candidates))"

definition calculate_fee ::
  "uuid \<Rightarrow> money \<Rightarrow> string \<Rightarrow> uuid option \<Rightarrow> string option \<Rightarrow> timestamp \<Rightarrow> CommercialPolicy list \<Rightarrow>
   err + FeeResult" where
  "calculate_fee business_id amount currency category_id code now ps =
     (if amount < 0 then Inl (ValidationError ''Transaction amount must be non-negative'')
      else case resolve_effective_policy business_id category_id code now ps of
          None \<Rightarrow> Inl (ValidationError ''No commercial policy is configured'')
        | Some p \<Rightarrow>
            (case calculate p amount currency of
               Inl (ValueError m) \<Rightarrow> Inl (ValidationError m)
             | r \<Rightarrow> r))"

section \<open>Lifecycle\<close>

text \<open>
  \<open>Numeric(precision, scale)\<close> columns round the stored value to their scale, half away
  from zero, and reject values with too many digits before the point.
\<close>

definition round_places :: "nat \<Rightarrow> rat \<Rightarrow> rat" where
  "round_places n x = sgn x * of_int \<lfloor>\<bar>x\<bar> * 10 ^ n + 1/2\<rfloor> / 10 ^ n"

record PolicyArgs =
  pa_name :: string
  pa_scope :: string
  pa_fee_type :: string
  pa_effective_from :: timestamp
  pa_description :: "string option"
  pa_version :: "nat option"
  pa_business_id :: "uuid option"
  pa_category_id :: "uuid option"
  pa_plan_key :: "string option"
  pa_promotion_code :: "string option"
  pa_percentage :: string
  pa_fixed_amount :: string
  pa_fixed_currency :: string
  pa_effective_until :: "timestamp option"
  pa_eligibility :: "json_obj option"
  pa_disclosure :: "string option"
  pa_config :: "json_obj option"

definition draft_policy :: "uuid \<Rightarrow> timestamp \<Rightarrow> PolicyArgs \<Rightarrow> nat \<Rightarrow> rat \<Rightarrow> money \<Rightarrow> CommercialPolicy" where
  "draft_policy i now a version pct fixed =
     \<lparr>cp_id = i, cp_name = pa_name a, cp_description = pa_description a, cp_scope = pa_scope a,
      cp_version = version, cp_business_id = pa_business_id a, cp_category_id = pa_category_id a,
      cp_plan_key = pa_plan_key a, cp_promotion_code = pa_promotion_code a, cp_fee_type = pa_fee_type a,
      cp_percentage = round_places 4 pct, cp_fixed_amount = quantize2 fixed,
      cp_fixed_currency = pa_fixed_currency a, cp_effective_from = pa_effective_from a,
      cp_effective_until = pa_effective_until a, cp_status = Cpl_DRAFT,
      cp_eligibility = pa_eligibility a, cp_disclosure = pa_disclosure a, cp_config = pa_config a,
      cp_is_active = True, cp_created_at = now, cp_deleted = False\<rparr>"

definition insert_policy :: "CommercialPolicy \<Rightarrow> CommercialPolicy list \<Rightarrow> err + CommercialPolicy list" where
  "insert_policy p ps =
     (if cp_fixed_amount p \<ge> 10 ^ 10 then Inl (DataError ''numeric field overflow'')
      else if list_ex (\<lambda>q. cp_scope q = cp_scope p \<and> cp_name q = cp_name p \<and> cp_version q = cp_version p) ps
      then Inl (IntegrityError ''uq_commercial_policy_scope_name_version'')
      else Inr (ps @ [p]))"

definition create_policy ::
  "uuid \<Rightarrow> timestamp \<Rightarrow> PolicyArgs \<Rightarrow> CommercialPolicy list \<Rightarrow> err + CommercialPolicy list" where
  "create_policy i now a ps =
     bindE (guardE (CommercialPolicyScope_of (pa_scope a) \<noteq> None) (ValidationError ''Invalid scope'')) (\<lambda>_.
     bindE (guardE (CommercialPolicyFeeType_of (pa_fee_type a) \<noteq> None) (ValidationError ''Invalid fee type'')) (\<lambda>_.
     bindE (requireE (ValidationError ''Percentage must be between 0 and 100'') (parse_decimal (pa_percentage a))) (\<lambda>pct.
     bindE (guardE (0 \<le> pct \<and> pct \<le> 100) (ValidationError ''Percentage must be between 0 and 100'')) (\<lambda>_.
     bindE (requireE (ValidationError ''Fixed amount must be non-negative'') (parse_decimal (pa_fixed_amount a))) (\<lambda>fixed.
     bindE (guardE (0 \<le> fixed) (ValidationError ''Fixed amount must be non-negative'')) (\<lambda>_.
     let version = (case pa_version a of None \<Rightarrow> get_next_version (pa_scope a) (pa_name a) ps | Some v \<Rightarrow> v) in
     bindE (guardE (\<not> (pa_scope a = ''business_specific'' \<and> pa_business_id a = None))
              (ValidationError ''Business-specific policy requires a business_id'')) (\<lambda>_.
     bindE (guardE (\<not> (pa_scope a = ''category_default'' \<and> pa_category_id a = None))
              (ValidationError ''Category default policy requires a category_id'')) (\<lambda>_.
     bindE (guardE (\<not> (pa_scope a = ''business_plan'' \<and> pa_business_id a = None))
              (ValidationError ''Business plan policy requires a business_id'')) (\<lambda>_.
     insert_policy (draft_policy i now a version pct fixed) ps)))))))))"

record PolicyUpdate =
  pu_description :: "string option"
  pu_percentage :: "string option"
  pu_fixed_amount :: "string option"
  pu_fixed_currency :: "string option"
  pu_effective_until :: "timestamp option"
  pu_eligibility :: "json_obj option"
  pu_disclosure :: "string option"
  pu_config :: "json_obj option"

definition new_or :: "'a option \<Rightarrow> 'a \<Rightarrow> 'a" where
  "new_or x old = (case x of None \<Rightarrow> old | Some y \<Rightarrow> y)"

definition checked_decimal :: "string option \<Rightarrow> (rat \<Rightarrow> bool) \<Rightarrow> string \<Rightarrow> err + rat option" where
  "checked_decimal s ok msg =
     (case s of
        None \<Rightarrow> Inr None
      | Some t \<Rightarrow>
          bindE (requireE InvalidOperation (parse_decimal t)) (\<lambda>x.
          bindE (guardE (ok x) (ValidationError msg)) (\<lambda>_. Inr (Some x))))"

definition update_policy ::
  "CommercialPolicy \<Rightarrow> PolicyUpdate \<Rightarrow> CommercialPolicy list \<Rightarrow> err + CommercialPolicy list" where
  "update_policy p u ps =
     bindE (guardE (cp_status p = Cpl_DRAFT) (ValidationError ''Only draft policies can be edited'')) (\<lambda>_.
     bindE (checked_decimal (pu_percentage u) (\<lambda>x. 0 \<le> x \<and> x \<le> 100) ''Percentage must be between 0 and 100'') (\<lambda>pct.
     bindE (checked_decimal (pu_fixed_amount u) (\<lambda>x. 0 \<le> x) ''Fixed amount must be non-negative'') (\<lambda>fixed.
     bindE (guardE (\<forall>x \<in> set_option fixed. x < 10 ^ 10) (DataError ''numeric field overflow'')) (\<lambda>_.
     Inr (upd_row cp_id (cp_id p) (\<lambda>q. q\<lparr>
       cp_description := (case pu_description u of None \<Rightarrow> cp_description q | d \<Rightarrow> d),
       cp_percentage := new_or (map_option (round_places 4) pct) (cp_percentage q),
       cp_fixed_amount := new_or (map_option quantize2 fixed) (cp_fixed_amount q),
       cp_fixed_currency := new_or (pu_fixed_currency u) (cp_fixed_currency q),
       cp_effective_until := (case pu_effective_until u of None \<Rightarrow> cp_effective_until q | d \<Rightarrow> d),
       cp_eligibility := (case pu_eligibility u of None \<Rightarrow> cp_eligibility q | d \<Rightarrow> d),
       cp_disclosure := (case pu_disclosure u of None \<Rightarrow> cp_disclosure q | d \<Rightarrow> d),
       cp_config := (case pu_config u of None \<Rightarrow> cp_config q | d \<Rightarrow> d)\<rparr>) ps)))))"

text \<open>\<open>_deactivate_overlapping\<close>: the candidates are looked up without a promotion code.\<close>

definition supersedes :: "CommercialPolicy \<Rightarrow> CommercialPolicy \<Rightarrow> bool" where
  "supersedes p c \<longleftrightarrow>
     cp_id c \<noteq> cp_id p \<and> cp_scope c = cp_scope p \<and> cp_business_id c = cp_business_id p \<and>
     cp_category_id c = cp_category_id p \<and> cp_status c = Cpl_ACTIVE"

definition deactivate_overlapping ::
  "timestamp \<Rightarrow> CommercialPolicy \<Rightarrow> CommercialPolicy list \<Rightarrow> CommercialPolicy list" where
  "deactivate_overlapping now p ps =
     (if cp_effective_from p > now then ps
      else
        let candidates = get_effective_policies (new_or (cp_business_id p) 0) (cp_category_id p) None now ps
        in fold (\<lambda>c acc. if supersedes p c
                         then upd_row cp_id (cp_id c) (\<lambda>q. q\<lparr>cp_status := Cpl_SUPERSEDED\<rparr>) acc else acc)
             candidates ps)"

definition transition_policy ::
  "timestamp \<Rightarrow> CommercialPolicy \<Rightarrow> CommercialPolicyStatus \<Rightarrow> CommercialPolicy list \<Rightarrow>
   err + CommercialPolicy list" where
  "transition_policy now p target ps =
     bindE (guardE (target \<in> COMMERCIAL_POLICY_TRANSITIONS (cp_status p))
              (StateTransitionError ''Cannot transition policy'')) (\<lambda>_.
     let ps1 = upd_row cp_id (cp_id p) (\<lambda>q. q\<lparr>cp_status := target\<rparr>) ps
     in Inr (if target = Cpl_ACTIVE then deactivate_overlapping now (p\<lparr>cp_status := target\<rparr>) ps1 else ps1))"

definition get_policy :: "uuid \<Rightarrow> CommercialPolicy list \<Rightarrow> err + CommercialPolicy" where
  "get_policy i ps = requireE (NotFoundError ''Commercial policy not found'') (get_policy_by_id i ps)"


section \<open>Lemmas\<close>

lemma fee_components_nonneg:
  assumes "fee_components t pct fixed amount = Inr c" "check_fee_components t pct fixed = Inr ()" "0 \<le> amount"
  shows "0 \<le> fst c" "0 \<le> snd c" "two_places (fst c)" "two_places (snd c)"
  using assms by (auto simp: fee_components_def check_fee_components_def split: if_splits)

lemma calculate_Inr:
  assumes "calculate p amount currency = Inr r"
  obtains c where "0 \<le> amount" "r = fee_result p amount currency c" "0 \<le> fst c" "0 \<le> snd c"
    "two_places (fst c)" "two_places (snd c)"
    "fee_components (cp_fee_type p) (cp_percentage p) (cp_fixed_amount p) amount = Inr c"
proof -
  obtain c where "0 \<le> amount" "check_fee_components (cp_fee_type p) (cp_percentage p) (cp_fixed_amount p) = Inr ()"
    "fee_components (cp_fee_type p) (cp_percentage p) (cp_fixed_amount p) amount = Inr c"
    "r = fee_result p amount currency c"
    using assms by (auto simp: calculate_def bindE_guardE result_iffs split: if_splits)
  with fee_components_nonneg [OF this(3,2,1)] show ?thesis by (intro that)
qed

lemma fee_result_fields:
  assumes "two_places amount" "0 \<le> fst c" "0 \<le> snd c" "two_places (fst c)" "two_places (snd c)"
  shows "fr_platform_fee (fee_result p amount cur c) = min (fst c + snd c) amount"
    and "fr_business_proceeds (fee_result p amount cur c) = amount - min (fst c + snd c) amount"
    and "fr_customer_amount (fee_result p amount cur c) = amount"
proof -
  have sum: "two_places (fst c + snd c)" using assms by (simp add: two_places_add)
  then show fee: "fr_platform_fee (fee_result p amount cur c) = min (fst c + snd c) amount"
    using assms(1) by (simp add: fee_result_def Let_def min_def)
  have "two_places (amount - min (fst c + snd c) amount)"
    using sum assms(1) by (simp add: two_places_diff min_def)
  then show "fr_business_proceeds (fee_result p amount cur c) = amount - min (fst c + snd c) amount"
    using sum assms(1) by (auto simp: fee_result_def Let_def min_def)
  show "fr_customer_amount (fee_result p amount cur c) = amount"
    using assms(1) by (simp add: fee_result_def Let_def)
qed

lemma fee_components_mono:
  assumes "fee_components t pct fixed a = Inr c" "fee_components t pct fixed b = Inr c'"
    and "check_fee_components t pct fixed = Inr ()" "0 \<le> a" "a \<le> b"
  shows "fst c + snd c \<le> fst c' + snd c'"
proof -
  have q: "quantize2 (a * pct / 100) \<le> quantize2 (b * pct / 100)" if "0 \<le> pct"
    using that assms(4,5) by (intro quantize2_mono) (simp_all add: mult_right_mono)
  show ?thesis
    using assms q by (auto simp: fee_components_def check_fee_components_def split: if_splits)
qed

lemma get_effective_policies_set:
  "set (get_effective_policies b c code now ps) = {p \<in> set ps. applicable b c code now p}"
  by (auto simp: get_effective_policies_def)

text \<open>Every row the global-default fallback could find is already a candidate.\<close>

lemma CommercialPolicyScope_of_Some:
  "CommercialPolicyScope_of s \<noteq> None \<longleftrightarrow>
     s \<in> {''global_default'', ''category_default'', ''business_plan'', ''promotion'', ''business_specific''}"
  by (auto simp: CommercialPolicyScope_of_def)

lemma scope_matches_self:
  assumes "CommercialPolicyScope_of (cp_scope q) \<noteq> None"
    and "cp_scope q \<in> {''business_plan'', ''business_specific''} \<Longrightarrow> cp_business_id q \<noteq> None"
    and "cp_promotion_code q = None" "policy_in_force q"
  shows "scope_matches (new_or (cp_business_id q) 0) (cp_category_id q) None q"
proof (cases "cp_business_id q")
  case None
  then show ?thesis
    using assms unfolding CommercialPolicyScope_of_Some scope_matches_def promotion_matches_def by auto
next
  case (Some b)
  then have "new_or (cp_business_id q) 0 = b" by (simp add: new_or_def)
  then show ?thesis
    using assms Some unfolding CommercialPolicyScope_of_Some scope_matches_def promotion_matches_def by auto
qed

lemma no_candidates_no_default:
  "get_effective_policies b c code now ps = [] \<Longrightarrow> get_global_default now ps = None"
proof -
  assume "get_effective_policies b c code now ps = []"
  then have none: "\<forall>p\<in>set ps. \<not> applicable b c code now p"
    using get_effective_policies_set [of b c code now ps] by auto
  have "filter (\<lambda>p. \<not> cp_deleted p \<and> cp_scope p = ''global_default'' \<and> policy_in_force p \<and> in_window p now) ps = []"
    using none by (auto simp: filter_empty_conv applicable_def scope_matches_def)
  then show ?thesis unfolding get_global_default_def by simp
qed

lemma first_row_hd: "xs \<noteq> [] \<Longrightarrow> first_row xs = Some (hd xs)"
  by (cases xs) simp_all

lemma upd_row_fold:
  assumes idem: "\<And>q. f (f q) = f q" and key: "\<And>q. key (f q) = key q"
  shows "fold (\<lambda>c acc. if P c then upd_row key (key c) f acc else acc) cs rows =
    map (\<lambda>q. if \<exists>c\<in>set cs. P c \<and> key c = key q then f q else q) rows"
proof (induction cs arbitrary: rows)
  case (Cons c cs)
  show ?case
  proof (cases "P c")
    case True
    then show ?thesis
      by (auto simp: Cons.IH upd_row_def idem key)
  next
    case False
    then show ?thesis by (simp add: Cons.IH)
  qed
qed simp

definition overlapped :: "timestamp \<Rightarrow> CommercialPolicy \<Rightarrow> CommercialPolicy list \<Rightarrow> CommercialPolicy \<Rightarrow> bool" where
  "overlapped now p ps q \<longleftrightarrow>
     (\<exists>c\<in>set ps. applicable (new_or (cp_business_id p) 0) (cp_category_id p) None now c \<and>
        supersedes p c \<and> cp_id c = cp_id q)"

lemma deactivate_overlapping_map:
  assumes "cp_effective_from p \<le> now"
  shows "deactivate_overlapping now p ps =
    map (\<lambda>q. if overlapped now p ps q then q\<lparr>cp_status := Cpl_SUPERSEDED\<rparr> else q) ps"
proof -
  have eq: "(\<exists>c\<in>set (get_effective_policies (new_or (cp_business_id p) 0) (cp_category_id p) None now ps).
           supersedes p c \<and> cp_id c = cp_id q) \<longleftrightarrow> overlapped now p ps q" for q
    by (auto simp: get_effective_policies_set overlapped_def)
  have "deactivate_overlapping now p ps =
      fold (\<lambda>c acc. if supersedes p c
                     then upd_row cp_id (cp_id c) (\<lambda>q. q\<lparr>cp_status := Cpl_SUPERSEDED\<rparr>) acc else acc)
        (get_effective_policies (new_or (cp_business_id p) 0) (cp_category_id p) None now ps) ps"
    using assms by (simp add: deactivate_overlapping_def)
  also have "\<dots> = map (\<lambda>q. if overlapped now p ps q then q\<lparr>cp_status := Cpl_SUPERSEDED\<rparr> else q) ps"
    unfolding eq [symmetric] by (rule upd_row_fold) simp_all
  finally show ?thesis .
qed

section \<open>Properties\<close>

lemma calculate_split:
  assumes "calculate p amount currency = Inr r" "two_places amount"
  shows "fr_platform_fee r + fr_business_proceeds r = amount"
  using assms(1)
proof (elim calculate_Inr)
  fix c
  assume "0 \<le> amount" "r = fee_result p amount currency c" "0 \<le> fst c" "0 \<le> snd c"
    "two_places (fst c)" "two_places (snd c)"
  then show ?thesis
    using fee_result_fields [OF assms(2), of c p currency] assms(2) by simp
qed

lemma calculate_fee_Inr:
  assumes "calculate_fee b amount currency c code now ps = Inr r"
  obtains p where "calculate p amount currency = Inr r"
proof (cases "resolve_effective_policy b c code now ps")
  case None
  then show ?thesis using assms by (simp add: calculate_fee_def split: if_splits)
next
  case (Some p)
  show ?thesis
  proof (cases "calculate p amount currency")
    case (Inl e)
    then show ?thesis using assms Some by (cases e) (simp_all add: calculate_fee_def split: if_splits)
  next
    case (Inr r')
    then show ?thesis using assms Some that [of p] by (simp add: calculate_fee_def split: if_splits)
  qed
qed

lemma calculate_fee_split:
  "calculate_fee b amount currency c code now ps = Inr r \<Longrightarrow> two_places amount \<Longrightarrow>
   fr_platform_fee r + fr_business_proceeds r = amount"
  by (elim calculate_fee_Inr) (rule calculate_split)

text \<open>C3: For an amount in whole pence the platform fee of any policy lies between zero and the
  amount, the fee and the business's proceeds add up to the amount exactly, and both have two
  decimal places: no money is created or lost by rounding.\<close>

theorem fee_conserves_amount:
  assumes "calculate p amount currency = Inr r" and "two_places amount"
  shows "0 \<le> fr_platform_fee r \<and> fr_platform_fee r \<le> amount \<and>
    fr_platform_fee r + fr_business_proceeds r = amount \<and> 0 \<le> fr_business_proceeds r \<and>
    two_places (fr_platform_fee r) \<and> two_places (fr_business_proceeds r)"
  using assms(1)
proof (elim calculate_Inr)
  fix c
  assume c: "0 \<le> amount" "r = fee_result p amount currency c" "0 \<le> fst c" "0 \<le> snd c"
    "two_places (fst c)" "two_places (snd c)"
  have "two_places (min (fst c + snd c) amount)"
    using c assms(2) by (simp add: min_def two_places_add)
  then show ?thesis
    using c assms(2) fee_result_fields [OF assms(2) c(3-6), of p currency]
    by (simp add: two_places_diff)
qed

definition sample_policy :: "uuid \<Rightarrow> string \<Rightarrow> string \<Rightarrow> rat \<Rightarrow> money \<Rightarrow> CommercialPolicy" where
  "sample_policy i scope fee_type pct fixed =
     \<lparr>cp_id = i, cp_name = ''P'', cp_description = None, cp_scope = scope, cp_version = i,
      cp_business_id = None, cp_category_id = None, cp_plan_key = None, cp_promotion_code = None,
      cp_fee_type = fee_type, cp_percentage = pct, cp_fixed_amount = fixed,
      cp_fixed_currency = ''GBP'', cp_effective_from = 0, cp_effective_until = None,
      cp_status = Cpl_ACTIVE, cp_eligibility = None, cp_disclosure = None, cp_config = None,
      cp_is_active = True, cp_created_at = int i, cp_deleted = False\<rparr>"

lemma calculate_sample:
  "calculate (sample_policy 1 ''global_default'' ''combined'' (5/2) 1) 40 ''GBP'' =
     Inr (fee_result (sample_policy 1 ''global_default'' ''combined'' (5/2) 1) 40 ''GBP'' (1, 1))"
  by (simp add: calculate_def check_fee_components_def fee_components_def sample_policy_def quantize2_def)

theorem fee_conserves_amount_witness:
  "fr_platform_fee (fee_result (sample_policy 1 ''global_default'' ''combined'' (5/2) 1) 40 ''GBP'' (1, 1)) +
   fr_business_proceeds (fee_result (sample_policy 1 ''global_default'' ''combined'' (5/2) 1) 40 ''GBP'' (1, 1)) = 40"
  using fee_conserves_amount [OF calculate_sample] by (simp add: two_places_def)

text \<open>Under one policy the fee never falls when the amount rises.\<close>

theorem fee_monotone:
  assumes "calculate p a currency = Inr r" "calculate p b currency = Inr r'"
    and "two_places a" "two_places b" "a \<le> b"
  shows "fr_platform_fee r \<le> fr_platform_fee r'"
proof -
  obtain c where c: "0 \<le> a" "r = fee_result p a currency c" "0 \<le> fst c" "0 \<le> snd c"
    "two_places (fst c)" "two_places (snd c)"
    "fee_components (cp_fee_type p) (cp_percentage p) (cp_fixed_amount p) a = Inr c"
    using assms(1) by (elim calculate_Inr)
  obtain c' where c': "0 \<le> b" "r' = fee_result p b currency c'" "0 \<le> fst c'" "0 \<le> snd c'"
    "two_places (fst c')" "two_places (snd c')"
    "fee_components (cp_fee_type p) (cp_percentage p) (cp_fixed_amount p) b = Inr c'"
    using assms(2) by (elim calculate_Inr)
  have "check_fee_components (cp_fee_type p) (cp_percentage p) (cp_fixed_amount p) = Inr ()"
    using assms(1) by (auto simp: calculate_def result_iffs)
  then have "fst c + snd c \<le> fst c' + snd c'"
    using fee_components_mono c(1,7) c'(7) assms(5) by blast
  then show ?thesis
    using assms(5) fee_result_fields(1) [OF assms(3) c(3-6)] fee_result_fields(1) [OF assms(4) c'(3-6)]
    by (simp add: c(2) c'(2) min_le_iff_disj)
qed

theorem fee_monotone_witness:
  "fr_platform_fee (projr (calculate (sample_policy 1 ''global_default'' ''zero'' 0 0) 1 ''GBP'')) \<le>
   fr_platform_fee (projr (calculate (sample_policy 1 ''global_default'' ''zero'' 0 0) 2 ''GBP''))"
  by (rule fee_monotone [where p = "sample_policy 1 ''global_default'' ''zero'' 0 0" and a = 1 and b = 2
        and currency = "''GBP''"])
    (simp_all add: calculate_def check_fee_components_def fee_components_def sample_policy_def two_places_def)

text \<open>C10: Resolution returns an applicable policy of the highest precedence tier, the most recently
  created within the tier, and returns none exactly when no policy applies: the separate
  global-default fallback never finds one.\<close>

theorem resolution_highest_precedence:
  "(resolve_effective_policy b c code now ps = None \<longleftrightarrow> (\<forall>q\<in>set ps. \<not> applicable b c code now q)) \<and>
   (\<forall>p. resolve_effective_policy b c code now ps = Some p \<longrightarrow>
      p \<in> set ps \<and> applicable b c code now p \<and>
      (\<forall>q\<in>set ps. applicable b c code now q \<longrightarrow>
         (scope_precedence (cp_scope q), cp_created_at q) \<le> (scope_precedence (cp_scope p), cp_created_at p)))"
proof (cases "get_effective_policies b c code now ps = []")
  case True
  then show ?thesis
    using get_effective_policies_set [of b c code now ps] no_candidates_no_default [OF True]
    by (auto simp: resolve_effective_policy_def)
next
  case False
  let ?cs = "get_effective_policies b c code now ps"
  have res: "resolve_effective_policy b c code now ps = Some (hd (sort_desc policy_sort_key ?cs))"
    using False by (simp add: resolve_effective_policy_def first_row_hd)
  have "hd (sort_desc policy_sort_key ?cs) \<in> set ?cs"
    using False by (metis hd_in_set set_sort_desc sort_desc_Nil_iff)
  moreover have "\<forall>q\<in>set ?cs. policy_sort_key q \<le> policy_sort_key (hd (sort_desc policy_sort_key ?cs))"
    by (simp add: sort_desc_hd_max)
  ultimately show ?thesis
    using get_effective_policies_set [of b c code now ps] by (auto simp: res policy_sort_key_def)
qed

theorem resolution_highest_precedence_witness:
  "resolve_effective_policy 1 None None 5
     [sample_policy 1 ''global_default'' ''zero'' 0 0, sample_policy 2 ''promotion'' ''zero'' 0 0] \<noteq> None"
  using resolution_highest_precedence [of 1 None None 5
      "[sample_policy 1 ''global_default'' ''zero'' 0 0, sample_policy 2 ''promotion'' ''zero'' 0 0]"]
  by (simp add: applicable_def in_window_def scope_matches_def policy_in_force_def sample_policy_def)

text \<open>C11: Activating a policy that is already effective leaves it the only active policy in force
  for its scope and target, coded promotions excepted.\<close>

theorem activation_is_exclusive:
  assumes "transition_policy now p Cpl_ACTIVE ps = Inr ps'"
    and "cp_effective_from p \<le> now"
    and "CommercialPolicyScope_of (cp_scope p) \<noteq> None"
    and "cp_scope p \<in> {''business_plan'', ''business_specific''} \<Longrightarrow> cp_business_id p \<noteq> None"
    and "q \<in> set ps'" "cp_id q \<noteq> cp_id p" "cp_scope q = cp_scope p"
    and "cp_business_id q = cp_business_id p" "cp_category_id q = cp_category_id p"
    and "cp_promotion_code q = None" "\<not> cp_deleted q" "cp_is_active q" "in_window q now"
  shows "cp_status q \<noteq> Cpl_ACTIVE"
proof
  assume act: "cp_status q = Cpl_ACTIVE"
  let ?p = "p\<lparr>cp_status := Cpl_ACTIVE\<rparr>"
  let ?ps1 = "upd_row cp_id (cp_id p) (\<lambda>q. q\<lparr>cp_status := Cpl_ACTIVE\<rparr>) ps"
  have ps': "ps' = deactivate_overlapping now ?p ?ps1"
    using assms(1) by (auto simp: transition_policy_def Let_def bindE_guardE split: if_splits)
  have "cp_effective_from ?p \<le> now" using assms(2) by simp
  from assms(5) obtain q0 where q0: "q0 \<in> set ?ps1"
    and q: "q = (if overlapped now ?p ?ps1 q0 then q0\<lparr>cp_status := Cpl_SUPERSEDED\<rparr> else q0)"
    unfolding ps' deactivate_overlapping_map [OF \<open>cp_effective_from ?p \<le> now\<close>] by (auto simp del: upd_row_simps)
  have "\<not> overlapped now ?p ?ps1 q0"
  proof
    assume "overlapped now ?p ?ps1 q0"
    with q have "q = q0\<lparr>cp_status := Cpl_SUPERSEDED\<rparr>" by (simp only: if_True)
    then show False using act by simp
  qed
  with q have same: "q = q0" by (simp only: if_False)
  have "scope_matches (new_or (cp_business_id p) 0) (cp_category_id p) None q"
    unfolding assms(8,9) [symmetric]
    by (rule scope_matches_self) (use assms(3,4,7,8,10,12) act in \<open>simp_all add: policy_in_force_def\<close>)
  then have "applicable (new_or (cp_business_id ?p) 0) (cp_category_id ?p) None now q0 \<and> supersedes ?p q0"
    using assms(6-9,11,13) act by (simp add: applicable_def supersedes_def same)
  then have "overlapped now ?p ?ps1 q0"
    using q0 unfolding overlapped_def by blast
  then show False using \<open>\<not> overlapped now ?p ?ps1 q0\<close> by contradiction
qed

theorem activation_is_exclusive_witness:
  "\<exists>ps'. transition_policy 9 ((sample_policy 2 ''global_default'' ''zero'' 0 0)\<lparr>cp_status := Cpl_DRAFT\<rparr>) Cpl_ACTIVE
      [sample_policy 1 ''global_default'' ''zero'' 0 0, (sample_policy 2 ''global_default'' ''zero'' 0 0)\<lparr>cp_status := Cpl_DRAFT\<rparr>]
    = Inr ps' \<and> cp_status (hd ps') \<noteq> Cpl_ACTIVE"
proof -
  let ?a = "sample_policy 1 ''global_default'' ''zero'' 0 0"
  let ?b = "(sample_policy 2 ''global_default'' ''zero'' 0 0)\<lparr>cp_status := Cpl_DRAFT\<rparr>"
  have eq: "transition_policy 9 ?b Cpl_ACTIVE [?a, ?b] =
      Inr [?a\<lparr>cp_status := Cpl_SUPERSEDED\<rparr>, ?b\<lparr>cp_status := Cpl_ACTIVE\<rparr>]"
    by (simp add: transition_policy_def deactivate_overlapping_map overlapped_def applicable_def in_window_def
        scope_matches_def policy_in_force_def supersedes_def sample_policy_def)
  have "cp_status (?a\<lparr>cp_status := Cpl_SUPERSEDED\<rparr>) \<noteq> Cpl_ACTIVE"
    by (rule activation_is_exclusive [OF eq])
      (simp_all add: sample_policy_def CommercialPolicyScope_of_def in_window_def)
  then show ?thesis using eq by auto
qed

text \<open>Neither the eligibility criteria of policies nor the currency of a fixed fee has any
  influence on which policy applies or on the fee charged.\<close>

theorem fee_ignores_eligibility_and_fixed_currency:
  "map_sum id fr_platform_fee (calculate_fee b amount currency c code now
      (map (\<lambda>p. p\<lparr>cp_eligibility := f (cp_id p), cp_fixed_currency := g (cp_id p)\<rparr>) ps)) =
   map_sum id fr_platform_fee (calculate_fee b amount currency c code now ps)"
proof -
  define h :: "CommercialPolicy \<Rightarrow> CommercialPolicy"
    where "h p = p\<lparr>cp_eligibility := f (cp_id p), cp_fixed_currency := g (cp_id p)\<rparr>" for p
  have app: "applicable b c code now (h p) = applicable b c code now p" for p
    by (simp add: h_def applicable_def in_window_def scope_matches_def policy_in_force_def
        promotion_matches_def cong: option.case_cong)
  have keys: "cp_created_at \<circ> h = cp_created_at" "policy_sort_key \<circ> h = policy_sort_key"
    by (simp_all add: h_def fun_eq_iff policy_sort_key_def)
  have eff: "get_effective_policies b c code now (map h ps) = map h (get_effective_policies b c code now ps)"
    by (simp add: get_effective_policies_def filter_map comp_def app sort_desc_map keys(1) [unfolded comp_def])
  have res: "resolve_effective_policy b c code now (map h ps) =
      map_option h (resolve_effective_policy b c code now ps)"
  proof (cases "get_effective_policies b c code now ps = []")
    case True
    then show ?thesis
      using eff no_candidates_no_default [of b c code now ps] no_candidates_no_default [of b c code now "map h ps"]
      by (simp add: resolve_effective_policy_def)
  next
    case False
    then show ?thesis
      by (simp add: resolve_effective_policy_def eff Let_def sort_desc_map keys(2) first_row_map)
  qed
  have "calculate (h p) amount currency = calculate p amount currency" for p
    by (simp add: calculate_def h_def fee_result_def)
  then show ?thesis
    unfolding h_def [symmetric]
    by (simp add: calculate_fee_def res split: option.splits)
qed

end
