(* ===== verification/Comm_Rows.thy ===== *)
theory Comm_Rows
  imports Py_Values
begin

text \<open>
  The rows of communications, notifications, calendars and booking automation
  (src/backend/app/domain/communication/models.py, notification/models.py, calendar/models.py and
  booking_automation/models.py) and the context and decision of the communication policy.
\<close>

section \<open>Policy\<close>

record RecipientContext =
  rc_recipient_type :: string
  rc_customer_id :: "uuid option"
  rc_address :: string
  rc_channel :: string
  rc_purpose :: string

record PolicyDecision =
  pd_decision :: string
  pd_reason :: string
  pd_brain_version_id :: "uuid option"
  pd_matched_rules :: "json_obj list"
  pd_consent_state :: "json_obj option"
  pd_suppression_state :: "json_obj option"
  pd_frequency_state :: "json_obj option"
  pd_timing_state :: "json_obj option"

section \<open>Communications\<close>

record Communication =
  com_id :: uuid
  com_business_id :: uuid
  com_customer_id :: "uuid option"
  com_channel :: string
  com_purpose :: string
  com_status :: string
  com_idempotency_key :: string
  com_brain_version_id :: "uuid option"
  com_decision_evidence :: "json_obj option"
  com_enquiry_id :: "uuid option"
  com_quote_id :: "uuid option"
  com_booking_id :: "uuid option"
  com_service_execution_id :: "uuid option"
  com_invoice_id :: "uuid option"
  com_provider_reference :: "string option"
  com_created_at :: timestamp
  com_deleted :: bool

record CommunicationRecipient =
  cr_id :: uuid
  cr_communication_id :: uuid
  cr_recipient_type :: string
  cr_channel :: string
  cr_address :: string
  cr_status :: string

record CommunicationAttempt =
  ca_id :: uuid
  ca_communication_id :: uuid
  ca_provider_name :: string
  ca_provider_reference :: "string option"
  ca_status :: string
  ca_error :: "string option"
  ca_provider_response :: "json_obj option"
  ca_created_at :: timestamp

record CommunicationTemplate =
  tpl_id :: uuid
  tpl_business_id :: uuid
  tpl_channel :: string
  tpl_purpose :: string
  tpl_name :: string
  tpl_active_version_id :: "uuid option"
  tpl_status :: string
  tpl_approval_state :: string
  tpl_created_at :: timestamp
  tpl_deleted :: bool

record CommunicationTemplateVersion =
  tv_id :: uuid
  tv_template_id :: uuid
  tv_version_number :: nat
  tv_subject :: "string option"
  tv_body :: string
  tv_variables :: json
  tv_created_by :: "uuid option"

record BusinessCommunicationChannel =
  bcc_id :: uuid
  bcc_business_id :: uuid
  bcc_channel :: string
  bcc_enabled :: bool
  bcc_provider_ref :: "string option"
  bcc_settings :: json
  bcc_deleted :: bool

record BusinessCommunicationPurpose =
  bcp_id :: uuid
  bcp_business_id :: uuid
  bcp_purpose :: string
  bcp_enabled :: bool
  bcp_permitted_channels :: json
  bcp_deleted :: bool

record CustomerCommunicationPreference =
  ccp_id :: uuid
  ccp_customer_id :: uuid
  ccp_business_id :: uuid
  ccp_channel :: "string option"
  ccp_purpose :: "string option"
  ccp_consent_state :: string
  ccp_opt_in :: bool
  ccp_suppression :: bool
  ccp_suppression_reason :: "string option"
  ccp_do_not_contact :: bool
  ccp_source :: "string option"
  ccp_consented_at :: "timestamp option"
  ccp_deleted :: bool

record CommunicationWebhook =
  cwh_id :: uuid
  cwh_provider :: string
  cwh_external_event_id :: string
  cwh_event_type :: string
  cwh_raw_payload :: json_obj
  cwh_processing_status :: string
  cwh_received_at :: timestamp
  cwh_processed_at :: "timestamp option"
  cwh_error_metadata :: "json_obj option"
  cwh_voice_call_id :: "uuid option"

record CommunicationAuditEvent =
  cae_id :: uuid
  cae_event_type :: string
  cae_actor_id :: "uuid option"
  cae_business_id :: uuid
  cae_customer_id :: "uuid option"
  cae_channel :: "string option"
  cae_purpose :: "string option"
  cae_communication_id :: "uuid option"
  cae_brain_version_id :: "uuid option"
  cae_decision_evidence :: "json_obj option"
  cae_provider_reference :: "string option"
  cae_metadata :: json

record Notification =
  ntf_id :: uuid
  ntf_business_id :: uuid
  ntf_customer_id :: "uuid option"
  ntf_notification_type :: string
  ntf_title :: string
  ntf_body :: string
  ntf_priority :: string
  ntf_idempotency_key :: string
  ntf_related_entity_type :: "string option"
  ntf_related_entity_id :: "uuid option"
  ntf_read_at :: "timestamp option"
  ntf_created_at :: timestamp
  ntf_deleted :: bool

section \<open>Calendars and automation\<close>

record CalendarConnection =
  cal_id :: uuid
  cal_business_id :: uuid
  cal_provider :: string
  cal_calendar_id :: string
  cal_access_token_encrypted :: "string option"
  cal_refresh_token_encrypted :: "string option"
  cal_token_expiry :: "timestamp option"
  cal_status :: string
  cal_last_error :: "string option"
  cal_last_synced_at :: "timestamp option"
  cal_deleted :: bool

record CalendarEventSyncRecord =
  csr_id :: uuid
  csr_business_id :: uuid
  csr_booking_id :: uuid
  csr_booking_event_id :: string
  csr_calendar_event_id :: "string option"
  csr_provider :: string
  csr_calendar_id :: string
  csr_status :: string
  csr_last_synced_at :: "timestamp option"
  csr_last_error :: "string option"
  csr_attempt_count :: nat
  csr_sync_evidence :: "json_obj option"
  csr_created_at :: timestamp
  csr_deleted :: bool

record BookingAutomationStatus =
  bas_id :: uuid
  bas_business_id :: uuid
  bas_booking_id :: uuid
  bas_operation_type :: string
  bas_triggering_event :: string
  bas_status :: string
  bas_attempt_count :: nat
  bas_last_error :: "string option"
  bas_last_attempted_at :: "timestamp option"
  bas_next_retry_at :: "timestamp option"
  bas_result_evidence :: "json_obj option"

end
