(* ===== verification/Data_Model.thy ===== *)
theory Data_Model
  imports Availability Commercial_Policy Comm_Rows
begin

text \<open>
  The rows of the database as the SQLAlchemy models of src/backend/app/domain/*/models.py
  declare them (columns that no modelled operation reads or writes are left out), the
  database as a record of tables, and the repositories' access by primary key.

  A flushed change is a new database value; a handler that raises is \<open>Inl\<close>, and the
  request's session then rolls everything back.  \<open>fresh\<close> supplies primary keys.  Evidence
  columns hold the typed result that the code serializes into them.
\<close>

section \<open>Environment of a request\<close>

text \<open>The clock reading of the request and the interpreter's regular-expression engine.\<close>

record env =
  env_now :: timestamp
  env_re_search :: "string \<Rightarrow> string \<Rightarrow> bool option"

section \<open>Rows\<close>

text \<open>Values in outbox payloads: identifiers and amounts are kept typed under \<open>str(...)\<close>.\<close>

datatype pval = PUuid uuid | PNone | PStr string | PMoney money | PInt int | PJson json

definition puuid_opt :: "uuid option \<Rightarrow> pval" where
  "puuid_opt u = (case u of None \<Rightarrow> PNone | Some i \<Rightarrow> PUuid i)"

record User =
  usr_id :: uuid
  usr_email :: string
  usr_hashed_password :: string
  usr_is_active :: bool
  usr_is_verified :: bool
  usr_deleted :: bool

record Business =
  biz_id :: uuid
  biz_name :: string
  biz_slug :: string
  biz_status :: BusinessStatus
  biz_currency :: string
  biz_stripe_account_id :: "string option"
  biz_stripe_connect_status :: StripeConnectAccountStatus
  biz_stripe_charges_enabled :: bool
  biz_stripe_payouts_enabled :: bool
  biz_stripe_details :: json
  biz_platform_fee_percent :: rat
  biz_deleted :: bool

record BusinessProfile =
  prof_id :: uuid
  prof_business_id :: uuid
  prof_columns :: json_obj
  prof_public_status :: BusinessProfileStatus
  prof_average_rating :: "rat option"
  prof_review_count :: nat
  prof_is_verified :: bool
  prof_deleted :: bool

record BusinessMember =
  mem_id :: uuid
  mem_user_id :: uuid
  mem_business_id :: uuid
  mem_role :: BusinessMemberRole
  mem_deleted :: bool

record MemberInvitation =
  minv_id :: uuid
  minv_business_id :: uuid
  minv_email :: string
  minv_role :: BusinessMemberRole
  minv_token :: string
  minv_invited_by :: "uuid option"
  minv_expires_at :: timestamp
  minv_used_at :: "timestamp option"
  minv_created_at :: timestamp
  minv_deleted :: bool

record ServiceCategory =
  cat_id :: uuid
  cat_name :: string
  cat_slug :: string
  cat_description :: "string option"
  cat_parent_id :: "uuid option"
  cat_deleted :: bool

record BusinessBrain =
  br_id :: uuid
  br_business_id :: uuid
  br_active_version_id :: "uuid option"
  br_deleted :: bool

record Enquiry =
  enq_id :: uuid
  enq_reference :: string
  enq_customer_id :: uuid
  enq_business_id :: uuid
  enq_service_offer_id :: uuid
  enq_subject :: string
  enq_message :: string
  enq_status :: EnquiryStatus
  enq_brain_version_id :: "uuid option"
  enq_metadata :: BrainDecision
  enq_created_at :: timestamp
  enq_deleted :: bool

record Conversation =
  cnv_id :: uuid
  cnv_enquiry_id :: uuid
  cnv_customer_id :: uuid
  cnv_business_id :: uuid
  cnv_status :: string
  cnv_deleted :: bool

record Message =
  msg_id :: uuid
  msg_conversation_id :: uuid
  msg_sender_id :: uuid
  msg_sender_type :: string
  msg_content :: string
  msg_message_type :: string
  msg_read_at :: "timestamp option"
  msg_created_at :: timestamp
  msg_deleted :: bool

record Quote =
  q_id :: uuid
  q_reference :: string
  q_customer_id :: uuid
  q_business_id :: uuid
  q_enquiry_id :: uuid
  q_service_offer_id :: uuid
  q_amount :: money
  q_currency :: string
  q_status :: QuoteStatus
  q_brain_version_id :: "uuid option"
  q_pricing_evidence :: PricingResult
  q_fee_evidence :: "FeeResult option"
  q_notes :: "string option"
  q_created_at :: timestamp
  q_deleted :: bool

record Booking =
  bk_id :: uuid
  bk_reference :: string
  bk_customer_id :: uuid
  bk_business_id :: uuid
  bk_quote_id :: uuid
  bk_enquiry_id :: uuid
  bk_service_offer_id :: uuid
  bk_requested_at :: timestamp
  bk_currency :: string
  bk_status :: BookingStatus
  bk_brain_version_id :: "uuid option"
  bk_brain_decision :: "BrainDecision option"
  bk_availability :: AvailabilityResult
  bk_notes :: "string option"
  bk_created_at :: timestamp
  bk_deleted :: bool

record ServiceExecution =
  ex_id :: uuid
  ex_business_id :: uuid
  ex_customer_id :: uuid
  ex_booking_id :: uuid
  ex_service_offer_id :: uuid
  ex_quote_id :: "uuid option"
  ex_status :: ServiceExecutionStatus
  ex_scheduled_at :: "timestamp option"
  ex_started_at :: "timestamp option"
  ex_completed_at :: "timestamp option"
  ex_completed_by :: "uuid option"
  ex_completion_evidence :: "json_obj option"
  ex_notes :: "string option"
  ex_created_at :: timestamp
  ex_deleted :: bool

record Invoice =
  inv_id :: uuid
  inv_business_id :: uuid
  inv_customer_id :: uuid
  inv_service_execution_id :: uuid
  inv_booking_id :: uuid
  inv_quote_id :: "uuid option"
  inv_invoice_number :: string
  inv_issue_date :: timestamp
  inv_currency :: string
  inv_subtotal :: money
  inv_discount :: money
  inv_tax :: money
  inv_total :: money
  inv_payment_status :: InvoicePaymentStatus
  inv_status :: InvoiceStatus
  inv_fee_evidence :: "FeeResult option"
  inv_deleted :: bool

record InvoiceLineItem =
  li_id :: uuid
  li_invoice_id :: uuid
  li_description :: string
  li_service_reference :: "string option"
  li_quantity :: rat
  li_unit_price :: money
  li_discount :: money
  li_tax :: money
  li_line_total :: money
  li_currency :: string
  li_sort_order :: nat

record ServiceLedgerEntry =
  le_id :: uuid
  le_business_id :: uuid
  le_customer_id :: uuid
  le_service_execution_id :: uuid
  le_booking_id :: uuid
  le_quote_id :: "uuid option"
  le_invoice_id :: "uuid option"
  le_service_offer_id :: uuid
  le_completion_date :: timestamp
  le_gross_amount :: money
  le_discount :: money
  le_tax :: money
  le_net_amount :: money
  le_currency :: string
  le_payment_status :: InvoicePaymentStatus
  le_is_primary :: bool
  le_adjusts_entry_id :: "uuid option"
  le_transaction_reference :: "string option"
  le_fee_evidence :: "FeeResult option"
  le_notes :: "string option"
  le_deleted :: bool

record Payment =
  pay_id :: uuid
  pay_idempotency_key :: string
  pay_business_id :: uuid
  pay_customer_id :: uuid
  pay_invoice_id :: "uuid option"
  pay_amount :: money
  pay_currency :: string
  pay_payment_method :: string
  pay_status :: PaymentStatus
  pay_provider :: string
  pay_provider_reference :: "string option"
  pay_refunded_amount :: money
  pay_refund_provider_reference :: "string option"
  pay_paid_at :: "timestamp option"
  pay_refunded_at :: "timestamp option"
  pay_dispute_id :: json
  pay_dispute_reason :: json
  pay_dispute_evidence :: "json_obj option"
  pay_dispute_created_at :: "timestamp option"
  pay_dispute_status :: json
  pay_provider_evidence :: "json_obj option"
  pay_fee_evidence :: "FeeResult option"
  pay_notes :: "string option"
  pay_failure_code :: "string option"
  pay_failure_message :: json
  pay_created_at :: timestamp
  pay_deleted :: bool

record PaymentAttempt =
  att_id :: uuid
  att_payment_id :: uuid
  att_attempt_number :: nat
  att_provider :: string
  att_provider_reference :: "string option"
  att_status :: string
  att_amount :: money
  att_currency :: string
  att_requested_at :: timestamp
  att_completed_at :: "timestamp option"
  att_error_code :: "string option"
  att_provider_response :: "json_obj option"

record StripeEvent =
  se_id :: uuid
  se_stripe_event_id :: string
  se_event_type :: string
  se_payment_intent_id :: "string option"
  se_stripe_account_id :: json
  se_business_id :: "uuid option"
  se_payment_id :: "uuid option"
  se_status :: string
  se_error_message :: "string option"
  se_raw_payload :: json_obj
  se_deleted :: bool

record Review =
  rev_id :: uuid
  rev_business_id :: uuid
  rev_customer_id :: uuid
  rev_service_execution_id :: uuid
  rev_booking_id :: uuid
  rev_enquiry_id :: uuid
  rev_service_offer_id :: uuid
  rev_rating :: int
  rev_title :: "string option"
  rev_body :: "string option"
  rev_status :: string
  rev_response_body :: "string option"
  rev_responded_at :: "timestamp option"
  rev_responded_by :: "uuid option"
  rev_created_at :: timestamp
  rev_deleted :: bool

record OutboxEvent =
  oe_id :: uuid
  oe_business_id :: uuid
  oe_event_type :: string
  oe_aggregate_type :: string
  oe_aggregate_id :: uuid
  oe_key_suffix :: string
  oe_payload :: "(string \<times> pval) list"
  oe_status :: OutboxStatus
  oe_attempt_count :: nat
  oe_available_at :: timestamp
  oe_processed_at :: "timestamp option"
  oe_last_error :: "string option"
  oe_processing_started_at :: "timestamp option"

section \<open>The database\<close>

record db =
  t_users :: "User list"
  t_businesses :: "Business list"
  t_profiles :: "BusinessProfile list"
  t_members :: "BusinessMember list"
  t_invitations :: "MemberInvitation list"
  t_categories :: "ServiceCategory list"
  t_service_offers :: "ServiceOffer list"
  t_brains :: "BusinessBrain list"
  t_brain_versions :: "BrainVersion list"
  t_policies :: "CommercialPolicy list"
  t_enquiries :: "Enquiry list"
  t_conversations :: "Conversation list"
  t_messages :: "Message list"
  t_quotes :: "Quote list"
  t_bookings :: "Booking list"
  t_executions :: "ServiceExecution list"
  t_invoices :: "Invoice list"
  t_line_items :: "InvoiceLineItem list"
  t_ledger :: "ServiceLedgerEntry list"
  t_payments :: "Payment list"
  t_attempts :: "PaymentAttempt list"
  t_stripe_events :: "StripeEvent list"
  t_reviews :: "Review list"
  t_outbox :: "OutboxEvent list"
  t_communications :: "Communication list"
  t_recipients :: "CommunicationRecipient list"
  t_comm_attempts :: "CommunicationAttempt list"
  t_templates :: "CommunicationTemplate list"
  t_template_versions :: "CommunicationTemplateVersion list"
  t_channels :: "BusinessCommunicationChannel list"
  t_purposes :: "BusinessCommunicationPurpose list"
  t_preferences :: "CustomerCommunicationPreference list"
  t_webhooks :: "CommunicationWebhook list"
  t_comm_audit :: "CommunicationAuditEvent list"
  t_notifications :: "Notification list"
  t_calendars :: "CalendarConnection list"
  t_calendar_syncs :: "CalendarEventSyncRecord list"
  t_automation :: "BookingAutomationStatus list"
  fresh :: nat

definition fresh_id :: "db \<Rightarrow> uuid" where
  "fresh_id d = fresh d"

definition used_id :: "db \<Rightarrow> db" where
  "used_id d = d\<lparr>fresh := Suc (fresh d)\<rparr>"

text \<open>Eight hexadecimal digits of a uuid make a reference; here the number itself is written.\<close>

definition reference_of :: "string \<Rightarrow> uuid \<Rightarrow> string" where
  "reference_of prefix i = prefix @ nat_str i"

section \<open>Access by primary key\<close>

text \<open>\<open>get_by_id\<close> of every repository filters soft-deleted rows.\<close>

definition live_row :: "('r \<Rightarrow> uuid) \<Rightarrow> ('r \<Rightarrow> bool) \<Rightarrow> uuid \<Rightarrow> 'r list \<Rightarrow> 'r option" where
  "live_row key del i rows = find_row key i (filter (\<lambda>r. \<not> del r) rows)"

lemma live_row_key: "live_row key del i rows = Some r \<Longrightarrow> key r = i"
  by (simp add: live_row_def) (use find_row_SomeD in fast)

lemma live_row_SomeD: "live_row key del i rows = Some r \<Longrightarrow> r \<in> set rows \<and> key r = i \<and> \<not> del r"
  by (auto simp: live_row_def dest: find_row_SomeD)

lemma live_row_put_same:
  "live_row key del (key r) rows = Some r0 \<Longrightarrow> \<not> del r \<Longrightarrow>
   live_row key del (key r) (upd_row key (key r) (\<lambda>_. r) rows) = Some r"
  by (induction rows) (auto simp: live_row_def split: if_splits)

lemma live_row_put_other:
  "i \<noteq> key r \<Longrightarrow> live_row key del i (upd_row key (key r) (\<lambda>_. r) rows) = live_row key del i rows"
  by (induction rows) (auto simp: live_row_def)

lemma live_row_add_same:
  "live_row key del (key r) rows = None \<Longrightarrow> \<not> del r \<Longrightarrow> live_row key del (key r) (rows @ [r]) = Some r"
  by (simp add: live_row_def find_row_append)

lemma live_row_add_other:
  "i \<noteq> key r \<Longrightarrow> live_row key del i (rows @ [r]) = live_row key del i rows"
  by (simp add: live_row_def find_row_append split: option.split)

text \<open>
  What every client of a repository relies on: a flushed row is read back, and no other
  row is disturbed.
\<close>

locale repository =
  fixes get :: "uuid \<Rightarrow> 'd \<Rightarrow> 'r option"
    and put :: "'r \<Rightarrow> 'd \<Rightarrow> 'd"
    and add :: "'r \<Rightarrow> 'd \<Rightarrow> 'd"
    and key :: "'r \<Rightarrow> uuid"
    and live :: "'r \<Rightarrow> bool"
  assumes get_key: "get i d = Some r \<Longrightarrow> key r = i"
    and get_put_same: "get (key r) d = Some r0 \<Longrightarrow> live r \<Longrightarrow> get (key r) (put r d) = Some r"
    and get_put_other: "i \<noteq> key r \<Longrightarrow> get i (put r d) = get i d"
    and get_add_same: "get (key r) d = None \<Longrightarrow> live r \<Longrightarrow> get (key r) (add r d) = Some r"
    and get_add_other: "i \<noteq> key r \<Longrightarrow> get i (add r d) = get i d"
begin

lemma get_put:
  "get i d = Some r0 \<Longrightarrow> key r = i \<Longrightarrow> live r \<Longrightarrow> get j (put r d) = (if j = i then Some r else get j d)"
  using get_put_same get_put_other by auto

lemma get_put_found:
  assumes "get i d = Some r0" "live r" "get (key r) d = Some r1"
  shows "\<exists>r'. get i (put r d) = Some r'"
  using assms get_put_same [of r d r1] get_put_other [of i r d] by (cases "i = key r") auto

lemma get_add:
  "get (key r) d = None \<Longrightarrow> live r \<Longrightarrow> get j (add r d) = (if j = key r then Some r else get j d)"
  using get_add_same get_add_other by auto

lemma get_add_found: "get i d = Some r0 \<Longrightarrow> i \<noteq> key r \<Longrightarrow> get i (add r d) = Some r0"
  by (simp add: get_add_other)

end

definition find_business :: "uuid \<Rightarrow> db \<Rightarrow> Business option" where
  "find_business i d = live_row biz_id biz_deleted i (t_businesses d)"

definition find_offer :: "uuid \<Rightarrow> db \<Rightarrow> ServiceOffer option" where
  "find_offer i d = live_row so_id so_deleted i (t_service_offers d)"

definition find_version :: "uuid \<Rightarrow> db \<Rightarrow> BrainVersion option" where
  "find_version i d = live_row bv_id bv_deleted i (t_brain_versions d)"

definition find_enquiry :: "uuid \<Rightarrow> db \<Rightarrow> Enquiry option" where
  "find_enquiry i d = live_row enq_id enq_deleted i (t_enquiries d)"

definition put_enquiry :: "Enquiry \<Rightarrow> db \<Rightarrow> db" where
  "put_enquiry r d = d\<lparr>t_enquiries := upd_row enq_id (enq_id r) (\<lambda>_. r) (t_enquiries d)\<rparr>"

definition add_enquiry :: "Enquiry \<Rightarrow> db \<Rightarrow> db" where
  "add_enquiry r d = d\<lparr>t_enquiries := t_enquiries d @ [r]\<rparr>"

definition add_conversation :: "Conversation \<Rightarrow> db \<Rightarrow> db" where
  "add_conversation r d = d\<lparr>t_conversations := t_conversations d @ [r]\<rparr>"

definition add_message :: "Message \<Rightarrow> db \<Rightarrow> db" where
  "add_message r d = d\<lparr>t_messages := t_messages d @ [r]\<rparr>"

definition find_quote :: "uuid \<Rightarrow> db \<Rightarrow> Quote option" where
  "find_quote i d = live_row q_id q_deleted i (t_quotes d)"

definition put_quote :: "Quote \<Rightarrow> db \<Rightarrow> db" where
  "put_quote r d = d\<lparr>t_quotes := upd_row q_id (q_id r) (\<lambda>_. r) (t_quotes d)\<rparr>"

definition add_quote :: "Quote \<Rightarrow> db \<Rightarrow> db" where
  "add_quote r d = d\<lparr>t_quotes := t_quotes d @ [r]\<rparr>"

definition find_booking :: "uuid \<Rightarrow> db \<Rightarrow> Booking option" where
  "find_booking i d = live_row bk_id bk_deleted i (t_bookings d)"

definition put_booking :: "Booking \<Rightarrow> db \<Rightarrow> db" where
  "put_booking r d = d\<lparr>t_bookings := upd_row bk_id (bk_id r) (\<lambda>_. r) (t_bookings d)\<rparr>"

definition add_booking :: "Booking \<Rightarrow> db \<Rightarrow> db" where
  "add_booking r d = d\<lparr>t_bookings := t_bookings d @ [r]\<rparr>"

definition find_execution :: "uuid \<Rightarrow> db \<Rightarrow> ServiceExecution option" where
  "find_execution i d = live_row ex_id ex_deleted i (t_executions d)"

definition put_execution :: "ServiceExecution \<Rightarrow> db \<Rightarrow> db" where
  "put_execution r d = d\<lparr>t_executions := upd_row ex_id (ex_id r) (\<lambda>_. r) (t_executions d)\<rparr>"

definition add_execution :: "ServiceExecution \<Rightarrow> db \<Rightarrow> db" where
  "add_execution r d = d\<lparr>t_executions := t_executions d @ [r]\<rparr>"

definition find_invoice :: "uuid \<Rightarrow> db \<Rightarrow> Invoice option" where
  "find_invoice i d = live_row inv_id inv_deleted i (t_invoices d)"

definition put_invoice :: "Invoice \<Rightarrow> db \<Rightarrow> db" where
  "put_invoice r d = d\<lparr>t_invoices := upd_row inv_id (inv_id r) (\<lambda>_. r) (t_invoices d)\<rparr>"

definition add_invoice :: "Invoice \<Rightarrow> db \<Rightarrow> db" where
  "add_invoice r d = d\<lparr>t_invoices := t_invoices d @ [r]\<rparr>"

definition add_line_item :: "InvoiceLineItem \<Rightarrow> db \<Rightarrow> db" where
  "add_line_item r d = d\<lparr>t_line_items := t_line_items d @ [r]\<rparr>"

definition find_entry :: "uuid \<Rightarrow> db \<Rightarrow> ServiceLedgerEntry option" where
  "find_entry i d = live_row le_id le_deleted i (t_ledger d)"

definition put_entry :: "ServiceLedgerEntry \<Rightarrow> db \<Rightarrow> db" where
  "put_entry r d = d\<lparr>t_ledger := upd_row le_id (le_id r) (\<lambda>_. r) (t_ledger d)\<rparr>"

definition add_entry :: "ServiceLedgerEntry \<Rightarrow> db \<Rightarrow> db" where
  "add_entry r d = d\<lparr>t_ledger := t_ledger d @ [r]\<rparr>"

definition find_payment :: "uuid \<Rightarrow> db \<Rightarrow> Payment option" where
  "find_payment i d = live_row pay_id pay_deleted i (t_payments d)"

definition put_payment :: "Payment \<Rightarrow> db \<Rightarrow> db" where
  "put_payment r d = d\<lparr>t_payments := upd_row pay_id (pay_id r) (\<lambda>_. r) (t_payments d)\<rparr>"

definition add_payment :: "Payment \<Rightarrow> db \<Rightarrow> db" where
  "add_payment r d = d\<lparr>t_payments := t_payments d @ [r]\<rparr>"

definition add_attempt :: "PaymentAttempt \<Rightarrow> db \<Rightarrow> db" where
  "add_attempt r d = d\<lparr>t_attempts := t_attempts d @ [r]\<rparr>"

definition add_stripe_event :: "StripeEvent \<Rightarrow> db \<Rightarrow> db" where
  "add_stripe_event r d = d\<lparr>t_stripe_events := t_stripe_events d @ [r]\<rparr>"

definition find_review :: "uuid \<Rightarrow> db \<Rightarrow> Review option" where
  "find_review i d = live_row rev_id rev_deleted i (t_reviews d)"

definition put_review :: "Review \<Rightarrow> db \<Rightarrow> db" where
  "put_review r d = d\<lparr>t_reviews := upd_row rev_id (rev_id r) (\<lambda>_. r) (t_reviews d)\<rparr>"

definition add_review :: "Review \<Rightarrow> db \<Rightarrow> db" where
  "add_review r d = d\<lparr>t_reviews := t_reviews d @ [r]\<rparr>"

section \<open>Interpretations\<close>

interpretation enquiry_repo: repository find_enquiry put_enquiry add_enquiry enq_id "\<lambda>r. \<not> enq_deleted r"
  by unfold_locales
    (simp_all add: find_enquiry_def put_enquiry_def add_enquiry_def live_row_key live_row_put_same
       live_row_put_other live_row_add_same live_row_add_other)

interpretation quote_repo: repository find_quote put_quote add_quote q_id "\<lambda>r. \<not> q_deleted r"
  by unfold_locales
    (simp_all add: find_quote_def put_quote_def add_quote_def live_row_key live_row_put_same
       live_row_put_other live_row_add_same live_row_add_other)

interpretation booking_repo: repository find_booking put_booking add_booking bk_id "\<lambda>r. \<not> bk_deleted r"
  by unfold_locales
    (simp_all add: find_booking_def put_booking_def add_booking_def live_row_key live_row_put_same
       live_row_put_other live_row_add_same live_row_add_other)

interpretation execution_repo: repository find_execution put_execution add_execution ex_id "\<lambda>r. \<not> ex_deleted r"
  by unfold_locales
    (simp_all add: find_execution_def put_execution_def add_execution_def live_row_key live_row_put_same
       live_row_put_other live_row_add_same live_row_add_other)

interpretation invoice_repo: repository find_invoice put_invoice add_invoice inv_id "\<lambda>r. \<not> inv_deleted r"
  by unfold_locales
    (simp_all add: find_invoice_def put_invoice_def add_invoice_def live_row_key live_row_put_same
       live_row_put_other live_row_add_same live_row_add_other)

interpretation entry_repo: repository find_entry put_entry add_entry le_id "\<lambda>r. \<not> le_deleted r"
  by unfold_locales
    (simp_all add: find_entry_def put_entry_def add_entry_def live_row_key live_row_put_same
       live_row_put_other live_row_add_same live_row_add_other)

interpretation payment_repo: repository find_payment put_payment add_payment pay_id "\<lambda>r. \<not> pay_deleted r"
  by unfold_locales
    (simp_all add: find_payment_def put_payment_def add_payment_def live_row_key live_row_put_same
       live_row_put_other live_row_add_same live_row_add_other)

interpretation review_repo: repository find_review put_review add_review rev_id "\<lambda>r. \<not> rev_deleted r"
  by unfold_locales
    (simp_all add: find_review_def put_review_def add_review_def live_row_key live_row_put_same
       live_row_put_other live_row_add_same live_row_add_other)

lemmas table_access =
  find_business_def find_offer_def find_version_def find_enquiry_def find_quote_def
  find_booking_def find_execution_def find_invoice_def find_entry_def find_payment_def
  find_review_def put_enquiry_def add_enquiry_def put_quote_def add_quote_def put_booking_def
  add_booking_def put_execution_def add_execution_def put_invoice_def add_invoice_def
  put_entry_def add_entry_def put_payment_def add_payment_def put_review_def add_review_def
  add_conversation_def add_message_def add_line_item_def add_attempt_def add_stripe_event_def

section \<open>Lookups shared by the services\<close>

text \<open>\<open>ORDER BY created_at DESC LIMIT .. OFFSET ..\<close>.\<close>

definition page :: "('r \<Rightarrow> timestamp) \<Rightarrow> nat \<Rightarrow> nat \<Rightarrow> 'r list \<Rightarrow> 'r list" where
  "page created limit offset rows = take limit (drop offset (sort_desc created rows))"

lemma set_page: "set (page created limit offset rows) \<subseteq> set rows"
  unfolding page_def using set_take_subset set_drop_subset by fastforce

definition resolve_business :: "uuid \<Rightarrow> db \<Rightarrow> err + Business" where
  "resolve_business i d = requireE (NotFoundError ''Business not found'') (find_business i d)"

definition resolve_service_offer :: "uuid \<Rightarrow> db \<Rightarrow> err + ServiceOffer" where
  "resolve_service_offer i d = requireE (NotFoundError ''Service offer not found'') (find_offer i d)"

definition get_brain_by_business_id :: "uuid \<Rightarrow> db \<Rightarrow> err + BusinessBrain option" where
  "get_brain_by_business_id i d =
     scalar_one_or_none (filter (\<lambda>b. br_business_id b = i \<and> \<not> br_deleted b) (t_brains d))"

definition resolve_active_brain_version :: "uuid \<Rightarrow> db \<Rightarrow> err + BrainVersion option" where
  "resolve_active_brain_version i d =
     bindE (get_brain_by_business_id i d) (\<lambda>b.
     Inr (case b of
            None \<Rightarrow> None
          | Some br \<Rightarrow>
              (case br_active_version_id br of None \<Rightarrow> None | Some v \<Rightarrow> find_version v d)))"

text \<open>
  The step other services take on an enquiry: it moves from one status to the next when it is
  in the expected one, without a look at the transition table.
\<close>

definition advance_enquiry :: "uuid \<Rightarrow> EnquiryStatus \<Rightarrow> EnquiryStatus \<Rightarrow> db \<Rightarrow> db" where
  "advance_enquiry i from_status to_status d =
     (case find_enquiry i d of
        None \<Rightarrow> d
      | Some e \<Rightarrow>
          if enq_status e = from_status then put_enquiry (e\<lparr>enq_status := to_status\<rparr>) d else d)"

lemma find_enquiry_advance:
  "find_enquiry j (advance_enquiry i a b d) =
     map_option (\<lambda>e. if j = i \<and> enq_status e = a then e\<lparr>enq_status := b\<rparr> else e) (find_enquiry j d)"
proof (cases "find_enquiry i d")
  case None
  then show ?thesis by (cases "find_enquiry j d") (auto simp: advance_enquiry_def)
next
  case (Some e)
  then have e: "enq_id e = i" "\<not> enq_deleted e"
    using enquiry_repo.get_key [OF Some] by (auto simp: find_enquiry_def dest: live_row_SomeD)
  have "find_enquiry j (put_enquiry (e\<lparr>enq_status := b\<rparr>) d) =
      (if j = i then Some (e\<lparr>enq_status := b\<rparr>) else find_enquiry j d)"
    using enquiry_repo.get_put [OF Some, of "e\<lparr>enq_status := b\<rparr>" j] e by simp
  then show ?thesis
    using Some by (cases "find_enquiry j d") (auto simp: advance_enquiry_def)
qed

text \<open>Only the table of enquiries changes.\<close>

lemma advance_enquiry_tables [simp]:
  "t_businesses (advance_enquiry i a b d) = t_businesses d" "t_quotes (advance_enquiry i a b d) = t_quotes d"
  "t_bookings (advance_enquiry i a b d) = t_bookings d" "t_executions (advance_enquiry i a b d) = t_executions d"
  "t_invoices (advance_enquiry i a b d) = t_invoices d" "t_line_items (advance_enquiry i a b d) = t_line_items d"
  "t_ledger (advance_enquiry i a b d) = t_ledger d" "t_payments (advance_enquiry i a b d) = t_payments d"
  "t_outbox (advance_enquiry i a b d) = t_outbox d" "fresh (advance_enquiry i a b d) = fresh d"
  "t_brains (advance_enquiry i a b d) = t_brains d" "t_brain_versions (advance_enquiry i a b d) = t_brain_versions d"
  "t_service_offers (advance_enquiry i a b d) = t_service_offers d" "t_policies (advance_enquiry i a b d) = t_policies d"
  "t_reviews (advance_enquiry i a b d) = t_reviews d"
  by (simp_all add: advance_enquiry_def put_enquiry_def split: option.split)

text \<open>\<open>str\<close> of an amount of two places.\<close>

definition money_str :: "money \<Rightarrow> string" where
  "money_str x =
     (let cents = nat \<lfloor>\<bar>x\<bar> * 100\<rfloor>
      in (if x < 0 then ''-'' else []) @ nat_str (cents div 100) @ ''.'' @ pad_digits 2 (cents mod 100))"

text \<open>A Numeric(12, 2) column takes amounts below ten to the tenth; others are a DataError.\<close>

definition numeric_12_2 :: "money \<Rightarrow> bool" where
  "numeric_12_2 x \<longleftrightarrow> \<bar>x\<bar> < 10 ^ 10"

text \<open>A database without rows, for evaluating examples.\<close>

definition empty_db :: db where
  "empty_db = \<lparr>t_users = [], t_businesses = [], t_profiles = [], t_members = [], t_invitations = [], t_categories = [],
     t_service_offers = [], t_brains = [],
     t_brain_versions = [], t_policies = [], t_enquiries = [], t_conversations = [], t_messages = [],
     t_quotes = [], t_bookings = [], t_executions = [], t_invoices = [], t_line_items = [],
     t_ledger = [], t_payments = [], t_attempts = [], t_stripe_events = [], t_reviews = [],
     t_outbox = [], t_communications = [], t_recipients = [], t_comm_attempts = [], t_templates = [],
     t_template_versions = [], t_channels = [], t_purposes = [], t_preferences = [], t_webhooks = [],
     t_comm_audit = [], t_notifications = [], t_calendars = [], t_calendar_syncs = [], t_automation = [],
     fresh = 1000\<rparr>"

text \<open>A business with one offer at a fixed price, an enquiry and a quote, for examples.\<close>

definition sample_env :: env where
  "sample_env = \<lparr>env_now = 100, env_re_search = no_regex\<rparr>"

definition sample_business :: Business where
  "sample_business =
     \<lparr>biz_id = 1, biz_name = ''Sparkle'', biz_slug = ''sparkle'', biz_status = Biz_ACTIVE, biz_currency = ''GBP'', biz_stripe_account_id = None,
      biz_stripe_connect_status = Sca_NONE, biz_stripe_charges_enabled = False, biz_stripe_payouts_enabled = False,
      biz_stripe_details = JNull,
      biz_platform_fee_percent = 0, biz_deleted = False\<rparr>"

definition sample_enquiry :: "uuid \<Rightarrow> EnquiryStatus \<Rightarrow> Enquiry" where
  "sample_enquiry i st =
     \<lparr>enq_id = i, enq_reference = ''ENQ-1'', enq_customer_id = 2, enq_business_id = 1,
      enq_service_offer_id = 7, enq_subject = ''Clean'', enq_message = ''Two rooms'', enq_status = st,
      enq_brain_version_id = None, enq_metadata = simple_decision ALLOW None [], enq_created_at = 10,
      enq_deleted = False\<rparr>"

definition sample_price :: PricingResult where
  "sample_price = price_of 80 ''GBP'' None empty_pricing"

definition sample_quote :: "uuid \<Rightarrow> QuoteStatus \<Rightarrow> Quote" where
  "sample_quote i st =
     \<lparr>q_id = i, q_reference = ''QUO-1'', q_customer_id = 2, q_business_id = 1, q_enquiry_id = 20,
      q_service_offer_id = 7, q_amount = 80, q_currency = ''GBP'', q_status = st,
      q_brain_version_id = None, q_pricing_evidence = sample_price, q_fee_evidence = None,
      q_notes = None, q_created_at = 20, q_deleted = False\<rparr>"

definition market_db :: "EnquiryStatus \<Rightarrow> QuoteStatus \<Rightarrow> db" where
  "market_db es qs =
     empty_db\<lparr>t_businesses := [sample_business],
              t_service_offers := [sample_offer ''fixed'' [(''amount'', JInt 80)]],
              t_enquiries := [sample_enquiry 20 es], t_quotes := [sample_quote 30 qs]\<rparr>"

lemmas market_defs =
  market_db_def empty_db_def sample_env_def sample_business_def sample_enquiry_def sample_quote_def
  sample_offer_def no_regex_def live_row_def find_enquiry_def find_quote_def find_business_def find_offer_def

end
