(* ===== verification/Outbox.thy ===== *)
theory Outbox
  imports Data_Model
begin

text \<open>
  The transactional outbox: emission inside a service's transaction (the
  \<open>_emit_outbox_event\<close> methods of the services), the repository that claims and marks
  events (src/backend/app/domain/outbox/repository.py) and the worker loop
  (src/backend/app/workers/__init__.py).  The idempotency key
  \<open>f"{event_type}:{aggregate_type}:{aggregate_id}"\<close> is the triple of its parts; the unique
  index on it makes a second insert an IntegrityError.  The events of the business endpoints
  append the statuses and the second of the request to that text: their suffix joins the event
  type, which has no colon.
\<close>

section \<open>Emission\<close>

type_synonym event_key = "string \<times> string \<times> uuid"
type_synonym payload = "(string \<times> pval) list"

definition event_key :: "OutboxEvent \<Rightarrow> event_key" where
  "event_key e = (oe_event_type e @ oe_key_suffix e, oe_aggregate_type e, oe_aggregate_id e)"

definition outbox_keys :: "db \<Rightarrow> event_key list" where
  "outbox_keys d = map event_key (t_outbox d)"

definition new_event ::
  "env \<Rightarrow> uuid \<Rightarrow> uuid \<Rightarrow> string \<Rightarrow> string \<Rightarrow> uuid \<Rightarrow> payload \<Rightarrow> OutboxEvent" where
  "new_event ev i business_id ety agg agg_id pl =
     \<lparr>oe_id = i, oe_business_id = business_id, oe_event_type = ety, oe_aggregate_type = agg,
      oe_aggregate_id = agg_id, oe_key_suffix = [], oe_payload = pl, oe_status = Obx_PENDING, oe_attempt_count = 0,
      oe_available_at = env_now ev, oe_processed_at = None, oe_last_error = None,
      oe_processing_started_at = None\<rparr>"

definition emit_outbox_event ::
  "env \<Rightarrow> string \<Rightarrow> uuid \<Rightarrow> string \<Rightarrow> uuid \<Rightarrow> payload \<Rightarrow> db \<Rightarrow> err + db" where
  "emit_outbox_event ev agg business_id ety agg_id pl d =
     (if (ety, agg, agg_id) \<in> set (outbox_keys d)
      then Inl (IntegrityError ''outbox_events.idempotency_key'')
      else Inr (used_id (d\<lparr>t_outbox := t_outbox d @ [new_event ev (fresh_id d) business_id ety agg agg_id pl]\<rparr>)))"

definition emit_quote_event :: "env \<Rightarrow> uuid \<Rightarrow> string \<Rightarrow> uuid \<Rightarrow> payload \<Rightarrow> db \<Rightarrow> err + db" where
  "emit_quote_event ev = emit_outbox_event ev ''quote''"

definition emit_booking_event :: "env \<Rightarrow> uuid \<Rightarrow> string \<Rightarrow> uuid \<Rightarrow> payload \<Rightarrow> db \<Rightarrow> err + db" where
  "emit_booking_event ev = emit_outbox_event ev ''booking''"

definition emit_enquiry_event :: "env \<Rightarrow> uuid \<Rightarrow> string \<Rightarrow> uuid \<Rightarrow> payload \<Rightarrow> db \<Rightarrow> err + db" where
  "emit_enquiry_event ev = emit_outbox_event ev ''enquiry''"

definition emit_execution_event :: "env \<Rightarrow> uuid \<Rightarrow> string \<Rightarrow> uuid \<Rightarrow> payload \<Rightarrow> db \<Rightarrow> err + db" where
  "emit_execution_event ev = emit_outbox_event ev ''service_execution''"

definition emit_payment_event :: "env \<Rightarrow> uuid \<Rightarrow> string \<Rightarrow> uuid \<Rightarrow> payload \<Rightarrow> db \<Rightarrow> err + db" where
  "emit_payment_event ev = emit_outbox_event ev ''payment''"

definition emit_stripe_event :: "env \<Rightarrow> uuid \<Rightarrow> string \<Rightarrow> uuid \<Rightarrow> payload \<Rightarrow> db \<Rightarrow> err + db" where
  "emit_stripe_event ev = emit_outbox_event ev ''payment''"

definition emit_review_event :: "env \<Rightarrow> uuid \<Rightarrow> string \<Rightarrow> uuid \<Rightarrow> payload \<Rightarrow> db \<Rightarrow> err + db" where
  "emit_review_event ev = emit_outbox_event ev ''review''"

text \<open>\<open>_emit_business_outbox_event\<close>, whose key has a suffix.\<close>

definition emit_business_event ::
  "env \<Rightarrow> string \<Rightarrow> uuid \<Rightarrow> string \<Rightarrow> string \<Rightarrow> uuid \<Rightarrow> payload \<Rightarrow> db \<Rightarrow> err + db" where
  "emit_business_event ev agg business_id ety suffix agg_id pl d =
     (if (ety @ suffix, agg, agg_id) \<in> set (outbox_keys d)
      then Inl (IntegrityError ''outbox_events.idempotency_key'')
      else Inr (used_id (d\<lparr>t_outbox := t_outbox d @
             [(new_event ev (fresh_id d) business_id ety agg agg_id pl)\<lparr>oe_key_suffix := suffix\<rparr>]\<rparr>)))"

lemmas emit_defs =
  emit_quote_event_def emit_booking_event_def emit_enquiry_event_def emit_execution_event_def
  emit_payment_event_def emit_stripe_event_def emit_review_event_def

lemma emit_Inr_iff:
  "emit_outbox_event ev agg b ety i pl d = Inr d' \<longleftrightarrow>
     (ety, agg, i) \<notin> set (outbox_keys d) \<and>
     d' = used_id (d\<lparr>t_outbox := t_outbox d @ [new_event ev (fresh_id d) b ety agg i pl]\<rparr>)"
  by (auto simp: emit_outbox_event_def)

lemma emit_Inl_iff:
  "emit_outbox_event ev agg b ety i pl d = Inl e \<longleftrightarrow>
     (ety, agg, i) \<in> set (outbox_keys d) \<and> e = IntegrityError ''outbox_events.idempotency_key''"
  by (auto simp: emit_outbox_event_def)

lemma event_key_new_event [simp]: "event_key (new_event ev i b ety agg j pl) = (ety, agg, j)"
  by (simp add: event_key_def new_event_def)

lemma outbox_keys_emit:
  "emit_outbox_event ev agg b ety i pl d = Inr d' \<Longrightarrow> outbox_keys d' = outbox_keys d @ [(ety, agg, i)]"
  by (auto simp: emit_Inr_iff outbox_keys_def used_id_def)

text \<open>
  The contract a service relies on: an accepted emission appends exactly its key, and a
  key that is present is refused.
\<close>

locale outbox_emitter =
  fixes emit :: "uuid \<Rightarrow> string \<Rightarrow> uuid \<Rightarrow> payload \<Rightarrow> db \<Rightarrow> err + db"
    and agg :: string
  assumes emit_keys: "emit b ety i pl d = Inr d' \<Longrightarrow> outbox_keys d' = outbox_keys d @ [(ety, agg, i)]"
    and emit_refuses: "(\<exists>e. emit b ety i pl d = Inl e) \<longleftrightarrow> (ety, agg, i) \<in> set (outbox_keys d)"
begin

lemma emit_distinct:
  "emit b ety i pl d = Inr d' \<Longrightarrow> distinct (outbox_keys d) \<Longrightarrow> distinct (outbox_keys d')"
  using emit_keys [of b ety i pl d d'] emit_refuses [of b ety i pl d] by auto

lemma emit_once:
  "emit b ety i pl d = Inr d' \<Longrightarrow> \<exists>e. emit b' ety i pl' d' = Inl e"
  using emit_keys [of b ety i pl d d'] emit_refuses [of b' ety i pl' d'] by simp

lemma emit_fresh_key: "(ety, agg, i) \<notin> set (outbox_keys d) \<Longrightarrow> \<exists>d'. emit b ety i pl d = Inr d'"
  using emit_refuses [of b ety i pl d] by (cases "emit b ety i pl d") auto

end

lemma outbox_emitter_emit: "outbox_emitter (emit_outbox_event ev agg) agg"
  by unfold_locales (auto simp: outbox_keys_emit emit_Inl_iff)

interpretation quote_events: outbox_emitter "emit_quote_event ev" "''quote''" for ev
  unfolding emit_quote_event_def by (rule outbox_emitter_emit)

interpretation booking_events: outbox_emitter "emit_booking_event ev" "''booking''" for ev
  unfolding emit_booking_event_def by (rule outbox_emitter_emit)

interpretation enquiry_events: outbox_emitter "emit_enquiry_event ev" "''enquiry''" for ev
  unfolding emit_enquiry_event_def by (rule outbox_emitter_emit)

interpretation execution_events: outbox_emitter "emit_execution_event ev" "''service_execution''" for ev
  unfolding emit_execution_event_def by (rule outbox_emitter_emit)

interpretation payment_events: outbox_emitter "emit_payment_event ev" "''payment''" for ev
  unfolding emit_payment_event_def by (rule outbox_emitter_emit)

interpretation stripe_emitted: outbox_emitter "emit_stripe_event ev" "''payment''" for ev
  unfolding emit_stripe_event_def by (rule outbox_emitter_emit)

interpretation review_events: outbox_emitter "emit_review_event ev" "''review''" for ev
  unfolding emit_review_event_def by (rule outbox_emitter_emit)

section \<open>Claiming and marking\<close>

text \<open>The UPDATE that returns stuck PROCESSING events past their lease to RETRYABLE.\<close>

definition lease_expired :: "timestamp \<Rightarrow> int \<Rightarrow> OutboxEvent \<Rightarrow> bool" where
  "lease_expired now lease_seconds e \<longleftrightarrow>
     oe_status e = Obx_PROCESSING \<and>
     (case oe_processing_started_at e of
        None \<Rightarrow> False | Some s \<Rightarrow> s < now - lease_seconds * us_per_second)"

definition reclaim :: "timestamp \<Rightarrow> int \<Rightarrow> OutboxEvent \<Rightarrow> OutboxEvent" where
  "reclaim now lease_seconds e =
     (if lease_expired now lease_seconds e
      then e\<lparr>oe_status := Obx_RETRYABLE, oe_available_at := now, oe_processing_started_at := None\<rparr>
      else e)"

definition claimable :: "timestamp \<Rightarrow> OutboxEvent \<Rightarrow> bool" where
  "claimable now e \<longleftrightarrow> oe_status e \<in> {Obx_PENDING, Obx_RETRYABLE} \<and> oe_available_at e \<le> now"

definition claim_row :: "timestamp \<Rightarrow> OutboxEvent \<Rightarrow> OutboxEvent" where
  "claim_row now e = e\<lparr>oe_status := Obx_PROCESSING, oe_processing_started_at := Some now,
     oe_attempt_count := oe_attempt_count e + 1\<rparr>"

text \<open>
  \<open>locked\<close> tells which rows a concurrent transaction has locked: SKIP LOCKED passes over
  them.
\<close>

definition claim_pending_events ::
  "timestamp \<Rightarrow> (uuid \<Rightarrow> bool) \<Rightarrow> nat \<Rightarrow> int \<Rightarrow> OutboxEvent list \<Rightarrow> OutboxEvent list \<times> OutboxEvent list" where
  "claim_pending_events now locked batch_size lease_seconds rows =
     (let rows1 = map (reclaim now lease_seconds) rows;
          chosen = take batch_size (sort_key oe_available_at
                     (filter (\<lambda>e. claimable now e \<and> \<not> locked (oe_id e)) rows1))
      in (map (claim_row now) chosen,
          map (\<lambda>e. if oe_id e \<in> set (map oe_id chosen) then claim_row now e else e) rows1))"

definition mark_processed :: "timestamp \<Rightarrow> uuid \<Rightarrow> OutboxEvent list \<Rightarrow> OutboxEvent list" where
  "mark_processed now i rows = upd_row oe_id i
     (\<lambda>e. e\<lparr>oe_status := Obx_PROCESSED, oe_processed_at := Some now, oe_processing_started_at := None\<rparr>) rows"

definition mark_retryable ::
  "timestamp \<Rightarrow> uuid \<Rightarrow> string \<Rightarrow> int \<Rightarrow> OutboxEvent list \<Rightarrow> OutboxEvent list" where
  "mark_retryable now i msg retry_after_seconds rows = upd_row oe_id i
     (\<lambda>e. e\<lparr>oe_status := Obx_RETRYABLE, oe_last_error := Some msg,
            oe_available_at := now + retry_after_seconds * us_per_second,
            oe_processing_started_at := None\<rparr>) rows"

definition mark_failed :: "timestamp \<Rightarrow> uuid \<Rightarrow> string \<Rightarrow> OutboxEvent list \<Rightarrow> OutboxEvent list" where
  "mark_failed now i msg rows = upd_row oe_id i
     (\<lambda>e. e\<lparr>oe_status := Obx_FAILED, oe_last_error := Some msg, oe_processed_at := Some now,
            oe_processing_started_at := None\<rparr>) rows"

section \<open>The worker\<close>

text \<open>
  The orchestrators are parameters: \<open>process\<close> handles communication events, \<open>voice\<close> the
  \<open>voice.*\<close> events when configured.  Each returns the database it leaves or raises; a raise
  rolls back to the state before the event.  The booking automation swallows its own failures, but
  it commits on its way and may leave a session that only a rollback revives, so that the next
  statement of the worker raises: it takes the database as last committed and as it stands, and
  returns \<open>Inr\<close> of the database, or \<open>Inl\<close> of the error's text and the last commit when the session
  is lost.
\<close>

definition err_text :: "err \<Rightarrow> string" where
  "err_text e = (case e of
      NotFoundError m \<Rightarrow> m | ConflictError m \<Rightarrow> m | AuthorizationError m \<Rightarrow> m
    | TenantIsolationError m \<Rightarrow> m | ValidationError m \<Rightarrow> m | StateTransitionError m \<Rightarrow> m
    | DomainError m \<Rightarrow> m | ValueError m \<Rightarrow> m | InvalidOperation \<Rightarrow> ''InvalidOperation''
    | IntegrityError m \<Rightarrow> m | MultipleResultsFound \<Rightarrow> ''MultipleResultsFound'' | DataError m \<Rightarrow> m
    | ProviderError m \<Rightarrow> m | AttributeError m \<Rightarrow> m | ReviewEligibilityError m \<Rightarrow> m | TypeError m \<Rightarrow> m | ImportError m \<Rightarrow> m
    | KeyError m \<Rightarrow> m | AuthenticationError m \<Rightarrow> m | HTTPException n m \<Rightarrow> m)"

definition BOOKING_AUTOMATION_EVENTS :: "string list" where
  "BOOKING_AUTOMATION_EVENTS =
     [''BOOKING_CONFIRMED'', ''BOOKING_CANCELLED'', ''BOOKING_COMPLETED'', ''BOOKING_IN_PROGRESS'']"

record worker =
  wk_process :: "OutboxEvent \<Rightarrow> db \<Rightarrow> err + db"
  wk_voice :: "(OutboxEvent \<Rightarrow> db \<Rightarrow> err + db) option"
  wk_automation :: "(OutboxEvent \<Rightarrow> db \<Rightarrow> db \<Rightarrow> (string \<times> db) + db) option"
  wk_batch_size :: nat
  wk_lease_seconds :: int
  wk_max_attempts :: nat

definition route_event :: "worker \<Rightarrow> OutboxEvent \<Rightarrow> db \<Rightarrow> err + db" where
  "route_event w e d =
     (if py_prefix ''voice.'' (oe_event_type e) then
        (case wk_voice w of
           None \<Rightarrow> Inl (DomainError ''no voice orchestrator is configured'')
         | Some v \<Rightarrow> v e d)
      else wk_process w e d)"

definition run_automation :: "worker \<Rightarrow> OutboxEvent \<Rightarrow> db \<Rightarrow> db \<Rightarrow> (string \<times> db) + db" where
  "run_automation w e committed d =
     (case wk_automation w of
        None \<Rightarrow> Inr d
      | Some a \<Rightarrow>
          if oe_aggregate_type e = ''booking'' \<and> oe_event_type e \<in> set BOOKING_AUTOMATION_EVENTS
          then a e committed d else Inr d)"

definition fail_event :: "timestamp \<Rightarrow> worker \<Rightarrow> OutboxEvent \<Rightarrow> string \<Rightarrow> db \<Rightarrow> db" where
  "fail_event now w e msg d =
     (if oe_attempt_count e \<ge> wk_max_attempts w
      then d\<lparr>t_outbox := mark_failed now (oe_id e) (take 1000 msg) (t_outbox d)\<rparr>
      else d\<lparr>t_outbox := mark_retryable now (oe_id e) (take 1000 msg) 60 (t_outbox d)\<rparr>)"

definition process_event :: "timestamp \<Rightarrow> worker \<Rightarrow> OutboxEvent \<Rightarrow> db \<times> nat \<Rightarrow> db \<times> nat" where
  "process_event now w e s =
     (case route_event w e (fst s) of
        Inr d1 \<Rightarrow>
          (case run_automation w e (fst s) d1 of
             Inr d2 \<Rightarrow> (d2\<lparr>t_outbox := mark_processed now (oe_id e) (t_outbox d2)\<rparr>, snd s + 1)
           | Inl (msg, committed) \<Rightarrow> (fail_event now w e msg committed, snd s))
      | Inl x \<Rightarrow> (fail_event now w e (err_text x) (fst s), snd s))"

definition process_outbox_events :: "timestamp \<Rightarrow> (uuid \<Rightarrow> bool) \<Rightarrow> worker \<Rightarrow> db \<Rightarrow> db \<times> nat" where
  "process_outbox_events now locked w d =
     (let (events, rows) = claim_pending_events now locked (wk_batch_size w) (wk_lease_seconds w) (t_outbox d)
      in fold (process_event now w) events (d\<lparr>t_outbox := rows\<rparr>, 0))"


section \<open>Lemmas\<close>

lemma reclaim_id [simp]: "oe_id (reclaim now l e) = oe_id e"
  by (simp add: reclaim_def)

lemma reclaim_attempts [simp]: "oe_attempt_count (reclaim now l e) = oe_attempt_count e"
  by (simp add: reclaim_def)

lemma claim_row_simps [simp]:
  "oe_id (claim_row now e) = oe_id e"
  "oe_status (claim_row now e) = Obx_PROCESSING"
  "oe_processing_started_at (claim_row now e) = Some now"
  "oe_attempt_count (claim_row now e) = Suc (oe_attempt_count e)"
  by (simp_all add: claim_row_def)

lemma claimable_reclaim: "claimable now (reclaim now l e) \<longleftrightarrow> claimable now e \<or> lease_expired now l e"
  by (auto simp: claimable_def reclaim_def lease_expired_def)

lemma take_sort_key_min:
  assumes "x \<in> set (take n (sort_key k xs))" "y \<in> set xs" "y \<notin> set (take n (sort_key k xs))"
  shows "k x \<le> k y"
proof -
  have "sorted (map k (take n (sort_key k xs) @ drop n (sort_key k xs)))"
    by simp
  then have "\<forall>a\<in>set (take n (sort_key k xs)). \<forall>b\<in>set (drop n (sort_key k xs)). k a \<le> k b"
    unfolding map_append sorted_append by auto
  moreover have "y \<in> set (take n (sort_key k xs) @ drop n (sort_key k xs))"
    using assms(2) unfolding append_take_drop_id by simp
  ultimately show ?thesis
    using assms(1,3) by (metis Un_iff set_append)
qed

definition chosen_events :: "timestamp \<Rightarrow> (uuid \<Rightarrow> bool) \<Rightarrow> nat \<Rightarrow> int \<Rightarrow> OutboxEvent list \<Rightarrow> OutboxEvent list" where
  "chosen_events now locked n l rows =
     take n (sort_key oe_available_at
       (filter (\<lambda>e. claimable now e \<and> \<not> locked (oe_id e)) (map (reclaim now l) rows)))"

lemma claim_pending_events_eq:
  "claim_pending_events now locked n l rows =
     (map (claim_row now) (chosen_events now locked n l rows),
      map (\<lambda>e. if oe_id e \<in> set (map oe_id (chosen_events now locked n l rows)) then claim_row now e else e)
        (map (reclaim now l) rows))"
  by (simp only: claim_pending_events_def chosen_events_def Let_def)

lemma chosen_eventsD:
  assumes "e \<in> set (chosen_events now locked n l rows)"
  shows "e \<in> reclaim now l ` set rows" "claimable now e" "\<not> locked (oe_id e)"
  using assms unfolding chosen_events_def by (auto dest!: in_set_takeD)

lemma length_chosen_events: "length (chosen_events now locked n l rows) \<le> n"
  by (simp add: chosen_events_def)

text \<open>An orchestrator may append events of its own but leaves the existing rows alone.\<close>

definition appends_events :: "db \<Rightarrow> db \<Rightarrow> bool" where
  "appends_events d d' \<longleftrightarrow>
     (\<exists>new. t_outbox d' = t_outbox d @ new \<and>
        (\<forall>e\<in>set new. oe_status e = Obx_PENDING \<and> oe_attempt_count e = 0 \<and> oe_id e \<notin> oe_id ` set (t_outbox d)))"

definition append_only :: "worker \<Rightarrow> bool" where
  "append_only w \<longleftrightarrow>
     (\<forall>e d d'. route_event w e d = Inr d' \<longrightarrow> appends_events d d') \<and>
     (\<forall>e c d. appends_events c d \<longrightarrow>
        (case run_automation w e c d of Inl (msg, c') \<Rightarrow> appends_events c c' | Inr d' \<Rightarrow> appends_events c d'))"

lemma appends_events_trans: "appends_events a b \<Longrightarrow> appends_events b c \<Longrightarrow> appends_events a c"
  unfolding appends_events_def by (metis (no_types, lifting) UnE Un_iff append.assoc image_Un set_append)

definition batch_inv :: "nat \<Rightarrow> OutboxEvent list \<Rightarrow> uuid set \<Rightarrow> OutboxEvent list \<Rightarrow> bool" where
  "batch_inv m es finished rows \<longleftrightarrow>
     (\<forall>r\<in>set rows. oe_status r \<in> {Obx_PENDING, Obx_RETRYABLE} \<longrightarrow> oe_attempt_count r < m) \<and>
     (\<forall>r\<in>set rows. oe_id r \<in> finished \<longrightarrow> oe_status r \<noteq> Obx_PROCESSING) \<and>
     (\<forall>e\<in>set es. oe_attempt_count e \<le> m \<and> oe_id e \<in> oe_id ` set rows \<and>
        (\<forall>r\<in>set rows. oe_id r = oe_id e \<longrightarrow> oe_attempt_count r = oe_attempt_count e))"

lemma batch_invD:
  assumes "batch_inv m es fin rows"
  shows "r \<in> set rows \<Longrightarrow> oe_status r \<in> {Obx_PENDING, Obx_RETRYABLE} \<Longrightarrow> oe_attempt_count r < m"
    and "r \<in> set rows \<Longrightarrow> oe_id r \<in> fin \<Longrightarrow> oe_status r \<noteq> Obx_PROCESSING"
    and "e \<in> set es \<Longrightarrow> oe_attempt_count e \<le> m"
    and "e \<in> set es \<Longrightarrow> oe_id e \<in> oe_id ` set rows"
    and "e \<in> set es \<Longrightarrow> r \<in> set rows \<Longrightarrow> oe_id r = oe_id e \<Longrightarrow> oe_attempt_count r = oe_attempt_count e"
  using assms unfolding batch_inv_def by blast+

lemma batch_inv_append:
  assumes "batch_inv m es fin (t_outbox d)" "appends_events d d'" "0 < m"
  shows "batch_inv m es fin (t_outbox d')"
proof -
  obtain new where "t_outbox d' = t_outbox d @ new"
    "\<forall>e\<in>set new. oe_status e = Obx_PENDING \<and> oe_attempt_count e = 0 \<and> oe_id e \<notin> oe_id ` set (t_outbox d)"
    using assms(2) by (auto simp: appends_events_def)
  then show ?thesis
    using assms(1,3) by (fastforce simp: batch_inv_def)
qed

lemma batch_inv_mark:
  assumes "batch_inv m (e # es) fin rows"
    and "\<And>r. oe_id (f r) = oe_id r" "\<And>r. oe_attempt_count (f r) = oe_attempt_count r"
    and "\<And>r. oe_status (f r) \<noteq> Obx_PROCESSING"
    and "\<And>r. oe_status (f r) \<in> {Obx_PENDING, Obx_RETRYABLE} \<Longrightarrow> oe_attempt_count e < m"
  shows "batch_inv m es (insert (oe_id e) fin) (upd_row oe_id (oe_id e) f rows)"
proof -
  have ids: "oe_id ` set (upd_row oe_id (oe_id e) f rows) = oe_id ` set rows"
    using assms(2) by (simp flip: set_map add: map_key_upd_row)
  have old: "(r \<in> set rows \<and> oe_id r \<noteq> oe_id e) \<or>
      (\<exists>r0\<in>set rows. oe_id r0 = oe_id e \<and> r = f r0)" if "r \<in> set (upd_row oe_id (oe_id e) f rows)" for r
    using that by (auto elim!: in_set_upd_rowE)
  note inv = batch_invD [OF assms(1)]
  show ?thesis
    unfolding batch_inv_def ids
  proof (intro conjI ballI impI)
    fix r assume r: "r \<in> set (upd_row oe_id (oe_id e) f rows)"
    then consider "r \<in> set rows" "oe_id r \<noteq> oe_id e" | s where "s \<in> set rows" "oe_id s = oe_id e" "r = f s"
      by (rule in_set_upd_rowE)
    note old = this
    show "oe_attempt_count r < m" if "oe_status r \<in> {Obx_PENDING, Obx_RETRYABLE}"
      using old
    proof cases
      case 1
      then show ?thesis using inv(1) that by blast
    next
      case (2 s)
      then have "oe_attempt_count r = oe_attempt_count e" using inv(5) [of e s] assms(3) by simp
      then show ?thesis using assms(5) that 2(3) by metis
    qed
    show "oe_status r \<noteq> Obx_PROCESSING" if "oe_id r \<in> insert (oe_id e) fin"
      using old by cases (use inv(2) [of r] that assms(4) in auto)
    show "oe_attempt_count r = oe_attempt_count x" if "x \<in> set es" "oe_id r = oe_id x" for x
      using old
    proof cases
      case 1
      then show ?thesis using inv(5) [of x r] that by simp
    next
      case (2 s)
      then show ?thesis using inv(5) [of x s] that assms(2,3) by simp
    qed
  qed (use inv(3,4) in simp_all)
qed

lemma fail_event_batch_inv:
  assumes "batch_inv (wk_max_attempts w) (e # es) fin (t_outbox d)"
  shows "batch_inv (wk_max_attempts w) es (insert (oe_id e) fin) (t_outbox (fail_event now w e msg d))"
proof (cases "oe_attempt_count e \<ge> wk_max_attempts w")
  case True
  then show ?thesis using assms by (simp add: fail_event_def mark_failed_def) (rule batch_inv_mark; simp)
next
  case False
  then show ?thesis using assms by (simp add: fail_event_def mark_retryable_def) (rule batch_inv_mark; simp)
qed

lemma process_event_batch_inv:
  assumes "batch_inv (wk_max_attempts w) (e # es) fin (t_outbox (fst s))"
    and "append_only w" "0 < wk_max_attempts w"
  shows "batch_inv (wk_max_attempts w) es (insert (oe_id e) fin) (t_outbox (fst (process_event now w e s)))"
proof (cases "route_event w e (fst s)")
  case (Inr d1)
  then have "appends_events (fst s) d1" using assms(2) unfolding append_only_def by blast
  then have auto: "case run_automation w e (fst s) d1 of Inl (msg, c) \<Rightarrow> appends_events (fst s) c | Inr d2 \<Rightarrow> appends_events (fst s) d2"
    using assms(2) unfolding append_only_def by blast
  show ?thesis
  proof (cases "run_automation w e (fst s) d1")
    case lost: (Inl mc)
    obtain msg c where mc: "mc = (msg, c)" by (cases mc)
    then have "batch_inv (wk_max_attempts w) (e # es) fin (t_outbox c)"
      using auto lost assms(1,3) batch_inv_append by simp
    then show ?thesis using Inr lost mc fail_event_batch_inv by (simp add: process_event_def)
  next
    case live: (Inr d2)
    then have "batch_inv (wk_max_attempts w) (e # es) fin (t_outbox d2)"
      using auto assms(1,3) batch_inv_append by simp
    then show ?thesis
      using Inr live by (simp add: process_event_def mark_processed_def) (rule batch_inv_mark; simp)
  qed
qed (use assms(1) fail_event_batch_inv in \<open>simp add: process_event_def\<close>)

lemma process_events_batch_inv:
  assumes "batch_inv (wk_max_attempts w) es fin (t_outbox (fst s))"
    and "append_only w" "0 < wk_max_attempts w"
  shows "batch_inv (wk_max_attempts w) [] (oe_id ` set es \<union> fin)
    (t_outbox (fst (fold (process_event now w) es s)))"
  using assms(1)
proof (induction es arbitrary: fin s)
  case (Cons e es)
  have "batch_inv (wk_max_attempts w) es (insert (oe_id e) fin) (t_outbox (fst (process_event now w e s)))"
    using process_event_batch_inv Cons.prems assms(2,3) by blast
  from Cons.IH [OF this] show ?case by simp
qed simp

lemma process_events_count: "snd (fold (process_event now w) es s) \<le> snd s + length es"
proof (induction es arbitrary: s)
  case (Cons e es)
  have "snd (process_event now w e s) \<le> snd s + 1"
    by (simp add: process_event_def Let_def split: sum.splits)
  then show ?case using Cons.IH [of "process_event now w e s"] by simp
qed simp

section \<open>Properties\<close>

text \<open>A claim takes at most a batch of events, each of them pending or retryable and due, or
  stuck past its lease, and none locked by another transaction; the claimed events are the
  oldest ones, and each is returned in processing with its attempt counted.\<close>

theorem claim_takes_oldest_due_events:
  assumes "claim_pending_events now locked n l rows = (es, rows')"
  shows "length es \<le> n \<and>
    (\<forall>e\<in>set es. oe_status e = Obx_PROCESSING \<and> oe_processing_started_at e = Some now \<and> \<not> locked (oe_id e) \<and>
       (\<exists>r\<in>set rows. oe_id r = oe_id e \<and> (claimable now r \<or> lease_expired now l r) \<and>
          oe_attempt_count e = oe_attempt_count r + 1)) \<and>
    (\<forall>e\<in>set es. \<forall>r\<in>set rows. claimable now r \<and> \<not> locked (oe_id r) \<and> oe_id r \<notin> oe_id ` set es \<longrightarrow>
       oe_available_at e \<le> oe_available_at r)"
proof (intro conjI ballI impI)
  have es: "es = map (claim_row now) (chosen_events now locked n l rows)"
    using assms by (simp add: claim_pending_events_eq)
  show "length es \<le> n" by (simp add: es length_chosen_events)
  fix e assume "e \<in> set es"
  then obtain c where c: "c \<in> set (chosen_events now locked n l rows)" "e = claim_row now c"
    by (auto simp: es)
  show "oe_status e = Obx_PROCESSING" "oe_processing_started_at e = Some now" "\<not> locked (oe_id e)"
    using c chosen_eventsD(3) by simp_all
  obtain r where r: "r \<in> set rows" "c = reclaim now l r"
    using chosen_eventsD(1) [OF c(1)] by auto
  then have "claimable now r \<or> lease_expired now l r"
    using chosen_eventsD(2) [OF c(1)] claimable_reclaim by simp
  then show "\<exists>r\<in>set rows. oe_id r = oe_id e \<and> (claimable now r \<or> lease_expired now l r) \<and>
      oe_attempt_count e = oe_attempt_count r + 1"
    using c r by (intro bexI [of _ r]) simp_all
  fix r assume r: "r \<in> set rows" and q: "claimable now r \<and> \<not> locked (oe_id r) \<and> oe_id r \<notin> oe_id ` set es"
  have eq: "reclaim now l r = r"
    using q by (auto simp: claimable_def reclaim_def lease_expired_def)
  then have "r \<in> set (filter (\<lambda>e. claimable now e \<and> \<not> locked (oe_id e)) (map (reclaim now l) rows))"
    using r q by (auto simp: image_iff) metis
  moreover have "r \<notin> set (chosen_events now locked n l rows)"
  proof
    assume "r \<in> set (chosen_events now locked n l rows)"
    then have "oe_id (claim_row now r) \<in> oe_id ` set es" unfolding es set_map by blast
    then show False using q by simp
  qed
  ultimately have "oe_available_at c \<le> oe_available_at r"
    using c(1) take_sort_key_min unfolding chosen_events_def by metis
  then show "oe_available_at e \<le> oe_available_at r"
    using c(2) by (simp add: claim_row_def)
qed

definition sample_event :: "uuid \<Rightarrow> OutboxStatus \<Rightarrow> nat \<Rightarrow> timestamp \<Rightarrow> OutboxEvent" where
  "sample_event i st n due =
     \<lparr>oe_id = i, oe_business_id = 1, oe_event_type = ''QUOTE_ISSUED'', oe_aggregate_type = ''quote'',
      oe_aggregate_id = i, oe_key_suffix = [], oe_payload = [], oe_status = st, oe_attempt_count = n,
      oe_available_at = due, oe_processed_at = None, oe_last_error = None,
      oe_processing_started_at = None\<rparr>"

theorem claim_takes_oldest_due_events_witness:
  "length (fst (claim_pending_events 9 (\<lambda>i. i = 3) 1 300
     [sample_event 1 Obx_PENDING 0 7, sample_event 2 Obx_RETRYABLE 2 5, sample_event 3 Obx_PENDING 0 1])) \<le> 1"
  using claim_takes_oldest_due_events [OF surjective_pairing,
      of 9 "\<lambda>i. i = 3" 1 300
      "[sample_event 1 Obx_PENDING 0 7, sample_event 2 Obx_RETRYABLE 2 5, sample_event 3 Obx_PENDING 0 1]"]
  by simp



text \<open>A worker run resolves every event it claimed (processed, retryable or failed, never left in
  processing), keeps the attempts of every event still to be tried below the maximum, and
  reports at most a batch of successes, whatever the orchestrators do to the rest of the
  database, as long as they only append to the outbox and no lease has expired.\<close>

theorem worker_resolves_batch:
  assumes "process_outbox_events now locked w d = (d', n)"
    and "append_only w" and "0 < wk_max_attempts w"
    and "\<forall>e\<in>set (t_outbox d). \<not> lease_expired now (wk_lease_seconds w) e"
    and "\<forall>e\<in>set (t_outbox d). oe_status e \<in> {Obx_PENDING, Obx_RETRYABLE} \<longrightarrow> oe_attempt_count e < wk_max_attempts w"
    and "distinct (map oe_id (t_outbox d))"
  shows "n \<le> wk_batch_size w \<and>
    (\<forall>e\<in>set (t_outbox d'). oe_status e \<in> {Obx_PENDING, Obx_RETRYABLE} \<longrightarrow> oe_attempt_count e < wk_max_attempts w) \<and>
    (\<forall>e\<in>set (fst (claim_pending_events now locked (wk_batch_size w) (wk_lease_seconds w) (t_outbox d))).
       \<forall>r\<in>set (t_outbox d'). oe_id r = oe_id e \<longrightarrow> oe_status r \<noteq> Obx_PROCESSING)"
proof -
  let ?ch = "chosen_events now locked (wk_batch_size w) (wk_lease_seconds w) (t_outbox d)"
  let ?es = "map (claim_row now) ?ch"
  have id: "reclaim now (wk_lease_seconds w) e = e" if "e \<in> set (t_outbox d)" for e
    using that assms(4) by (simp add: reclaim_def)
  then have rid: "map (reclaim now (wk_lease_seconds w)) (t_outbox d) = t_outbox d"
    by (simp add: map_idI)
  let ?rows = "map (\<lambda>e. if oe_id e \<in> set (map oe_id ?ch) then claim_row now e else e) (t_outbox d)"
  have run: "(d', n) = fold (process_event now w) ?es (d\<lparr>t_outbox := ?rows\<rparr>, 0)"
    using assms(1) by (simp add: process_outbox_events_def claim_pending_events_eq rid)
  have ch: "c \<in> set (t_outbox d) \<and> oe_attempt_count c < wk_max_attempts w" if "c \<in> set ?ch" for c
    using chosen_eventsD(1,2) [OF that] assms(5) id by (auto simp: claimable_def)
  have same: "r = c" if "r \<in> set (t_outbox d)" "c \<in> set ?ch" "oe_id r = oe_id c" for r c
    using that ch [of c] assms(6) by (auto simp: distinct_map dest: inj_onD)
  have "batch_inv (wk_max_attempts w) ?es {} ?rows"
    unfolding batch_inv_def
  proof (intro conjI ballI impI)
    fix e assume "e \<in> set ?es"
    then obtain c where c: "c \<in> set ?ch" "e = claim_row now c" by auto
    show "oe_attempt_count e \<le> wk_max_attempts w" using ch c by fastforce
    show "oe_id e \<in> oe_id ` set ?rows"
    proof -
      have "claim_row now c \<in> set ?rows"
        using ch [OF c(1)] c(1) unfolding set_map by (intro image_eqI [of _ _ c]) auto
      then show ?thesis unfolding c(2) by (rule imageI)
    qed
    fix r assume "r \<in> set ?rows" "oe_id r = oe_id e"
    then obtain x where "x \<in> set (t_outbox d)" "oe_id x = oe_id c" "r = claim_row now x"
      using c by (auto split: if_splits)
    then show "oe_attempt_count r = oe_attempt_count e"
      using same c by blast
  qed (use assms(5) in \<open>auto split: if_splits\<close>)
  then have "batch_inv (wk_max_attempts w) [] (oe_id ` set ?es \<union> {}) (t_outbox (fst (d', n)))"
    unfolding run by (intro process_events_batch_inv) (use assms(2,3) in simp_all)
  moreover have "n \<le> wk_batch_size w"
    using process_events_count [of now w ?es "(d\<lparr>t_outbox := ?rows\<rparr>, 0)"] length_chosen_events
    unfolding run [symmetric] by (simp add: le_trans)
  ultimately show ?thesis
    by (simp add: batch_inv_def claim_pending_events_eq)
qed

definition sample_worker :: worker where
  "sample_worker = \<lparr>wk_process = (\<lambda>e d. if oe_id e = 1 then Inr d else Inl (ProviderError ''mail'')),
     wk_voice = None, wk_automation = None, wk_batch_size = 10, wk_lease_seconds = 300, wk_max_attempts = 5\<rparr>"

lemma append_only_sample: "append_only sample_worker"
  by (auto simp: append_only_def route_event_def sample_worker_def run_automation_def appends_events_def)

theorem worker_resolves_batch_witness:
  "snd (process_outbox_events 9 (\<lambda>i. False) sample_worker
     (empty_db\<lparr>t_outbox := [sample_event 1 Obx_PENDING 0 7, sample_event 2 Obx_RETRYABLE 4 8]\<rparr>)) \<le> 10"
proof -
  let ?d = "empty_db\<lparr>t_outbox := [sample_event 1 Obx_PENDING 0 7, sample_event 2 Obx_RETRYABLE 4 8]\<rparr>"
  show ?thesis
    using worker_resolves_batch [of 9 "\<lambda>i. False" sample_worker ?d, OF surjective_pairing append_only_sample]
    by (simp add: sample_worker_def sample_event_def lease_expired_def)
qed

end
