(* ===== verification/Lifecycle.thy ===== *)
theory Lifecycle
  imports Outbox
begin

text \<open>
  What the services with a status column have in common: a table of rows with a lifecycle, one
  outbox event per status entered, and the idempotency key that the event's type and the row's id
  make.  When the statuses are ranked, no status is entered twice, so the key of an allowed
  transition is always new; this is proved once, in a locale, and interpreted for quotes,
  bookings and service executions.
\<close>

section \<open>Rows replaced by flushed copies\<close>

lemma upd_row_found:
  assumes "keys_distinct key rows" "live_row key del i rows = Some r"
  shows "upd_row key i (\<lambda>_. f r) rows = upd_row key i f rows"
proof (rule upd_row_cong_set)
  fix s assume "s \<in> set rows" "key s = i"
  moreover have "r \<in> set rows" "key r = i" using live_row_SomeD [OF assms(2)] by blast+
  ultimately have "s = r"
    using assms(1) by (auto simp: keys_distinct_def distinct_map dest: inj_onD)
  then show "f r = f s" by simp
qed

lemma upd_row_absent: "k \<notin> key ` set rows \<Longrightarrow> upd_row key k f rows = rows"
  by (induction rows) auto

section \<open>Events of a lifecycle\<close>

text \<open>
  Every event of the aggregate whose type names a status belongs to a row that has got at least
  that far.
\<close>

definition events_ok ::
  "string \<Rightarrow> ('s \<Rightarrow> string) \<Rightarrow> ('s \<Rightarrow> nat) \<Rightarrow> ('r \<Rightarrow> uuid) \<Rightarrow> ('r \<Rightarrow> 's) \<Rightarrow> 'r list \<Rightarrow> event_key list \<Rightarrow> bool" where
  "events_ok agg ety rank key status rows ks \<longleftrightarrow>
     (\<forall>s i. (ety s, agg, i) \<in> set ks \<longrightarrow> (\<exists>r\<in>set rows. key r = i \<and> rank s \<le> rank (status r)))"

lemma events_okI [intro]:
  "(\<And>s i. (ety s, agg, i) \<in> set ks \<Longrightarrow> \<exists>r\<in>set rows. key r = i \<and> rank s \<le> rank (status r)) \<Longrightarrow>
   events_ok agg ety rank key status rows ks"
  by (simp add: events_ok_def)

lemma events_okD:
  "events_ok agg ety rank key status rows ks \<Longrightarrow> (ety s, agg, i) \<in> set ks \<Longrightarrow>
   \<exists>r\<in>set rows. key r = i \<and> rank s \<le> rank (status r)"
  by (simp add: events_ok_def)

text \<open>Inserting rows, and events of other aggregates or types, change nothing.\<close>

lemma events_ok_insert:
  "events_ok agg ety rank key status rows ks \<Longrightarrow> set rows \<subseteq> set rows' \<Longrightarrow>
   events_ok agg ety rank key status rows' ks"
  unfolding events_ok_def by blast

lemma events_ok_other:
  "events_ok agg ety rank key status rows ks \<Longrightarrow> agg' \<noteq> agg \<or> e \<notin> range ety \<Longrightarrow>
   events_ok agg ety rank key status rows (ks @ [(e, agg', i)])"
  unfolding events_ok_def by auto

lemma events_ok_upd_same:
  assumes "events_ok agg ety rank key status rows ks"
    and "\<And>r. key (f r) = key r" "\<And>r. status (f r) = status r"
  shows "events_ok agg ety rank key status (upd_row key k f rows) ks"
proof (rule events_okI)
  fix s i assume "(ety s, agg, i) \<in> set ks"
  then obtain r where "r \<in> set rows" "key r = i" "rank s \<le> rank (status r)"
    using events_okD [OF assms(1)] by blast
  then show "\<exists>r\<in>set (upd_row key k f rows). key r = i \<and> rank s \<le> rank (status r)"
    using assms(2,3) by (intro bexI [of _ "if key r = k then f r else r"]) (auto simp: upd_row_def)
qed

locale lifecycle_events =
  ranked_machine T rank + outbox_emitter emit agg
  for T :: "'s \<Rightarrow> 's set" and rank :: "'s \<Rightarrow> nat"
    and emit :: "uuid \<Rightarrow> string \<Rightarrow> uuid \<Rightarrow> payload \<Rightarrow> db \<Rightarrow> err + db" and agg :: string +
  fixes ety :: "'s \<Rightarrow> string"
  assumes ety_inject: "ety s = ety t \<longleftrightarrow> s = t"
begin

text \<open>The key of an allowed transition is new.\<close>

lemma transition_key_new:
  assumes "events_ok agg ety rank key status rows ks"
    and "keys_distinct key rows" "r \<in> set rows" "t \<in> T (status r)"
  shows "(ety t, agg, key r) \<notin> set ks"
proof
  assume "(ety t, agg, key r) \<in> set ks"
  then obtain r' where r': "r' \<in> set rows" "key r' = key r" "rank t \<le> rank (status r')"
    using events_okD [OF assms(1)] by blast
  then have "r' = r"
    using assms(2,3) by (auto simp: keys_distinct_def distinct_map dest: inj_onD)
  then show False using r'(3) rank_less [OF assms(4)] by simp
qed

lemma transition_emits:
  assumes "events_ok agg ety rank key status rows (outbox_keys d)"
    and "keys_distinct key rows" "r \<in> set rows" "t \<in> T (status r)"
  shows "\<exists>d'. emit b (ety t) (key r) pl d = Inr d'"
  using emit_fresh_key [OF transition_key_new [OF assms]] by blast

text \<open>The table and the outbox after an allowed transition.\<close>

lemma transition_events_ok:
  assumes "events_ok agg ety rank key status rows ks"
    and "keys_distinct key rows" "r \<in> set rows" "t \<in> T (status r)"
    and "\<And>x. key (f x) = key x" "\<And>x. status (f x) = t"
  shows "events_ok agg ety rank key status (upd_row key (key r) f rows) (ks @ [(ety t, agg, key r)])"
proof (rule events_okI)
  fix s i assume "(ety s, agg, i) \<in> set (ks @ [(ety t, agg, key r)])"
  then consider "(ety s, agg, i) \<in> set ks" | "s = t" "i = key r"
    using ety_inject by auto
  then show "\<exists>r'\<in>set (upd_row key (key r) f rows). key r' = i \<and> rank s \<le> rank (status r')"
  proof cases
    case 1
    then obtain r' where r': "r' \<in> set rows" "key r' = i" "rank s \<le> rank (status r')"
      using events_okD [OF assms(1)] by blast
    show ?thesis
    proof (cases "key r' = key r")
      case True
      then have "r' = r"
        using r'(1) assms(2,3) by (auto simp: keys_distinct_def distinct_map dest: inj_onD)
      then have "rank s \<le> rank t" using r'(3) rank_less [OF assms(4)] by simp
      then show ?thesis
        using assms(3,5,6) True r'(2) by (intro bexI [of _ "f r"]) (auto simp: upd_row_def)
    next
      case False
      then show ?thesis using r' by (intro bexI [of _ r']) (auto simp: upd_row_def)
    qed
  next
    case 2
    then show ?thesis
      using assms(3,5,6) by (intro bexI [of _ "f r"]) (auto simp: upd_row_def)
  qed
qed

end

section \<open>Names of event types\<close>

lemma upper_values_inject:
  "upper (QuoteStatus_value s) = upper (QuoteStatus_value t) \<longleftrightarrow> s = t"
  by (cases s; cases t) (simp_all add: upper_def upper_char_def)

lemma upper_booking_values_inject:
  "upper (BookingStatus_value a) = upper (BookingStatus_value b) \<longleftrightarrow> a = b"
  by (cases a; cases b) (simp_all add: upper_def upper_char_def)

lemma upper_execution_values_inject:
  "upper (ServiceExecutionStatus_value a) = upper (ServiceExecutionStatus_value b) \<longleftrightarrow> a = b"
  by (cases a; cases b) (simp_all add: upper_def upper_char_def)

end
