(* ===== verification/Enquiries.thy ===== *)
theory Enquiries
  imports Lifecycle
begin

text \<open>
  The enquiry service, src/backend/app/domain/enquiry/service.py and repository.py, with the
  enquiry endpoints of src/backend/app/api/v1/enquiries.py that compose its calls.  The
  request schemas bound the lengths of subject and message.
\<close>

section \<open>Who may move an enquiry where\<close>

fun CUSTOMER_ALLOWED_TRANSITIONS :: "EnquiryStatus \<Rightarrow> EnquiryStatus set" where
  "CUSTOMER_ALLOWED_TRANSITIONS Enq_DRAFT = {Enq_CANCELLED}"
| "CUSTOMER_ALLOWED_TRANSITIONS Enq_SUBMITTED = {Enq_CANCELLED}"
| "CUSTOMER_ALLOWED_TRANSITIONS Enq_RECEIVED = {Enq_CANCELLED}"
| "CUSTOMER_ALLOWED_TRANSITIONS Enq_IN_REVIEW = {Enq_CANCELLED}"
| "CUSTOMER_ALLOWED_TRANSITIONS Enq_NEEDS_INFORMATION = {Enq_CANCELLED}"
| "CUSTOMER_ALLOWED_TRANSITIONS _ = {}"

fun BUSINESS_ALLOWED_TRANSITIONS :: "EnquiryStatus \<Rightarrow> EnquiryStatus set" where
  "BUSINESS_ALLOWED_TRANSITIONS Enq_SUBMITTED = {Enq_RECEIVED, Enq_DECLINED, Enq_EXPIRED}"
| "BUSINESS_ALLOWED_TRANSITIONS Enq_RECEIVED = {Enq_IN_REVIEW, Enq_DECLINED, Enq_EXPIRED}"
| "BUSINESS_ALLOWED_TRANSITIONS Enq_IN_REVIEW =
     {Enq_NEEDS_INFORMATION, Enq_QUOTED, Enq_DECLINED, Enq_EXPIRED}"
| "BUSINESS_ALLOWED_TRANSITIONS Enq_NEEDS_INFORMATION = {Enq_IN_REVIEW, Enq_DECLINED, Enq_EXPIRED}"
| "BUSINESS_ALLOWED_TRANSITIONS _ = {}"

definition actor_allowed :: "string \<Rightarrow> EnquiryStatus \<Rightarrow> EnquiryStatus set" where
  "actor_allowed actor current =
     (if actor = ''customer'' then CUSTOMER_ALLOWED_TRANSITIONS current
      else if actor = ''business'' then BUSINESS_ALLOWED_TRANSITIONS current
      else ENQUIRY_TRANSITIONS current)"

section \<open>Creation\<close>

text \<open>
  The outer join of a business and its profile: \<open>one_or_none\<close> raises on more than one row; a
  soft-deleted profile still joins.
\<close>

definition validate_business_eligible :: "uuid \<Rightarrow> db \<Rightarrow> err + Business" where
  "validate_business_eligible i d =
     bindE (requireE (NotFoundError ''Business not found'') (find_business i d)) (\<lambda>b.
     bindE (scalar_one_or_none (filter (\<lambda>p. prof_business_id p = biz_id b) (t_profiles d))) (\<lambda>profile.
     bindE (guardE (biz_status b \<in> {Biz_ACTIVE, Biz_PENDING})
       (ValidationError ''Business is not currently active'')) (\<lambda>_.
     bindE (guardE (\<exists>p\<in>set_option profile. prof_public_status p = Bps_ACTIVE)
       (ValidationError ''Business profile is not publicly available'')) (\<lambda>_. Inr b))))"

definition validate_service_offer_eligible :: "uuid \<Rightarrow> uuid \<Rightarrow> db \<Rightarrow> err + ServiceOffer" where
  "validate_service_offer_eligible offer_id business_id d =
     bindE (requireE (NotFoundError ''Service offer not found'')
       (case find_offer offer_id d of
          None \<Rightarrow> None | Some so \<Rightarrow> if so_business_id so = business_id then Some so else None)) (\<lambda>offer.
     bindE (guardE (so_status offer = Sof_ACTIVE)
       (ValidationError ''Service offer is not currently accepting enquiries'')) (\<lambda>_. Inr offer))"

definition enquiry_context :: "uuid \<Rightarrow> uuid \<Rightarrow> uuid \<Rightarrow> ServiceOffer option \<Rightarrow> json_obj" where
  "enquiry_context business_id offer_id customer_id offer =
     [(''business_id'', JStr (nat_str business_id)),
      (''service_offer_id'', JStr (nat_str offer_id)),
      (''customer_id'', JStr (nat_str customer_id))] @
     (case offer of
        None \<Rightarrow> []
      | Some o' \<Rightarrow>
          [(''service_offer'', JObj
             [(''pricing_model'', JStr (so_pricing_model o')),
              (''delivery_mode'', JStr (so_delivery_mode o')),
              (''name'', JStr (so_name o'))])])"

text \<open>The reason after a failing evaluation also quotes the exception, which is left out.\<close>

definition evaluate_brain_for_enquiry ::
  "env \<Rightarrow> uuid \<Rightarrow> uuid \<Rightarrow> uuid \<Rightarrow> ServiceOffer option \<Rightarrow> db \<Rightarrow> err + BrainDecision" where
  "evaluate_brain_for_enquiry ev business_id offer_id customer_id offer d =
     bindE (get_brain_by_business_id business_id d) (\<lambda>brain.
     Inr (case brain of
            None \<Rightarrow> simple_decision ALLOW None ''No active Business Brain - enquiry allowed by default''
          | Some br \<Rightarrow>
              (case br_active_version_id br of
                 None \<Rightarrow> simple_decision ALLOW None ''No active Business Brain - enquiry allowed by default''
               | Some vid \<Rightarrow>
                   (case find_version vid d of
                      None \<Rightarrow> simple_decision REQUIRE_APPROVAL (Some vid)
                        ''Active BrainVersion record not found - manual approval required''
                    | Some v \<Rightarrow>
                        (case brain_evaluate (env_re_search ev) v
                                (enquiry_context business_id offer_id customer_id offer) of
                           Some dec \<Rightarrow> dec
                         | None \<Rightarrow> simple_decision REQUIRE_APPROVAL (Some (bv_id v))
                             ''Brain evaluation error - manual approval required'')))))"

definition new_enquiry ::
  "env \<Rightarrow> uuid \<Rightarrow> uuid \<Rightarrow> uuid \<Rightarrow> uuid \<Rightarrow> string \<Rightarrow> string \<Rightarrow> BrainDecision \<Rightarrow> Enquiry" where
  "new_enquiry ev i customer_id business_id offer_id subject message decision =
     \<lparr>enq_id = i, enq_reference = reference_of ''ENQ-'' i, enq_customer_id = customer_id,
      enq_business_id = business_id, enq_service_offer_id = offer_id, enq_subject = subject,
      enq_message = message, enq_status = Enq_DRAFT, enq_brain_version_id = bd_brain_version_id decision,
      enq_metadata = decision, enq_created_at = env_now ev, enq_deleted = False\<rparr>"

definition new_conversation :: "uuid \<Rightarrow> Enquiry \<Rightarrow> Conversation" where
  "new_conversation i e =
     \<lparr>cnv_id = i, cnv_enquiry_id = enq_id e, cnv_customer_id = enq_customer_id e,
      cnv_business_id = enq_business_id e, cnv_status = ''active'', cnv_deleted = False\<rparr>"

definition submitted_payload :: "Enquiry \<Rightarrow> payload" where
  "submitted_payload e =
     [(''enquiry_id'', PUuid (enq_id e)), (''customer_id'', PUuid (enq_customer_id e)),
      (''service_offer_id'', PUuid (enq_service_offer_id e)),
      (''status'', PStr (EnquiryStatus_value Enq_SUBMITTED)), (''reference'', PStr (enq_reference e)),
      (''subject'', PStr (enq_subject e)), (''notification_title'', PStr ''New enquiry received''),
      (''notification_body'', PStr (''New enquiry '' @ enq_reference e @ '': '' @ enq_subject e))]"

definition create_enquiry ::
  "env \<Rightarrow> uuid \<Rightarrow> uuid \<Rightarrow> uuid \<Rightarrow> string \<Rightarrow> string \<Rightarrow> db \<Rightarrow> err + Enquiry \<times> db" where
  "create_enquiry ev customer_id business_id offer_id subject message d =
     bindE (validate_business_eligible business_id d) (\<lambda>business.
     bindE (validate_service_offer_eligible offer_id business_id d) (\<lambda>offer.
     bindE (evaluate_brain_for_enquiry ev business_id (so_id offer) customer_id (Some offer) d) (\<lambda>decision.
     bindE (guardE (is_allowed decision)
       (ValidationError (''Enquiry cannot be created: '' @ bd_reason decision))) (\<lambda>_.
     let enquiry = new_enquiry ev (fresh_id d) customer_id (biz_id business) (so_id offer) subject message decision;
         d1 = used_id (add_enquiry enquiry d);
         d2 = used_id (add_conversation (new_conversation (fresh_id d1) enquiry) d1);
         submitted = enquiry\<lparr>enq_status := Enq_SUBMITTED\<rparr>;
         d3 = put_enquiry submitted d2 in
     bindE (emit_enquiry_event ev (biz_id business) ''ENQUIRY_SUBMITTED'' (enq_id enquiry)
       (submitted_payload submitted) d3) (\<lambda>d4.
     Inr (submitted, d4))))))"

section \<open>Transitions\<close>

definition enquiry_event_type :: "EnquiryStatus \<Rightarrow> string" where
  "enquiry_event_type s = ''ENQUIRY_'' @ upper (EnquiryStatus_value s)"

definition enquiry_notification :: "Enquiry \<Rightarrow> EnquiryStatus \<Rightarrow> string \<times> string" where
  "enquiry_notification e target =
     (let ref = enq_reference e in
      if target = Enq_RECEIVED then
        (''Enquiry received'', ''Enquiry '' @ ref @ '' has been received for review.'')
      else if target = Enq_DECLINED then (''Enquiry declined'', ''Enquiry '' @ ref @ '' has been declined.'')
      else if target = Enq_NEEDS_INFORMATION then
        (''More information needed'', ''Enquiry '' @ ref @ '' needs more information.'')
      else if target = Enq_CANCELLED then (''Enquiry cancelled'', ''Enquiry '' @ ref @ '' has been cancelled.'')
      else (''Enquiry '' @ EnquiryStatus_value target,
            ''Enquiry '' @ ref @ '' status: '' @ EnquiryStatus_value target))"

definition enquiry_payload :: "Enquiry \<Rightarrow> EnquiryStatus \<Rightarrow> payload" where
  "enquiry_payload e target =
     [(''enquiry_id'', PUuid (enq_id e)), (''customer_id'', PUuid (enq_customer_id e)),
      (''status'', PStr (EnquiryStatus_value target)), (''reference'', PStr (enq_reference e)),
      (''notification_title'', PStr (fst (enquiry_notification e target))),
      (''notification_body'', PStr (snd (enquiry_notification e target)))]"

definition transition_enquiry ::
  "env \<Rightarrow> Enquiry \<Rightarrow> EnquiryStatus \<Rightarrow> string \<Rightarrow> db \<Rightarrow> err + Enquiry \<times> db" where
  "transition_enquiry ev e target actor d =
     bindE (guardE (target \<in> ENQUIRY_TRANSITIONS (enq_status e))
       (StateTransitionError ''Cannot transition enquiry'')) (\<lambda>_.
     bindE (guardE (target \<in> actor_allowed actor (enq_status e))
       (AuthorizationError ''Actor is not authorized for this transition'')) (\<lambda>_.
     let e' = e\<lparr>enq_status := target\<rparr> in
     bindE (emit_enquiry_event ev (enq_business_id e) (enquiry_event_type target) (enq_id e)
       (enquiry_payload e' target) (put_enquiry e' d)) (\<lambda>d1.
     Inr (e', d1))))"

section \<open>Retrieval, conversation and messages\<close>

definition get_customer_enquiry :: "uuid \<Rightarrow> uuid \<Rightarrow> db \<Rightarrow> err + Enquiry" where
  "get_customer_enquiry i customer_id d =
     bindE (requireE (NotFoundError ''Enquiry not found'') (find_enquiry i d)) (\<lambda>e.
     bindE (guardE (enq_customer_id e = customer_id) (AuthorizationError ''Not your enquiry'')) (\<lambda>_. Inr e))"

definition get_business_enquiry :: "uuid \<Rightarrow> uuid \<Rightarrow> db \<Rightarrow> err + Enquiry" where
  "get_business_enquiry i business_id d =
     bindE (requireE (NotFoundError ''Enquiry not found'') (find_enquiry i d)) (\<lambda>e.
     bindE (guardE (enq_business_id e = business_id)
       (AuthorizationError ''Enquiry does not belong to this business'')) (\<lambda>_. Inr e))"

definition list_customer_enquiries :: "uuid \<Rightarrow> EnquiryStatus option \<Rightarrow> nat \<Rightarrow> nat \<Rightarrow> db \<Rightarrow> Enquiry list" where
  "list_customer_enquiries customer_id status limit offset d =
     page enq_created_at limit offset
       (filter (\<lambda>e. enq_customer_id e = customer_id \<and> \<not> enq_deleted e \<and> status \<in> {None, Some (enq_status e)})
          (t_enquiries d))"

definition list_business_enquiries :: "uuid \<Rightarrow> EnquiryStatus option \<Rightarrow> nat \<Rightarrow> nat \<Rightarrow> db \<Rightarrow> Enquiry list" where
  "list_business_enquiries business_id status limit offset d =
     page enq_created_at limit offset
       (filter (\<lambda>e. enq_business_id e = business_id \<and> \<not> enq_deleted e \<and> status \<in> {None, Some (enq_status e)})
          (t_enquiries d))"

definition get_enquiry_conversation :: "uuid \<Rightarrow> db \<Rightarrow> err + Conversation" where
  "get_enquiry_conversation enquiry_id d =
     bindE (scalar_one_or_none
       (filter (\<lambda>c. cnv_enquiry_id c = enquiry_id \<and> \<not> cnv_deleted c) (t_conversations d))) (\<lambda>c.
     requireE (NotFoundError ''Conversation not found for this enquiry'') c)"

definition VALID_SENDER_TYPES :: "string set" where
  "VALID_SENDER_TYPES = {''customer'', ''business''}"

definition send_message ::
  "env \<Rightarrow> Conversation \<Rightarrow> uuid \<Rightarrow> string \<Rightarrow> string \<Rightarrow> string \<Rightarrow> db \<Rightarrow> err + Message \<times> db" where
  "send_message ev c sender_id sender_type content message_type d =
     bindE (guardE (strip content \<noteq> []) (ValidationError ''Message content cannot be empty'')) (\<lambda>_.
     bindE (guardE (sender_type \<in> VALID_SENDER_TYPES) (ValidationError ''Invalid sender type'')) (\<lambda>_.
     let m = \<lparr>msg_id = fresh_id d, msg_conversation_id = cnv_id c, msg_sender_id = sender_id,
              msg_sender_type = sender_type, msg_content = strip content, msg_message_type = message_type,
              msg_read_at = None, msg_created_at = env_now ev, msg_deleted = False\<rparr> in
     Inr (m, used_id (add_message m d))))"

definition get_by_conversation :: "uuid \<Rightarrow> nat \<Rightarrow> nat \<Rightarrow> db \<Rightarrow> Message list" where
  "get_by_conversation conversation_id limit offset d =
     take limit (drop offset (sort_key msg_created_at
       (filter (\<lambda>m. msg_conversation_id m = conversation_id \<and> \<not> msg_deleted m) (t_messages d))))"

definition mark_read :: "timestamp \<Rightarrow> uuid \<Rightarrow> Message \<Rightarrow> Message" where
  "mark_read now reader m =
     (if msg_sender_id m \<noteq> reader \<and> msg_read_at m = None then m\<lparr>msg_read_at := Some now\<rparr> else m)"

definition mark_messages_read :: "env \<Rightarrow> uuid \<Rightarrow> uuid \<Rightarrow> db \<Rightarrow> nat \<times> db" where
  "mark_messages_read ev conversation_id reader d =
     (let ms = get_by_conversation conversation_id 500 0 d in
      (length (filter (\<lambda>m. msg_sender_id m \<noteq> reader \<and> msg_read_at m = None) ms),
       d\<lparr>t_messages := fold (\<lambda>m. upd_row msg_id (msg_id m) (mark_read (env_now ev) reader)) ms (t_messages d)\<rparr>))"

definition verify_business_membership :: "uuid \<Rightarrow> uuid \<Rightarrow> db \<Rightarrow> err + BusinessMember" where
  "verify_business_membership business_id user_id d =
     bindE (scalar_one_or_none
       (filter (\<lambda>m. mem_user_id m = user_id \<and> mem_business_id m = business_id \<and> \<not> mem_deleted m) (t_members d))) (\<lambda>m.
     requireE (AuthorizationError ''Not a member of this business'') m)"

section \<open>Endpoints\<close>

definition transition_my_enquiry ::
  "env \<Rightarrow> uuid \<Rightarrow> uuid \<Rightarrow> EnquiryStatus \<Rightarrow> db \<Rightarrow> err + Enquiry \<times> db" where
  "transition_my_enquiry ev user_id enquiry_id target d =
     bindE (get_customer_enquiry enquiry_id user_id d) (\<lambda>e. transition_enquiry ev e target ''customer'' d)"

definition transition_business_enquiry ::
  "env \<Rightarrow> uuid \<Rightarrow> uuid \<Rightarrow> EnquiryStatus \<Rightarrow> db \<Rightarrow> err + Enquiry \<times> db" where
  "transition_business_enquiry ev business_id enquiry_id target d =
     bindE (get_business_enquiry enquiry_id business_id d) (\<lambda>e. transition_enquiry ev e target ''business'' d)"

section \<open>Lemmas\<close>

lemma create_enquiry_Inr:
  assumes "create_enquiry ev customer_id business_id offer_id subject message d = Inr (e', d')"
  obtains b offer dec e where
    "validate_business_eligible business_id d = Inr b" "validate_service_offer_eligible offer_id business_id d = Inr offer"
    "evaluate_brain_for_enquiry ev business_id (so_id offer) customer_id (Some offer) d = Inr dec" "is_allowed dec"
    "e = new_enquiry ev (fresh_id d) customer_id (biz_id b) (so_id offer) subject message dec"
    "e' = e\<lparr>enq_status := Enq_SUBMITTED\<rparr>"
    "emit_enquiry_event ev (biz_id b) ''ENQUIRY_SUBMITTED'' (enq_id e) (submitted_payload e')
       (put_enquiry e' (used_id (add_conversation (new_conversation (fresh_id (used_id (add_enquiry e d))) e)
          (used_id (add_enquiry e d))))) = Inr d'"
  using assms by (auto simp: create_enquiry_def Let_def result_iffs)

lemma transition_enquiry_Inr:
  assumes "transition_enquiry ev e target actor d = Inr (e', d')"
  obtains "target \<in> ENQUIRY_TRANSITIONS (enq_status e)" "target \<in> actor_allowed actor (enq_status e)"
    "e' = e\<lparr>enq_status := target\<rparr>"
    "emit_enquiry_event ev (enq_business_id e) (enquiry_event_type target) (enq_id e) (enquiry_payload e' target)
       (put_enquiry e' d) = Inr d'"
  using assms by (auto simp: transition_enquiry_def Let_def result_iffs)

lemma get_customer_enquiry_Inr [result_iffs]:
  "get_customer_enquiry i customer_id d = Inr e \<longleftrightarrow> find_enquiry i d = Some e \<and> enq_customer_id e = customer_id"
  by (auto simp: get_customer_enquiry_def result_iffs)

lemma get_business_enquiry_Inr [result_iffs]:
  "get_business_enquiry i business_id d = Inr e \<longleftrightarrow> find_enquiry i d = Some e \<and> enq_business_id e = business_id"
  by (auto simp: get_business_enquiry_def result_iffs)

lemma transition_my_enquiry_Inr [result_iffs]:
  "transition_my_enquiry ev user_id i target d = Inr r \<longleftrightarrow>
     (\<exists>e. find_enquiry i d = Some e \<and> enq_customer_id e = user_id \<and> transition_enquiry ev e target ''customer'' d = Inr r)"
  by (auto simp: transition_my_enquiry_def result_iffs)

lemma transition_business_enquiry_Inr [result_iffs]:
  "transition_business_enquiry ev business_id i target d = Inr r \<longleftrightarrow>
     (\<exists>e. find_enquiry i d = Some e \<and> enq_business_id e = business_id \<and> transition_enquiry ev e target ''business'' d = Inr r)"
  by (auto simp: transition_business_enquiry_def result_iffs)

lemma transition_enquiry_tables:
  assumes "transition_enquiry ev e target actor d = Inr (e', d')"
  shows "t_enquiries d' = upd_row enq_id (enq_id e) (\<lambda>_. e') (t_enquiries d)"
    "outbox_keys d' = outbox_keys d @ [(enquiry_event_type target, ''enquiry'', enq_id e)]"
    "t_quotes d' = t_quotes d" "t_bookings d' = t_bookings d" "t_executions d' = t_executions d"
    "t_invoices d' = t_invoices d" "t_ledger d' = t_ledger d" "fresh d' = Suc (fresh d)"
  using assms
  by (auto elim!: transition_enquiry_Inr
      simp: emit_enquiry_event_def emit_Inr_iff used_id_def put_enquiry_def outbox_keys_def)

lemma customer_enquiry_moves:
  "target \<in> ENQUIRY_TRANSITIONS st \<and> target \<in> actor_allowed ''customer'' st \<longleftrightarrow>
     target = Enq_CANCELLED \<and> st \<in> {Enq_DRAFT, Enq_SUBMITTED}"
  by (cases st; cases target) (simp_all add: actor_allowed_def)

lemma eligible_business:
  "validate_business_eligible i d = Inr b \<Longrightarrow> find_business i d = Some b \<and> biz_status b \<in> {Biz_ACTIVE, Biz_PENDING}"
  by (auto simp: validate_business_eligible_def result_iffs)

lemma eligible_offer:
  "validate_service_offer_eligible i business_id d = Inr so \<Longrightarrow>
     find_offer i d = Some so \<and> so_business_id so = business_id \<and> so_status so = Sof_ACTIVE"
  by (auto simp: validate_service_offer_eligible_def result_iffs split: option.splits if_splits)

text \<open>Reading messages row by row.\<close>

lemma fold_upd_rows:
  assumes "distinct (map key ms)" "\<And>r. key (f r) = key r"
  shows "fold (\<lambda>m. upd_row key (key m) f) ms rows = map (\<lambda>r. if key r \<in> key ` set ms then f r else r) rows"
  using assms(1)
proof (induction ms arbitrary: rows)
  case (Cons m ms)
  then show ?case
    using assms(2) by (auto simp: upd_row_def comp_def image_iff)
qed simp

lemma mark_read_simps [simp]:
  "msg_id (mark_read now reader m) = msg_id m" "msg_deleted (mark_read now reader m) = msg_deleted m"
  "msg_conversation_id (mark_read now reader m) = msg_conversation_id m"
  "msg_sender_id (mark_read now reader m) = msg_sender_id m"
  "msg_created_at (mark_read now reader m) = msg_created_at m"
  by (simp_all add: mark_read_def)

definition conversation_messages :: "uuid \<Rightarrow> db \<Rightarrow> Message list" where
  "conversation_messages c d = filter (\<lambda>m. msg_conversation_id m = c \<and> \<not> msg_deleted m) (t_messages d)"

lemma get_by_conversation_all:
  "length (conversation_messages c d) \<le> n \<Longrightarrow>
   get_by_conversation c n 0 d = sort_key msg_created_at (conversation_messages c d)"
  by (simp add: get_by_conversation_def conversation_messages_def)

lemma filter_map_where:
  "(\<And>x. P (f x) = P x) \<Longrightarrow> filter P (map (\<lambda>x. if P x then f x else x) xs) = map f (filter P xs)"
  by (induction xs) auto

lemma mark_messages_read_tables:
  assumes "mark_messages_read ev c reader d = (n, d')"
    and "distinct (map msg_id (t_messages d))" "length (conversation_messages c d) \<le> 500"
  shows "t_messages d' = map (\<lambda>m. if msg_conversation_id m = c \<and> \<not> msg_deleted m
           then mark_read (env_now ev) reader m else m) (t_messages d)"
proof -
  let ?ms = "sort_key msg_created_at (conversation_messages c d)"
  have set: "set ?ms = {m \<in> set (t_messages d). msg_conversation_id m = c \<and> \<not> msg_deleted m}"
    by (auto simp: conversation_messages_def)
  have "distinct (map msg_id (conversation_messages c d))"
    using assms(2) by (simp add: conversation_messages_def distinct_map_filter)
  then have "distinct (map msg_id ?ms)"
    by (simp add: distinct_map)
  then have "t_messages d' =
      map (\<lambda>m. if msg_id m \<in> msg_id ` set ?ms then mark_read (env_now ev) reader m else m) (t_messages d)"
    using assms(1,3) by (auto simp: mark_messages_read_def Let_def get_by_conversation_all fold_upd_rows)
  also have "\<dots> = map (\<lambda>m. if msg_conversation_id m = c \<and> \<not> msg_deleted m
           then mark_read (env_now ev) reader m else m) (t_messages d)"
  proof (rule map_cong [OF refl])
    fix m assume m: "m \<in> set (t_messages d)"
    have "msg_id m \<in> msg_id ` set ?ms \<longleftrightarrow> m \<in> set ?ms"
      using m assms(2) unfolding set by (auto simp: distinct_map dest: inj_onD)
    then show "(if msg_id m \<in> msg_id ` set ?ms then mark_read (env_now ev) reader m else m) =
        (if msg_conversation_id m = c \<and> \<not> msg_deleted m then mark_read (env_now ev) reader m else m)"
      using m unfolding set by simp
  qed
  finally show ?thesis .
qed

section \<open>Properties\<close>

text \<open>C15: An enquiry comes into being only for an active offer of an eligible business, and, when the
  business has an active Brain version, only when its rules allow it; it is submitted together
  with exactly one conversation between the same customer and business.\<close>

theorem enquiry_needs_permission:
  assumes "create_enquiry ev customer_id business_id offer_id subject message d = Inr (e, d')"
    and "get_brain_by_business_id business_id d = Inr (Some br)" and "br_active_version_id br = Some vid"
  shows "(\<exists>v dec. find_version vid d = Some v \<and> bd_decision dec = ALLOW \<and> enq_metadata e = dec \<and>
      brain_evaluate (env_re_search ev) v (enquiry_context business_id offer_id customer_id (find_offer offer_id d)) = Some dec) \<and>
    enq_status e = Enq_SUBMITTED \<and> enq_business_id e = business_id \<and> enq_customer_id e = customer_id \<and>
    (\<exists>so. find_offer offer_id d = Some so \<and> so_status so = Sof_ACTIVE \<and> so_business_id so = business_id) \<and>
    (\<exists>c. t_conversations d' = t_conversations d @ [c] \<and> cnv_enquiry_id c = enq_id e \<and>
       cnv_customer_id c = customer_id \<and> cnv_business_id c = business_id)"
  using assms(1)
proof (elim create_enquiry_Inr)
  fix b :: Business and offer :: ServiceOffer and dec e0
  assume b: "validate_business_eligible business_id d = Inr b"
    and so: "validate_service_offer_eligible offer_id business_id d = Inr offer"
    and dec: "evaluate_brain_for_enquiry ev business_id (so_id offer) customer_id (Some offer) d = Inr dec"
      "is_allowed dec"
    and e0: "e0 = new_enquiry ev (fresh_id d) customer_id (biz_id b) (so_id offer) subject message dec"
      "e = e0\<lparr>enq_status := Enq_SUBMITTED\<rparr>"
    and emit: "emit_enquiry_event ev (biz_id b) ''ENQUIRY_SUBMITTED'' (enq_id e0) (submitted_payload e)
       (put_enquiry e (used_id (add_conversation (new_conversation (fresh_id (used_id (add_enquiry e0 d))) e0)
          (used_id (add_enquiry e0 d))))) = Inr d'"
  have ids: "so_id offer = offer_id" "biz_id b = business_id"
    using eligible_offer [OF so] eligible_business [OF b]
    by (auto simp: find_offer_def find_business_def dest: live_row_key)
  have "\<exists>v. find_version vid d = Some v \<and>
      brain_evaluate (env_re_search ev) v (enquiry_context business_id offer_id customer_id (Some offer)) = Some dec"
    using dec assms(2,3) ids
    by (auto simp: evaluate_brain_for_enquiry_def is_allowed_def simple_decision_def split: option.splits)
  moreover have "\<exists>c. t_conversations d' = t_conversations d @ [c] \<and> cnv_enquiry_id c = enq_id e0 \<and>
       cnv_customer_id c = customer_id \<and> cnv_business_id c = business_id"
    using emit ids
    by (auto simp: emit_enquiry_event_def emit_Inr_iff used_id_def put_enquiry_def add_conversation_def
        add_enquiry_def new_conversation_def e0(1) new_enquiry_def)
  ultimately show ?thesis
    using eligible_offer [OF so] dec(2) ids by (auto simp: e0 new_enquiry_def is_allowed_def)
qed

definition enquiry_db :: db where
  "enquiry_db = (market_db Enq_DRAFT Quo_DRAFT)
     \<lparr>t_profiles := [\<lparr>prof_id = 4, prof_business_id = 1, prof_columns = [], prof_public_status = Bps_ACTIVE,
        prof_average_rating = None, prof_review_count = 0, prof_is_verified = False, prof_deleted = False\<rparr>],
      t_brains := [\<lparr>br_id = 2, br_business_id = 1, br_active_version_id = Some 3, br_deleted = False\<rparr>],
      t_brain_versions := [outcome_version [outcome_rule 8 ''allow'' (has_field ''customer_id'')]]\<rparr>"

theorem enquiry_needs_permission_witness:
  "\<exists>e d'. create_enquiry sample_env 2 1 7 ''Clean'' ''Two rooms'' enquiry_db = Inr (e, d') \<and>
     enq_status e = Enq_SUBMITTED \<and> bd_decision (enq_metadata e) = ALLOW"
proof -
  let ?v = "outcome_version [outcome_rule 8 ''allow'' (has_field ''customer_id'')]"
  let ?so = "sample_offer ''fixed'' [(''amount'', JInt 80)]"
  have "map_option bd_decision (brain_evaluate no_regex ?v (enquiry_context 1 7 2 (Some ?so))) = Some ALLOW"
    by code_simp
  then have "\<exists>dec. brain_evaluate no_regex ?v (enquiry_context 1 7 2 (Some ?so)) = Some dec \<and> bd_decision dec = ALLOW"
    by auto
  then obtain dec where dec: "brain_evaluate no_regex ?v (enquiry_context 1 7 2 (Some ?so)) = Some dec"
    "bd_decision dec = ALLOW" by blast
  have "find_business 1 enquiry_db = Some sample_business"
    by (simp add: enquiry_db_def market_db_def find_business_def live_row_def sample_business_def)
  then have b: "validate_business_eligible 1 enquiry_db = Inr sample_business"
    by (simp add: validate_business_eligible_def enquiry_db_def sample_business_def)
  have "find_offer 7 enquiry_db = Some ?so"
    by (simp add: enquiry_db_def market_db_def find_offer_def live_row_def sample_offer_def)
  then have so: "validate_service_offer_eligible 7 1 enquiry_db = Inr ?so"
    by (simp add: validate_service_offer_eligible_def sample_offer_def)
  have v: "find_version 3 enquiry_db = Some ?v"
    by (simp add: enquiry_db_def find_version_def live_row_def outcome_version_def)
  have ev: "evaluate_brain_for_enquiry sample_env 1 7 2 (Some ?so) enquiry_db = Inr dec"
    using v dec(1)
    by (simp add: evaluate_brain_for_enquiry_def get_brain_by_business_id_def sample_env_def enquiry_db_def)
  have ids: "so_id ?so = 7" "biz_id sample_business = 1" by (simp_all add: sample_offer_def sample_business_def)
  have "outbox_keys (put_enquiry x (used_id (add_conversation c (used_id (add_enquiry y enquiry_db))))) = []" for x c y
    by (simp add: outbox_keys_def put_enquiry_def used_id_def add_conversation_def add_enquiry_def
        enquiry_db_def market_db_def empty_db_def)
  then have "\<exists>e d'. create_enquiry sample_env 2 1 7 ''Clean'' ''Two rooms'' enquiry_db = Inr (e, d')"
    unfolding create_enquiry_def b bindE_simps so ids ev
    by (simp add: is_allowed_def dec(2) emit_enquiry_event_def emit_outbox_event_def Let_def)
  then obtain e d' where ed: "create_enquiry sample_env 2 1 7 ''Clean'' ''Two rooms'' enquiry_db = Inr (e, d')"
    by blast
  have "get_brain_by_business_id 1 enquiry_db =
      Inr (Some \<lparr>br_id = 2, br_business_id = 1, br_active_version_id = Some 3, br_deleted = False\<rparr>)"
    by (simp add: get_brain_by_business_id_def enquiry_db_def)
  from enquiry_needs_permission [OF ed this, of 3] ed show ?thesis by auto
qed

text \<open>A customer can only cancel an enquiry, and only before the business has received it, although
  the table of customer rights lists cancellation from later states too.\<close>

theorem customer_cancels_only_before_receipt:
  assumes "transition_my_enquiry ev user_id i target d = Inr (e', d')"
  shows "\<exists>e. find_enquiry i d = Some e \<and> enq_customer_id e = user_id \<and> target = Enq_CANCELLED \<and>
    enq_status e \<in> {Enq_DRAFT, Enq_SUBMITTED} \<and> CUSTOMER_ALLOWED_TRANSITIONS Enq_IN_REVIEW = {Enq_CANCELLED}"
proof -
  obtain e where e: "find_enquiry i d = Some e" "enq_customer_id e = user_id"
    "transition_enquiry ev e target ''customer'' d = Inr (e', d')"
    using assms by (auto simp: result_iffs)
  then have "target \<in> ENQUIRY_TRANSITIONS (enq_status e)" "target \<in> actor_allowed ''customer'' (enq_status e)"
    by (auto elim: transition_enquiry_Inr)
  then have "target = Enq_CANCELLED" "enq_status e \<in> {Enq_DRAFT, Enq_SUBMITTED}"
    using customer_enquiry_moves [of target "enq_status e"] by simp_all
  then show ?thesis using e by simp
qed

theorem customer_cancels_only_before_receipt_witness:
  "\<exists>e' d'. transition_my_enquiry sample_env 2 20 Enq_CANCELLED (market_db Enq_SUBMITTED Quo_DRAFT) = Inr (e', d') \<and>
     (\<exists>e. find_enquiry 20 (market_db Enq_SUBMITTED Quo_DRAFT) = Some e \<and> enq_status e \<in> {Enq_DRAFT, Enq_SUBMITTED})"
proof -
  have "\<exists>e' d'. transition_my_enquiry sample_env 2 20 Enq_CANCELLED (market_db Enq_SUBMITTED Quo_DRAFT) = Inr (e', d')"
    by (simp add: transition_my_enquiry_def get_customer_enquiry_def transition_enquiry_def actor_allowed_def
        market_defs emit_enquiry_event_def emit_outbox_event_def outbox_keys_def put_enquiry_def Let_def)
  then show ?thesis using customer_cancels_only_before_receipt by blast
qed

text \<open>An enquiry that went back to the customer for information cannot be taken into review again:
  the transition is allowed by the state machine, but its outbox event has the idempotency key
  of the first review and the request fails.\<close>

theorem second_review_always_fails:
  assumes "transition_enquiry ev1 e Enq_IN_REVIEW actor1 d = Inr (e1, d1)"
    and "transition_enquiry ev2 e1 Enq_NEEDS_INFORMATION actor2 d1 = Inr (e2, d2)"
  shows "Enq_IN_REVIEW \<in> ENQUIRY_TRANSITIONS (enq_status e2) \<and>
    transition_enquiry ev3 e2 Enq_IN_REVIEW ''business'' d2 = Inl (IntegrityError ''outbox_events.idempotency_key'')"
proof -
  have e: "e1 = e\<lparr>enq_status := Enq_IN_REVIEW\<rparr>" "e2 = e1\<lparr>enq_status := Enq_NEEDS_INFORMATION\<rparr>"
    using assms by (auto elim: transition_enquiry_Inr)
  have "(enquiry_event_type Enq_IN_REVIEW, ''enquiry'', enq_id e2) \<in> set (outbox_keys d2)"
    using transition_enquiry_tables(2) [OF assms(1)] transition_enquiry_tables(2) [OF assms(2)] e by simp
  then have "emit_enquiry_event ev3 b (enquiry_event_type Enq_IN_REVIEW) (enq_id e2) pl (put_enquiry e3 d2) =
      Inl (IntegrityError ''outbox_events.idempotency_key'')" for b pl e3
    by (simp add: emit_enquiry_event_def emit_outbox_event_def put_enquiry_def outbox_keys_def)
  then show ?thesis
    using e by (simp add: transition_enquiry_def actor_allowed_def Let_def)
qed

theorem second_review_always_fails_witness:
  "\<exists>e1 d1 e2 d2. transition_enquiry sample_env (sample_enquiry 20 Enq_RECEIVED) Enq_IN_REVIEW ''business''
       (market_db Enq_RECEIVED Quo_DRAFT) = Inr (e1, d1) \<and>
     transition_enquiry sample_env e1 Enq_NEEDS_INFORMATION ''business'' d1 = Inr (e2, d2) \<and>
     transition_enquiry sample_env e2 Enq_IN_REVIEW ''business'' d2 = Inl (IntegrityError ''outbox_events.idempotency_key'')"
proof -
  have "\<exists>e1 d1 e2 d2. transition_enquiry sample_env (sample_enquiry 20 Enq_RECEIVED) Enq_IN_REVIEW ''business''
       (market_db Enq_RECEIVED Quo_DRAFT) = Inr (e1, d1) \<and>
     transition_enquiry sample_env e1 Enq_NEEDS_INFORMATION ''business'' d1 = Inr (e2, d2)"
    by (simp add: transition_enquiry_def actor_allowed_def market_db_def empty_db_def sample_enquiry_def
        emit_enquiry_event_def emit_outbox_event_def outbox_keys_def put_enquiry_def used_id_def
        event_key_def new_event_def enquiry_event_type_def upper_def upper_char_def Let_def)
  then show ?thesis using second_review_always_fails by blast
qed

text \<open>Marking a conversation of at most 500 messages as read leaves no message of the other side
  unread, changes nothing else, and a second call finds nothing to do.\<close>

theorem marking_read_is_complete:
  assumes "mark_messages_read ev c reader d = (n, d')"
    and "distinct (map msg_id (t_messages d))" and "length (conversation_messages c d) \<le> 500"
  shows "(\<forall>m\<in>set (conversation_messages c d'). msg_sender_id m = reader \<or> msg_read_at m \<noteq> None) \<and>
    map msg_content (t_messages d') = map msg_content (t_messages d) \<and>
    fst (mark_messages_read ev' c reader d') = 0"
proof -
  note rows = mark_messages_read_tables [OF assms]
  have conv: "conversation_messages c d' = map (mark_read (env_now ev) reader) (conversation_messages c d)"
    unfolding conversation_messages_def rows by (rule filter_map_where) simp
  have read: "msg_sender_id m = reader \<or> msg_read_at m \<noteq> None" if "m \<in> set (conversation_messages c d')" for m
    using that unfolding conv by (auto simp: mark_read_def)
  have "length (conversation_messages c d') \<le> 500"
    using assms(3) by (simp add: conv)
  then have "fst (mark_messages_read ev' c reader d') = 0"
    using read by (auto simp: mark_messages_read_def Let_def get_by_conversation_all filter_empty_conv)
  moreover have "map msg_content (t_messages d') = map msg_content (t_messages d)"
    unfolding rows by (simp add: comp_def mark_read_def cong: if_cong)
  ultimately show ?thesis using read by blast
qed

definition sample_message :: "uuid \<Rightarrow> uuid \<Rightarrow> Message" where
  "sample_message i sender =
     \<lparr>msg_id = i, msg_conversation_id = 5, msg_sender_id = sender, msg_sender_type = ''customer'',
      msg_content = ''Hello'', msg_message_type = ''text'', msg_read_at = None, msg_created_at = 1,
      msg_deleted = False\<rparr>"

theorem marking_read_is_complete_witness:
  "fst (mark_messages_read sample_env 5 2
     (snd (mark_messages_read sample_env 5 2 (empty_db\<lparr>t_messages := [sample_message 1 2, sample_message 2 9]\<rparr>)))) = 0"
proof -
  let ?d = "empty_db\<lparr>t_messages := [sample_message 1 2, sample_message 2 9]\<rparr>"
  obtain n d' where run: "mark_messages_read sample_env 5 2 ?d = (n, d')" by fastforce
  have "distinct (map msg_id (t_messages ?d))" "length (conversation_messages 5 ?d) \<le> 500"
    by (simp_all add: conversation_messages_def sample_message_def)
  from marking_read_is_complete [OF run this, of sample_env] run show ?thesis by simp
qed

end
