(* ===== verification/Quotes.thy ===== *)
theory Quotes
  imports Lifecycle
begin

text \<open>
  The quote service, src/backend/app/domain/quote/service.py and repository.py, with the
  quote endpoints of src/backend/app/api/v1/quotes.py that compose its calls.  A service
  method that receives a loaded row takes the row; the endpoints look it up first.
\<close>

section \<open>Creation\<close>

definition resolve_enquiry :: "uuid \<Rightarrow> uuid \<Rightarrow> db \<Rightarrow> err + Enquiry" where
  "resolve_enquiry enquiry_id business_id d =
     bindE (requireE (NotFoundError ''Enquiry not found'') (find_enquiry enquiry_id d)) (\<lambda>e.
     bindE (guardE (enq_business_id e = business_id)
       (AuthorizationError ''Enquiry does not belong to this business'')) (\<lambda>_. Inr e))"

definition quotable :: "EnquiryStatus \<Rightarrow> bool" where
  "quotable s \<longleftrightarrow> s \<in> {Enq_RECEIVED, Enq_IN_REVIEW, Enq_NEEDS_INFORMATION}"

definition pricing_context :: "uuid \<Rightarrow> uuid \<Rightarrow> ServiceOffer \<Rightarrow> json_obj" where
  "pricing_context business_id customer_id offer =
     [(''business_id'', JStr (nat_str business_id)),
      (''service_offer_id'', JStr (nat_str (so_id offer))),
      (''customer_id'', JStr (nat_str customer_id)),
      (''service_offer'', JObj
         [(''pricing_model'', JStr (so_pricing_model offer)),
          (''delivery_mode'', JStr (so_delivery_mode offer)),
          (''name'', JStr (so_name offer))])]"

text \<open>\<open>except ValueError\<close>: any other exception of the engine passes through.\<close>

definition price_or_invalid :: "err + PricingResult \<Rightarrow> err + PricingResult" where
  "price_or_invalid p =
     (case p of
        Inl (ValueError m) \<Rightarrow> Inl (ValidationError (''Pricing calculation failed: '' @ m))
      | _ \<Rightarrow> p)"

text \<open>A fee that cannot be calculated leaves the evidence empty.\<close>

definition quote_fee_evidence :: "uuid \<Rightarrow> PricingResult \<Rightarrow> timestamp \<Rightarrow> db \<Rightarrow> FeeResult option" where
  "quote_fee_evidence business_id p now d =
     (case calculate_fee business_id (pr_amount p) (pr_currency p) None None now (t_policies d) of
        Inl _ \<Rightarrow> None | Inr f \<Rightarrow> Some f)"

definition new_quote ::
  "env \<Rightarrow> uuid \<Rightarrow> uuid \<Rightarrow> Enquiry \<Rightarrow> ServiceOffer \<Rightarrow> BrainVersion option \<Rightarrow> PricingResult \<Rightarrow>
   FeeResult option \<Rightarrow> string option \<Rightarrow> Quote" where
  "new_quote ev i business_id e offer version p fee notes =
     \<lparr>q_id = i, q_reference = reference_of ''QUO-'' i, q_customer_id = enq_customer_id e,
      q_business_id = business_id, q_enquiry_id = enq_id e, q_service_offer_id = so_id offer,
      q_amount = pr_amount p, q_currency = pr_currency p, q_status = Quo_DRAFT,
      q_brain_version_id = map_option bv_id version, q_pricing_evidence = p,
      q_fee_evidence = fee, q_notes = notes, q_created_at = env_now ev, q_deleted = False\<rparr>"

definition insert_quote :: "Quote \<Rightarrow> db \<Rightarrow> err + db" where
  "insert_quote q d =
     bindE (guardE (numeric_12_2 (q_amount q) \<and> length (q_currency q) \<le> 3)
       (DataError ''value out of range'')) (\<lambda>_.
     Inr (used_id (add_quote q d)))"

definition create_quote ::
  "env \<Rightarrow> uuid \<Rightarrow> uuid \<Rightarrow> string option \<Rightarrow> db \<Rightarrow> err + Quote \<times> db" where
  "create_quote ev business_id enquiry_id notes d =
     bindE (resolve_enquiry enquiry_id business_id d) (\<lambda>enquiry.
     bindE (guardE (quotable (enq_status enquiry))
       (ValidationError ''Enquiry cannot be quoted in its state'')) (\<lambda>_.
     bindE (resolve_service_offer (enq_service_offer_id enquiry) d) (\<lambda>offer.
     bindE (resolve_business business_id d) (\<lambda>business.
     bindE (resolve_active_brain_version business_id d) (\<lambda>version.
     bindE (price_or_invalid
       (calculate_price (env_re_search ev) offer version
          (Some (pricing_context business_id (enq_customer_id enquiry) offer))
          (Some (biz_currency business)))) (\<lambda>p.
     bindE (guardE (\<not> (so_pricing_model offer = ''quote_required'' \<and> pr_amount p = 0))
       (ValidationError ''This service requires a manual quote'')) (\<lambda>_.
     let quote = new_quote ev (fresh_id d) business_id enquiry offer version p
                   (quote_fee_evidence business_id p (env_now ev) d) notes in
     bindE (insert_quote quote d) (\<lambda>d1.
     Inr (quote, put_enquiry (enquiry\<lparr>enq_status := Enq_QUOTED\<rparr>) d1)))))))))"

section \<open>Transitions\<close>

definition quote_authority :: "string \<Rightarrow> QuoteStatus \<Rightarrow> err + unit" where
  "quote_authority actor target =
     (if actor = ''customer'' \<and> target \<notin> {Quo_ACCEPTED, Quo_DECLINED}
      then Inl (AuthorizationError ''Customers can only accept or decline quotes'')
      else if actor = ''business'' \<and> target \<notin> {Quo_ISSUED, Quo_EXPIRED}
      then Inl (AuthorizationError ''Business can only issue or expire quotes'')
      else Inr ())"

definition accept_enquiry :: "string \<Rightarrow> QuoteStatus \<Rightarrow> Quote \<Rightarrow> db \<Rightarrow> db" where
  "accept_enquiry actor target quote d =
     (if actor = ''customer'' \<and> target = Quo_ACCEPTED
      then advance_enquiry (q_enquiry_id quote) Enq_QUOTED Enq_CUSTOMER_ACCEPTED d else d)"

definition quote_event_type :: "QuoteStatus \<Rightarrow> string" where
  "quote_event_type s = ''QUOTE_'' @ upper (QuoteStatus_value s)"

definition quote_notification :: "Quote \<Rightarrow> QuoteStatus \<Rightarrow> string \<times> string" where
  "quote_notification quote target =
     (if target = Quo_ISSUED then
        (''New quote received'', ''You have a new quote ('' @ q_reference quote @ '') awaiting your review.'')
      else if target = Quo_ACCEPTED then
        (''Quote accepted'', ''Quote '' @ q_reference quote @ '' has been accepted by the customer.'')
      else
        (''Quote '' @ QuoteStatus_value target,
         ''Quote '' @ q_reference quote @ '' status: '' @ QuoteStatus_value target))"

definition quote_payload :: "Quote \<Rightarrow> QuoteStatus \<Rightarrow> payload" where
  "quote_payload quote target =
     [(''quote_id'', PUuid (q_id quote)), (''enquiry_id'', PUuid (q_enquiry_id quote)),
      (''customer_id'', PUuid (q_customer_id quote)), (''status'', PStr (QuoteStatus_value target)),
      (''quote_reference'', PStr (q_reference quote)),
      (''notification_title'', PStr (fst (quote_notification quote target))),
      (''notification_body'', PStr (snd (quote_notification quote target)))]"

definition transition_quote ::
  "env \<Rightarrow> Quote \<Rightarrow> QuoteStatus \<Rightarrow> string \<Rightarrow> db \<Rightarrow> err + Quote \<times> db" where
  "transition_quote ev quote target actor d =
     bindE (guardE (target \<in> QUOTE_TRANSITIONS (q_status quote))
       (StateTransitionError ''Cannot transition quote'')) (\<lambda>_.
     bindE (quote_authority actor target) (\<lambda>_.
     let quote' = quote\<lparr>q_status := target\<rparr>;
         d1 = accept_enquiry actor target quote' (put_quote quote' d) in
     bindE (emit_quote_event ev (q_business_id quote) (quote_event_type target) (q_id quote)
       (quote_payload quote' target) d1) (\<lambda>d2.
     Inr (quote', d2))))"

section \<open>Retrieval\<close>

definition get_quote :: "uuid \<Rightarrow> db \<Rightarrow> err + Quote" where
  "get_quote i d = requireE (NotFoundError ''Quote not found'') (find_quote i d)"

definition get_customer_quote :: "uuid \<Rightarrow> uuid \<Rightarrow> db \<Rightarrow> err + Quote" where
  "get_customer_quote i customer_id d =
     bindE (get_quote i d) (\<lambda>q.
     bindE (guardE (q_customer_id q = customer_id) (AuthorizationError ''Not your quote'')) (\<lambda>_. Inr q))"

definition get_business_quote :: "uuid \<Rightarrow> uuid \<Rightarrow> db \<Rightarrow> err + Quote" where
  "get_business_quote i business_id d =
     bindE (get_quote i d) (\<lambda>q.
     bindE (guardE (q_business_id q = business_id)
       (AuthorizationError ''Quote does not belong to this business'')) (\<lambda>_. Inr q))"

definition list_customer_quotes :: "uuid \<Rightarrow> QuoteStatus option \<Rightarrow> nat \<Rightarrow> nat \<Rightarrow> db \<Rightarrow> Quote list" where
  "list_customer_quotes customer_id status limit offset d =
     page q_created_at limit offset
       (filter (\<lambda>q. q_customer_id q = customer_id \<and> \<not> q_deleted q \<and> status \<in> {None, Some (q_status q)})
          (t_quotes d))"

definition list_business_quotes :: "uuid \<Rightarrow> QuoteStatus option \<Rightarrow> nat \<Rightarrow> nat \<Rightarrow> db \<Rightarrow> Quote list" where
  "list_business_quotes business_id status limit offset d =
     page q_created_at limit offset
       (filter (\<lambda>q. q_business_id q = business_id \<and> \<not> q_deleted q \<and> status \<in> {None, Some (q_status q)})
          (t_quotes d))"

section \<open>Endpoints\<close>

definition transition_business_quote ::
  "env \<Rightarrow> uuid \<Rightarrow> uuid \<Rightarrow> QuoteStatus \<Rightarrow> db \<Rightarrow> err + Quote \<times> db" where
  "transition_business_quote ev business_id quote_id target d =
     bindE (get_business_quote quote_id business_id d) (\<lambda>q. transition_quote ev q target ''business'' d)"

definition transition_my_quote ::
  "env \<Rightarrow> uuid \<Rightarrow> uuid \<Rightarrow> QuoteStatus \<Rightarrow> db \<Rightarrow> err + Quote \<times> db" where
  "transition_my_quote ev user_id quote_id target d =
     bindE (get_customer_quote quote_id user_id d) (\<lambda>q. transition_quote ev q target ''customer'' d)"

section \<open>Lemmas\<close>

lemma price_or_invalid_Inr [result_iffs]: "price_or_invalid p = Inr r \<longleftrightarrow> p = Inr r"
  by (auto simp: price_or_invalid_def split: sum.splits err.splits)

lemma quote_event_type_inject: "quote_event_type s = quote_event_type t \<longleftrightarrow> s = t"
  by (simp add: quote_event_type_def upper_values_inject)

interpretation quote_lifecycle:
  lifecycle_events QUOTE_TRANSITIONS quote_rank "emit_quote_event ev" "''quote''" quote_event_type for ev
  by unfold_locales (rule quote_event_type_inject)

lemma quote_authority_Inr [result_iffs]:
  "quote_authority actor target = Inr u \<longleftrightarrow>
     (actor = ''customer'' \<longrightarrow> target \<in> {Quo_ACCEPTED, Quo_DECLINED}) \<and>
     (actor = ''business'' \<longrightarrow> target \<in> {Quo_ISSUED, Quo_EXPIRED})"
  by (auto simp: quote_authority_def)

lemma create_quote_Inr:
  assumes "create_quote ev business_id enquiry_id notes d = Inr (q, d')"
  obtains e offer version p cur where
    "find_enquiry enquiry_id d = Some e" "enq_business_id e = business_id" "quotable (enq_status e)"
    "find_offer (enq_service_offer_id e) d = Some offer"
    "calculate_price (env_re_search ev) offer version
       (Some (pricing_context business_id (enq_customer_id e) offer)) (Some cur) = Inr p"
    "q = new_quote ev (fresh_id d) business_id e offer version p
       (quote_fee_evidence business_id p (env_now ev) d) notes"
    "d' = put_enquiry (e\<lparr>enq_status := Enq_QUOTED\<rparr>) (used_id (add_quote q d))"
  using assms
  by (auto simp: create_quote_def resolve_enquiry_def resolve_service_offer_def insert_quote_def Let_def
      result_iffs)

lemma transition_quote_Inr:
  assumes "transition_quote ev q target actor d = Inr (q', d')"
  obtains "target \<in> QUOTE_TRANSITIONS (q_status q)" "q' = q\<lparr>q_status := target\<rparr>"
    "actor = ''customer'' \<longrightarrow> target \<in> {Quo_ACCEPTED, Quo_DECLINED}"
    "actor = ''business'' \<longrightarrow> target \<in> {Quo_ISSUED, Quo_EXPIRED}"
    "emit_quote_event ev (q_business_id q) (quote_event_type target) (q_id q) (quote_payload q' target)
       (accept_enquiry actor target q' (put_quote q' d)) = Inr d'"
  using assms by (auto simp: transition_quote_def Let_def result_iffs)

lemma get_customer_quote_Inr [result_iffs]:
  "get_customer_quote i customer_id d = Inr q \<longleftrightarrow> find_quote i d = Some q \<and> q_customer_id q = customer_id"
  by (auto simp: get_customer_quote_def get_quote_def result_iffs)

lemma get_business_quote_Inr [result_iffs]:
  "get_business_quote i business_id d = Inr q \<longleftrightarrow> find_quote i d = Some q \<and> q_business_id q = business_id"
  by (auto simp: get_business_quote_def get_quote_def result_iffs)

lemma transition_my_quote_Inr [result_iffs]:
  "transition_my_quote ev user_id i target d = Inr r \<longleftrightarrow>
     (\<exists>q. find_quote i d = Some q \<and> q_customer_id q = user_id \<and> transition_quote ev q target ''customer'' d = Inr r)"
  by (auto simp: transition_my_quote_def result_iffs)

lemma transition_business_quote_Inr [result_iffs]:
  "transition_business_quote ev business_id i target d = Inr r \<longleftrightarrow>
     (\<exists>q. find_quote i d = Some q \<and> q_business_id q = business_id \<and> transition_quote ev q target ''business'' d = Inr r)"
  by (auto simp: transition_business_quote_def result_iffs)

lemma accept_enquiry_tables [simp]:
  "t_quotes (accept_enquiry actor target q d) = t_quotes d"
  "t_bookings (accept_enquiry actor target q d) = t_bookings d"
  "t_executions (accept_enquiry actor target q d) = t_executions d"
  "t_invoices (accept_enquiry actor target q d) = t_invoices d"
  "t_ledger (accept_enquiry actor target q d) = t_ledger d"
  "t_outbox (accept_enquiry actor target q d) = t_outbox d"
  "fresh (accept_enquiry actor target q d) = fresh d"
  by (simp_all add: accept_enquiry_def)

text \<open>The tables after a quote has moved.\<close>

lemma transition_quote_tables:
  assumes "transition_quote ev q target actor d = Inr (q', d')"
  shows "t_quotes d' = upd_row q_id (q_id q) (\<lambda>_. q') (t_quotes d)"
    "outbox_keys d' = outbox_keys d @ [(quote_event_type target, ''quote'', q_id q)]"
    "t_enquiries d' = t_enquiries (accept_enquiry actor target q' (put_quote q' d))"
    "t_bookings d' = t_bookings d" "t_executions d' = t_executions d" "t_invoices d' = t_invoices d"
    "t_ledger d' = t_ledger d" "fresh d' = Suc (fresh d)"
  using assms
  by (auto elim!: transition_quote_Inr
      simp: emit_quote_event_def emit_Inr_iff used_id_def put_quote_def outbox_keys_def)

section \<open>Properties\<close>



lemma customer_transition:
  assumes "transition_quote ev q target ''customer'' d = Inr (q', d')"
  shows "q_status q = Quo_ISSUED \<and> target \<in> {Quo_ACCEPTED, Quo_DECLINED} \<and> q' = q\<lparr>q_status := target\<rparr>"
  using assms by (elim transition_quote_Inr) (cases "q_status q"; auto)

lemma business_transition:
  assumes "transition_quote ev q target ''business'' d = Inr (q', d')"
  shows "(q_status q, target) \<in> {(Quo_DRAFT, Quo_ISSUED), (Quo_ISSUED, Quo_EXPIRED)} \<and>
    q' = q\<lparr>q_status := target\<rparr>"
  using assms by (elim transition_quote_Inr) (cases "q_status q"; auto)

text \<open>C13: Only its customer accepts or declines a quote and only its business issues or expires it;
  a quote is answered only while it is issued, and once accepted, declined or expired it never
  moves again.\<close>

theorem quote_transitions_authorized:
  assumes "transition_my_quote ev user_id i target d = Inr (q', d') \<or>
    transition_business_quote ev business_id i target d = Inr (q', d')"
  shows "\<exists>q. find_quote i d = Some q \<and> q' = q\<lparr>q_status := target\<rparr> \<and>
    ((q_status q, target) \<in> {(Quo_ISSUED, Quo_ACCEPTED), (Quo_ISSUED, Quo_DECLINED)} \<and> q_customer_id q = user_id \<or>
     (q_status q, target) \<in> {(Quo_DRAFT, Quo_ISSUED), (Quo_ISSUED, Quo_EXPIRED)} \<and> q_business_id q = business_id)"
  using assms
proof
  assume "transition_my_quote ev user_id i target d = Inr (q', d')"
  then obtain q where "find_quote i d = Some q" "q_customer_id q = user_id"
    "transition_quote ev q target ''customer'' d = Inr (q', d')"
    by (auto simp: result_iffs)
  with customer_transition [OF this(3)] show ?thesis by auto
next
  assume "transition_business_quote ev business_id i target d = Inr (q', d')"
  then obtain q where "find_quote i d = Some q" "q_business_id q = business_id"
    "transition_quote ev q target ''business'' d = Inr (q', d')"
    by (auto simp: result_iffs)
  with business_transition [OF this(3)] show ?thesis by auto
qed

theorem quote_transitions_authorized_witness:
  "\<exists>q' d'. transition_my_quote sample_env 2 30 Quo_ACCEPTED (market_db Enq_QUOTED Quo_ISSUED) = Inr (q', d') \<and>
     (\<exists>q. find_quote 30 (market_db Enq_QUOTED Quo_ISSUED) = Some q \<and> q' = q\<lparr>q_status := Quo_ACCEPTED\<rparr>)"
proof -
  have "\<exists>q' d'. transition_my_quote sample_env 2 30 Quo_ACCEPTED (market_db Enq_QUOTED Quo_ISSUED) = Inr (q', d')"
    by (simp add: transition_my_quote_def get_customer_quote_def get_quote_def transition_quote_def
        market_defs quote_authority_def emit_quote_event_def emit_outbox_event_def outbox_keys_def
        accept_enquiry_def advance_enquiry_def put_quote_def put_enquiry_def Let_def)
  then show ?thesis using quote_transitions_authorized by blast
qed

end
