(* ===== verification/Bookings.thy ===== *)
theory Bookings
  imports Quotes
begin

text \<open>
  The booking service, src/backend/app/domain/booking/service.py and repository.py, with the
  booking endpoints of src/backend/app/api/v1/bookings.py that compose its calls.  A request
  runs as one transaction on the database it starts from; the key of the advisory lock that
  orders competing requests is modelled up to the hash of its text.
\<close>

section \<open>Creation\<close>

definition resolve_accepted_quote :: "uuid \<Rightarrow> uuid \<Rightarrow> db \<Rightarrow> err + Quote" where
  "resolve_accepted_quote quote_id customer_id d =
     bindE (requireE (NotFoundError ''Quote not found'') (find_quote quote_id d)) (\<lambda>q.
     bindE (guardE (q_customer_id q = customer_id) (AuthorizationError ''Not your quote'')) (\<lambda>_.
     bindE (guardE (q_status q = Quo_ACCEPTED)
       (ValidationError ''Quote must be accepted before creating a booking'')) (\<lambda>_. Inr q)))"

definition booking_context :: "uuid \<Rightarrow> uuid \<Rightarrow> datetime \<Rightarrow> ServiceOffer \<Rightarrow> json_obj" where
  "booking_context business_id customer_id requested_at offer =
     [(''business_id'', JStr (nat_str business_id)),
      (''service_offer_id'', JStr (nat_str (so_id offer))),
      (''customer_id'', JStr (nat_str customer_id)),
      (''requested_at'', JStr (isoformat requested_at)),
      (''service_offer'', JObj
         [(''pricing_model'', JStr (so_pricing_model offer)),
          (''delivery_mode'', JStr (so_delivery_mode offer)),
          (''name'', JStr (so_name offer))])]"

text \<open>No Brain gives no decision; a failing evaluation asks for approval.\<close>

definition brain_booking_policy :: "env \<Rightarrow> BrainVersion option \<Rightarrow> json_obj \<Rightarrow> BrainDecision option" where
  "brain_booking_policy ev version ctx =
     (case version of
        None \<Rightarrow> None
      | Some v \<Rightarrow>
          Some (case brain_evaluate (env_re_search ev) v ctx of
                  Some d \<Rightarrow> d
                | None \<Rightarrow> simple_decision REQUIRE_APPROVAL (Some (bv_id v))
                    ''Brain evaluation error - manual approval required''))"

definition slot_of :: "Booking \<Rightarrow> SlotBooking" where
  "slot_of b = \<lparr>sb_requested_at = bk_requested_at b, sb_status = bk_status b\<rparr>"

definition existing_bookings :: "uuid \<Rightarrow> datetime \<Rightarrow> db \<Rightarrow> Booking list" where
  "existing_bookings business_id requested_at d =
     filter (\<lambda>b. bk_business_id b = business_id \<and>
               instant requested_at - 12 * us_per_hour \<le> bk_requested_at b \<and>
               bk_requested_at b \<le> instant requested_at + 12 * us_per_hour \<and>
               \<not> bk_deleted b \<and> bk_status b \<notin> {Bkg_CANCELLED, Bkg_DECLINED, Bkg_EXPIRED})
       (t_bookings d)"

text \<open>The text that is hashed into the lock key: the business and the hour of the wall clock.\<close>

definition hour_bucket :: "datetime \<Rightarrow> datetime" where
  "hour_bucket t = t\<lparr>dt_wall := dt_wall t - dt_wall t mod us_per_hour\<rparr>"

definition advisory_lock_text :: "uuid \<Rightarrow> datetime \<Rightarrow> string" where
  "advisory_lock_text business_id requested_at =
     nat_str business_id @ '':'' @ isoformat (hour_bucket requested_at)"

definition booking_availability :: "env \<Rightarrow> uuid \<Rightarrow> datetime \<Rightarrow> BrainVersion option \<Rightarrow> json_obj \<Rightarrow> db \<Rightarrow> AvailabilityResult" where
  "booking_availability ev business_id requested_at version ctx d =
     evaluate_availability (env_re_search ev) (env_now ev) requested_at version (Some ctx)
       (map slot_of (existing_bookings business_id requested_at d))"

definition new_booking ::
  "env \<Rightarrow> uuid \<Rightarrow> uuid \<Rightarrow> Quote \<Rightarrow> datetime \<Rightarrow> BrainVersion option \<Rightarrow> BrainDecision option \<Rightarrow>
   AvailabilityResult \<Rightarrow> string option \<Rightarrow> Booking" where
  "new_booking ev i customer_id q requested_at version decision av notes =
     \<lparr>bk_id = i, bk_reference = reference_of ''BKG-'' i, bk_customer_id = customer_id,
      bk_business_id = q_business_id q, bk_quote_id = q_id q, bk_enquiry_id = q_enquiry_id q,
      bk_service_offer_id = q_service_offer_id q, bk_requested_at = instant requested_at,
      bk_currency = q_currency q, bk_status = Bkg_REQUESTED,
      bk_brain_version_id = map_option bv_id version, bk_brain_decision = decision,
      bk_availability = av, bk_notes = notes, bk_created_at = env_now ev, bk_deleted = False\<rparr>"

definition create_booking ::
  "env \<Rightarrow> uuid \<Rightarrow> uuid \<Rightarrow> datetime \<Rightarrow> string option \<Rightarrow> db \<Rightarrow> err + Booking \<times> db" where
  "create_booking ev customer_id quote_id requested_at notes d =
     bindE (resolve_accepted_quote quote_id customer_id d) (\<lambda>q.
     bindE (resolve_service_offer (q_service_offer_id q) d) (\<lambda>offer.
     bindE (resolve_active_brain_version (q_business_id q) d) (\<lambda>version.
     let ctx = booking_context (q_business_id q) customer_id requested_at offer;
         decision = brain_booking_policy ev version ctx;
         av = booking_availability ev (q_business_id q) requested_at version ctx d in
     bindE (guardE (av_available av) (ValidationError (''Requested time is not available: '' @ av_reason av))) (\<lambda>_.
     bindE (guardE (\<not> (\<exists>b\<in>set_option decision. is_denied b)) (ValidationError ''Booking denied by Business Brain'')) (\<lambda>_.
     let booking = new_booking ev (fresh_id d) customer_id q requested_at version decision av notes in
     Inr (booking,
          advance_enquiry (q_enquiry_id q) Enq_CUSTOMER_ACCEPTED Enq_BOOKING_PROPOSED
            (used_id (add_booking booking d))))))))"

section \<open>Transitions\<close>

definition booking_authority :: "string \<Rightarrow> BookingStatus \<Rightarrow> BookingStatus \<Rightarrow> err + unit" where
  "booking_authority actor current target =
     guardE (\<not> (actor = ''customer'' \<and>
                target \<notin> {Bkg_CANCELLED} \<union> (if current = Bkg_PROPOSED then {Bkg_ACCEPTED} else {})))
       (AuthorizationError ''Customers can only cancel bookings or accept proposed bookings'')"

definition sync_enquiry :: "Booking \<Rightarrow> BookingStatus \<Rightarrow> db \<Rightarrow> db" where
  "sync_enquiry booking target d =
     (if target = Bkg_CONFIRMED then advance_enquiry (bk_enquiry_id booking) Enq_BOOKING_PROPOSED Enq_BOOKED d
      else if target = Bkg_COMPLETED then advance_enquiry (bk_enquiry_id booking) Enq_BOOKED Enq_COMPLETED d
      else d)"

definition booking_event_type :: "BookingStatus \<Rightarrow> string" where
  "booking_event_type s = ''BOOKING_'' @ upper (BookingStatus_value s)"

definition booking_notification :: "Booking \<Rightarrow> BookingStatus \<Rightarrow> string \<times> string" where
  "booking_notification booking target =
     (let ref = bk_reference booking in
      if target = Bkg_CONFIRMED then
        (''Booking confirmed'', ''Your booking '' @ ref @ '' has been confirmed.'')
      else if target = Bkg_COMPLETED then
        (''Service completed'', ''Your service for booking '' @ ref @ '' has been completed.'')
      else if target = Bkg_PROPOSED then
        (''Booking proposed'', ''The business has proposed a time for booking '' @ ref @ ''.'')
      else (''Booking '' @ BookingStatus_value target,
            ''Booking '' @ ref @ '' status: '' @ BookingStatus_value target))"

definition booking_payload :: "Booking \<Rightarrow> BookingStatus \<Rightarrow> payload" where
  "booking_payload booking target =
     [(''booking_id'', PUuid (bk_id booking)), (''enquiry_id'', PUuid (bk_enquiry_id booking)),
      (''quote_id'', PUuid (bk_quote_id booking)), (''customer_id'', PUuid (bk_customer_id booking)),
      (''status'', PStr (BookingStatus_value target)),
      (''notification_title'', PStr (fst (booking_notification booking target))),
      (''notification_body'', PStr (snd (booking_notification booking target)))]"

definition transition_booking ::
  "env \<Rightarrow> Booking \<Rightarrow> BookingStatus \<Rightarrow> string \<Rightarrow> db \<Rightarrow> err + Booking \<times> db" where
  "transition_booking ev booking target actor d =
     bindE (guardE (target \<in> BOOKING_TRANSITIONS (bk_status booking))
       (StateTransitionError ''Cannot transition booking'')) (\<lambda>_.
     bindE (booking_authority actor (bk_status booking) target) (\<lambda>_.
     let booking' = booking\<lparr>bk_status := target\<rparr>;
         d1 = sync_enquiry booking' target (put_booking booking' d) in
     bindE (emit_booking_event ev (bk_business_id booking) (booking_event_type target) (bk_id booking)
       (booking_payload booking' target) d1) (\<lambda>d2.
     Inr (booking', d2))))"

section \<open>Availability check and retrieval\<close>

definition check_availability :: "env \<Rightarrow> uuid \<Rightarrow> uuid \<Rightarrow> datetime \<Rightarrow> db \<Rightarrow> err + AvailabilityResult" where
  "check_availability ev business_id offer_id requested_at d =
     bindE (resolve_service_offer offer_id d) (\<lambda>offer.
     bindE (guardE (so_business_id offer = business_id)
       (AuthorizationError ''Service offer does not belong to this business'')) (\<lambda>_.
     bindE (resolve_active_brain_version business_id d) (\<lambda>version.
     Inr (booking_availability ev business_id requested_at version
       [(''business_id'', JStr (nat_str business_id)),
        (''service_offer_id'', JStr (nat_str (so_id offer))),
        (''requested_at'', JStr (isoformat requested_at))] d))))"

definition get_booking :: "uuid \<Rightarrow> db \<Rightarrow> err + Booking" where
  "get_booking i d = requireE (NotFoundError ''Booking not found'') (find_booking i d)"

definition get_customer_booking :: "uuid \<Rightarrow> uuid \<Rightarrow> db \<Rightarrow> err + Booking" where
  "get_customer_booking i customer_id d =
     bindE (get_booking i d) (\<lambda>b.
     bindE (guardE (bk_customer_id b = customer_id) (AuthorizationError ''Not your booking'')) (\<lambda>_. Inr b))"

definition get_business_booking :: "uuid \<Rightarrow> uuid \<Rightarrow> db \<Rightarrow> err + Booking" where
  "get_business_booking i business_id d =
     bindE (get_booking i d) (\<lambda>b.
     bindE (guardE (bk_business_id b = business_id)
       (AuthorizationError ''Booking does not belong to this business'')) (\<lambda>_. Inr b))"

definition list_customer_bookings :: "uuid \<Rightarrow> BookingStatus option \<Rightarrow> nat \<Rightarrow> nat \<Rightarrow> db \<Rightarrow> Booking list" where
  "list_customer_bookings customer_id status limit offset d =
     page bk_created_at limit offset
       (filter (\<lambda>b. bk_customer_id b = customer_id \<and> \<not> bk_deleted b \<and> status \<in> {None, Some (bk_status b)})
          (t_bookings d))"

definition list_business_bookings :: "uuid \<Rightarrow> BookingStatus option \<Rightarrow> nat \<Rightarrow> nat \<Rightarrow> db \<Rightarrow> Booking list" where
  "list_business_bookings business_id status limit offset d =
     page bk_created_at limit offset
       (filter (\<lambda>b. bk_business_id b = business_id \<and> \<not> bk_deleted b \<and> status \<in> {None, Some (bk_status b)})
          (t_bookings d))"

section \<open>Endpoints\<close>

definition transition_business_booking ::
  "env \<Rightarrow> uuid \<Rightarrow> uuid \<Rightarrow> BookingStatus \<Rightarrow> db \<Rightarrow> err + Booking \<times> db" where
  "transition_business_booking ev business_id booking_id target d =
     bindE (get_business_booking booking_id business_id d) (\<lambda>b. transition_booking ev b target ''business'' d)"

definition transition_my_booking ::
  "env \<Rightarrow> uuid \<Rightarrow> uuid \<Rightarrow> BookingStatus \<Rightarrow> db \<Rightarrow> err + Booking \<times> db" where
  "transition_my_booking ev user_id booking_id target d =
     bindE (get_customer_booking booking_id user_id d) (\<lambda>b. transition_booking ev b target ''customer'' d)"

section \<open>Lemmas\<close>

lemma booking_event_type_inject: "booking_event_type s = booking_event_type t \<longleftrightarrow> s = t"
  by (simp add: booking_event_type_def upper_booking_values_inject)

interpretation booking_lifecycle:
  lifecycle_events BOOKING_TRANSITIONS booking_rank "emit_booking_event ev" "''booking''" booking_event_type for ev
  by unfold_locales (rule booking_event_type_inject)

lemma create_booking_Inr:
  assumes "create_booking ev customer_id quote_id requested_at notes d = Inr (b, d')"
  obtains q offer version where
    "find_quote quote_id d = Some q" "q_customer_id q = customer_id" "q_status q = Quo_ACCEPTED"
    "find_offer (q_service_offer_id q) d = Some offer"
    "resolve_active_brain_version (q_business_id q) d = Inr version"
    "av_available (booking_availability ev (q_business_id q) requested_at version
       (booking_context (q_business_id q) customer_id requested_at offer) d)"
    "\<forall>dec\<in>set_option (brain_booking_policy ev version
       (booking_context (q_business_id q) customer_id requested_at offer)). \<not> is_denied dec"
    "b = new_booking ev (fresh_id d) customer_id q requested_at version
       (brain_booking_policy ev version (booking_context (q_business_id q) customer_id requested_at offer))
       (booking_availability ev (q_business_id q) requested_at version
          (booking_context (q_business_id q) customer_id requested_at offer) d) notes"
    "d' = advance_enquiry (q_enquiry_id q) Enq_CUSTOMER_ACCEPTED Enq_BOOKING_PROPOSED (used_id (add_booking b d))"
  using assms
  by (auto simp: create_booking_def resolve_accepted_quote_def resolve_service_offer_def Let_def result_iffs)

lemma booking_authority_Inr [result_iffs]:
  "booking_authority actor current target = Inr u \<longleftrightarrow>
     (actor = ''customer'' \<longrightarrow> target = Bkg_CANCELLED \<or> current = Bkg_PROPOSED \<and> target = Bkg_ACCEPTED)"
  by (auto simp: booking_authority_def result_iffs)

lemma transition_booking_Inr:
  assumes "transition_booking ev b target actor d = Inr (b', d')"
  obtains "target \<in> BOOKING_TRANSITIONS (bk_status b)" "b' = b\<lparr>bk_status := target\<rparr>"
    "actor = ''customer'' \<longrightarrow> target = Bkg_CANCELLED \<or> bk_status b = Bkg_PROPOSED \<and> target = Bkg_ACCEPTED"
    "emit_booking_event ev (bk_business_id b) (booking_event_type target) (bk_id b) (booking_payload b' target)
       (sync_enquiry b' target (put_booking b' d)) = Inr d'"
  using assms by (auto simp: transition_booking_def Let_def result_iffs)

lemma get_customer_booking_Inr [result_iffs]:
  "get_customer_booking i customer_id d = Inr b \<longleftrightarrow> find_booking i d = Some b \<and> bk_customer_id b = customer_id"
  by (auto simp: get_customer_booking_def get_booking_def result_iffs)

lemma get_business_booking_Inr [result_iffs]:
  "get_business_booking i business_id d = Inr b \<longleftrightarrow> find_booking i d = Some b \<and> bk_business_id b = business_id"
  by (auto simp: get_business_booking_def get_booking_def result_iffs)

lemma transition_my_booking_Inr [result_iffs]:
  "transition_my_booking ev user_id i target d = Inr r \<longleftrightarrow>
     (\<exists>b. find_booking i d = Some b \<and> bk_customer_id b = user_id \<and> transition_booking ev b target ''customer'' d = Inr r)"
  by (auto simp: transition_my_booking_def result_iffs)

lemma transition_business_booking_Inr [result_iffs]:
  "transition_business_booking ev business_id i target d = Inr r \<longleftrightarrow>
     (\<exists>b. find_booking i d = Some b \<and> bk_business_id b = business_id \<and> transition_booking ev b target ''business'' d = Inr r)"
  by (auto simp: transition_business_booking_def result_iffs)

lemma sync_enquiry_tables [simp]:
  "t_quotes (sync_enquiry b target d) = t_quotes d" "t_bookings (sync_enquiry b target d) = t_bookings d"
  "t_executions (sync_enquiry b target d) = t_executions d" "t_invoices (sync_enquiry b target d) = t_invoices d"
  "t_ledger (sync_enquiry b target d) = t_ledger d" "t_outbox (sync_enquiry b target d) = t_outbox d"
  "t_line_items (sync_enquiry b target d) = t_line_items d" "t_payments (sync_enquiry b target d) = t_payments d"
  "fresh (sync_enquiry b target d) = fresh d"
  by (simp_all add: sync_enquiry_def)

text \<open>The tables after a booking has moved.\<close>

lemma transition_booking_tables:
  assumes "transition_booking ev b target actor d = Inr (b', d')"
  shows "t_bookings d' = upd_row bk_id (bk_id b) (\<lambda>_. b') (t_bookings d)"
    "outbox_keys d' = outbox_keys d @ [(booking_event_type target, ''booking'', bk_id b)]"
    "t_enquiries d' = t_enquiries (sync_enquiry b' target (put_booking b' d))"
    "t_quotes d' = t_quotes d" "t_executions d' = t_executions d" "t_invoices d' = t_invoices d"
    "t_line_items d' = t_line_items d" "t_ledger d' = t_ledger d" "t_payments d' = t_payments d"
    "fresh d' = Suc (fresh d)"
  using assms
  by (auto elim!: transition_booking_Inr
      simp: emit_booking_event_def emit_Inr_iff used_id_def put_booking_def outbox_keys_def)

section \<open>Properties\<close>



text \<open>The advisory lock does not keep two requests from sharing the last place of a slot: it is taken
  per hour of the wall clock, so two requests a few minutes apart across the full hour hold
  different locks, are both admitted on the bookings of before, and exceed a capacity that the
  second request would respect if it saw the first booking.\<close>

theorem lock_misses_requests_across_the_hour:
  "\<exists>r t1 t2. rule_type r = ''capacity_limit'' \<and>
     advisory_lock_text 1 t1 \<noteq> advisory_lock_text 1 t2 \<and>
     av_available (evaluate_availability no_regex 0 t1 (Some (sample_version [r])) None []) \<and>
     av_available (evaluate_availability no_regex 0 t2 (Some (sample_version [r])) None []) \<and>
     \<not> av_available (evaluate_availability no_regex 0 t2 (Some (sample_version [r])) None
         [\<lparr>sb_requested_at = instant t1, sb_status = Bkg_REQUESTED\<rparr>])"
proof (intro exI conjI)
  let ?r = "capacity_rule 1 60"
  let ?t1 = "utc_datetime (58 * us_per_minute)" and ?t2 = "utc_datetime (62 * us_per_minute)"
  have matches: "availability_rule_matches no_regex None ?r"
    by (simp add: availability_rule_matches_def capacity_rule_def AVAILABILITY_RULE_TYPES_def sample_defs)
  have blocks: "evaluate_availability_rule ?r t 0 bs \<longleftrightarrow> 1 \<le> int (capacity_count (60 * 30000000) t bs)" for t bs
    using check_capacity_rule [of 60 1 t bs]
    by (simp add: evaluate_availability_rule_def capacity_rule_def sample_defs)
  have rules: "bv_rules (sample_version [?r]) = [?r]" by (simp add: sample_version_def)
  show "rule_type ?r = ''capacity_limit''" by (simp add: capacity_rule_def sample_defs)
  show "advisory_lock_text 1 ?t1 \<noteq> advisory_lock_text 1 ?t2" by code_simp
  show "av_available (evaluate_availability no_regex 0 ?t1 (Some (sample_version [?r])) None [])"
    "av_available (evaluate_availability no_regex 0 ?t2 (Some (sample_version [?r])) None [])"
    unfolding available_iff rules by (simp_all add: matches blocks capacity_count_def)
  show "\<not> av_available (evaluate_availability no_regex 0 ?t2 (Some (sample_version [?r])) None
         [\<lparr>sb_requested_at = instant ?t1, sb_status = Bkg_REQUESTED\<rparr>])"
    unfolding available_iff rules
    by (simp add: matches blocks capacity_count_def slot_taken_def us_units)
qed

end
