(* ===== verification/Ledger.thy ===== *)
theory Ledger
  imports Outbox
begin

text \<open>
  Invoices and the service ledger: src/backend/app/domain/invoice (service, repository) and
  src/backend/app/domain/ledger (service, repository).  The rendering of PDF and CSV documents
  is left out; the totals row of the CSV export is modelled.
\<close>

section \<open>Invoices\<close>

definition get_invoice :: "uuid \<Rightarrow> db \<Rightarrow> err + Invoice" where
  "get_invoice i d = requireE (NotFoundError ''Invoice not found'') (find_invoice i d)"

definition get_business_invoice :: "uuid \<Rightarrow> uuid \<Rightarrow> db \<Rightarrow> err + Invoice" where
  "get_business_invoice i business_id d =
     bindE (get_invoice i d) (\<lambda>iv.
     bindE (guardE (inv_business_id iv = business_id)
       (AuthorizationError ''Invoice does not belong to this business'')) (\<lambda>_. Inr iv))"

definition get_customer_invoice :: "uuid \<Rightarrow> uuid \<Rightarrow> db \<Rightarrow> err + Invoice" where
  "get_customer_invoice i customer_id d =
     bindE (get_invoice i d) (\<lambda>iv.
     bindE (guardE (inv_customer_id iv = customer_id) (AuthorizationError ''Not your invoice'')) (\<lambda>_. Inr iv))"

definition get_by_service_execution_id :: "uuid \<Rightarrow> db \<Rightarrow> err + Invoice option" where
  "get_by_service_execution_id i d =
     scalar_one_or_none (filter (\<lambda>iv. inv_service_execution_id iv = i \<and> \<not> inv_deleted iv) (t_invoices d))"

definition list_business_invoices :: "uuid \<Rightarrow> InvoicePaymentStatus option \<Rightarrow> nat \<Rightarrow> nat \<Rightarrow> db \<Rightarrow> Invoice list" where
  "list_business_invoices business_id status limit offset d =
     page inv_issue_date limit offset
       (filter (\<lambda>i. inv_business_id i = business_id \<and> \<not> inv_deleted i \<and> status \<in> {None, Some (inv_payment_status i)})
          (t_invoices d))"

definition list_customer_invoices :: "uuid \<Rightarrow> InvoicePaymentStatus option \<Rightarrow> nat \<Rightarrow> nat \<Rightarrow> db \<Rightarrow> Invoice list" where
  "list_customer_invoices customer_id status limit offset d =
     page inv_issue_date limit offset
       (filter (\<lambda>i. inv_customer_id i = customer_id \<and> \<not> inv_deleted i \<and> status \<in> {None, Some (inv_payment_status i)})
          (t_invoices d))"

text \<open>\<open>f"INV-{prefix}-{count + 1:04d}"\<close>, the prefix being six characters of the business id.\<close>

definition pad4 :: "nat \<Rightarrow> string" where
  "pad4 n = replicate (4 - length (nat_str n)) (CHR ''0'') @ nat_str n"

definition count_invoices :: "uuid \<Rightarrow> db \<Rightarrow> nat" where
  "count_invoices business_id d =
     length (filter (\<lambda>i. inv_business_id i = business_id \<and> \<not> inv_deleted i) (t_invoices d))"

definition get_next_invoice_number :: "uuid \<Rightarrow> db \<Rightarrow> string" where
  "get_next_invoice_number business_id d =
     ''INV-'' @ upper (take 6 (nat_str business_id)) @ ''-'' @ pad4 (count_invoices business_id d + 1)"

text \<open>Unique columns: the service execution, and the number within a business.\<close>

definition insert_invoice :: "Invoice \<Rightarrow> db \<Rightarrow> err + db" where
  "insert_invoice iv d =
     bindE (guardE (\<not> list_ex (\<lambda>i. inv_service_execution_id i = inv_service_execution_id iv) (t_invoices d))
       (IntegrityError ''invoices.service_execution_id'')) (\<lambda>_.
     bindE (guardE (\<not> list_ex (\<lambda>i. inv_business_id i = inv_business_id iv \<and>
                                   inv_invoice_number i = inv_invoice_number iv) (t_invoices d))
       (IntegrityError ''uq_invoice_business_number'')) (\<lambda>_.
     Inr (used_id (add_invoice iv d))))"

text \<open>The business sets a payment status by hand; only VOID is final.\<close>

definition update_payment_status ::
  "Invoice \<Rightarrow> InvoicePaymentStatus \<Rightarrow> db \<Rightarrow> err + Invoice \<times> db" where
  "update_payment_status iv new_status d =
     bindE (guardE (inv_payment_status iv \<noteq> Ips_VOID)
       (StateTransitionError ''Cannot change payment status of a voided invoice'')) (\<lambda>_.
     let inv1 = iv\<lparr>inv_payment_status := new_status\<rparr>;
         inv2 = (if new_status = Ips_VOID then inv1\<lparr>inv_status := Inv_VOID\<rparr> else inv1) in
     Inr (inv2, put_invoice inv2 d))"

section \<open>Ledger\<close>

definition get_entry :: "uuid \<Rightarrow> db \<Rightarrow> err + ServiceLedgerEntry" where
  "get_entry i d = requireE (NotFoundError ''Ledger entry not found'') (find_entry i d)"

definition get_business_entry :: "uuid \<Rightarrow> uuid \<Rightarrow> db \<Rightarrow> err + ServiceLedgerEntry" where
  "get_business_entry i business_id d =
     bindE (get_entry i d) (\<lambda>e.
     bindE (guardE (le_business_id e = business_id)
       (AuthorizationError ''Ledger entry does not belong to this business'')) (\<lambda>_. Inr e))"

definition get_entries_by_invoice :: "uuid \<Rightarrow> db \<Rightarrow> ServiceLedgerEntry list" where
  "get_entries_by_invoice invoice_id d =
     filter (\<lambda>e. le_invoice_id e = Some invoice_id \<and> \<not> le_deleted e) (t_ledger d)"

record LedgerFilter =
  lf_payment_status :: "InvoicePaymentStatus option"
  lf_service_offer_id :: "uuid option"
  lf_customer_id :: "uuid option"
  lf_date_from :: "timestamp option"
  lf_date_to :: "timestamp option"

definition in_period :: "timestamp option \<Rightarrow> timestamp option \<Rightarrow> ServiceLedgerEntry \<Rightarrow> bool" where
  "in_period date_from date_to e \<longleftrightarrow>
     (case date_from of None \<Rightarrow> True | Some f \<Rightarrow> le_completion_date e \<ge> f) \<and>
     (case date_to of None \<Rightarrow> True | Some t \<Rightarrow> le_completion_date e \<le> t)"

definition ledger_entries :: "uuid \<Rightarrow> LedgerFilter \<Rightarrow> nat \<Rightarrow> nat \<Rightarrow> db \<Rightarrow> ServiceLedgerEntry list" where
  "ledger_entries business_id lf limit offset d =
     page le_completion_date limit offset
       (filter (\<lambda>e. le_business_id e = business_id \<and> \<not> le_deleted e \<and>
                  lf_payment_status lf \<in> {None, Some (le_payment_status e)} \<and>
                  lf_service_offer_id lf \<in> {None, Some (le_service_offer_id e)} \<and>
                  lf_customer_id lf \<in> {None, Some (le_customer_id e)} \<and>
                  in_period (lf_date_from lf) (lf_date_to lf) e)
          (t_ledger d))"

record LedgerSummary =
  ls_total_entries :: nat
  ls_total_gross :: money
  ls_total_discount :: money
  ls_total_tax :: money
  ls_total_net :: money
  ls_paid_amount :: money
  ls_outstanding_amount :: money

definition primary_entries :: "uuid \<Rightarrow> timestamp option \<Rightarrow> timestamp option \<Rightarrow> db \<Rightarrow> ServiceLedgerEntry list" where
  "primary_entries business_id date_from date_to d =
     filter (\<lambda>e. le_business_id e = business_id \<and> le_is_primary e \<and> \<not> le_deleted e \<and>
               in_period date_from date_to e) (t_ledger d)"

definition get_summary :: "uuid \<Rightarrow> timestamp option \<Rightarrow> timestamp option \<Rightarrow> db \<Rightarrow> LedgerSummary" where
  "get_summary business_id date_from date_to d =
     (let es = primary_entries business_id date_from date_to d;
          total_net = sum_list (map le_net_amount es);
          paid = sum_list (map le_net_amount (filter (\<lambda>e. le_payment_status e = Ips_PAID) es))
      in \<lparr>ls_total_entries = length es, ls_total_gross = sum_list (map le_gross_amount es),
          ls_total_discount = sum_list (map le_discount es), ls_total_tax = sum_list (map le_tax es),
          ls_total_net = total_net, ls_paid_amount = paid, ls_outstanding_amount = total_net - paid\<rparr>)"

text \<open>The totals row of the CSV export: gross, discount, tax and net over the exported entries.\<close>

definition export_totals :: "uuid \<Rightarrow> LedgerFilter \<Rightarrow> db \<Rightarrow> money \<times> money \<times> money \<times> money" where
  "export_totals business_id lf d =
     (let es = ledger_entries business_id lf 10000 0 d
      in (sum_list (map le_gross_amount es), sum_list (map le_discount es),
          sum_list (map le_tax es), sum_list (map le_net_amount es)))"

text \<open>A text given for a Numeric(12, 2) column.\<close>

definition numeric_arg :: "string \<Rightarrow> err + money" where
  "numeric_arg s =
     (case parse_decimal s of
        None \<Rightarrow> Inl (DataError ''invalid numeric'')
      | Some x \<Rightarrow>
          if numeric_12_2 (round_places 2 x) then Inr (round_places 2 x)
          else Inl (DataError ''numeric field overflow''))"

definition create_adjustment ::
  "env \<Rightarrow> uuid \<Rightarrow> uuid \<Rightarrow> string \<Rightarrow> string \<Rightarrow> string \<Rightarrow> string \<Rightarrow> string \<Rightarrow> string \<Rightarrow> db \<Rightarrow>
   err + ServiceLedgerEntry \<times> db" where
  "create_adjustment ev business_id original_id gross discount tax net currency notes d =
     bindE (get_business_entry original_id business_id d) (\<lambda>original.
     bindE (guardE (le_is_primary original) (ValidationError ''Can only adjust primary ledger entries'')) (\<lambda>_.
     bindE (numeric_arg gross) (\<lambda>g.
     bindE (numeric_arg discount) (\<lambda>dc.
     bindE (numeric_arg tax) (\<lambda>tx.
     bindE (numeric_arg net) (\<lambda>n.
     let e = original\<lparr>le_id := fresh_id d, le_completion_date := env_now ev, le_gross_amount := g,
               le_discount := dc, le_tax := tx, le_net_amount := n, le_currency := currency,
               le_is_primary := False, le_adjusts_entry_id := Some (le_id original),
               le_transaction_reference := Some (reference_of ''ADJ-'' (fresh_id d)),
               le_fee_evidence := None, le_notes := Some notes, le_deleted := False\<rparr> in
     Inr (e, used_id (add_entry e d))))))))"

section \<open>Lemmas\<close>

lemma create_adjustment_Inr:
  assumes "create_adjustment ev business_id i gross discount tax net currency notes d = Inr (e, d')"
  obtains original g dc tx n where "find_entry i d = Some original" "le_business_id original = business_id"
    "le_is_primary original" "numeric_arg gross = Inr g" "numeric_arg discount = Inr dc"
    "numeric_arg tax = Inr tx" "numeric_arg net = Inr n"
    "le_business_id e = business_id" "\<not> le_is_primary e" "\<not> le_deleted e" "le_adjusts_entry_id e = Some i"
    "le_gross_amount e = g" "le_discount e = dc" "le_tax e = tx" "le_net_amount e = n" "t_ledger d' = t_ledger d @ [e]"
proof -
  from assms obtain original g dc tx n where original: "find_entry i d = Some original" "le_business_id original = business_id"
    "le_is_primary original"
    and n: "numeric_arg gross = Inr g" "numeric_arg discount = Inr dc" "numeric_arg tax = Inr tx" "numeric_arg net = Inr n"
    and e: "e = original\<lparr>le_id := fresh_id d, le_completion_date := env_now ev, le_gross_amount := g,
               le_discount := dc, le_tax := tx, le_net_amount := n, le_currency := currency,
               le_is_primary := False, le_adjusts_entry_id := Some (le_id original),
               le_transaction_reference := Some (reference_of ''ADJ-'' (fresh_id d)),
               le_fee_evidence := None, le_notes := Some notes, le_deleted := False\<rparr>"
      "d' = used_id (add_entry e d)"
    by (auto simp: create_adjustment_def get_business_entry_def get_entry_def Let_def result_iffs)
  have "le_id original = i" using original(1) by (rule entry_repo.get_key)
  then show ?thesis
    using that [OF original n] original e by (simp add: used_id_def add_entry_def)
qed

lemma sum_list_sort_desc: "sum_list (map g (sort_desc k xs)) = (sum_list (map g xs) :: rat)"
  by (simp add: sort_desc_def rev_map sum_mset_sum_list flip: sum_mset_sum_list)

definition no_filter :: LedgerFilter where
  "no_filter = \<lparr>lf_payment_status = None, lf_service_offer_id = None, lf_customer_id = None,
     lf_date_from = None, lf_date_to = None\<rparr>"

definition business_entries :: "uuid \<Rightarrow> db \<Rightarrow> ServiceLedgerEntry list" where
  "business_entries business_id d = filter (\<lambda>e. le_business_id e = business_id \<and> \<not> le_deleted e) (t_ledger d)"

text \<open>An export of at most ten thousand entries adds all of them up.\<close>

lemma export_totals_all:
  assumes "length (business_entries business_id d) \<le> 10000"
  shows "export_totals business_id no_filter d =
    (sum_list (map le_gross_amount (business_entries business_id d)), sum_list (map le_discount (business_entries business_id d)),
     sum_list (map le_tax (business_entries business_id d)), sum_list (map le_net_amount (business_entries business_id d)))"
proof -
  have "ledger_entries business_id no_filter 10000 0 d = sort_desc le_completion_date (business_entries business_id d)"
    using assms by (simp add: ledger_entries_def no_filter_def in_period_def page_def business_entries_def)
  then show ?thesis by (simp add: export_totals_def Let_def sum_list_sort_desc)
qed

section \<open>Properties\<close>

text \<open>An adjustment never shows in the ledger summary of any period, while the totals of the ledger
  export move by exactly its amounts: after an adjustment the two reports of a business differ.\<close>

theorem adjustments_missing_from_summary:
  assumes "create_adjustment ev business_id i gross discount tax net currency notes d = Inr (e, d')"
    and "length (business_entries business_id d) < 10000"
  shows "get_summary b date_from date_to d' = get_summary b date_from date_to d \<and> le_adjusts_entry_id e = Some i \<and>
    (\<exists>g dc t n. export_totals business_id no_filter d = (g, dc, t, n) \<and> export_totals business_id no_filter d' =
      (g + le_gross_amount e, dc + le_discount e, t + le_tax e, n + le_net_amount e))"
  using assms(1)
proof (elim create_adjustment_Inr)
  assume e: "le_business_id e = business_id" "\<not> le_is_primary e" "\<not> le_deleted e" "le_adjusts_entry_id e = Some i"
    and t: "t_ledger d' = t_ledger d @ [e]"
  have "primary_entries b date_from date_to d' = primary_entries b date_from date_to d"
    using e(2) t by (simp add: primary_entries_def)
  then have "get_summary b date_from date_to d' = get_summary b date_from date_to d"
    by (simp add: get_summary_def)
  moreover have "business_entries business_id d' = business_entries business_id d @ [e]"
    using e t by (simp add: business_entries_def)
  ultimately show ?thesis
    using assms(2) e(4) by (simp add: export_totals_all)
qed

definition sample_entry :: ServiceLedgerEntry where
  "sample_entry =
     \<lparr>le_id = 5, le_business_id = 1, le_customer_id = 2, le_service_execution_id = 50, le_booking_id = 40,
      le_quote_id = Some 30, le_invoice_id = Some 60, le_service_offer_id = 7, le_completion_date = 90,
      le_gross_amount = 80, le_discount = 0, le_tax = 0, le_net_amount = 80, le_currency = ''GBP'',
      le_payment_status = Ips_UNPAID, le_is_primary = True, le_adjusts_entry_id = None,
      le_transaction_reference = None, le_fee_evidence = None, le_notes = None, le_deleted = False\<rparr>"

theorem adjustments_missing_from_summary_witness:
  "\<exists>e d'. create_adjustment sample_env 1 5 ''-10'' ''0'' ''0'' ''-10'' ''GBP'' ''Goodwill'' (empty_db\<lparr>t_ledger := [sample_entry]\<rparr>) =
       Inr (e, d') \<and>
     get_summary 1 None None d' = get_summary 1 None None (empty_db\<lparr>t_ledger := [sample_entry]\<rparr>)"
proof -
  let ?d = "empty_db\<lparr>t_ledger := [sample_entry]\<rparr>"
  have "case numeric_arg ''-10'' of Inr _ \<Rightarrow> True | _ \<Rightarrow> False" "case numeric_arg ''0'' of Inr _ \<Rightarrow> True | _ \<Rightarrow> False"
    by code_simp+
  then have n: "\<exists>x. numeric_arg ''-10'' = Inr x" "\<exists>x. numeric_arg ''0'' = Inr x"
    by (simp_all split: sum.splits)
  have "find_entry 5 ?d = Some sample_entry" "le_business_id sample_entry = 1" "le_is_primary sample_entry"
    by (simp_all add: find_entry_def live_row_def sample_entry_def)
  then have "\<exists>e d'. create_adjustment sample_env 1 5 ''-10'' ''0'' ''0'' ''-10'' ''GBP'' ''Goodwill'' ?d = Inr (e, d')"
    using n by (auto simp: create_adjustment_def get_business_entry_def get_entry_def Let_def)
  moreover have "length (business_entries 1 ?d) < 10000"
    by (simp add: business_entries_def)
  ultimately show ?thesis using adjustments_missing_from_summary by blast
qed

end
