(* ===== verification/Completion.thy ===== *)
theory Completion
  imports Bookings Ledger
begin

text \<open>
  Service execution and the completion flow, src/backend/app/domain/service_execution: an
  execution is created from a booking, moves along its lifecycle, and its completion writes the
  invoice, the line item and the primary ledger entry, and completes the booking and the enquiry,
  all in one transaction.
\<close>

section \<open>Creation\<close>

definition get_execution_by_booking_id :: "uuid \<Rightarrow> db \<Rightarrow> err + ServiceExecution option" where
  "get_execution_by_booking_id i d =
     scalar_one_or_none (filter (\<lambda>x. ex_booking_id x = i \<and> \<not> ex_deleted x) (t_executions d))"

definition new_execution :: "env \<Rightarrow> uuid \<Rightarrow> uuid \<Rightarrow> Booking \<Rightarrow> ServiceExecution" where
  "new_execution ev i business_id b =
     \<lparr>ex_id = i, ex_business_id = business_id, ex_customer_id = bk_customer_id b, ex_booking_id = bk_id b,
      ex_service_offer_id = bk_service_offer_id b, ex_quote_id = Some (bk_quote_id b),
      ex_status = Exec_IN_PROGRESS, ex_scheduled_at = Some (bk_requested_at b),
      ex_started_at = Some (env_now ev), ex_completed_at = None, ex_completed_by = None,
      ex_completion_evidence = None, ex_notes = None, ex_created_at = env_now ev, ex_deleted = False\<rparr>"

text \<open>The booking of an execution is a unique column.\<close>

definition insert_execution :: "ServiceExecution \<Rightarrow> db \<Rightarrow> err + db" where
  "insert_execution x d =
     bindE (guardE (\<not> list_ex (\<lambda>y. ex_booking_id y = ex_booking_id x) (t_executions d))
       (IntegrityError ''service_executions.booking_id'')) (\<lambda>_.
     Inr (used_id (add_execution x d)))"

definition create_from_booking :: "env \<Rightarrow> uuid \<Rightarrow> uuid \<Rightarrow> db \<Rightarrow> err + ServiceExecution \<times> db" where
  "create_from_booking ev booking_id business_id d =
     bindE (get_execution_by_booking_id booking_id d) (\<lambda>existing.
     bindE (guardE (existing = None) (ConflictError ''Service execution already exists for this booking'')) (\<lambda>_.
     bindE (requireE (NotFoundError ''Booking not found'') (find_booking booking_id d)) (\<lambda>b.
     bindE (guardE (bk_business_id b = business_id)
       (AuthorizationError ''Booking does not belong to this business'')) (\<lambda>_.
     bindE (guardE (bk_status b \<in> {Bkg_CONFIRMED, Bkg_IN_PROGRESS})
       (ValidationError ''Booking must be confirmed or in_progress to create execution'')) (\<lambda>_.
     let x = new_execution ev (fresh_id d) business_id b in
     bindE (insert_execution x d) (\<lambda>d1. Inr (x, d1)))))))"

section \<open>Completion records\<close>

definition line_description :: "ServiceOffer option \<Rightarrow> string" where
  "line_description offer = (case offer of None \<Rightarrow> ''Service'' | Some so \<Rightarrow> so_name so)"

definition booking_currency :: "Booking option \<Rightarrow> string" where
  "booking_currency b = (case b of None \<Rightarrow> ''GBP'' | Some x \<Rightarrow> bk_currency x)"

definition quote_of_execution :: "ServiceExecution \<Rightarrow> db \<Rightarrow> Quote option" where
  "quote_of_execution x d = (case ex_quote_id x of None \<Rightarrow> None | Some i \<Rightarrow> find_quote i d)"

definition quote_amount :: "Quote option \<Rightarrow> money" where
  "quote_amount q = (case q of None \<Rightarrow> 0 | Some x \<Rightarrow> q_amount x)"

text \<open>The quote's evidence, or a calculation at completion time; a failing one leaves none.\<close>

definition invoice_fee_evidence :: "env \<Rightarrow> uuid \<Rightarrow> Quote option \<Rightarrow> money \<Rightarrow> string \<Rightarrow> db \<Rightarrow> FeeResult option" where
  "invoice_fee_evidence ev business_id q tot currency d =
     (case (case q of None \<Rightarrow> None | Some x \<Rightarrow> q_fee_evidence x) of
        Some f \<Rightarrow> Some f
      | None \<Rightarrow>
          (case calculate_fee business_id tot currency None None (env_now ev) (t_policies d) of
             Inl _ \<Rightarrow> None | Inr f \<Rightarrow> Some f))"

definition new_invoice ::
  "env \<Rightarrow> uuid \<Rightarrow> ServiceExecution \<Rightarrow> string \<Rightarrow> string \<Rightarrow> money \<Rightarrow> money \<Rightarrow> money \<Rightarrow> FeeResult option \<Rightarrow> Invoice" where
  "new_invoice ev i x number currency amount discount tax fee =
     \<lparr>inv_id = i, inv_business_id = ex_business_id x, inv_customer_id = ex_customer_id x,
      inv_service_execution_id = ex_id x, inv_booking_id = ex_booking_id x, inv_quote_id = ex_quote_id x,
      inv_invoice_number = number, inv_issue_date = env_now ev, inv_currency = currency,
      inv_subtotal = amount, inv_discount = discount, inv_tax = tax, inv_total = amount - discount + tax,
      inv_payment_status = Ips_UNPAID, inv_status = Inv_ISSUED, inv_fee_evidence = fee, inv_deleted = False\<rparr>"

definition new_line_item :: "uuid \<Rightarrow> Invoice \<Rightarrow> ServiceOffer option \<Rightarrow> InvoiceLineItem" where
  "new_line_item i iv offer =
     \<lparr>li_id = i, li_invoice_id = inv_id iv, li_description = line_description offer,
      li_service_reference = map_option so_slug offer, li_quantity = 1, li_unit_price = inv_subtotal iv,
      li_discount = inv_discount iv, li_tax = inv_tax iv, li_line_total = inv_total iv,
      li_currency = inv_currency iv, li_sort_order = 0\<rparr>"

definition new_ledger_entry :: "env \<Rightarrow> uuid \<Rightarrow> ServiceExecution \<Rightarrow> Invoice \<Rightarrow> ServiceLedgerEntry" where
  "new_ledger_entry ev i x iv =
     \<lparr>le_id = i, le_business_id = ex_business_id x, le_customer_id = ex_customer_id x,
      le_service_execution_id = ex_id x, le_booking_id = ex_booking_id x, le_quote_id = ex_quote_id x,
      le_invoice_id = Some (inv_id iv), le_service_offer_id = ex_service_offer_id x,
      le_completion_date = env_now ev, le_gross_amount = inv_subtotal iv, le_discount = inv_discount iv,
      le_tax = inv_tax iv, le_net_amount = inv_total iv - inv_discount iv, le_currency = inv_currency iv,
      le_payment_status = Ips_UNPAID, le_is_primary = True, le_adjusts_entry_id = None,
      le_transaction_reference = Some (reference_of ''TXN-'' i), le_fee_evidence = inv_fee_evidence iv,
      le_notes = None, le_deleted = False\<rparr>"

definition invoice_payload :: "ServiceExecution \<Rightarrow> Invoice \<Rightarrow> payload" where
  "invoice_payload x iv =
     [(''invoice_id'', PUuid (inv_id iv)), (''invoice_number'', PStr (inv_invoice_number iv)),
      (''customer_id'', PUuid (ex_customer_id x)), (''service_execution_id'', PUuid (ex_id x)),
      (''total'', PMoney (inv_total iv)), (''currency'', PStr (inv_currency iv)),
      (''notification_title'', PStr (''Invoice '' @ inv_invoice_number iv @ '' issued'')),
      (''notification_body'', PStr (''Invoice '' @ inv_invoice_number iv @ '' for '' @ inv_currency iv @ '' '' @
         money_str (inv_total iv) @ '' is ready for payment.''))]"

definition create_completion_records :: "env \<Rightarrow> ServiceExecution \<Rightarrow> db \<Rightarrow> err + db" where
  "create_completion_records ev x d =
     bindE (get_by_service_execution_id (ex_id x) d) (\<lambda>existing.
     case existing of
       Some _ \<Rightarrow> Inr d
     | None \<Rightarrow>
         (let q = quote_of_execution x d;
              offer = find_offer (ex_service_offer_id x) d;
              currency = booking_currency (find_booking (ex_booking_id x) d);
              amount = quote_amount q; discount = 0; tax = 0;
              number = get_next_invoice_number (ex_business_id x) d;
              fee = invoice_fee_evidence ev (ex_business_id x) q (amount - discount + tax) currency d;
              iv = new_invoice ev (fresh_id d) x number currency amount discount tax fee in
          bindE (insert_invoice iv d) (\<lambda>d1.
          let d2 = used_id (add_line_item (new_line_item (fresh_id d1) iv offer) d1);
              d3 = used_id (add_entry (new_ledger_entry ev (fresh_id d2) x iv) d2) in
          emit_execution_event ev (ex_business_id x) ''INVOICE_ISSUED'' (inv_id iv) (invoice_payload x iv) d3)))"

definition cascade_booking_completion :: "env \<Rightarrow> ServiceExecution \<Rightarrow> db \<Rightarrow> err + db" where
  "cascade_booking_completion ev x d =
     (case find_booking (ex_booking_id x) d of
        None \<Rightarrow> Inr d
      | Some b \<Rightarrow>
          if bk_status b = Bkg_COMPLETED then Inr d
          else if bk_status b \<notin> {Bkg_CONFIRMED, Bkg_IN_PROGRESS} then Inr d
          else (case transition_booking ev b Bkg_COMPLETED ''system'' d of
                  Inr (b', d') \<Rightarrow> Inr d'
                | Inl (StateTransitionError m) \<Rightarrow> Inr d
                | Inl e \<Rightarrow> Inl e))"

section \<open>Transitions\<close>

text \<open>The attributes set before the flush.  Empty notes and evidence are not written.\<close>

definition stamped ::
  "env \<Rightarrow> ServiceExecutionStatus \<Rightarrow> uuid option \<Rightarrow> string option \<Rightarrow> json_obj option \<Rightarrow>
   ServiceExecution \<Rightarrow> ServiceExecution" where
  "stamped ev target actor_id notes evidence x =
     (let x1 = (if target = Exec_IN_PROGRESS then x\<lparr>ex_started_at := Some (env_now ev)\<rparr>
                else if target = Exec_COMPLETED then
                  x\<lparr>ex_completed_at := Some (env_now ev), ex_completed_by := actor_id,
                    ex_completion_evidence :=
                      (if evidence \<notin> {None, Some []} then evidence else ex_completion_evidence x)\<rparr>
                else x);
          x2 = (if notes \<notin> {None, Some []} then x1\<lparr>ex_notes := notes\<rparr> else x1)
      in x2\<lparr>ex_status := target\<rparr>)"

definition execution_event_type :: "ServiceExecutionStatus \<Rightarrow> string" where
  "execution_event_type s = ''SERVICE_'' @ upper (ServiceExecutionStatus_value s)"

definition execution_notification :: "ServiceExecutionStatus \<Rightarrow> string \<times> string" where
  "execution_notification target =
     (if target = Exec_COMPLETED then
        (''Service completed'', ''Your service has been completed. You can now make payment.'')
      else if target = Exec_IN_PROGRESS then
        (''Service in progress'', ''The business has started working on your service.'')
      else (''Service '' @ ServiceExecutionStatus_value target,
            ''Service execution status: '' @ ServiceExecutionStatus_value target))"

definition execution_payload :: "ServiceExecution \<Rightarrow> ServiceExecutionStatus \<Rightarrow> payload" where
  "execution_payload x target =
     [(''service_execution_id'', PUuid (ex_id x)), (''booking_id'', PUuid (ex_booking_id x)),
      (''customer_id'', PUuid (ex_customer_id x)), (''status'', PStr (ServiceExecutionStatus_value target)),
      (''notification_title'', PStr (fst (execution_notification target))),
      (''notification_body'', PStr (snd (execution_notification target)))]"

definition transition_execution ::
  "env \<Rightarrow> ServiceExecution \<Rightarrow> ServiceExecutionStatus \<Rightarrow> uuid option \<Rightarrow> string option \<Rightarrow> json_obj option \<Rightarrow>
   db \<Rightarrow> err + ServiceExecution \<times> db" where
  "transition_execution ev x target actor_id notes evidence d =
     bindE (guardE (target \<in> SERVICE_EXECUTION_TRANSITIONS (ex_status x))
       (StateTransitionError ''Cannot transition service execution'')) (\<lambda>_.
     let x' = stamped ev target actor_id notes evidence x;
         d1 = put_execution x' d in
     bindE (if target = Exec_COMPLETED
            then bindE (create_completion_records ev x' d1) (cascade_booking_completion ev x')
            else Inr d1) (\<lambda>d2.
     bindE (emit_execution_event ev (ex_business_id x') (execution_event_type target) (ex_id x')
       (execution_payload x' target) d2) (\<lambda>d3.
     Inr (x', d3))))"

definition complete_service ::
  "env \<Rightarrow> ServiceExecution \<Rightarrow> uuid \<Rightarrow> string option \<Rightarrow> json_obj option \<Rightarrow> db \<Rightarrow> err + ServiceExecution \<times> db" where
  "complete_service ev x actor_id notes evidence d =
     (if ex_status x = Exec_COMPLETED then Inr (x, d)
      else transition_execution ev x Exec_COMPLETED (Some actor_id) notes evidence d)"

definition start_service :: "env \<Rightarrow> ServiceExecution \<Rightarrow> uuid \<Rightarrow> db \<Rightarrow> err + ServiceExecution \<times> db" where
  "start_service ev x actor_id d = transition_execution ev x Exec_IN_PROGRESS (Some actor_id) None None d"

definition cancel_service ::
  "env \<Rightarrow> ServiceExecution \<Rightarrow> uuid \<Rightarrow> string option \<Rightarrow> db \<Rightarrow> err + ServiceExecution \<times> db" where
  "cancel_service ev x actor_id notes d = transition_execution ev x Exec_CANCELLED (Some actor_id) notes None d"

definition mark_no_show ::
  "env \<Rightarrow> ServiceExecution \<Rightarrow> uuid \<Rightarrow> string option \<Rightarrow> db \<Rightarrow> err + ServiceExecution \<times> db" where
  "mark_no_show ev x actor_id notes d = transition_execution ev x Exec_NO_SHOW (Some actor_id) notes None d"

section \<open>Retrieval\<close>

definition get_execution :: "uuid \<Rightarrow> db \<Rightarrow> err + ServiceExecution" where
  "get_execution i d = requireE (NotFoundError ''Service execution not found'') (find_execution i d)"

definition get_business_execution :: "uuid \<Rightarrow> uuid \<Rightarrow> db \<Rightarrow> err + ServiceExecution" where
  "get_business_execution i business_id d =
     bindE (get_execution i d) (\<lambda>x.
     bindE (guardE (ex_business_id x = business_id)
       (AuthorizationError ''Service execution does not belong to this business'')) (\<lambda>_. Inr x))"

definition get_customer_execution :: "uuid \<Rightarrow> uuid \<Rightarrow> db \<Rightarrow> err + ServiceExecution" where
  "get_customer_execution i customer_id d =
     bindE (get_execution i d) (\<lambda>x.
     bindE (guardE (ex_customer_id x = customer_id) (AuthorizationError ''Not your service execution'')) (\<lambda>_. Inr x))"

definition list_business_executions :: "uuid \<Rightarrow> ServiceExecutionStatus option \<Rightarrow> nat \<Rightarrow> nat \<Rightarrow> db \<Rightarrow> ServiceExecution list" where
  "list_business_executions business_id status limit offset d =
     page ex_created_at limit offset
       (filter (\<lambda>x. ex_business_id x = business_id \<and> \<not> ex_deleted x \<and> status \<in> {None, Some (ex_status x)})
          (t_executions d))"

definition list_customer_executions :: "uuid \<Rightarrow> ServiceExecutionStatus option \<Rightarrow> nat \<Rightarrow> nat \<Rightarrow> db \<Rightarrow> ServiceExecution list" where
  "list_customer_executions customer_id status limit offset d =
     page ex_created_at limit offset
       (filter (\<lambda>x. ex_customer_id x = customer_id \<and> \<not> ex_deleted x \<and> status \<in> {None, Some (ex_status x)})
          (t_executions d))"

section \<open>Endpoints\<close>

definition transition_business_execution ::
  "env \<Rightarrow> uuid \<Rightarrow> uuid \<Rightarrow> uuid \<Rightarrow> ServiceExecutionStatus \<Rightarrow> string option \<Rightarrow> json_obj option \<Rightarrow> db \<Rightarrow>
   err + ServiceExecution \<times> db" where
  "transition_business_execution ev business_id execution_id user_id target notes evidence d =
     bindE (get_business_execution execution_id business_id d) (\<lambda>x.
     transition_execution ev x target (Some user_id) notes evidence d)"

definition complete_business_service ::
  "env \<Rightarrow> uuid \<Rightarrow> uuid \<Rightarrow> uuid \<Rightarrow> string option \<Rightarrow> db \<Rightarrow> err + ServiceExecution \<times> db" where
  "complete_business_service ev business_id execution_id user_id notes d =
     bindE (get_business_execution execution_id business_id d) (\<lambda>x. complete_service ev x user_id notes None d)"

section \<open>Lemmas\<close>

lemma execution_event_type_inject: "execution_event_type s = execution_event_type t \<longleftrightarrow> s = t"
  by (simp add: execution_event_type_def upper_execution_values_inject)

interpretation execution_lifecycle:
  lifecycle_events SERVICE_EXECUTION_TRANSITIONS execution_rank "emit_execution_event ev" "''service_execution''"
    execution_event_type for ev
  by unfold_locales (rule execution_event_type_inject)

lemma insert_invoice_Inr [result_iffs]:
  "insert_invoice iv d = Inr d' \<longleftrightarrow>
     (\<forall>i\<in>set (t_invoices d). inv_service_execution_id i \<noteq> inv_service_execution_id iv) \<and>
     (\<forall>i\<in>set (t_invoices d). inv_business_id i = inv_business_id iv \<longrightarrow> inv_invoice_number i \<noteq> inv_invoice_number iv) \<and>
     d' = used_id (add_invoice iv d)"
  by (auto simp: insert_invoice_def list_ex_iff result_iffs)

lemma create_from_booking_Inr:
  assumes "create_from_booking ev booking_id business_id d = Inr (x, d')"
  obtains b where "find_booking booking_id d = Some b" "bk_business_id b = business_id"
    "bk_status b \<in> {Bkg_CONFIRMED, Bkg_IN_PROGRESS}" "x = new_execution ev (fresh_id d) business_id b"
    "\<forall>y\<in>set (t_executions d). ex_booking_id y \<noteq> bk_id b" "d' = used_id (add_execution x d)"
  using assms
  by (auto simp: create_from_booking_def insert_execution_def list_ex_iff Let_def result_iffs
      new_execution_def simp del: insert_iff)

lemma stamped_simps [simp]:
  "ex_id (stamped ev t a n v x) = ex_id x" "ex_status (stamped ev t a n v x) = t"
  "ex_business_id (stamped ev t a n v x) = ex_business_id x" "ex_customer_id (stamped ev t a n v x) = ex_customer_id x"
  "ex_booking_id (stamped ev t a n v x) = ex_booking_id x" "ex_quote_id (stamped ev t a n v x) = ex_quote_id x"
  "ex_service_offer_id (stamped ev t a n v x) = ex_service_offer_id x" "ex_deleted (stamped ev t a n v x) = ex_deleted x"
  by (simp_all add: stamped_def Let_def)

text \<open>The completion records: nothing when an invoice exists, else one row in each table.\<close>

definition completion_invoice :: "env \<Rightarrow> ServiceExecution \<Rightarrow> db \<Rightarrow> Invoice" where
  "completion_invoice ev x d =
     (let q = quote_of_execution x d; currency = booking_currency (find_booking (ex_booking_id x) d)
      in new_invoice ev (fresh_id d) x (get_next_invoice_number (ex_business_id x) d) currency (quote_amount q) 0 0
           (invoice_fee_evidence ev (ex_business_id x) q (quote_amount q) currency d))"

lemma create_completion_records_Inr:
  assumes "create_completion_records ev x d = Inr d'"
  obtains (present) iv where "iv \<in> set (t_invoices d)" "inv_service_execution_id iv = ex_id x" "d' = d"
  | (created) li le where
    "\<forall>i\<in>set (t_invoices d). inv_service_execution_id i \<noteq> ex_id x"
    "t_invoices d' = t_invoices d @ [completion_invoice ev x d]"
    "t_line_items d' = t_line_items d @ [li]" "t_ledger d' = t_ledger d @ [le]"
    "li = new_line_item (Suc (fresh d)) (completion_invoice ev x d) (find_offer (ex_service_offer_id x) d)"
    "le = new_ledger_entry ev (Suc (Suc (fresh d))) x (completion_invoice ev x d)"
    "outbox_keys d' = outbox_keys d @ [(''INVOICE_ISSUED'', ''service_execution'', fresh d)]"
    "fresh d' = fresh d + 4" "t_bookings d' = t_bookings d" "t_enquiries d' = t_enquiries d"
    "t_quotes d' = t_quotes d" "t_executions d' = t_executions d" "t_payments d' = t_payments d"
proof (cases "get_by_service_execution_id (ex_id x) d")
  case (Inl e)
  then show ?thesis using assms by (simp add: create_completion_records_def)
next
  case (Inr existing)
  show ?thesis
  proof (cases existing)
    case (Some iv)
    then have "filter (\<lambda>iv. inv_service_execution_id iv = ex_id x \<and> \<not> inv_deleted iv) (t_invoices d) = [iv]"
      using Inr by (simp add: get_by_service_execution_id_def scalar_one_or_none_Inr_SomeD)
    then have "iv \<in> {i \<in> set (t_invoices d). inv_service_execution_id i = ex_id x \<and> \<not> inv_deleted i}"
      by (metis list.set_intros(1) set_filter)
    then show ?thesis
      using present [of iv] assms Inr Some by (simp add: create_completion_records_def)
  next
    case None
    let ?iv = "completion_invoice ev x d"
    obtain d1 where ins: "insert_invoice ?iv d = Inr d1"
      and emit: "emit_execution_event ev (ex_business_id x) ''INVOICE_ISSUED'' (inv_id ?iv) (invoice_payload x ?iv)
        (used_id (add_entry (new_ledger_entry ev (fresh_id (used_id (add_line_item
          (new_line_item (fresh_id d1) ?iv (find_offer (ex_service_offer_id x) d)) d1))) x ?iv)
          (used_id (add_line_item (new_line_item (fresh_id d1) ?iv (find_offer (ex_service_offer_id x) d)) d1)))) = Inr d'"
      using assms Inr None
      by (auto simp: create_completion_records_def completion_invoice_def Let_def bindE_Inr_iff)
    have iv: "inv_id ?iv = fresh d" "inv_service_execution_id ?iv = ex_id x"
      by (simp_all add: completion_invoice_def new_invoice_def fresh_id_def Let_def)
    note frame = add_invoice_def add_line_item_def add_entry_def used_id_def fresh_id_def
    have d1: "d1 = used_id (add_invoice ?iv d)" "\<forall>i\<in>set (t_invoices d). inv_service_execution_id i \<noteq> ex_id x"
      using ins iv(2) by (simp_all add: insert_invoice_Inr)
    from emit have keys: "outbox_keys d' = outbox_keys d @ [(''INVOICE_ISSUED'', ''service_execution'', fresh d)]"
      unfolding d1(1) iv by (auto dest!: execution_events.emit_keys simp: outbox_keys_def frame)
    from emit show ?thesis
      using d1(2) keys unfolding d1(1) emit_execution_event_def emit_Inr_iff
      by (intro created) (simp_all add: frame)
  qed
qed

lemma create_completion_records_tables:
  assumes "create_completion_records ev x d = Inr d'"
  shows "t_bookings d' = t_bookings d" "t_enquiries d' = t_enquiries d" "t_quotes d' = t_quotes d"
    "t_executions d' = t_executions d" "t_payments d' = t_payments d"
  using assms by (auto elim!: create_completion_records_Inr)

text \<open>The booking is completed with its event when it can be, and left alone otherwise.\<close>

lemma cascade_Inr:
  assumes "cascade_booking_completion ev x d = Inr d'"
  obtains (skipped) "d' = d"
      "\<And>b. find_booking (ex_booking_id x) d = Some b \<Longrightarrow> bk_status b \<notin> {Bkg_CONFIRMED, Bkg_IN_PROGRESS}"
  | (completed) b b' where "find_booking (ex_booking_id x) d = Some b" "bk_status b \<in> {Bkg_CONFIRMED, Bkg_IN_PROGRESS}"
      "transition_booking ev b Bkg_COMPLETED ''system'' d = Inr (b', d')"
proof (cases "find_booking (ex_booking_id x) d")
  case None
  then show ?thesis using assms skipped by (simp add: cascade_booking_completion_def)
next
  case (Some b)
  show ?thesis
  proof (cases "bk_status b \<in> {Bkg_CONFIRMED, Bkg_IN_PROGRESS}")
    case True
    then have "Bkg_COMPLETED \<in> BOOKING_TRANSITIONS (bk_status b)" by auto
    then have "transition_booking ev b Bkg_COMPLETED ''system'' d \<noteq> Inl (StateTransitionError m)" for m
      by (auto simp: transition_booking_def booking_authority_def Let_def bindE_Inl_iff emit_booking_event_def
          emit_Inl_iff guardE_Inl_iff)
    then obtain b' where "transition_booking ev b Bkg_COMPLETED ''system'' d = Inr (b', d')"
      using assms Some True
      by (auto simp: cascade_booking_completion_def split: sum.splits err.splits if_splits)
    then show ?thesis using completed Some True by blast
  next
    case False
    then have "d' = d" using assms Some by (simp add: cascade_booking_completion_def split: if_splits)
    then show ?thesis using Some False skipped by auto
  qed
qed

lemma cascade_tables:
  assumes "cascade_booking_completion ev x d = Inr d'"
  shows "t_quotes d' = t_quotes d" "t_executions d' = t_executions d" "t_invoices d' = t_invoices d"
    "t_line_items d' = t_line_items d" "t_ledger d' = t_ledger d" "t_payments d' = t_payments d" "fresh d \<le> fresh d'"
proof -
  from assms have "t_quotes d' = t_quotes d \<and> t_executions d' = t_executions d \<and> t_invoices d' = t_invoices d \<and>
    t_line_items d' = t_line_items d \<and> t_ledger d' = t_ledger d \<and> t_payments d' = t_payments d \<and> fresh d \<le> fresh d'"
  proof (cases rule: cascade_Inr)
    case (completed b b')
    show ?thesis using transition_booking_tables [OF completed(3)] by simp
  qed simp
  then show "t_quotes d' = t_quotes d" "t_executions d' = t_executions d" "t_invoices d' = t_invoices d"
    "t_line_items d' = t_line_items d" "t_ledger d' = t_ledger d" "t_payments d' = t_payments d" "fresh d \<le> fresh d'"
    by blast+
qed

lemma transition_execution_Inr:
  assumes "transition_execution ev x target actor_id notes evidence d = Inr (x', d')"
  obtains d2 where "target \<in> SERVICE_EXECUTION_TRANSITIONS (ex_status x)"
    "x' = stamped ev target actor_id notes evidence x"
    "(if target = Exec_COMPLETED
      then bindE (create_completion_records ev x' (put_execution x' d)) (cascade_booking_completion ev x')
      else Inr (put_execution x' d)) = Inr d2"
    "emit_execution_event ev (ex_business_id x) (execution_event_type target) (ex_id x)
       (execution_payload x' target) d2 = Inr d'"
  using assms by (auto simp: transition_execution_def Let_def result_iffs)

lemma emit_execution_tables:
  assumes "emit_execution_event ev b ety i pl d = Inr d'"
  shows "t_quotes d' = t_quotes d" "t_executions d' = t_executions d" "t_invoices d' = t_invoices d"
    "t_line_items d' = t_line_items d" "t_ledger d' = t_ledger d" "t_payments d' = t_payments d"
    "t_bookings d' = t_bookings d" "t_enquiries d' = t_enquiries d" "fresh d' = Suc (fresh d)"
    "outbox_keys d' = outbox_keys d @ [(ety, ''service_execution'', i)]"
  using assms by (auto simp: emit_execution_event_def emit_Inr_iff used_id_def outbox_keys_def)

lemma get_business_execution_Inr [result_iffs]:
  "get_business_execution i business_id d = Inr x \<longleftrightarrow> find_execution i d = Some x \<and> ex_business_id x = business_id"
  by (auto simp: get_business_execution_def get_execution_def result_iffs)

text \<open>The executions after a transition, whatever the target.\<close>

lemma transition_execution_executions:
  assumes "transition_execution ev x target actor_id notes evidence d = Inr (x', d')"
  shows "t_executions d' = upd_row ex_id (ex_id x) (\<lambda>_. x') (t_executions d)"
  using assms
proof (elim transition_execution_Inr)
  fix d2
  assume x': "x' = stamped ev target actor_id notes evidence x"
    and d2: "(if target = Exec_COMPLETED
      then bindE (create_completion_records ev x' (put_execution x' d)) (cascade_booking_completion ev x')
      else Inr (put_execution x' d)) = Inr d2"
    and emit: "emit_execution_event ev (ex_business_id x) (execution_event_type target) (ex_id x)
       (execution_payload x' target) d2 = Inr d'"
  have "t_executions d2 = t_executions (put_execution x' d)"
  proof (cases "target = Exec_COMPLETED")
    case True
    then obtain d1 where "create_completion_records ev x' (put_execution x' d) = Inr d1"
      "cascade_booking_completion ev x' d1 = Inr d2"
      using d2 by (auto simp: bindE_Inr_iff)
    then show ?thesis by (simp add: cascade_tables create_completion_records_tables)
  next
    case False
    then show ?thesis using d2 by simp
  qed
  then show ?thesis
    using emit_execution_tables(2) [OF emit] x' by (simp add: put_execution_def)
qed

lemma find_execution_after_transition:
  assumes "transition_execution ev x target actor_id notes evidence d = Inr (x', d')"
    and "find_execution i d = Some x"
  shows "find_execution i d' = Some x'"
proof -
  have x: "ex_id x = i" "\<not> ex_deleted x"
    using assms(2) by (auto simp: find_execution_def dest: live_row_SomeD)
  have "ex_id x' = ex_id x" "ex_deleted x' = ex_deleted x"
    using assms(1) by (auto elim!: transition_execution_Inr)
  then show ?thesis
    using live_row_put_same [of ex_id ex_deleted x' "t_executions d" x] x assms(2)
    by (simp add: find_execution_def transition_execution_executions [OF assms(1)])
qed

text \<open>A completing transition, taken apart.\<close>

lemma transition_completed_Inr:
  assumes "transition_execution ev x Exec_COMPLETED actor_id notes evidence d = Inr (x', d')"
  obtains d1 d2 where "ex_status x = Exec_IN_PROGRESS" "x' = stamped ev Exec_COMPLETED actor_id notes evidence x"
    "create_completion_records ev x' (put_execution x' d) = Inr d1" "cascade_booking_completion ev x' d1 = Inr d2"
    "emit_execution_event ev (ex_business_id x) (execution_event_type Exec_COMPLETED) (ex_id x)
       (execution_payload x' Exec_COMPLETED) d2 = Inr d'"
    "t_invoices d' = t_invoices d1" "t_line_items d' = t_line_items d1" "t_ledger d' = t_ledger d1"
    "t_bookings d' = t_bookings d2" "t_bookings d1 = t_bookings d"
proof -
  from assms obtain d2 where allowed: "Exec_COMPLETED \<in> SERVICE_EXECUTION_TRANSITIONS (ex_status x)"
    and x': "x' = stamped ev Exec_COMPLETED actor_id notes evidence x"
    and d2: "bindE (create_completion_records ev x' (put_execution x' d)) (cascade_booking_completion ev x') = Inr d2"
    and emit: "emit_execution_event ev (ex_business_id x) (execution_event_type Exec_COMPLETED) (ex_id x)
       (execution_payload x' Exec_COMPLETED) d2 = Inr d'"
    by (elim transition_execution_Inr) simp
  obtain d1 where d1: "create_completion_records ev x' (put_execution x' d) = Inr d1"
    "cascade_booking_completion ev x' d1 = Inr d2"
    using d2 by (auto simp: bindE_Inr_iff)
  have "ex_status x = Exec_IN_PROGRESS" using allowed by (cases "ex_status x") simp_all
  moreover have "t_bookings d1 = t_bookings d"
    using create_completion_records_tables(1) [OF d1(1)] by (simp add: put_execution_def)
  ultimately show ?thesis
    using that x' d1 emit emit_execution_tables [OF emit] cascade_tables [OF d1(2)] by simp
qed

section \<open>Progress\<close>

text \<open>When each step goes through; the keys and numbers asked for are shown to be free later.\<close>

lemma create_from_booking_progress:
  assumes "find_booking i d = Some b" "bk_business_id b = business_id"
    "bk_status b \<in> {Bkg_CONFIRMED, Bkg_IN_PROGRESS}" "\<forall>y\<in>set (t_executions d). ex_booking_id y \<noteq> i"
  shows "create_from_booking ev i business_id d =
    Inr (new_execution ev (fresh_id d) business_id b, used_id (add_execution (new_execution ev (fresh_id d) business_id b) d))"
proof -
  have "bk_id b = i" using assms(1) by (rule booking_repo.get_key)
  moreover have "get_execution_by_booking_id i d = Inr None"
    using assms(4) by (simp add: get_execution_by_booking_id_def filter_False)
  ultimately show ?thesis
    using assms
    by (auto simp: create_from_booking_def insert_execution_def list_ex_iff Let_def new_execution_def guardE_def)
qed

lemma create_completion_records_progress:
  assumes "\<forall>i\<in>set (t_invoices d). inv_service_execution_id i \<noteq> ex_id x"
    and "\<forall>i\<in>set (t_invoices d). inv_business_id i = ex_business_id x \<longrightarrow>
           inv_invoice_number i \<noteq> get_next_invoice_number (ex_business_id x) d"
    and "(''INVOICE_ISSUED'', ''service_execution'', fresh d) \<notin> set (outbox_keys d)"
  shows "\<exists>d'. create_completion_records ev x d = Inr d'"
proof -
  let ?iv = "completion_invoice ev x d"
  have iv: "inv_id ?iv = fresh d" "inv_service_execution_id ?iv = ex_id x" "inv_business_id ?iv = ex_business_id x"
    "inv_invoice_number ?iv = get_next_invoice_number (ex_business_id x) d"
    by (simp_all add: completion_invoice_def new_invoice_def fresh_id_def Let_def)
  have none: "get_by_service_execution_id (ex_id x) d = Inr None"
    using assms(1) by (simp add: get_by_service_execution_id_def filter_False)
  have ins: "insert_invoice ?iv d = Inr (used_id (add_invoice ?iv d))"
    using assms(1,2) iv by (simp add: insert_invoice_Inr)
  have "outbox_keys (used_id (add_entry le (used_id (add_line_item li (used_id (add_invoice ?iv d)))))) = outbox_keys d"
    for le li by (simp add: outbox_keys_def used_id_def add_entry_def add_line_item_def add_invoice_def)
  then have "\<exists>d'. emit_execution_event ev b ''INVOICE_ISSUED'' (inv_id ?iv) pl
      (used_id (add_entry le (used_id (add_line_item li (used_id (add_invoice ?iv d)))))) = Inr d'" for b pl le li
    using assms(3) iv(1) by (intro execution_events.emit_fresh_key) simp
  then show ?thesis
    using none ins by (simp add: create_completion_records_def completion_invoice_def Let_def)
qed

lemma transition_booking_progress:
  assumes "target \<in> BOOKING_TRANSITIONS (bk_status b)" "booking_authority actor (bk_status b) target = Inr ()"
    and "(booking_event_type target, ''booking'', bk_id b) \<notin> set (outbox_keys d)"
  shows "\<exists>d'. transition_booking ev b target actor d = Inr (b\<lparr>bk_status := target\<rparr>, d')"
proof -
  let ?b = "b\<lparr>bk_status := target\<rparr>"
  have "outbox_keys (sync_enquiry ?b target (put_booking ?b d)) = outbox_keys d"
    by (simp add: outbox_keys_def put_booking_def)
  then have "\<exists>d'. emit_booking_event ev (bk_business_id b) (booking_event_type target) (bk_id b)
      (booking_payload ?b target) (sync_enquiry ?b target (put_booking ?b d)) = Inr d'"
    using assms(3) by (intro booking_events.emit_fresh_key) simp
  then show ?thesis
    using assms(1,2) by (auto simp: transition_booking_def Let_def)
qed

lemma cascade_progress:
  assumes "\<And>b. find_booking (ex_booking_id x) d = Some b \<Longrightarrow> bk_status b \<in> {Bkg_CONFIRMED, Bkg_IN_PROGRESS} \<Longrightarrow>
     (booking_event_type Bkg_COMPLETED, ''booking'', bk_id b) \<notin> set (outbox_keys d)"
  shows "\<exists>d'. cascade_booking_completion ev x d = Inr d'"
proof (cases "find_booking (ex_booking_id x) d")
  case (Some b)
  show ?thesis
  proof (cases "bk_status b \<in> {Bkg_CONFIRMED, Bkg_IN_PROGRESS}")
    case True
    then have "Bkg_COMPLETED \<in> BOOKING_TRANSITIONS (bk_status b)" by auto
    then obtain d' where "transition_booking ev b Bkg_COMPLETED ''system'' d = Inr (b\<lparr>bk_status := Bkg_COMPLETED\<rparr>, d')"
      using transition_booking_progress [of Bkg_COMPLETED b "''system''" d ev] assms [OF Some True]
      by (auto simp: booking_authority_def)
    then show ?thesis using Some True by (auto simp: cascade_booking_completion_def)
  qed (use Some in \<open>auto simp: cascade_booking_completion_def\<close>)
qed (simp add: cascade_booking_completion_def)

lemma transition_execution_progress:
  assumes "target \<in> SERVICE_EXECUTION_TRANSITIONS (ex_status x)"
    and "(execution_event_type target, ''service_execution'', ex_id x) \<notin> set (outbox_keys d)"
    and "target = Exec_COMPLETED \<Longrightarrow> \<exists>d2. bindE
       (create_completion_records ev (stamped ev target actor_id notes evidence x) (put_execution (stamped ev target actor_id notes evidence x) d))
       (cascade_booking_completion ev (stamped ev target actor_id notes evidence x)) = Inr d2 \<and>
       (execution_event_type target, ''service_execution'', ex_id x) \<notin> set (outbox_keys d2)"
  shows "\<exists>x' d'. transition_execution ev x target actor_id notes evidence d = Inr (x', d')"
proof -
  let ?x = "stamped ev target actor_id notes evidence x"
  have "outbox_keys (put_execution ?x d) = outbox_keys d" by (simp add: outbox_keys_def put_execution_def)
  then obtain d2 where d2: "(if target = Exec_COMPLETED
      then bindE (create_completion_records ev ?x (put_execution ?x d)) (cascade_booking_completion ev ?x)
      else Inr (put_execution ?x d)) = Inr d2"
    "(execution_event_type target, ''service_execution'', ex_id x) \<notin> set (outbox_keys d2)"
    using assms(2,3) by (cases "target = Exec_COMPLETED") auto
  then show ?thesis
    using execution_events.emit_fresh_key [OF d2(2), of ev "ex_business_id x" "execution_payload ?x target"] assms(1)
    by (auto simp: transition_execution_def Let_def)
qed

text \<open>The keys that completion adds.\<close>

lemma create_completion_records_keys:
  assumes "create_completion_records ev x d = Inr d'"
  shows "set (outbox_keys d') \<subseteq> insert (''INVOICE_ISSUED'', ''service_execution'', fresh d) (set (outbox_keys d))"
  using assms by (cases rule: create_completion_records_Inr) auto

lemma cascade_keys:
  assumes "cascade_booking_completion ev x d = Inr d'"
  shows "set (outbox_keys d') \<subseteq> insert (booking_event_type Bkg_COMPLETED, ''booking'', ex_booking_id x) (set (outbox_keys d))"
  using assms
proof (cases rule: cascade_Inr)
  case (completed b b')
  then show ?thesis
    using transition_booking_tables(2) [OF completed(3)] booking_repo.get_key [OF completed(1)] by auto
qed auto

lemma completion_progress:
  assumes "ex_status x = Exec_IN_PROGRESS"
    and inv: "\<forall>i\<in>set (t_invoices d). inv_service_execution_id i \<noteq> ex_id x"
      "\<forall>i\<in>set (t_invoices d). inv_business_id i = ex_business_id x \<longrightarrow>
         inv_invoice_number i \<noteq> get_next_invoice_number (ex_business_id x) d"
    and keys: "(''INVOICE_ISSUED'', ''service_execution'', fresh d) \<notin> set (outbox_keys d)"
      "(execution_event_type Exec_COMPLETED, ''service_execution'', ex_id x) \<notin> set (outbox_keys d)"
    and booking: "\<And>b. find_booking (ex_booking_id x) d = Some b \<Longrightarrow> bk_status b \<in> {Bkg_CONFIRMED, Bkg_IN_PROGRESS} \<Longrightarrow>
       (booking_event_type Bkg_COMPLETED, ''booking'', bk_id b) \<notin> set (outbox_keys d)"
  shows "\<exists>x' d'. transition_execution ev x Exec_COMPLETED actor_id notes evidence d = Inr (x', d')"
proof (rule transition_execution_progress)
  let ?x = "stamped ev Exec_COMPLETED actor_id notes evidence x"
  let ?d = "put_execution ?x d"
  have d: "t_invoices ?d = t_invoices d" "t_bookings ?d = t_bookings d" "outbox_keys ?d = outbox_keys d" "fresh ?d = fresh d"
    "get_next_invoice_number b ?d = get_next_invoice_number b d" for b
    by (simp_all add: put_execution_def outbox_keys_def get_next_invoice_number_def count_invoices_def)
  obtain d1 where d1: "create_completion_records ev ?x ?d = Inr d1"
    using create_completion_records_progress [of ?d ?x ev] inv keys(1) d by auto
  have k1: "set (outbox_keys d1) \<subseteq> insert (''INVOICE_ISSUED'', ''service_execution'', fresh d) (set (outbox_keys d))"
    using create_completion_records_keys [OF d1] d by simp
  have "find_booking i d1 = find_booking i d" for i
    using create_completion_records_tables(1) [OF d1] d by (simp add: find_booking_def)
  then obtain d2 where d2: "cascade_booking_completion ev ?x d1 = Inr d2"
    using cascade_progress [of ?x d1 ev] booking k1 by fastforce
  have "execution_event_type Exec_COMPLETED \<noteq> ''INVOICE_ISSUED''"
    by (simp add: execution_event_type_def upper_def upper_char_def)
  then have "(execution_event_type Exec_COMPLETED, ''service_execution'', ex_id x) \<notin> set (outbox_keys d2)"
    using cascade_keys [OF d2] k1 keys(2) by auto
  then show "\<exists>d2. bindE (create_completion_records ev ?x ?d) (cascade_booking_completion ev ?x) = Inr d2 \<and>
     (execution_event_type Exec_COMPLETED, ''service_execution'', ex_id x) \<notin> set (outbox_keys d2)"
    using d1 d2 by simp
qed (use assms(1) keys(2) in simp_all)

section \<open>Properties\<close>

text \<open>C16: Completing an execution that has no invoice yet bills exactly the amount of its quote: one
  issued, unpaid invoice with one line item and one primary ledger entry, linked to each other
  and to the parties of the execution, and nothing else in those tables.\<close>

theorem completion_bills_the_quote:
  assumes "transition_execution ev x Exec_COMPLETED actor_id notes evidence d = Inr (x', d')"
    and "ex_quote_id x = Some qi" and "find_quote qi d = Some q"
    and "\<forall>i\<in>set (t_invoices d). inv_service_execution_id i \<noteq> ex_id x"
  shows "\<exists>iv li le. t_invoices d' = t_invoices d @ [iv] \<and> t_line_items d' = t_line_items d @ [li] \<and>
    t_ledger d' = t_ledger d @ [le] \<and>
    inv_total iv = q_amount q \<and> li_line_total li = q_amount q \<and> le_net_amount le = q_amount q \<and>
    li_invoice_id li = inv_id iv \<and> le_invoice_id le = Some (inv_id iv) \<and> le_is_primary le \<and>
    inv_payment_status iv = Ips_UNPAID \<and> le_payment_status le = Ips_UNPAID \<and> inv_status iv = Inv_ISSUED \<and>
    inv_service_execution_id iv = ex_id x \<and> inv_business_id iv = ex_business_id x \<and>
    inv_customer_id iv = ex_customer_id x \<and> le_business_id le = ex_business_id x \<and> ex_status x' = Exec_COMPLETED"
  using assms(1)
proof (elim transition_completed_Inr)
  fix d1 d2
  assume x': "x' = stamped ev Exec_COMPLETED actor_id notes evidence x"
    and rec: "create_completion_records ev x' (put_execution x' d) = Inr d1"
    and same: "t_invoices d' = t_invoices d1" "t_line_items d' = t_line_items d1" "t_ledger d' = t_ledger d1"
  let ?iv = "completion_invoice ev x' (put_execution x' d)"
  have q: "quote_of_execution x' (put_execution x' d) = Some q"
    using assms(2,3) x' by (simp add: quote_of_execution_def find_quote_def put_execution_def)
  from rec show ?thesis
  proof (cases rule: create_completion_records_Inr)
    case (present iv)
    then show ?thesis using assms(4) x' by (simp add: put_execution_def)
  next
    case (created li le)
    then show ?thesis
      using same x' q
      by (intro exI [of _ ?iv] exI [of _ li] exI [of _ le])
        (simp add: put_execution_def completion_invoice_def new_invoice_def new_line_item_def
          new_ledger_entry_def quote_amount_def Let_def)
  qed
qed

definition sample_booking :: "uuid \<Rightarrow> BookingStatus \<Rightarrow> Booking" where
  "sample_booking i st =
     \<lparr>bk_id = i, bk_reference = ''BKG-1'', bk_customer_id = 2, bk_business_id = 1, bk_quote_id = 30,
      bk_enquiry_id = 20, bk_service_offer_id = 7, bk_requested_at = 5000, bk_currency = ''GBP'', bk_status = st,
      bk_brain_version_id = None, bk_brain_decision = None,
      bk_availability = evaluate_availability no_regex 0 (utc_datetime 5000) None None [],
      bk_notes = None, bk_created_at = 30, bk_deleted = False\<rparr>"

definition sample_execution :: ServiceExecution where
  "sample_execution = new_execution sample_env 50 1 (sample_booking 40 Bkg_CONFIRMED)"

definition service_db :: "BookingStatus \<Rightarrow> db" where
  "service_db st =
     (market_db Enq_BOOKED Quo_ACCEPTED)\<lparr>t_bookings := [sample_booking 40 st], t_executions := [sample_execution]\<rparr>"

lemma service_db_simps:
  "t_bookings (service_db st) = [sample_booking 40 st]" "t_executions (service_db st) = [sample_execution]"
  "t_invoices (service_db st) = []" "outbox_keys (service_db st) = []" "fresh (service_db st) = 1000"
  "find_booking 40 (service_db st) = Some (sample_booking 40 st)" "find_execution 50 (service_db st) = Some sample_execution"
  "find_quote 30 (service_db st) = Some (sample_quote 30 Quo_ACCEPTED)"
  "ex_id sample_execution = 50" "ex_status sample_execution = Exec_IN_PROGRESS" "ex_business_id sample_execution = 1"
  "ex_quote_id sample_execution = Some 30" "ex_booking_id sample_execution = 40"
  "bk_status (sample_booking 40 st) = st" "bk_id (sample_booking 40 st) = 40" "bk_customer_id (sample_booking 40 st) = 2"
  "q_amount (sample_quote 30 Quo_ACCEPTED) = 80"
  by (simp_all add: service_db_def market_defs outbox_keys_def find_booking_def find_execution_def
      sample_booking_def sample_execution_def new_execution_def)

theorem completion_bills_the_quote_witness:
  "\<exists>x' d'. transition_execution sample_env sample_execution Exec_COMPLETED None None None (service_db Bkg_CONFIRMED) = Inr (x', d') \<and>
     (\<exists>iv. t_invoices d' = [iv] \<and> inv_total iv = 80)"
proof -
  have "\<exists>x' d'. transition_execution sample_env sample_execution Exec_COMPLETED None None None (service_db Bkg_CONFIRMED) = Inr (x', d')"
    by (rule completion_progress) (simp_all add: service_db_simps)
  then show ?thesis
    using completion_bills_the_quote [of sample_env sample_execution None None None "service_db Bkg_CONFIRMED" _ _ 30
        "sample_quote 30 Quo_ACCEPTED"] by (fastforce simp: service_db_simps)
qed

text \<open>Completion is idempotent: once it has succeeded, every later request to complete the same
  execution returns the same row and changes nothing.\<close>

theorem completion_idempotent:
  assumes "complete_business_service ev business_id i user notes d = Inr (x, d1)"
  shows "complete_business_service ev' business_id i user' notes' d1 = Inr (x, d1) \<and> ex_status x = Exec_COMPLETED"
proof -
  obtain x0 where x0: "find_execution i d = Some x0" "ex_business_id x0 = business_id"
    "complete_service ev x0 user notes None d = Inr (x, d1)"
    using assms by (auto simp: complete_business_service_def result_iffs)
  have "find_execution i d1 = Some x \<and> ex_business_id x = business_id \<and> ex_status x = Exec_COMPLETED"
  proof (cases "ex_status x0 = Exec_COMPLETED")
    case True
    then show ?thesis using x0 by (simp add: complete_service_def)
  next
    case False
    then have run: "transition_execution ev x0 Exec_COMPLETED (Some user) notes None d = Inr (x, d1)"
      using x0(3) by (simp add: complete_service_def)
    show ?thesis
      using find_execution_after_transition [OF run x0(1)] run x0(2) by (auto elim!: transition_execution_Inr)
  qed
  then show ?thesis
    by (simp add: complete_business_service_def get_business_execution_def get_execution_def complete_service_def)
qed

theorem completion_idempotent_witness:
  "\<exists>x d. complete_business_service sample_env 1 50 9 None (service_db Bkg_CONFIRMED) = Inr (x, d) \<and>
     complete_business_service sample_env 1 50 8 (Some ''again'') d = Inr (x, d)"
proof -
  have "\<exists>x' d'. transition_execution sample_env sample_execution Exec_COMPLETED (Some 9) None None (service_db Bkg_CONFIRMED) = Inr (x', d')"
    by (rule completion_progress) (simp_all add: service_db_simps)
  then have "\<exists>x d. complete_business_service sample_env 1 50 9 None (service_db Bkg_CONFIRMED) = Inr (x, d)"
    by (simp add: complete_business_service_def get_business_execution_def get_execution_def complete_service_def
        service_db_simps)
  then show ?thesis using completion_idempotent by blast
qed

text \<open>A booking that the customer cancels while its execution is running is billed all the same when the
  business completes the execution: the invoice is issued and the booking stays cancelled.\<close>

theorem cancelled_booking_still_billed:
  assumes "find_execution i d = Some x" and "ex_status x = Exec_IN_PROGRESS"
    and "transition_my_booking ev customer (ex_booking_id x) Bkg_CANCELLED d = Inr (b, d1)"
    and "complete_business_service ev' business_id i user notes d1 = Inr (x', d2)"
    and "\<forall>iv\<in>set (t_invoices d). inv_service_execution_id iv \<noteq> ex_id x"
  shows "find_booking (ex_booking_id x) d2 = Some b \<and> bk_status b = Bkg_CANCELLED \<and>
    (\<exists>iv. t_invoices d2 = t_invoices d @ [iv] \<and> inv_booking_id iv = ex_booking_id x \<and> inv_payment_status iv = Ips_UNPAID)"
proof -
  obtain b0 where b0: "find_booking (ex_booking_id x) d = Some b0"
    "transition_booking ev b0 Bkg_CANCELLED ''customer'' d = Inr (b, d1)"
    using assms(3) by (auto simp: result_iffs)
  note moved = transition_booking_tables [OF b0(2)]
  have bid: "bk_id b0 = ex_booking_id x" using b0(1) by (rule booking_repo.get_key)
  have b: "b = b0\<lparr>bk_status := Bkg_CANCELLED\<rparr>" using b0(2) by (auto elim: transition_booking_Inr)
  have found: "find_booking (ex_booking_id x) d1 = Some b"
    using booking_repo.get_put_same [of b d b0] b0(1) b bid moved(1)
    by (auto simp: find_booking_def put_booking_def dest: live_row_SomeD)
  have "transition_execution ev' x Exec_COMPLETED (Some user) notes None d1 = Inr (x', d2)"
    using assms(1,2,4) moved(5)
    by (auto simp: complete_business_service_def complete_service_def result_iffs find_execution_def)
  then show ?thesis
  proof (elim transition_completed_Inr)
    fix e1 e2
    assume x': "x' = stamped ev' Exec_COMPLETED (Some user) notes None x"
      and rec: "create_completion_records ev' x' (put_execution x' d1) = Inr e1"
      and casc: "cascade_booking_completion ev' x' e1 = Inr e2"
      and same: "t_invoices d2 = t_invoices e1" "t_bookings d2 = t_bookings e2" "t_bookings e1 = t_bookings d1"
    have "find_booking (ex_booking_id x') e1 = Some b"
      using found same(3) x' by (simp add: find_booking_def)
    then have "e2 = e1" using casc b by (simp add: cascade_booking_completion_def)
    then have "find_booking (ex_booking_id x) d2 = Some b"
      using found same(2,3) by (simp add: find_booking_def)
    moreover have "\<exists>iv. t_invoices e1 = t_invoices d @ [iv] \<and> inv_booking_id iv = ex_booking_id x \<and> inv_payment_status iv = Ips_UNPAID"
      using rec
    proof (cases rule: create_completion_records_Inr)
      case (present iv)
      then show ?thesis using assms(5) x' moved(6) by (simp add: put_execution_def)
    next
      case (created li le)
      then show ?thesis
        using x' moved(6) by (simp add: put_execution_def completion_invoice_def new_invoice_def Let_def)
    qed
    ultimately show ?thesis using b same(1) by simp
  qed
qed

theorem cancelled_booking_still_billed_witness:
  "\<exists>b d1 x d2. transition_my_booking sample_env 2 40 Bkg_CANCELLED (service_db Bkg_CONFIRMED) = Inr (b, d1) \<and>
     complete_business_service sample_env 1 50 9 None d1 = Inr (x, d2) \<and> bk_status b = Bkg_CANCELLED \<and>
     length (t_invoices d2) = 1"
proof -
  let ?d = "service_db Bkg_CONFIRMED"
  have key: "(booking_event_type Bkg_CANCELLED, ''booking'', 40) \<notin> set (outbox_keys ?d)" by (simp add: service_db_simps)
  obtain d1 where run: "transition_booking sample_env (sample_booking 40 Bkg_CONFIRMED) Bkg_CANCELLED ''customer'' ?d =
      Inr ((sample_booking 40 Bkg_CONFIRMED)\<lparr>bk_status := Bkg_CANCELLED\<rparr>, d1)"
    using transition_booking_progress [of Bkg_CANCELLED "sample_booking 40 Bkg_CONFIRMED" "''customer''" ?d sample_env]
    by (auto simp: service_db_simps booking_authority_def)
  let ?b = "(sample_booking 40 Bkg_CONFIRMED)\<lparr>bk_status := Bkg_CANCELLED\<rparr>"
  have my: "transition_my_booking sample_env 2 40 Bkg_CANCELLED ?d = Inr (?b, d1)"
    using run by (simp add: transition_my_booking_Inr service_db_simps)
  note moved = transition_booking_tables [OF run]
  have d1: "t_invoices d1 = []" "fresh d1 = 1001" "find_execution 50 d1 = Some sample_execution"
    "find_booking 40 d1 = Some ?b" "outbox_keys d1 = [(booking_event_type Bkg_CANCELLED, ''booking'', 40)]"
    using moved
    by (simp_all add: service_db_simps find_execution_def find_booking_def live_row_def sample_booking_def
        sample_execution_def new_execution_def)
  have "\<exists>x' d'. transition_execution sample_env sample_execution Exec_COMPLETED (Some 9) None None d1 = Inr (x', d')"
    by (rule completion_progress) (simp_all add: service_db_simps d1)
  then have "\<exists>x d2. complete_business_service sample_env 1 50 9 None d1 = Inr (x, d2)"
    by (simp add: complete_business_service_def get_business_execution_def get_execution_def complete_service_def
        service_db_simps d1)
  then obtain x d2 where fin: "complete_business_service sample_env 1 50 9 None d1 = Inr (x, d2)" by blast
  have "length (t_invoices d2) = 1"
    using cancelled_booking_still_billed [of 50 ?d sample_execution sample_env 2 ?b d1 sample_env 1 9 None x d2] my fin
    by (auto simp: service_db_simps)
  then show ?thesis using my fin by auto
qed

end

