(* ===== verification/Reviews.thy ===== *)
theory Reviews
  imports Completion
begin

text \<open>
  Reviews of completed services: src/backend/app/domain/review/service.py and repository.py and
  the endpoints of src/backend/app/api/v1/reviews.py.

  The average that PostgreSQL computes is an exact rational here.  The endpoint turns the
  service's ReviewNotFoundError into the NotFoundError of the same message; the model raises
  the latter at once.
\<close>

section \<open>Repository\<close>

text \<open>One review per execution, deleted ones included, by a unique constraint.\<close>

definition insert_review :: "Review \<Rightarrow> db \<Rightarrow> err + Review \<times> db" where
  "insert_review r d =
     (if rev_service_execution_id r \<in> rev_service_execution_id ` set (t_reviews d)
      then Inl (IntegrityError ''uq_reviews_service_execution_id'')
      else Inr (r, used_id (add_review r d)))"

definition get_by_service_execution :: "uuid \<Rightarrow> db \<Rightarrow> err + Review option" where
  "get_by_service_execution i d =
     scalar_one_or_none (filter (\<lambda>r. rev_service_execution_id r = i \<and> \<not> rev_deleted r) (t_reviews d))"

definition get_reviews_by_customer :: "uuid \<Rightarrow> nat \<Rightarrow> nat \<Rightarrow> db \<Rightarrow> Review list" where
  "get_reviews_by_customer customer_id limit offset d =
     page rev_created_at limit offset
       (filter (\<lambda>r. rev_customer_id r = customer_id \<and> \<not> rev_deleted r) (t_reviews d))"

definition get_reviews_by_business :: "uuid \<Rightarrow> string option \<Rightarrow> nat \<Rightarrow> nat \<Rightarrow> db \<Rightarrow> Review list" where
  "get_reviews_by_business business_id status limit offset d =
     page rev_created_at limit offset
       (filter (\<lambda>r. rev_business_id r = business_id \<and> \<not> rev_deleted r \<and> (\<forall>s\<in>set_option status. rev_status r = s))
         (t_reviews d))"

text \<open>The join with businesses does not ask for a live business.\<close>

definition get_visible_by_business_slug :: "string \<Rightarrow> nat \<Rightarrow> nat \<Rightarrow> db \<Rightarrow> Review list" where
  "get_visible_by_business_slug slug limit offset d =
     page rev_created_at limit offset
       (filter (\<lambda>r. (\<exists>b\<in>set (t_businesses d). biz_id b = rev_business_id r \<and> biz_slug b = slug) \<and>
                    rev_status r = ''visible'' \<and> \<not> rev_deleted r) (t_reviews d))"

definition visible_reviews :: "uuid \<Rightarrow> db \<Rightarrow> Review list" where
  "visible_reviews business_id d =
     filter (\<lambda>r. rev_business_id r = business_id \<and> rev_status r = ''visible'' \<and> \<not> rev_deleted r) (t_reviews d)"

definition get_average_rating_for_business :: "uuid \<Rightarrow> db \<Rightarrow> rat option \<times> nat" where
  "get_average_rating_for_business business_id d =
     (let rs = visible_reviews business_id d in
      (if rs = [] then None else Some (rat_of_int (sum_list (map rev_rating rs)) / rat_of_nat (length rs)), length rs))"

section \<open>Service\<close>

definition business_profile :: "uuid \<Rightarrow> db \<Rightarrow> BusinessProfile option" where
  "business_profile business_id d = first_row (filter (\<lambda>p. prof_business_id p = business_id) (t_profiles d))"

definition update_rating_aggregates :: "uuid \<Rightarrow> db \<Rightarrow> db" where
  "update_rating_aggregates business_id d =
     (case find_business business_id d of
        None \<Rightarrow> d
      | Some b \<Rightarrow>
          (case business_profile business_id d of
             None \<Rightarrow> d
           | Some p \<Rightarrow>
               (let (avg_rating, count) = get_average_rating_for_business business_id d
                in d\<lparr>t_profiles := upd_row prof_id (prof_id p)
                       (\<lambda>p. p\<lparr>prof_average_rating := avg_rating, prof_review_count := count\<rparr>) (t_profiles d)\<rparr>)))"

definition new_review ::
  "env \<Rightarrow> uuid \<Rightarrow> uuid \<Rightarrow> ServiceExecution \<Rightarrow> Booking \<Rightarrow> int \<Rightarrow> string option \<Rightarrow> string option \<Rightarrow> Review" where
  "new_review ev i customer_id x b rating title body =
     \<lparr>rev_id = i, rev_business_id = ex_business_id x, rev_customer_id = customer_id,
      rev_service_execution_id = ex_id x, rev_booking_id = ex_booking_id x, rev_enquiry_id = bk_enquiry_id b,
      rev_service_offer_id = ex_service_offer_id x, rev_rating = rating, rev_title = title, rev_body = body,
      rev_status = ''visible'', rev_response_body = None, rev_responded_at = None, rev_responded_by = None,
      rev_created_at = env_now ev, rev_deleted = False\<rparr>"

definition eligible :: "bool \<Rightarrow> string \<Rightarrow> err + unit" where
  "eligible c msg = guardE c (ReviewEligibilityError msg)"

definition submit_review ::
  "env \<Rightarrow> uuid \<Rightarrow> uuid \<Rightarrow> int \<Rightarrow> string option \<Rightarrow> string option \<Rightarrow> db \<Rightarrow> err + Review \<times> db" where
  "submit_review ev customer_id execution_id rating title body d =
     bindE (requireE (ReviewEligibilityError ''Service execution not found'') (find_execution execution_id d)) (\<lambda>x.
     bindE (eligible (ex_status x = Exec_COMPLETED) ''Service execution is not completed'') (\<lambda>_.
     bindE (eligible (ex_status x \<notin> {Exec_CANCELLED, Exec_NO_SHOW}) ''Service execution was cancelled or no-show'') (\<lambda>_.
     bindE (eligible (ex_customer_id x = customer_id) ''Customer does not own this service execution'') (\<lambda>_.
     bindE (requireE (ReviewEligibilityError ''Linked booking not found'') (find_booking (ex_booking_id x) d)) (\<lambda>b.
     bindE (eligible (bk_status b \<notin> {Bkg_CANCELLED, Bkg_DECLINED}) ''Linked booking was cancelled or declined'') (\<lambda>_.
     bindE (requireE (ReviewEligibilityError ''Linked enquiry not found'') (find_enquiry (bk_enquiry_id b) d)) (\<lambda>q.
     bindE (eligible (enq_status q \<notin> {Enq_DECLINED, Enq_CANCELLED}) ''Linked enquiry was declined or cancelled'') (\<lambda>_.
     bindE (get_by_service_execution execution_id d) (\<lambda>existing.
     bindE (eligible (existing = None) ''A review already exists for this service execution'') (\<lambda>_.
     bindE (insert_review (new_review ev (fresh_id d) customer_id x b rating title body) d) (\<lambda>(r, d1).
     bindE (emit_review_event ev (ex_business_id x) ''REVIEW_SUBMITTED'' (rev_id r)
              [(''review_id'', PUuid (rev_id r)), (''customer_id'', PUuid customer_id),
               (''service_execution_id'', PUuid execution_id), (''rating'', PInt rating),
               (''business_id'', PUuid (ex_business_id x))]
              (update_rating_aggregates (ex_business_id x) d1)) (\<lambda>d2.
     Inr (r, d2)))))))))))))"

definition respond_to_review ::
  "env \<Rightarrow> uuid \<Rightarrow> uuid \<Rightarrow> uuid \<Rightarrow> string \<Rightarrow> db \<Rightarrow> err + Review \<times> db" where
  "respond_to_review ev business_id review_id responder_id response_body d =
     bindE (requireE (NotFoundError ''Review not found'') (find_review review_id d)) (\<lambda>r.
     bindE (guardE (rev_business_id r = business_id) (NotFoundError ''Review does not belong to this business'')) (\<lambda>_.
     let r' = r\<lparr>rev_response_body := Some response_body, rev_responded_at := Some (env_now ev),
                rev_responded_by := Some responder_id\<rparr> in
     bindE (emit_review_event ev business_id ''REVIEW_RESPONDED'' (rev_id r')
              [(''review_id'', PUuid (rev_id r')), (''responder_id'', PUuid responder_id), (''business_id'', PUuid business_id)]
              (put_review r' d)) (\<lambda>d'.
     Inr (r', d'))))"

section \<open>Endpoints\<close>

text \<open>The request schema: a rating from 1 to 5 and a title of at most 200 characters.\<close>

definition review_schema :: "int \<Rightarrow> string option \<Rightarrow> err + unit" where
  "review_schema rating title =
     guardE (1 \<le> rating \<and> rating \<le> 5 \<and> (\<forall>t\<in>set_option title. length t \<le> 200)) (ValidationError ''ReviewCreate'')"

fun eligibility_as_validation :: "err \<Rightarrow> err" where
  "eligibility_as_validation (ReviewEligibilityError m) = ValidationError m"
| "eligibility_as_validation e = e"

definition submit_my_review ::
  "env \<Rightarrow> uuid \<Rightarrow> uuid \<Rightarrow> int \<Rightarrow> string option \<Rightarrow> string option \<Rightarrow> db \<Rightarrow> err + Review \<times> db" where
  "submit_my_review ev user_id execution_id rating title body d =
     bindE (review_schema rating title) (\<lambda>_.
     case submit_review ev user_id execution_id rating title body d of
       Inl e \<Rightarrow> Inl (eligibility_as_validation e)
     | Inr r \<Rightarrow> Inr r)"

definition get_my_review :: "uuid \<Rightarrow> uuid \<Rightarrow> db \<Rightarrow> err + Review" where
  "get_my_review user_id review_id d =
     bindE (requireE (NotFoundError ''Review not found'') (find_review review_id d)) (\<lambda>r.
     bindE (guardE (rev_customer_id r = user_id) (NotFoundError ''Review not found'')) (\<lambda>_. Inr r))"

definition get_business_by_slug :: "string \<Rightarrow> db \<Rightarrow> err + Business option" where
  "get_business_by_slug slug d = scalar_one_or_none (filter (\<lambda>b. biz_slug b = slug \<and> \<not> biz_deleted b) (t_businesses d))"

definition get_public_business_reviews :: "string \<Rightarrow> nat \<Rightarrow> nat \<Rightarrow> db \<Rightarrow> err + Review list \<times> nat \<times> rat option" where
  "get_public_business_reviews slug limit offset d =
     bindE (get_business_by_slug slug d) (\<lambda>business.
     bindE (requireE (NotFoundError ''Business not found'') business) (\<lambda>b.
     let rs = get_visible_by_business_slug slug limit offset d
     in Inr (rs, length rs, fst (get_average_rating_for_business (biz_id b) d))))"

definition list_business_reviews :: "uuid \<Rightarrow> nat \<Rightarrow> nat \<Rightarrow> db \<Rightarrow> Review list" where
  "list_business_reviews business_id limit offset d = get_reviews_by_business business_id (Some ''visible'') limit offset d"

section \<open>Lemmas\<close>

lemma eligible_Inr_iff [result_iffs]: "eligible c msg = Inr u \<longleftrightarrow> c"
  by (simp add: eligible_def guardE_Inr_iff)

lemma update_rating_tables [simp]:
  "t_reviews (update_rating_aggregates b d) = t_reviews d" "t_businesses (update_rating_aggregates b d) = t_businesses d"
  "t_outbox (update_rating_aggregates b d) = t_outbox d" "t_executions (update_rating_aggregates b d) = t_executions d"
  "t_bookings (update_rating_aggregates b d) = t_bookings d" "t_enquiries (update_rating_aggregates b d) = t_enquiries d"
  "fresh (update_rating_aggregates b d) = fresh d"
  by (auto simp: update_rating_aggregates_def Let_def split: option.splits prod.splits)

lemma update_rating_profiles_cong:
  assumes "t_reviews d1 = t_reviews d" "t_businesses d1 = t_businesses d" "t_profiles d1 = t_profiles d"
  shows "t_profiles (update_rating_aggregates b d1) = t_profiles (update_rating_aggregates b d)"
  by (simp add: update_rating_aggregates_def find_business_def business_profile_def split_def Let_def
      get_average_rating_for_business_def visible_reviews_def assms split: option.split)

lemma submit_review_Inr:
  assumes "submit_review ev c i rating title body d = Inr (r, d')"
  obtains x b q where "find_execution i d = Some x" "ex_status x = Exec_COMPLETED" "ex_customer_id x = c"
    "find_booking (ex_booking_id x) d = Some b" "bk_status b \<notin> {Bkg_CANCELLED, Bkg_DECLINED}"
    "find_enquiry (bk_enquiry_id b) d = Some q" "enq_status q \<notin> {Enq_DECLINED, Enq_CANCELLED}"
    "ex_id x \<notin> rev_service_execution_id ` set (t_reviews d)"
    "r = new_review ev (fresh_id d) c x b rating title body"
    "t_reviews d' = t_reviews d @ [r]" "t_businesses d' = t_businesses d"
    "t_profiles d' = t_profiles (update_rating_aggregates (ex_business_id x) (add_review r d))"
    "t_executions d' = t_executions d"
proof -
  obtain x b q d1 d2 where x: "find_execution i d = Some x" "ex_status x = Exec_COMPLETED" "ex_customer_id x = c"
      "find_booking (ex_booking_id x) d = Some b" "bk_status b \<notin> {Bkg_CANCELLED, Bkg_DECLINED}"
      "find_enquiry (bk_enquiry_id b) d = Some q" "enq_status q \<notin> {Enq_DECLINED, Enq_CANCELLED}"
    and ins: "insert_review (new_review ev (fresh_id d) c x b rating title body) d = Inr (r, d1)"
    and emit: "emit_review_event ev (ex_business_id x) ''REVIEW_SUBMITTED'' (rev_id r)
              [(''review_id'', PUuid (rev_id r)), (''customer_id'', PUuid c),
               (''service_execution_id'', PUuid i), (''rating'', PInt rating),
               (''business_id'', PUuid (ex_business_id x))]
              (update_rating_aggregates (ex_business_id x) d1) = Inr d2" and d': "d' = d2"
    using assms by (auto simp: submit_review_def result_iffs)
  have prof: "t_profiles (update_rating_aggregates (ex_business_id x) d1) =
      t_profiles (update_rating_aggregates (ex_business_id x) (add_review r d))"
    by (rule update_rating_profiles_cong) (use ins in \<open>auto simp: insert_review_def used_id_def add_review_def split: if_splits\<close>)
  show thesis
    using that [OF x] ins emit prof d'
    by (auto simp: insert_review_def new_review_def emit_review_event_def emit_Inr_iff used_id_def add_review_def split: if_splits)
qed

text \<open>Ratings are in range, an execution has one review, and the profiles show the aggregates.\<close>

definition reviews_ok :: "db \<Rightarrow> bool" where
  "reviews_ok d \<longleftrightarrow>
     keys_distinct rev_service_execution_id (t_reviews d) \<and> (\<forall>r\<in>set (t_reviews d). 1 \<le> rev_rating r \<and> rev_rating r \<le> 5) \<and>
     keys_distinct prof_id (t_profiles d) \<and> keys_distinct prof_business_id (t_profiles d) \<and>
     (\<forall>p\<in>set (t_profiles d). find_business (prof_business_id p) d \<noteq> None \<longrightarrow>
        (prof_average_rating p, prof_review_count p) = get_average_rating_for_business (prof_business_id p) d)"

lemma business_profile_unique:
  assumes "keys_distinct prof_business_id (t_profiles d)" "p \<in> set (t_profiles d)"
  shows "business_profile (prof_business_id p) d = Some p"
proof -
  have "filter (\<lambda>q. prof_business_id q = prof_business_id p) ps = [p]"
    if "distinct (map prof_business_id ps)" "p \<in> set ps" for ps
    using that by (induction ps) (auto simp: filter_empty_conv image_iff)
  then show ?thesis using assms by (simp add: business_profile_def keys_distinct_def)
qed

lemma average_other_business:
  "rev_business_id r \<noteq> i \<Longrightarrow> get_average_rating_for_business i (add_review r d) = get_average_rating_for_business i d"
  by (simp add: get_average_rating_for_business_def visible_reviews_def add_review_def)

lemma average_cong:
  "t_reviews d' = t_reviews d \<Longrightarrow> get_average_rating_for_business i d' = get_average_rating_for_business i d"
  by (simp add: get_average_rating_for_business_def visible_reviews_def)

lemma sum_ratings_bounds:
  "\<forall>r\<in>set rs. 1 \<le> rev_rating r \<and> rev_rating r \<le> 5 \<Longrightarrow>
   int (length rs) \<le> sum_list (map rev_rating rs) \<and> sum_list (map rev_rating rs) \<le> 5 * int (length rs)"
  by (induction rs) auto

lemma update_rating_in_sync:
  assumes dist: "keys_distinct prof_id (t_profiles d)" "keys_distinct prof_business_id (t_profiles d)"
    and p: "p \<in> set (t_profiles (update_rating_aggregates i d))" and live: "find_business i d \<noteq> None"
  shows "(prof_business_id p = i \<longrightarrow> (prof_average_rating p, prof_review_count p) = get_average_rating_for_business i d) \<and>
    (prof_business_id p \<noteq> i \<longrightarrow> p \<in> set (t_profiles d))"
proof (cases "business_profile i d")
  case None
  then have "p \<in> set (t_profiles d)" using p live by (auto simp: update_rating_aggregates_def split: option.splits)
  then show ?thesis using business_profile_unique [OF dist(2)] None by fastforce
next
  case (Some q)
  let ?h = "\<lambda>p. p\<lparr>prof_average_rating := fst (get_average_rating_for_business i d),
      prof_review_count := snd (get_average_rating_for_business i d)\<rparr>"
  have "t_profiles (update_rating_aggregates i d) = upd_row prof_id (prof_id q) ?h (t_profiles d)"
    using live Some by (auto simp: update_rating_aggregates_def split_def Let_def split: option.splits)
  then obtain p0 where p0: "p0 \<in> set (t_profiles d)" "p = (if prof_id p0 = prof_id q then ?h p0 else p0)"
    using p by (auto simp: upd_row_def)
  have q: "q \<in> set (t_profiles d)" "prof_business_id q = i"
    using Some by (auto simp: business_profile_def dest!: first_row_SomeD)
  have same: "prof_id p0 = prof_id q \<longleftrightarrow> prof_business_id p0 = i"
    using dist p0(1) q by (metis keys_distinct_def distinct_map inj_on_def)
  then show ?thesis using p0 by auto
qed

text \<open>A submission keeps the invariant.\<close>

lemma submit_review_ok:
  assumes "reviews_ok d" "1 \<le> rating" "rating \<le> 5" "submit_review ev c i rating title body d = Inr (r, d')"
  shows "reviews_ok d'"
proof -
  obtain x b where r: "r = new_review ev (fresh_id d) c x b rating title body"
      and new: "ex_id x \<notin> rev_service_execution_id ` set (t_reviews d)"
      and d': "t_reviews d' = t_reviews d @ [r]" "t_businesses d' = t_businesses d"
        "t_profiles d' = t_profiles (update_rating_aggregates (ex_business_id x) (add_review r d))"
    using assms(4) by (elim submit_review_Inr) blast
  let ?d1 = "add_review r d" and ?i = "ex_business_id x"
  have old: "keys_distinct prof_id (t_profiles ?d1)" "keys_distinct prof_business_id (t_profiles ?d1)"
    using assms(1) by (simp_all add: reviews_ok_def add_review_def)
  have keep: "map key (t_profiles d') = map key (t_profiles d)"
    if "\<And>p a n. key (p\<lparr>prof_average_rating := a, prof_review_count := n\<rparr>) = key p" for key :: "BusinessProfile \<Rightarrow> uuid"
    unfolding d'(3) using that
    by (auto simp: update_rating_aggregates_def split_def Let_def add_review_def upd_row_def split: option.split)
  have average: "get_average_rating_for_business j d' = get_average_rating_for_business j ?d1" for j
    by (rule average_cong) (simp add: d' add_review_def)
  have live: "find_business j d' = find_business j d" for j by (simp add: find_business_def d'(2))
  have "(prof_average_rating p, prof_review_count p) = get_average_rating_for_business (prof_business_id p) d'"
    if p: "p \<in> set (t_profiles d')" and biz: "find_business (prof_business_id p) d' \<noteq> None" for p
  proof (cases "prof_business_id p = ?i")
    case True
    then show ?thesis
      using update_rating_in_sync [OF old, of p ?i] p biz live average
      by (simp add: d'(3) find_business_def add_review_def)
  next
    case False
    have "p \<in> set (t_profiles d)"
    proof (cases "find_business ?i ?d1")
      case None
      then show ?thesis using p d'(3) by (simp add: update_rating_aggregates_def add_review_def)
    next
      case (Some _)
      then show ?thesis using update_rating_in_sync [OF old, of p ?i] p False d'(3) by (simp add: add_review_def)
    qed
    moreover have "rev_business_id r = ?i" using r by (simp add: new_review_def)
    ultimately show ?thesis
      using assms(1) biz live average average_other_business [of r "prof_business_id p" d] False by (simp add: reviews_ok_def)
  qed
  moreover have "keys_distinct prof_id (t_profiles d')" "keys_distinct prof_business_id (t_profiles d')"
    using assms(1) keep [of prof_id] keep [of prof_business_id] by (simp_all add: reviews_ok_def keys_distinct_def)
  moreover have "keys_distinct rev_service_execution_id (t_reviews d')"
    using assms(1) new r d'(1) by (simp add: reviews_ok_def keys_distinct_def new_review_def)
  ultimately show ?thesis using assms(1-3) r d'(1) by (simp add: reviews_ok_def new_review_def)
qed

lemma submit_my_review_Inr:
  "submit_my_review ev c i rating title body d = Inr (r, d') \<longleftrightarrow>
     1 \<le> rating \<and> rating \<le> 5 \<and> (\<forall>t\<in>set_option title. length t \<le> 200) \<and>
     submit_review ev c i rating title body d = Inr (r, d')"
  by (auto simp: submit_my_review_def review_schema_def result_iffs split: sum.splits)

text \<open>A completed execution of the example business.\<close>

definition reviewed_db :: db where
  "reviewed_db =
     (service_db Bkg_COMPLETED)\<lparr>t_executions := [sample_execution\<lparr>ex_status := Exec_COMPLETED\<rparr>],
        t_profiles := [\<lparr>prof_id = 4, prof_business_id = 1, prof_columns = [], prof_public_status = Bps_ACTIVE,
          prof_average_rating = None, prof_review_count = 0, prof_is_verified = False, prof_deleted = False\<rparr>]\<rparr>"

lemma reviewed_simps:
  "find_execution 50 reviewed_db = Some (sample_execution\<lparr>ex_status := Exec_COMPLETED\<rparr>)"
  "find_booking 40 reviewed_db = Some (sample_booking 40 Bkg_COMPLETED)"
  "find_enquiry 20 reviewed_db = Some (sample_enquiry 20 Enq_BOOKED)" "t_reviews reviewed_db = []"
  "t_outbox reviewed_db = []" "ex_customer_id sample_execution = 2" "bk_enquiry_id (sample_booking 40 st) = 20"
  "enq_status (sample_enquiry 20 es) = es" "find_business 1 reviewed_db = Some sample_business"
  by (simp_all add: reviewed_db_def service_db_def market_defs outbox_keys_def find_booking_def find_execution_def
      sample_booking_def sample_execution_def new_execution_def)

lemma review_sample:
  "\<exists>r d'. submit_my_review sample_env 2 50 4 None None reviewed_db = Inr (r, d') \<and> rev_business_id r = 1 \<and>
     find_review (rev_id r) d' = Some r \<and> outbox_keys d' = [(''REVIEW_SUBMITTED'', ''review'', rev_id r)]"
  by (simp add: submit_my_review_def review_schema_def submit_review_def reviewed_simps service_db_simps eligible_def guardE_def
      get_by_service_execution_def insert_review_def emit_review_event_def emit_outbox_event_def outbox_keys_def
      new_review_def add_review_def used_id_def find_review_def live_row_def find_row_append)

section \<open>Properties\<close>

text \<open>C28: A review is accepted only for a completed execution of that customer whose booking and enquiry were
  neither declined nor cancelled and which has no review yet, and it is filed under the
  execution's business with a rating from one to five.\<close>

theorem review_needs_completed_service:
  assumes "submit_my_review ev user_id i rating title body d = Inr (r, d')"
  shows "\<exists>x b q. find_execution i d = Some x \<and> ex_status x = Exec_COMPLETED \<and> ex_customer_id x = user_id \<and>
      find_booking (ex_booking_id x) d = Some b \<and> bk_status b \<notin> {Bkg_CANCELLED, Bkg_DECLINED} \<and>
      find_enquiry (bk_enquiry_id b) d = Some q \<and> enq_status q \<notin> {Enq_DECLINED, Enq_CANCELLED} \<and>
      (\<forall>r0\<in>set (t_reviews d). rev_service_execution_id r0 \<noteq> i) \<and>
      t_reviews d' = t_reviews d @ [r] \<and> rev_business_id r = ex_business_id x \<and> rev_service_execution_id r = i \<and>
      1 \<le> rev_rating r \<and> rev_rating r \<le> 5"
proof -
  have rating: "1 \<le> rating" "rating \<le> 5" and run: "submit_review ev user_id i rating title body d = Inr (r, d')"
    using assms by (simp_all add: submit_my_review_Inr)
  show ?thesis
    using run
  proof (cases rule: submit_review_Inr)
    case (1 x b q)
    have "ex_id x = i" using 1(1) by (auto simp: find_execution_def dest: live_row_key)
    moreover have "\<forall>r0\<in>set (t_reviews d). rev_service_execution_id r0 \<noteq> ex_id x" using 1(8) by force
    ultimately show ?thesis using 1 rating by (auto simp: new_review_def)
  qed
qed

theorem review_needs_completed_service_witness:
  "\<exists>r d' x. submit_my_review sample_env 2 50 4 None None reviewed_db = Inr (r, d') \<and>
     find_execution 50 reviewed_db = Some x \<and> ex_status x = Exec_COMPLETED"
proof -
  obtain r d' where "submit_my_review sample_env 2 50 4 None None reviewed_db = Inr (r, d')" using review_sample by blast
  then show ?thesis using review_needs_completed_service [of sample_env 2 50 4 None None reviewed_db r d'] by blast
qed



text \<open>A business can answer a review only once: the event of a second answer has the idempotency key of
  the first, so the request fails with an integrity error instead of changing the answer.\<close>

theorem second_response_always_fails:
  assumes "respond_to_review ev business_id i user_id text d = Inr (r, d')"
  shows "respond_to_review ev' business_id i user_id' text' d' = Inl (IntegrityError ''outbox_events.idempotency_key'')"
proof -
  obtain r0 where r0: "find_review i d = Some r0" "rev_business_id r0 = business_id"
      "r = r0\<lparr>rev_response_body := Some text, rev_responded_at := Some (env_now ev), rev_responded_by := Some user_id\<rparr>"
    and key: "(''REVIEW_RESPONDED'', ''review'', rev_id r) \<in> set (outbox_keys d')" and tab: "t_reviews d' = t_reviews (put_review r d)"
    using assms
    by (auto simp: respond_to_review_def result_iffs Let_def emit_review_event_def outbox_keys_emit used_id_def
        dest: outbox_keys_emit) (auto simp: emit_Inr_iff used_id_def)
  have "find_review i d' = Some r"
    using review_repo.get_put_same [of r d r0] r0 live_row_SomeD [of rev_id rev_deleted i "t_reviews d" r0]
    by (simp add: find_review_def tab)
  moreover have "outbox_keys (put_review q d') = outbox_keys d'" for q by (simp add: outbox_keys_def put_review_def)
  ultimately show ?thesis
    using key r0 by (simp add: respond_to_review_def Let_def guardE_def emit_review_event_def emit_outbox_event_def)
qed

theorem second_response_always_fails_witness:
  "\<exists>r1 d1 r d. submit_my_review sample_env 2 50 4 None None reviewed_db = Inr (r1, d1) \<and>
     respond_to_review sample_env 1 (rev_id r1) 9 ''Thanks'' d1 = Inr (r, d) \<and>
     (\<exists>e. respond_to_review sample_env 1 (rev_id r1) 9 ''Thank you'' d = Inl e)"
proof -
  obtain r1 d1 where one: "submit_my_review sample_env 2 50 4 None None reviewed_db = Inr (r1, d1)" "rev_business_id r1 = 1"
    "find_review (rev_id r1) d1 = Some r1" using review_sample by blast
  moreover have "outbox_keys d1 = [(''REVIEW_SUBMITTED'', ''review'', rev_id r1)]"
    using one review_sample by force
  ultimately obtain d2 where "emit_review_event sample_env 1 ''REVIEW_RESPONDED'' (rev_id r1)
      [(''review_id'', PUuid (rev_id r1)), (''responder_id'', PUuid 9), (''business_id'', PUuid 1)]
      (put_review (r1\<lparr>rev_response_body := Some ''Thanks'', rev_responded_at := Some (env_now sample_env),
         rev_responded_by := Some 9\<rparr>) d1) = Inr d2"
    using review_events.emit_fresh_key [of "''REVIEW_RESPONDED''" "rev_id r1"] by (fastforce simp: outbox_keys_def put_review_def)
  then have "\<exists>r d. respond_to_review sample_env 1 (rev_id r1) 9 ''Thanks'' d1 = Inr (r, d)"
    using one by (simp add: respond_to_review_def guardE_def Let_def)
  then show ?thesis using one second_response_always_fails by blast
qed

end
