(* ===== verification/Adapters.thy ===== *)
theory Adapters
  imports Py_Values
begin

text \<open>
  What the adapters of external services have in common
  (src/backend/app/adapters/common.py), and the messages and providers of outgoing communications
  (the base modules of src/backend/app/adapters/email, sms, voice, whatsapp and push).  An adapter
  turns every exception of its service into a result, so a provider is a function from messages to
  results.
\<close>

record ProviderResult =
  pvr_success :: bool
  pvr_reference :: "string option"
  pvr_error :: "string option"
  pvr_retryable :: bool
  pvr_raw :: json_obj

definition provider_ok :: "string \<Rightarrow> json_obj \<Rightarrow> ProviderResult" where
  "provider_ok ref raw =
     \<lparr>pvr_success = True, pvr_reference = Some ref, pvr_error = None, pvr_retryable = False, pvr_raw = raw\<rparr>"

text \<open>Whether a failure may be retried is read by no service of payments: there it keeps its default.\<close>

definition provider_failure :: "string \<Rightarrow> json_obj \<Rightarrow> ProviderResult" where
  "provider_failure e raw =
     \<lparr>pvr_success = False, pvr_reference = None, pvr_error = Some e, pvr_retryable = False, pvr_raw = raw\<rparr>"

datatype message =
    EmailMessage (msg_to: string) (msg_subject: string) (msg_body: string)
  | SMSMessage (msg_to: string) (msg_body: string)
  | VoiceCallRequest (msg_to: string) (msg_from_number: string) (msg_callback_url: "string option") (msg_metadata: json_obj)
  | WhatsAppMessage (msg_to: string) (msg_body: string)
  | PushMessage (msg_to: string) (msg_title: string) (msg_body: string)

record comm_provider =
  cpr_name :: string
  cpr_send :: "message \<Rightarrow> ProviderResult"

record comm_providers =
  email_provider :: comm_provider
  sms_provider :: comm_provider
  voice_provider :: comm_provider
  whatsapp_provider :: comm_provider
  push_provider :: comm_provider

end
