(* ===== verification/Payments.thy ===== *)
theory Payments
  imports Completion Adapters
begin

text \<open>
  Payments, src/backend/app/domain/payment/service.py and repository.py, over the interface of
  src/backend/app/adapters/payment/base.py, with the stub and the Stripe adapter as its two
  implementations.  A handler that talks to the provider returns, beside its result, the requests
  it has sent: these are not undone when the request fails and its database changes are.

  The attribute of a payment created in the same request keeps the amount as it was given, while
  the row holds it rounded to the two places of its column; \<open>stored\<close> is that rounding.
\<close>

section \<open>Providers\<close>

record PaymentRequest =
  prq_amount :: money
  prq_currency :: string
  prq_description :: string
  prq_idempotency_key :: string
  prq_payment_id :: uuid
  prq_stripe_account :: "string option"
  prq_application_fee :: "int option"

record RefundRequest =
  rrq_payment_reference :: string
  rrq_amount :: money
  rrq_reason :: "string option"
  rrq_idempotency_key :: string
  rrq_stripe_account :: "string option"

record PaymentProvider =
  prov_name :: string
  prov_initiate :: "PaymentRequest \<Rightarrow> ProviderResult"
  prov_refund :: "RefundRequest \<Rightarrow> ProviderResult"

text \<open>What the service relies on: a success carries a reference, a failure an error text.\<close>

locale payment_provider =
  fixes prov :: PaymentProvider
  assumes initiate_reference: "pvr_success (prov_initiate prov r) \<Longrightarrow> pvr_reference (prov_initiate prov r) \<noteq> None"
    and initiate_error: "\<not> pvr_success (prov_initiate prov r) \<Longrightarrow> pvr_error (prov_initiate prov r) \<noteq> None"
    and refund_reference: "pvr_success (prov_refund prov q) \<Longrightarrow> pvr_reference (prov_refund prov q) \<noteq> None"
    and refund_error: "\<not> pvr_success (prov_refund prov q) \<Longrightarrow> pvr_error (prov_refund prov q) \<noteq> None"
begin

lemma initiate_cases:
  obtains (ok) ref where "pvr_success (prov_initiate prov r)" "pvr_reference (prov_initiate prov r) = Some ref"
  | (failed) e where "\<not> pvr_success (prov_initiate prov r)" "pvr_error (prov_initiate prov r) = Some e"
  using initiate_reference [of r] initiate_error [of r] by auto

lemma refund_cases:
  obtains (ok) ref where "pvr_success (prov_refund prov q)" "pvr_reference (prov_refund prov q) = Some ref"
  | (failed) e where "\<not> pvr_success (prov_refund prov q)" "pvr_error (prov_refund prov q) = Some e"
  using refund_reference [of q] refund_error [of q] by auto

end

subsection \<open>The stub\<close>

text \<open>The digest of the idempotency key and the random part of refund references are arguments.\<close>

definition stub_provider :: "(string \<Rightarrow> string) \<Rightarrow> (RefundRequest \<Rightarrow> string) \<Rightarrow> PaymentProvider" where
  "stub_provider sha nonce =
     \<lparr>prov_name = ''stub'',
      prov_initiate = (\<lambda>r. provider_ok (''stub_pi_'' @ take 24 (sha (prq_idempotency_key r)))
        [(''status'', JStr ''succeeded''), (''amount'', JStr (money_str (prq_amount r))),
         (''currency'', JStr (prq_currency r))]),
      prov_refund = (\<lambda>q. provider_ok (''stub_re_'' @ nonce q)
        [(''status'', JStr ''succeeded''),
         (''amount'', JStr (if rrq_amount q = 0 then ''full'' else money_str (rrq_amount q)))])\<rparr>"

interpretation stub: payment_provider "stub_provider sha nonce" for sha nonce
  by unfold_locales (simp_all add: stub_provider_def provider_ok_def)

subsection \<open>Stripe\<close>

definition zero_decimal_currencies :: "string list" where
  "zero_decimal_currencies = [''jpy'', ''krw'', ''vnd'', ''clp'', ''huf'']"

definition amount_to_stripe :: "money \<Rightarrow> string \<Rightarrow> int" where
  "amount_to_stripe amount currency =
     (if lower currency \<in> set zero_decimal_currencies then truncate_rat amount else truncate_rat (amount * 100))"

definition amount_from_stripe :: "int \<Rightarrow> string \<Rightarrow> money" where
  "amount_from_stripe amount currency =
     (if lower currency \<in> set zero_decimal_currencies then of_int amount else of_int amount / 100)"

text \<open>
  The SDK's client is not part of the repository.  It is given by what the adapter reads of its
  answers: a created intent or refund, or the exception's message and code.
\<close>

record StripeIntent =
  pi_id :: string
  pi_status :: string
  pi_client_secret :: string
  pi_amount :: int
  pi_currency :: string

record StripeRefund =
  sr_id :: string
  sr_status :: string
  sr_amount :: int
  sr_currency :: string

record IntentParams =
  ip_amount :: int
  ip_currency :: string
  ip_description :: string
  ip_payment_id :: uuid
  ip_application_fee :: "int option"
  ip_idempotency_key :: string
  ip_stripe_account :: "string option"

record RefundParams =
  rp_payment_intent :: string
  rp_amount :: int
  rp_reason :: "string option"
  rp_idempotency_key :: string
  rp_stripe_account :: "string option"

record StripeClient =
  sc_create_intent :: "IntentParams \<Rightarrow> string + StripeIntent"
  sc_retrieve_intent :: "string \<Rightarrow> string option \<Rightarrow> string + StripeIntent"
  sc_create_refund :: "RefundParams \<Rightarrow> string + StripeRefund"

definition truthy_str :: "string option \<Rightarrow> string option" where
  "truthy_str s = (if s = Some [] then None else s)"

definition stripe_intent_params :: "PaymentRequest \<Rightarrow> IntentParams" where
  "stripe_intent_params r =
     \<lparr>ip_amount = amount_to_stripe (prq_amount r) (prq_currency r), ip_currency = lower (prq_currency r),
      ip_description = prq_description r, ip_payment_id = prq_payment_id r,
      ip_application_fee =
        (if truthy_str (prq_stripe_account r) = None then None
         else (case prq_application_fee r of None \<Rightarrow> None | Some f \<Rightarrow> if f > 0 then Some f else None)),
      ip_idempotency_key = prq_idempotency_key r, ip_stripe_account = truthy_str (prq_stripe_account r)\<rparr>"

definition stripe_initiate :: "StripeClient \<Rightarrow> PaymentRequest \<Rightarrow> ProviderResult" where
  "stripe_initiate sc r =
     (case sc_create_intent sc (stripe_intent_params r) of
        Inl e \<Rightarrow> provider_failure e [(''stripe_error'', JStr e)]
      | Inr p \<Rightarrow>
          provider_ok (pi_id p)
            [(''status'', JStr (pi_status p)), (''client_secret'', JStr (pi_client_secret p)),
             (''amount'', JStr (money_str (amount_from_stripe (pi_amount p) (pi_currency p)))),
             (''currency'', JStr (pi_currency p)), (''id'', JStr (pi_id p)),
             (''stripe_account'', JStr (case prq_stripe_account r of None \<Rightarrow> [] | Some a \<Rightarrow> a)),
             (''application_fee_amount'', JInt (case prq_application_fee r of None \<Rightarrow> 0 | Some f \<Rightarrow> f))])"

definition STRIPE_REFUND_STATUS :: "string \<Rightarrow> string" where
  "STRIPE_REFUND_STATUS s =
     (case map_of [(''succeeded'', ''succeeded''), (''pending'', ''processing''),
        (''requires_action'', ''processing''), (''failed'', ''failed''), (''canceled'', ''failed'')] s of
        None \<Rightarrow> s | Some t \<Rightarrow> t)"

text \<open>The currency of a refund is looked up from the original intent.\<close>

definition stripe_refund :: "StripeClient \<Rightarrow> RefundRequest \<Rightarrow> ProviderResult" where
  "stripe_refund sc q =
     (let acct = truthy_str (rrq_stripe_account q) in
      case sc_retrieve_intent sc (rrq_payment_reference q) acct of
        Inl e \<Rightarrow> provider_failure e [(''stripe_error'', JStr e)]
      | Inr p \<Rightarrow>
          (case sc_create_refund sc
                  \<lparr>rp_payment_intent = rrq_payment_reference q,
                   rp_amount = amount_to_stripe (rrq_amount q) (pi_currency p),
                   rp_reason = truthy_str (rrq_reason q), rp_idempotency_key = rrq_idempotency_key q,
                   rp_stripe_account = acct\<rparr> of
             Inl e \<Rightarrow> provider_failure e [(''stripe_error'', JStr e)]
           | Inr rf \<Rightarrow>
               provider_ok (sr_id rf)
                 [(''status'', JStr (STRIPE_REFUND_STATUS (sr_status rf))), (''stripe_status'', JStr (sr_status rf)),
                  (''amount'', JStr (money_str (amount_from_stripe (sr_amount rf) (sr_currency rf)))),
                  (''id'', JStr (sr_id rf))]))"

definition stripe_provider :: "StripeClient \<Rightarrow> PaymentProvider" where
  "stripe_provider sc = \<lparr>prov_name = ''stripe'', prov_initiate = stripe_initiate sc, prov_refund = stripe_refund sc\<rparr>"

interpretation stripe: payment_provider "stripe_provider sc" for sc
  by unfold_locales
    (auto simp: stripe_provider_def stripe_initiate_def stripe_refund_def provider_ok_def provider_failure_def
       Let_def split: sum.splits)

section \<open>Repository\<close>

definition stored :: "Payment \<Rightarrow> Payment" where
  "stored p = p\<lparr>pay_amount := round_places 2 (pay_amount p)\<rparr>"

definition get_by_idempotency_key :: "string \<Rightarrow> db \<Rightarrow> err + Payment option" where
  "get_by_idempotency_key k d =
     scalar_one_or_none (filter (\<lambda>p. pay_idempotency_key p = k \<and> \<not> pay_deleted p) (t_payments d))"

definition get_by_provider_reference :: "string \<Rightarrow> db \<Rightarrow> err + Payment option" where
  "get_by_provider_reference ref d =
     scalar_one_or_none (filter (\<lambda>p. pay_provider_reference p = Some ref \<and> \<not> pay_deleted p) (t_payments d))"

definition list_business_payments :: "uuid \<Rightarrow> PaymentStatus option \<Rightarrow> nat \<Rightarrow> nat \<Rightarrow> db \<Rightarrow> Payment list" where
  "list_business_payments business_id status limit offset d =
     page pay_created_at limit offset
       (filter (\<lambda>p. pay_business_id p = business_id \<and> \<not> pay_deleted p \<and> status \<in> {None, Some (pay_status p)})
          (t_payments d))"

definition list_customer_payments :: "uuid \<Rightarrow> PaymentStatus option \<Rightarrow> nat \<Rightarrow> nat \<Rightarrow> db \<Rightarrow> Payment list" where
  "list_customer_payments customer_id status limit offset d =
     page pay_created_at limit offset
       (filter (\<lambda>p. pay_customer_id p = customer_id \<and> \<not> pay_deleted p \<and> status \<in> {None, Some (pay_status p)})
          (t_payments d))"

definition get_invoice_payments :: "uuid \<Rightarrow> db \<Rightarrow> Payment list" where
  "get_invoice_payments invoice_id d =
     sort_desc pay_created_at (filter (\<lambda>p. pay_invoice_id p = Some invoice_id \<and> \<not> pay_deleted p) (t_payments d))"

definition invoice_payments_in :: "PaymentStatus set \<Rightarrow> uuid \<Rightarrow> db \<Rightarrow> Payment list" where
  "invoice_payments_in statuses invoice_id d =
     filter (\<lambda>p. pay_invoice_id p = Some invoice_id \<and> pay_status p \<in> statuses \<and> \<not> pay_deleted p) (t_payments d)"

definition get_successful_total_for_invoice :: "uuid \<Rightarrow> db \<Rightarrow> money" where
  "get_successful_total_for_invoice invoice_id d =
     sum_list (map pay_amount (invoice_payments_in {Pay_SUCCEEDED, Pay_PARTIALLY_REFUNDED} invoice_id d))"

definition get_refunded_total_for_invoice :: "uuid \<Rightarrow> db \<Rightarrow> money" where
  "get_refunded_total_for_invoice invoice_id d =
     sum_list (map pay_refunded_amount
       (invoice_payments_in {Pay_SUCCEEDED, Pay_PARTIALLY_REFUNDED, Pay_REFUNDED} invoice_id d))"

definition net_paid :: "uuid \<Rightarrow> db \<Rightarrow> money" where
  "net_paid invoice_id d =
     get_successful_total_for_invoice invoice_id d - get_refunded_total_for_invoice invoice_id d"

text \<open>The insertion of a payment: a unique idempotency key and columns of limited size.\<close>

definition insert_payment :: "Payment \<Rightarrow> db \<Rightarrow> err + db" where
  "insert_payment p d =
     bindE (guardE (numeric_12_2 (round_places 2 (pay_amount p)) \<and> length (pay_idempotency_key p) \<le> 128)
       (DataError ''value out of range'')) (\<lambda>_.
     bindE (guardE (\<not> list_ex (\<lambda>r. pay_idempotency_key r = pay_idempotency_key p) (t_payments d))
       (IntegrityError ''payments.idempotency_key'')) (\<lambda>_.
     Inr (used_id (add_payment (stored p) d))))"

definition put_attempt :: "PaymentAttempt \<Rightarrow> db \<Rightarrow> db" where
  "put_attempt a d = d\<lparr>t_attempts := upd_row att_id (att_id a) (\<lambda>_. a) (t_attempts d)\<rparr>"

section \<open>Payments of an invoice\<close>

definition get_payment :: "uuid \<Rightarrow> db \<Rightarrow> err + Payment" where
  "get_payment i d = requireE (NotFoundError ''Payment not found'') (find_payment i d)"

definition get_business_payment :: "uuid \<Rightarrow> uuid \<Rightarrow> db \<Rightarrow> err + Payment" where
  "get_business_payment i business_id d =
     bindE (get_payment i d) (\<lambda>p.
     bindE (guardE (pay_business_id p = business_id)
       (AuthorizationError ''Payment does not belong to this business'')) (\<lambda>_. Inr p))"

definition get_customer_payment :: "uuid \<Rightarrow> uuid \<Rightarrow> db \<Rightarrow> err + Payment" where
  "get_customer_payment i customer_id d =
     bindE (get_payment i d) (\<lambda>p.
     bindE (guardE (pay_customer_id p = customer_id) (AuthorizationError ''Not your payment'')) (\<lambda>_. Inr p))"

record InvoiceBalance =
  ib_total :: money
  ib_paid :: money
  ib_outstanding :: money
  ib_status :: InvoicePaymentStatus
  ib_payments :: "Payment list"

definition get_invoice_payment_status :: "uuid \<Rightarrow> db \<Rightarrow> err + InvoiceBalance" where
  "get_invoice_payment_status invoice_id d =
     bindE (requireE (NotFoundError ''Invoice not found'') (find_invoice invoice_id d)) (\<lambda>iv.
     Inr \<lparr>ib_total = inv_total iv, ib_paid = net_paid invoice_id d,
          ib_outstanding = max 0 (inv_total iv - net_paid invoice_id d),
          ib_status = inv_payment_status iv, ib_payments = get_invoice_payments invoice_id d\<rparr>)"

text \<open>The status of an invoice follows from its totals.\<close>

definition invoice_status_for :: "money \<Rightarrow> money \<Rightarrow> money \<Rightarrow> InvoicePaymentStatus" where
  "invoice_status_for net refunded tot =
     (if refunded > 0 then (if refunded \<ge> tot then Ips_REFUNDED else Ips_PARTIALLY_REFUNDED)
      else if net \<le> 0 then Ips_UNPAID
      else if net < tot then Ips_PARTIALLY_PAID
      else Ips_PAID)"

definition sync_ledger :: "uuid \<Rightarrow> InvoicePaymentStatus \<Rightarrow> db \<Rightarrow> db" where
  "sync_ledger invoice_id st d =
     d\<lparr>t_ledger := map (\<lambda>e. if le_invoice_id e = Some invoice_id \<and> \<not> le_deleted e \<and> le_payment_status e \<noteq> st
                          then e\<lparr>le_payment_status := st\<rparr> else e) (t_ledger d)\<rparr>"

definition update_invoice_payment_status :: "Payment \<Rightarrow> db \<Rightarrow> db" where
  "update_invoice_payment_status p d =
     (case pay_invoice_id p of
        None \<Rightarrow> d
      | Some i \<Rightarrow>
          (case find_invoice i d of
             None \<Rightarrow> d
           | Some iv \<Rightarrow>
               if inv_payment_status iv = Ips_VOID then d
               else (let st = invoice_status_for (net_paid i d) (get_refunded_total_for_invoice i d) (inv_total iv)
                     in sync_ledger (inv_id iv) st (put_invoice (iv\<lparr>inv_payment_status := st\<rparr>) d))))"

section \<open>Creation\<close>

text \<open>
  An amount given as text.  The infinities and NaN that \<open>Decimal\<close> reads as well are refused by the
  comparisons that follow it; the model refuses them here.
\<close>

definition amount_arg :: "string \<Rightarrow> string \<Rightarrow> err + money" where
  "amount_arg msg s = requireE (ValidationError msg) (parse_decimal s)"

definition new_payment ::
  "env \<Rightarrow> uuid \<Rightarrow> uuid \<Rightarrow> uuid \<Rightarrow> Invoice \<Rightarrow> money \<Rightarrow> string \<Rightarrow> string \<Rightarrow> string \<Rightarrow> string \<Rightarrow> string option \<Rightarrow> Payment" where
  "new_payment ev i business_id customer_id iv amount currency method key provider_name notes =
     \<lparr>pay_id = i, pay_idempotency_key = key, pay_business_id = business_id, pay_customer_id = customer_id,
      pay_invoice_id = Some (inv_id iv), pay_amount = amount, pay_currency = currency, pay_payment_method = method,
      pay_status = Pay_PENDING, pay_provider = provider_name, pay_provider_reference = None,
      pay_refunded_amount = 0, pay_refund_provider_reference = None, pay_paid_at = None, pay_refunded_at = None,
      pay_dispute_id = JNull, pay_dispute_reason = JNull, pay_dispute_evidence = None,
      pay_dispute_created_at = None, pay_dispute_status = JNull, pay_provider_evidence = None,
      pay_fee_evidence = inv_fee_evidence iv, pay_notes = notes, pay_failure_code = None,
      pay_failure_message = JNull, pay_created_at = env_now ev, pay_deleted = False\<rparr>"

record PaymentArgs =
  pa_invoice_id :: uuid
  pa_amount :: string
  pa_currency :: string
  pa_method :: string
  pa_idempotency_key :: string
  pa_notes :: "string option"

definition create_payment ::
  "env \<Rightarrow> uuid \<Rightarrow> uuid \<Rightarrow> PaymentArgs \<Rightarrow> string \<Rightarrow> db \<Rightarrow> err + Payment \<times> db" where
  "create_payment ev business_id customer_id a provider_name d =
     bindE (get_by_idempotency_key (pa_idempotency_key a) d) (\<lambda>existing.
     case existing of
       Some p \<Rightarrow> Inr (p, d)
     | None \<Rightarrow>
         bindE (requireE (NotFoundError ''Invoice not found'') (find_invoice (pa_invoice_id a) d)) (\<lambda>iv.
         bindE (guardE (inv_business_id iv = business_id)
           (AuthorizationError ''Invoice does not belong to this business'')) (\<lambda>_.
         bindE (guardE (inv_customer_id iv = customer_id)
           (AuthorizationError ''Invoice does not belong to this customer'')) (\<lambda>_.
         bindE (amount_arg ''Invalid amount format'' (pa_amount a)) (\<lambda>amount.
         bindE (guardE (amount > 0) (ValidationError ''Payment amount must be positive'')) (\<lambda>_.
         bindE (guardE (pa_currency a = inv_currency iv)
           (ValidationError ''Payment currency does not match invoice currency'')) (\<lambda>_.
         bindE (guardE (amount \<le> inv_total iv - net_paid (pa_invoice_id a) d)
           (ValidationError ''Payment amount exceeds outstanding balance'')) (\<lambda>_.
         let p = new_payment ev (fresh_id d) business_id customer_id iv amount (pa_currency a) (pa_method a)
                   (pa_idempotency_key a) provider_name (pa_notes a) in
         bindE (insert_payment p d) (\<lambda>d1. Inr (p, d1))))))))))"

section \<open>Stripe Connect\<close>

definition charges_possible :: "StripeConnectAccountStatus \<Rightarrow> bool" where
  "charges_possible st \<longleftrightarrow> st \<notin> {Sca_NONE, Sca_PENDING, Sca_RESTRICTED, Sca_CHARGES_DISABLED}"

text \<open>The fee of the policy when the payment carries its evidence, else the legacy percentage.\<close>

definition application_fee :: "Business \<Rightarrow> FeeResult option \<Rightarrow> money \<Rightarrow> string \<Rightarrow> int option" where
  "application_fee b evidence amount currency =
     (case evidence of
        Some f \<Rightarrow>
          if fr_platform_fee f > 0 then Some (amount_to_stripe (fr_platform_fee f) currency) else None
      | None \<Rightarrow>
          if biz_platform_fee_percent b > 0
          then Some (max 0 (truncate_rat (of_int (amount_to_stripe amount currency) * biz_platform_fee_percent b / 100)))
          else None)"

definition resolve_stripe_connect ::
  "PaymentProvider \<Rightarrow> Payment \<Rightarrow> db \<Rightarrow> err + string option \<times> int option" where
  "resolve_stripe_connect prov p d =
     (if prov_name prov \<noteq> ''stripe'' then Inr (None, None)
      else case find_business (pay_business_id p) d of
        None \<Rightarrow> Inr (None, None)
      | Some b \<Rightarrow>
          (case truthy_str (biz_stripe_account_id b) of
             None \<Rightarrow> Inr (None, None)
           | Some acct \<Rightarrow>
               bindE (guardE (charges_possible (biz_stripe_connect_status b))
                 (ValidationError ''Stripe account cannot accept charges'')) (\<lambda>_.
               bindE (guardE (biz_stripe_charges_enabled b)
                 (ValidationError ''Stripe charges are not enabled'')) (\<lambda>_.
               Inr (Some acct, application_fee b (pay_fee_evidence p) (pay_amount p) (pay_currency p))))))"

definition resolve_business_stripe_account :: "PaymentProvider \<Rightarrow> uuid \<Rightarrow> db \<Rightarrow> string option" where
  "resolve_business_stripe_account prov business_id d =
     (if prov_name prov \<noteq> ''stripe'' then None
      else case find_business business_id d of None \<Rightarrow> None | Some b \<Rightarrow> biz_stripe_account_id b)"

section \<open>Processing\<close>

definition validate_transition :: "PaymentStatus \<Rightarrow> PaymentStatus \<Rightarrow> err + unit" where
  "validate_transition from_status to_status =
     guardE (to_status \<in> PAYMENT_TRANSITIONS from_status) (StateTransitionError ''Invalid payment transition'')"

definition new_attempt :: "env \<Rightarrow> Payment \<Rightarrow> db \<Rightarrow> PaymentAttempt" where
  "new_attempt ev p d =
     \<lparr>att_id = fresh_id d, att_payment_id = pay_id p,
      att_attempt_number = length (filter (\<lambda>a. att_payment_id a = pay_id p) (t_attempts d)) + 1,
      att_provider = pay_provider p, att_provider_reference = None, att_status = ''processing'',
      att_amount = round_places 2 (pay_amount p), att_currency = pay_currency p, att_requested_at = env_now ev,
      att_completed_at = None, att_error_code = None, att_provider_response = None\<rparr>"

definition payment_request :: "Payment \<Rightarrow> string option \<Rightarrow> int option \<Rightarrow> PaymentRequest" where
  "payment_request p acct fee =
     \<lparr>prq_amount = pay_amount p, prq_currency = pay_currency p,
      prq_description = ''FIELDed payment for invoice'', prq_idempotency_key = pay_idempotency_key p,
      prq_payment_id = pay_id p, prq_stripe_account = acct, prq_application_fee = fee\<rparr>"

definition pending_confirmation :: "string list" where
  "pending_confirmation =
     [''requires_payment_method'', ''requires_confirmation'', ''requires_action'', ''processing'', ''pending'']"

definition awaits_confirmation :: "ProviderResult \<Rightarrow> bool" where
  "awaits_confirmation r \<longleftrightarrow> pvr_success r \<and> (\<exists>s\<in>set pending_confirmation. dget (pvr_raw r) ''status'' (JStr []) = JStr s)"

definition payment_payload :: "Payment \<Rightarrow> (string \<times> pval) list \<Rightarrow> string \<times> string \<Rightarrow> payload" where
  "payment_payload p extra note =
     [(''payment_id'', PUuid (pay_id p)), (''invoice_id'', puuid_opt (pay_invoice_id p)),
      (''customer_id'', PUuid (pay_customer_id p))] @ extra @
     [(''notification_title'', PStr (fst note)), (''notification_body'', PStr (snd note))]"

definition error_text :: "string option \<Rightarrow> string" where
  "error_text e = (case e of None \<Rightarrow> ''None'' | Some m \<Rightarrow> m)"

definition settle_awaiting :: "Payment \<Rightarrow> PaymentAttempt \<Rightarrow> ProviderResult \<Rightarrow> db \<Rightarrow> Payment \<times> db" where
  "settle_awaiting p att r d =
     (let att' = att\<lparr>att_status := ''processing'', att_provider_reference := pvr_reference r,
                    att_provider_response := Some (pvr_raw r)\<rparr>;
          p' = p\<lparr>pay_provider_reference := pvr_reference r\<rparr>
      in (p', put_payment (stored p') (put_attempt att' d)))"

definition settle_succeeded :: "env \<Rightarrow> Payment \<Rightarrow> PaymentAttempt \<Rightarrow> ProviderResult \<Rightarrow> db \<Rightarrow> err + Payment \<times> db" where
  "settle_succeeded ev p att r d =
     bindE (validate_transition (pay_status p) Pay_SUCCEEDED) (\<lambda>_.
     let att' = att\<lparr>att_status := ''succeeded'', att_provider_reference := pvr_reference r,
                   att_provider_response := Some (pvr_raw r)\<rparr>;
         p' = p\<lparr>pay_status := Pay_SUCCEEDED, pay_provider_reference := pvr_reference r,
                pay_paid_at := Some (env_now ev), pay_provider_evidence := Some (pvr_raw r)\<rparr>;
         d1 = update_invoice_payment_status p' (put_payment (stored p') (put_attempt att' d)) in
     bindE (emit_payment_event ev (pay_business_id p) ''PAYMENT_SUCCEEDED'' (pay_id p)
       (payment_payload p' [(''amount'', PMoney (pay_amount p)), (''currency'', PStr (pay_currency p)),
          (''status'', PStr (PaymentStatus_value Pay_SUCCEEDED))]
         (''Payment received'', ''Payment of '' @ pay_currency p @ '' '' @ money_str (pay_amount p) @ '' received successfully.'')) d1) (\<lambda>d2.
     Inr (p', d2)))"

definition settle_failed :: "env \<Rightarrow> Payment \<Rightarrow> PaymentAttempt \<Rightarrow> ProviderResult \<Rightarrow> db \<Rightarrow> err + Payment \<times> db" where
  "settle_failed ev p att r d =
     bindE (validate_transition (pay_status p) Pay_FAILED) (\<lambda>_.
     let att' = att\<lparr>att_status := ''failed'', att_error_code := pvr_error r,
                   att_provider_response := Some (pvr_raw r)\<rparr>;
         p' = p\<lparr>pay_status := Pay_FAILED, pay_failure_code := pvr_error r,
                pay_failure_message := (case pvr_error r of None \<Rightarrow> JNull | Some e \<Rightarrow> JStr e)\<rparr>;
         d1 = put_payment (stored p') (put_attempt att' d) in
     bindE (emit_payment_event ev (pay_business_id p) ''PAYMENT_FAILED'' (pay_id p)
       (payment_payload p' [(''amount'', PMoney (pay_amount p)), (''currency'', PStr (pay_currency p)),
          (''status'', PStr (PaymentStatus_value Pay_FAILED)), (''error'', PStr (error_text (pvr_error r)))]
         (''Payment failed'', ''Payment of '' @ pay_currency p @ '' '' @ money_str (pay_amount p) @ '' failed: '' @ error_text (pvr_error r))) d1) (\<lambda>d2.
     Inr (p', d2)))"

definition process_payment ::
  "env \<Rightarrow> PaymentProvider option \<Rightarrow> Payment \<Rightarrow> db \<Rightarrow> PaymentRequest list \<times> (err + Payment \<times> db)" where
  "process_payment ev provider p d =
     (if pay_status p \<noteq> Pay_PENDING then ([], Inl (StateTransitionError ''Cannot process payment''))
      else case provider of
        None \<Rightarrow> ([], Inl (ValidationError ''No payment provider configured''))
      | Some prov \<Rightarrow>
          (let p1 = p\<lparr>pay_status := Pay_PROCESSING\<rparr>;
               d1 = put_payment (stored p1) d;
               att = new_attempt ev p1 d1;
               d2 = used_id (add_attempt att d1) in
           case resolve_stripe_connect prov p1 d2 of
             Inl e \<Rightarrow> ([], Inl e)
           | Inr (acct, fee) \<Rightarrow>
               (let req = payment_request p1 acct fee; r = prov_initiate prov req;
                    att' = att\<lparr>att_completed_at := Some (env_now ev)\<rparr> in
                ([req],
                 if awaits_confirmation r then Inr (settle_awaiting p1 att' r d2)
                 else if pvr_success r then settle_succeeded ev p1 att' r d2
                 else settle_failed ev p1 att' r d2))))"

section \<open>Webhooks\<close>

definition map_webhook_to_status :: "string \<Rightarrow> string option \<Rightarrow> PaymentStatus option" where
  "map_webhook_to_status event_type status =
     (let mentions = (\<lambda>w. py_infix w (lower event_type) \<or> status = Some w) in
      if mentions ''succeeded'' then Some Pay_SUCCEEDED
      else if mentions ''failed'' then Some Pay_FAILED
      else if mentions ''expired'' then Some Pay_EXPIRED
      else if mentions ''cancelled'' then Some Pay_CANCELLED
      else if mentions ''processing'' then Some Pay_PROCESSING
      else None)"

definition apply_webhook :: "env \<Rightarrow> string \<Rightarrow> PaymentStatus \<Rightarrow> Payment \<Rightarrow> db \<Rightarrow> Payment \<times> db" where
  "apply_webhook ev event_type target p d =
     (let p1 = p\<lparr>pay_status := target\<rparr>;
          p2 = (if target = Pay_SUCCEEDED then p1\<lparr>pay_paid_at := Some (env_now ev)\<rparr>
                else if target = Pay_FAILED then p1\<lparr>pay_failure_code := Some event_type\<rparr> else p1);
          d1 = put_payment (stored p2) d
      in (p2, if target = Pay_SUCCEEDED then update_invoice_payment_status p2 d1 else d1))"

definition handle_webhook :: "env \<Rightarrow> string \<Rightarrow> string \<Rightarrow> string option \<Rightarrow> db \<Rightarrow> err + Payment option \<times> db" where
  "handle_webhook ev reference event_type status d =
     bindE (get_by_provider_reference reference d) (\<lambda>found.
     case found of
       None \<Rightarrow> Inr (None, d)
     | Some p \<Rightarrow>
         (case map_webhook_to_status event_type status of
            None \<Rightarrow> Inr (Some p, d)
          | Some target \<Rightarrow>
              if pay_status p = target then Inr (Some p, d)
              else if target \<notin> PAYMENT_TRANSITIONS (pay_status p) then Inr (Some p, d)
              else (let (p', d') = apply_webhook ev event_type target p d in Inr (Some p', d'))))"

section \<open>Refunds\<close>

definition refund_amount :: "Payment \<Rightarrow> string option \<Rightarrow> err + money" where
  "refund_amount p amount =
     (case amount of
        None \<Rightarrow> Inr (pay_amount p - pay_refunded_amount p)
      | Some s \<Rightarrow>
          bindE (amount_arg ''Invalid refund amount format'' s) (\<lambda>x.
          bindE (guardE (x > 0) (ValidationError ''Refund amount must be positive'')) (\<lambda>_.
          bindE (guardE (x \<le> pay_amount p - pay_refunded_amount p)
            (ValidationError ''Refund amount exceeds refundable balance'')) (\<lambda>_. Inr x))))"

definition refund_request :: "Payment \<Rightarrow> money \<Rightarrow> string option \<Rightarrow> string \<Rightarrow> string option \<Rightarrow> RefundRequest" where
  "refund_request p amount reason nonce acct =
     \<lparr>rrq_payment_reference = (case pay_provider_reference p of None \<Rightarrow> [] | Some r \<Rightarrow> r),
      rrq_amount = amount, rrq_reason = reason,
      rrq_idempotency_key = ''refund-'' @ nat_str (pay_id p) @ ''-'' @ nonce, rrq_stripe_account = acct\<rparr>"

definition refunded_status :: "Payment \<Rightarrow> money \<Rightarrow> PaymentStatus" where
  "refunded_status p new_refunded = (if new_refunded \<ge> pay_amount p then Pay_REFUNDED else Pay_PARTIALLY_REFUNDED)"

definition refunded_payment :: "env \<Rightarrow> Payment \<Rightarrow> money \<Rightarrow> string option \<Rightarrow> Payment" where
  "refunded_payment ev p amount ref =
     p\<lparr>pay_refunded_amount := round_places 2 (pay_refunded_amount p + amount), pay_refunded_at := Some (env_now ev),
       pay_refund_provider_reference := ref, pay_status := refunded_status p (pay_refunded_amount p + amount)\<rparr>"

definition settle_refund :: "env \<Rightarrow> Payment \<Rightarrow> money \<Rightarrow> ProviderResult \<Rightarrow> db \<Rightarrow> err + Payment \<times> db" where
  "settle_refund ev p amount r d =
     (if \<not> pvr_success r then Inl (ValidationError (''Refund failed: '' @ error_text (pvr_error r)))
      else
        bindE (validate_transition (pay_status p) (refunded_status p (pay_refunded_amount p + amount))) (\<lambda>_.
        let p' = refunded_payment ev p amount (pvr_reference r);
            d1 = update_invoice_payment_status p' (put_payment (stored p') d) in
        bindE (emit_payment_event ev (pay_business_id p) ''PAYMENT_REFUNDED'' (pay_id p)
          (payment_payload p' [(''refund_amount'', PMoney amount), (''currency'', PStr (pay_currency p)),
             (''status'', PStr (PaymentStatus_value (pay_status p')))]
            (''Refund processed'', ''Refund of '' @ pay_currency p @ '' '' @ money_str amount @ '' has been processed.'')) d1) (\<lambda>d2.
        Inr (p', d2))))"

definition refund_payment ::
  "env \<Rightarrow> PaymentProvider option \<Rightarrow> Payment \<Rightarrow> string option \<Rightarrow> string option \<Rightarrow> string \<Rightarrow> db \<Rightarrow>
   RefundRequest list \<times> (err + Payment \<times> db)" where
  "refund_payment ev provider p amount reason nonce d =
     (if pay_status p \<notin> {Pay_SUCCEEDED, Pay_PARTIALLY_REFUNDED}
      then ([], Inl (StateTransitionError ''Cannot refund payment''))
      else case provider of
        None \<Rightarrow> ([], Inl (ValidationError ''No payment provider configured''))
      | Some prov \<Rightarrow>
          (case refund_amount p amount of
             Inl e \<Rightarrow> ([], Inl e)
           | Inr x \<Rightarrow>
               (let req = refund_request p x reason nonce (resolve_business_stripe_account prov (pay_business_id p) d)
                in ([req], settle_refund ev p x (prov_refund prov req) d))))"

section \<open>Cancellation and expiry\<close>

definition cancel_payment :: "Payment \<Rightarrow> db \<Rightarrow> err + Payment \<times> db" where
  "cancel_payment p d =
     bindE (guardE (pay_status p = Pay_PENDING) (StateTransitionError ''Cannot cancel payment'')) (\<lambda>_.
     bindE (validate_transition (pay_status p) Pay_CANCELLED) (\<lambda>_.
     let p' = p\<lparr>pay_status := Pay_CANCELLED\<rparr> in Inr (p', put_payment (stored p') d)))"

definition expire_payment :: "Payment \<Rightarrow> db \<Rightarrow> err + Payment \<times> db" where
  "expire_payment p d =
     bindE (guardE (pay_status p \<in> {Pay_PENDING, Pay_PROCESSING}) (StateTransitionError ''Cannot expire payment'')) (\<lambda>_.
     bindE (validate_transition (pay_status p) Pay_EXPIRED) (\<lambda>_.
     let p' = p\<lparr>pay_status := Pay_EXPIRED\<rparr> in Inr (p', put_payment (stored p') d)))"

section \<open>Endpoints\<close>

text \<open>The customer of the invoice, soft-deleted or not, pays what the business asks for.\<close>

definition resolve_invoice_customer :: "uuid \<Rightarrow> db \<Rightarrow> err + uuid" where
  "resolve_invoice_customer invoice_id d =
     bindE (requireE (NotFoundError ''Invoice not found'') (find_row inv_id invoice_id (t_invoices d))) (\<lambda>iv.
     Inr (inv_customer_id iv))"

definition create_business_payment ::
  "env \<Rightarrow> PaymentProvider \<Rightarrow> uuid \<Rightarrow> PaymentArgs \<Rightarrow> db \<Rightarrow> PaymentRequest list \<times> (err + Payment \<times> db)" where
  "create_business_payment ev prov business_id a d =
     (case bindE (resolve_invoice_customer (pa_invoice_id a) d) (\<lambda>c. create_payment ev business_id c a (prov_name prov) d) of
        Inl e \<Rightarrow> ([], Inl e)
      | Inr (p, d1) \<Rightarrow>
          if pay_status p = Pay_PENDING then process_payment ev (Some prov) p d1 else ([], Inr (p, d1)))"

definition refund_business_payment ::
  "env \<Rightarrow> PaymentProvider \<Rightarrow> uuid \<Rightarrow> uuid \<Rightarrow> string option \<Rightarrow> string option \<Rightarrow> string \<Rightarrow> db \<Rightarrow>
   RefundRequest list \<times> (err + Payment \<times> db)" where
  "refund_business_payment ev prov business_id i amount reason nonce d =
     (case get_business_payment i business_id d of
        Inl e \<Rightarrow> ([], Inl e)
      | Inr p \<Rightarrow> refund_payment ev (Some prov) p amount reason nonce d)"

definition booking_invoice :: "uuid \<Rightarrow> db \<Rightarrow> err + Invoice" where
  "booking_invoice booking_id d =
     bindE (get_execution_by_booking_id booking_id d) (\<lambda>x.
     bindE (requireE (NotFoundError ''Service execution not found'') x) (\<lambda>x.
     bindE (get_by_service_execution_id (ex_id x) d) (\<lambda>iv.
     requireE (ValidationError ''Payment not yet available'') iv)))"

definition pay_my_booking ::
  "env \<Rightarrow> PaymentProvider \<Rightarrow> uuid \<Rightarrow> uuid \<Rightarrow> string \<Rightarrow> string \<Rightarrow> db \<Rightarrow> PaymentRequest list \<times> (err + Payment \<times> db)" where
  "pay_my_booking ev prov user_id booking_id method key d =
     (case bindE (get_customer_booking booking_id user_id d) (\<lambda>b.
           bindE (booking_invoice (bk_id b) d) (\<lambda>iv.
           create_payment ev (bk_business_id b) user_id
             \<lparr>pa_invoice_id = inv_id iv, pa_amount = money_str (inv_total iv), pa_currency = inv_currency iv,
              pa_method = method, pa_idempotency_key = key, pa_notes = None\<rparr> (prov_name prov) d)) of
        Inl e \<Rightarrow> ([], Inl e)
      | Inr (p, d1) \<Rightarrow> process_payment ev (Some prov) p d1)"

section \<open>Lemmas\<close>

lemma round_places_2: "round_places 2 x = quantize2 x"
  by (simp add: round_places_def quantize2_def)

lemma stored_simps [simp]:
  "pay_id (stored p) = pay_id p" "pay_status (stored p) = pay_status p" "pay_deleted (stored p) = pay_deleted p"
  "pay_invoice_id (stored p) = pay_invoice_id p" "pay_refunded_amount (stored p) = pay_refunded_amount p"
  "pay_provider_reference (stored p) = pay_provider_reference p" "pay_business_id (stored p) = pay_business_id p"
  "pay_idempotency_key (stored p) = pay_idempotency_key p" "pay_amount (stored p) = quantize2 (pay_amount p)"
  by (simp_all add: stored_def round_places_2)

lemma put_attempt_tables [simp]:
  "t_payments (put_attempt a d) = t_payments d" "t_invoices (put_attempt a d) = t_invoices d"
  "t_ledger (put_attempt a d) = t_ledger d" "t_outbox (put_attempt a d) = t_outbox d" "fresh (put_attempt a d) = fresh d"
  by (simp_all add: put_attempt_def)

lemma validate_transition_Inr [result_iffs]:
  "validate_transition a b = Inr u \<longleftrightarrow> b \<in> PAYMENT_TRANSITIONS a"
  by (simp add: validate_transition_def guardE_Inr_iff)

lemma totals_cong:
  assumes "t_payments d' = t_payments d"
  shows "get_successful_total_for_invoice i d' = get_successful_total_for_invoice i d"
    "get_refunded_total_for_invoice i d' = get_refunded_total_for_invoice i d" "net_paid i d' = net_paid i d"
  by (simp_all add: net_paid_def get_successful_total_for_invoice_def get_refunded_total_for_invoice_def
      invoice_payments_in_def assms)

text \<open>An invoice and its ledger entries agree with the payments.\<close>

definition in_sync :: "uuid \<Rightarrow> db \<Rightarrow> bool" where
  "in_sync i d \<longleftrightarrow>
     (\<forall>iv. find_invoice i d = Some iv \<longrightarrow> inv_payment_status iv \<noteq> Ips_VOID \<longrightarrow>
        inv_payment_status iv = invoice_status_for (net_paid i d) (get_refunded_total_for_invoice i d) (inv_total iv) \<and>
        (\<forall>e\<in>set (t_ledger d). le_invoice_id e = Some i \<and> \<not> le_deleted e \<longrightarrow> le_payment_status e = inv_payment_status iv))"

lemma update_invoice_tables [simp]:
  "t_payments (update_invoice_payment_status p d) = t_payments d" "t_outbox (update_invoice_payment_status p d) = t_outbox d"
  "fresh (update_invoice_payment_status p d) = fresh d"
  by (simp_all add: update_invoice_payment_status_def sync_ledger_def put_invoice_def Let_def split: option.split)

lemma update_invoice_in_sync:
  assumes "pay_invoice_id p = Some i"
  shows "in_sync i (update_invoice_payment_status p d)"
proof (cases "find_invoice i d")
  case None
  then show ?thesis using assms by (simp add: update_invoice_payment_status_def in_sync_def)
next
  case (Some iv)
  have iv: "inv_id iv = i" "\<not> inv_deleted iv"
    using Some by (auto simp: find_invoice_def dest: live_row_SomeD)
  show ?thesis
  proof (cases "inv_payment_status iv = Ips_VOID")
    case True
    then show ?thesis using assms Some by (simp add: update_invoice_payment_status_def in_sync_def)
  next
    case False
    let ?st = "invoice_status_for (net_paid i d) (get_refunded_total_for_invoice i d) (inv_total iv)"
    let ?d = "put_invoice (iv\<lparr>inv_payment_status := ?st\<rparr>) d"
    have upd: "update_invoice_payment_status p d = sync_ledger i ?st ?d"
      using assms Some False iv(1) by (simp add: update_invoice_payment_status_def Let_def)
    have "find_invoice i ?d = Some (iv\<lparr>inv_payment_status := ?st\<rparr>)"
      using invoice_repo.get_put_same [of "iv\<lparr>inv_payment_status := ?st\<rparr>" d iv] Some iv by simp
    then have found: "find_invoice i (sync_ledger i ?st ?d) = Some (iv\<lparr>inv_payment_status := ?st\<rparr>)"
      by (simp add: find_invoice_def sync_ledger_def)
    have tot: "net_paid i (sync_ledger i ?st ?d) = net_paid i d"
      "get_refunded_total_for_invoice i (sync_ledger i ?st ?d) = get_refunded_total_for_invoice i d"
      by (rule totals_cong, simp add: sync_ledger_def put_invoice_def)+
    show ?thesis
      unfolding upd in_sync_def found tot by (auto simp: sync_ledger_def)
  qed
qed

text \<open>Steps that touch neither invoices, ledger nor payments keep the agreement.\<close>

lemma in_sync_cong:
  assumes "t_invoices d' = t_invoices d" "t_ledger d' = t_ledger d" "t_payments d' = t_payments d"
  shows "in_sync i d' = in_sync i d"
  by (simp add: in_sync_def find_invoice_def assms totals_cong [OF assms(3)])

lemma emit_payment_tables:
  assumes "emit_payment_event ev b ety i pl d = Inr d'"
  shows "t_payments d' = t_payments d" "t_invoices d' = t_invoices d" "t_ledger d' = t_ledger d"
    "outbox_keys d' = outbox_keys d @ [(ety, ''payment'', i)]"
  using assms by (auto simp: emit_payment_event_def emit_Inr_iff used_id_def outbox_keys_def)

lemma create_payment_Inr:
  assumes "create_payment ev business_id customer_id a name d = Inr (p, d')"
    and "get_by_idempotency_key (pa_idempotency_key a) d = Inr None"
  obtains iv amount where "find_invoice (pa_invoice_id a) d = Some iv" "inv_business_id iv = business_id"
    "inv_customer_id iv = customer_id" "parse_decimal (pa_amount a) = Some amount" "0 < amount"
    "pa_currency a = inv_currency iv" "amount \<le> inv_total iv - net_paid (pa_invoice_id a) d"
    "p = new_payment ev (fresh_id d) business_id customer_id iv amount (pa_currency a) (pa_method a)
       (pa_idempotency_key a) name (pa_notes a)"
    "t_payments d' = t_payments d @ [stored p]" "t_invoices d' = t_invoices d"
  using assms
  by (auto simp: create_payment_def amount_arg_def insert_payment_def Let_def result_iffs used_id_def add_payment_def)

text \<open>A settled success and a settled refund.\<close>

lemma settle_succeeded_Inr:
  assumes "settle_succeeded ev p att r d = Inr (p', d')" "pay_invoice_id p = Some i"
  shows "pay_status p' = Pay_SUCCEEDED \<and> in_sync i d' \<and> (''PAYMENT_SUCCEEDED'', ''payment'', pay_id p) \<in> set (outbox_keys d')"
proof -
  from assms(1) obtain d1 att' pl where p': "p' = p\<lparr>pay_status := Pay_SUCCEEDED, pay_provider_reference := pvr_reference r,
      pay_paid_at := Some (env_now ev), pay_provider_evidence := Some (pvr_raw r)\<rparr>"
    and d1: "d1 = update_invoice_payment_status p' (put_payment (stored p') (put_attempt att' d))"
    and emit: "emit_payment_event ev (pay_business_id p) ''PAYMENT_SUCCEEDED'' (pay_id p) pl d1 = Inr d'"
    by (auto simp: settle_succeeded_def Let_def result_iffs)
  have "in_sync i d1" unfolding d1 by (rule update_invoice_in_sync) (simp add: p' assms(2))
  then show ?thesis
    using p' emit_payment_tables [OF emit] by (simp add: in_sync_cong [of d' d1])
qed

lemma settle_refund_Inr:
  assumes "settle_refund ev p amount r d = Inr (p', d')"
  obtains d1 pl where "pvr_success r" "p' = refunded_payment ev p amount (pvr_reference r)"
    "refunded_status p (pay_refunded_amount p + amount) \<in> PAYMENT_TRANSITIONS (pay_status p)"
    "d1 = update_invoice_payment_status p' (put_payment (stored p') d)"
    "emit_payment_event ev (pay_business_id p) ''PAYMENT_REFUNDED'' (pay_id p) pl d1 = Inr d'"
  using assms by (auto simp: settle_refund_def Let_def result_iffs split: if_splits)

lemma refund_payment_Inr:
  assumes "refund_payment ev provider p amount reason nonce d = (reqs, Inr (p', d'))"
  obtains prov x req where "provider = Some prov" "refund_amount p amount = Inr x" "reqs = [req]" "rrq_amount req = x"
    "settle_refund ev p x (prov_refund prov req) d = Inr (p', d')" "pay_status p \<in> {Pay_SUCCEEDED, Pay_PARTIALLY_REFUNDED}"
  using assms
  by (auto simp: refund_payment_def refund_request_def Let_def split: if_splits option.splits sum.splits)

lemma process_payment_Inr:
  assumes "process_payment ev (Some prov) p d = (reqs, Inr (p', d'))"
  obtains p1 att acct fee d2 where "pay_status p = Pay_PENDING" "p1 = p\<lparr>pay_status := Pay_PROCESSING\<rparr>"
    "d2 = used_id (add_attempt (new_attempt ev p1 (put_payment (stored p1) d)) (put_payment (stored p1) d))"
    "resolve_stripe_connect prov p1 d2 = Inr (acct, fee)" "reqs = [payment_request p1 acct fee]"
    "(if awaits_confirmation (prov_initiate prov (payment_request p1 acct fee))
      then Inr (settle_awaiting p1 att (prov_initiate prov (payment_request p1 acct fee)) d2)
      else if pvr_success (prov_initiate prov (payment_request p1 acct fee))
      then settle_succeeded ev p1 att (prov_initiate prov (payment_request p1 acct fee)) d2
      else settle_failed ev p1 att (prov_initiate prov (payment_request p1 acct fee)) d2) = Inr (p', d')"
proof -
  let ?p = "p\<lparr>pay_status := Pay_PROCESSING\<rparr>"
  let ?d = "put_payment (stored ?p) d"
  let ?d2 = "used_id (add_attempt (new_attempt ev ?p ?d) ?d)"
  have pend: "pay_status p = Pay_PENDING" using assms by (simp add: process_payment_def split: if_splits)
  show ?thesis
  proof (cases "resolve_stripe_connect prov ?p ?d2")
    case (Inl e)
    then show ?thesis using assms pend by (simp add: process_payment_def Let_def)
  next
    case (Inr af)
    obtain acct fee where af: "af = (acct, fee)" by (cases af)
    show ?thesis
      by (rule that [OF pend refl refl, of acct fee "(new_attempt ev ?p ?d)\<lparr>att_completed_at := Some (env_now ev)\<rparr>"])
        (use assms pend Inr af in \<open>simp_all add: process_payment_def Let_def\<close>)
  qed
qed

lemma apply_webhook_row:
  assumes "apply_webhook ev event_type target p d = (p', d')"
  shows "pay_id p' = pay_id p" "pay_status p' = target" "pay_provider_reference p' = pay_provider_reference p"
    "pay_deleted p' = pay_deleted p" "t_payments d' = upd_row pay_id (pay_id p) (\<lambda>_. stored p') (t_payments d)"
  using assms by (auto simp: apply_webhook_def put_payment_def Let_def split: if_splits)

lemma refund_amount_bounds:
  "refund_amount p amount = Inr x \<Longrightarrow> x \<le> pay_amount p - pay_refunded_amount p"
  by (cases amount) (auto simp: refund_amount_def amount_arg_def result_iffs)

text \<open>When a refund goes through.\<close>

lemma refund_progress:
  assumes "pay_status p \<in> {Pay_SUCCEEDED, Pay_PARTIALLY_REFUNDED}" "refund_amount p amount = Inr x"
    and "refunded_status p (pay_refunded_amount p + x) \<in> PAYMENT_TRANSITIONS (pay_status p)"
    and "\<And>q. pvr_success (prov_refund prov q)" "(''PAYMENT_REFUNDED'', ''payment'', pay_id p) \<notin> set (outbox_keys d)"
  shows "\<exists>req p' d'. refund_payment ev (Some prov) p amount reason nonce d = ([req], Inr (p', d')) \<and>
    pay_status p' = refunded_status p (pay_refunded_amount p + x) \<and>
    pay_refunded_amount p' = quantize2 (pay_refunded_amount p + x) \<and> pay_amount p' = pay_amount p"
proof -
  let ?req = "refund_request p x reason nonce (resolve_business_stripe_account prov (pay_business_id p) d)"
  let ?p = "refunded_payment ev p x (pvr_reference (prov_refund prov ?req))"
  have "outbox_keys (update_invoice_payment_status ?p (put_payment (stored ?p) d)) = outbox_keys d"
    by (simp add: outbox_keys_def put_payment_def)
  then have "\<exists>d'. emit_payment_event ev (pay_business_id p) ''PAYMENT_REFUNDED'' (pay_id p) pl
      (update_invoice_payment_status ?p (put_payment (stored ?p) d)) = Inr d'" for pl
    using assms(5) by (intro payment_events.emit_fresh_key) simp
  then have "\<exists>d'. settle_refund ev p x (prov_refund prov ?req) d = Inr (?p, d')"
    using assms(3,4) by (simp add: settle_refund_def validate_transition_def Let_def bindE_Inr_iff)
  then show ?thesis
    using assms(1,2) by (auto simp: refund_payment_def Let_def refunded_payment_def round_places_2)
qed

section \<open>Properties\<close>

text \<open>C17: A new payment is for an invoice of that business and that customer, in the invoice's currency, for a
  positive amount within the balance that the successful payments less the refunds leave, and it
  carries the invoice's fee; it is stored as pending and nothing is charged yet.\<close>

theorem created_payment_within_balance:
  assumes "create_payment ev business_id customer_id a name d = Inr (p, d')"
    and "get_by_idempotency_key (pa_idempotency_key a) d = Inr None"
  shows "\<exists>iv. find_invoice (pa_invoice_id a) d = Some iv \<and> inv_business_id iv = business_id \<and>
    inv_customer_id iv = customer_id \<and> pay_invoice_id p = Some (inv_id iv) \<and> pay_currency p = inv_currency iv \<and>
    0 < pay_amount p \<and> pay_amount p + net_paid (inv_id iv) d \<le> inv_total iv \<and>
    pay_fee_evidence p = inv_fee_evidence iv \<and> pay_status p = Pay_PENDING \<and>
    t_payments d' = t_payments d @ [stored p] \<and> net_paid (inv_id iv) d' = net_paid (inv_id iv) d"
  using assms
proof (rule create_payment_Inr)
  fix iv amount
  assume iv: "find_invoice (pa_invoice_id a) d = Some iv" "inv_business_id iv = business_id" "inv_customer_id iv = customer_id"
    and x: "0 < amount" "amount \<le> inv_total iv - net_paid (pa_invoice_id a) d" "pa_currency a = inv_currency iv"
    and p: "p = new_payment ev (fresh_id d) business_id customer_id iv amount (pa_currency a) (pa_method a)
       (pa_idempotency_key a) name (pa_notes a)"
    and d': "t_payments d' = t_payments d @ [stored p]"
  have "inv_id iv = pa_invoice_id a" using iv(1) by (rule invoice_repo.get_key)
  moreover have "net_paid i d' = net_paid i d" for i
    by (simp add: net_paid_def get_successful_total_for_invoice_def get_refunded_total_for_invoice_def
        invoice_payments_in_def d' p new_payment_def)
  ultimately show ?thesis
    using iv x d' by (intro exI [of _ iv]) (simp add: p new_payment_def)
qed

definition sample_invoice :: "FeeResult option \<Rightarrow> Invoice" where
  "sample_invoice fee =
     \<lparr>inv_id = 60, inv_business_id = 1, inv_customer_id = 2, inv_service_execution_id = 50, inv_booking_id = 40,
      inv_quote_id = Some 30, inv_invoice_number = ''INV-1-0001'', inv_issue_date = 90, inv_currency = ''GBP'',
      inv_subtotal = 80, inv_discount = 0, inv_tax = 0, inv_total = 80, inv_payment_status = Ips_UNPAID,
      inv_status = Inv_ISSUED, inv_fee_evidence = fee, inv_deleted = False\<rparr>"

definition sample_payment :: "PaymentStatus \<Rightarrow> money \<Rightarrow> Payment" where
  "sample_payment st refunded =
     (new_payment sample_env 70 1 2 (sample_invoice None) 80 ''GBP'' ''card'' ''key-1'' ''stub'' None)
       \<lparr>pay_status := st, pay_refunded_amount := refunded, pay_provider_reference := Some ''pi_1''\<rparr>"

definition payment_args :: "string \<Rightarrow> string \<Rightarrow> PaymentArgs" where
  "payment_args amount key =
     \<lparr>pa_invoice_id = 60, pa_amount = amount, pa_currency = ''GBP'', pa_method = ''card'',
      pa_idempotency_key = key, pa_notes = None\<rparr>"

definition billed_db :: "FeeResult option \<Rightarrow> Payment list \<Rightarrow> db" where
  "billed_db fee ps = empty_db\<lparr>t_invoices := [sample_invoice fee], t_ledger := [sample_entry], t_payments := ps\<rparr>"

lemma billed_simps:
  "find_invoice 60 (billed_db fee ps) = Some (sample_invoice fee)" "t_payments (billed_db fee ps) = ps"
  "outbox_keys (billed_db fee ps) = []" "pay_invoice_id (sample_payment st r) = Some 60"
  "pay_status (sample_payment st r) = st" "pay_refunded_amount (sample_payment st r) = r" "pay_amount (sample_payment st r) = 80"
  "pay_id (sample_payment st r) = 70" "pay_idempotency_key (sample_payment st r) = ''key-1''" "\<not> pay_deleted (sample_payment st r)"
  "pay_provider_reference (sample_payment st r) = Some ''pi_1''"
  "inv_id (sample_invoice fee) = 60" "inv_total (sample_invoice fee) = 80" "inv_currency (sample_invoice fee) = ''GBP''"
  "inv_business_id (sample_invoice fee) = 1" "inv_customer_id (sample_invoice fee) = 2" "inv_fee_evidence (sample_invoice fee) = fee"
  by (simp_all add: billed_db_def find_invoice_def live_row_def sample_invoice_def outbox_keys_def empty_db_def
      sample_payment_def new_payment_def)

lemma payment_args_simps [simp]:
  "pa_invoice_id (payment_args amount key) = 60" "pa_amount (payment_args amount key) = amount"
  "pa_currency (payment_args amount key) = ''GBP''" "pa_idempotency_key (payment_args amount key) = key"
  by (simp_all add: payment_args_def)

lemma sample_amounts:
  "parse_decimal ''40'' = Some 40" "parse_decimal ''160'' = Some 160" "parse_decimal ''30'' = Some 30" "parse_decimal ''50'' = Some 50"
  by code_simp+

text \<open>A payment of half the invoice goes through.\<close>

lemma create_sample_payment:
  assumes "\<forall>p\<in>set ps. pay_invoice_id p \<noteq> Some 60 \<and> pay_idempotency_key p \<noteq> key" "length key \<le> 128"
  shows "\<exists>p d'. create_payment ev 1 2 (payment_args ''40'' key) name (billed_db fee ps) = Inr (p, d') \<and>
    get_by_idempotency_key key (billed_db fee ps) = Inr None"
proof -
  have "net_paid 60 (billed_db fee ps) = 0"
    using assms(1) by (simp add: net_paid_def get_successful_total_for_invoice_def get_refunded_total_for_invoice_def
        invoice_payments_in_def billed_simps filter_False)
  moreover have "get_by_idempotency_key key (billed_db fee ps) = Inr None"
    using assms(1) by (simp add: get_by_idempotency_key_def billed_simps filter_False)
  moreover have "numeric_12_2 (quantize2 40)" by (simp add: numeric_12_2_def two_places_def)
  ultimately show ?thesis
    using assms by (auto simp: create_payment_def amount_arg_def insert_payment_def Let_def list_ex_iff guardE_def
        new_payment_def round_places_2 billed_simps sample_amounts)
qed

theorem created_payment_within_balance_witness:
  "\<exists>p d'. create_payment sample_env 1 2 (payment_args ''40'' ''key-2'') ''stub'' (billed_db None []) = Inr (p, d') \<and>
     0 < pay_amount p \<and> pay_amount p + net_paid 60 (billed_db None []) \<le> 80"
proof -
  obtain p d' where run: "create_payment sample_env 1 2 (payment_args ''40'' ''key-2'') ''stub'' (billed_db None []) = Inr (p, d')"
    "get_by_idempotency_key ''key-2'' (billed_db None []) = Inr None"
    using create_sample_payment [of "[]" "''key-2''" sample_env "''stub''" None] by auto
  then show ?thesis
    using created_payment_within_balance [OF run(1)] by (auto simp: billed_simps)
qed


abbreviation a_stub :: PaymentProvider where
  "a_stub \<equiv> stub_provider (\<lambda>k. k) (\<lambda>q. [])"

text \<open>A refund of 30 out of 80 goes through.\<close>

lemma sample_refund:
  "\<exists>req p' d'. refund_payment sample_env (Some a_stub) (sample_payment Pay_SUCCEEDED 0) (Some ''30'') None []
     (billed_db None [sample_payment Pay_SUCCEEDED 0]) = ([req], Inr (p', d')) \<and>
     pay_status p' = Pay_PARTIALLY_REFUNDED \<and> pay_refunded_amount p' = 30 \<and> pay_amount p' = 80"
proof -
  let ?p = "sample_payment Pay_SUCCEEDED 0"
  have x: "refund_amount ?p (Some ''30'') = Inr 30"
    by (simp add: refund_amount_def amount_arg_def sample_amounts billed_simps guardE_def)
  have st: "refunded_status ?p (pay_refunded_amount ?p + 30) = Pay_PARTIALLY_REFUNDED"
    by (simp add: refunded_status_def billed_simps)
  show ?thesis
    using refund_progress [OF _ x, of a_stub "billed_db None [?p]" sample_env None "[]"] st
    by (simp add: billed_simps stub_provider_def provider_ok_def two_places_def)
qed


text \<open>C19: After one partial refund every further refund fails, but only after the provider has been told to pay
  it out: the request is sent, and then the transition or the event's idempotency key is refused.\<close>

theorem second_refund_fails_after_provider:
  assumes "refund_payment ev (Some prov) p amount reason nonce d = (reqs, Inr (p1, d1))"
    and "pay_status p1 = Pay_PARTIALLY_REFUNDED" and "set (outbox_keys d1) \<subseteq> set (outbox_keys d2)"
    and "refund_amount p1 amount2 = Inr x"
  shows "\<exists>req e. refund_payment ev2 (Some prov2) p1 amount2 reason2 nonce2 d2 = ([req], Inl e) \<and> rrq_amount req = x"
proof -
  from assms(1) obtain y r where "settle_refund ev p y r d = Inr (p1, d1)"
    by (auto elim: refund_payment_Inr)
  then obtain d0 pl where p1: "p1 = refunded_payment ev p y (pvr_reference r)"
    and emit: "emit_payment_event ev (pay_business_id p) ''PAYMENT_REFUNDED'' (pay_id p) pl d0 = Inr d1"
    by (elim settle_refund_Inr)
  have key: "(''PAYMENT_REFUNDED'', ''payment'', pay_id p1) \<in> set (outbox_keys d2)"
    using emit_payment_tables(4) [OF emit] assms(3) by (auto simp: p1 refunded_payment_def)
  let ?req = "refund_request p1 x reason2 nonce2 (resolve_business_stripe_account prov2 (pay_business_id p1) d2)"
  have "\<exists>e. settle_refund ev2 p1 x (prov_refund prov2 ?req) d2 = Inl e"
  proof (cases "settle_refund ev2 p1 x (prov_refund prov2 ?req) d2")
    case (Inr pd)
    then obtain p2 d3 where "settle_refund ev2 p1 x (prov_refund prov2 ?req) d2 = Inr (p2, d3)" by (cases pd) simp
    then obtain d4 pl' where d4: "d4 = update_invoice_payment_status p2 (put_payment (stored p2) d2)"
      and "emit_payment_event ev2 (pay_business_id p1) ''PAYMENT_REFUNDED'' (pay_id p1) pl' d4 = Inr d3"
      by (elim settle_refund_Inr)
    moreover have "outbox_keys d4 = outbox_keys d2" by (simp add: d4 outbox_keys_def put_payment_def)
    ultimately show ?thesis using key by (simp add: emit_payment_event_def emit_Inr_iff)
  qed simp
  then show ?thesis
    using assms(2,4) by (simp add: refund_payment_def Let_def refund_request_def)
qed

theorem second_refund_fails_after_provider_witness:
  "\<exists>r1 p d r2 e. refund_payment sample_env (Some a_stub) (sample_payment Pay_SUCCEEDED 0) (Some ''30'') None []
     (billed_db None [sample_payment Pay_SUCCEEDED 0]) = ([r1], Inr (p, d)) \<and>
     refund_payment sample_env (Some a_stub) p (Some ''50'') None [] d = ([r2], Inl e) \<and> rrq_amount r2 = 50"
proof -
  obtain r1 p d where run: "refund_payment sample_env (Some a_stub) (sample_payment Pay_SUCCEEDED 0) (Some ''30'') None []
     (billed_db None [sample_payment Pay_SUCCEEDED 0]) = ([r1], Inr (p, d))"
    "pay_status p = Pay_PARTIALLY_REFUNDED" "pay_refunded_amount p = 30" "pay_amount p = 80"
    using sample_refund by blast
  have "refund_amount p (Some ''50'') = Inr 50"
    using run(3,4) by (simp add: refund_amount_def amount_arg_def sample_amounts guardE_def)
  then show ?thesis
    using second_refund_fails_after_provider [OF run(1,2) subset_refl, of "Some ''50''" 50 sample_env a_stub None "[]"] run(1)
    by blast
qed

text \<open>When all payments of an invoice have been refunded, a new payment may be as large as the total and the
  refunds together, since refunded payments no longer count as paid while their refunds still
  count as refunded.\<close>

theorem refunded_invoice_overcharged:
  assumes "find_invoice (pa_invoice_id a) d = Some iv"
    and "\<forall>p\<in>set (t_payments d). pay_invoice_id p = Some (pa_invoice_id a) \<and> \<not> pay_deleted p \<longrightarrow> pay_status p = Pay_REFUNDED"
    and "parse_decimal (pa_amount a) = Some x" and "0 < x"
    and "x \<le> inv_total iv + get_refunded_total_for_invoice (pa_invoice_id a) d" and "numeric_12_2 (quantize2 x)"
    and "pa_currency a = inv_currency iv" and "length (pa_idempotency_key a) \<le> 128"
    and "\<forall>p\<in>set (t_payments d). pay_idempotency_key p \<noteq> pa_idempotency_key a"
  shows "\<exists>p d'. create_payment ev (inv_business_id iv) (inv_customer_id iv) a name d = Inr (p, d') \<and> pay_amount p = x"
proof -
  have "invoice_payments_in {Pay_SUCCEEDED, Pay_PARTIALLY_REFUNDED} (pa_invoice_id a) d = []"
    using assms(2) by (auto simp: invoice_payments_in_def filter_empty_conv)
  then have "net_paid (pa_invoice_id a) d = - get_refunded_total_for_invoice (pa_invoice_id a) d"
    by (simp add: net_paid_def get_successful_total_for_invoice_def)
  moreover have "get_by_idempotency_key (pa_idempotency_key a) d = Inr None"
    using assms(9) by (simp add: get_by_idempotency_key_def filter_False)
  ultimately show ?thesis
    using assms by (auto simp: create_payment_def amount_arg_def insert_payment_def Let_def list_ex_iff guardE_def
        new_payment_def round_places_2)
qed

theorem refunded_invoice_overcharged_witness:
  "\<exists>p d'. create_payment sample_env 1 2 (payment_args ''160'' ''key-2'') ''stub'' (billed_db None [sample_payment Pay_REFUNDED 80]) = Inr (p, d') \<and>
     pay_amount p = 160"
proof -
  let ?d = "billed_db None [sample_payment Pay_REFUNDED 80]"
  have "get_refunded_total_for_invoice 60 ?d = 80"
    by (simp add: get_refunded_total_for_invoice_def invoice_payments_in_def billed_simps)
  then show ?thesis
    using refunded_invoice_overcharged [of "payment_args ''160'' ''key-2''" ?d "sample_invoice None" 160 sample_env "''stub''"]
    by (simp add: billed_simps sample_amounts numeric_12_2_def two_places_def)
qed

text \<open>C20: Amounts survive the conversion to the provider's minor units and back: always from minor units, and
  from decimal amounts of two places unless the currency is treated as one without minor units,
  where the fraction is cut off.\<close>

theorem stripe_amount_roundtrip:
  "amount_to_stripe (amount_from_stripe n c) c = n \<and>
   (two_places a \<longrightarrow> lower c \<notin> set zero_decimal_currencies \<longrightarrow> amount_from_stripe (amount_to_stripe a c) c = a) \<and>
   (lower c \<in> set zero_decimal_currencies \<longrightarrow> amount_from_stripe (amount_to_stripe a c) c = of_int (truncate_rat a))"
proof -
  have t: "truncate_rat (of_int m) = m" for m by (simp add: truncate_rat_def)
  have "amount_from_stripe (amount_to_stripe a c) c = a"
    if tp: "two_places a" and dec: "lower c \<notin> set zero_decimal_currencies"
  proof -
    obtain m :: int where a: "a * 100 = of_int m" using tp by (auto simp: two_places_iff)
    then have "a = of_int m / 100" by simp
    then show ?thesis using dec a by (simp add: amount_from_stripe_def amount_to_stripe_def t)
  qed
  then show ?thesis by (auto simp: amount_from_stripe_def amount_to_stripe_def t)
qed

theorem stripe_amount_roundtrip_witness:
  "two_places (1999 / 100) \<and> amount_from_stripe (amount_to_stripe (1999 / 100) ''GBP'') ''GBP'' = 1999 / 100 \<and>
   amount_from_stripe (amount_to_stripe (1999 / 100) ''JPY'') ''JPY'' = 19"
proof -
  have c: "lower ''GBP'' \<notin> set zero_decimal_currencies" "lower ''JPY'' \<in> set zero_decimal_currencies" by code_simp+
  have t: "two_places (1999 / 100)" "truncate_rat (1999 / 100) = 19"
    by (simp_all add: two_places_def truncate_rat_def)
  show ?thesis
    using stripe_amount_roundtrip [of 0 "''GBP''" "1999 / 100"] stripe_amount_roundtrip [of 0 "''JPY''" "1999 / 100"] c t by simp
qed

text \<open>Every part payment of an invoice asks the provider for the platform fee of the whole invoice: two
  part payments of whatever size carry the same application fee, each the invoice's full fee.\<close>

theorem each_part_payment_carries_whole_fee:
  assumes "create_payment ev1 b c a1 ''stripe'' d1 = Inr (p1, e1)" and "create_payment ev2 b c a2 ''stripe'' d2 = Inr (p2, e2)"
    and "get_by_idempotency_key (pa_idempotency_key a1) d1 = Inr None" and "get_by_idempotency_key (pa_idempotency_key a2) d2 = Inr None"
    and "find_invoice (pa_invoice_id a1) d1 = Some iv" and "find_invoice (pa_invoice_id a2) d2 = Some iv"
    and "inv_fee_evidence iv = Some f" and "fr_platform_fee f > 0"
  shows "application_fee biz (pay_fee_evidence p1) (pay_amount p1) (pay_currency p1) =
      Some (amount_to_stripe (fr_platform_fee f) (inv_currency iv)) \<and>
    application_fee biz (pay_fee_evidence p2) (pay_amount p2) (pay_currency p2) =
      application_fee biz (pay_fee_evidence p1) (pay_amount p1) (pay_currency p1)"
proof -
  have "pay_fee_evidence p1 = Some f \<and> pay_currency p1 = inv_currency iv"
    using assms(1,3) by (rule create_payment_Inr) (use assms(5,7) in \<open>auto simp: new_payment_def\<close>)
  moreover have "pay_fee_evidence p2 = Some f \<and> pay_currency p2 = inv_currency iv"
    using assms(2,4) by (rule create_payment_Inr) (use assms(6,7) in \<open>auto simp: new_payment_def\<close>)
  ultimately show ?thesis using assms(8) by (simp add: application_fee_def)
qed

definition sample_fee :: FeeResult where
  "sample_fee =
     \<lparr>fr_customer_amount = 80, fr_platform_fee = 8, fr_fee_type = ''percentage'', fr_percentage_applied = 10,
      fr_fixed_applied = 0, fr_business_proceeds = 72, fr_currency = ''GBP'', fr_policy_id = 1,
      fr_policy_name = ''Default'', fr_policy_scope = ''global_default'', fr_policy_version = 1,
      fr_effective_from = 0, fr_effective_until = None, fr_disclosure = None\<rparr>"

theorem each_part_payment_carries_whole_fee_witness:
  "\<exists>p1 e1 p2 e2. create_payment sample_env 1 2 (payment_args ''40'' ''key-2'') ''stripe'' (billed_db (Some sample_fee) []) = Inr (p1, e1) \<and>
     create_payment sample_env 1 2 (payment_args ''40'' ''key-3'') ''stripe'' (billed_db (Some sample_fee) []) = Inr (p2, e2) \<and>
     application_fee sample_business (pay_fee_evidence p2) (pay_amount p2) (pay_currency p2) = Some 800"
proof -
  let ?d = "billed_db (Some sample_fee) []"
  obtain p1 e1 where r1: "create_payment sample_env 1 2 (payment_args ''40'' ''key-2'') ''stripe'' ?d = Inr (p1, e1)"
    "get_by_idempotency_key ''key-2'' ?d = Inr None"
    using create_sample_payment [of "[]" "''key-2''" sample_env "''stripe''" "Some sample_fee"] by auto
  obtain p2 e2 where r2: "create_payment sample_env 1 2 (payment_args ''40'' ''key-3'') ''stripe'' ?d = Inr (p2, e2)"
    "get_by_idempotency_key ''key-3'' ?d = Inr None"
    using create_sample_payment [of "[]" "''key-3''" sample_env "''stripe''" "Some sample_fee"] by auto
  have "amount_to_stripe 8 ''GBP'' = 800" by code_simp
  then show ?thesis
    using each_part_payment_carries_whole_fee [OF r1(1) r2(1), of "sample_invoice (Some sample_fee)" sample_fee sample_business] r1 r2
    by (auto simp: billed_simps sample_fee_def)
qed



end
