(* ===== verification/Stripe_Reconciliation.thy ===== *)
theory Stripe_Reconciliation
  imports Payments
begin

text \<open>
  Webhooks of the payment provider: the parser of src/backend/app/adapters/payment/stripe_provider.py,
  the endpoint of src/backend/app/api/v1/payments.py and the reconciliation service of
  src/backend/app/domain/payment/stripe_reconciliation.py.

  A handler that raises keeps the attributes it has set so far: \<open>reconcile\<close> catches the exception
  and flushes them with its error event.  A handler's result is therefore the database it leaves
  together with its event or its exception.  Only an exception of the flush itself makes the
  session unusable, so that the request fails as a whole.
\<close>

section \<open>Events\<close>

record WebhookEvent =
  we_type :: string
  we_id :: string
  we_reference :: json
  we_amount :: "money option"
  we_raw :: json_obj

text \<open>\<open>payload.get("data", {}).get("object", {})\<close>, and the members read from it.\<close>

definition data_object :: "json_obj \<Rightarrow> err + json_obj" where
  "data_object raw =
     bindE (as_object (dget raw ''data'' (JObj []))) (\<lambda>data. as_object (dget data ''object'' (JObj [])))"

text \<open>\<open>datetime.fromtimestamp\<close> of the creation time, when there is one.\<close>

definition created_ok :: "json_obj \<Rightarrow> bool" where
  "created_ok obj \<longleftrightarrow> \<not> truthy (dget_none obj ''created'') \<or> num_value (dget_none obj ''created'') \<noteq> None"

subsection \<open>The parser\<close>

definition stripe_amount :: "json_obj \<Rightarrow> err + money option" where
  "stripe_amount obj =
     (case map_of obj ''amount'' of
        None \<Rightarrow> Inr None
      | Some a \<Rightarrow>
          bindE (as_text (dget obj ''currency'' (JStr ''gbp''))) (\<lambda>c.
          bindE (requireE InvalidOperation (to_decimal a)) (\<lambda>x.
          Inr (Some (if lower c \<in> set zero_decimal_currencies then x else x / 100)))))"

definition charge_of :: "json_obj \<Rightarrow> json_obj" where
  "charge_of obj = (case dget obj ''charge'' (JObj []) of JObj c \<Rightarrow> c | _ \<Rightarrow> [])"

definition parse_webhook_event :: "json_obj \<Rightarrow> err + WebhookEvent" where
  "parse_webhook_event payload =
     bindE (as_text (dget payload ''type'' (JStr []))) (\<lambda>ty.
     bindE (as_text (dget payload ''id'' (JStr []))) (\<lambda>i.
     bindE (data_object payload) (\<lambda>obj.
     let event = (\<lambda>ref amount. \<lparr>we_type = ty, we_id = i, we_reference = ref, we_amount = amount, we_raw = payload\<rparr>) in
     if py_prefix ''payment_intent.'' ty then
       bindE (stripe_amount obj) (\<lambda>a. Inr (event (dget obj ''id'' (JStr [])) a))
     else if py_prefix ''charge.dispute.'' ty then
       bindE (stripe_amount obj) (\<lambda>a. Inr (event (dget (charge_of obj) ''payment_intent'' (JStr [])) a))
     else if py_prefix ''charge.'' ty then
       bindE (stripe_amount obj) (\<lambda>a. Inr (event (dget obj ''payment_intent'' (JStr [])) a))
     else Inr (event (JStr []) None))))"

section \<open>Records of events\<close>

definition HANDLED_EVENT_TYPES :: "string list" where
  "HANDLED_EVENT_TYPES =
     [''payment_intent.succeeded'', ''payment_intent.payment_failed'', ''payment_intent.canceled'',
      ''payment_intent.requires_action'', ''payment_intent.processing'', ''payment_intent.amount_capturable_updated'',
      ''charge.refund.updated'', ''charge.refunded'', ''charge.dispute.created'', ''charge.dispute.updated'',
      ''charge.dispute.closed'', ''charge.dispute.funds_reinstated'', ''charge.dispute.funds_withdrawn'']"

text \<open>The reference is a column of text: it is stored, and looked up, when it is a non-empty text.\<close>

definition reference_text :: "WebhookEvent \<Rightarrow> string option" where
  "reference_text event = (case we_reference event of JStr s \<Rightarrow> truthy_str (Some s) | _ \<Rightarrow> None)"

definition reference_ok :: "WebhookEvent \<Rightarrow> bool" where
  "reference_ok event \<longleftrightarrow> (case we_reference event of JStr s \<Rightarrow> True | v \<Rightarrow> \<not> truthy v)"

definition create_stripe_event ::
  "WebhookEvent \<Rightarrow> json_obj \<Rightarrow> string \<Rightarrow> Payment option \<Rightarrow> string option \<Rightarrow> uuid \<Rightarrow> StripeEvent" where
  "create_stripe_event event obj status payment msg i =
     \<lparr>se_id = i, se_stripe_event_id = we_id event, se_event_type = we_type event,
      se_payment_intent_id = reference_text event,
      se_stripe_account_id = first_truthy (dget_none obj ''on_behalf_of'') (dget_none obj ''account'') JNull,
      se_business_id = map_option pay_business_id payment, se_payment_id = map_option pay_id payment,
      se_status = status, se_error_message = msg, se_raw_payload = we_raw event, se_deleted = False\<rparr>"

definition get_event_by_stripe_id :: "string \<Rightarrow> db \<Rightarrow> err + StripeEvent option" where
  "get_event_by_stripe_id i d =
     scalar_one_or_none (filter (\<lambda>e. se_stripe_event_id e = i \<and> \<not> se_deleted e) (t_stripe_events d))"

definition record_event :: "StripeEvent \<Rightarrow> db \<Rightarrow> err + StripeEvent \<times> db" where
  "record_event e d = Inr (e, used_id (add_stripe_event e d))"

section \<open>Payment and tenant of an event\<close>

definition find_payment_by_metadata :: "json_obj \<Rightarrow> db \<Rightarrow> err + Payment option" where
  "find_payment_by_metadata obj d =
     bindE (as_object (dget obj ''metadata'' (JObj []))) (\<lambda>metadata.
     let i = dget_none metadata ''payment_id'' in
     if truthy i
     then bindE (as_text i) (\<lambda>s. Inr (case uuid_of_str s of None \<Rightarrow> None | Some pid \<Rightarrow> find_payment pid d))
     else Inr None)"

definition business_account :: "Payment \<Rightarrow> db \<Rightarrow> string option" where
  "business_account p d =
     (case find_business (pay_business_id p) d of None \<Rightarrow> None | Some b \<Rightarrow> truthy_str (biz_stripe_account_id b))"

text \<open>An event that names no account passes, whatever account the business has.\<close>

definition verify_tenant_isolation :: "Payment \<Rightarrow> json_obj \<Rightarrow> db \<Rightarrow> bool" where
  "verify_tenant_isolation p obj d =
     (let account = first_truthy (dget_none obj ''on_behalf_of'') (dget_none obj ''account'') (JStr [])
      in if \<not> truthy account then True
         else case business_account p d of None \<Rightarrow> False | Some acct \<Rightarrow> account = JStr acct)"

section \<open>Handlers\<close>

text \<open>A handler's database and its event or exception.\<close>

type_synonym handled = "db \<times> (err + StripeEvent)"

definition processed :: "WebhookEvent \<Rightarrow> json_obj \<Rightarrow> Payment \<Rightarrow> string option \<Rightarrow> db \<Rightarrow> handled" where
  "processed event obj p msg d = (d, Inr (create_stripe_event event obj ''processed'' (Some p) msg (fresh_id d)))"

definition rejected :: "WebhookEvent \<Rightarrow> json_obj \<Rightarrow> Payment \<Rightarrow> string \<Rightarrow> db \<Rightarrow> handled" where
  "rejected event obj p msg d = (d, Inr (create_stripe_event event obj ''error'' (Some p) (Some msg) (fresh_id d)))"

definition then_emit ::
  "env \<Rightarrow> Payment \<Rightarrow> string \<Rightarrow> payload \<Rightarrow> (db \<Rightarrow> handled) \<Rightarrow> db \<Rightarrow> handled" where
  "then_emit ev p ety pl k d =
     (case emit_stripe_event ev (pay_business_id p) ety (pay_id p) pl d of Inl e \<Rightarrow> (d, Inl e) | Inr d' \<Rightarrow> k d')"

definition stripe_payload :: "WebhookEvent \<Rightarrow> Payment \<Rightarrow> (string \<times> pval) list \<Rightarrow> string \<times> string \<Rightarrow> payload" where
  "stripe_payload event p extra note =
     payment_payload p (extra @ [(''stripe_event_id'', PStr (we_id event))]) note"

subsection \<open>Payment intents\<close>

definition apply_payment_success :: "env \<Rightarrow> WebhookEvent \<Rightarrow> json_obj \<Rightarrow> Payment \<Rightarrow> db \<Rightarrow> handled" where
  "apply_payment_success ev event obj p d =
     (if pay_status p = Pay_SUCCEEDED then processed event obj p (Some ''Payment already succeeded (idempotent)'') d
      else if Pay_SUCCEEDED \<notin> PAYMENT_TRANSITIONS (pay_status p)
      then rejected event obj p (''Invalid transition '' @ PaymentStatus_value (pay_status p) @ '' -> succeeded'') d
      else
        (let p' = p\<lparr>pay_status := Pay_SUCCEEDED, pay_paid_at := Some (env_now ev),
                    pay_provider_evidence := Some (we_raw event)\<rparr>
         in then_emit ev p' ''PAYMENT_SUCCEEDED''
              (stripe_payload event p' [(''amount'', PMoney (pay_amount p)), (''currency'', PStr (pay_currency p)),
                 (''status'', PStr (PaymentStatus_value Pay_SUCCEEDED))]
                (''Payment received'', ''Payment of '' @ pay_currency p @ '' '' @ money_str (pay_amount p) @ '' received successfully.''))
              (processed event obj p' None)
              (update_invoice_payment_status p' (put_payment (stored p') d))))"

definition failure_message :: "json \<Rightarrow> json \<Rightarrow> err + json" where
  "failure_message last_error old =
     (if \<not> truthy last_error then Inr old
      else bindE (as_object last_error) (\<lambda>m.
        Inr (first_truthy (dget_none m ''message'') (dget_none m ''decline_code'') (JStr ''Payment failed''))))"

definition apply_payment_failed :: "env \<Rightarrow> WebhookEvent \<Rightarrow> json_obj \<Rightarrow> Payment \<Rightarrow> db \<Rightarrow> handled" where
  "apply_payment_failed ev event obj p d =
     (if pay_status p = Pay_FAILED then processed event obj p (Some ''Payment already failed (idempotent)'') d
      else if Pay_FAILED \<notin> PAYMENT_TRANSITIONS (pay_status p)
      then rejected event obj p (''Invalid transition '' @ PaymentStatus_value (pay_status p) @ '' -> failed'') d
      else
        (let p1 = p\<lparr>pay_status := Pay_FAILED, pay_failure_code := Some ''stripe_payment_failed'',
                    pay_provider_evidence := Some (we_raw event)\<rparr>
         in case failure_message (dget obj ''last_payment_error'' (JObj [])) (pay_failure_message p) of
              Inl e \<Rightarrow> (put_payment (stored p1) d, Inl e)
            | Inr m \<Rightarrow>
                (let p' = p1\<lparr>pay_failure_message := m\<rparr>
                 in then_emit ev p' ''PAYMENT_FAILED''
                      (stripe_payload event p' [(''amount'', PMoney (pay_amount p)), (''currency'', PStr (pay_currency p)),
                         (''status'', PStr (PaymentStatus_value Pay_FAILED)), (''error'', PJson m)]
                        (''Payment failed'', ''Payment of '' @ pay_currency p @ '' '' @ money_str (pay_amount p) @ '' failed: '' @
                           py_str (if truthy m then m else JStr ''Unknown error'')))
                      (processed event obj p' None) (put_payment (stored p') d))))"

definition apply_payment_cancelled :: "WebhookEvent \<Rightarrow> json_obj \<Rightarrow> Payment \<Rightarrow> db \<Rightarrow> handled" where
  "apply_payment_cancelled event obj p d =
     (if pay_status p = Pay_CANCELLED then processed event obj p (Some ''Payment already cancelled (idempotent)'') d
      else if Pay_CANCELLED \<notin> PAYMENT_TRANSITIONS (pay_status p)
      then rejected event obj p (''Invalid transition '' @ PaymentStatus_value (pay_status p) @ '' -> cancelled'') d
      else
        (let p' = p\<lparr>pay_status := Pay_CANCELLED, pay_provider_evidence := Some (we_raw event)\<rparr>
         in processed event obj p' None (put_payment (stored p') d)))"

definition apply_intermediate :: "WebhookEvent \<Rightarrow> json_obj \<Rightarrow> Payment \<Rightarrow> db \<Rightarrow> handled" where
  "apply_intermediate event obj p d =
     (if pay_status p \<in> {Pay_SUCCEEDED, Pay_FAILED, Pay_EXPIRED, Pay_CANCELLED, Pay_REFUNDED}
      then processed event obj p (Some (''Ignored intermediate event '' @ we_type event @ '' for payment in status '' @
             PaymentStatus_value (pay_status p))) d
      else
        (let p' = p\<lparr>pay_provider_evidence := Some (we_raw event)\<rparr>
         in processed event obj p' None (put_payment (stored p') d)))"

definition handle_payment_intent :: "env \<Rightarrow> WebhookEvent \<Rightarrow> json_obj \<Rightarrow> Payment \<Rightarrow> db \<Rightarrow> handled" where
  "handle_payment_intent ev event obj p d =
     (if we_type event = ''payment_intent.succeeded'' then apply_payment_success ev event obj p d
      else if we_type event = ''payment_intent.payment_failed'' then apply_payment_failed ev event obj p d
      else if we_type event = ''payment_intent.canceled'' then apply_payment_cancelled event obj p d
      else apply_intermediate event obj p d)"

subsection \<open>Refunds\<close>

text \<open>The total that the charge reports as refunded; zero when it reports none.\<close>

definition total_refunded :: "json_obj \<Rightarrow> Payment \<Rightarrow> err + money" where
  "total_refunded obj p =
     bindE (as_text (dget obj ''currency'' (JStr (pay_currency p)))) (\<lambda>c.
     bindE (requireE InvalidOperation (to_decimal (dget obj ''amount_refunded'' (JInt 0)))) (\<lambda>x.
     Inr (if lower c \<in> set zero_decimal_currencies then x else x / 100)))"

definition handle_refund :: "env \<Rightarrow> WebhookEvent \<Rightarrow> json_obj \<Rightarrow> Payment \<Rightarrow> db \<Rightarrow> handled" where
  "handle_refund ev event obj p d =
     (if pay_status p \<notin> {Pay_SUCCEEDED, Pay_PARTIALLY_REFUNDED}
      then rejected event obj p (''Refund event for payment in status '' @ PaymentStatus_value (pay_status p)) d
      else case total_refunded obj p of
        Inl e \<Rightarrow> (d, Inl e)
      | Inr refunded \<Rightarrow>
          (let p1 = p\<lparr>pay_refunded_amount := round_places 2 refunded, pay_refunded_at := Some (env_now ev),
                      pay_provider_evidence := Some (we_raw event)\<rparr>;
               target = (if refunded \<ge> pay_amount p then Pay_REFUNDED else Pay_PARTIALLY_REFUNDED) in
           if target \<notin> PAYMENT_TRANSITIONS (pay_status p)
           then rejected event obj p (''Invalid transition '' @ PaymentStatus_value (pay_status p) @ '' -> '' @
                  PaymentStatus_value target) (put_payment (stored p1) d)
           else
             (let p' = p1\<lparr>pay_status := target\<rparr>
              in then_emit ev p' ''PAYMENT_REFUNDED''
                   (stripe_payload event p' [(''refund_amount'', PMoney refunded), (''currency'', PStr (pay_currency p)),
                      (''status'', PStr (PaymentStatus_value target))]
                     (''Refund processed'', ''Refund of '' @ pay_currency p @ '' '' @ money_str refunded @ '' has been processed.''))
                   (processed event obj p' None)
                   (update_invoice_payment_status p' (put_payment (stored p') d)))))"

subsection \<open>Disputes\<close>

definition open_dispute :: "env \<Rightarrow> WebhookEvent \<Rightarrow> json_obj \<Rightarrow> Payment \<Rightarrow> db \<Rightarrow> handled" where
  "open_dispute ev event obj p d =
     (if pay_status p \<notin> {Pay_SUCCEEDED, Pay_PARTIALLY_REFUNDED}
      then rejected event obj p (''Dispute created for payment in status '' @ PaymentStatus_value (pay_status p)) d
      else
        (let reason = dget obj ''reason'' (JStr []);
             p' = p\<lparr>pay_status := Pay_DISPUTED, pay_dispute_id := dget obj ''id'' (JStr []),
                    pay_dispute_reason := reason, pay_dispute_status := dget obj ''status'' (JStr []),
                    pay_dispute_created_at := Some (env_now ev), pay_dispute_evidence := Some obj,
                    pay_provider_evidence := Some (we_raw event)\<rparr>
         in then_emit ev p' ''PAYMENT_DISPUTED''
              [(''payment_id'', PUuid (pay_id p)), (''invoice_id'', puuid_opt (pay_invoice_id p)),
               (''dispute_id'', PJson (pay_dispute_id p')), (''dispute_reason'', PJson reason),
               (''amount'', PMoney (pay_amount p)), (''currency'', PStr (pay_currency p)),
               (''status'', PStr (PaymentStatus_value Pay_DISPUTED)), (''stripe_event_id'', PStr (we_id event)),
               (''notification_title'', PStr ''Payment disputed''),
               (''notification_body'', PStr (''Payment of '' @ pay_currency p @ '' '' @ money_str (pay_amount p) @
                  '' has been disputed. Reason: '' @ py_str reason))]
              (processed event obj p' None)
              (update_invoice_payment_status p' (put_payment (stored p') d))))"

definition settle_dispute :: "PaymentStatus \<Rightarrow> WebhookEvent \<Rightarrow> json_obj \<Rightarrow> Payment \<Rightarrow> db \<Rightarrow> handled" where
  "settle_dispute target event obj p d =
     (let p' = p\<lparr>pay_status := target, pay_dispute_status := dget obj ''status'' (JStr []),
                 pay_provider_evidence := Some (we_raw event)\<rparr>
      in processed event obj p' None (update_invoice_payment_status p' (put_payment (stored p') d)))"

definition close_dispute :: "WebhookEvent \<Rightarrow> json_obj \<Rightarrow> Payment \<Rightarrow> db \<Rightarrow> handled" where
  "close_dispute event obj p d =
     (let outcome = dget obj ''status'' (JStr []) in
      if outcome \<in> {JStr ''lost'', JStr ''expired''} \<and> pay_status p = Pay_DISPUTED
      then settle_dispute Pay_REFUNDED event obj p d
      else if outcome = JStr ''won'' \<and> pay_status p = Pay_DISPUTED
      then settle_dispute Pay_SUCCEEDED event obj p d
      else processed event obj p None d)"

definition note_dispute :: "WebhookEvent \<Rightarrow> json_obj \<Rightarrow> Payment \<Rightarrow> db \<Rightarrow> handled" where
  "note_dispute event obj p d =
     (let p' = p\<lparr>pay_dispute_evidence := Some obj, pay_dispute_status := dget obj ''status'' (JStr []),
                 pay_provider_evidence := Some (we_raw event)\<rparr>
      in processed event obj p' None (put_payment (stored p') d))"

definition handle_dispute :: "env \<Rightarrow> WebhookEvent \<Rightarrow> json_obj \<Rightarrow> Payment \<Rightarrow> db \<Rightarrow> handled" where
  "handle_dispute ev event obj p d =
     (if we_type event = ''charge.dispute.created'' then open_dispute ev event obj p d
      else if we_type event = ''charge.dispute.closed'' then close_dispute event obj p d
      else note_dispute event obj p d)"

definition route_stripe_event :: "env \<Rightarrow> WebhookEvent \<Rightarrow> json_obj \<Rightarrow> Payment \<Rightarrow> db \<Rightarrow> handled" where
  "route_stripe_event ev event obj p d =
     (if py_prefix ''payment_intent.'' (we_type event) then handle_payment_intent ev event obj p d
      else if py_prefix ''charge.refund'' (we_type event) then handle_refund ev event obj p d
      else handle_dispute ev event obj p d)"

section \<open>Reconciliation\<close>

text \<open>
  The member \<open>data.object\<close> is read by every path after the check for duplicates, at the latest
  when the record of the event is built outside the handlers, so its absence fails the request.
  So does a reference that is neither text nor empty, in its query or in its insertion.
\<close>

definition event_payment :: "WebhookEvent \<Rightarrow> json_obj \<Rightarrow> db \<Rightarrow> err + Payment option" where
  "event_payment event obj d =
     bindE (case reference_text event of None \<Rightarrow> Inr None | Some ref \<Rightarrow> get_by_provider_reference ref d) (\<lambda>p.
     if p = None \<and> we_raw event \<noteq> [] then find_payment_by_metadata obj d else Inr p)"

definition session_broken :: "err \<Rightarrow> bool" where
  "session_broken e \<longleftrightarrow> (case e of IntegrityError _ \<Rightarrow> True | DataError _ \<Rightarrow> True | _ \<Rightarrow> False)"

definition err_message :: "err \<Rightarrow> string" where
  "err_message e =
     (case e of AttributeError m \<Rightarrow> m | ValueError m \<Rightarrow> m | StateTransitionError m \<Rightarrow> m | _ \<Rightarrow> [])"

definition reconcile :: "env \<Rightarrow> WebhookEvent \<Rightarrow> db \<Rightarrow> err + StripeEvent \<times> db" where
  "reconcile ev event d =
     bindE (get_event_by_stripe_id (we_id event) d) (\<lambda>existing.
     case existing of
       Some e \<Rightarrow>
         (let e' = e\<lparr>se_status := ''duplicate''\<rparr>
          in Inr (e', d\<lparr>t_stripe_events := upd_row se_id (se_id e) (\<lambda>_. e') (t_stripe_events d)\<rparr>))
     | None \<Rightarrow>
         bindE (data_object (we_raw event)) (\<lambda>obj.
         bindE (guardE (created_ok obj) (ValueError ''created'')) (\<lambda>_.
         bindE (guardE (reference_ok event) (DataError ''payment_intent_id'')) (\<lambda>_.
         if we_type event \<notin> set HANDLED_EVENT_TYPES
         then record_event (create_stripe_event event obj ''ignored'' None
                (Some (''Event type '' @ we_type event @ '' is not handled'')) (fresh_id d)) d
         else
           bindE (event_payment event obj d) (\<lambda>payment.
           case payment of
             None \<Rightarrow>
               record_event (create_stripe_event event obj ''unknown_payment'' None
                 (Some (''No FIELDed payment found for provider_reference='' @ py_str (we_reference event))) (fresh_id d)) d
           | Some p \<Rightarrow>
               if \<not> verify_tenant_isolation p obj d
               then record_event (create_stripe_event event obj ''tenant_mismatch'' (Some p)
                      (Some (''Stripe account mismatch for payment '' @ nat_str (pay_id p))) (fresh_id d)) d
               else
                 (case route_stripe_event ev event obj p d of
                    (d', Inr e) \<Rightarrow> Inr (e, d')
                  | (d', Inl e) \<Rightarrow>
                      if session_broken e then Inl e
                      else record_event (create_stripe_event event obj ''error'' (Some p) (Some (err_message e)) (fresh_id d')) d'))))))"

section \<open>The endpoint\<close>

text \<open>
  The status of the response and, when the event was reconciled, its record.  The answer of the
  provider's signature check is an argument; without a configured secret nothing is checked.
\<close>

definition payment_webhook ::
  "env \<Rightarrow> string \<Rightarrow> string \<Rightarrow> bool \<Rightarrow> json_obj option \<Rightarrow> db \<Rightarrow> err + (nat \<times> StripeEvent option) \<times> db" where
  "payment_webhook ev secret signature valid body d =
     (case body of
        None \<Rightarrow> Inr ((400, None), d)
      | Some payload \<Rightarrow>
          if secret \<noteq> [] \<and> (signature = [] \<or> \<not> valid) then Inr ((401, None), d)
          else (case parse_webhook_event payload of
             Inl e \<Rightarrow> Inr ((400, None), d)
           | Inr event \<Rightarrow>
               bindE (reconcile ev event d) (\<lambda>(e, d'). Inr ((200, Some e), d'))))"

section \<open>Lemmas\<close>

text \<open>What the handlers leave alone.\<close>

definition payment_frame :: "db \<Rightarrow> db \<Rightarrow> bool" where
  "payment_frame d d' \<longleftrightarrow>
     t_stripe_events d' = t_stripe_events d \<and> t_businesses d' = t_businesses d \<and> t_enquiries d' = t_enquiries d \<and>
     t_quotes d' = t_quotes d \<and> t_bookings d' = t_bookings d \<and> t_executions d' = t_executions d \<and>
     t_line_items d' = t_line_items d \<and> t_reviews d' = t_reviews d"

lemma payment_frame_simps [simp]:
  "payment_frame d d" "payment_frame d (put_payment p d') = payment_frame d d'"
  "payment_frame d (update_invoice_payment_status p d') = payment_frame d d'"
  by (simp_all add: payment_frame_def put_payment_def update_invoice_payment_status_def put_invoice_def
      sync_ledger_def Let_def split: option.split)

text \<open>
  A handler leaves the frame alone, and the event it returns is that of the event at hand.  The
  rules follow the handlers' control flow, so that nothing of their texts has to be looked at.
\<close>

definition handled_ok :: "db \<Rightarrow> WebhookEvent \<Rightarrow> handled \<Rightarrow> bool" where
  "handled_ok d event h \<longleftrightarrow> payment_frame d (fst h) \<and>
     (\<forall>e. snd h = Inr e \<longrightarrow> se_stripe_event_id e = we_id event \<and> se_status e \<in> {''processed'', ''error''})"

lemma ok_processed: "payment_frame d d' \<Longrightarrow> handled_ok d event (processed event obj p msg d')"
  by (simp add: handled_ok_def processed_def create_stripe_event_def)

lemma ok_rejected: "payment_frame d d' \<Longrightarrow> handled_ok d event (rejected event obj p msg d')"
  by (simp add: handled_ok_def rejected_def create_stripe_event_def)

lemma ok_raised: "payment_frame d d' \<Longrightarrow> handled_ok d event (d', Inl e)"
  by (simp add: handled_ok_def)

lemma ok_then_emit:
  assumes "payment_frame d0 d" "\<And>d'. payment_frame d0 d' \<Longrightarrow> handled_ok d0 event (k d')"
  shows "handled_ok d0 event (then_emit ev p ety pl k d)"
proof (cases "emit_stripe_event ev (pay_business_id p) ety (pay_id p) pl d")
  case (Inr d')
  then have "payment_frame d0 d'"
    using assms(1) by (auto simp: emit_stripe_event_def emit_Inr_iff used_id_def payment_frame_def)
  then show ?thesis using Inr assms(2) by (simp add: then_emit_def)
qed (use assms(1) in \<open>simp add: then_emit_def handled_ok_def\<close>)

lemma then_emit_payments:
  assumes "then_emit ev p ety pl (processed event obj q msg) d = (d', Inr e)"
  shows "t_payments d' = t_payments d"
  using assms by (auto simp: then_emit_def processed_def emit_stripe_event_def emit_Inr_iff used_id_def split: sum.splits)

lemma ok_if: "(c \<Longrightarrow> handled_ok d event a) \<Longrightarrow> (\<not> c \<Longrightarrow> handled_ok d event b) \<Longrightarrow> handled_ok d event (if c then a else b)"
  by simp

lemma ok_case:
  "(\<And>e. handled_ok d event (f e)) \<Longrightarrow> (\<And>x. handled_ok d event (g x)) \<Longrightarrow>
   handled_ok d event (case r of Inl e \<Rightarrow> f e | Inr x \<Rightarrow> g x)"
  by (cases r) simp_all

lemmas ok_rules = ok_if ok_case ok_then_emit ok_processed ok_rejected ok_raised

lemma handlers_ok:
  "handled_ok d event (apply_payment_success ev event obj p d)" "handled_ok d event (apply_payment_failed ev event obj p d)"
  "handled_ok d event (apply_payment_cancelled event obj p d)" "handled_ok d event (apply_intermediate event obj p d)"
  "handled_ok d event (handle_refund ev event obj p d)" "handled_ok d event (open_dispute ev event obj p d)"
  "handled_ok d event (settle_dispute t event obj p d)" "handled_ok d event (note_dispute event obj p d)"
  unfolding apply_payment_success_def apply_payment_failed_def apply_payment_cancelled_def apply_intermediate_def
    handle_refund_def open_dispute_def settle_dispute_def note_dispute_def Let_def
  by (intro ok_rules; simp)+

lemma route_ok: "handled_ok d event (route_stripe_event ev event obj p d)"
  unfolding route_stripe_event_def handle_payment_intent_def handle_dispute_def close_dispute_def Let_def
  by (intro ok_if handlers_ok ok_processed) simp

text \<open>The reported amount is read nowhere.\<close>

lemma we_fields:
  "we_type (event\<lparr>we_amount := x\<rparr>) = we_type event" "we_id (event\<lparr>we_amount := x\<rparr>) = we_id event"
  "we_reference (event\<lparr>we_amount := x\<rparr>) = we_reference event" "we_raw (event\<lparr>we_amount := x\<rparr>) = we_raw event"
  by simp_all

lemma same_event_records:
  "create_stripe_event (event\<lparr>we_amount := x\<rparr>) = create_stripe_event event"
  "reference_text (event\<lparr>we_amount := x\<rparr>) = reference_text event"
  "reference_ok (event\<lparr>we_amount := x\<rparr>) = reference_ok event"
  "event_payment (event\<lparr>we_amount := x\<rparr>) = event_payment event"
  "stripe_payload (event\<lparr>we_amount := x\<rparr>) = stripe_payload event"
  by (simp_all add: fun_eq_iff create_stripe_event_def event_payment_def stripe_payload_def
      reference_text_def reference_ok_def)

lemma same_event_results:
  "processed (event\<lparr>we_amount := x\<rparr>) = processed event" "rejected (event\<lparr>we_amount := x\<rparr>) = rejected event"
  by (simp_all add: fun_eq_iff processed_def rejected_def same_event_records)

lemma same_event_handlers:
  "apply_payment_success ev (event\<lparr>we_amount := x\<rparr>) = apply_payment_success ev event"
  "apply_payment_failed ev (event\<lparr>we_amount := x\<rparr>) = apply_payment_failed ev event"
  "apply_payment_cancelled (event\<lparr>we_amount := x\<rparr>) = apply_payment_cancelled event"
  "apply_intermediate (event\<lparr>we_amount := x\<rparr>) = apply_intermediate event"
  "handle_refund ev (event\<lparr>we_amount := x\<rparr>) = handle_refund ev event"
  "open_dispute ev (event\<lparr>we_amount := x\<rparr>) = open_dispute ev event"
  "settle_dispute t (event\<lparr>we_amount := x\<rparr>) = settle_dispute t event"
  "note_dispute (event\<lparr>we_amount := x\<rparr>) = note_dispute event"
  unfolding fun_eq_iff apply_payment_success_def apply_payment_failed_def apply_payment_cancelled_def
    apply_intermediate_def handle_refund_def open_dispute_def settle_dispute_def note_dispute_def
    same_event_results same_event_records we_fields
  by blast+

lemma same_event_route: "route_stripe_event ev (event\<lparr>we_amount := x\<rparr>) = route_stripe_event ev event"
  unfolding fun_eq_iff route_stripe_event_def handle_payment_intent_def handle_dispute_def close_dispute_def
    same_event_handlers same_event_results we_fields by blast

lemmas same_event_simps = same_event_records same_event_results same_event_route

text \<open>The cases of a reconciliation.\<close>

lemma reconcile_Inr:
  assumes "reconcile ev event d = Inr (e, d')"
  obtains (duplicate) e0 where "get_event_by_stripe_id (we_id event) d = Inr (Some e0)" "se_status e = ''duplicate''"
      "d' = d\<lparr>t_stripe_events := upd_row se_id (se_id e0) (\<lambda>_. e) (t_stripe_events d)\<rparr>"
  | (recorded) obj where "get_event_by_stripe_id (we_id event) d = Inr None" "data_object (we_raw event) = Inr obj"
      "se_status e \<in> {''ignored'', ''unknown_payment'', ''tenant_mismatch''}" "d' = used_id (add_stripe_event e d)"
  | (routed) obj p where "get_event_by_stripe_id (we_id event) d = Inr None" "data_object (we_raw event) = Inr obj"
      "we_type event \<in> set HANDLED_EVENT_TYPES" "event_payment event obj d = Inr (Some p)"
      "verify_tenant_isolation p obj d" "route_stripe_event ev event obj p d = (d', Inr e)"
  | (failed) obj p d1 x where "get_event_by_stripe_id (we_id event) d = Inr None" "data_object (we_raw event) = Inr obj"
      "event_payment event obj d = Inr (Some p)" "verify_tenant_isolation p obj d"
      "route_stripe_event ev event obj p d = (d1, Inl x)" "se_status e = ''error''" "d' = used_id (add_stripe_event e d1)"
proof -
  obtain existing where ex: "get_event_by_stripe_id (we_id event) d = Inr existing"
    using assms by (auto simp: reconcile_def bindE_Inr_iff)
  show ?thesis
  proof (cases existing)
    case (Some e0)
    then show ?thesis using duplicate assms ex by (auto simp: reconcile_def Let_def)
  next
    case None
    then obtain obj where obj: "data_object (we_raw event) = Inr obj" "created_ok obj" and rok: "reference_ok event"
      using assms ex by (auto simp: reconcile_def bindE_Inr_iff guardE_Inr_iff)
    note simps = rok obj(2)
    note here = assms [unfolded reconcile_def ex None bindE_simps option.case obj(1)]
    show ?thesis
    proof (cases "we_type event \<in> set HANDLED_EVENT_TYPES")
      case False
      then show ?thesis
        using here recorded [OF ex [unfolded None] obj(1)] simps by (auto simp: record_event_def create_stripe_event_def)
    next
      case True
      then obtain q where q: "event_payment event obj d = Inr q"
        using here simps by (auto simp: bindE_Inr_iff)
      show ?thesis
      proof (cases "\<exists>p. q = Some p \<and> verify_tenant_isolation p obj d")
        case False
        then show ?thesis
          using here recorded [OF ex [unfolded None] obj(1)] simps True q
          by (auto simp: record_event_def create_stripe_event_def split: option.splits)
      next
        case ok: True
        then obtain p where p: "q = Some p" "verify_tenant_isolation p obj d" by blast
        obtain d1 r where r: "route_stripe_event ev event obj p d = (d1, r)" by fastforce
        show ?thesis
        proof (cases r)
          case (Inl x)
          then show ?thesis
            using here simps True q p r failed [OF ex [unfolded None] obj(1), of p d1 x]
            by (auto simp: record_event_def create_stripe_event_def split: if_splits)
        next
          case (Inr e1)
          then show ?thesis
            using here simps True q p r routed [OF ex [unfolded None] obj(1), of p] by auto
        qed
      qed
    qed
  qed
qed

text \<open>An invoice with one live payment.\<close>

definition only_payment :: "uuid \<Rightarrow> Payment \<Rightarrow> db \<Rightarrow> bool" where
  "only_payment i p d \<longleftrightarrow>
     filter (\<lambda>q. pay_invoice_id q = Some i \<and> \<not> pay_deleted q) (t_payments d) = [p] \<and> keys_distinct pay_id (t_payments d)"

lemma only_payment_put:
  assumes "only_payment i p d" "pay_id p' = pay_id p" "pay_invoice_id p' = Some i" "\<not> pay_deleted p'"
  shows "only_payment i (stored p') (put_payment (stored p') d)"
proof -
  have one: "filter (\<lambda>q. pay_invoice_id q = Some i \<and> \<not> pay_deleted q) (t_payments d) = [p]"
    and dist: "keys_distinct pay_id (t_payments d)"
    using assms(1) by (simp_all add: only_payment_def)
  have "filter (\<lambda>q. pay_invoice_id q = Some i \<and> \<not> pay_deleted q)
      (upd_row pay_id (pay_id p) (\<lambda>_. stored p') (t_payments d)) = [stored p']"
    by (rule filter_upd_row_single [OF one dist]) (use assms(2-4) in simp_all)
  moreover have "keys_distinct pay_id (upd_row pay_id (pay_id p) (\<lambda>_. stored p') (t_payments d))"
  proof -
    have "map pay_id (upd_row pay_id (pay_id p) (\<lambda>_. stored p') (t_payments d)) = map pay_id (t_payments d)"
      using assms(2) by (auto simp: upd_row_def)
    then show ?thesis using dist by (simp add: keys_distinct_def)
  qed
  ultimately show ?thesis using assms(2) by (simp add: only_payment_def put_payment_def)
qed

lemma only_payment_totals:
  assumes "only_payment i p d"
  shows "get_successful_total_for_invoice i d = (if pay_status p \<in> {Pay_SUCCEEDED, Pay_PARTIALLY_REFUNDED} then pay_amount p else 0)"
    "get_refunded_total_for_invoice i d =
       (if pay_status p \<in> {Pay_SUCCEEDED, Pay_PARTIALLY_REFUNDED, Pay_REFUNDED} then pay_refunded_amount p else 0)"
proof -
  have eq: "invoice_payments_in S i d =
      filter (\<lambda>q. pay_status q \<in> S) (filter (\<lambda>q. pay_invoice_id q = Some i \<and> \<not> pay_deleted q) (t_payments d))" for S
    by (simp add: invoice_payments_in_def conj_ac)
  have one: "filter (\<lambda>q. pay_invoice_id q = Some i \<and> \<not> pay_deleted q) (t_payments d) = [p]"
    using assms by (simp add: only_payment_def)
  have "invoice_payments_in S i d = (if pay_status p \<in> S then [p] else [])" for S
    unfolding eq one by simp
  then show "get_successful_total_for_invoice i d = (if pay_status p \<in> {Pay_SUCCEEDED, Pay_PARTIALLY_REFUNDED} then pay_amount p else 0)"
    "get_refunded_total_for_invoice i d =
       (if pay_status p \<in> {Pay_SUCCEEDED, Pay_PARTIALLY_REFUNDED, Pay_REFUNDED} then pay_refunded_amount p else 0)"
    by (simp_all add: get_successful_total_for_invoice_def get_refunded_total_for_invoice_def)
qed

lemma only_payment_cong: "t_payments d' = t_payments d \<Longrightarrow> only_payment i p d' = only_payment i p d"
  by (simp add: only_payment_def)

definition disputed :: "env \<Rightarrow> WebhookEvent \<Rightarrow> json_obj \<Rightarrow> Payment \<Rightarrow> Payment" where
  "disputed ev event obj p =
     p\<lparr>pay_status := Pay_DISPUTED, pay_dispute_id := dget obj ''id'' (JStr []),
       pay_dispute_reason := dget obj ''reason'' (JStr []), pay_dispute_status := dget obj ''status'' (JStr []),
       pay_dispute_created_at := Some (env_now ev), pay_dispute_evidence := Some obj,
       pay_provider_evidence := Some (we_raw event)\<rparr>"

lemma open_dispute_payments:
  assumes "pay_status p = Pay_SUCCEEDED" "open_dispute ev event obj p d = (d1, Inr e)"
  shows "t_payments d1 = t_payments (put_payment (stored (disputed ev event obj p)) d)"
proof -
  have frame: "t_payments (update_invoice_payment_status q d0) = t_payments d0" for q d0
    by (simp add: update_invoice_payment_status_def put_invoice_def sync_ledger_def Let_def split: option.split)
  have "pay_status p \<in> {Pay_SUCCEEDED, Pay_PARTIALLY_REFUNDED}" using assms(1) by simp
  then show ?thesis
    using assms(2) unfolding open_dispute_def Let_def disputed_def
    by (simp only: not_True_eq_False if_False) (drule then_emit_payments, simp only: frame)
qed

text \<open>Progress, for the runs on concrete records.\<close>

lemma then_emit_progress:
  assumes "(ety, ''payment'', pay_id p) \<notin> set (outbox_keys d)"
  shows "\<exists>d' e. then_emit ev p ety pl (processed event obj q msg) d = (d', Inr e) \<and> t_invoices d' = t_invoices d"
  using assms by (simp add: then_emit_def processed_def emit_stripe_event_def emit_outbox_event_def used_id_def)

lemma open_dispute_progress:
  assumes "pay_status p = Pay_SUCCEEDED" "(''PAYMENT_DISPUTED'', ''payment'', pay_id p) \<notin> set (outbox_keys d)"
  shows "\<exists>d1 e. open_dispute ev event obj p d = (d1, Inr e) \<and>
    t_invoices d1 = t_invoices (update_invoice_payment_status (disputed ev event obj p) (put_payment (stored (disputed ev event obj p)) d))"
proof -
  have keys: "outbox_keys (update_invoice_payment_status q (put_payment r d)) = outbox_keys d" for q r
    by (simp add: outbox_keys_def put_payment_def)
  have "pay_status p \<in> {Pay_SUCCEEDED, Pay_PARTIALLY_REFUNDED}" using assms(1) by simp
  then show ?thesis
    unfolding open_dispute_def Let_def disputed_def
    by (simp only: not_True_eq_False if_False) (rule then_emit_progress, use assms(2) in \<open>simp only: keys, simp\<close>)
qed

lemma update_invoice_found:
  assumes "pay_invoice_id p = Some i" "find_invoice i d = Some iv" "inv_payment_status iv \<noteq> Ips_VOID"
  shows "\<exists>iv'. find_invoice i (update_invoice_payment_status p d) = Some iv' \<and> inv_payment_status iv' \<noteq> Ips_VOID"
proof -
  let ?st = "invoice_status_for (net_paid i d) (get_refunded_total_for_invoice i d) (inv_total iv)"
  have iv: "inv_id iv = i" "\<not> inv_deleted iv" using assms(2) by (auto simp: find_invoice_def dest: live_row_SomeD)
  have "find_invoice i (put_invoice (iv\<lparr>inv_payment_status := ?st\<rparr>) d) = Some (iv\<lparr>inv_payment_status := ?st\<rparr>)"
    using invoice_repo.get_put_same [of "iv\<lparr>inv_payment_status := ?st\<rparr>" d iv] assms(2) iv by simp
  then have "find_invoice i (update_invoice_payment_status p d) = Some (iv\<lparr>inv_payment_status := ?st\<rparr>)"
    using assms iv(1) by (simp add: update_invoice_payment_status_def Let_def sync_ledger_def find_invoice_def)
  moreover have "?st \<noteq> Ips_VOID" by (simp add: invoice_status_for_def)
  ultimately show ?thesis by auto
qed

definition dispute_event :: "string \<Rightarrow> json_obj \<Rightarrow> WebhookEvent" where
  "dispute_event ty obj =
     \<lparr>we_type = ty, we_id = ''evt_1'', we_reference = JStr ''pi_1'', we_amount = None,
      we_raw = [(''data'', JObj [(''object'', JObj obj)])]\<rparr>"

lemma dispute_event_simps [simp]:
  "we_type (dispute_event ty obj) = ty" "we_id (dispute_event ty obj) = ''evt_1''"
  "reference_text (dispute_event ty obj) = Some ''pi_1''" "reference_ok (dispute_event ty obj)" "data_object (we_raw (dispute_event ty obj)) = Inr obj"
  by (simp_all add: dispute_event_def data_object_def reference_text_def reference_ok_def truthy_str_def)

lemma sample_event_payment [simp]:
  "get_event_by_stripe_id ''evt_1'' (billed_db None [sample_payment st r]) = Inr None"
  "event_payment (dispute_event ty obj) obj (billed_db None [sample_payment st r]) = Inr (Some (sample_payment st r))"
  by (simp_all add: get_event_by_stripe_id_def billed_db_def empty_db_def event_payment_def get_by_provider_reference_def
      billed_simps [unfolded billed_db_def empty_db_def])

lemma reconcile_routedI:
  assumes "get_event_by_stripe_id (we_id event) d = Inr None" "data_object (we_raw event) = Inr obj" "created_ok obj"
    and "reference_ok event" "we_type event \<in> set HANDLED_EVENT_TYPES" "event_payment event obj d = Inr (Some p)" "verify_tenant_isolation p obj d"
    and "route_stripe_event ev event obj p d = (d', Inr e)"
  shows "reconcile ev event d = Inr (e, d')"
  using assms by (simp add: reconcile_def guardE_def)

lemma reconcile_mismatchI:
  assumes "get_event_by_stripe_id (we_id event) d = Inr None" "data_object (we_raw event) = Inr obj" "created_ok obj"
    and "reference_ok event" "we_type event \<in> set HANDLED_EVENT_TYPES" "event_payment event obj d = Inr (Some p)" "\<not> verify_tenant_isolation p obj d"
  shows "\<exists>e d'. reconcile ev event d = Inr (e, d')"
  using assms by (simp add: reconcile_def guardE_def record_event_def)

section \<open>Properties\<close>

text \<open>A webhook that has been processed leaves no record of itself: the event that the handler builds is
  never added to the session, so the check for duplicates finds nothing and the next delivery of
  the same event is handled again from the start.\<close>

theorem processed_events_leave_no_record:
  assumes "reconcile ev event d = Inr (e, d')" and "se_status e = ''processed''"
  shows "t_stripe_events d' = t_stripe_events d \<and> get_event_by_stripe_id (we_id event) d' = Inr None \<and>
    se_stripe_event_id e = we_id event"
  using assms(1)
proof (cases rule: reconcile_Inr)
  case (routed obj p)
  have "t_stripe_events d' = t_stripe_events d"
    using route_ok [of d event ev obj p] routed(6) by (simp add: handled_ok_def payment_frame_def)
  moreover have "se_stripe_event_id e = we_id event"
    using route_ok [of d event ev obj p] routed(6) by (simp add: handled_ok_def)
  ultimately show ?thesis using routed(1) by (simp add: get_event_by_stripe_id_def)
qed (use assms(2) in auto)

theorem processed_events_leave_no_record_witness:
  "\<exists>e d'. reconcile sample_env (dispute_event ''payment_intent.canceled'' []) (billed_db None [sample_payment Pay_PENDING 0]) = Inr (e, d') \<and>
     map pay_status (t_payments d') = [Pay_CANCELLED] \<and> get_event_by_stripe_id ''evt_1'' d' = Inr None"
proof -
  let ?ev = "dispute_event ''payment_intent.canceled'' []" and ?p = "sample_payment Pay_PENDING 0"
  let ?d = "billed_db None [?p]"
  obtain e d' where run: "apply_payment_cancelled ?ev [] ?p ?d = (d', Inr e)" "se_status e = ''processed''"
      "map pay_status (t_payments d') = [Pay_CANCELLED]"
    by (simp add: apply_payment_cancelled_def billed_simps processed_def create_stripe_event_def put_payment_def Let_def
        sample_invoice_def)
  have "reconcile sample_env ?ev ?d = Inr (e, d')"
    by (rule reconcile_routedI [where obj = "[]" and p = ?p])
      (use run(1) in \<open>simp_all add: created_ok_def HANDLED_EVENT_TYPES_def verify_tenant_isolation_def dget_none_def
        first_truthy_def route_stripe_event_def handle_payment_intent_def py_prefix_def\<close>)
  then show ?thesis
    using processed_events_leave_no_record [of sample_env ?ev ?d e d'] run by simp
qed



text \<open>The amount that the provider reports never matters: whatever it is, the same event settles the
  payment for its full own amount.\<close>

theorem reported_amount_never_matters:
  "reconcile ev (event\<lparr>we_amount := x\<rparr>) d = reconcile ev event d"
  unfolding reconcile_def by (simp only: we_fields same_event_simps)

text \<open>A dispute turns the invoice of its payment back to unpaid, and losing the dispute leaves it so: the
  payment counts as refunded with nothing refunded, the whole total is outstanding again and may
  be charged a second time.\<close>

theorem lost_dispute_reopens_invoice:
  assumes "only_payment i p d" and "pay_status p = Pay_SUCCEEDED" and "pay_refunded_amount p = 0"
    and "we_type event1 = ''charge.dispute.created''" and "handle_dispute ev1 event1 obj1 p d = (d1, Inr e1)"
    and "only_payment i p1 d1"
    and "we_type event2 = ''charge.dispute.closed''" and "dget obj2 ''status'' (JStr []) = JStr ''lost''"
    and "handle_dispute ev2 event2 obj2 p1 d1 = (d2, Inr e2)"
    and "find_invoice i d2 = Some iv" and "inv_payment_status iv \<noteq> Ips_VOID"
  shows "pay_status p1 = Pay_DISPUTED \<and> inv_payment_status iv = Ips_UNPAID \<and> net_paid i d2 = 0 \<and>
    (\<forall>e\<in>set (t_ledger d2). le_invoice_id e = Some i \<and> \<not> le_deleted e \<longrightarrow> le_payment_status e = Ips_UNPAID)"
proof -
  have p: "pay_invoice_id p = Some i" "\<not> pay_deleted p"
    using arg_cong [OF conjunct1 [OF assms(1) [unfolded only_payment_def]], of set] by auto
  define p' where "p' = disputed ev1 event1 obj1 p"
  have p': "pay_id p' = pay_id p" "pay_invoice_id p' = Some i" "\<not> pay_deleted p'"
      "pay_status p' = Pay_DISPUTED" "pay_refunded_amount p' = 0"
    using p assms(3) by (simp_all add: p'_def disputed_def)
  have "open_dispute ev1 event1 obj1 p d = (d1, Inr e1)" using assms(4,5) by (simp add: handle_dispute_def)
  then have pays: "t_payments d1 = t_payments (put_payment (stored p') d)"
    unfolding p'_def by (rule open_dispute_payments [OF assms(2)])
  have "only_payment i (stored p') d1"
    using only_payment_put [OF assms(1) p'(1-3)] only_payment_cong [OF pays] by simp
  then have p1: "p1 = stored p'" using assms(6) by (simp add: only_payment_def)
  let ?q = "p1\<lparr>pay_status := Pay_REFUNDED, pay_dispute_status := JStr ''lost'', pay_provider_evidence := Some (we_raw event2)\<rparr>"
  have d2: "d2 = update_invoice_payment_status ?q (put_payment (stored ?q) d1)"
    using assms(7-9) p1 p'(4)
    by (simp add: handle_dispute_def close_dispute_def settle_dispute_def processed_def Let_def)
  have "only_payment i (stored ?q) d2"
    using only_payment_put [OF assms(6), of ?q] p1 p'(2,3) by (simp add: only_payment_def d2)
  then have tot: "net_paid i d2 = 0" "get_refunded_total_for_invoice i d2 = 0"
    using p1 p'(5) by (simp_all add: net_paid_def only_payment_totals)
  have "in_sync i d2" unfolding d2 by (rule update_invoice_in_sync) (simp add: p1 p'(2))
  then show ?thesis
    using assms(10,11) tot p1 p'(4) by (auto simp: in_sync_def invoice_status_for_def)
qed

theorem lost_dispute_reopens_invoice_witness:
  "\<exists>d1 e1 p1 d2 e2 iv. handle_dispute sample_env (dispute_event ''charge.dispute.created'' []) [] (sample_payment Pay_SUCCEEDED 0)
       (billed_db None [sample_payment Pay_SUCCEEDED 0]) = (d1, Inr e1) \<and>
     handle_dispute sample_env (dispute_event ''charge.dispute.closed'' []) [(''status'', JStr ''lost'')] p1 d1 = (d2, Inr e2) \<and>
     find_invoice 60 d2 = Some iv \<and> inv_payment_status iv = Ips_UNPAID"
proof -
  let ?p = "sample_payment Pay_SUCCEEDED 0" and ?d = "billed_db None [sample_payment Pay_SUCCEEDED 0]"
  let ?ev1 = "dispute_event ''charge.dispute.created'' []" and ?ev2 = "dispute_event ''charge.dispute.closed'' []"
  let ?lost = "[(''status'', JStr ''lost'')]" and ?q = "disputed sample_env (dispute_event ''charge.dispute.created'' []) [] ?p"
  have q: "pay_id ?q = 70" "pay_invoice_id ?q = Some 60" "\<not> pay_deleted ?q" "pay_status ?q = Pay_DISPUTED"
    by (simp_all add: disputed_def billed_simps)
  have only: "only_payment 60 ?p ?d" by (simp add: only_payment_def billed_simps keys_distinct_def)
  obtain d1 e1 where opened: "open_dispute sample_env ?ev1 [] ?p ?d = (d1, Inr e1)"
      and inv1: "t_invoices d1 = t_invoices (update_invoice_payment_status ?q (put_payment (stored ?q) ?d))"
    using open_dispute_progress [of ?p ?d sample_env ?ev1 "[]"] by (auto simp: billed_simps)
  have one: "only_payment 60 (stored ?q) d1"
    using only_payment_put [OF only, of ?q] q open_dispute_payments [OF _ opened]
    by (simp add: billed_simps only_payment_def)
  have unvoided: "find_invoice 60 (put_payment (stored ?q) ?d) = Some (sample_invoice None)"
    using billed_simps(1) [of None "[?p]"] by (simp add: find_invoice_def put_payment_def)
  obtain iv1 where iv1: "find_invoice 60 d1 = Some iv1" "inv_payment_status iv1 \<noteq> Ips_VOID"
    using update_invoice_found [OF q(2) unvoided] inv1 by (auto simp: find_invoice_def sample_invoice_def)
  let ?r = "stored ?q\<lparr>pay_status := Pay_REFUNDED, pay_dispute_status := JStr ''lost'', pay_provider_evidence := Some (we_raw ?ev2)\<rparr>"
  obtain d2 e2 where close: "handle_dispute sample_env ?ev2 ?lost (stored ?q) d1 = (d2, Inr e2)"
      and d2: "d2 = update_invoice_payment_status ?r (put_payment (stored ?r) d1)"
    using q(4) by (simp add: handle_dispute_def close_dispute_def settle_dispute_def processed_def Let_def)
  have "find_invoice 60 (put_payment (stored ?r) d1) = Some iv1"
    using iv1(1) by (simp add: find_invoice_def put_payment_def)
  then obtain iv where iv: "find_invoice 60 d2 = Some iv" "inv_payment_status iv \<noteq> Ips_VOID"
    using update_invoice_found [of ?r 60 _ iv1] iv1(2) q(2) d2 by auto
  have one1: "handle_dispute sample_env ?ev1 [] ?p ?d = (d1, Inr e1)" using opened by (simp add: handle_dispute_def)
  have "inv_payment_status iv = Ips_UNPAID"
    using lost_dispute_reopens_invoice [OF only _ _ _ one1 one _ _ close iv] by (simp add: billed_simps)
  then show ?thesis using one1 close iv by blast
qed

text \<open>C23: When a secret is configured, a webhook without a valid signature is answered with 401 and changes
  nothing.\<close>

theorem unsigned_webhook_changes_nothing:
  assumes "payment_webhook ev secret signature valid (Some payload) d = Inr ((code, e), d')"
    and "secret \<noteq> []" and "signature = [] \<or> \<not> valid"
  shows "code = 401 \<and> e = None \<and> d' = d"
  using assms by (simp add: payment_webhook_def)

theorem unsigned_webhook_changes_nothing_witness:
  "\<exists>e. payment_webhook sample_env ''whsec'' [] False (Some []) empty_db = Inr ((401, e), empty_db)"
proof -
  have "payment_webhook sample_env ''whsec'' [] False (Some []) empty_db = Inr ((401, None), empty_db)"
    by (simp add: payment_webhook_def)
  then show ?thesis
    using unsigned_webhook_changes_nothing [of sample_env "''whsec''" "[]" False "[]" empty_db 401 None empty_db] by simp
qed

end
