(* ===== verification/Communication_Policy.thy ===== *)
theory Communication_Policy
  imports Data_Model
begin

text \<open>
  The policy that governs outgoing communications
  (src/backend/app/domain/communication/policy.py) over the configuration of channels and purposes
  and the preferences of customers, with the repositories of
  src/backend/app/domain/communication/repository.py that keep these.

  A check's result is the dictionary of the code: its decision, its reason and further members.
  Equal priorities leave the order of the Brain's rules open; here the later row comes later.
\<close>

section \<open>Configuration and preferences\<close>

definition get_channel_config :: "uuid \<Rightarrow> string \<Rightarrow> db \<Rightarrow> err + BusinessCommunicationChannel option" where
  "get_channel_config business_id channel d =
     scalar_one_or_none (filter (\<lambda>c. bcc_business_id c = business_id \<and> bcc_channel c = channel \<and> \<not> bcc_deleted c) (t_channels d))"

definition get_purpose_config :: "uuid \<Rightarrow> string \<Rightarrow> db \<Rightarrow> err + BusinessCommunicationPurpose option" where
  "get_purpose_config business_id purpose d =
     scalar_one_or_none (filter (\<lambda>c. bcp_business_id c = business_id \<and> bcp_purpose c = purpose \<and> \<not> bcp_deleted c) (t_purposes d))"

definition get_preference ::
  "uuid \<Rightarrow> uuid \<Rightarrow> string option \<Rightarrow> string option \<Rightarrow> db \<Rightarrow> err + CustomerCommunicationPreference option" where
  "get_preference customer_id business_id channel purpose d =
     scalar_one_or_none (filter (\<lambda>p. ccp_customer_id p = customer_id \<and> ccp_business_id p = business_id \<and> \<not> ccp_deleted p \<and>
       ccp_channel p = channel \<and> ccp_purpose p = purpose) (t_preferences d))"

definition upsert_channel_config ::
  "BusinessCommunicationChannel \<Rightarrow> db \<Rightarrow> err + BusinessCommunicationChannel \<times> db" where
  "upsert_channel_config config d =
     bindE (get_channel_config (bcc_business_id config) (bcc_channel config) d) (\<lambda>existing.
     Inr (case existing of
       Some e \<Rightarrow>
         (let e' = e\<lparr>bcc_enabled := bcc_enabled config,
                    bcc_provider_ref := (if bcc_provider_ref config = None then bcc_provider_ref e else bcc_provider_ref config),
                    bcc_settings := (if bcc_settings config = JNull then bcc_settings e else bcc_settings config)\<rparr>
          in (e', d\<lparr>t_channels := upd_row bcc_id (bcc_id e) (\<lambda>_. e') (t_channels d)\<rparr>))
     | None \<Rightarrow> (config, used_id (d\<lparr>t_channels := t_channels d @ [config]\<rparr>))))"

definition upsert_purpose_config ::
  "BusinessCommunicationPurpose \<Rightarrow> db \<Rightarrow> err + BusinessCommunicationPurpose \<times> db" where
  "upsert_purpose_config config d =
     bindE (get_purpose_config (bcp_business_id config) (bcp_purpose config) d) (\<lambda>existing.
     Inr (case existing of
       Some e \<Rightarrow>
         (let e' = e\<lparr>bcp_enabled := bcp_enabled config,
                    bcp_permitted_channels :=
                      (if bcp_permitted_channels config = JNull then bcp_permitted_channels e else bcp_permitted_channels config)\<rparr>
          in (e', d\<lparr>t_purposes := upd_row bcp_id (bcp_id e) (\<lambda>_. e') (t_purposes d)\<rparr>))
     | None \<Rightarrow> (config, used_id (d\<lparr>t_purposes := t_purposes d @ [config]\<rparr>))))"

text \<open>
  A preference that has not been flushed has no defaults yet: the suppression and do-not-contact
  flags of the row that exists stay as they are.
\<close>

definition upsert_preference ::
  "CustomerCommunicationPreference \<Rightarrow> db \<Rightarrow> err + CustomerCommunicationPreference \<times> db" where
  "upsert_preference p d =
     bindE (get_preference (ccp_customer_id p) (ccp_business_id p) (ccp_channel p) (ccp_purpose p) d) (\<lambda>existing.
     Inr (case existing of
       Some e \<Rightarrow>
         (let e' = e\<lparr>ccp_consent_state := ccp_consent_state p, ccp_opt_in := ccp_opt_in p,
                    ccp_source := (if ccp_source p = None then ccp_source e else ccp_source p),
                    ccp_consented_at := (if ccp_consented_at p = None then ccp_consented_at e else ccp_consented_at p)\<rparr>
          in (e', d\<lparr>t_preferences := upd_row ccp_id (ccp_id e) (\<lambda>_. e') (t_preferences d)\<rparr>))
     | None \<Rightarrow> (p, used_id (d\<lparr>t_preferences := t_preferences d @ [p]\<rparr>))))"

definition list_preferences :: "uuid \<Rightarrow> uuid \<Rightarrow> db \<Rightarrow> CustomerCommunicationPreference list" where
  "list_preferences customer_id business_id d =
     filter (\<lambda>p. ccp_customer_id p = customer_id \<and> ccp_business_id p = business_id \<and> \<not> ccp_deleted p) (t_preferences d)"

section \<open>The customer's own settings\<close>

definition upper_opt :: "string option \<Rightarrow> string option" where
  "upper_opt s = (if s = Some [] then None else map_option upper s)"

definition new_preference ::
  "env \<Rightarrow> uuid \<Rightarrow> uuid \<Rightarrow> uuid \<Rightarrow> string option \<Rightarrow> string option \<Rightarrow> bool \<Rightarrow> CustomerCommunicationPreference" where
  "new_preference ev i customer_id business_id channel purpose opt_in =
     \<lparr>ccp_id = i, ccp_customer_id = customer_id, ccp_business_id = business_id, ccp_channel = upper_opt channel,
      ccp_purpose = upper_opt purpose, ccp_consent_state = (if opt_in then ''OPTED_IN'' else ''OPTED_OUT''),
      ccp_opt_in = opt_in, ccp_suppression = False, ccp_suppression_reason = None, ccp_do_not_contact = False,
      ccp_source = Some ''customer_api'', ccp_consented_at = Some (env_now ev), ccp_deleted = False\<rparr>"

definition opt_in :: "env \<Rightarrow> uuid \<Rightarrow> uuid \<Rightarrow> string option \<Rightarrow> string option \<Rightarrow> db \<Rightarrow> err + CustomerCommunicationPreference \<times> db" where
  "opt_in ev user_id business_id channel purpose d =
     upsert_preference (new_preference ev (fresh_id d) user_id business_id channel purpose True) d"

definition opt_out :: "env \<Rightarrow> uuid \<Rightarrow> uuid \<Rightarrow> string option \<Rightarrow> string option \<Rightarrow> db \<Rightarrow> err + CustomerCommunicationPreference \<times> db" where
  "opt_out ev user_id business_id channel purpose d =
     upsert_preference (new_preference ev (fresh_id d) user_id business_id channel purpose False) d"

definition get_suppression_state :: "uuid \<Rightarrow> uuid \<Rightarrow> db \<Rightarrow> bool \<times> bool \<times> nat" where
  "get_suppression_state user_id business_id d =
     (let prefs = list_preferences user_id business_id d
      in (list_ex (\<lambda>p. ccp_suppression p \<or> ccp_do_not_contact p) prefs, list_ex ccp_do_not_contact prefs, length prefs))"

section \<open>Checks\<close>

record check_result =
  ck_decision :: string
  ck_reason :: string
  ck_more :: json_obj

definition check :: "string \<Rightarrow> string \<Rightarrow> json_obj \<Rightarrow> check_result" where
  "check dec reason extra = \<lparr>ck_decision = dec, ck_reason = reason, ck_more = extra\<rparr>"

definition check_dict :: "check_result \<Rightarrow> json_obj" where
  "check_dict c = [(''decision'', JStr (ck_decision c)), (''reason'', JStr (ck_reason c))] @ ck_more c"

definition opt_json :: "string option \<Rightarrow> json" where
  "opt_json s = (case s of None \<Rightarrow> JNull | Some x \<Rightarrow> JStr x)"

text \<open>The first preference of the four levels, the most specific first.\<close>

definition effective_preference ::
  "uuid \<Rightarrow> uuid \<Rightarrow> string \<Rightarrow> string \<Rightarrow> db \<Rightarrow> err + CustomerCommunicationPreference option" where
  "effective_preference customer_id business_id channel purpose d =
     bindE (get_preference customer_id business_id (Some channel) (Some purpose) d) (\<lambda>p1.
     if p1 \<noteq> None then Inr p1 else
     bindE (get_preference customer_id business_id (Some channel) None d) (\<lambda>p2.
     if p2 \<noteq> None then Inr p2 else
     bindE (get_preference customer_id business_id None (Some purpose) d) (\<lambda>p3.
     if p3 \<noteq> None then Inr p3 else
     get_preference customer_id business_id None None d)))"

definition preference_verdict :: "CustomerCommunicationPreference \<Rightarrow> check_result" where
  "preference_verdict p =
     (if ccp_do_not_contact p then
        check ''DENY'' ''Customer has do-not-contact flag'' [(''do_not_contact'', JBool True)]
      else if ccp_suppression p then
        check ''DENY'' (''Customer is suppressed: '' @
            (case ccp_suppression_reason p of None \<Rightarrow> ''no reason'' | Some r \<Rightarrow> if r = [] then ''no reason'' else r))
          [(''suppressed'', JBool True), (''suppression_reason'', opt_json (ccp_suppression_reason p))]
      else if ccp_opt_in p then
        check ''PASS'' ''Customer has opted in'' [(''opt_in'', JBool True), (''consent_state'', JStr (ccp_consent_state p))]
      else
        check ''REQUIRE_APPROVAL'' ''No explicit opt-in consent found'' [(''consent_state'', JStr (ccp_consent_state p))])"

definition check_consent :: "uuid \<Rightarrow> RecipientContext \<Rightarrow> db \<Rightarrow> err + check_result" where
  "check_consent business_id rc d =
     (if rc_recipient_type rc \<in> {''STAFF'', ''EXTERNAL'', ''OTHER''} then Inr (check ''PASS'' ''Non-customer recipient'' [])
      else case rc_customer_id rc of
        None \<Rightarrow> Inr (check ''REQUIRE_APPROVAL'' ''No customer_id for consent check'' [])
      | Some customer_id \<Rightarrow>
          if rc_purpose rc = ''TRANSACTIONAL'' then Inr (check ''PASS'' ''Transactional purpose bypasses consent'' [])
          else bindE (effective_preference customer_id business_id (rc_channel rc) (rc_purpose rc) d) (\<lambda>pref.
            Inr (case pref of
              None \<Rightarrow> check ''REQUIRE_APPROVAL'' ''No consent preference found for customer'' []
            | Some p \<Rightarrow> preference_verdict p)))"

text \<open>The Brain's version that is in force, by a join on the statuses.\<close>

definition policy_brain_version :: "uuid \<Rightarrow> db \<Rightarrow> err + BrainVersion option" where
  "policy_brain_version business_id d =
     scalar_one_or_none (filter (\<lambda>v. bv_status v = Bvs_ACTIVE \<and> \<not> bv_deleted v \<and>
       (\<exists>b\<in>set (t_brains d). br_business_id b = business_id \<and> br_active_version_id b = Some (bv_id v) \<and> br_id b = bv_brain_id v))
       (t_brain_versions d))"

definition or_empty :: "json \<Rightarrow> err + json_obj" where
  "or_empty v = (if truthy v then as_object v else Inr [])"

text \<open>A comparison with a value that is no number is a TypeError.\<close>

definition as_number :: "json \<Rightarrow> err + rat" where
  "as_number v = requireE (TypeError ''comparison'') (num_value v)"

definition comm_rules :: "string \<Rightarrow> BrainVersion \<Rightarrow> err + json" where
  "comm_rules k v = bindE (or_empty (bv_communication_config v)) (\<lambda>c. Inr (dget c k (JObj [])))"

definition in_quiet_hours :: "rat \<Rightarrow> rat \<Rightarrow> rat \<Rightarrow> bool" where
  "in_quiet_hours start stop hour =
     (if start \<le> stop then start \<le> hour \<and> hour < stop else hour \<ge> start \<or> hour < stop)"

definition check_timing :: "env \<Rightarrow> uuid \<Rightarrow> db \<Rightarrow> err + check_result" where
  "check_timing ev business_id d =
     bindE (policy_brain_version business_id d) (\<lambda>version.
     case version of
       None \<Rightarrow> Inr (check ''PASS'' ''No brain version for timing check'' [])
     | Some v \<Rightarrow>
         bindE (comm_rules ''timing_rules'' v) (\<lambda>rules.
         if \<not> truthy rules then Inr (check ''PASS'' ''No timing restrictions configured'' []) else
         bindE (as_object rules) (\<lambda>timing.
         let quiet = dget_none timing ''quiet_hours'' in
         if \<not> truthy quiet then Inr (check ''PASS'' ''Timing check passed'' []) else
         bindE (as_object quiet) (\<lambda>q.
         let start = dget q ''start'' (JInt 0); stop = dget q ''end'' (JInt 8) in
         bindE (as_number start) (\<lambda>s. bindE (as_number stop) (\<lambda>e.
         Inr (if in_quiet_hours s e (of_int (dt_hour (utc_datetime (env_now ev))))
              then check ''DEFER'' (''Communication deferred: quiet hours '' @ py_str start @ '':00-'' @ py_str stop @ '':00'') []
              else check ''PASS'' ''Timing check passed'' [])))))))"

definition communications_today :: "env \<Rightarrow> uuid \<Rightarrow> uuid \<Rightarrow> string \<Rightarrow> db \<Rightarrow> nat" where
  "communications_today ev business_id customer_id channel d =
     length (filter (\<lambda>c. com_business_id c = business_id \<and> com_customer_id c = Some customer_id \<and> com_channel c = channel \<and>
       com_created_at c \<ge> dt_day (utc_datetime (env_now ev)) * us_per_day \<and> \<not> com_deleted c) (t_communications d))"

definition check_frequency :: "env \<Rightarrow> uuid \<Rightarrow> RecipientContext \<Rightarrow> db \<Rightarrow> err + check_result" where
  "check_frequency ev business_id rc d =
     bindE (policy_brain_version business_id d) (\<lambda>version.
     case version of
       None \<Rightarrow> Inr (check ''PASS'' ''No brain version for frequency check'' [])
     | Some v \<Rightarrow>
         bindE (comm_rules ''frequency_rules'' v) (\<lambda>rules.
         if \<not> truthy rules then Inr (check ''PASS'' ''No frequency limits configured'' []) else
         bindE (as_object rules) (\<lambda>frequency.
         let limit = dget_none frequency ''max_per_day'' in
         case rc_customer_id rc of
           None \<Rightarrow> Inr (check ''PASS'' ''Frequency check passed'' [])
         | Some customer_id \<Rightarrow>
             if \<not> truthy limit then Inr (check ''PASS'' ''Frequency check passed'' []) else
             let n = communications_today ev business_id customer_id (rc_channel rc) d in
             bindE (as_number limit) (\<lambda>m.
             Inr (if of_nat n \<ge> m
                  then check ''DENY'' (''Frequency limit exceeded: '' @ nat_str n @ ''/'' @ py_str limit @ '' per day'')
                         [(''count'', JInt (int n)), (''limit'', limit)]
                  else check ''PASS'' ''Frequency check passed'' [])))))"

text \<open>\<open>x in v\<close> for a text \<open>x\<close>.\<close>

fun py_contains :: "string \<Rightarrow> json \<Rightarrow> err + bool" where
  "py_contains x (JList xs) = Inr (JStr x \<in> set xs)"
| "py_contains x (JStr s) = Inr (py_infix x s)"
| "py_contains x (JObj kvs) = Inr (x \<in> fst ` set kvs)"
| "py_contains x _ = Inl (TypeError ''not iterable'')"

definition rule_scope :: "string \<Rightarrow> json \<Rightarrow> err + bool" where
  "rule_scope x v = (if truthy v then py_contains x v else Inr True)"

definition communication_rules :: "BrainVersion \<Rightarrow> BusinessRule list" where
  "communication_rules v =
     sort_desc rule_priority
       (filter (\<lambda>r. rule_type r = ''communication'' \<and> rule_is_active r \<and> \<not> rule_deleted r) (bv_rules v))"

definition matched_rule :: "BusinessRule \<Rightarrow> string \<Rightarrow> json_obj" where
  "matched_rule r action =
     [(''rule_id'', JStr (nat_str (rule_id r))), (''name'', JStr (rule_name r)), (''action'', JStr action),
      (''reason'', dget (rule_data r) ''reason'' (JStr []))]"

definition rule_action_reason :: "string \<Rightarrow> string \<Rightarrow> string" where
  "rule_action_reason name action =
     ''Brain rule '' @ [CHR 0x27] @ name @ [CHR 0x27] @
       (if action = ''DENY'' then '' denies communication''
        else if action = ''ESCALATE'' then '' requires escalation'' else '' requires approval'')"

text \<open>The loop over the rules: it stops at the first rule that denies, escalates or asks for approval.\<close>

fun walk_rules :: "RecipientContext \<Rightarrow> BusinessRule list \<Rightarrow> json_obj list \<Rightarrow> err + check_result \<times> json_obj list" where
  "walk_rules rc [] matched = Inr (check ''PASS'' ''Brain rules check passed'' [], matched)"
| "walk_rules rc (r # rs) matched =
     bindE (rule_scope (rc_channel rc) (dget (rule_data r) ''channels'' (JList []))) (\<lambda>in_channels.
     if \<not> in_channels then walk_rules rc rs matched else
     bindE (rule_scope (rc_purpose rc) (dget (rule_data r) ''purposes'' (JList []))) (\<lambda>in_purposes.
     if \<not> in_purposes then walk_rules rc rs matched else
     bindE (as_text (dget (rule_data r) ''action'' (JStr []))) (\<lambda>a.
     let action = upper a; matched' = matched @ [matched_rule r action] in
     if action \<in> {''DENY'', ''ESCALATE'', ''REQUIRE_APPROVAL''}
     then Inr (check action (rule_action_reason (rule_name r) action) [], matched')
     else walk_rules rc rs matched')))"

definition check_brain_rules ::
  "uuid \<Rightarrow> RecipientContext \<Rightarrow> db \<Rightarrow> err + check_result \<times> uuid option \<times> json_obj list" where
  "check_brain_rules business_id rc d =
     bindE (policy_brain_version business_id d) (\<lambda>version.
     case version of
       None \<Rightarrow> Inr (check ''REQUIRE_APPROVAL'' ''No active Business Brain version found'' [], None, [])
     | Some v \<Rightarrow> bindE (walk_rules rc (communication_rules v) []) (\<lambda>(c, matched). Inr (c, Some (bv_id v), matched)))"

section \<open>The decision\<close>

definition decided :: "string \<Rightarrow> string \<Rightarrow> PolicyDecision" where
  "decided dec reason =
     \<lparr>pd_decision = dec, pd_reason = reason, pd_brain_version_id = None, pd_matched_rules = [], pd_consent_state = None,
      pd_suppression_state = None, pd_frequency_state = None, pd_timing_state = None\<rparr>"

definition pd_is_allowed :: "PolicyDecision \<Rightarrow> bool" where
  "pd_is_allowed p \<longleftrightarrow> pd_decision p = ''ALLOW''"

definition obj_opt :: "json_obj option \<Rightarrow> json" where
  "obj_opt v = (case v of None \<Rightarrow> JNull | Some x \<Rightarrow> JObj x)"

definition to_evidence_dict :: "PolicyDecision \<Rightarrow> json_obj" where
  "to_evidence_dict p =
     [(''decision'', JStr (pd_decision p)), (''reason'', JStr (pd_reason p)),
      (''brain_version_id'', case pd_brain_version_id p of None \<Rightarrow> JNull | Some i \<Rightarrow> JStr (nat_str i)),
      (''matched_rules'', JList (map JObj (pd_matched_rules p))), (''consent_state'', obj_opt (pd_consent_state p)),
      (''suppression_state'', obj_opt (pd_suppression_state p)), (''frequency_state'', obj_opt (pd_frequency_state p)),
      (''timing_state'', obj_opt (pd_timing_state p))]"

definition in_quotes :: "string \<Rightarrow> string" where
  "in_quotes w = [CHR 0x27] @ w @ [CHR 0x27]"

text \<open>Channel and purpose: \<open>None\<close> when neither stands in the way.\<close>

definition channel_gate :: "uuid \<Rightarrow> RecipientContext \<Rightarrow> db \<Rightarrow> err + PolicyDecision option" where
  "channel_gate business_id rc d =
     bindE (get_channel_config business_id (rc_channel rc) d) (\<lambda>config.
     Inr (case config of
       None \<Rightarrow> Some (decided ''REQUIRE_APPROVAL'' (''No channel configuration found for '' @ in_quotes (rc_channel rc)))
     | Some c \<Rightarrow>
         if bcc_enabled c then None
         else Some (decided ''DENY'' (''Channel '' @ in_quotes (rc_channel rc) @ '' is disabled for this business''))))"

fun not_permitted :: "json \<Rightarrow> string \<Rightarrow> bool" where
  "not_permitted (JList cs) channel = (cs \<noteq> [] \<and> JStr channel \<notin> set cs)"
| "not_permitted _ channel = False"

definition purpose_gate :: "uuid \<Rightarrow> RecipientContext \<Rightarrow> db \<Rightarrow> err + PolicyDecision option" where
  "purpose_gate business_id rc d =
     bindE (get_purpose_config business_id (rc_purpose rc) d) (\<lambda>config.
     Inr (case config of
       None \<Rightarrow> Some (decided ''REQUIRE_APPROVAL'' (''No purpose configuration found for '' @ in_quotes (rc_purpose rc)))
     | Some c \<Rightarrow>
         if \<not> bcp_enabled c
         then Some (decided ''DENY'' (''Purpose '' @ in_quotes (rc_purpose rc) @ '' is disabled for this business''))
         else if not_permitted (bcp_permitted_channels c) (rc_channel rc)
         then Some (decided ''DENY'' (''Channel '' @ in_quotes (rc_channel rc) @ '' not permitted for purpose '' @ in_quotes (rc_purpose rc)))
         else None))"

text \<open>The checks behind the two gates.\<close>

definition checked_decision :: "env \<Rightarrow> uuid \<Rightarrow> RecipientContext \<Rightarrow> db \<Rightarrow> err + PolicyDecision" where
  "checked_decision ev business_id rc d =
     bindE (check_consent business_id rc d) (\<lambda>consent.
     if ck_decision consent \<in> {''DENY'', ''REQUIRE_APPROVAL''}
     then Inr ((decided (ck_decision consent) (ck_reason consent))\<lparr>pd_consent_state := Some (check_dict consent)\<rparr>) else
     bindE (check_timing ev business_id d) (\<lambda>timing.
     if ck_decision timing \<in> {''DENY'', ''DEFER''}
     then Inr ((decided (ck_decision timing) (ck_reason timing))\<lparr>pd_timing_state := Some (check_dict timing)\<rparr>) else
     bindE (check_frequency ev business_id rc d) (\<lambda>frequency.
     if ck_decision frequency = ''DENY''
     then Inr ((decided ''DENY'' (ck_reason frequency))\<lparr>pd_frequency_state := Some (check_dict frequency)\<rparr>) else
     bindE (check_brain_rules business_id rc d) (\<lambda>(rules, version_id, matched).
     if ck_decision rules \<in> {''DENY'', ''REQUIRE_APPROVAL'', ''ESCALATE''}
     then Inr ((decided (ck_decision rules) (ck_reason rules))
            \<lparr>pd_brain_version_id := version_id, pd_matched_rules := matched\<rparr>)
     else Inr \<lparr>pd_decision = ''ALLOW'', pd_reason = ''All policy checks passed'', pd_brain_version_id = version_id,
               pd_matched_rules = matched, pd_consent_state = Some (check_dict consent),
               pd_suppression_state = Some [(''suppressed'', JBool False)], pd_frequency_state = Some (check_dict frequency),
               pd_timing_state = Some (check_dict timing)\<rparr>))))"

definition evaluate_policy :: "env \<Rightarrow> uuid \<Rightarrow> RecipientContext \<Rightarrow> db \<Rightarrow> err + PolicyDecision" where
  "evaluate_policy ev business_id rc d =
     bindE (channel_gate business_id rc d) (\<lambda>g1.
     case g1 of Some p \<Rightarrow> Inr p | None \<Rightarrow>
     bindE (purpose_gate business_id rc d) (\<lambda>g2.
     case g2 of Some p \<Rightarrow> Inr p | None \<Rightarrow> checked_decision ev business_id rc d))"

end
