(* ===== verification/Orchestration.thy ===== *)
theory Orchestration
  imports Communication_Policy Outbox Adapters
begin

text \<open>
  From an outbox event to governed communications
  (src/backend/app/domain/communication/orchestration.py), in-app notifications
  (notification/repository.py and communication/notification_service.py), the lifecycle e-mails of
  notification/email_service.py and the delivery of voice events (voice/outbox_integration.py),
  with the repositories of communication/repository.py.

  The members of an event's target and its texts are strings, as every emitter makes them; another
  kind of value is the DataError of the driver that would have to bind it.

  The e-mail service imports its models from a module that does not define them.  Its entry point
  catches the ImportError, so it returns no communication and touches no row, whatever the event:
  what would follow the import is not modelled.
\<close>

section \<open>Templates\<close>

definition is_word_char :: "char \<Rightarrow> bool" where
  "is_word_char c \<longleftrightarrow>
     (CHR ''a'' \<le> c \<and> c \<le> CHR ''z'') \<or> (CHR ''A'' \<le> c \<and> c \<le> CHR ''Z'') \<or> is_digit c \<or> c = CHR ''_''"

text \<open>
  A match of the pattern of placeholders at the head of a text: two opening braces, spaces, a
  word, spaces, two closing braces.  The word and the rest of the text are returned.
\<close>

definition match_variable :: "string \<Rightarrow> (string \<times> string) option" where
  "match_variable s =
     (if take 2 s \<noteq> ''{{'' then None
      else let s1 = dropWhile is_space (drop 2 s);
               word = takeWhile is_word_char s1;
               s2 = dropWhile is_space (dropWhile is_word_char s1)
           in if word \<noteq> [] \<and> take 2 s2 = ''}}'' then Some (word, drop 2 s2) else None)"

lemma length_dropWhile_le: "length (dropWhile P xs) \<le> length xs"
  by (induction xs) auto

lemma match_variable_shorter:
  assumes "match_variable s = Some (w, rest)"
  shows "length rest < length s"
proof -
  let ?s1 = "dropWhile is_space (drop 2 s)"
  have "take 2 s = ''{{''" and rest: "rest = drop 2 (dropWhile is_space (dropWhile is_word_char ?s1))"
    using assms by (auto simp: match_variable_def Let_def split: if_splits)
  then have "2 \<le> length s" by (cases s; cases "tl s") auto
  moreover have "length rest \<le> length s - 2"
    unfolding rest using length_dropWhile_le [of is_space "drop 2 s"] length_dropWhile_le [of is_word_char ?s1]
      length_dropWhile_le [of is_space "dropWhile is_word_char ?s1"] by simp
  ultimately show ?thesis by simp
qed

text \<open>\<open>re.sub\<close>: placeholders of known variables are replaced, others stay.\<close>

definition matched_text :: "string \<Rightarrow> string \<Rightarrow> string" where
  "matched_text s rest = take (length s - length rest) s"

function render_template :: "string \<Rightarrow> json_obj \<Rightarrow> string" where
  "render_template s variables =
     (case match_variable s of
        Some (name, rest) \<Rightarrow>
          (case dget_none variables name of JNull \<Rightarrow> matched_text s rest | v \<Rightarrow> py_str v) @ render_template rest variables
      | None \<Rightarrow> (case s of [] \<Rightarrow> [] | c # cs \<Rightarrow> c # render_template cs variables))"
  by auto

termination
  by (relation "measure (\<lambda>(s, variables). length s)") (auto dest: match_variable_shorter)

declare render_template.simps [simp del]

definition list_templates ::
  "uuid \<Rightarrow> string option \<Rightarrow> string option \<Rightarrow> nat \<Rightarrow> nat \<Rightarrow> db \<Rightarrow> CommunicationTemplate list" where
  "list_templates business_id channel purpose limit offset d =
     page tpl_created_at limit offset
       (filter (\<lambda>t. tpl_business_id t = business_id \<and> \<not> tpl_deleted t \<and>
          (\<forall>c\<in>set_option channel. c \<noteq> [] \<longrightarrow> tpl_channel t = c) \<and> (\<forall>p\<in>set_option purpose. p \<noteq> [] \<longrightarrow> tpl_purpose t = p))
         (t_templates d))"

definition get_template_version :: "uuid \<Rightarrow> db \<Rightarrow> CommunicationTemplateVersion option" where
  "get_template_version i d = find_row tv_id i (t_template_versions d)"

text \<open>A member that has to be text.\<close>

definition text_or :: "json_obj \<Rightarrow> string \<Rightarrow> string \<Rightarrow> err + string" where
  "text_or obj k dflt =
     (case map_of obj k of None \<Rightarrow> Inr dflt | Some (JStr s) \<Rightarrow> Inr s | Some _ \<Rightarrow> Inl (DataError k))"

definition plain_text :: "json_obj \<Rightarrow> err + string option \<times> string" where
  "plain_text variables =
     bindE (text_or variables ''body'' []) (\<lambda>body.
     case dget_none variables ''subject'' of
       JNull \<Rightarrow> Inr (None, body)
     | JStr s \<Rightarrow> Inr (Some s, body)
     | _ \<Rightarrow> Inl (DataError ''subject''))"

text \<open>The newest template of the channel and purpose, whatever its status and its approval.\<close>

definition resolve_and_render ::
  "uuid \<Rightarrow> string \<Rightarrow> string \<Rightarrow> json \<Rightarrow> db \<Rightarrow> err + string option \<times> string" where
  "resolve_and_render business_id channel purpose vars d =
     bindE (as_object vars) (\<lambda>variables.
     case list_templates business_id (Some channel) (Some purpose) 1 0 d of
       [] \<Rightarrow> plain_text variables
     | t # _ \<Rightarrow>
         (case Option.bind (tpl_active_version_id t) (\<lambda>i. get_template_version i d) of
            None \<Rightarrow> plain_text variables
          | Some v \<Rightarrow>
              Inr (Some (render_template (case tv_subject v of None \<Rightarrow> [] | Some s \<Rightarrow> s) variables),
                   render_template (tv_body v) variables)))"

section \<open>Rows\<close>

definition get_communication_by_key :: "string \<Rightarrow> db \<Rightarrow> err + Communication option" where
  "get_communication_by_key k d =
     scalar_one_or_none (filter (\<lambda>c. com_idempotency_key c = k \<and> \<not> com_deleted c) (t_communications d))"

definition insert_communication :: "Communication \<Rightarrow> db \<Rightarrow> err + db" where
  "insert_communication c d =
     (if com_idempotency_key c \<in> com_idempotency_key ` set (t_communications d)
      then Inl (IntegrityError ''communications.idempotency_key'')
      else Inr (used_id (d\<lparr>t_communications := t_communications d @ [c]\<rparr>)))"

definition get_notification_by_key :: "string \<Rightarrow> db \<Rightarrow> err + Notification option" where
  "get_notification_by_key k d =
     scalar_one_or_none (filter (\<lambda>n. ntf_idempotency_key n = k \<and> \<not> ntf_deleted n) (t_notifications d))"

definition insert_notification :: "Notification \<Rightarrow> db \<Rightarrow> err + Notification \<times> db" where
  "insert_notification n d =
     (if ntf_idempotency_key n \<in> ntf_idempotency_key ` set (t_notifications d)
      then Inl (IntegrityError ''notifications.idempotency_key'')
      else Inr (n, used_id (d\<lparr>t_notifications := t_notifications d @ [n]\<rparr>)))"

text \<open>The service's \<open>create_notification\<close>: at most one row per key.\<close>

definition new_notification ::
  "env \<Rightarrow> uuid \<Rightarrow> uuid \<Rightarrow> uuid option \<Rightarrow> string \<Rightarrow> string \<Rightarrow> string \<Rightarrow> string \<Rightarrow> string \<Rightarrow> uuid \<Rightarrow> Notification" where
  "new_notification ev i business_id customer_id ty title body key agg agg_id =
     \<lparr>ntf_id = i, ntf_business_id = business_id, ntf_customer_id = customer_id, ntf_notification_type = ty,
      ntf_title = title, ntf_body = body, ntf_priority = ''NORMAL'', ntf_idempotency_key = key,
      ntf_related_entity_type = Some agg, ntf_related_entity_id = Some agg_id, ntf_read_at = None,
      ntf_created_at = env_now ev, ntf_deleted = False\<rparr>"

definition notify_once :: "Notification \<Rightarrow> db \<Rightarrow> err + Notification \<times> db" where
  "notify_once n d =
     bindE (get_notification_by_key (ntf_idempotency_key n) d) (\<lambda>existing.
     case existing of Some e \<Rightarrow> Inr (e, d) | None \<Rightarrow> insert_notification n d)"

definition count_unread :: "uuid \<Rightarrow> db \<Rightarrow> nat" where
  "count_unread customer_id d =
     length (filter (\<lambda>n. ntf_customer_id n = Some customer_id \<and> ntf_read_at n = None \<and> \<not> ntf_deleted n) (t_notifications d))"

definition list_notifications_for_customer :: "uuid \<Rightarrow> bool \<Rightarrow> nat \<Rightarrow> nat \<Rightarrow> db \<Rightarrow> Notification list" where
  "list_notifications_for_customer customer_id unread_only limit offset d =
     page ntf_created_at limit offset
       (filter (\<lambda>n. ntf_customer_id n = Some customer_id \<and> \<not> ntf_deleted n \<and> (unread_only \<longrightarrow> ntf_read_at n = None))
         (t_notifications d))"

definition list_notifications_for_business :: "uuid \<Rightarrow> string option \<Rightarrow> nat \<Rightarrow> nat \<Rightarrow> db \<Rightarrow> Notification list" where
  "list_notifications_for_business business_id ty limit offset d =
     page ntf_created_at limit offset
       (filter (\<lambda>n. ntf_business_id n = business_id \<and> \<not> ntf_deleted n \<and>
          (\<forall>t\<in>set_option ty. t \<noteq> [] \<longrightarrow> ntf_notification_type n = t)) (t_notifications d))"

definition mark_notification :: "env \<Rightarrow> uuid \<Rightarrow> uuid \<Rightarrow> db \<Rightarrow> err + Notification option \<times> db" where
  "mark_notification ev i customer_id d =
     bindE (scalar_one_or_none (filter (\<lambda>n. ntf_id n = i \<and> ntf_customer_id n = Some customer_id \<and> \<not> ntf_deleted n) (t_notifications d)))
       (\<lambda>found.
     Inr (case found of
       None \<Rightarrow> (None, d)
     | Some n \<Rightarrow>
         if ntf_read_at n \<noteq> None then (Some n, d)
         else let n' = n\<lparr>ntf_read_at := Some (env_now ev)\<rparr>
              in (Some n', d\<lparr>t_notifications := upd_row ntf_id i (\<lambda>_. n') (t_notifications d)\<rparr>)))"

section \<open>Notifications of events\<close>

text \<open>\<open>event.payload or {}\<close>: amounts and identifiers of the payload are written as texts.\<close>

fun pval_json :: "pval \<Rightarrow> json" where
  "pval_json (PUuid i) = JStr (nat_str i)"
| "pval_json PNone = JNull"
| "pval_json (PStr s) = JStr s"
| "pval_json (PMoney m) = JStr (money_str m)"
| "pval_json (PInt n) = JInt n"
| "pval_json (PJson j) = j"

definition event_payload :: "OutboxEvent \<Rightarrow> json_obj" where
  "event_payload e = map (\<lambda>(k, v). (k, pval_json v)) (oe_payload e)"

definition notification_key :: "OutboxEvent \<Rightarrow> uuid option \<Rightarrow> string" where
  "notification_key e customer_id =
     ''notification:'' @ oe_event_type e @ '':'' @ oe_aggregate_type e @ '':'' @ nat_str (oe_aggregate_id e) @ '':'' @
     nat_str (oe_id e) @ '':'' @ (case customer_id of None \<Rightarrow> ''biz'' | Some c \<Rightarrow> ''cust:'' @ nat_str c)"

definition create_event_notification ::
  "env \<Rightarrow> OutboxEvent \<Rightarrow> uuid option \<Rightarrow> db \<Rightarrow> err + Notification \<times> db" where
  "create_event_notification ev e customer_id d =
     (let payload = event_payload e in
      bindE (get_notification_by_key (notification_key e customer_id) d) (\<lambda>existing.
      case existing of
        Some n \<Rightarrow> Inr (n, d)
      | None \<Rightarrow>
          bindE (text_or payload ''notification_title'' (oe_event_type e)) (\<lambda>title.
          bindE (text_or payload ''notification_body'' (''Event: '' @ oe_event_type e)) (\<lambda>body.
          insert_notification
            (new_notification ev (fresh_id d) (oe_business_id e) customer_id (oe_event_type e) title body
               (notification_key e customer_id) (oe_aggregate_type e) (oe_aggregate_id e)) d))))"

section \<open>Targets\<close>

text \<open>\<open>uuid.UUID(v) if v else None\<close>.\<close>

definition optional_uuid :: "json \<Rightarrow> err + uuid option" where
  "optional_uuid v =
     (if \<not> truthy v then Inr None
      else bindE (as_text v) (\<lambda>s. bindE (requireE (ValueError ''badly formed hexadecimal UUID string'') (uuid_of_str s)) (\<lambda>i.
           Inr (Some i))))"

text \<open>\<open>_parse_uuid\<close>: a text that is no identifier is as good as none.\<close>

definition parse_uuid :: "json \<Rightarrow> err + uuid option" where
  "parse_uuid v = (if v = JNull then Inr None else bindE (as_text v) (\<lambda>s. Inr (uuid_of_str s)))"

record target =
  tg_context :: RecipientContext
  tg_key :: string

definition communication_key :: "OutboxEvent \<Rightarrow> string \<Rightarrow> string \<Rightarrow> string" where
  "communication_key e channel purpose =
     oe_event_type e @ '':'' @ oe_aggregate_type e @ '':'' @ nat_str (oe_aggregate_id e) @ '':'' @ channel @ '':'' @ purpose"

definition read_target :: "OutboxEvent \<Rightarrow> json \<Rightarrow> err + target" where
  "read_target e v =
     bindE (as_object v) (\<lambda>t.
     bindE (text_or t ''channel'' []) (\<lambda>channel.
     bindE (text_or t ''purpose'' []) (\<lambda>purpose.
     bindE (optional_uuid (dget_none t ''customer_id'')) (\<lambda>customer_id.
     bindE (text_or t ''recipient_address'' []) (\<lambda>address.
     bindE (text_or t ''recipient_type'' ''CUSTOMER'') (\<lambda>recipient_type.
     Inr \<lparr>tg_context = \<lparr>rc_recipient_type = recipient_type, rc_customer_id = customer_id, rc_address = address,
                         rc_channel = channel, rc_purpose = purpose\<rparr>,
          tg_key = communication_key e channel purpose\<rparr>))))))"

section \<open>Sending\<close>

definition message_for :: "string \<Rightarrow> string \<Rightarrow> string option \<Rightarrow> string \<Rightarrow> message option" where
  "message_for channel address subject body =
     (let subj = (case subject of None \<Rightarrow> [] | Some s \<Rightarrow> s) in
      if channel = ''EMAIL'' then Some (EmailMessage address subj body)
      else if channel = ''SMS'' then Some (SMSMessage address body)
      else if channel = ''VOICE'' then Some (VoiceCallRequest address [] None [])
      else if channel = ''WHATSAPP'' then Some (WhatsAppMessage address body)
      else if channel = ''PUSH'' then Some (PushMessage address subj body)
      else None)"

definition provider_of :: "comm_providers \<Rightarrow> string \<Rightarrow> comm_provider option" where
  "provider_of ps channel =
     (if channel = ''EMAIL'' then Some (email_provider ps)
      else if channel = ''SMS'' then Some (sms_provider ps)
      else if channel = ''VOICE'' then Some (voice_provider ps)
      else if channel = ''WHATSAPP'' then Some (whatsapp_provider ps)
      else if channel = ''PUSH'' then Some (push_provider ps)
      else None)"

definition invoke_provider :: "comm_providers \<Rightarrow> string \<Rightarrow> string \<Rightarrow> string option \<Rightarrow> string \<Rightarrow> ProviderResult" where
  "invoke_provider ps channel address subject body =
     (case (provider_of ps channel, message_for channel address subject body) of
        (Some p, Some m) \<Rightarrow> cpr_send p m
      | _ \<Rightarrow> provider_failure (''Unsupported channel: '' @ channel) [])"

definition get_provider_name :: "comm_providers \<Rightarrow> string \<Rightarrow> string" where
  "get_provider_name ps channel = (case provider_of ps channel of None \<Rightarrow> ''unknown'' | Some p \<Rightarrow> cpr_name p)"

definition audit_event ::
  "uuid \<Rightarrow> string \<Rightarrow> OutboxEvent \<Rightarrow> RecipientContext \<Rightarrow> uuid option \<Rightarrow> PolicyDecision \<Rightarrow> string option \<Rightarrow> CommunicationAuditEvent" where
  "audit_event i ty e rc comm p ref =
     \<lparr>cae_id = i, cae_event_type = ty, cae_actor_id = None, cae_business_id = oe_business_id e, cae_customer_id = rc_customer_id rc,
      cae_channel = Some (rc_channel rc), cae_purpose = Some (rc_purpose rc), cae_communication_id = comm,
      cae_brain_version_id = pd_brain_version_id p, cae_decision_evidence = Some (to_evidence_dict p),
      cae_provider_reference = ref, cae_metadata = JNull\<rparr>"

definition add_audit :: "CommunicationAuditEvent \<Rightarrow> db \<Rightarrow> db" where
  "add_audit a d = used_id (d\<lparr>t_comm_audit := t_comm_audit d @ [a]\<rparr>)"

definition new_communication ::
  "env \<Rightarrow> uuid \<Rightarrow> OutboxEvent \<Rightarrow> target \<Rightarrow> PolicyDecision \<Rightarrow> uuid option list \<Rightarrow> Communication" where
  "new_communication ev i e t p links =
     \<lparr>com_id = i, com_business_id = oe_business_id e, com_customer_id = rc_customer_id (tg_context t),
      com_channel = rc_channel (tg_context t), com_purpose = rc_purpose (tg_context t), com_status = ''PENDING'',
      com_idempotency_key = tg_key t, com_brain_version_id = pd_brain_version_id p,
      com_decision_evidence = Some (to_evidence_dict p), com_enquiry_id = links ! 0, com_quote_id = links ! 1,
      com_booking_id = links ! 2, com_service_execution_id = links ! 3, com_invoice_id = links ! 4,
      com_provider_reference = None, com_created_at = env_now ev, com_deleted = False\<rparr>"

fun parse_links :: "json_obj \<Rightarrow> string list \<Rightarrow> err + uuid option list" where
  "parse_links payload [] = Inr []"
| "parse_links payload (k # ks) =
     bindE (parse_uuid (dget_none payload k)) (\<lambda>i. bindE (parse_links payload ks) (\<lambda>is. Inr (i # is)))"

definition link_keys :: "string list" where
  "link_keys = [''enquiry_id'', ''quote_id'', ''booking_id'', ''service_execution_id'', ''invoice_id'']"

text \<open>What the result of the provider makes of the three rows.\<close>

definition sent_communication :: "ProviderResult \<Rightarrow> Communication \<Rightarrow> Communication" where
  "sent_communication r c =
     (if pvr_success r then c\<lparr>com_status := ''SENT'', com_provider_reference := pvr_reference r\<rparr>
      else c\<lparr>com_status := ''FAILED''\<rparr>)"

definition sent_recipient :: "ProviderResult \<Rightarrow> CommunicationRecipient \<Rightarrow> CommunicationRecipient" where
  "sent_recipient r x = x\<lparr>cr_status := (if pvr_success r then ''SENT'' else ''FAILED'')\<rparr>"

definition sent_attempt :: "ProviderResult \<Rightarrow> CommunicationAttempt \<Rightarrow> CommunicationAttempt" where
  "sent_attempt r a =
     (if pvr_success r
      then a\<lparr>ca_status := ''SUCCESS'', ca_provider_reference := pvr_reference r, ca_provider_response := Some (pvr_raw r)\<rparr>
      else a\<lparr>ca_status := (if pvr_retryable r then ''RETRYABLE'' else ''FAILED''), ca_error := pvr_error r,
             ca_provider_response := Some (pvr_raw r)\<rparr>)"

definition execute_communication ::
  "env \<Rightarrow> comm_providers \<Rightarrow> OutboxEvent \<Rightarrow> target \<Rightarrow> string option \<Rightarrow> string \<Rightarrow> PolicyDecision \<Rightarrow> db \<Rightarrow> err + Communication \<times> db" where
  "execute_communication ev ps e t subject body p d =
     (let rc = tg_context t in
      bindE (parse_links (event_payload e) link_keys) (\<lambda>links.
      let c = new_communication ev (fresh_id d) e t p links in
      bindE (insert_communication c d) (\<lambda>d1.
      let x = \<lparr>cr_id = fresh_id d1, cr_communication_id = com_id c, cr_recipient_type = rc_recipient_type rc,
               cr_channel = rc_channel rc, cr_address = rc_address rc, cr_status = ''PENDING''\<rparr>;
          d2 = used_id d1;
          a = \<lparr>ca_id = fresh_id d2, ca_communication_id = com_id c, ca_provider_name = get_provider_name ps (rc_channel rc),
               ca_provider_reference = None, ca_status = ''PENDING'', ca_error = None, ca_provider_response = None,
               ca_created_at = env_now ev\<rparr>;
          r = invoke_provider ps (rc_channel rc) (rc_address rc) subject body;
          c' = sent_communication r c;
          d3 = used_id (d2\<lparr>t_recipients := t_recipients d2 @ [sent_recipient r x],
                           t_comm_attempts := t_comm_attempts d2 @ [sent_attempt r a],
                           t_communications := upd_row com_id (com_id c) (\<lambda>_. c') (t_communications d2)\<rparr>)
      in Inr (c', add_audit
            (audit_event (fresh_id d3) (if pvr_success r then ''COMMUNICATION_SENT'' else ''COMMUNICATION_FAILED'') e rc
               (Some (com_id c)) p (pvr_reference r)) d3))))"

definition blocked_audit_type :: "string \<Rightarrow> string" where
  "blocked_audit_type dec =
     (if dec \<in> {''REQUIRE_APPROVAL'', ''DEFER'', ''ESCALATE''} then ''COMMUNICATION_DEFERRED'' else ''COMMUNICATION_DENIED'')"

text \<open>One target: the communication that exists already, the new one, or none.\<close>

definition process_target ::
  "env \<Rightarrow> comm_providers \<Rightarrow> OutboxEvent \<Rightarrow> json \<Rightarrow> db \<Rightarrow> err + Communication option \<times> db" where
  "process_target ev ps e v d =
     bindE (read_target e v) (\<lambda>t.
     bindE (get_communication_by_key (tg_key t) d) (\<lambda>existing.
     case existing of
       Some c \<Rightarrow> Inr (Some c, d)
     | None \<Rightarrow>
         bindE (create_event_notification ev e (rc_customer_id (tg_context t)) d) (\<lambda>(n, d1).
         bindE (evaluate_policy ev (oe_business_id e) (tg_context t) d1) (\<lambda>p.
         if \<not> pd_is_allowed p
         then Inr (None, add_audit (audit_event (fresh_id d1) (blocked_audit_type (pd_decision p)) e (tg_context t) None p None) d1)
         else
           bindE (resolve_and_render (oe_business_id e) (rc_channel (tg_context t)) (rc_purpose (tg_context t))
                    (dget (event_payload e) ''template_variables'' (JObj [])) d1) (\<lambda>(subject, body).
           bindE (execute_communication ev ps e t subject body p d1) (\<lambda>(c, d2). Inr (Some c, d2)))))))"

fun process_targets ::
  "env \<Rightarrow> comm_providers \<Rightarrow> OutboxEvent \<Rightarrow> json list \<Rightarrow> db \<Rightarrow> err + Communication list \<times> db" where
  "process_targets ev ps e [] d = Inr ([], d)"
| "process_targets ev ps e (v # vs) d =
     bindE (process_target ev ps e v d) (\<lambda>(c, d1).
     bindE (process_targets ev ps e vs d1) (\<lambda>(cs, d2). Inr ((case c of None \<Rightarrow> cs | Some x \<Rightarrow> x # cs), d2)))"

section \<open>Lifecycle e-mails\<close>

text \<open>Its imports raise before anything is read or written, and the entry point catches that.\<close>

definition email_process_event_inner :: "OutboxEvent \<Rightarrow> db \<Rightarrow> err + Communication list \<times> db" where
  "email_process_event_inner e d = Inl (ImportError ''app.domain.business.models'')"

definition email_process_event :: "OutboxEvent \<Rightarrow> db \<Rightarrow> Communication list \<times> db" where
  "email_process_event e d = (case email_process_event_inner e d of Inl _ \<Rightarrow> ([], d) | Inr r \<Rightarrow> r)"

section \<open>Events\<close>

fun payload_customer :: "json \<Rightarrow> err + uuid option" where
  "payload_customer (JStr s) =
     (if s = [] then Inr None
      else bindE (requireE (ValueError ''badly formed hexadecimal UUID string'') (uuid_of_str s)) (\<lambda>i. Inr (Some i)))"
| "payload_customer v = (if truthy v then Inl (DataError ''customer_id'') else Inr None)"

definition notify_only :: "env \<Rightarrow> OutboxEvent \<Rightarrow> db \<Rightarrow> err + Communication list \<times> db" where
  "notify_only ev e d =
     bindE (create_event_notification ev e None d) (\<lambda>(n, d1).
     bindE (payload_customer (dget_none (event_payload e) ''customer_id'')) (\<lambda>customer.
     bindE (case customer of
              None \<Rightarrow> Inr d1
            | Some c \<Rightarrow> bindE (create_event_notification ev e (Some c) d1) (\<lambda>(n, d2). Inr d2)) (\<lambda>d2.
     Inr (email_process_event e d2))))"

text \<open>Only a list has targets: iterating anything else ends in an exception.\<close>

definition orchestrate :: "env \<Rightarrow> comm_providers \<Rightarrow> OutboxEvent \<Rightarrow> db \<Rightarrow> err + Communication list \<times> db" where
  "orchestrate ev ps e d =
     (let targets = dget (event_payload e) ''communication_targets'' (JList []) in
      if \<not> truthy targets then notify_only ev e d
      else case targets of
        JList vs \<Rightarrow> process_targets ev ps e vs d
      | JStr _ \<Rightarrow> Inl (AttributeError ''get'')
      | JObj _ \<Rightarrow> Inl (AttributeError ''get'')
      | _ \<Rightarrow> Inl (TypeError ''not iterable''))"

section \<open>Voice events\<close>

definition voice_title :: "string \<Rightarrow> string" where
  "voice_title ty =
     (if ty = ''voice.call_initiated'' then ''Voice call initiated''
      else if ty = ''voice.call_completed'' then ''Voice call completed''
      else if ty = ''voice.call_failed'' then ''Voice call failed''
      else if ty = ''voice.escalation_requested'' then ''Voice call escalated to a human''
      else if ty = ''voice.campaign_completed'' then ''Voice campaign completed''
      else ty)"

definition notification_text :: "OutboxEvent \<Rightarrow> string \<times> string" where
  "notification_text e =
     (let payload = event_payload e;
          title = dget_none payload ''notification_title''; body = dget_none payload ''notification_body''
      in (if truthy title then py_str title else voice_title (oe_event_type e),
          if truthy body then py_str body else ''Voice event: '' @ oe_event_type e))"

text \<open>
  The voice services log through Python's own logger and pass it keyword arguments, which it
  refuses when it logs the level at all: whether messages of the level INFO are logged is a
  parameter.  They are in the application and its worker.
\<close>

definition log_keywords :: "bool \<Rightarrow> err + unit" where
  "log_keywords info = guardE (\<not> info) (TypeError ''Logger._log() got an unexpected keyword argument'')"

definition voice_process_event :: "env \<Rightarrow> bool \<Rightarrow> OutboxEvent \<Rightarrow> db \<Rightarrow> err + db" where
  "voice_process_event ev info e d =
     (let key = ''notification:'' @ nat_str (oe_id e); (title, body) = notification_text e in
      bindE (get_notification_by_key key d) (\<lambda>existing.
      if existing \<noteq> None then Inr d else
      bindE (optional_uuid (dget_none (event_payload e) ''customer_id'')) (\<lambda>customer.
      bindE (insert_notification
               (new_notification ev (fresh_id d) (oe_business_id e) customer (oe_event_type e) title body key
                  (oe_aggregate_type e) (oe_aggregate_id e)) d) (\<lambda>(n, d1).
      bindE (log_keywords info) (\<lambda>_. Inr d1)))))"

end
