(* ===== verification/Brain_Registry.thy ===== *)
theory Brain_Registry
  imports Data_Model
begin

text \<open>
  Which rules a Brain version may hold: the registry of rule types
  (src/backend/app/domain/business/registry.py) and the structural validation that a version has
  to pass before its review (src/backend/app/domain/business/validation.py).  The theory shows
  that validation accepts exactly the well-formed rules, and that the evaluator never raises on a
  version it has accepted.
\<close>

section \<open>Vocabulary\<close>

definition CURRENT_SCHEMA_VERSION :: string where
  "CURRENT_SCHEMA_VERSION = ''1.0''"

definition SUPPORTED_SCHEMA_VERSIONS :: "string list" where
  "SUPPORTED_SCHEMA_VERSIONS = [''1.0'']"

datatype ConfigCategory =
    Cfg_SERVICE | Cfg_PRICING | Cfg_AVAILABILITY | Cfg_QUALIFICATION | Cfg_POLICY | Cfg_COMMUNICATION | Cfg_ESCALATION

text \<open>The sets are listed in the order in which their messages print them.\<close>

definition SUPPORTED_OPERATORS :: "string list" where
  "SUPPORTED_OPERATORS =
     [''between'', ''contains'', ''ends_with'', ''equals'', ''greater_than'', ''greater_than_or_equal'', ''in'',
      ''is_empty'', ''is_not_empty'', ''less_than'', ''less_than_or_equal'', ''matches_regex'', ''not_equals'',
      ''not_in'', ''starts_with'']"

definition SUPPORTED_SCOPES :: "string list" where
  "SUPPORTED_SCOPES = [''business'', ''location'', ''service'', ''service_offer'']"

definition SUPPORTED_OUTCOMES :: "string list" where
  "SUPPORTED_OUTCOMES =
     [''adjust'', ''allow'', ''deny'', ''escalate'', ''info'', ''notify'', ''require_approval'']"

section \<open>The registry\<close>

record RuleTypeDefinition =
  rt_type_id :: string
  rt_category :: ConfigCategory
  rt_description :: string
  rt_schema_version :: string
  rt_required_fields :: "string list"
  rt_optional_fields :: "string list"
  rt_supported_operators :: "string list"
  rt_supported_scopes :: "string list"

definition rule_type_def :: "string \<Rightarrow> ConfigCategory \<Rightarrow> string \<Rightarrow> string list \<Rightarrow> string list \<Rightarrow> RuleTypeDefinition" where
  "rule_type_def i c d req opt =
     \<lparr>rt_type_id = i, rt_category = c, rt_description = d, rt_schema_version = CURRENT_SCHEMA_VERSION,
      rt_required_fields = req, rt_optional_fields = opt, rt_supported_operators = SUPPORTED_OPERATORS,
      rt_supported_scopes = SUPPORTED_SCOPES\<rparr>"

definition service_rule_types :: "RuleTypeDefinition list" where
  "service_rule_types =
     [rule_type_def ''service_definition'' Cfg_SERVICE ''Defines what a service includes/excludes''
        [''service_name''] [''description'', ''includes'', ''excludes'', ''delivery_modes''],
      rule_type_def ''service_bundling'' Cfg_SERVICE ''Defines which services can be bundled''
        [''bundle_name'', ''service_ids''] [''discount_percent'', ''min_services''],
      rule_type_def ''service_exclusion'' Cfg_SERVICE ''Defines what a service explicitly does not cover''
        [''exclusion_description''] [''applies_to''],
      rule_type_def ''service_customization'' Cfg_SERVICE ''Defines allowed customizations per service''
        [''customization_name''] [''options'', ''price_impact'']]"

definition pricing_rule_types :: "RuleTypeDefinition list" where
  "pricing_rule_types =
     [rule_type_def ''base_pricing'' Cfg_PRICING ''Sets the base price for a service/offer''
        [''amount'', ''currency''] [''pricing_model'', ''tax_inclusive''],
      rule_type_def ''surcharge'' Cfg_PRICING ''Adds conditional charges (weekend, holiday, urgency)''
        [''surcharge_name'', ''amount''] [''conditions'', ''percentage''],
      rule_type_def ''discount'' Cfg_PRICING ''Provides conditional reductions (volume, loyalty, seasonal)''
        [''discount_name''] [''percentage'', ''amount'', ''conditions'', ''max_discount''],
      rule_type_def ''price_floor'' Cfg_PRICING ''Sets minimum price boundaries''
        [''minimum_amount''] [''currency''],
      rule_type_def ''price_cap'' Cfg_PRICING ''Sets maximum price boundaries''
        [''maximum_amount''] [''currency''],
      rule_type_def ''quote_threshold'' Cfg_PRICING ''Defines when a custom quote is required vs. auto-pricing''
        [''threshold_type''] [''threshold_value''],
      rule_type_def ''payment_terms'' Cfg_PRICING ''Defines payment timing requirements''
        [''payment_timing''] [''late_fee_percent'', ''grace_period_days'']]"

definition availability_rule_types :: "RuleTypeDefinition list" where
  "availability_rule_types =
     [rule_type_def ''operating_hours'' Cfg_AVAILABILITY ''Defines when business is available''
        [''day_of_week'', ''open_time'', ''close_time''] [''timezone'', ''break_start'', ''break_end''],
      rule_type_def ''minimum_notice'' Cfg_AVAILABILITY ''Sets minimum advance notice requirements''
        [''notice_hours''] [''applies_to''],
      rule_type_def ''maximum_advance'' Cfg_AVAILABILITY ''Sets maximum forward booking window''
        [''advance_days''] [''applies_to''],
      rule_type_def ''capacity_limit'' Cfg_AVAILABILITY ''Defines capacity constraints''
        [''max_capacity''] [''time_window_minutes'', ''applies_to''],
      rule_type_def ''blackout_period'' Cfg_AVAILABILITY ''Defines when service is unavailable''
        [''start_date'', ''end_date''] [''reason'', ''recurring''],
      rule_type_def ''slot_configuration'' Cfg_AVAILABILITY ''Defines time slot structure''
        [''slot_duration_minutes''] [''buffer_minutes'', ''max_slots_per_window''],
      rule_type_def ''concurrent_limit'' Cfg_AVAILABILITY ''Limits simultaneous services''
        [''max_concurrent''] [''applies_to'']]"

definition qualification_rule_types :: "RuleTypeDefinition list" where
  "qualification_rule_types =
     [rule_type_def ''required_information'' Cfg_QUALIFICATION ''Defines mandatory customer-provided data''
        [''field_name''] [''field_type'', ''prompt_text''],
      rule_type_def ''conditional_information'' Cfg_QUALIFICATION ''Defines data required under specific conditions''
        [''field_name'', ''condition''] [''field_type'', ''prompt_text''],
      rule_type_def ''document_requirement'' Cfg_QUALIFICATION ''Defines documents that must be uploaded''
        [''document_type''] [''mandatory'', ''description''],
      rule_type_def ''verification_requirement'' Cfg_QUALIFICATION ''Defines what must be verified before proceeding''
        [''verification_type''] [''method'', ''timeout_hours''],
      rule_type_def ''eligibility_check'' Cfg_QUALIFICATION ''Defines customer eligibility criteria''
        [''criteria_type''] [''criteria_value'', ''error_message'']]"

definition policy_rule_types_1 :: "RuleTypeDefinition list" where
  "policy_rule_types_1 =
     [rule_type_def ''cancellation_policy'' Cfg_POLICY ''Defines cancellation windows, fees, conditions''
        [''window_hours''] [''fee_percent'', ''fee_amount'', ''reasons''],
      rule_type_def ''refund_policy'' Cfg_POLICY ''Defines refund eligibility and amounts''
        [''refund_type''] [''refund_percent'', ''conditions''],
      rule_type_def ''modification_policy'' Cfg_POLICY ''Defines what can be changed and when''
        [''modifiable_fields''] [''window_hours'', ''approval_required''],
      rule_type_def ''terms_of_service'' Cfg_POLICY ''Defines general service terms''
        [''terms_text''] [''version'', ''effective_date''],
      rule_type_def ''liability_policy'' Cfg_POLICY ''Defines liability limitations''
        [''limitation_type''] [''max_liability'', ''exclusions''],
      rule_type_def ''guarantee_policy'' Cfg_POLICY ''Defines service guarantees''
        [''guarantee_type''] [''duration_hours'', ''remedy''],
      rule_type_def ''complaint_policy'' Cfg_POLICY ''Defines complaint handling procedures''
        [''response_window_hours''] [''escalation_steps''],
      rule_type_def ''booking_creation'' Cfg_POLICY ''Defines how bookings can be initiated''
        [''initiation_method''] [''requires_confirmation'', ''auto_confirm''],
      rule_type_def ''confirmation_rules'' Cfg_POLICY ''Defines confirmation requirements''
        [''confirmation_method''] [''timeout_minutes'', ''auto_confirm_after''],
      rule_type_def ''deposit_rules'' Cfg_POLICY ''Defines deposit requirements''
        [''deposit_required''] [''deposit_percent'', ''deposit_amount'', ''due_before_hours''],
      rule_type_def ''reminder_schedule'' Cfg_POLICY ''Defines pre-service reminder timing''
        [''reminders''] [''channel'']]"

definition policy_rule_types_2 :: "RuleTypeDefinition list" where
  "policy_rule_types_2 =
     [rule_type_def ''auto_confirmation'' Cfg_POLICY ''Defines conditions for automatic confirmation''
        [''enabled''] [''conditions'', ''timeout_minutes''],
      rule_type_def ''cancellation_window'' Cfg_POLICY ''Time-based cancellation eligibility''
        [''hours_before_service''] [''allowed''],
      rule_type_def ''cancellation_fee'' Cfg_POLICY ''Fee calculation rules''
        [''fee_type''] [''amount'', ''percent'', ''window_hours''],
      rule_type_def ''cancellation_reason'' Cfg_POLICY ''Which reasons are accepted''
        [''accepted_reasons''] [''requires_evidence''],
      rule_type_def ''auto_cancellation'' Cfg_POLICY ''Automatic cancellation conditions''
        [''trigger_condition''] [''grace_period_minutes''],
      rule_type_def ''cancellation_approval'' Cfg_POLICY ''When cancellation requires approval''
        [''approval_required''] [''approver_role'', ''timeout_hours''],
      rule_type_def ''reschedule_window'' Cfg_POLICY ''When rescheduling is allowed''
        [''hours_before_service''] [''allowed''],
      rule_type_def ''reschedule_limit'' Cfg_POLICY ''How many times a booking can be rescheduled''
        [''max_reschedules''] [''per_customer'', ''per_booking''],
      rule_type_def ''reschedule_fee'' Cfg_POLICY ''Fee calculation for rescheduling''
        [''fee_type''] [''amount'', ''percent'', ''window_hours''],
      rule_type_def ''reschedule_availability'' Cfg_POLICY ''Whether new time must satisfy availability''
        [''check_availability''] [''strict'']]"

definition communication_rule_types :: "RuleTypeDefinition list" where
  "communication_rule_types =
     [rule_type_def ''response_time'' Cfg_COMMUNICATION ''Target response time per context''
        [''target_hours''] [''context'', ''max_hours''],
      rule_type_def ''channel_preference'' Cfg_COMMUNICATION ''Preferred communication channel per context''
        [''channel''] [''priority'', ''context''],
      rule_type_def ''tone_policy'' Cfg_COMMUNICATION ''Communication tone requirements''
        [''tone''] [''context''],
      rule_type_def ''template_selection'' Cfg_COMMUNICATION ''Which templates to use for which messages''
        [''template_id'', ''trigger''] [''variables''],
      rule_type_def ''auto_response'' Cfg_COMMUNICATION ''Automated response rules''
        [''trigger'', ''response_template''] [''conditions''],
      rule_type_def ''escalation_notification'' Cfg_COMMUNICATION ''When to notify business members''
        [''notification_trigger''] [''recipients'', ''channel'']]"

definition escalation_rule_types :: "RuleTypeDefinition list" where
  "escalation_rule_types =
     [rule_type_def ''value_threshold'' Cfg_ESCALATION ''Escalate when value exceeds threshold''
        [''threshold_amount''] [''currency'', ''approver_role''],
      rule_type_def ''complexity_trigger'' Cfg_ESCALATION ''Escalate based on complexity indicators''
        [''indicator''] [''threshold''],
      rule_type_def ''customer_request'' Cfg_ESCALATION ''Escalate when customer explicitly requests human''
        [''enabled''] [''keywords''],
      rule_type_def ''conflict_escalation'' Cfg_ESCALATION ''Escalate on rule conflicts''
        [''enabled''] [''resolution_strategy''],
      rule_type_def ''timeout_escalation'' Cfg_ESCALATION ''Escalate when response time exceeded''
        [''timeout_minutes''] [''escalation_target''],
      rule_type_def ''repeat_escalation'' Cfg_ESCALATION ''Escalate after N failed automated attempts''
        [''max_attempts''] [''cooldown_minutes'']]"

definition registry :: "RuleTypeDefinition list" where
  "registry =
     service_rule_types @ pricing_rule_types @ availability_rule_types @ qualification_rule_types @
     policy_rule_types_1 @ policy_rule_types_2 @ communication_rule_types @ escalation_rule_types"

text \<open>The dictionary of the registry; \<open>register\<close> refuses a type that is already there.\<close>

definition register_rule_type :: "RuleTypeDefinition \<Rightarrow> RuleTypeDefinition list \<Rightarrow> err + RuleTypeDefinition list" where
  "register_rule_type t ts =
     (if \<exists>u\<in>set ts. rt_type_id u = rt_type_id t
      then Inl (ValueError (''Rule type '' @ rt_type_id t @ '' is already registered'')) else Inr (ts @ [t]))"

definition get_rule_type :: "string \<Rightarrow> RuleTypeDefinition option" where
  "get_rule_type i = List.find (\<lambda>t. rt_type_id t = i) registry"

definition is_known_rule_type :: "string \<Rightarrow> bool" where
  "is_known_rule_type i \<longleftrightarrow> i \<in> rt_type_id ` set registry"

definition get_rule_types_for_category :: "ConfigCategory \<Rightarrow> RuleTypeDefinition list" where
  "get_rule_types_for_category c = filter (\<lambda>t. rt_category t = c) registry"

section \<open>Validation\<close>

record ErrorDetail =
  ved_field :: string
  ved_message :: string
  ved_code :: string

definition add_error :: "string \<Rightarrow> string \<Rightarrow> string \<Rightarrow> ErrorDetail list" where
  "add_error f m c = [\<lparr>ved_field = f, ved_message = m, ved_code = c\<rparr>]"

text \<open>Single quotes around a word.\<close>

definition quoted :: "string \<Rightarrow> string" where
  "quoted w = [CHR 0x27] @ w @ [CHR 0x27]"

definition dict_has :: "json_obj \<Rightarrow> string \<Rightarrow> bool" where
  "dict_has d k \<longleftrightarrow> map_of d k \<noteq> None"

definition list_str :: "string list \<Rightarrow> string" where
  "list_str xs = py_str (JList (map JStr xs))"

text \<open>Membership in a frozenset of strings: an unhashable value is a TypeError.\<close>

definition in_frozenset :: "json \<Rightarrow> string list \<Rightarrow> err + bool" where
  "in_frozenset v xs = (if hashable v then Inr (v \<in> JStr ` set xs) else Inl (TypeError ''unhashable type''))"

definition is_str_in :: "json \<Rightarrow> string list \<Rightarrow> bool" where
  "is_str_in v xs \<longleftrightarrow> (case v of JStr s \<Rightarrow> s \<in> set xs | _ \<Rightarrow> False)"

subsection \<open>Configuration areas\<close>

text \<open>A set of names; its errors come in the set's arbitrary order, here the sorted one.\<close>

definition SUPPORTED_CONFIG_AREAS :: "string list" where
  "SUPPORTED_CONFIG_AREAS =
     [''availability'', ''communication'', ''escalation'', ''identity'', ''policies'', ''pricing'', ''qualification'', ''services'']"

fun CONFIG_AREA_FIELDS :: "string \<Rightarrow> ConfigCategory option" where
  "CONFIG_AREA_FIELDS a =
     (if a = ''identity'' \<or> a = ''services'' then Some Cfg_SERVICE
      else if a = ''pricing'' then Some Cfg_PRICING
      else if a = ''availability'' then Some Cfg_AVAILABILITY
      else if a = ''qualification'' then Some Cfg_QUALIFICATION
      else if a = ''policies'' then Some Cfg_POLICY
      else if a = ''escalation'' then Some Cfg_ESCALATION
      else if a = ''communication'' then Some Cfg_COMMUNICATION
      else None)"

definition unknown_area_errors :: "json_obj \<Rightarrow> ErrorDetail list" where
  "unknown_area_errors config =
     concat (map (\<lambda>key.
       if key \<notin> set SUPPORTED_CONFIG_AREAS \<and> key \<noteq> ''schema_version''
       then add_error (''config.'' @ key)
              (''Unknown configuration area: '' @ quoted key @ ''. Supported areas: '' @ list_str SUPPORTED_CONFIG_AREAS)
              ''unknown_config_area''
       else []) (map fst config))"

definition area_type_errors :: "json_obj \<Rightarrow> ErrorDetail list" where
  "area_type_errors config =
     concat (map (\<lambda>a.
       case dget_none config a of
         JNull \<Rightarrow> []
       | JObj _ \<Rightarrow> []
       | _ \<Rightarrow> add_error (''config.'' @ a)
                (''Configuration area '' @ quoted a @ '' must be a dictionary or null'') ''type_error'')
       SUPPORTED_CONFIG_AREAS)"

definition schema_version_errors :: "json_obj \<Rightarrow> ErrorDetail list" where
  "schema_version_errors config =
     (case map_of config ''schema_version'' of
        None \<Rightarrow> []
      | Some (JStr sv) \<Rightarrow>
          (if sv \<in> set SUPPORTED_SCHEMA_VERSIONS then []
           else add_error ''config.schema_version''
                  (''Unsupported schema version: '' @ quoted sv @ ''. Supported versions: '' @
                   list_str SUPPORTED_SCHEMA_VERSIONS)
                  ''unsupported_schema_version'')
      | Some _ \<Rightarrow> add_error ''config.schema_version'' ''schema_version must be a string'' ''type_error'')"

definition validate_brain_version_config :: "json \<Rightarrow> ErrorDetail list" where
  "validate_brain_version_config config =
     (case config of
        JNull \<Rightarrow> []
      | JObj c \<Rightarrow> unknown_area_errors c @ area_type_errors c @ schema_version_errors c
      | _ \<Rightarrow> add_error ''config'' ''Configuration must be a dictionary'' ''type_error'')"

subsection \<open>Rules\<close>

definition indexed :: "string \<Rightarrow> nat \<Rightarrow> string" where
  "indexed f i = f @ ''['' @ nat_str i @ '']''"

definition validate_condition :: "nat \<Rightarrow> json \<Rightarrow> ErrorDetail list" where
  "validate_condition i condition =
     (case condition of
        JObj c \<Rightarrow>
          (if dict_has c ''field'' then []
           else add_error (indexed ''rule_data.conditions'' i @ ''.field'') (''Condition must have a '' @ quoted ''field'' @ '' property'')
                  ''missing_required_field'') @
          (case map_of c ''operator'' of
             None \<Rightarrow> add_error (indexed ''rule_data.conditions'' i @ ''.operator'') (''Condition must have an '' @ quoted ''operator'' @ '' property'')
                       ''missing_required_field''
           | Some op \<Rightarrow>
               if is_str_in op SUPPORTED_OPERATORS then []
               else add_error (indexed ''rule_data.conditions'' i @ ''.operator'')
                      (''Unknown operator: '' @ quoted (py_str op) @ ''. Supported: '' @ list_str SUPPORTED_OPERATORS) ''unknown_operator'') @
          (if dget c ''operator'' (JStr []) \<notin> {JStr ''is_empty'', JStr ''is_not_empty''} \<and> \<not> dict_has c ''value''
           then add_error (indexed ''rule_data.conditions'' i @ ''.value'')
                  (''Condition with operator '' @ quoted (py_str (dget c ''operator'' (JStr []))) @ '' must have a '' @ quoted ''value'' @ '' property'')
                  ''missing_required_field''
           else [])
      | _ \<Rightarrow> add_error (indexed ''rule_data.conditions'' i) ''Each condition must be a dictionary'' ''type_error'')"

definition validate_conditions :: "json \<Rightarrow> ErrorDetail list" where
  "validate_conditions conditions =
     (case conditions of
        JList cs \<Rightarrow> concat (map (\<lambda>(i, c). validate_condition i c) (enumerate 0 cs))
      | _ \<Rightarrow> add_error ''rule_data.conditions'' ''Conditions must be a list'' ''type_error'')"

definition validate_action :: "nat \<Rightarrow> json \<Rightarrow> ErrorDetail list" where
  "validate_action i action =
     (case action of
        JObj a \<Rightarrow>
          (case map_of a ''outcome'' of
             None \<Rightarrow> add_error (indexed ''rule_data.actions'' i @ ''.outcome'') (''Action must have an '' @ quoted ''outcome'' @ '' property'')
                       ''missing_required_field''
           | Some out \<Rightarrow>
               if is_str_in out SUPPORTED_OUTCOMES then []
               else add_error (indexed ''rule_data.actions'' i @ ''.outcome'')
                      (''Unknown action outcome: '' @ quoted (py_str out) @ ''. Supported: '' @ list_str SUPPORTED_OUTCOMES) ''unknown_outcome'')
      | _ \<Rightarrow> add_error (indexed ''rule_data.actions'' i) ''Each action must be a dictionary'' ''type_error'')"

definition validate_actions :: "json \<Rightarrow> ErrorDetail list" where
  "validate_actions actions =
     (case actions of
        JList as \<Rightarrow> concat (map (\<lambda>(i, a). validate_action i a) (enumerate 0 as))
      | _ \<Rightarrow> add_error ''rule_data.actions'' ''Actions must be a list'' ''type_error'')"

definition validate_date_string :: "json \<Rightarrow> string \<Rightarrow> ErrorDetail list" where
  "validate_date_string v field_name =
     (case v of
        JStr s \<Rightarrow>
          (if length s < 10 \<or> s ! 4 \<noteq> CHR ''-''
           then add_error field_name (''Date must be ISO 8601 format, got: '' @ quoted s) ''invalid_date_format'' else [])
      | _ \<Rightarrow> add_error field_name ''Date must be an ISO 8601 string'' ''type_error'')"

definition priority_ok :: "json \<Rightarrow> bool" where
  "priority_ok v \<longleftrightarrow> (case v of JInt n \<Rightarrow> 0 \<le> n | JBool _ \<Rightarrow> True | _ \<Rightarrow> False)"

definition when_present :: "json_obj \<Rightarrow> string \<Rightarrow> (json \<Rightarrow> ErrorDetail list) \<Rightarrow> ErrorDetail list" where
  "when_present d k f = (case map_of d k of None \<Rightarrow> [] | Some v \<Rightarrow> f v)"

definition missing_field_errors :: "string \<Rightarrow> string list \<Rightarrow> json_obj \<Rightarrow> ErrorDetail list" where
  "missing_field_errors rtype req rd =
     concat (map (\<lambda>f.
       if dict_has rd f then []
       else add_error (''rule_data.'' @ f) (''Required field '' @ quoted f @ '' is missing for rule type '' @ quoted rtype) ''missing_required_field'')
       req)"

definition rule_data_errors :: "string \<Rightarrow> RuleTypeDefinition \<Rightarrow> json_obj \<Rightarrow> ErrorDetail list" where
  "rule_data_errors rtype defn rd =
     missing_field_errors rtype (rt_required_fields defn) rd @
     when_present rd ''conditions'' validate_conditions @
     when_present rd ''actions'' validate_actions @
     when_present rd ''scope'' (\<lambda>v.
       if is_str_in v SUPPORTED_SCOPES then []
       else add_error ''rule_data.scope'' (''Invalid scope: '' @ quoted (py_str v) @ ''. Supported: '' @ list_str SUPPORTED_SCOPES) ''invalid_scope'') @
     when_present rd ''priority'' (\<lambda>v.
       if priority_ok v then [] else add_error ''rule_data.priority'' ''Priority must be a non-negative integer'' ''invalid_priority'') @
     when_present rd ''effective_from'' (\<lambda>v. validate_date_string v ''rule_data.effective_from'') @
     when_present rd ''effective_until'' (\<lambda>v. validate_date_string v ''rule_data.effective_until'')"

definition unknown_type_error :: "string \<Rightarrow> ErrorDetail list" where
  "unknown_type_error t =
     add_error ''rule_type''
       (''Unknown rule type: '' @ quoted t @ ''. Use the rule-type registry to determine supported types.'')
       ''unknown_rule_type''"

definition effective_version :: "json \<Rightarrow> json_obj \<Rightarrow> json" where
  "effective_version schema_version rd =
     (if truthy schema_version then schema_version
      else if truthy (dget_none rd ''schema_version'') then dget_none rd ''schema_version''
      else JStr CURRENT_SCHEMA_VERSION)"

definition validate_rule_data :: "string \<Rightarrow> json \<Rightarrow> json \<Rightarrow> err + ErrorDetail list" where
  "validate_rule_data rtype rdata schema_version =
     (case get_rule_type rtype of
        None \<Rightarrow> Inr (unknown_type_error rtype)
      | Some defn \<Rightarrow>
          (case rdata of
             JObj rd \<Rightarrow>
               bindE (in_frozenset (effective_version schema_version rd) SUPPORTED_SCHEMA_VERSIONS) (\<lambda>ok.
               Inr ((if ok then []
                     else add_error ''rule_data.schema_version''
                            (''Unsupported schema version: '' @ quoted (py_str (effective_version schema_version rd)) @ ''. Supported: '' @
                             list_str SUPPORTED_SCHEMA_VERSIONS)
                            ''unsupported_schema_version'') @
                    rule_data_errors rtype defn rd))
           | _ \<Rightarrow> Inr (add_error ''rule_data'' ''rule_data must be a dictionary'' ''type_error'')))"

subsection \<open>Versions\<close>

text \<open>The rules are the pairs of type and data that the service takes from a version.\<close>

definition validate_rule_entry :: "nat \<Rightarrow> string \<times> json_obj \<Rightarrow> err + ErrorDetail list" where
  "validate_rule_entry i rule =
     (case rule of (rtype, rdata) \<Rightarrow>
        if rtype = []
        then Inr (add_error (indexed ''rules'' i @ ''.rule_type'') (''Rule must have a '' @ quoted ''rule_type'' @ '' property'') ''missing_required_field'')
        else bindE (validate_rule_data rtype (JObj rdata) JNull) (\<lambda>errors.
             Inr (map (\<lambda>e. e\<lparr>ved_field := indexed ''rules'' i @ ''.'' @ ved_field e\<rparr>) errors)))"

fun validate_rule_entries :: "nat \<Rightarrow> (string \<times> json_obj) list \<Rightarrow> err + ErrorDetail list" where
  "validate_rule_entries i [] = Inr []"
| "validate_rule_entries i (r # rs) =
     bindE (validate_rule_entry i r) (\<lambda>es. bindE (validate_rule_entries (Suc i) rs) (\<lambda>es'. Inr (es @ es')))"

definition validate_brain_version_full :: "json \<Rightarrow> (string \<times> json_obj) list \<Rightarrow> err + ErrorDetail list" where
  "validate_brain_version_full config rules =
     bindE (validate_rule_entries 0 rules) (\<lambda>es. Inr (validate_brain_version_config config @ es))"

section \<open>Lemmas\<close>

lemmas rule_types_defs =
  service_rule_types_def pricing_rule_types_def availability_rule_types_def qualification_rule_types_def
  policy_rule_types_1_def policy_rule_types_2_def communication_rule_types_def escalation_rule_types_def

lemma rt_type_id_def [simp]: "rt_type_id (rule_type_def i c d req opt) = i"
  by (simp add: rule_type_def_def)

lemma registry_distinct: "distinct (map rt_type_id registry)"
  by code_simp

lemma register_all:
  "distinct (map rt_type_id (ts @ us)) \<Longrightarrow> foldE register_rule_type us ts = Inr (ts @ us)"
proof (induction us arbitrary: ts)
  case (Cons u us)
  have "rt_type_id u \<notin> rt_type_id ` set ts" using Cons.prems by simp
  then have "register_rule_type u ts = Inr (ts @ [u])" by (metis (no_types, lifting) image_eqI register_rule_type_def)
  then show ?case using Cons.IH [of "ts @ [u]"] Cons.prems by simp
qed simp

lemma registry_loads: "foldE register_rule_type registry [] = Inr registry"
  using register_all [of "[]" registry] registry_distinct by simp

lemma is_known_rule_type_iff: "is_known_rule_type i \<longleftrightarrow> get_rule_type i \<noteq> None"
  by (auto simp: is_known_rule_type_def get_rule_type_def find_None_iff)

lemma find_SomeD: "List.find P xs = Some x \<Longrightarrow> x \<in> set xs \<and> P x"
  by (induction xs) (auto split: if_splits)

lemma registered_unique:
  assumes "get_rule_type t = Some defn"
  shows "(\<exists>u\<in>set registry. rt_type_id u = t \<and> P u) \<longleftrightarrow> P defn"
proof -
  have "defn \<in> set registry" "rt_type_id defn = t"
    using assms find_SomeD unfolding get_rule_type_def by fast+
  moreover have "inj_on rt_type_id (set registry)" using registry_distinct by (simp only: distinct_map)
  ultimately show ?thesis by (metis inj_onD)
qed

lemma unregistered: "get_rule_type t = None \<Longrightarrow> u \<in> set registry \<Longrightarrow> rt_type_id u \<noteq> t"
  unfolding get_rule_type_def find_None_iff by blast

text \<open>The types that the endpoint's schema admits.\<close>

definition api_rule_types :: "string list" where
  "api_rule_types = [''pricing'', ''policy'', ''qualification'', ''availability'', ''escalation'']"

lemma api_rule_types_unknown: "t \<in> set api_rule_types \<Longrightarrow> get_rule_type t = None"
proof -
  have "list_all (\<lambda>t. get_rule_type t = None) api_rule_types" by code_simp
  then show "t \<in> set api_rule_types \<Longrightarrow> get_rule_type t = None" by (simp add: list_all_iff)
qed

text \<open>The reference: what a well-formed rule is.\<close>

fun condition_ok :: "json \<Rightarrow> bool" where
  "condition_ok (JObj c) \<longleftrightarrow>
     dict_has c ''field'' \<and> (\<exists>op\<in>set SUPPORTED_OPERATORS. map_of c ''operator'' = Some (JStr op) \<and>
       (op \<in> {''is_empty'', ''is_not_empty''} \<or> dict_has c ''value''))"
| "condition_ok _ \<longleftrightarrow> False"

fun action_ok :: "json \<Rightarrow> bool" where
  "action_ok (JObj a) \<longleftrightarrow> (\<exists>out\<in>set SUPPORTED_OUTCOMES. map_of a ''outcome'' = Some (JStr out))"
| "action_ok _ \<longleftrightarrow> False"

fun list_of :: "(json \<Rightarrow> bool) \<Rightarrow> json \<Rightarrow> bool" where
  "list_of P (JList xs) \<longleftrightarrow> list_all P xs"
| "list_of P _ \<longleftrightarrow> False"

fun date_ok :: "json \<Rightarrow> bool" where
  "date_ok (JStr s) \<longleftrightarrow> 10 \<le> length s \<and> s ! 4 = CHR ''-''"
| "date_ok _ \<longleftrightarrow> False"

definition if_present :: "json_obj \<Rightarrow> string \<Rightarrow> (json \<Rightarrow> bool) \<Rightarrow> bool" where
  "if_present d k P \<longleftrightarrow> (case map_of d k of None \<Rightarrow> True | Some v \<Rightarrow> P v)"

definition well_formed_rule :: "string \<Rightarrow> json_obj \<Rightarrow> bool" where
  "well_formed_rule t rd \<longleftrightarrow>
     (\<exists>defn\<in>set registry. rt_type_id defn = t \<and> (\<forall>f\<in>set (rt_required_fields defn). dict_has rd f)) \<and>
     if_present rd ''schema_version'' (\<lambda>v. truthy v \<longrightarrow> v = JStr ''1.0'') \<and>
     if_present rd ''conditions'' (list_of condition_ok) \<and> if_present rd ''actions'' (list_of action_ok) \<and>
     if_present rd ''scope'' (\<lambda>v. v \<in> JStr ` set SUPPORTED_SCOPES) \<and> if_present rd ''priority'' priority_ok \<and>
     if_present rd ''effective_from'' date_ok \<and> if_present rd ''effective_until'' date_ok"

lemma add_error_ne [simp]: "add_error f m c \<noteq> []"
  by (simp add: add_error_def)

lemma no_error_if: "(if b then [] else add_error f m c) = [] \<longleftrightarrow> b"
  by simp

lemma is_str_in_iff: "is_str_in v xs \<longleftrightarrow> v \<in> JStr ` set xs"
  by (cases v) (auto simp: is_str_in_def)

lemma no_indexed_errors:
  assumes "\<And>i x. f i x = [] \<longleftrightarrow> P x"
  shows "concat (map (\<lambda>(i, x). f i x) (enumerate n xs)) = [] \<longleftrightarrow> list_all P xs"
  using assms by (induction xs arbitrary: n) auto

lemma validate_condition_ok: "validate_condition i c = [] \<longleftrightarrow> condition_ok c"
proof (cases c)
  case (JObj d)
  show ?thesis
  proof (cases "map_of d ''operator''")
    case (Some op)
    then show ?thesis
      by (cases op) (auto simp: JObj validate_condition_def is_str_in_def dget_def)
  qed (simp add: JObj validate_condition_def)
qed (simp_all add: validate_condition_def)

lemma validate_conditions_ok: "validate_conditions v = [] \<longleftrightarrow> list_of condition_ok v"
  by (cases v) (simp_all add: validate_conditions_def no_indexed_errors [OF validate_condition_ok] del: concat_eq_Nil_conv)

lemma validate_action_ok: "validate_action i a = [] \<longleftrightarrow> action_ok a"
  by (cases a) (auto simp: validate_action_def is_str_in_iff split: option.split)

lemma validate_actions_ok: "validate_actions v = [] \<longleftrightarrow> list_of action_ok v"
  by (cases v) (simp_all add: validate_actions_def no_indexed_errors [OF validate_action_ok] del: concat_eq_Nil_conv)

lemma validate_date_ok: "validate_date_string v f = [] \<longleftrightarrow> date_ok v"
  by (cases v) (auto simp: validate_date_string_def)

lemma when_present_ok: "(\<And>v. f v = [] \<longleftrightarrow> P v) \<Longrightarrow> when_present d k f = [] \<longleftrightarrow> if_present d k P"
  by (simp add: when_present_def if_present_def split: option.split)

lemma missing_fields_ok: "missing_field_errors t req rd = [] \<longleftrightarrow> (\<forall>f\<in>set req. dict_has rd f)"
  by (induction req) (simp_all add: missing_field_errors_def del: concat_eq_Nil_conv)

lemma rule_data_errors_ok:
  "rule_data_errors t defn rd = [] \<longleftrightarrow>
     (\<forall>f\<in>set (rt_required_fields defn). dict_has rd f) \<and>
     if_present rd ''conditions'' (list_of condition_ok) \<and> if_present rd ''actions'' (list_of action_ok) \<and>
     if_present rd ''scope'' (\<lambda>v. v \<in> JStr ` set SUPPORTED_SCOPES) \<and> if_present rd ''priority'' priority_ok \<and>
     if_present rd ''effective_from'' date_ok \<and> if_present rd ''effective_until'' date_ok"
proof -
  have scope: "when_present rd ''scope'' (\<lambda>v. if is_str_in v SUPPORTED_SCOPES then [] else add_error a (b v) c) = [] \<longleftrightarrow>
      if_present rd ''scope'' (\<lambda>v. v \<in> JStr ` set SUPPORTED_SCOPES)" for a b c
    by (rule when_present_ok) (simp add: is_str_in_iff)
  have prio: "when_present rd ''priority'' (\<lambda>v. if priority_ok v then [] else add_error a b c) = [] \<longleftrightarrow>
      if_present rd ''priority'' priority_ok" for a b c
    by (rule when_present_ok) simp
  show ?thesis
    unfolding rule_data_errors_def append_is_Nil_conv scope prio missing_fields_ok
      when_present_ok [OF validate_conditions_ok] when_present_ok [OF validate_actions_ok] when_present_ok [OF validate_date_ok]
    by (rule refl)
qed

lemma validation_iff:
  "validate_rule_data t (JObj rd) JNull = Inr [] \<longleftrightarrow> well_formed_rule t rd"
proof -
  have version: "in_frozenset (effective_version JNull rd) SUPPORTED_SCHEMA_VERSIONS = Inr True \<longleftrightarrow>
      if_present rd ''schema_version'' (\<lambda>v. truthy v \<longrightarrow> v = JStr ''1.0'')"
    by (auto simp: effective_version_def if_present_def in_frozenset_def dget_none_def dget_def CURRENT_SCHEMA_VERSION_def
        SUPPORTED_SCHEMA_VERSIONS_def split: option.splits)
  show ?thesis
  proof (cases "get_rule_type t")
    case None
    then show ?thesis
      using unregistered by (auto simp: validate_rule_data_def unknown_type_error_def well_formed_rule_def)
  next
    case (Some defn)
    have "well_formed_rule t rd \<longleftrightarrow>
        in_frozenset (effective_version JNull rd) SUPPORTED_SCHEMA_VERSIONS = Inr True \<and> rule_data_errors t defn rd = []"
      unfolding well_formed_rule_def registered_unique [OF Some] rule_data_errors_ok version by (rule conj_left_commute)
    then show ?thesis
      unfolding validate_rule_data_def Some option.case json.case
      by (cases "in_frozenset (effective_version JNull rd) SUPPORTED_SCHEMA_VERSIONS")
        (simp_all only: bindE_simps sum.inject sum.distinct append_is_Nil_conv no_error_if HOL.simp_thms)
  qed
qed

text \<open>The outcome of a well-formed rule is a string, and its actions are dictionaries.\<close>

lemma extract_outcome_ok: "list_all action_ok as \<Longrightarrow> \<exists>out. extract_outcome as = Some (JStr out)"
proof (induction as)
  case (Cons a as)
  then show ?case by (cases a) (auto simp: dget_none_def dget_def SUPPORTED_OUTCOMES_def)
qed simp

lemma action_role_ok: "list_all action_ok as \<Longrightarrow> action_role as \<noteq> None"
proof (induction as)
  case (Cons a as)
  then show ?case by (cases a) auto
qed simp

lemma well_formed_match:
  assumes "well_formed_rule (rule_type r) (rule_data r)" "evaluate_rule re_search ctx r = RMatch m"
  shows "\<exists>out. mr_outcome m = JStr out \<and> list_all action_ok (mr_actions m)"
proof -
  have "if_present (rule_data r) ''actions'' (list_of action_ok)" using assms(1) by (simp only: well_formed_rule_def)
  then obtain as where as: "dget (rule_data r) ''actions'' (JList []) = JList as" "list_all action_ok as"
    by (cases "dget (rule_data r) ''actions'' (JList [])") (auto simp: if_present_def dget_def split: option.splits)
  then show ?thesis
    using assms(2) extract_outcome_ok [OF as(2)]
    by (auto simp: evaluate_rule_def Let_def match_rule_def split: if_splits option.splits list.splits bool.splits)
qed

lemma resolve_approver_role_ok: "\<forall>m\<in>set ms. list_all action_ok (mr_actions m) \<Longrightarrow> resolve_approver_role ms \<noteq> None"
proof (induction ms)
  case (Cons m ms)
  then show ?case using action_role_ok [of "mr_actions m"] by (auto split: option.split)
qed simp

lemma decision_total:
  assumes "\<forall>m\<in>set ms. (\<exists>out. mr_outcome m = JStr out) \<and> list_all action_ok (mr_actions m)"
  shows "\<exists>cs d. detect_conflicts ms = Some cs \<and> build_decision vid ms cs info = Some d"
proof -
  have hash: "hashable (mr_outcome m)" if "m \<in> set ms" for m
  proof -
    obtain out where "mr_outcome m = JStr out" using assms \<open>m \<in> set ms\<close> by blast
    then show ?thesis by simp
  qed
  have "p \<in> set (same_type_pairs ms) \<Longrightarrow> fst p \<in> set ms \<and> snd p \<in> set ms" for p
    by (cases p) (auto simp: same_type_pairs_def dest!: pairs_subset)
  then obtain cs where cs: "detect_conflicts ms = Some cs" using hash by (simp add: detect_conflicts_def list_all_iff)
  have "resolve_approver_role (with_outcome ''require_approval'' ms) \<noteq> None"
    by (rule resolve_approver_role_ok) (use assms in \<open>simp add: with_outcome_def\<close>)
  then obtain role where role: "resolve_approver_role (with_outcome ''require_approval'' ms) = Some role" by blast
  have "build_decision vid ms cs info \<noteq> None"
    unfolding build_decision_def Let_def role using hash by (simp add: list_all_iff)
  then show ?thesis using cs by blast
qed

lemma validated_rules:
  "validate_rule_entries i rs = Inr [] \<Longrightarrow> (t, rd) \<in> set rs \<Longrightarrow> validate_rule_data t (JObj rd) JNull = Inr []"
proof (induction rs arbitrary: i)
  case (Cons r rs)
  then show ?case by (auto simp: bindE_Inr_iff validate_rule_entry_def split: if_splits prod.splits)
qed simp

lemma validated_decides:
  assumes "validate_brain_version_full config (map (\<lambda>r. (rule_type r, rule_data r)) (bv_rules v)) = Inr []"
  shows "\<exists>d. brain_evaluate re_search v ctx = Some d"
proof -
  have "validate_rule_entries 0 (map (\<lambda>r. (rule_type r, rule_data r)) (bv_rules v)) = Inr []"
    using assms by (auto simp: validate_brain_version_full_def bindE_Inr_iff)
  then have rule: "validate_rule_data (rule_type r) (JObj (rule_data r)) JNull = Inr []" if "r \<in> set (bv_rules v)" for r
    by (rule validated_rules) (use that in auto)
  have ok: "well_formed_rule (rule_type r) (rule_data r)" if "r \<in> set (bv_rules v)" for r
    using rule [OF that] by (simp only: validation_iff)
  have "\<forall>m\<in>set (matched_rules (map (evaluate_rule re_search ctx) (bv_rules v))).
      (\<exists>out. mr_outcome m = JStr out) \<and> list_all action_ok (mr_actions m)"
    using well_formed_match [OF ok] by (fastforce simp: matched_rules_def split: rule_verdict.splits)
  from decision_total [OF this] show ?thesis
    unfolding brain_evaluate_def Let_def by (metis (no_types, lifting) option.case(2))
qed

section \<open>Properties\<close>


text \<open>C26: A version that structural validation accepts never makes the evaluator raise: whatever the context,
  the Business Brain comes to a decision.\<close>

theorem validated_version_always_decides:
  assumes "validate_brain_version_full config (map (\<lambda>r. (rule_type r, rule_data r)) (bv_rules v)) = Inr []"
  shows "\<exists>d. brain_evaluate re_search v ctx = Some d"
  using assms by (rule validated_decides)

definition deny_rule :: BusinessRule where
  "deny_rule =
     sample_rule 11 ''value_threshold'' [(''threshold_amount'', JInt 500),
       (''conditions'', JList [JObj [(''field'', JStr ''amount''), (''operator'', JStr ''greater_than''), (''value'', JInt 500)]]),
       (''actions'', JList [JObj [(''outcome'', JStr ''deny'')]])]"

theorem validated_version_always_decides_witness:
  "\<exists>d. brain_evaluate no_regex (sample_version [deny_rule]) [(''amount'', JInt 900)] = Some d"
proof -
  have "validate_brain_version_full JNull (map (\<lambda>r. (rule_type r, rule_data r)) (bv_rules (sample_version [deny_rule]))) = Inr []"
    by code_simp
  then show ?thesis by (rule validated_version_always_decides)
qed

end
