(* ===== verification/Brain_Authoring.thy ===== *)
theory Brain_Authoring
  imports Brain_Registry
begin

text \<open>
  Authoring of the Business Brain: versions, rules and their lifecycle
  (src/backend/app/domain/business/service.py and the repositories of repository.py), the approval
  policy (approval.py), the role checks (auth.py) and the endpoints of
  src/backend/app/api/v1/brain.py.

  The rules of a version are kept in its row.  A version that has left its drafting statuses has
  passed structural validation and stays as it is: so whatever the endpoints do, the active version
  of a business always comes to a decision.
\<close>

section \<open>Repositories\<close>

definition put_version :: "BrainVersion \<Rightarrow> db \<Rightarrow> db" where
  "put_version v d = d\<lparr>t_brain_versions := upd_row bv_id (bv_id v) (\<lambda>_. v) (t_brain_versions d)\<rparr>"

definition put_brain :: "BusinessBrain \<Rightarrow> db \<Rightarrow> db" where
  "put_brain b d = d\<lparr>t_brains := upd_row br_id (br_id b) (\<lambda>_. b) (t_brains d)\<rparr>"

text \<open>The number of a new version counts deleted versions too.\<close>

definition get_next_version_number :: "uuid \<Rightarrow> db \<Rightarrow> nat" where
  "get_next_version_number brain_id d =
     fold max (map bv_version_number (filter (\<lambda>v. bv_brain_id v = brain_id) (t_brain_versions d))) 0 + 1"

definition get_active_by_brain_id :: "uuid \<Rightarrow> db \<Rightarrow> err + BrainVersion option" where
  "get_active_by_brain_id brain_id d =
     scalar_one_or_none (filter (\<lambda>v. bv_brain_id v = brain_id \<and> bv_status v = Bvs_ACTIVE \<and> \<not> bv_deleted v) (t_brain_versions d))"

text \<open>A live rule with the identifier of its version.\<close>

definition find_rule :: "uuid \<Rightarrow> db \<Rightarrow> (uuid \<times> BusinessRule) option" where
  "find_rule i d =
     List.find (\<lambda>(v, r). rule_id r = i \<and> \<not> rule_deleted r)
       (concat (map (\<lambda>v. map (Pair (bv_id v)) (bv_rules v)) (t_brain_versions d)))"

section \<open>Approval\<close>

datatype ApprovalDecision =
    Apr_APPROVED | Apr_DENIED | Apr_SELF_APPROVAL_NOT_PERMITTED | Apr_INSUFFICIENT_ROLE | Apr_MULTIPLE_APPROVALS_REQUIRED

record ApprovalPolicy =
  ap_self_approval_allowed :: bool
  ap_minimum_approver_role :: BusinessMemberRole
  ap_required_approvals :: int
  ap_sensitive_rule_types :: "string list"
  ap_sensitive_approver_role :: BusinessMemberRole
  ap_approval_timeout_hours :: "int option"

fun role_level :: "BusinessMemberRole \<Rightarrow> nat" where
  "role_level Bmr_OWNER = 3"
| "role_level Bmr_ADMIN = 2"
| "role_level Bmr_STAFF = 1"

definition required_role :: "ApprovalPolicy \<Rightarrow> string list \<Rightarrow> BusinessMemberRole" where
  "required_role p rule_types =
     (if \<exists>t\<in>set rule_types. t \<in> set (ap_sensitive_rule_types p) then ap_sensitive_approver_role p
      else ap_minimum_approver_role p)"

definition check_approval :: "ApprovalPolicy \<Rightarrow> BusinessMemberRole \<Rightarrow> bool \<Rightarrow> string list \<Rightarrow> int \<Rightarrow> ApprovalDecision" where
  "check_approval p approver_role is_author rule_types existing_approvals =
     (if role_level approver_role < role_level (required_role p rule_types) then Apr_INSUFFICIENT_ROLE
      else if is_author \<and> \<not> ap_self_approval_allowed p then Apr_SELF_APPROVAL_NOT_PERMITTED
      else if existing_approvals \<ge> ap_required_approvals p then Apr_APPROVED
      else if existing_approvals + 1 \<ge> ap_required_approvals p then Apr_APPROVED
      else Apr_MULTIPLE_APPROVALS_REQUIRED)"

definition DEFAULT_APPROVAL_POLICY :: ApprovalPolicy where
  "DEFAULT_APPROVAL_POLICY =
     \<lparr>ap_self_approval_allowed = True, ap_minimum_approver_role = Bmr_OWNER, ap_required_approvals = 1,
      ap_sensitive_rule_types = [], ap_sensitive_approver_role = Bmr_OWNER,
      ap_approval_timeout_hours = None\<rparr>"

definition STRICT_APPROVAL_POLICY :: ApprovalPolicy where
  "STRICT_APPROVAL_POLICY =
     \<lparr>ap_self_approval_allowed = False, ap_minimum_approver_role = Bmr_OWNER, ap_required_approvals = 1,
      ap_sensitive_rule_types = [], ap_sensitive_approver_role = Bmr_OWNER,
      ap_approval_timeout_hours = None\<rparr>"

definition ENTERPRISE_APPROVAL_POLICY :: ApprovalPolicy where
  "ENTERPRISE_APPROVAL_POLICY =
     \<lparr>ap_self_approval_allowed = False, ap_minimum_approver_role = Bmr_ADMIN, ap_required_approvals = 2,
      ap_sensitive_rule_types = [''base_pricing'', ''surcharge'', ''discount'', ''price_floor'', ''price_cap'',
        ''cancellation_policy'', ''refund_policy''],
      ap_sensitive_approver_role = Bmr_OWNER,
      ap_approval_timeout_hours = None\<rparr>"

fun parse_member_role :: "json \<Rightarrow> err + BusinessMemberRole" where
  "parse_member_role (JStr s) =
     (if s = ''owner'' then Inr Bmr_OWNER
      else if s = ''admin'' then Inr Bmr_ADMIN
      else if s = ''staff'' then Inr Bmr_STAFF
      else Inl (ValueError ''BusinessMemberRole''))"
| "parse_member_role _ = Inl (ValueError ''BusinessMemberRole'')"

text \<open>A number of approvals that is no integer fails the comparison of \<open>check_approval\<close>; here it is refused.\<close>

fun int_member :: "json \<Rightarrow> err + int" where
  "int_member (JInt n) = Inr n"
| "int_member (JBool b) = Inr (if b then 1 else 0)"
| "int_member _ = Inl (TypeError ''required_approvals'')"

definition resolve_approval_policy :: "json_obj option \<Rightarrow> err + ApprovalPolicy" where
  "resolve_approval_policy config =
     (case config of
        None \<Rightarrow> Inr DEFAULT_APPROVAL_POLICY
      | Some [] \<Rightarrow> Inr DEFAULT_APPROVAL_POLICY
      | Some c \<Rightarrow>
          bindE (parse_member_role (dget c ''minimum_approver_role'' (JStr ''owner''))) (\<lambda>role.
          bindE (int_member (dget c ''required_approvals'' (JInt 1))) (\<lambda>n.
          Inr \<lparr>ap_self_approval_allowed = truthy (dget c ''self_approval_allowed'' (JBool True)),
               ap_minimum_approver_role = role, ap_required_approvals = n, ap_sensitive_rule_types = [],
               ap_sensitive_approver_role = Bmr_OWNER, ap_approval_timeout_hours = None\<rparr>)))"

section \<open>Versions\<close>

definition messages :: "ErrorDetail list \<Rightarrow> string" where
  "messages es = list_str (map ved_message es)"

definition valid_or :: "string \<Rightarrow> ErrorDetail list \<Rightarrow> err + unit" where
  "valid_or msg es = guardE (es = []) (ValidationError (msg @ messages es))"

definition get_or_create_brain :: "uuid \<Rightarrow> db \<Rightarrow> err + BusinessBrain \<times> db" where
  "get_or_create_brain business_id d =
     bindE (get_brain_by_business_id business_id d) (\<lambda>brain.
     case brain of
       Some b \<Rightarrow> Inr (b, d)
     | None \<Rightarrow>
         if business_id \<in> br_business_id ` set (t_brains d)
         then Inl (NotFoundError ''Business brain not found after concurrent creation'')
         else (let b = \<lparr>br_id = fresh_id d, br_business_id = business_id, br_active_version_id = None, br_deleted = False\<rparr>
               in Inr (b, used_id (d\<lparr>t_brains := t_brains d @ [b]\<rparr>))))"

definition new_version :: "uuid \<Rightarrow> uuid \<Rightarrow> nat \<Rightarrow> json_obj \<Rightarrow> BrainVersion" where
  "new_version i brain_id n config =
     \<lparr>bv_id = i, bv_brain_id = brain_id, bv_version_number = n, bv_status = Bvs_DRAFT,
      bv_identity_config = dget_none config ''identity'', bv_services_config = dget_none config ''services'',
      bv_pricing_config = dget_none config ''pricing'', bv_availability_config = dget_none config ''availability'',
      bv_qualification_config = dget_none config ''qualification'', bv_policies_config = dget_none config ''policies'',
      bv_escalation_config = dget_none config ''escalation'', bv_communication_config = dget_none config ''communication'',
      bv_rules = [], bv_deleted = False\<rparr>"

definition create_version :: "uuid \<Rightarrow> json_obj option \<Rightarrow> db \<Rightarrow> err + BrainVersion \<times> db" where
  "create_version brain_id config d =
     (let config = (case config of None \<Rightarrow> [] | Some c \<Rightarrow> c) in
      bindE (valid_or ''Brain configuration is invalid: '' (validate_brain_version_config (JObj config))) (\<lambda>_.
      let v = new_version (fresh_id d) brain_id (get_next_version_number brain_id d) config
      in Inr (v, used_id (d\<lparr>t_brain_versions := t_brain_versions d @ [v]\<rparr>))))"

definition version_config :: "BrainVersion \<Rightarrow> json_obj" where
  "version_config v =
     filter (\<lambda>(k, x). x \<noteq> JNull)
       [(''identity'', bv_identity_config v), (''services'', bv_services_config v), (''pricing'', bv_pricing_config v),
        (''availability'', bv_availability_config v), (''qualification'', bv_qualification_config v),
        (''policies'', bv_policies_config v), (''escalation'', bv_escalation_config v),
        (''communication'', bv_communication_config v)]"

text \<open>The relationship that loads the rules of a version does not leave out deleted ones.\<close>

definition validate_version_structure :: "BrainVersion \<Rightarrow> err + ErrorDetail list" where
  "validate_version_structure v =
     validate_brain_version_full (JObj (version_config v)) (map (\<lambda>r. (rule_type r, rule_data r)) (bv_rules v))"

definition get_version :: "uuid \<Rightarrow> db \<Rightarrow> err + BrainVersion" where
  "get_version i d = requireE (NotFoundError (''Brain version '' @ nat_str i @ '' not found'')) (find_version i d)"

definition transition_version :: "uuid \<Rightarrow> BrainVersionStatus \<Rightarrow> db \<Rightarrow> err + BrainVersion \<times> db" where
  "transition_version i target d =
     bindE (get_version i d) (\<lambda>v.
     bindE (guardE (target \<in> BRAIN_VERSION_TRANSITIONS (bv_status v)) (StateTransitionError ''brain version'')) (\<lambda>_.
     bindE (if target = Bvs_REVIEW
            then bindE (validate_version_structure v) (valid_or ''Brain version cannot enter REVIEW: '')
            else Inr ()) (\<lambda>_.
     let v' = v\<lparr>bv_status := target\<rparr> in Inr (v', put_version v' d))))"

definition ensure_mutable :: "BrainVersion \<Rightarrow> err + unit" where
  "ensure_mutable v = guardE (bv_status v = Bvs_DRAFT) (DomainError ''Brain version is immutable'')"

definition if_given :: "json_obj \<Rightarrow> string \<Rightarrow> (json \<Rightarrow> BrainVersion \<Rightarrow> BrainVersion) \<Rightarrow> BrainVersion \<Rightarrow> BrainVersion" where
  "if_given config k f v = (case map_of config k of None \<Rightarrow> v | Some x \<Rightarrow> f x v)"

definition set_config :: "json_obj \<Rightarrow> BrainVersion \<Rightarrow> BrainVersion" where
  "set_config config v =
     if_given config ''communication'' (\<lambda>x v. v\<lparr>bv_communication_config := x\<rparr>)
     (if_given config ''escalation'' (\<lambda>x v. v\<lparr>bv_escalation_config := x\<rparr>)
     (if_given config ''policies'' (\<lambda>x v. v\<lparr>bv_policies_config := x\<rparr>)
     (if_given config ''qualification'' (\<lambda>x v. v\<lparr>bv_qualification_config := x\<rparr>)
     (if_given config ''availability'' (\<lambda>x v. v\<lparr>bv_availability_config := x\<rparr>)
     (if_given config ''pricing'' (\<lambda>x v. v\<lparr>bv_pricing_config := x\<rparr>)
     (if_given config ''services'' (\<lambda>x v. v\<lparr>bv_services_config := x\<rparr>)
     (if_given config ''identity'' (\<lambda>x v. v\<lparr>bv_identity_config := x\<rparr>) v)))))))"

definition update_version_config :: "uuid \<Rightarrow> json_obj \<Rightarrow> db \<Rightarrow> err + BrainVersion \<times> db" where
  "update_version_config i config d =
     bindE (get_version i d) (\<lambda>v.
     bindE (ensure_mutable v) (\<lambda>_.
     bindE (valid_or ''Brain configuration is invalid: '' (validate_brain_version_config (JObj config))) (\<lambda>_.
     let v' = set_config config v in Inr (v', put_version v' d))))"

definition supersede :: "BrainVersion option \<Rightarrow> uuid \<Rightarrow> db \<Rightarrow> db" where
  "supersede current i d =
     (case current of
        None \<Rightarrow> d
      | Some c \<Rightarrow> if bv_id c = i then d else put_version (c\<lparr>bv_status := Bvs_SUPERSEDED\<rparr>) d)"

definition activate_version :: "uuid \<Rightarrow> uuid \<Rightarrow> db \<Rightarrow> err + BusinessBrain \<times> db" where
  "activate_version business_id i d =
     bindE (get_brain_by_business_id business_id d) (\<lambda>brain.
     bindE (requireE (NotFoundError ''Business brain not found'') brain) (\<lambda>b.
     bindE (get_version i d) (\<lambda>v.
     bindE (guardE (bv_status v \<in> {Bvs_APPROVED, Bvs_ACTIVE})
              (DomainError ''Only APPROVED or ACTIVE versions can be activated'')) (\<lambda>_.
     bindE (get_active_by_brain_id (br_id b) d) (\<lambda>current.
     let d1 = supersede current i d;
         d2 = (if bv_status v = Bvs_APPROVED then put_version (v\<lparr>bv_status := Bvs_ACTIVE\<rparr>) d1 else d1);
         b' = b\<lparr>br_active_version_id := Some i\<rparr>
     in Inr (b', put_brain b' d2))))))"

definition validate_version :: "uuid \<Rightarrow> db \<Rightarrow> err + ErrorDetail list" where
  "validate_version i d = bindE (get_version i d) validate_version_structure"

definition approve_version :: "uuid \<Rightarrow> BusinessMemberRole \<Rightarrow> bool \<Rightarrow> db \<Rightarrow> err + BrainVersion \<times> db" where
  "approve_version i approver_role is_author d =
     bindE (get_version i d) (\<lambda>v.
     bindE (guardE (bv_status v = Bvs_REVIEW) (DomainError ''Only REVIEW versions can be approved'')) (\<lambda>_.
     bindE (resolve_approval_policy None) (\<lambda>p.
     bindE (guardE (check_approval p approver_role is_author (map rule_type (bv_rules v)) 0 = Apr_APPROVED)
              (AuthorizationError ''Approval denied'')) (\<lambda>_.
     let v' = v\<lparr>bv_status := Bvs_APPROVED\<rparr> in Inr (v', put_version v' d)))))"

section \<open>Rules\<close>

definition with_schema_version :: "json_obj \<Rightarrow> json_obj" where
  "with_schema_version rd =
     (if dict_has rd ''schema_version'' then rd else rd @ [(''schema_version'', JStr CURRENT_SCHEMA_VERSION)])"

definition rule_valid :: "string \<Rightarrow> json_obj \<Rightarrow> err + unit" where
  "rule_valid t rd = bindE (validate_rule_data t (JObj rd) JNull) (valid_or ''Rule data is invalid: '')"

definition add_rule ::
  "uuid \<Rightarrow> string \<Rightarrow> string \<Rightarrow> json_obj \<Rightarrow> string option \<Rightarrow> int \<Rightarrow> db \<Rightarrow> err + BusinessRule \<times> db" where
  "add_rule version_id t name rd description priority d =
     bindE (get_version version_id d) (\<lambda>v.
     bindE (ensure_mutable v) (\<lambda>_.
     bindE (if is_known_rule_type t then rule_valid t rd else Inr ()) (\<lambda>_.
     let r = \<lparr>rule_id = fresh_id d, rule_type = t, rule_name = name, rule_description = description,
              rule_data = with_schema_version rd, rule_priority = priority, rule_is_active = True, rule_deleted = False\<rparr>
     in Inr (r, used_id (put_version (v\<lparr>bv_rules := bv_rules v @ [r]\<rparr>) d)))))"

record RuleUpdates =
  ru_name :: "string option"
  ru_description :: "string option"
  ru_rule_data :: "json_obj option"
  ru_priority :: "int option"
  ru_is_active :: "bool option"

definition updated_rule :: "RuleUpdates \<Rightarrow> BusinessRule \<Rightarrow> BusinessRule" where
  "updated_rule u r =
     r\<lparr>rule_name := (case ru_name u of None \<Rightarrow> rule_name r | Some x \<Rightarrow> x),
       rule_description := (case ru_description u of None \<Rightarrow> rule_description r | Some x \<Rightarrow> Some x),
       rule_data := (case ru_rule_data u of None \<Rightarrow> rule_data r | Some x \<Rightarrow> x),
       rule_priority := (case ru_priority u of None \<Rightarrow> rule_priority r | Some x \<Rightarrow> x),
       rule_is_active := (case ru_is_active u of None \<Rightarrow> rule_is_active r | Some x \<Rightarrow> x)\<rparr>"

definition rule_in_draft :: "uuid \<Rightarrow> db \<Rightarrow> err + BusinessRule \<times> BrainVersion" where
  "rule_in_draft i d =
     bindE (requireE (NotFoundError (''Business rule '' @ nat_str i @ '' not found'')) (find_rule i d)) (\<lambda>(version_id, r).
     bindE (requireE (NotFoundError ''Parent brain version not found'') (find_version version_id d)) (\<lambda>v.
     bindE (ensure_mutable v) (\<lambda>_. Inr (r, v))))"

definition update_rule :: "uuid \<Rightarrow> RuleUpdates \<Rightarrow> db \<Rightarrow> err + BusinessRule \<times> db" where
  "update_rule i u d =
     bindE (rule_in_draft i d) (\<lambda>(r, v).
     bindE (case ru_rule_data u of None \<Rightarrow> Inr () | Some rd \<Rightarrow> rule_valid (rule_type r) rd) (\<lambda>_.
     Inr (updated_rule u r, put_version (v\<lparr>bv_rules := upd_row rule_id i (updated_rule u) (bv_rules v)\<rparr>) d)))"

definition delete_version_rule :: "uuid \<Rightarrow> db \<Rightarrow> err + db" where
  "delete_version_rule i d = bindE (rule_in_draft i d) (\<lambda>(r, v). Inr (put_version (delete_rule i v) d))"

section \<open>Roles\<close>

definition find_membership :: "uuid \<Rightarrow> uuid \<Rightarrow> db \<Rightarrow> err + BusinessMember option" where
  "find_membership user_id business_id d =
     scalar_one_or_none (filter (\<lambda>m. mem_user_id m = user_id \<and> mem_business_id m = business_id \<and> \<not> mem_deleted m) (t_members d))"

definition check_member_role :: "BusinessMember \<Rightarrow> BusinessMemberRole \<Rightarrow> err + unit" where
  "check_member_role m minimum =
     guardE (role_level (mem_role m) \<ge> role_level minimum) (AuthorizationError ''Requires a higher role'')"

definition resolve_brain_with_membership ::
  "uuid \<Rightarrow> uuid \<Rightarrow> BusinessMemberRole \<Rightarrow> db \<Rightarrow> err + (BusinessBrain \<times> BusinessMember) \<times> db" where
  "resolve_brain_with_membership business_id user_id minimum d =
     bindE (requireE (NotFoundError ''Business not found'') (find_business business_id d)) (\<lambda>_.
     bindE (find_membership user_id business_id d) (\<lambda>membership.
     bindE (requireE (AuthorizationError ''Not a member of this business'') membership) (\<lambda>m.
     bindE (check_member_role m minimum) (\<lambda>_.
     bindE (get_or_create_brain business_id d) (\<lambda>(b, d').
     Inr ((b, m), d'))))))"

text \<open>A version of the business's own Brain, for a member of at least the given role.\<close>

definition require_brain_version ::
  "BusinessMemberRole \<Rightarrow> uuid \<Rightarrow> uuid \<Rightarrow> uuid \<Rightarrow> db \<Rightarrow> err + (BusinessBrain \<times> BrainVersion) \<times> db" where
  "require_brain_version minimum business_id version_id user_id d =
     bindE (resolve_brain_with_membership business_id user_id minimum d) (\<lambda>((b, m), d').
     bindE (get_version version_id d') (\<lambda>v.
     bindE (guardE (bv_brain_id v = br_id b) (AuthorizationError ''Brain version does not belong to this brain'')) (\<lambda>_.
     Inr ((b, v), d'))))"

section \<open>Endpoints\<close>

definition create_business_version ::
  "uuid \<Rightarrow> uuid \<Rightarrow> json_obj option \<Rightarrow> db \<Rightarrow> err + BrainVersion \<times> db" where
  "create_business_version business_id user_id config d =
     bindE (resolve_brain_with_membership business_id user_id Bmr_ADMIN d) (\<lambda>((b, m), d1). create_version (br_id b) config d1)"

text \<open>The request body names the columns; only the eight columns of its schema are read.\<close>

definition area_of_column :: "string \<Rightarrow> string" where
  "area_of_column k = (if py_suffix ''_config'' k then take (length k - length ''_config'') k else k)"

definition version_columns :: "string list" where
  "version_columns = map (\<lambda>a. a @ ''_config'')
     [''identity'', ''services'', ''pricing'', ''availability'', ''qualification'', ''policies'', ''escalation'', ''communication'']"

definition update_business_version ::
  "uuid \<Rightarrow> uuid \<Rightarrow> uuid \<Rightarrow> json_obj \<Rightarrow> db \<Rightarrow> err + BrainVersion \<times> db" where
  "update_business_version business_id version_id user_id body d =
     bindE (require_brain_version Bmr_ADMIN business_id version_id user_id d) (\<lambda>((b, v), d1).
     update_version_config version_id
       (map (\<lambda>(k, x). (area_of_column k, x)) (filter (\<lambda>(k, x). k \<in> set version_columns) body)) d1)"

definition rule_schema :: "string \<Rightarrow> string \<Rightarrow> err + unit" where
  "rule_schema t name =
     guardE (t \<in> set api_rule_types \<and> 1 \<le> length name \<and> length name \<le> 255) (ValidationError ''BusinessRuleCreate'')"

definition add_business_rule ::
  "uuid \<Rightarrow> uuid \<Rightarrow> uuid \<Rightarrow> string \<Rightarrow> string \<Rightarrow> json_obj \<Rightarrow> string option \<Rightarrow> int \<Rightarrow> db \<Rightarrow> err + BusinessRule \<times> db" where
  "add_business_rule business_id version_id user_id t name rd description priority d =
     bindE (rule_schema t name) (\<lambda>_.
     bindE (require_brain_version Bmr_ADMIN business_id version_id user_id d) (\<lambda>((b, v), d1).
     add_rule version_id t name rd description priority d1))"

definition rule_of_version :: "uuid \<Rightarrow> uuid \<Rightarrow> db \<Rightarrow> err + BusinessRule" where
  "rule_of_version i version_id d =
     (case find_rule i d of
        Some (v, r) \<Rightarrow> (if v = version_id then Inr r else Inl (NotFoundError ''Business rule not found in this version''))
      | None \<Rightarrow> Inl (NotFoundError ''Business rule not found in this version''))"

definition update_business_rule ::
  "uuid \<Rightarrow> uuid \<Rightarrow> uuid \<Rightarrow> uuid \<Rightarrow> RuleUpdates \<Rightarrow> db \<Rightarrow> err + BusinessRule \<times> db" where
  "update_business_rule business_id version_id user_id i u d =
     bindE (guardE (\<forall>n\<in>set_option (ru_name u). 1 \<le> length n \<and> length n \<le> 255) (ValidationError ''BusinessRuleUpdate'')) (\<lambda>_.
     bindE (require_brain_version Bmr_ADMIN business_id version_id user_id d) (\<lambda>((b, v), d1).
     bindE (rule_of_version i version_id d1) (\<lambda>_. update_rule i u d1)))"

definition delete_business_rule :: "uuid \<Rightarrow> uuid \<Rightarrow> uuid \<Rightarrow> uuid \<Rightarrow> db \<Rightarrow> err + db" where
  "delete_business_rule business_id version_id user_id i d =
     bindE (require_brain_version Bmr_ADMIN business_id version_id user_id d) (\<lambda>((b, v), d1).
     bindE (rule_of_version i version_id d1) (\<lambda>_. delete_version_rule i d1))"

definition validate_business_version :: "uuid \<Rightarrow> uuid \<Rightarrow> uuid \<Rightarrow> db \<Rightarrow> err + ErrorDetail list" where
  "validate_business_version business_id version_id user_id d =
     bindE (require_brain_version Bmr_STAFF business_id version_id user_id d) (\<lambda>((b, v), d1). validate_version version_id d1)"

definition transition_business_version ::
  "uuid \<Rightarrow> uuid \<Rightarrow> uuid \<Rightarrow> BrainVersionStatus \<Rightarrow> db \<Rightarrow> err + BrainVersion \<times> db" where
  "transition_business_version business_id version_id user_id target d =
     bindE (require_brain_version Bmr_ADMIN business_id version_id user_id d) (\<lambda>((b, v), d1).
     transition_version version_id target d1)"

text \<open>Approval and activation resolve the version after the brain, for owners.\<close>

definition owned_version :: "uuid \<Rightarrow> BusinessBrain \<Rightarrow> db \<Rightarrow> err + BrainVersion" where
  "owned_version version_id b d =
     (case find_version version_id d of
        Some v \<Rightarrow> (if bv_brain_id v = br_id b then Inr v
                   else Inl (NotFoundError ''Brain version not found in this business''))
      | None \<Rightarrow> Inl (NotFoundError ''Brain version not found in this business''))"

definition approve_business_version :: "uuid \<Rightarrow> uuid \<Rightarrow> uuid \<Rightarrow> db \<Rightarrow> err + BrainVersion \<times> db" where
  "approve_business_version business_id version_id user_id d =
     bindE (resolve_brain_with_membership business_id user_id Bmr_OWNER d) (\<lambda>((b, m), d1).
     bindE (owned_version version_id b d1) (\<lambda>v. approve_version version_id Bmr_OWNER True d1))"

definition activate_business_version :: "uuid \<Rightarrow> uuid \<Rightarrow> uuid \<Rightarrow> db \<Rightarrow> err + BusinessBrain \<times> db" where
  "activate_business_version business_id version_id user_id d =
     bindE (resolve_brain_with_membership business_id user_id Bmr_OWNER d) (\<lambda>((b, m), d1).
     bindE (owned_version version_id b d1) (\<lambda>v. activate_version business_id version_id d1))"

section \<open>Everything the services can do\<close>

text \<open>
  One call of a service, by an endpoint or by the conversations with the owner, or a request that
  leaves the Brain's tables alone.
\<close>

inductive brain_step :: "db \<Rightarrow> db \<Rightarrow> bool" where
  step_brain: "get_or_create_brain business_id d = Inr (b, d') \<Longrightarrow> brain_step d d'"
| step_create: "create_version brain_id config d = Inr (v, d') \<Longrightarrow> brain_step d d'"
| step_config: "update_version_config i config d = Inr (v, d') \<Longrightarrow> brain_step d d'"
| step_add_rule: "add_rule i t name rd description priority d = Inr (r, d') \<Longrightarrow> brain_step d d'"
| step_update_rule: "update_rule i u d = Inr (r, d') \<Longrightarrow> brain_step d d'"
| step_delete_rule: "delete_version_rule i d = Inr d' \<Longrightarrow> brain_step d d'"
| step_transition: "transition_version i target d = Inr (v, d') \<Longrightarrow> brain_step d d'"
| step_approve: "approve_version i role is_author d = Inr (v, d') \<Longrightarrow> brain_step d d'"
| step_activate: "activate_version business_id i d = Inr (b, d') \<Longrightarrow> brain_step d d'"
| step_other: "t_brains d' = t_brains d \<Longrightarrow> t_brain_versions d' = t_brain_versions d \<Longrightarrow> fresh d \<le> fresh d' \<Longrightarrow> brain_step d d'"

inductive brain_steps :: "db \<Rightarrow> db \<Rightarrow> bool" where
  steps_refl: "brain_steps d d"
| steps_step: "brain_steps d0 d \<Longrightarrow> brain_step d d' \<Longrightarrow> brain_steps d0 d'"

definition brain_start :: "db \<Rightarrow> bool" where
  "brain_start d \<longleftrightarrow> t_brains d = [] \<and> t_brain_versions d = []"

section \<open>Lemmas\<close>

subsection \<open>Changes of one version\<close>

definition settled :: "BrainVersionStatus \<Rightarrow> bool" where
  "settled s \<longleftrightarrow> s \<notin> {Bvs_DRAFT, Bvs_VALIDATING}"

text \<open>The two ways in which a version changes: edited as a draft, or moved along the table.\<close>

inductive version_change :: "BrainVersion \<Rightarrow> BrainVersion \<Rightarrow> bool" where
  edited: "bv_status v = Bvs_DRAFT \<Longrightarrow> bv_status v' = Bvs_DRAFT \<Longrightarrow> bv_id v' = bv_id v \<Longrightarrow> bv_brain_id v' = bv_brain_id v \<Longrightarrow>
     rule_type ` set (bv_rules v) \<subseteq> rule_type ` set (bv_rules v') \<Longrightarrow> version_change v v'"
| moved: "t \<in> BRAIN_VERSION_TRANSITIONS (bv_status v) \<Longrightarrow> (t = Bvs_REVIEW \<Longrightarrow> validate_version_structure v = Inr []) \<Longrightarrow>
     version_change v (v\<lparr>bv_status := t\<rparr>)"

lemma validate_status [simp]: "validate_version_structure (v\<lparr>bv_status := t\<rparr>) = validate_version_structure v"
  by (simp add: validate_version_structure_def version_config_def)

lemma version_change_id: "version_change v v' \<Longrightarrow> bv_id v' = bv_id v"
  by (auto elim: version_change.cases)

lemma version_change_settled:
  assumes "version_change v v'" "settled (bv_status v) \<Longrightarrow> validate_version_structure v = Inr []" "settled (bv_status v')"
  shows "validate_version_structure v' = Inr []"
  using assms
proof (cases rule: version_change.cases)
  case (moved t)
  then show ?thesis using assms(2,3) by (cases "bv_status v") (auto simp: settled_def)
qed (simp add: settled_def)

lemma version_change_final:
  "version_change v v' \<Longrightarrow> bv_status v \<in> {Bvs_ACTIVE, Bvs_SUPERSEDED} \<Longrightarrow> bv_status v' \<in> {Bvs_ACTIVE, Bvs_SUPERSEDED}"
  by (auto elim!: version_change.cases)

lemma version_change_rules:
  "version_change v v' \<Longrightarrow> rule_type ` set (bv_rules v) \<subseteq> rule_type ` set (bv_rules v')"
  by (auto elim!: version_change.cases)

subsection \<open>The invariant\<close>

definition brain_inv :: "db \<Rightarrow> bool" where
  "brain_inv d \<longleftrightarrow>
     keys_distinct bv_id (t_brain_versions d) \<and> (\<forall>v\<in>set (t_brain_versions d). bv_id v < fresh d) \<and>
     (\<forall>v\<in>set (t_brain_versions d). settled (bv_status v) \<longrightarrow> validate_version_structure v = Inr []) \<and>
     (\<forall>b\<in>set (t_brains d). \<forall>i\<in>set_option (br_active_version_id b). i < fresh d \<and>
        (\<forall>v\<in>set (t_brain_versions d). bv_id v = i \<longrightarrow> bv_status v \<in> {Bvs_ACTIVE, Bvs_SUPERSEDED}))"

lemma find_version_in: "find_version i d = Some v \<Longrightarrow> v \<in> set (t_brain_versions d) \<and> bv_id v = i \<and> \<not> bv_deleted v"
  by (auto simp: find_version_def dest: live_row_SomeD)

lemma put_version_tables [simp]:
  "t_brains (put_version v d) = t_brains d" "fresh (put_version v d) = fresh d"
  by (simp_all add: put_version_def)

lemma in_put_version:
  "u \<in> set (t_brain_versions (put_version v d)) \<Longrightarrow> u = v \<or> u \<in> set (t_brain_versions d) \<and> bv_id u \<noteq> bv_id v"
  by (auto simp: put_version_def upd_row_def)

lemma keys_put_version: "map bv_id (t_brain_versions (put_version v d)) = map bv_id (t_brain_versions d)"
  by (auto simp: put_version_def upd_row_def)

lemma brain_inv_put:
  assumes inv: "brain_inv d" and v: "v \<in> set (t_brain_versions d)" and change: "version_change v v'"
  shows "brain_inv (put_version v' d)"
proof -
  let ?d = "put_version v' d"
  have id: "bv_id v' = bv_id v" by (rule version_change_id [OF change])
  have new: "u = v' \<or> u \<in> set (t_brain_versions d)" if "u \<in> set (t_brain_versions ?d)" for u
    using in_put_version [OF that] by blast
  have "settled (bv_status u) \<longrightarrow> validate_version_structure u = Inr []" if "u \<in> set (t_brain_versions ?d)" for u
    using new [OF that] version_change_settled [OF change] inv v by (auto simp: brain_inv_def)
  moreover have "bv_id u < fresh ?d" if "u \<in> set (t_brain_versions ?d)" for u
    using new [OF that] inv v id by (auto simp: brain_inv_def)
  moreover have "keys_distinct bv_id (t_brain_versions ?d)"
    using inv by (simp add: brain_inv_def keys_distinct_def keys_put_version)
  moreover have "bv_status u \<in> {Bvs_ACTIVE, Bvs_SUPERSEDED}"
    if "b \<in> set (t_brains d)" "br_active_version_id b = Some i" "u \<in> set (t_brain_versions ?d)" "bv_id u = i" for b i u
  proof (cases "u = v'")
    case True
    then have "bv_status v \<in> {Bvs_ACTIVE, Bvs_SUPERSEDED}" using inv that v id by (auto simp: brain_inv_def)
    then show ?thesis using version_change_final [OF change] True by simp
  next
    case False
    then show ?thesis using new [OF that(3)] inv that by (auto simp: brain_inv_def)
  qed
  ultimately show ?thesis using inv by (auto simp: brain_inv_def)
qed

text \<open>What every call preserves: the invariant, and the types of the rules that a version has ever held.\<close>

definition evolves :: "db \<Rightarrow> db \<Rightarrow> bool" where
  "evolves d d' \<longleftrightarrow>
     (brain_inv d \<longrightarrow> brain_inv d' \<and>
        (\<forall>v\<in>set (t_brain_versions d). \<exists>v'\<in>set (t_brain_versions d').
           bv_id v' = bv_id v \<and> rule_type ` set (bv_rules v) \<subseteq> rule_type ` set (bv_rules v')))"

lemma evolves_trans: "evolves d d1 \<Longrightarrow> evolves d1 d2 \<Longrightarrow> evolves d d2"
  unfolding evolves_def by (metis (no_types, lifting) subset_trans)

lemma evolves_same:
  "t_brains d' = t_brains d \<Longrightarrow> t_brain_versions d' = t_brain_versions d \<Longrightarrow> fresh d \<le> fresh d' \<Longrightarrow> evolves d d'"
  by (fastforce simp: evolves_def brain_inv_def)

lemma evolves_refl: "evolves d d"
  by (rule evolves_same) simp_all

lemma evolves_used: "evolves d (used_id d)"
  by (rule evolves_same) (simp_all add: used_id_def)

lemma evolves_put:
  assumes "v \<in> set (t_brain_versions d)" "version_change v v'"
  shows "evolves d (put_version v' d)"
proof -
  have id: "bv_id v' = bv_id v" by (rule version_change_id [OF assms(2)])
  have "\<exists>u'\<in>set (t_brain_versions (put_version v' d)). bv_id u' = bv_id u \<and> rule_type ` set (bv_rules u) \<subseteq> rule_type ` set (bv_rules u')"
    if "brain_inv d" "u \<in> set (t_brain_versions d)" for u
  proof (cases "bv_id u = bv_id v")
    case True
    then have "u = v"
      using that assms(1) by (auto simp: brain_inv_def keys_distinct_def distinct_map dest: inj_onD)
    moreover have "v' \<in> set (t_brain_versions (put_version v' d))"
      using assms(1) id by (auto simp: put_version_def upd_row_def)
    ultimately show ?thesis using version_change_rules [OF assms(2)] id by blast
  next
    case False
    then have "u \<in> set (t_brain_versions (put_version v' d))"
      using that(2) id by (auto simp: put_version_def upd_row_def)
    then show ?thesis by blast
  qed
  then show ?thesis using brain_inv_put [OF _ assms] by (simp add: evolves_def)
qed

lemma evolves_new_version:
  assumes "bv_id v = fresh d" "bv_status v = Bvs_DRAFT"
  shows "evolves d (used_id (d\<lparr>t_brain_versions := t_brain_versions d @ [v]\<rparr>))"
  using assms by (fastforce simp: evolves_def brain_inv_def used_id_def keys_distinct_def settled_def less_Suc_eq)

lemma evolves_new_brain:
  assumes "br_active_version_id b = None"
  shows "evolves d (used_id (d\<lparr>t_brains := t_brains d @ [b]\<rparr>))"
  using assms by (fastforce simp: evolves_def brain_inv_def used_id_def less_Suc_eq)

lemma evolves_put_brain:
  assumes "br_active_version_id b = Some i" "v \<in> set (t_brain_versions d)" "bv_id v = i" "bv_status v = Bvs_ACTIVE"
  shows "evolves d (put_brain b d)"
proof -
  have "brain_inv (put_brain b d)" if inv: "brain_inv d"
  proof -
    have "u = v" if "u \<in> set (t_brain_versions d)" "bv_id u = i" for u
      using that assms(2,3) inv by (auto simp: brain_inv_def keys_distinct_def distinct_map dest: inj_onD)
    then have only: "\<forall>u\<in>set (t_brain_versions d). bv_id u = i \<longrightarrow> bv_status u = Bvs_ACTIVE" using assms(4) by blast
    have less: "i < fresh d" using inv assms(2,3) by (auto simp: brain_inv_def)
    have brains: "c = b \<or> c \<in> set (t_brains d)" if "c \<in> set (t_brains (put_brain b d))" for c
      using that by (auto simp: put_brain_def upd_row_def)
    have pointer: "j < fresh d \<and> (\<forall>u\<in>set (t_brain_versions d). bv_id u = j \<longrightarrow> bv_status u \<in> {Bvs_ACTIVE, Bvs_SUPERSEDED})"
      if "c \<in> set (t_brains (put_brain b d))" "br_active_version_id c = Some j" for c j
    proof (cases "c = b")
      case True
      then show ?thesis using assms(1) that(2) only less by simp
    next
      case False
      then have "c \<in> set (t_brains d)" using brains [OF that(1)] by simp
      then show ?thesis using inv that(2) unfolding brain_inv_def by fastforce
    qed
    have tabs: "t_brain_versions (put_brain b d) = t_brain_versions d" "fresh (put_brain b d) = fresh d"
      by (simp_all add: put_brain_def)
    show ?thesis
      using inv pointer unfolding brain_inv_def tabs by simp
  qed
  then show ?thesis by (auto simp: evolves_def put_brain_def)
qed

subsection \<open>Every call evolves\<close>

lemma get_version_Inr: "get_version i d = Inr v \<longleftrightarrow> find_version i d = Some v"
  by (simp add: get_version_def result_iffs)

lemma valid_or_Inr [result_iffs]: "valid_or msg es = Inr u \<longleftrightarrow> es = []"
  by (simp add: valid_or_def guardE_Inr_iff)

lemma ensure_mutable_Inr [result_iffs]: "ensure_mutable v = Inr u \<longleftrightarrow> bv_status v = Bvs_DRAFT"
  by (simp add: ensure_mutable_def guardE_Inr_iff)

lemma rule_in_draft_Inr:
  "rule_in_draft i d = Inr (r, v) \<Longrightarrow> v \<in> set (t_brain_versions d) \<and> bv_status v = Bvs_DRAFT"
  by (auto simp: rule_in_draft_def result_iffs dest: find_version_in split: prod.splits)

lemma set_config_keeps [simp]:
  "bv_id (set_config c v) = bv_id v" "bv_brain_id (set_config c v) = bv_brain_id v"
  "bv_status (set_config c v) = bv_status v" "bv_rules (set_config c v) = bv_rules v" "bv_deleted (set_config c v) = bv_deleted v"
  by (simp_all add: set_config_def if_given_def split: option.split)

lemma updated_rule_keeps [simp]: "rule_id (updated_rule u r) = rule_id r" "rule_type (updated_rule u r) = rule_type r"
  by (simp_all add: updated_rule_def)

lemma types_upd_row:
  "(\<And>r. rule_type (f r) = rule_type r) \<Longrightarrow> rule_type ` set (upd_row rule_id i f rs) = rule_type ` set rs"
  by (induction rs) auto

lemma evolves_edit:
  assumes "find_version i d = Some v" "bv_status v = Bvs_DRAFT" "bv_status v' = Bvs_DRAFT" "bv_id v' = bv_id v"
    "bv_brain_id v' = bv_brain_id v" "rule_type ` set (bv_rules v) \<subseteq> rule_type ` set (bv_rules v')"
  shows "evolves d (put_version v' d)"
  using assms find_version_in by (blast intro: evolves_put edited)

lemma evolves_move:
  assumes "v \<in> set (t_brain_versions d)" "t \<in> BRAIN_VERSION_TRANSITIONS (bv_status v)"
    "t = Bvs_REVIEW \<Longrightarrow> validate_version_structure v = Inr []"
  shows "evolves d (put_version (v\<lparr>bv_status := t\<rparr>) d)"
  using assms by (blast intro: evolves_put moved)

lemma activate_Inr:
  assumes "activate_version business_id i d = Inr (b', d')"
  obtains b v current where "v \<in> set (t_brain_versions d)" "bv_id v = i" "bv_status v \<in> {Bvs_APPROVED, Bvs_ACTIVE}"
    "get_active_by_brain_id (br_id b) d = Inr current" "b' = b\<lparr>br_active_version_id := Some i\<rparr>"
    "d' = put_brain b' (if bv_status v = Bvs_APPROVED then put_version (v\<lparr>bv_status := Bvs_ACTIVE\<rparr>) (supersede current i d)
                        else supersede current i d)"
  using assms by (auto simp: activate_version_def result_iffs get_version_Inr Let_def dest!: find_version_in)

lemma the_one_row:
  assumes "scalar_one_or_none (filter P rows) = Inr (Some r)"
  shows "r \<in> set rows \<and> P r"
proof -
  have "r \<in> set (filter P rows)" using scalar_one_or_none_Inr_SomeD [OF assms] by simp
  then show ?thesis by simp
qed

lemma two_rows_raise:
  assumes "a \<in> set rows" "b \<in> set rows" "a \<noteq> b"
  shows "scalar_one_or_none rows = Inl MultipleResultsFound"
  using assms by (cases rows rule: scalar_one_or_none.cases) auto

lemma get_active_in:
  "get_active_by_brain_id j d = Inr (Some c) \<Longrightarrow>
   c \<in> set (t_brain_versions d) \<and> bv_status c = Bvs_ACTIVE \<and> bv_brain_id c = j \<and> \<not> bv_deleted c"
  unfolding get_active_by_brain_id_def by (drule the_one_row) blast

lemma transition_Inr:
  "transition_version i target d = Inr (v', d') \<longleftrightarrow>
     (\<exists>u. find_version i d = Some u \<and> target \<in> BRAIN_VERSION_TRANSITIONS (bv_status u) \<and>
        (target = Bvs_REVIEW \<longrightarrow> validate_version_structure u = Inr []) \<and>
        v' = u\<lparr>bv_status := target\<rparr> \<and> d' = put_version v' d)"
  by (cases "target = Bvs_REVIEW") (auto simp: transition_version_def result_iffs get_version_Inr Let_def)

lemma evolves_supersede:
  assumes "get_active_by_brain_id j d = Inr current"
  shows "evolves d (supersede current i d)"
proof (cases current)
  case (Some c)
  then have "c \<in> set (t_brain_versions d)" "bv_status c = Bvs_ACTIVE" using assms get_active_in by auto
  then have "evolves d (put_version (c\<lparr>bv_status := Bvs_SUPERSEDED\<rparr>) d)" by (intro evolves_move) simp_all
  then show ?thesis using Some by (simp add: supersede_def evolves_refl)
qed (simp add: supersede_def evolves_refl)

lemma supersede_keeps:
  assumes "v \<in> set (t_brain_versions d)" "bv_id v = i"
  shows "v \<in> set (t_brain_versions (supersede current i d))"
  using assms by (cases current) (auto simp: supersede_def put_version_def upd_row_def)

lemma evolves_activate:
  assumes "activate_version business_id i d = Inr (b', d')"
  shows "evolves d d'"
  using assms
proof (cases rule: activate_Inr)
  case (1 b v current)
  let ?d1 = "supersede current i d"
  have one: "evolves d ?d1" by (rule evolves_supersede [OF 1(4)])
  have v: "v \<in> set (t_brain_versions ?d1)" by (rule supersede_keeps [OF 1(1,2)])
  show ?thesis
  proof (cases "bv_status v = Bvs_APPROVED")
    case True
    let ?v = "v\<lparr>bv_status := Bvs_ACTIVE\<rparr>"
    have "evolves ?d1 (put_version ?v ?d1)" using v True by (intro evolves_move) simp_all
    moreover have "?v \<in> set (t_brain_versions (put_version ?v ?d1))"
      using v by (auto simp: put_version_def upd_row_def)
    then have "evolves (put_version ?v ?d1) (put_brain b' (put_version ?v ?d1))"
      by (rule evolves_put_brain [rotated]) (use 1(2,5) in simp_all)
    ultimately show ?thesis using 1(6) True one by (simp add: evolves_trans)
  next
    case False
    then have "evolves ?d1 (put_brain b' ?d1)"
      using 1(2,3,5) v by (intro evolves_put_brain) simp_all
    then show ?thesis using 1(6) False one by (simp add: evolves_trans)
  qed
qed

lemma get_or_create_brain_cases:
  assumes "get_or_create_brain business_id d = Inr (b, d')"
  obtains "d' = d" | "br_active_version_id b = None" "d' = used_id (d\<lparr>t_brains := t_brains d @ [b]\<rparr>)"
proof (cases "get_brain_by_business_id business_id d")
  case (Inr x)
  then show ?thesis using assms that
    by (cases x; cases "business_id \<in> br_business_id ` set (t_brains d)") (auto simp: get_or_create_brain_def Let_def)
qed (use assms in \<open>simp add: get_or_create_brain_def\<close>)

lemma brain_step_evolves: "brain_step d d' \<Longrightarrow> evolves d d'"
proof (induction rule: brain_step.induct)
  case (step_brain business_id d b d')
  then consider "d' = d" | "br_active_version_id b = None" "d' = used_id (d\<lparr>t_brains := t_brains d @ [b]\<rparr>)"
    by (elim get_or_create_brain_cases)
  then show ?case by cases (simp_all add: evolves_refl evolves_new_brain)
next
  case (step_create brain_id config d v d')
  then show ?case
    by (auto simp: create_version_def result_iffs Let_def fresh_id_def new_version_def intro!: evolves_new_version)
next
  case (step_config i config d v d')
  then obtain u where "find_version i d = Some u" "bv_status u = Bvs_DRAFT" "d' = put_version (set_config config u) d"
    by (auto simp: update_version_config_def result_iffs get_version_Inr Let_def)
  then show ?case using evolves_edit [of i d u "set_config config u"] by simp
next
  case (step_add_rule i t name rd description priority d r d')
  then obtain u where u: "find_version i d = Some u" "bv_status u = Bvs_DRAFT"
      "d' = used_id (put_version (u\<lparr>bv_rules := bv_rules u @ [r]\<rparr>) d)"
    by (auto simp: add_rule_def result_iffs get_version_Inr Let_def)
  have "evolves d (put_version (u\<lparr>bv_rules := bv_rules u @ [r]\<rparr>) d)"
    by (rule evolves_edit [OF u(1,2)]) (use u(2) in auto)
  then show ?case unfolding u(3) by (rule evolves_trans) (rule evolves_used)
next
  case (step_update_rule i u d r d')
  then obtain v where v: "v \<in> set (t_brain_versions d)" "bv_status v = Bvs_DRAFT"
      "d' = put_version (v\<lparr>bv_rules := upd_row rule_id i (updated_rule u) (bv_rules v)\<rparr>) d"
    by (auto simp: update_rule_def result_iffs dest!: rule_in_draft_Inr)
  show ?case unfolding v(3)
    by (rule evolves_put [OF v(1)], rule edited) (use v(2) in \<open>simp_all add: types_upd_row\<close>)
next
  case (step_delete_rule i d d')
  then obtain v where v: "v \<in> set (t_brain_versions d)" "bv_status v = Bvs_DRAFT" "d' = put_version (delete_rule i v) d"
    by (auto simp: delete_version_rule_def result_iffs dest!: rule_in_draft_Inr)
  show ?case unfolding v(3)
    by (rule evolves_put [OF v(1)], rule edited) (use v(2) in \<open>simp_all add: types_upd_row delete_rule_def\<close>)
next
  case (step_transition i target d v d')
  then obtain u where u: "find_version i d = Some u" "target \<in> BRAIN_VERSION_TRANSITIONS (bv_status u)"
      "target = Bvs_REVIEW \<Longrightarrow> validate_version_structure u = Inr []" "d' = put_version (u\<lparr>bv_status := target\<rparr>) d"
    by (auto simp: transition_Inr)
  show ?case unfolding u(4) by (rule evolves_move) (use u find_version_in in blast)+
next
  case (step_approve i role is_author d v d')
  then obtain u where u: "find_version i d = Some u" "bv_status u = Bvs_REVIEW" "d' = put_version (u\<lparr>bv_status := Bvs_APPROVED\<rparr>) d"
    by (auto simp: approve_version_def result_iffs get_version_Inr Let_def)
  show ?case unfolding u(3) by (rule evolves_move) (use u find_version_in in auto)
next
  case (step_activate business_id i d b d')
  then show ?case by (rule evolves_activate)
next
  case (step_other d' d)
  then show ?case by (rule evolves_same)
qed

lemma brain_steps_evolves: "brain_steps d d' \<Longrightarrow> evolves d d'"
  by (induction rule: brain_steps.induct) (use evolves_refl evolves_trans brain_step_evolves in blast)+

lemma brain_reachable_inv: "brain_start d0 \<Longrightarrow> brain_steps d0 d \<Longrightarrow> brain_inv d"
  using brain_steps_evolves [of d0 d] by (simp add: evolves_def brain_start_def brain_inv_def keys_distinct_def)

text \<open>A valid version has rules of registered types only.\<close>

lemma unknown_type_error_ne: "unknown_type_error t \<noteq> []"
  unfolding unknown_type_error_def by (rule add_error_ne)

lemma valid_rule_types:
  assumes "validate_version_structure v = Inr []" "r \<in> set (bv_rules v)"
  shows "get_rule_type (rule_type r) \<noteq> None"
proof -
  have "validate_rule_entries 0 (map (\<lambda>r. (rule_type r, rule_data r)) (bv_rules v)) = Inr []"
    using assms(1) by (auto simp: validate_version_structure_def validate_brain_version_full_def bindE_Inr_iff)
  then have "validate_rule_data (rule_type r) (JObj (rule_data r)) JNull = Inr []"
    by (rule validated_rules) (use assms(2) in auto)
  moreover have "get_rule_type (rule_type r) = None \<Longrightarrow>
      validate_rule_data (rule_type r) (JObj (rule_data r)) JNull = Inr (unknown_type_error (rule_type r))"
    by (simp add: validate_rule_data_def)
  ultimately show ?thesis using unknown_type_error_ne [of "rule_type r"] by (metis sum.inject(2))
qed

lemma brain_steps_trans: "brain_steps d0 d1 \<Longrightarrow> brain_steps d1 d2 \<Longrightarrow> brain_steps d0 d2"
  by (rotate_tac, induction rule: brain_steps.induct) (auto intro: steps_step)

lemma add_rule_there:
  assumes "add_rule i t name rd description priority d = Inr (r, d')"
  shows "\<exists>u\<in>set (t_brain_versions d'). bv_id u = i \<and> t \<in> rule_type ` set (bv_rules u)"
proof -
  obtain v where v: "v \<in> set (t_brain_versions d)" "bv_id v = i" "rule_type r = t"
      "d' = used_id (put_version (v\<lparr>bv_rules := bv_rules v @ [r]\<rparr>) d)"
    using assms by (auto simp: add_rule_def result_iffs get_version_Inr Let_def dest!: find_version_in)
  have "v\<lparr>bv_rules := bv_rules v @ [r]\<rparr> \<in> set (t_brain_versions d')"
    using v by (auto simp: put_version_def upd_row_def used_id_def)
  then show ?thesis
    by (rule bexI [rotated]) (use v in simp)
qed

text \<open>An edit replaces one draft.\<close>

definition edits_draft :: "db \<Rightarrow> db \<Rightarrow> bool" where
  "edits_draft d d' \<longleftrightarrow>
     (\<exists>v v'. v \<in> set (t_brain_versions d) \<and> bv_status v = Bvs_DRAFT \<and> bv_id v' = bv_id v \<and>
        t_brain_versions d' = t_brain_versions (put_version v' d))"

lemma edits:
  "update_version_config i config d = Inr (v, d') \<Longrightarrow> edits_draft d d'"
  "add_rule i t name rd description priority d = Inr (r, d') \<Longrightarrow> edits_draft d d'"
  "update_rule j u d = Inr (r, d') \<Longrightarrow> edits_draft d d'"
  "delete_version_rule j d = Inr d' \<Longrightarrow> edits_draft d d'"
proof -
  have put: "edits_draft d d'"
    if "v \<in> set (t_brain_versions d)" "bv_status v = Bvs_DRAFT" "bv_id v' = bv_id v"
      "t_brain_versions d' = t_brain_versions (put_version v' d)" for v v' d d'
    using that unfolding edits_draft_def by blast
  show "edits_draft d d'" if cfg: "update_version_config i config d = Inr (v, d')"
  proof -
    obtain u where "u \<in> set (t_brain_versions d)" "bv_status u = Bvs_DRAFT" "d' = put_version (set_config config u) d"
      using cfg by (auto simp: update_version_config_def result_iffs get_version_Inr Let_def dest!: find_version_in)
    then show ?thesis by (intro put [of u]) simp_all
  qed
  show "edits_draft d d'" if add: "add_rule i t name rd description priority d = Inr (r, d')"
  proof -
    obtain v where "v \<in> set (t_brain_versions d)" "bv_status v = Bvs_DRAFT"
        "d' = used_id (put_version (v\<lparr>bv_rules := bv_rules v @ [r]\<rparr>) d)"
      using add by (auto simp: add_rule_def result_iffs get_version_Inr Let_def dest!: find_version_in)
    then show ?thesis by (intro put [of v _ "v\<lparr>bv_rules := bv_rules v @ [r]\<rparr>"]) (simp_all add: used_id_def)
  qed
  show "edits_draft d d'" if upd: "update_rule j u d = Inr (r, d')"
  proof -
    obtain v where "v \<in> set (t_brain_versions d)" "bv_status v = Bvs_DRAFT"
        "d' = put_version (v\<lparr>bv_rules := upd_row rule_id j (updated_rule u) (bv_rules v)\<rparr>) d"
      using upd by (auto simp: update_rule_def result_iffs dest!: rule_in_draft_Inr)
    then show ?thesis by (intro put [of v]) simp_all
  qed
  show "edits_draft d d'" if del: "delete_version_rule j d = Inr d'"
  proof -
    obtain v where "v \<in> set (t_brain_versions d)" "bv_status v = Bvs_DRAFT" "d' = put_version (delete_rule j v) d"
      using del by (auto simp: delete_version_rule_def result_iffs dest!: rule_in_draft_Inr)
    then show ?thesis by (intro put [of v]) (simp_all add: delete_rule_def)
  qed
qed

end
