(* ===== verification/Brain_Guarantees.thy ===== *)
theory Brain_Guarantees
  imports Brain_Authoring
begin

text \<open>
  What the services of Brain_Authoring guarantee of the versions of a Brain, and where the
  endpoints of src/backend/app/api/v1/brain.py do not keep to the guarantees.  The examples follow
  one business from its first draft to the activation of it.
\<close>

section \<open>A business and its first version\<close>

definition authoring_db :: "BusinessMemberRole \<Rightarrow> db" where
  "authoring_db role =
     empty_db\<lparr>t_businesses := [sample_business],
              t_members := [\<lparr>mem_id = 9, mem_user_id = 5, mem_business_id = 1, mem_role = role, mem_deleted = False\<rparr>]\<rparr>"

definition first_version :: "BusinessRule list \<Rightarrow> BrainVersionStatus \<Rightarrow> BrainVersion" where
  "first_version rs st = (new_version 1001 1000 1 [])\<lparr>bv_status := st, bv_rules := rs\<rparr>"

definition first_rule :: BusinessRule where
  "first_rule = deny_rule\<lparr>rule_id := 1002, rule_data := with_schema_version (rule_data deny_rule)\<rparr>"

definition authored_db :: "BusinessMemberRole \<Rightarrow> BusinessRule list \<Rightarrow> BrainVersionStatus \<Rightarrow> uuid option \<Rightarrow> db" where
  "authored_db role rs st active =
     (authoring_db role)\<lparr>
       t_brains := [\<lparr>br_id = 1000, br_business_id = 1, br_active_version_id = active, br_deleted = False\<rparr>],
       t_brain_versions := [first_version rs st], fresh := 1002 + length rs\<rparr>"

lemmas authored_defs = authored_db_def authoring_db_def empty_db_def sample_business_def first_version_def new_version_def

lemma authored_version: "find_version 1001 (authored_db role rs st active) = Some (first_version rs st)"
  by (simp add: find_version_def authored_db_def live_row_def first_version_def new_version_def)

lemma authored_put: "put_version (first_version rs st') (authored_db role rs st active) = authored_db role rs st' active"
  by (simp add: put_version_def authored_db_def upd_row_def first_version_def new_version_def)

lemma authored_brain:
  "get_brain_by_business_id 1 (authored_db role rs st active) =
     Inr (Some \<lparr>br_id = 1000, br_business_id = 1, br_active_version_id = active, br_deleted = False\<rparr>)"
  by (simp add: get_brain_by_business_id_def authored_db_def)

lemma authored_start: "brain_start (authoring_db role)"
  by (simp add: brain_start_def authoring_db_def empty_db_def)

lemma draft_steps: "brain_steps (authoring_db role) (authored_db role [] Bvs_DRAFT None)"
proof -
  let ?b = "\<lparr>br_id = 1000, br_business_id = 1, br_active_version_id = None, br_deleted = False\<rparr>"
  let ?d = "used_id ((authoring_db role)\<lparr>t_brains := [?b]\<rparr>)"
  have "get_or_create_brain 1 (authoring_db role) = Inr (?b, ?d)"
    by (simp add: get_or_create_brain_def get_brain_by_business_id_def authoring_db_def empty_db_def fresh_id_def Let_def)
  moreover have "create_version 1000 None ?d = Inr (first_version [] Bvs_DRAFT, authored_db role [] Bvs_DRAFT None)"
  proof -
    have "validate_brain_version_config (JObj []) = []" by code_simp
    then show ?thesis
      by (simp add: create_version_def valid_or_def guardE_def get_next_version_number_def authored_defs used_id_def fresh_id_def Let_def)
  qed
  ultimately show ?thesis by (blast intro: steps_refl steps_step step_brain step_create)
qed

lemma rule_steps: "brain_steps (authoring_db role) (authored_db role [first_rule] Bvs_DRAFT None)"
proof -
  have "rule_valid ''value_threshold'' (rule_data deny_rule) = Inr ()" by code_simp
  then have "add_rule 1001 ''value_threshold'' ''value_threshold'' (rule_data deny_rule) None 0 (authored_db role [] Bvs_DRAFT None) =
      Inr (first_rule, authored_db role [first_rule] Bvs_DRAFT None)"
    unfolding add_rule_def get_version_def authored_version
    by (simp add: ensure_mutable_def guardE_def requireE_def is_known_rule_type_def first_rule_def deny_rule_def sample_rule_def
        Let_def put_version_def upd_row_def used_id_def fresh_id_def authored_defs)
  then show ?thesis by (blast intro: draft_steps steps_step step_add_rule)
qed

lemma first_version_valid: "validate_version_structure (first_version [first_rule] st) = Inr []"
  by code_simp

lemma authored_transition:
  assumes "st' \<in> BRAIN_VERSION_TRANSITIONS st"
    and "st' = Bvs_REVIEW \<Longrightarrow> validate_version_structure (first_version rs st) = Inr []"
  shows "transition_version 1001 st' (authored_db role rs st active) = Inr (first_version rs st', authored_db role rs st' active)"
proof -
  have "(first_version rs st)\<lparr>bv_status := st'\<rparr> = first_version rs st'" "bv_status (first_version rs st) = st"
    by (simp_all add: first_version_def)
  then show ?thesis using assms by (simp add: transition_Inr authored_version authored_put)
qed

lemma authored_activation:
  "activate_version 1 1001 (authored_db role rs Bvs_APPROVED None) =
     Inr (\<lparr>br_id = 1000, br_business_id = 1, br_active_version_id = Some 1001, br_deleted = False\<rparr>,
          authored_db role rs Bvs_ACTIVE (Some 1001))"
  by (simp add: activate_version_def get_brain_by_business_id_def get_version_def find_version_def live_row_def guardE_def requireE_def
      get_active_by_brain_id_def supersede_def put_version_def put_brain_def upd_row_def authored_defs Let_def)

lemma active_steps: "brain_steps (authoring_db role) (authored_db role [first_rule] Bvs_ACTIVE (Some 1001))"
proof -
  have "transition_version 1001 Bvs_REVIEW (authored_db role [first_rule] Bvs_DRAFT None) =
      Inr (first_version [first_rule] Bvs_REVIEW, authored_db role [first_rule] Bvs_REVIEW None)"
    by (rule authored_transition) (simp_all add: first_version_valid)
  then have "brain_steps (authoring_db role) (authored_db role [first_rule] Bvs_REVIEW None)"
    by (blast intro: rule_steps steps_step step_transition)
  moreover have "transition_version 1001 Bvs_APPROVED (authored_db role [first_rule] Bvs_REVIEW None) =
      Inr (first_version [first_rule] Bvs_APPROVED, authored_db role [first_rule] Bvs_APPROVED None)"
    by (rule authored_transition) simp_all
  ultimately show ?thesis using authored_activation by (blast intro: steps_step step_transition step_activate)
qed

section \<open>Properties\<close>

text \<open>C24: Whatever the services of the Brain have been asked to do, the version that is in force for a business was
  activated, has passed structural validation and always comes to a decision: no evaluation of
  it raises.\<close>

theorem active_version_always_decides:
  assumes "brain_start d0" and "brain_steps d0 d" and "resolve_active_brain_version business_id d = Inr (Some v)"
  shows "bv_status v \<in> {Bvs_ACTIVE, Bvs_SUPERSEDED} \<and> validate_version_structure v = Inr [] \<and>
    (\<exists>dec. brain_evaluate re_search v ctx = Some dec)"
proof -
  have inv: "brain_inv d" by (rule brain_reachable_inv [OF assms(1,2)])
  obtain b i where b: "get_brain_by_business_id business_id d = Inr (Some b)" "br_active_version_id b = Some i" "find_version i d = Some v"
    using assms(3) by (auto simp: resolve_active_brain_version_def result_iffs split: option.splits)
  have "b \<in> set (t_brains d)"
    using the_one_row [OF b(1) [unfolded get_brain_by_business_id_def]] by simp
  then have st: "bv_status v \<in> {Bvs_ACTIVE, Bvs_SUPERSEDED}" and v: "v \<in> set (t_brain_versions d)"
    using inv b(2) find_version_in [OF b(3)] by (auto simp: brain_inv_def)
  then have valid: "validate_version_structure v = Inr []" using inv by (auto simp: brain_inv_def settled_def)
  then show ?thesis using st validated_decides [OF valid [unfolded validate_version_structure_def]] by blast
qed

theorem active_version_always_decides_witness:
  "\<exists>dec. brain_evaluate no_regex (first_version [first_rule] Bvs_ACTIVE) [(''amount'', JInt 900)] = Some dec"
proof -
  have "resolve_active_brain_version 1 (authored_db Bmr_OWNER [first_rule] Bvs_ACTIVE (Some 1001)) =
      Inr (Some (first_version [first_rule] Bvs_ACTIVE))"
    by (simp add: resolve_active_brain_version_def authored_brain [unfolded One_nat_def] authored_version)
  then show ?thesis using active_version_always_decides [OF authored_start active_steps] by blast
qed

text \<open>A rule that the endpoint has accepted keeps its version out of force for ever: the types that the request
  schema admits are not registered, so the version never passes the validation before review,
  whatever happens later, even when the rule is deleted again.\<close>

theorem api_rule_blocks_review:
  assumes "brain_start d0" and "brain_steps d0 d"
    and "add_business_rule business_id version_id user_id t name rd description priority d = Inr (r, d1)"
    and "brain_steps d1 d2" and "v \<in> set (t_brain_versions d2)" and "bv_id v = version_id"
  shows "bv_status v \<in> {Bvs_DRAFT, Bvs_VALIDATING}"
proof (rule ccontr)
  assume "bv_status v \<notin> {Bvs_DRAFT, Bvs_VALIDATING}"
  then have set: "settled (bv_status v)" by (simp add: settled_def)
  obtain b d' where t: "get_rule_type t = None" and brain: "get_or_create_brain business_id d = Inr (b, d')"
      and add: "add_rule version_id t name rd description priority d' = Inr (r, d1)"
    using assms(3) api_rule_types_unknown [of t]
    by (auto simp: add_business_rule_def rule_schema_def require_brain_version_def resolve_brain_with_membership_def result_iffs
        split: prod.splits)
  have "brain_steps d0 d1"
    using assms(2) step_brain [OF brain] step_add_rule [OF add] by (blast intro: steps_step)
  then have inv1: "brain_inv d1" and inv2: "brain_inv d2"
    using brain_reachable_inv [OF assms(1)] brain_steps_trans [OF _ assms(4)] by blast+
  obtain u where "u \<in> set (t_brain_versions d1)" "bv_id u = version_id" "t \<in> rule_type ` set (bv_rules u)"
    using add_rule_there [OF add] by blast
  then obtain u' where "u' \<in> set (t_brain_versions d2)" "bv_id u' = version_id" "t \<in> rule_type ` set (bv_rules u')"
    using brain_steps_evolves [OF assms(4)] inv1 unfolding evolves_def by blast
  moreover from this have "u' = v"
    using inv2 assms(5,6) by (auto simp: brain_inv_def keys_distinct_def distinct_map dest: inj_onD)
  moreover have "validate_version_structure v = Inr []" using inv2 assms(5) set by (auto simp: brain_inv_def)
  ultimately obtain x where "x \<in> set (bv_rules v)" "rule_type x = t" "validate_version_structure v = Inr []" by blast
  then show False using valid_rule_types [of v x] t by simp
qed

theorem api_rule_blocks_review_witness:
  "\<exists>r d1. add_business_rule 1 1001 5 ''pricing'' ''ours'' [] None 0 (authored_db Bmr_OWNER [] Bvs_DRAFT None) = Inr (r, d1) \<and>
     (\<forall>v\<in>set (t_brain_versions d1). bv_id v = 1001 \<longrightarrow> bv_status v \<in> {Bvs_DRAFT, Bvs_VALIDATING})"
proof -
  have "\<not> isl (add_business_rule 1 1001 5 ''pricing'' ''ours'' [] None 0 (authored_db Bmr_OWNER [] Bvs_DRAFT None))" by code_simp
  then obtain r d1 where "add_business_rule 1 1001 5 ''pricing'' ''ours'' [] None 0 (authored_db Bmr_OWNER [] Bvs_DRAFT None) = Inr (r, d1)"
    by (metis isl_def surj_pair sum.exhaust_sel)
  then show ?thesis using api_rule_blocks_review [OF authored_start draft_steps _ steps_refl] by blast
qed

text \<open>Moving an approved version to active along the table, which the endpoint offers to administrators, leaves
  the business with two active versions, and from then on every activation for it fails.\<close>

theorem transition_makes_two_active:
  assumes "keys_distinct bv_id (t_brain_versions d)" and "find_version i d = Some v" and "bv_status v = Bvs_APPROVED"
    and "u \<in> set (t_brain_versions d)" and "bv_status u = Bvs_ACTIVE" and "bv_brain_id u = bv_brain_id v" and "\<not> bv_deleted u"
    and "get_brain_by_business_id business_id d = Inr (Some b)" and "br_id b = bv_brain_id v"
  shows "\<exists>v' d'. transition_version i Bvs_ACTIVE d = Inr (v', d') \<and>
    (\<forall>w\<in>{u, v'}. w \<in> set (t_brain_versions d') \<and> bv_status w = Bvs_ACTIVE) \<and> u \<noteq> v' \<and>
    (\<forall>j. \<exists>e. activate_version business_id j d' = Inl e)"
proof -
  let ?v = "v\<lparr>bv_status := Bvs_ACTIVE\<rparr>"
  let ?d = "put_version ?v d"
  have v: "v \<in> set (t_brain_versions d)" "bv_id v = i" "\<not> bv_deleted v" using find_version_in [OF assms(2)] by simp_all
  have run: "transition_version i Bvs_ACTIVE d = Inr (?v, ?d)" using assms(2,3) by (simp add: transition_Inr)
  have "u \<noteq> v" using assms(3,5) by auto
  then have ids: "bv_id u \<noteq> bv_id v"
    using assms(1,4) v(1) unfolding keys_distinct_def distinct_map by (blast dest: inj_onD)
  have in_d: "u \<in> set (t_brain_versions ?d)" "?v \<in> set (t_brain_versions ?d)"
    using v(1) assms(4) ids by (auto simp: put_version_def upd_row_def)
  have ne: "u \<noteq> ?v"
  proof
    assume "u = ?v"
    then have "bv_id u = bv_id v" by simp
    then show False using ids by simp
  qed
  let ?rows = "filter (\<lambda>w. bv_brain_id w = br_id b \<and> bv_status w = Bvs_ACTIVE \<and> \<not> bv_deleted w) (t_brain_versions ?d)"
  have "u \<in> set ?rows" using in_d(1) assms(5,6,7,9) by simp
  moreover have "?v \<in> set ?rows" using in_d(2) assms(9) v(3) by simp
  ultimately have "get_active_by_brain_id (br_id b) ?d = Inl MultipleResultsFound"
    unfolding get_active_by_brain_id_def using ne by (rule two_rows_raise)
  moreover have "get_brain_by_business_id business_id ?d = Inr (Some b)"
    using assms(8) by (simp add: get_brain_by_business_id_def)
  ultimately have "\<exists>e. activate_version business_id j ?d = Inl e" for j
    by (cases "get_version j ?d") (auto simp: activate_version_def guardE_def)
  then show ?thesis using run in_d ne assms(5) by auto
qed

text \<open>The active version beside another one.\<close>

definition other_version :: "BrainVersionStatus \<Rightarrow> BrainVersion" where
  "other_version st = (new_version 1500 1000 2 [])\<lparr>bv_status := st\<rparr>"

definition second_db :: "BrainVersionStatus \<Rightarrow> db" where
  "second_db st = (authored_db Bmr_OWNER [first_rule] Bvs_ACTIVE (Some 1001))\<lparr>
     t_brain_versions := [first_version [first_rule] Bvs_ACTIVE, other_version st]\<rparr>"

lemmas second_defs = second_db_def other_version_def authored_db_def first_version_def new_version_def

lemma second_db_distinct: "keys_distinct bv_id (t_brain_versions (second_db st))"
  by (simp add: keys_distinct_def second_defs)

theorem transition_makes_two_active_witness:
  "\<exists>v' d'. transition_version 1500 Bvs_ACTIVE (second_db Bvs_APPROVED) = Inr (v', d') \<and> (\<forall>j. \<exists>e. activate_version 1 j d' = Inl e)"
proof -
  let ?d = "second_db Bvs_APPROVED" and ?v = "other_version Bvs_APPROVED" and ?u = "first_version [first_rule] Bvs_ACTIVE"
  have "find_version 1500 ?d = Some ?v" "bv_status ?v = Bvs_APPROVED" "?u \<in> set (t_brain_versions ?d)" "bv_status ?u = Bvs_ACTIVE"
      "bv_brain_id ?u = bv_brain_id ?v" "\<not> bv_deleted ?u"
      "get_brain_by_business_id 1 ?d = Inr (Some \<lparr>br_id = 1000, br_business_id = 1, br_active_version_id = Some 1001, br_deleted = False\<rparr>)"
    by (simp_all add: second_defs find_version_def live_row_def get_brain_by_business_id_def)
  from transition_makes_two_active [OF second_db_distinct this] show ?thesis by (auto simp: second_defs)
qed



text \<open>The approval endpoint asks for an owner, the transition endpoint does not: an administrator moves a version in
  review to approved there, which the approval endpoint refuses them.\<close>

theorem transition_bypasses_approval:
  assumes "require_brain_version Bmr_ADMIN business_id i user_id d = Inr ((b, v), d1)" and "bv_status v = Bvs_REVIEW"
    and "find_membership user_id business_id d = Inr (Some m)" and "mem_role m = Bmr_ADMIN"
  shows "transition_business_version business_id i user_id Bvs_APPROVED d =
      Inr (v\<lparr>bv_status := Bvs_APPROVED\<rparr>, put_version (v\<lparr>bv_status := Bvs_APPROVED\<rparr>) d1) \<and>
    approve_business_version business_id i user_id d = Inl (AuthorizationError ''Requires a higher role'')"
proof -
  have v: "find_version i d1 = Some v" using assms(1)
    by (auto simp: require_brain_version_def result_iffs get_version_Inr split: prod.splits)
  obtain bz where "find_business business_id d = Some bz" using assms(1)
    by (auto simp: require_brain_version_def resolve_brain_with_membership_def result_iffs split: prod.splits)
  then have "approve_business_version business_id i user_id d = Inl (AuthorizationError ''Requires a higher role'')"
    using assms(3,4) by (simp add: approve_business_version_def resolve_brain_with_membership_def check_member_role_def guardE_def requireE_def)
  moreover have "transition_version i Bvs_APPROVED d1 = Inr (v\<lparr>bv_status := Bvs_APPROVED\<rparr>, put_version (v\<lparr>bv_status := Bvs_APPROVED\<rparr>) d1)"
    using v assms(2) by (simp add: transition_Inr)
  ultimately show ?thesis using assms(1) by (simp add: transition_business_version_def)
qed

theorem transition_bypasses_approval_witness:
  "\<not> isl (transition_business_version 1 1001 5 Bvs_APPROVED (authored_db Bmr_ADMIN [first_rule] Bvs_REVIEW None)) \<and>
   isl (approve_business_version 1 1001 5 (authored_db Bmr_ADMIN [first_rule] Bvs_REVIEW None))"
proof -
  let ?d = "authored_db Bmr_ADMIN [first_rule] Bvs_REVIEW None"
  let ?b = "\<lparr>br_id = 1000, br_business_id = 1, br_active_version_id = None, br_deleted = False\<rparr>"
  let ?m = "\<lparr>mem_id = 9, mem_user_id = 5, mem_business_id = 1, mem_role = Bmr_ADMIN, mem_deleted = False\<rparr>"
  have m: "find_membership 5 1 ?d = Inr (Some ?m)" and "find_business 1 ?d = Some sample_business"
    by (simp_all add: find_membership_def find_business_def live_row_def authored_defs)
  then have "require_brain_version Bmr_ADMIN 1 1001 5 ?d = Inr ((?b, first_version [first_rule] Bvs_REVIEW), ?d)"
    by (simp add: require_brain_version_def resolve_brain_with_membership_def requireE_def check_member_role_def guardE_def
        get_or_create_brain_def authored_brain [unfolded One_nat_def] get_version_def authored_version) (simp add: first_version_def new_version_def)
  from transition_bypasses_approval [OF this _ m] show ?thesis by (simp add: first_version_def)
qed

end
