(* ===== verification/Communication_Guarantees.thy ===== *)
theory Communication_Guarantees
  imports Orchestration Brain_Guarantees
begin

text \<open>
  What the orchestration of communications guarantees: every communication it records was permitted
  by configuration and consent (\<open>permitted\<close>, stated over the tables alone), one attempt per
  communication and one communication per key (\<open>comms_ok\<close>), and templates are rendered
  piece by piece.
\<close>

section \<open>What is permitted\<close>

text \<open>
  The promise of the policy over the tables: the channel and the purpose are configured, enabled
  and compatible, a version of the Brain is in force, and a customer has consented unless the
  purpose is transactional.
\<close>

definition consents :: "uuid \<Rightarrow> RecipientContext \<Rightarrow> db \<Rightarrow> bool" where
  "consents business_id rc d \<longleftrightarrow>
     rc_recipient_type rc \<in> {''STAFF'', ''EXTERNAL'', ''OTHER''} \<or>
     (\<exists>c. rc_customer_id rc = Some c \<and>
        (rc_purpose rc = ''TRANSACTIONAL'' \<or>
         (\<exists>p. effective_preference c business_id (rc_channel rc) (rc_purpose rc) d = Inr (Some p) \<and>
              ccp_opt_in p \<and> \<not> ccp_suppression p \<and> \<not> ccp_do_not_contact p)))"

definition permitted :: "uuid \<Rightarrow> RecipientContext \<Rightarrow> db \<Rightarrow> bool" where
  "permitted business_id rc d \<longleftrightarrow>
     (\<exists>c\<in>set (t_channels d). bcc_business_id c = business_id \<and> bcc_channel c = rc_channel rc \<and> bcc_enabled c \<and> \<not> bcc_deleted c) \<and>
     (\<exists>q\<in>set (t_purposes d). bcp_business_id q = business_id \<and> bcp_purpose q = rc_purpose rc \<and> bcp_enabled q \<and> \<not> bcp_deleted q \<and>
        \<not> not_permitted (bcp_permitted_channels q) (rc_channel rc)) \<and>
     (\<exists>v\<in>set (t_brain_versions d). bv_status v = Bvs_ACTIVE \<and>
        (\<exists>b\<in>set (t_brains d). br_business_id b = business_id \<and> br_active_version_id b = Some (bv_id v))) \<and>
     consents business_id rc d"

lemma verdict_passes:
  "ck_decision (preference_verdict p) \<notin> {''DENY'', ''REQUIRE_APPROVAL''} \<longleftrightarrow>
     ccp_opt_in p \<and> \<not> ccp_suppression p \<and> \<not> ccp_do_not_contact p"
  by (simp add: preference_verdict_def check_def)

lemma consent_passes:
  assumes "check_consent business_id rc d = Inr c" and "ck_decision c \<notin> {''DENY'', ''REQUIRE_APPROVAL''}"
  shows "consents business_id rc d"
proof (cases "rc_recipient_type rc \<in> {''STAFF'', ''EXTERNAL'', ''OTHER''}")
  case True
  then show ?thesis by (simp add: consents_def)
next
  case customer: False
  then obtain i where i: "rc_customer_id rc = Some i"
    using assms by (cases "rc_customer_id rc") (auto simp: check_consent_def check_def)
  show ?thesis
  proof (cases "rc_purpose rc = ''TRANSACTIONAL''")
    case True
    then show ?thesis using i by (simp add: consents_def)
  next
    case False
    then obtain pref where pref: "effective_preference i business_id (rc_channel rc) (rc_purpose rc) d = Inr pref"
        and c: "c = (case pref of None \<Rightarrow> check ''REQUIRE_APPROVAL'' ''No consent preference found for customer'' []
                     | Some p \<Rightarrow> preference_verdict p)"
      using assms(1) customer i by (auto simp: check_consent_def bindE_Inr_iff)
    then obtain p where "pref = Some p" using assms(2) by (cases pref) (auto simp: check_def)
    then show ?thesis using pref c assms(2) i verdict_passes [of p] by (auto simp: consents_def)
  qed
qed

lemma channel_gate_open:
  "channel_gate b rc d = Inr None \<Longrightarrow>
     \<exists>c\<in>set (t_channels d). bcc_business_id c = b \<and> bcc_channel c = rc_channel rc \<and> bcc_enabled c \<and> \<not> bcc_deleted c"
  by (auto simp: channel_gate_def get_channel_config_def result_iffs dest!: scalar_in split: option.splits if_splits)

lemma purpose_gate_open:
  "purpose_gate b rc d = Inr None \<Longrightarrow>
     \<exists>q\<in>set (t_purposes d). bcp_business_id q = b \<and> bcp_purpose q = rc_purpose rc \<and> bcp_enabled q \<and> \<not> bcp_deleted q \<and>
        \<not> not_permitted (bcp_permitted_channels q) (rc_channel rc)"
  by (auto simp: purpose_gate_def get_purpose_config_def result_iffs dest!: scalar_in split: option.splits if_splits)

lemma brain_rules_pass:
  assumes rules: "check_brain_rules b rc d = Inr (c, i, m)"
    and passes: "ck_decision c \<notin> {''DENY'', ''REQUIRE_APPROVAL'', ''ESCALATE''}"
  shows "\<exists>v\<in>set (t_brain_versions d). bv_status v = Bvs_ACTIVE \<and>
           (\<exists>b'\<in>set (t_brains d). br_business_id b' = b \<and> br_active_version_id b' = Some (bv_id v))"
proof -
  obtain found where found: "policy_brain_version b d = Inr found"
    using rules by (auto simp: check_brain_rules_def bindE_Inr_iff)
  then obtain v where "found = Some v"
    using rules passes by (cases found) (auto simp: check_brain_rules_def check_def)
  then show ?thesis
    using found unfolding policy_brain_version_def by (blast dest: scalar_in)
qed

lemma gates_never_allow:
  "channel_gate b rc d = Inr (Some p) \<Longrightarrow> \<not> pd_is_allowed p"
  "purpose_gate b rc d = Inr (Some p) \<Longrightarrow> \<not> pd_is_allowed p"
  by (auto simp: channel_gate_def purpose_gate_def bindE_Inr_iff pd_is_allowed_def decided_def
        split: option.splits if_splits)

lemma evaluate_policy_cases:
  assumes "evaluate_policy ev b rc d = Inr p" and "pd_is_allowed p"
  shows "channel_gate b rc d = Inr None" and "purpose_gate b rc d = Inr None" and "checked_decision ev b rc d = Inr p"
proof -
  obtain g1 where g1: "channel_gate b rc d = Inr g1"
    using assms(1) by (auto simp: evaluate_policy_def bindE_Inr_iff)
  then show 1: "channel_gate b rc d = Inr None"
    using assms gates_never_allow(1) [of b rc d] by (cases g1) (auto simp: evaluate_policy_def)
  obtain g2 where g2: "purpose_gate b rc d = Inr g2"
    using assms(1) 1 by (auto simp: evaluate_policy_def bindE_Inr_iff)
  then show 2: "purpose_gate b rc d = Inr None"
    using assms 1 gates_never_allow(2) [of b rc d] by (cases g2) (auto simp: evaluate_policy_def)
  show "checked_decision ev b rc d = Inr p"
    using assms(1) 1 2 by (simp add: evaluate_policy_def)
qed

lemma allowed_not [simp]:
  "pd_is_allowed ((decided dec r)\<lparr>pd_consent_state := a\<rparr>) = (dec = ''ALLOW'')"
  "pd_is_allowed ((decided dec r)\<lparr>pd_timing_state := a\<rparr>) = (dec = ''ALLOW'')"
  "pd_is_allowed ((decided dec r)\<lparr>pd_frequency_state := a\<rparr>) = (dec = ''ALLOW'')"
  "pd_is_allowed ((decided dec r)\<lparr>pd_brain_version_id := i, pd_matched_rules := m\<rparr>) = (dec = ''ALLOW'')"
  by (simp_all add: pd_is_allowed_def decided_def)

lemma checked_decision_allows:
  assumes decision: "checked_decision ev b rc d = Inr p" and allowed: "pd_is_allowed p"
  obtains c r i m where "check_consent b rc d = Inr c" "ck_decision c \<notin> {''DENY'', ''REQUIRE_APPROVAL''}"
    "check_brain_rules b rc d = Inr (r, i, m)" "ck_decision r \<notin> {''DENY'', ''REQUIRE_APPROVAL'', ''ESCALATE''}"
    "pd_brain_version_id p = i"
proof -
  obtain c where c: "check_consent b rc d = Inr c"
    using decision by (auto simp: checked_decision_def bindE_Inr_iff)
  moreover have c_ok: "ck_decision c \<notin> {''DENY'', ''REQUIRE_APPROVAL''}"
    using decision allowed c by (auto simp: checked_decision_def)
  ultimately obtain t where t: "check_timing ev b d = Inr t"
    using decision by (auto simp: checked_decision_def bindE_Inr_iff)
  moreover have t_ok: "ck_decision t \<notin> {''DENY'', ''DEFER''}"
    using decision allowed c c_ok t by (auto simp: checked_decision_def)
  ultimately obtain f where f: "check_frequency ev b rc d = Inr f"
    using decision c c_ok by (auto simp: checked_decision_def bindE_Inr_iff)
  moreover have f_ok: "ck_decision f \<noteq> ''DENY''"
    using decision allowed c c_ok t t_ok f by (auto simp: checked_decision_def)
  ultimately obtain r i m where r: "check_brain_rules b rc d = Inr (r, i, m)"
    using decision c c_ok t t_ok by (auto simp: checked_decision_def bindE_Inr_iff)
  moreover have r_ok: "ck_decision r \<notin> {''DENY'', ''REQUIRE_APPROVAL'', ''ESCALATE''}"
    using decision allowed c c_ok t t_ok f f_ok r by (auto simp: checked_decision_def)
  moreover have "pd_brain_version_id p = i"
    using decision c c_ok t t_ok f f_ok r r_ok by (auto simp: checked_decision_def)
  ultimately show thesis using that c c_ok by blast
qed

lemma policy_allows_only_permitted:
  assumes "evaluate_policy ev b rc d = Inr p" and "pd_is_allowed p"
  shows "permitted b rc d"
  using evaluate_policy_cases [OF assms] channel_gate_open purpose_gate_open consent_passes brain_rules_pass
    checked_decision_allows [OF _ assms(2)]
  unfolding permitted_def by metis

section \<open>One target\<close>

text \<open>The tables that the policy reads, and the rows a target may leave behind without sending.\<close>

definition same_settings :: "db \<Rightarrow> db \<Rightarrow> bool" where
  "same_settings d d' \<longleftrightarrow>
     t_channels d' = t_channels d \<and> t_purposes d' = t_purposes d \<and> t_preferences d' = t_preferences d \<and>
     t_brains d' = t_brains d \<and> t_brain_versions d' = t_brain_versions d"

definition same_sent :: "db \<Rightarrow> db \<Rightarrow> bool" where
  "same_sent d d' \<longleftrightarrow>
     t_communications d' = t_communications d \<and> t_recipients d' = t_recipients d \<and>
     t_comm_attempts d' = t_comm_attempts d \<and> fresh d \<le> fresh d'"

lemma effective_preference_same:
  assumes "t_preferences d' = t_preferences d"
  shows "effective_preference c b ch pu d' = effective_preference c b ch pu d"
  unfolding effective_preference_def get_preference_def assms ..

lemma permitted_same: "same_settings d d' \<Longrightarrow> permitted b rc d' = permitted b rc d"
  by (simp add: same_settings_def permitted_def consents_def effective_preference_same [of d' d])

lemma insert_notification_frame:
  "insert_notification n d = Inr (m, d') \<Longrightarrow> same_settings d d' \<and> same_sent d d'"
  by (auto simp: insert_notification_def used_id_def same_settings_def same_sent_def split: if_splits)

lemma same_refl: "same_settings d d" "same_sent d d"
  by (simp_all add: same_settings_def same_sent_def)

lemma event_notification_frame:
  assumes run: "create_event_notification ev e c d = Inr (n, d')"
  shows "same_settings d d' \<and> same_sent d d'"
proof -
  obtain found where found: "get_notification_by_key (notification_key e c) d = Inr found"
    using run by (auto simp: create_event_notification_def Let_def bindE_Inr_iff)
  show ?thesis
  proof (cases found)
    case None
    then obtain m where "insert_notification m d = Inr (n, d')"
      using run found by (auto simp: create_event_notification_def Let_def bindE_Inr_iff)
    then show ?thesis by (rule insert_notification_frame)
  next
    case (Some m)
    then show ?thesis using run found by (simp add: create_event_notification_def Let_def same_refl)
  qed
qed

text \<open>
  No two communications share a key, and every one has at most one attempt: what has been recorded
  is never handed to a provider again.
\<close>

definition comms_ok :: "db \<Rightarrow> bool" where
  "comms_ok d \<longleftrightarrow>
     distinct (map com_idempotency_key (t_communications d)) \<and> keys_distinct com_id (t_communications d) \<and>
     keys_distinct ca_communication_id (t_comm_attempts d) \<and>
     ca_communication_id ` set (t_comm_attempts d) \<subseteq> com_id ` set (t_communications d) \<and>
     (\<forall>c\<in>set (t_communications d). com_id c < fresh d)"

lemma comms_ok_same: "same_sent d d' \<Longrightarrow> comms_ok d \<Longrightarrow> comms_ok d'"
  by (fastforce simp: same_sent_def comms_ok_def)

text \<open>What sending adds.\<close>

definition sent_for :: "OutboxEvent \<Rightarrow> target \<Rightarrow> Communication \<Rightarrow> db \<Rightarrow> db \<Rightarrow> bool" where
  "sent_for e t c d d' \<longleftrightarrow>
     com_business_id c = oe_business_id e \<and> com_customer_id c = rc_customer_id (tg_context t) \<and>
     com_channel c = rc_channel (tg_context t) \<and> com_purpose c = rc_purpose (tg_context t) \<and>
     com_idempotency_key c = tg_key t \<and> \<not> com_deleted c \<and> com_status c \<in> {''SENT'', ''FAILED''} \<and>
     fresh d \<le> com_id c \<and> com_id c < fresh d' \<and>
     tg_key t \<notin> com_idempotency_key ` set (t_communications d) \<and>
     t_communications d' = t_communications d @ [c] \<and>
     (\<exists>r. t_recipients d' = t_recipients d @ [r] \<and> cr_communication_id r = com_id c \<and>
          cr_recipient_type r = rc_recipient_type (tg_context t) \<and> cr_address r = rc_address (tg_context t) \<and>
          cr_channel r = com_channel c) \<and>
     (\<exists>a. t_comm_attempts d' = t_comm_attempts d @ [a] \<and> ca_communication_id a = com_id c)"

lemma execute_communication_sent:
  assumes run: "execute_communication ev ps e t subject body p d = Inr (c, d')" and ok: "comms_ok d"
  shows "sent_for e t c d d'" and "same_settings d d'"
proof -
  have new: "com_id x \<noteq> fresh d" if "x \<in> set (t_communications d)" for x
    using ok that by (fastforce simp: comms_ok_def)
  then have unknown: "upd_row com_id (fresh d) f (t_communications d) = t_communications d" for f
    by (intro upd_row_unknown) (metis imageE)
  show "sent_for e t c d d'" "same_settings d d'"
    using run unknown
    by (auto simp: execute_communication_def insert_communication_def Let_def bindE_Inr_iff new_communication_def
          fresh_id_def used_id_def add_audit_def sent_for_def same_settings_def sent_communication_def
          sent_recipient_def sent_attempt_def split: if_splits)
qed

lemma sent_for_ok: "comms_ok d \<Longrightarrow> sent_for e t c d d' \<Longrightarrow> comms_ok d'"
  by (fastforce simp: comms_ok_def sent_for_def keys_distinct_def)

text \<open>The three ways a target ends.\<close>

lemma process_target_cases:
  assumes run: "process_target ev ps e v d = Inr (c, d')" and ok: "comms_ok d"
  obtains (replayed) t x where "read_target e v = Inr t" "c = Some x" "d' = d" "x \<in> set (t_communications d)"
      "com_idempotency_key x = tg_key t" "\<not> com_deleted x"
    | (withheld) "c = None" "same_settings d d'" "same_sent d d'"
    | (sent) t x d1 where "read_target e v = Inr t" "c = Some x" "permitted (oe_business_id e) (tg_context t) d"
      "same_settings d d'" "same_sent d d1" "comms_ok d1" "sent_for e t x d1 d'"
proof -
  obtain t where t: "read_target e v = Inr t"
    using run by (auto simp: process_target_def bindE_Inr_iff)
  obtain found where found: "get_communication_by_key (tg_key t) d = Inr found"
    using run t by (auto simp: process_target_def bindE_Inr_iff)
  show thesis
  proof (cases found)
    case (Some x)
    then have "x \<in> set (t_communications d) \<and> com_idempotency_key x = tg_key t \<and> \<not> com_deleted x"
      using found unfolding get_communication_by_key_def by (blast dest: scalar_in)
    moreover have "c = Some x" "d' = d" using run t found Some by (auto simp: process_target_def)
    ultimately show thesis using replayed t by blast
  next
    case None
    obtain n d1 where n: "create_event_notification ev e (rc_customer_id (tg_context t)) d = Inr (n, d1)"
      using run t found None by (auto simp: process_target_def bindE_Inr_iff)
    have frame: "same_settings d d1" "same_sent d d1" "comms_ok d1"
      using event_notification_frame [OF n] comms_ok_same ok by blast+
    obtain p where p: "evaluate_policy ev (oe_business_id e) (tg_context t) d1 = Inr p"
      using run t found None n by (auto simp: process_target_def bindE_Inr_iff)
    show thesis
    proof (cases "pd_is_allowed p")
      case False
      then have "c = None" "d' = add_audit (audit_event (fresh_id d1) (blocked_audit_type (pd_decision p)) e (tg_context t) None p None) d1"
        using run t found None n p by (auto simp: process_target_def)
      then show thesis
        using frame by (intro withheld) (auto simp: add_audit_def used_id_def same_settings_def same_sent_def)
    next
      case True
      then obtain subject body x where
        "execute_communication ev ps e t subject body p d1 = Inr (x, d')" and c: "c = Some x"
        using run t found None n p by (auto simp: process_target_def bindE_Inr_iff)
      then have "sent_for e t x d1 d'" "same_settings d1 d'"
        using execute_communication_sent frame(3) by blast+
      moreover have "permitted (oe_business_id e) (tg_context t) d"
        using policy_allows_only_permitted [OF p True] permitted_same [OF frame(1)] by simp
      ultimately show thesis
        using sent [OF t c] frame by (simp add: same_settings_def)
    qed
  qed
qed

section \<open>An event\<close>

text \<open>A communication of an event, with the recipient it went to, that was permitted when the event came.\<close>

definition governed :: "OutboxEvent \<Rightarrow> db \<Rightarrow> Communication \<Rightarrow> CommunicationRecipient \<Rightarrow> bool" where
  "governed e d x r \<longleftrightarrow>
     com_business_id x = oe_business_id e \<and> cr_communication_id r = com_id x \<and>
     (\<exists>rc. permitted (oe_business_id e) rc d \<and> rc_channel rc = com_channel x \<and> rc_purpose rc = com_purpose x \<and>
        rc_customer_id rc = com_customer_id x \<and> rc_recipient_type rc = cr_recipient_type r \<and> rc_address rc = cr_address r)"

text \<open>An event adds governed communications and nothing else to the tables of communications.\<close>

definition adds_governed :: "OutboxEvent \<Rightarrow> db \<Rightarrow> db \<Rightarrow> db \<Rightarrow> bool" where
  "adds_governed e d0 d d' \<longleftrightarrow>
     same_settings d d' \<and> comms_ok d' \<and>
     (\<exists>new rs. t_communications d' = t_communications d @ new \<and> t_recipients d' = t_recipients d @ rs \<and>
        list_all2 (governed e d0) new rs)"

lemma adds_governed_same: "same_settings d d' \<Longrightarrow> same_sent d d' \<Longrightarrow> comms_ok d \<Longrightarrow> adds_governed e d0 d d'"
  using comms_ok_same by (force simp: adds_governed_def same_sent_def)

lemma adds_governed_trans:
  "adds_governed e d0 d d1 \<Longrightarrow> adds_governed e d0 d1 d2 \<Longrightarrow> adds_governed e d0 d d2"
  unfolding adds_governed_def same_settings_def by (metis append.assoc list_all2_appendI)

lemma adds_governed_sent:
  assumes "sent_for e t x d1 d'" and "permitted (oe_business_id e) (tg_context t) d0" and "same_sent d d1"
    and "same_settings d d'" and "comms_ok d1"
  shows "adds_governed e d0 d d'"
proof -
  obtain r where r: "t_recipients d' = t_recipients d1 @ [r]" "cr_communication_id r = com_id x"
      "cr_recipient_type r = rc_recipient_type (tg_context t)" "cr_address r = rc_address (tg_context t)"
    using assms(1) by (auto simp: sent_for_def)
  moreover have "governed e d0 x r"
    using assms(1,2) r by (auto simp: governed_def sent_for_def)
  ultimately show ?thesis
    using assms sent_for_ok by (fastforce simp: adds_governed_def same_sent_def sent_for_def)
qed

lemma process_targets_governed:
  assumes "process_targets ev ps e vs d = Inr (cs, d')" and "comms_ok d" and "same_settings d0 d"
  shows "adds_governed e d0 d d'"
  using assms
proof (induction vs arbitrary: d cs)
  case Nil
  then show ?case by (simp add: adds_governed_same same_refl)
next
  case (Cons v vs)
  obtain c d1 ds where one: "process_target ev ps e v d = Inr (c, d1)"
      and rest: "process_targets ev ps e vs d1 = Inr (ds, d')"
    using Cons.prems(1) by (auto simp: bindE_Inr_iff)
  have step: "adds_governed e d0 d d1"
    using one Cons.prems(2)
  proof (cases rule: process_target_cases)
    case (sent t x d2)
    then show ?thesis using adds_governed_sent permitted_same [OF Cons.prems(3)] by blast
  qed (auto intro: adds_governed_same same_refl Cons.prems(2))
  moreover have "adds_governed e d0 d1 d'"
    using step Cons.prems(3) by (intro Cons.IH [OF rest]) (auto simp: adds_governed_def same_settings_def)
  ultimately show ?case by (rule adds_governed_trans)
qed

lemma notify_only_frame:
  assumes "notify_only ev e d = Inr (cs, d')"
  shows "same_settings d d'" and "same_sent d d'" and "cs = []"
proof -
  obtain n d1 i where n: "create_event_notification ev e None d = Inr (n, d1)"
      and i: "payload_customer (dget_none (event_payload e) ''customer_id'') = Inr i"
    using assms by (auto simp: notify_only_def bindE_Inr_iff)
  have frame: "same_settings d d1" "same_sent d d1" using event_notification_frame [OF n] by blast+
  show "same_settings d d'" "same_sent d d'"
  proof (atomize(full), cases i)
    case None
    then show "same_settings d d' \<and> same_sent d d'"
      using assms n i frame by (auto simp: notify_only_def email_process_event_def email_process_event_inner_def)
  next
    case (Some c)
    then obtain m where "create_event_notification ev e (Some c) d1 = Inr (m, d')"
      using assms n i by (auto simp: notify_only_def email_process_event_def email_process_event_inner_def bindE_Inr_iff)
    then show "same_settings d d' \<and> same_sent d d'"
      using event_notification_frame frame by (fastforce simp: same_settings_def same_sent_def)
  qed
  show "cs = []"
    using assms by (auto simp: notify_only_def email_process_event_def email_process_event_inner_def bindE_Inr_iff)
qed

lemma orchestrate_cases:
  assumes "orchestrate ev ps e d = Inr (cs, d')"
  obtains (notified) "\<not> truthy (dget (event_payload e) ''communication_targets'' (JList []))" "notify_only ev e d = Inr (cs, d')"
    | (targets) vs where "dget (event_payload e) ''communication_targets'' (JList []) = JList vs" "vs \<noteq> []"
        "process_targets ev ps e vs d = Inr (cs, d')"
proof (cases "truthy (dget (event_payload e) ''communication_targets'' (JList []))")
  case True
  then show ?thesis
    using assms targets
    by (cases "dget (event_payload e) ''communication_targets'' (JList [])") (auto simp: orchestrate_def Let_def)
next
  case False
  then show ?thesis using assms notified by (simp add: orchestrate_def Let_def)
qed

section \<open>A business that reminds a customer\<close>

definition reliable :: comm_providers where
  "reliable = (let p = \<lparr>cpr_name = ''smtp'', cpr_send = \<lambda>m. provider_ok ''msg-1'' []\<rparr>
     in \<lparr>email_provider = p, sms_provider = p, voice_provider = p, whatsapp_provider = p, push_provider = p\<rparr>)"

definition consenting :: CustomerCommunicationPreference where
  "consenting =
     \<lparr>ccp_id = 53, ccp_customer_id = 2, ccp_business_id = 1, ccp_channel = Some ''EMAIL'', ccp_purpose = Some ''REMINDER'',
      ccp_consent_state = ''OPTED_IN'', ccp_opt_in = True, ccp_suppression = False, ccp_suppression_reason = None,
      ccp_do_not_contact = False, ccp_source = Some ''customer_api'', ccp_consented_at = Some 10, ccp_deleted = False\<rparr>"

definition comm_db :: db where
  "comm_db = (authored_db Bmr_OWNER [first_rule] Bvs_ACTIVE (Some 1001))
     \<lparr>t_channels := [\<lparr>bcc_id = 51, bcc_business_id = 1, bcc_channel = ''EMAIL'', bcc_enabled = True, bcc_provider_ref = None,
                     bcc_settings = JNull, bcc_deleted = False\<rparr>],
      t_purposes := [\<lparr>bcp_id = 52, bcp_business_id = 1, bcp_purpose = ''REMINDER'', bcp_enabled = True,
                     bcp_permitted_channels = JList [JStr ''EMAIL''], bcp_deleted = False\<rparr>],
      t_preferences := [consenting]\<rparr>"

definition reminder_target :: "string \<Rightarrow> json" where
  "reminder_target address =
     JObj [(''channel'', JStr ''EMAIL''), (''purpose'', JStr ''REMINDER''), (''customer_id'', JStr ''2''),
           (''recipient_address'', JStr address)]"

definition reminder :: "json list \<Rightarrow> OutboxEvent" where
  "reminder targets =
     \<lparr>oe_id = 60, oe_business_id = 1, oe_event_type = ''BOOKING_CONFIRMED'', oe_aggregate_type = ''booking'', oe_aggregate_id = 40,
      oe_key_suffix = ''BOOKING_CONFIRMED'', oe_payload = [(''communication_targets'', PJson (JList targets))], oe_status = Obx_PENDING,
      oe_attempt_count = 0, oe_available_at = 50, oe_processed_at = None, oe_last_error = None, oe_processing_started_at = None\<rparr>"

lemma reminder_sent:
  "\<exists>x d'. orchestrate sample_env reliable (reminder [reminder_target ''ann'']) comm_db = Inr ([x], d')"
proof -
  have "case orchestrate sample_env reliable (reminder [reminder_target ''ann'']) comm_db of
      Inl _ \<Rightarrow> False | Inr (cs, d') \<Rightarrow> length cs = 1"
    by code_simp
  then show ?thesis by (auto split: sum.splits simp: length_Suc_conv)
qed

lemma comm_db_ok: "comms_ok comm_db"
  by (simp add: comms_ok_def comm_db_def authored_defs keys_distinct_def)

text \<open>C30: Whatever an event asks for, processing it only adds communications whose channel and
  purpose the business has enabled, whose recipient has consented and for whose business a version
  of the Brain is in force, as the tables stood when the event came; every such communication is
  for the event's business, and keys and attempts stay unique.
\<close>

theorem communications_are_governed:
  assumes "orchestrate ev ps e d = Inr (cs, d')" and "comms_ok d"
  shows "comms_ok d' \<and>
    (\<exists>new rs. t_communications d' = t_communications d @ new \<and> t_recipients d' = t_recipients d @ rs \<and>
       list_all2 (governed e d) new rs)"
proof -
  have "adds_governed e d d d'"
    using assms(1)
  proof (cases rule: orchestrate_cases)
    case notified
    then show ?thesis using notify_only_frame assms(2) adds_governed_same by blast
  next
    case (targets vs)
    then show ?thesis using process_targets_governed assms(2) same_refl by blast
  qed
  then show ?thesis by (simp add: adds_governed_def)
qed

theorem communications_are_governed_witness:
  "\<exists>x d'. orchestrate sample_env reliable (reminder [reminder_target ''ann'']) comm_db = Inr ([x], d') \<and> comms_ok d' \<and>
     (\<exists>new rs. t_communications d' = t_communications comm_db @ new \<and> t_recipients d' = t_recipients comm_db @ rs \<and>
        list_all2 (governed (reminder [reminder_target ''ann'']) comm_db) new rs)"
  using reminder_sent communications_are_governed [OF _ comm_db_ok] by blast

section \<open>Replays\<close>

lemma recorded_key_found:
  assumes "comms_ok d" "x \<in> set (t_communications d)" "\<not> com_deleted x"
  shows "get_communication_by_key (com_idempotency_key x) d = Inr (Some x)"
  using filter_key_single [of com_idempotency_key "t_communications d" x "\<lambda>c. \<not> com_deleted c"] assms
  by (simp add: get_communication_by_key_def comms_ok_def)

lemma recorded_target_kept:
  assumes "comms_ok d" "read_target e v = Inr t" "x \<in> set (t_communications d)"
    "com_idempotency_key x = tg_key t" "\<not> com_deleted x"
  shows "process_target ev ps e v d = Inr (Some x, d)"
  using recorded_key_found [OF assms(1,3,5)] assms(2,4) by (simp add: process_target_def)

text \<open>The target's communication is among those of the database.\<close>

definition recorded :: "OutboxEvent \<Rightarrow> json \<Rightarrow> Communication \<Rightarrow> db \<Rightarrow> bool" where
  "recorded e v x d \<longleftrightarrow>
     (\<exists>t. read_target e v = Inr t \<and> com_idempotency_key x = tg_key t) \<and> x \<in> set (t_communications d) \<and> \<not> com_deleted x"

lemma process_target_recorded:
  assumes "process_target ev ps e v d = Inr (c, d')" "comms_ok d"
  shows "comms_ok d' \<and> set (t_communications d) \<subseteq> set (t_communications d') \<and> (\<forall>x\<in>set_option c. recorded e v x d')"
  using assms
proof (cases rule: process_target_cases)
  case (replayed t x)
  then show ?thesis using assms(2) by (auto simp: recorded_def)
next
  case withheld
  then show ?thesis using comms_ok_same assms(2) by (auto simp: same_sent_def)
next
  case (sent t x d1)
  then have "t_communications d' = t_communications d @ [x]" "com_idempotency_key x = tg_key t" "\<not> com_deleted x"
    by (auto simp: sent_for_def same_sent_def)
  then show ?thesis using sent sent_for_ok by (auto simp: recorded_def)
qed

lemma process_targets_recorded:
  assumes "process_targets ev ps e vs d = Inr (cs, d')" "comms_ok d"
  shows "comms_ok d' \<and> set (t_communications d) \<subseteq> set (t_communications d') \<and> length cs \<le> length vs \<and>
    (length cs = length vs \<longrightarrow> list_all2 (\<lambda>v x. recorded e v x d') vs cs)"
  using assms
proof (induction vs arbitrary: d cs)
  case (Cons v vs)
  obtain c d1 ds where one: "process_target ev ps e v d = Inr (c, d1)"
      and rest: "process_targets ev ps e vs d1 = Inr (ds, d')"
      and cs: "cs = (case c of None \<Rightarrow> ds | Some x \<Rightarrow> x # ds)"
    using Cons.prems(1) by (auto simp: bindE_Inr_iff)
  note first = process_target_recorded [OF one Cons.prems(2)]
  show ?case
    using Cons.IH [OF rest] first cs by (cases c) (auto simp: recorded_def)
qed simp

lemma recorded_targets_kept:
  assumes "list_all2 (\<lambda>v x. recorded e v x d) vs cs" "comms_ok d"
  shows "process_targets ev ps e vs d = Inr (cs, d)"
  using assms(1)
proof (induction vs cs rule: list_all2_induct)
  case (Cons v vs x cs)
  then show ?case using recorded_target_kept [OF assms(2)] by (auto simp: recorded_def)
qed simp

text \<open>C31: An event all of whose targets have been sent may be processed again, at any time and with any
  providers: the same communications are returned and the database stays as it is.
\<close>

theorem replay_sends_nothing:
  assumes "orchestrate ev ps e d = Inr (cs, d')" and "comms_ok d"
    and "dget (event_payload e) ''communication_targets'' (JList []) = JList vs" and "vs \<noteq> []" and "length cs = length vs"
  shows "orchestrate ev' ps' e d' = Inr (cs, d')"
proof -
  have "process_targets ev ps e vs d = Inr (cs, d')"
    using assms(1,3,4) by (simp add: orchestrate_def)
  then have "process_targets ev' ps' e vs d' = Inr (cs, d')"
    using process_targets_recorded [OF _ assms(2)] assms(5) recorded_targets_kept by blast
  then show ?thesis using assms(3,4) by (simp add: orchestrate_def)
qed

theorem replay_sends_nothing_witness:
  "\<exists>x d'. orchestrate sample_env reliable (reminder [reminder_target ''ann'']) comm_db = Inr ([x], d') \<and>
     orchestrate (sample_env\<lparr>env_now := 10 ^ 15\<rparr>) reliable (reminder [reminder_target ''ann'']) d' = Inr ([x], d')"
proof -
  obtain x d' where run: "orchestrate sample_env reliable (reminder [reminder_target ''ann'']) comm_db = Inr ([x], d')"
    using reminder_sent by blast
  then have "orchestrate (sample_env\<lparr>env_now := 10 ^ 15\<rparr>) reliable (reminder [reminder_target ''ann'']) d' = Inr ([x], d')"
    by (rule replay_sends_nothing [OF _ comm_db_ok, where vs = "[reminder_target ''ann'']"])
       (simp_all add: reminder_def event_payload_def dget_def)
  then show ?thesis using run by blast
qed

text \<open>Of two targets of one event with the same channel and purpose only the first is reached: no
  recipient row is written for the second, and its result is the first one's communication.
\<close>

theorem second_recipient_never_reached:
  assumes "read_target e v = Inr t" and "read_target e w = Inr u"
    and "rc_channel (tg_context u) = rc_channel (tg_context t)" and "rc_purpose (tg_context u) = rc_purpose (tg_context t)"
    and "comms_ok d" and "process_target ev ps e v d = Inr (Some x, d1)"
  shows "process_targets ev ps e [v, w] d = Inr ([x, x], d1)"
proof -
  have key: "tg_key u = tg_key t"
    using assms(1-4) by (auto simp: read_target_def bindE_Inr_iff)
  have "recorded e v x d1" "comms_ok d1"
    using process_target_recorded [OF assms(6,5)] by blast+
  then have "process_target ev ps e w d1 = Inr (Some x, d1)"
    using key assms(1) by (intro recorded_target_kept [OF _ assms(2)]) (auto simp: recorded_def)
  then show ?thesis using assms(6) by simp
qed

theorem second_recipient_never_reached_witness:
  "\<exists>x d1. process_targets sample_env reliable (reminder []) [reminder_target ''ann'', reminder_target ''bob''] comm_db = Inr ([x, x], d1)"
proof -
  have "case process_target sample_env reliable (reminder []) (reminder_target ''ann'') comm_db of
      Inl _ \<Rightarrow> False | Inr (c, d') \<Rightarrow> c \<noteq> None"
    by code_simp
  then obtain x d1 where "process_target sample_env reliable (reminder []) (reminder_target ''ann'') comm_db = Inr (Some x, d1)"
    by (auto split: sum.splits)
  moreover obtain t u where "read_target (reminder []) (reminder_target ''ann'') = Inr t" "read_target (reminder []) (reminder_target ''bob'') = Inr u"
      "rc_channel (tg_context u) = rc_channel (tg_context t)" "rc_purpose (tg_context u) = rc_purpose (tg_context t)"
    by (auto simp: read_target_def reminder_target_def text_or_def optional_uuid_def dget_none_def dget_def uuid_of_str_def
          is_digit_def digit_value_def)
  ultimately show ?thesis using second_recipient_never_reached comm_db_ok by blast
qed

section \<open>Consent withdrawn for everything\<close>

text \<open>A row whose columns are not those asked for does not show when it is written or changed.\<close>

lemma upsert_preference_other:
  assumes upsert: "upsert_preference p d = Inr (q, d')" and ids: "keys_distinct ccp_id (t_preferences d)"
    and other: "(ch, pu) \<noteq> (ccp_channel p, ccp_purpose p)"
  shows "get_preference c b ch pu d' = get_preference c b ch pu d"
proof -
  obtain found where found: "get_preference (ccp_customer_id p) (ccp_business_id p) (ccp_channel p) (ccp_purpose p) d = Inr found"
    using upsert by (auto simp: upsert_preference_def bindE_Inr_iff)
  show ?thesis
  proof (cases found)
    case None
    then have "t_preferences d' = t_preferences d @ [p]"
      using upsert found by (auto simp: upsert_preference_def used_id_def)
    then show ?thesis using other by (auto simp: get_preference_def)
  next
    case (Some e)
    then have e: "e \<in> set (t_preferences d)" "ccp_channel e = ccp_channel p" "ccp_purpose e = ccp_purpose p"
      using found unfolding get_preference_def by (blast dest: scalar_in)+
    have "q = e\<lparr>ccp_consent_state := ccp_consent_state p, ccp_opt_in := ccp_opt_in p,
           ccp_source := (if ccp_source p = None then ccp_source e else ccp_source p),
           ccp_consented_at := (if ccp_consented_at p = None then ccp_consented_at e else ccp_consented_at p)\<rparr>"
        and changed: "t_preferences d' = upd_row ccp_id (ccp_id e) (\<lambda>_. q) (t_preferences d)"
      using upsert found Some by (auto simp: upsert_preference_def Let_def)
    then have q: "ccp_channel q = ccp_channel e" "ccp_purpose q = ccp_purpose e" by simp_all
    have "r = e" if "r \<in> set (t_preferences d)" "ccp_id r = ccp_id e" for r
      using ids that e(1) by (auto simp: keys_distinct_def distinct_map dest: inj_onD)
    then show ?thesis
      unfolding get_preference_def changed using e q other
      by (intro arg_cong [where f = scalar_one_or_none] filter_upd_row_none) auto
  qed
qed

text \<open>A customer who withdraws consent for a business altogether, naming neither channel nor
  purpose, goes on receiving whatever an earlier, more specific consent permits.
\<close>

theorem general_opt_out_is_overridden:
  assumes "opt_out ev c b None None d = Inr (q, d')" and "keys_distinct ccp_id (t_preferences d)"
    and "get_preference c b (Some ch) (Some pu) d = Inr (Some p)"
  shows "effective_preference c b ch pu d' = Inr (Some p)"
proof -
  have "get_preference c b (Some ch) (Some pu) d' = Inr (Some p)"
    using upsert_preference_other [OF assms(1) [unfolded opt_out_def] assms(2), of "Some ch" "Some pu" c b] assms(3)
    by (simp add: new_preference_def upper_opt_def)
  then show ?thesis by (simp add: effective_preference_def)
qed

theorem general_opt_out_is_overridden_witness:
  "\<exists>q d'. opt_out sample_env 2 1 None None comm_db = Inr (q, d') \<and> \<not> ccp_opt_in q \<and>
     effective_preference 2 1 ''EMAIL'' ''REMINDER'' d' = Inr (Some consenting)"
proof -
  have general: "get_preference 2 1 None None comm_db = Inr None"
    and specific: "get_preference 2 1 (Some ''EMAIL'') (Some ''REMINDER'') comm_db = Inr (Some consenting)"
    and ids: "keys_distinct ccp_id (t_preferences comm_db)"
    by (simp_all add: get_preference_def comm_db_def consenting_def keys_distinct_def)
  obtain q d' where run: "opt_out sample_env 2 1 None None comm_db = Inr (q, d')" and "\<not> ccp_opt_in q"
    using general by (auto simp: opt_out_def upsert_preference_def new_preference_def upper_opt_def)
  then show ?thesis using general_opt_out_is_overridden [OF run ids specific] by blast
qed

section \<open>Rules of the Brain\<close>

lemma communication_is_no_rule_type: "get_rule_type ''communication'' = None"
  by code_simp

text \<open>C32: Whatever the Brain services have been asked to do, no rule of a business ever restricts
  its communications: the version in force holds no rule of the type that the policy looks for, so
  the check of the rules passes without a match.\<close>

theorem communication_rules_never_apply:
  assumes "brain_start d0" and "brain_steps d0 d" and "policy_brain_version b d = Inr (Some v)"
  shows "check_brain_rules b rc d = Inr (check ''PASS'' ''Brain rules check passed'' [], Some (bv_id v), [])"
proof -
  have v: "v \<in> set (t_brain_versions d)" "bv_status v = Bvs_ACTIVE"
    using assms(3) unfolding policy_brain_version_def by (blast dest: scalar_in)+
  then have "validate_version_structure v = Inr []"
    using brain_reachable_inv [OF assms(1,2)] by (auto simp: brain_inv_def settled_def)
  then have "communication_rules v = []"
    using valid_rule_types communication_is_no_rule_type by (fastforce simp: communication_rules_def filter_empty_conv)
  then show ?thesis using assms(3) by (simp add: check_brain_rules_def)
qed

theorem communication_rules_never_apply_witness:
  "check_brain_rules 1
     \<lparr>rc_recipient_type = ''CUSTOMER'', rc_customer_id = Some 2, rc_address = ''ann'', rc_channel = ''EMAIL'', rc_purpose = ''REMINDER''\<rparr>
     (authored_db Bmr_OWNER [first_rule] Bvs_ACTIVE (Some 1001)) =
     Inr (check ''PASS'' ''Brain rules check passed'' [], Some 1001, [])"
proof -
  have "policy_brain_version 1 (authored_db Bmr_OWNER [first_rule] Bvs_ACTIVE (Some 1001)) =
      Inr (Some (first_version [first_rule] Bvs_ACTIVE))"
    by (simp add: policy_brain_version_def authored_defs)
  then show ?thesis
    using communication_rules_never_apply [OF authored_start active_steps] by (simp add: first_version_def new_version_def)
qed

section \<open>Templates\<close>

text \<open>A template as the pieces it was written from.\<close>

datatype segment = Verbatim string | Placeholder string string string

fun written :: "segment \<Rightarrow> string" where
  "written (Verbatim s) = s"
| "written (Placeholder a w b) = ''{{'' @ a @ w @ b @ ''}}''"

fun well_written :: "segment \<Rightarrow> bool" where
  "well_written (Verbatim s) \<longleftrightarrow> CHR 0x7B \<notin> set s"
| "well_written (Placeholder a w b) \<longleftrightarrow> list_all is_space a \<and> list_all is_word_char w \<and> w \<noteq> [] \<and> list_all is_space b"

fun meaning :: "json_obj \<Rightarrow> segment \<Rightarrow> string" where
  "meaning variables (Verbatim s) = s"
| "meaning variables (Placeholder a w b) =
     (case dget_none variables w of JNull \<Rightarrow> written (Placeholder a w b) | v \<Rightarrow> py_str v)"

lemma word_not_space: "is_word_char c \<Longrightarrow> \<not> is_space c"
  by (auto simp: is_word_char_def is_space_def is_digit_def digit_value_def)

lemma brace_no_word: "\<not> is_word_char (CHR 0x7D)" "\<not> is_space (CHR 0x7D)"
  by (simp_all add: is_word_char_def is_space_def is_digit_def digit_value_def)

lemma dropWhile_all_append: "list_all P a \<Longrightarrow> dropWhile P (a @ s) = dropWhile P s"
  by (induction a) auto

lemma takeWhile_all_append: "list_all P a \<Longrightarrow> takeWhile P (a @ s) = a @ takeWhile P s"
  by (induction a) auto

lemma dropWhile_stops: "w \<noteq> [] \<Longrightarrow> list_all Q w \<Longrightarrow> (\<And>c. Q c \<Longrightarrow> \<not> P c) \<Longrightarrow> dropWhile P (w @ s) = w @ s"
  by (cases w) auto

lemma spaces_stop_word: "list_all is_space b \<Longrightarrow> takeWhile is_word_char (b @ CHR 0x7D # s) = [] \<and> dropWhile is_word_char (b @ CHR 0x7D # s) = b @ CHR 0x7D # s"
  using word_not_space brace_no_word by (cases b) auto

lemma match_placeholder:
  assumes "well_written (Placeholder a w b)"
  shows "match_variable (written (Placeholder a w b) @ s) = Some (w, s)"
  using assms word_not_space spaces_stop_word [of b "CHR 0x7D # s"] brace_no_word
  by (auto simp: match_variable_def Let_def dropWhile_all_append takeWhile_all_append
        dropWhile_stops [where Q = is_word_char])

lemma match_other: "c \<noteq> CHR 0x7B \<Longrightarrow> match_variable (c # s) = None"
  by (simp add: match_variable_def)

lemma render_verbatim: "CHR 0x7B \<notin> set s \<Longrightarrow> render_template (s @ s') variables = s @ render_template s' variables"
  by (induction s) (auto simp: render_template.simps [of "_ # _"] match_other)

text \<open>Rendering a template written as verbatim text without opening braces and placeholders of
  words replaces each placeholder by its variable's text, keeps those of unknown or null variables
  as they were written and keeps the verbatim text.\<close>

theorem render_template_piecewise:
  assumes "list_all well_written segs"
  shows "render_template (concat (map written segs)) variables = concat (map (meaning variables) segs)"
  using assms
proof (induction segs)
  case Nil
  then show ?case by (simp add: render_template.simps [of "[]"] match_variable_def)
next
  case (Cons g segs)
  show ?case
  proof (cases g)
    case (Verbatim s)
    then show ?thesis using Cons by (simp add: render_verbatim)
  next
    case (Placeholder a w b)
    let ?rest = "concat (map written segs)"
    have match: "match_variable (written g @ ?rest) = Some (w, ?rest)"
      using Cons.prems Placeholder match_placeholder [of a w b ?rest] by simp
    have verbatim: "matched_text (written g @ ?rest) ?rest = written g"
      by (simp add: matched_text_def)
    have "render_template (written g @ ?rest) variables =
        (case dget_none variables w of JNull \<Rightarrow> written g | v \<Rightarrow> py_str v) @ render_template ?rest variables"
      by (subst render_template.simps) (simp only: match verbatim option.case prod.case)
    then show ?thesis
      using Cons unfolding Placeholder by (simp del: written.simps)
  qed
qed

theorem render_template_piecewise_witness:
  "render_template ''Dear {{ name }}, {{when}}!'' [(''name'', JStr ''Ann'')] = ''Dear Ann, {{when}}!''"
  using render_template_piecewise [of "[Verbatim ''Dear '', Placeholder '' '' ''name'' '' '', Verbatim '', '', Placeholder [] ''when'' [], Verbatim ''!'']"
      "[(''name'', JStr ''Ann'')]"]
  by (simp add: is_space_def is_word_char_def dget_none_def dget_def)

end
