(* ===== verification/Communication_Api.thy ===== *)
theory Communication_Api
  imports Communication_Guarantees
begin

text \<open>
  The endpoints of src/backend/app/api/v1/communications.py: templates and their versions, the
  configuration of channels and purposes, and the webhooks by which the providers report on
  deliveries.  A 404 of the framework is the NotFoundError of its detail.

  The fresh identifier that a webhook without one gets, and the digest of the payload that the
  providers without identifiers use, are arguments.
\<close>

section \<open>Communications and notifications\<close>

definition communications_for_business ::
  "uuid \<Rightarrow> string option \<Rightarrow> string option \<Rightarrow> string option \<Rightarrow> nat \<Rightarrow> nat \<Rightarrow> db \<Rightarrow> Communication list" where
  "communications_for_business business_id channel purpose status limit offset d =
     page com_created_at limit offset
       (filter (\<lambda>c. com_business_id c = business_id \<and> \<not> com_deleted c \<and>
          (\<forall>x\<in>set_option channel. x \<noteq> [] \<longrightarrow> com_channel c = x) \<and> (\<forall>x\<in>set_option purpose. x \<noteq> [] \<longrightarrow> com_purpose c = x) \<and>
          (\<forall>x\<in>set_option status. x \<noteq> [] \<longrightarrow> com_status c = x)) (t_communications d))"

definition get_communication :: "uuid \<Rightarrow> uuid \<Rightarrow> db \<Rightarrow> err + Communication" where
  "get_communication business_id i d =
     bindE (scalar_one_or_none (filter (\<lambda>c. com_id c = i \<and> com_business_id c = business_id \<and> \<not> com_deleted c) (t_communications d)))
       (\<lambda>found. requireE (NotFoundError ''Communication not found'') found)"

definition list_attempts :: "uuid \<Rightarrow> db \<Rightarrow> CommunicationAttempt list" where
  "list_attempts communication_id d =
     sort_key ca_created_at (filter (\<lambda>a. ca_communication_id a = communication_id) (t_comm_attempts d))"

definition list_communication_attempts :: "uuid \<Rightarrow> uuid \<Rightarrow> db \<Rightarrow> err + CommunicationAttempt list" where
  "list_communication_attempts business_id i d =
     bindE (get_communication business_id i d) (\<lambda>_. Inr (list_attempts i d))"

definition mark_notification_read :: "env \<Rightarrow> uuid \<Rightarrow> uuid \<Rightarrow> db \<Rightarrow> err + Notification \<times> db" where
  "mark_notification_read ev i user_id d =
     bindE (mark_notification ev i user_id d) (\<lambda>(found, d1).
     bindE (requireE (NotFoundError ''Notification not found'') found) (\<lambda>n. Inr (n, d1)))"

section \<open>Templates\<close>

record template_body =
  tb_channel :: string
  tb_purpose :: string
  tb_name :: string
  tb_subject :: "string option"
  tb_body :: string
  tb_variables :: "json_obj option"

text \<open>The request schema.\<close>

definition template_schema :: "template_body \<Rightarrow> err + unit" where
  "template_schema b =
     bindE (guardE (tb_name b \<noteq> [] \<and> length (tb_name b) \<le> 255) (ValidationError ''name'')) (\<lambda>_.
     guardE (tb_body b \<noteq> []) (ValidationError ''body''))"

definition new_template_version :: "uuid \<Rightarrow> uuid \<Rightarrow> nat \<Rightarrow> template_body \<Rightarrow> uuid \<Rightarrow> CommunicationTemplateVersion" where
  "new_template_version i template_id n b user_id =
     \<lparr>tv_id = i, tv_template_id = template_id, tv_version_number = n, tv_subject = tb_subject b, tv_body = tb_body b,
      tv_variables = (case tb_variables b of None \<Rightarrow> JNull | Some v \<Rightarrow> JObj v), tv_created_by = Some user_id\<rparr>"

definition put_template :: "CommunicationTemplate \<Rightarrow> db \<Rightarrow> db" where
  "put_template t d = d\<lparr>t_templates := upd_row tpl_id (tpl_id t) (\<lambda>_. t) (t_templates d)\<rparr>"

definition create_template :: "env \<Rightarrow> uuid \<Rightarrow> template_body \<Rightarrow> uuid \<Rightarrow> db \<Rightarrow> err + CommunicationTemplate \<times> db" where
  "create_template ev business_id b user_id d =
     bindE (template_schema b) (\<lambda>_.
     let t = \<lparr>tpl_id = fresh_id d, tpl_business_id = business_id, tpl_channel = tb_channel b, tpl_purpose = tb_purpose b,
              tpl_name = tb_name b, tpl_active_version_id = None, tpl_status = ''DRAFT'', tpl_approval_state = ''PENDING'',
              tpl_created_at = env_now ev, tpl_deleted = False\<rparr>;
         d1 = used_id (d\<lparr>t_templates := t_templates d @ [t]\<rparr>);
         v = new_template_version (fresh_id d1) (tpl_id t) 1 b user_id;
         d2 = used_id (d1\<lparr>t_template_versions := t_template_versions d1 @ [v]\<rparr>);
         t' = t\<lparr>tpl_active_version_id := Some (tv_id v)\<rparr>
     in Inr (t', put_template t' d2))"

definition get_template :: "uuid \<Rightarrow> uuid \<Rightarrow> db \<Rightarrow> err + CommunicationTemplate" where
  "get_template business_id i d =
     bindE (scalar_one_or_none (filter (\<lambda>t. tpl_id t = i \<and> tpl_business_id t = business_id \<and> \<not> tpl_deleted t) (t_templates d)))
       (\<lambda>found. requireE (NotFoundError ''Template not found'') found)"

definition list_versions :: "uuid \<Rightarrow> db \<Rightarrow> CommunicationTemplateVersion list" where
  "list_versions template_id d =
     sort_key tv_version_number (filter (\<lambda>v. tv_template_id v = template_id) (t_template_versions d))"

definition list_template_versions :: "uuid \<Rightarrow> uuid \<Rightarrow> db \<Rightarrow> err + CommunicationTemplateVersion list" where
  "list_template_versions business_id i d = bindE (get_template business_id i d) (\<lambda>_. Inr (list_versions i d))"

definition update_template ::
  "uuid \<Rightarrow> uuid \<Rightarrow> template_body \<Rightarrow> uuid \<Rightarrow> db \<Rightarrow> err + CommunicationTemplate \<times> db" where
  "update_template business_id i b user_id d =
     bindE (template_schema b) (\<lambda>_.
     bindE (get_template business_id i d) (\<lambda>t.
     let v = new_template_version (fresh_id d) (tpl_id t) (length (list_versions i d) + 1) b user_id;
         d1 = used_id (d\<lparr>t_template_versions := t_template_versions d @ [v]\<rparr>);
         t' = t\<lparr>tpl_name := (if tb_name b = [] then tpl_name t else tb_name b), tpl_active_version_id := Some (tv_id v)\<rparr>
     in Inr (t', put_template t' d1)))"

definition set_template_status :: "string \<Rightarrow> uuid \<Rightarrow> uuid \<Rightarrow> db \<Rightarrow> err + CommunicationTemplate \<times> db" where
  "set_template_status st business_id i d =
     bindE (get_template business_id i d) (\<lambda>t. let t' = t\<lparr>tpl_status := st\<rparr> in Inr (t', put_template t' d))"

definition activate_template :: "uuid \<Rightarrow> uuid \<Rightarrow> db \<Rightarrow> err + CommunicationTemplate \<times> db" where
  "activate_template = set_template_status ''ACTIVE''"

definition deactivate_template :: "uuid \<Rightarrow> uuid \<Rightarrow> db \<Rightarrow> err + CommunicationTemplate \<times> db" where
  "deactivate_template = set_template_status ''INACTIVE''"

section \<open>Configuration\<close>

definition list_channel_configs :: "uuid \<Rightarrow> db \<Rightarrow> BusinessCommunicationChannel list" where
  "list_channel_configs business_id d = filter (\<lambda>c. bcc_business_id c = business_id \<and> \<not> bcc_deleted c) (t_channels d)"

definition list_purpose_configs :: "uuid \<Rightarrow> db \<Rightarrow> BusinessCommunicationPurpose list" where
  "list_purpose_configs business_id d = filter (\<lambda>c. bcp_business_id c = business_id \<and> \<not> bcp_deleted c) (t_purposes d)"

definition opt_obj :: "json_obj option \<Rightarrow> json" where
  "opt_obj v = (case v of None \<Rightarrow> JNull | Some x \<Rightarrow> JObj x)"

text \<open>The event that records a change; its key ends in the second of the change.\<close>

definition emit_config_event ::
  "env \<Rightarrow> string \<Rightarrow> string \<Rightarrow> string \<Rightarrow> uuid \<Rightarrow> uuid \<Rightarrow> string \<Rightarrow> bool \<Rightarrow> db \<Rightarrow> err + db" where
  "emit_config_event ev agg kind k business_id i w enabled =
     emit_business_event ev agg business_id ''COMMUNICATION_CONFIG_UPDATED'' ('':'' @ int_str (env_now ev div us_per_second)) i
       [(''notification_title'', PStr ''Communication settings updated''),
        (''notification_body'', PStr (kind @ '' '' @ in_quotes w @ '' configuration was updated.'')),
        (''config'', PJson (JObj [(k, JStr w), (''enabled'', JBool enabled)]))]"

definition put_channel_config ::
  "env \<Rightarrow> uuid \<Rightarrow> string \<Rightarrow> bool option \<Rightarrow> string option \<Rightarrow> json_obj option \<Rightarrow> db \<Rightarrow> err + BusinessCommunicationChannel \<times> db" where
  "put_channel_config ev business_id channel enabled provider_ref settings d =
     bindE (upsert_channel_config
              \<lparr>bcc_id = fresh_id d, bcc_business_id = business_id, bcc_channel = upper channel, bcc_enabled = (enabled = Some True),
               bcc_provider_ref = provider_ref, bcc_settings = opt_obj settings, bcc_deleted = False\<rparr> d) (\<lambda>(c, d1).
     bindE (emit_config_event ev ''communication_channel_config'' ''Channel'' ''channel'' business_id (bcc_id c) channel (bcc_enabled c) d1) (\<lambda>d2.
     Inr (c, d2)))"

definition put_purpose_config ::
  "env \<Rightarrow> uuid \<Rightarrow> string \<Rightarrow> bool option \<Rightarrow> json_obj option \<Rightarrow> db \<Rightarrow> err + BusinessCommunicationPurpose \<times> db" where
  "put_purpose_config ev business_id purpose enabled permitted_channels d =
     bindE (upsert_purpose_config
              \<lparr>bcp_id = fresh_id d, bcp_business_id = business_id, bcp_purpose = upper purpose, bcp_enabled = (enabled = Some True),
               bcp_permitted_channels = opt_obj permitted_channels, bcp_deleted = False\<rparr> d) (\<lambda>(c, d1).
     bindE (emit_config_event ev ''communication_purpose_config'' ''Purpose'' ''purpose'' business_id (bcp_id c) purpose (bcp_enabled c) d1) (\<lambda>d2.
     Inr (c, d2)))"

section \<open>Webhooks\<close>

definition vonage :: "string \<Rightarrow> bool" where
  "vonage provider \<longleftrightarrow> provider \<in> {''vonage_sms'', ''vonage_whatsapp''}"

definition extract_webhook_event_id :: "(json_obj \<Rightarrow> string) \<Rightarrow> string \<Rightarrow> string \<Rightarrow> json_obj \<Rightarrow> json" where
  "extract_webhook_event_id digest new_id provider payload =
     (if provider = ''resend'' then dget payload ''id'' (JStr new_id)
      else if provider \<in> {''twilio_sms'', ''twilio_voice''} then dget payload ''MessageSid'' (dget payload ''CallSid'' (JStr new_id))
      else if vonage provider then
        (let msg = dget payload ''message_uuid'' (JStr []); status = dget payload ''status'' (JStr []) in
         if truthy msg \<and> truthy status then JStr (py_str msg @ '':'' @ py_str status)
         else if truthy msg then msg else JStr new_id)
      else JStr (digest payload))"

definition extract_webhook_event_type :: "string \<Rightarrow> json_obj \<Rightarrow> json" where
  "extract_webhook_event_type provider payload =
     dget payload
       (if provider = ''resend'' then ''type'' else if provider = ''twilio_sms'' then ''MessageStatus''
        else if provider = ''twilio_voice'' then ''CallStatus'' else if vonage provider then ''status'' else ''event_type'')
       (JStr ''unknown'')"

text \<open>A value bound to a text column that may not be null.\<close>

fun text_column :: "string \<Rightarrow> json \<Rightarrow> err + string" where
  "text_column k (JStr s) = Inr s"
| "text_column k JNull = Inl (IntegrityError k)"
| "text_column k _ = Inl (DataError k)"

definition get_by_provider_event :: "string \<Rightarrow> string \<Rightarrow> db \<Rightarrow> err + CommunicationWebhook option" where
  "get_by_provider_event provider i d =
     scalar_one_or_none (filter (\<lambda>w. cwh_provider w = provider \<and> cwh_external_event_id w = i) (t_webhooks d))"

definition attempt_by_reference :: "string \<Rightarrow> db \<Rightarrow> err + CommunicationAttempt option" where
  "attempt_by_reference ref d = scalar_one_or_none (filter (\<lambda>a. ca_provider_reference a = Some ref) (t_comm_attempts d))"

definition communication_of :: "CommunicationAttempt \<Rightarrow> db \<Rightarrow> Communication option" where
  "communication_of a d = find_row com_id (ca_communication_id a) (t_communications d)"

definition resend_status :: "string \<Rightarrow> string option" where
  "resend_status ty =
     map_of [(''email.delivered'', ''DELIVERED''), (''email.bounced'', ''BOUNCED''), (''email.failed'', ''FAILED''),
             (''email.complained'', ''COMPLAINED'')] ty"

definition vonage_status :: "string \<Rightarrow> string option" where
  "vonage_status ty =
     map_of [(''delivered'', ''DELIVERED''), (''failed'', ''FAILED''), (''rejected'', ''FAILED''), (''submitted'', ''SUCCESS''),
             (''read'', ''DELIVERED'')] (lower ty)"

text \<open>The attempt and its communication take the status, and the audit trail gets a row.\<close>

definition reported :: "string \<Rightarrow> string option \<Rightarrow> CommunicationAttempt \<Rightarrow> CommunicationAttempt" where
  "reported st failure a = a\<lparr>ca_status := st, ca_error := (if failure = None then ca_error a else failure)\<rparr>"

definition apply_delivery ::
  "CommunicationAttempt \<Rightarrow> string \<Rightarrow> string \<Rightarrow> string \<Rightarrow> string option \<Rightarrow> json \<Rightarrow> db \<Rightarrow> err + db" where
  "apply_delivery a ref channel st failure meta d =
     (case communication_of a d of
        None \<Rightarrow> Inl (IntegrityError ''communication_audit_events.business_id'')
      | Some c \<Rightarrow>
          let d1 = d\<lparr>t_comm_attempts := upd_row ca_id (ca_id a) (\<lambda>_. reported st failure a) (t_comm_attempts d),
                     t_communications := upd_row com_id (com_id c) (\<lambda>c. c\<lparr>com_status := st\<rparr>) (t_communications d)\<rparr>
          in Inr (add_audit
               \<lparr>cae_id = fresh_id d1, cae_event_type = channel @ ''_'' @ st, cae_actor_id = None, cae_business_id = com_business_id c,
                cae_customer_id = com_customer_id c, cae_channel = Some channel, cae_purpose = None,
                cae_communication_id = Some (ca_communication_id a), cae_brain_version_id = None, cae_decision_evidence = None,
                cae_provider_reference = Some ref, cae_metadata = meta\<rparr> d1))"

definition process_resend_delivery :: "string \<Rightarrow> json_obj \<Rightarrow> db \<Rightarrow> err + db" where
  "process_resend_delivery event_type payload d =
     bindE (as_object (dget payload ''data'' (JObj []))) (\<lambda>data.
     let message_id = dget data ''email_id'' (JStr []) in
     if \<not> truthy message_id then Inr d else
     bindE (text_column ''provider_reference'' message_id) (\<lambda>ref.
     bindE (attempt_by_reference ref d) (\<lambda>found.
     case (found, resend_status event_type) of
       (Some a, Some st) \<Rightarrow>
         apply_delivery a ref ''EMAIL'' st None (JObj [(''webhook_event_type'', JStr event_type), (''payload'', JObj data)]) d
     | _ \<Rightarrow> Inr d)))"

definition vonage_failure :: "string \<Rightarrow> json_obj \<Rightarrow> string option" where
  "vonage_failure event_type payload =
     (if lower event_type \<in> {''failed'', ''rejected''}
      then Some (''Vonage delivery failed: '' @ event_type @ '' (code: '' @ py_str (dget payload ''err-code'' (JStr [])) @ '')'')
      else None)"

definition vonage_channel :: "string \<Rightarrow> string" where
  "vonage_channel provider = (if py_infix ''sms'' provider then ''SMS'' else ''WHATSAPP'')"

definition process_vonage_delivery :: "string \<Rightarrow> string \<Rightarrow> json_obj \<Rightarrow> db \<Rightarrow> err + db" where
  "process_vonage_delivery provider event_type payload d =
     (let message_uuid = dget payload ''message_uuid'' (JStr []) in
      if \<not> truthy message_uuid then Inr d else
      case vonage_status event_type of
        None \<Rightarrow> Inr d
      | Some st \<Rightarrow>
          bindE (text_column ''provider_reference'' message_uuid) (\<lambda>ref.
          bindE (attempt_by_reference ref d) (\<lambda>found.
          case found of
            None \<Rightarrow> Inr d
          | Some a \<Rightarrow>
              apply_delivery a ref (vonage_channel provider) st (vonage_failure event_type payload)
                (JObj [(''webhook_event_type'', JStr event_type), (''provider'', JStr provider), (''payload'', JObj payload)]) d)))"

definition process_delivery_webhook :: "string \<Rightarrow> string \<Rightarrow> json_obj \<Rightarrow> db \<Rightarrow> err + db" where
  "process_delivery_webhook provider event_type payload d =
     (if provider = ''resend'' then process_resend_delivery event_type payload d
      else if vonage provider then process_vonage_delivery provider event_type payload d
      else Inr d)"

text \<open>The answer says whether the event is a duplicate.\<close>

definition receive_webhook ::
  "env \<Rightarrow> (json_obj \<Rightarrow> string) \<Rightarrow> string \<Rightarrow> string \<Rightarrow> json \<Rightarrow> db \<Rightarrow> err + (bool \<times> uuid) \<times> db" where
  "receive_webhook ev digest new_id provider body d =
     bindE (as_object body) (\<lambda>payload.
     bindE (text_column ''external_event_id'' (extract_webhook_event_id digest new_id provider payload)) (\<lambda>i.
     bindE (get_by_provider_event provider i d) (\<lambda>existing.
     case existing of
       Some w \<Rightarrow> Inr ((True, cwh_id w), d)
     | None \<Rightarrow>
         bindE (text_column ''event_type'' (extract_webhook_event_type provider payload)) (\<lambda>ty.
         let w = \<lparr>cwh_id = fresh_id d, cwh_provider = provider, cwh_external_event_id = i, cwh_event_type = ty,
                  cwh_raw_payload = payload, cwh_processing_status = ''RECEIVED'', cwh_received_at = env_now ev,
                  cwh_processed_at = None, cwh_error_metadata = None, cwh_voice_call_id = None\<rparr>;
             d1 = used_id (d\<lparr>t_webhooks := t_webhooks d @ [w]\<rparr>)
         in bindE (process_delivery_webhook provider ty payload d1) (\<lambda>d2. Inr ((False, cwh_id w), d2))))))"

section \<open>Webhooks are processed once\<close>

definition webhook_keys :: "db \<Rightarrow> (string \<times> string) list" where
  "webhook_keys d = map (\<lambda>w. (cwh_provider w, cwh_external_event_id w)) (t_webhooks d)"

lemma apply_delivery_Inr:
  "apply_delivery a ref channel st failure meta d = Inr d' \<Longrightarrow>
     t_webhooks d' = t_webhooks d \<and>
     t_comm_attempts d' = upd_row ca_id (ca_id a) (\<lambda>_. reported st failure a) (t_comm_attempts d) \<and>
     (\<exists>c. communication_of a d = Some c \<and>
        t_communications d' = upd_row com_id (com_id c) (\<lambda>c. c\<lparr>com_status := st\<rparr>) (t_communications d))"
  by (auto simp: apply_delivery_def add_audit_def used_id_def Let_def split: option.splits)

lemma process_resend_cases:
  assumes "process_resend_delivery ty payload d = Inr d'"
  shows "d' = d \<or> (\<exists>a ref st meta. apply_delivery a ref ''EMAIL'' st None meta d = Inr d')"
proof -
  obtain data where data: "as_object (dget payload ''data'' (JObj [])) = Inr data"
    using assms by (auto simp: process_resend_delivery_def bindE_Inr_iff)
  show ?thesis
  proof (cases "truthy (dget data ''email_id'' (JStr []))")
    case True
    then obtain ref found where ref: "text_column ''provider_reference'' (dget data ''email_id'' (JStr [])) = Inr ref"
        and found: "attempt_by_reference ref d = Inr found"
      using assms data by (auto simp: process_resend_delivery_def bindE_Inr_iff)
    show ?thesis
    proof (cases "\<exists>a st. found = Some a \<and> resend_status ty = Some st")
      case both: True
      then show ?thesis using assms data True ref found by (auto simp: process_resend_delivery_def)
    next
      case False
      then show ?thesis
        using assms data True ref found by (cases found; cases "resend_status ty") (auto simp: process_resend_delivery_def)
    qed
  qed (use assms data in \<open>simp add: process_resend_delivery_def\<close>)
qed

lemma process_vonage_cases:
  assumes "process_vonage_delivery provider ty payload d = Inr d'"
  shows "d' = d \<or> (\<exists>a ref ch st fl meta. apply_delivery a ref ch st fl meta d = Inr d')"
proof (cases "truthy (dget payload ''message_uuid'' (JStr []))")
  case True
  show ?thesis
  proof (cases "vonage_status ty")
    case None
    then show ?thesis using assms True by (simp add: process_vonage_delivery_def)
  next
    case (Some st)
    then obtain ref found where ref: "text_column ''provider_reference'' (dget payload ''message_uuid'' (JStr [])) = Inr ref"
        and found: "attempt_by_reference ref d = Inr found"
      using assms True by (auto simp: process_vonage_delivery_def bindE_Inr_iff)
    then show ?thesis using assms True Some by (cases found) (auto simp: process_vonage_delivery_def)
  qed
qed (use assms in \<open>simp add: process_vonage_delivery_def\<close>)

lemma process_delivery_keeps_webhooks:
  "process_delivery_webhook provider ty payload d = Inr d' \<Longrightarrow> t_webhooks d' = t_webhooks d"
  by (auto simp: process_delivery_webhook_def split: if_splits
        dest!: process_resend_cases process_vonage_cases apply_delivery_Inr)

lemma provider_event_found:
  assumes "distinct (webhook_keys d)" "w \<in> set (t_webhooks d)"
  shows "get_by_provider_event (cwh_provider w) (cwh_external_event_id w) d = Inr (Some w)"
  using filter_key_single [of "\<lambda>w. (cwh_provider w, cwh_external_event_id w)" "t_webhooks d" w "\<lambda>_. True"] assms
  by (simp add: get_by_provider_event_def webhook_keys_def)

lemma receive_webhook_cases:
  assumes "receive_webhook ev digest new_id provider (JObj payload) d = Inr ((dup, i), d')"
  obtains (duplicate) w where "dup" "d' = d" "w \<in> set (t_webhooks d)" "i = cwh_id w" "cwh_provider w = provider"
      "extract_webhook_event_id digest new_id provider payload = JStr (cwh_external_event_id w)"
    | (accepted) w where "\<not> dup" "t_webhooks d' = t_webhooks d @ [w]" "i = cwh_id w" "cwh_provider w = provider"
      "extract_webhook_event_id digest new_id provider payload = JStr (cwh_external_event_id w)"
      "(provider, cwh_external_event_id w) \<notin> set (webhook_keys d)"
proof -
  obtain x where x: "extract_webhook_event_id digest new_id provider payload = JStr x"
    using assms by (cases "extract_webhook_event_id digest new_id provider payload") (auto simp: receive_webhook_def)
  then obtain found where found: "get_by_provider_event provider x d = Inr found"
    using assms by (auto simp: receive_webhook_def bindE_Inr_iff)
  show thesis
  proof (cases found)
    case (Some w)
    then have "w \<in> set (t_webhooks d)" "cwh_provider w = provider" "cwh_external_event_id w = x"
      using found unfolding get_by_provider_event_def by (blast dest: scalar_in)+
    then show thesis using assms x found Some duplicate by (simp add: receive_webhook_def)
  next
    case None
    then have "(provider, x) \<notin> set (webhook_keys d)"
      using found by (auto simp: get_by_provider_event_def webhook_keys_def filter_empty_conv
          dest!: scalar_one_or_none_Inr_NoneD)
    moreover obtain ty d2 where "\<not> dup" "i = fresh_id d" "process_delivery_webhook provider ty payload
        (used_id (d\<lparr>t_webhooks := t_webhooks d @ [\<lparr>cwh_id = fresh_id d, cwh_provider = provider, cwh_external_event_id = x,
           cwh_event_type = ty, cwh_raw_payload = payload, cwh_processing_status = ''RECEIVED'', cwh_received_at = env_now ev,
                  cwh_processed_at = None, cwh_error_metadata = None, cwh_voice_call_id = None\<rparr>]\<rparr>)) = Inr d'"
      using assms x found None by (auto simp: receive_webhook_def Let_def bindE_Inr_iff)
    ultimately show thesis
      using x process_delivery_keeps_webhooks by (intro accepted) (auto simp: used_id_def)
  qed
qed

text \<open>A webhook that names its event is processed once: when the provider delivers it again, whatever
  has been generated in the meantime, the answer is that it is a duplicate of the same row and the
  database stays as it is; and no two rows share provider and event.\<close>

theorem webhook_redelivery_changes_nothing:
  assumes "receive_webhook ev digest new_id provider (JObj payload) d = Inr ((dup, i), d')"
    and "distinct (webhook_keys d)"
    and "extract_webhook_event_id digest other_id provider payload = extract_webhook_event_id digest new_id provider payload"
  shows "receive_webhook ev' digest other_id provider (JObj payload) d' = Inr ((True, i), d') \<and> distinct (webhook_keys d')"
proof -
  have "distinct (webhook_keys d') \<and> (\<exists>w\<in>set (t_webhooks d'). i = cwh_id w \<and> cwh_provider w = provider \<and>
      extract_webhook_event_id digest new_id provider payload = JStr (cwh_external_event_id w))"
    using assms(1)
  proof (cases rule: receive_webhook_cases)
    case (duplicate w)
    then show ?thesis using assms(2) by blast
  next
    case (accepted w)
    then show ?thesis using assms(2) by (auto simp: webhook_keys_def)
  qed
  then obtain w where w: "distinct (webhook_keys d')" "w \<in> set (t_webhooks d')" "i = cwh_id w" "provider = cwh_provider w"
      "extract_webhook_event_id digest new_id provider payload = JStr (cwh_external_event_id w)"
    by blast
  show ?thesis
    using provider_event_found [OF w(1,2)] w assms(3) by (simp add: receive_webhook_def)
qed

theorem webhook_redelivery_changes_nothing_witness:
  "\<exists>i d'. receive_webhook sample_env (\<lambda>_. []) ''u-1'' ''vonage_sms'' (JObj [(''message_uuid'', JStr ''m''), (''status'', JStr ''read'')]) comm_db
       = Inr ((False, i), d') \<and>
     receive_webhook sample_env (\<lambda>_. []) ''u-2'' ''vonage_sms'' (JObj [(''message_uuid'', JStr ''m''), (''status'', JStr ''read'')]) d'
       = Inr ((True, i), d')"
proof -
  let ?payload = "[(''message_uuid'', JStr ''m''), (''status'', JStr ''read'')]"
  have "case receive_webhook sample_env (\<lambda>_. []) ''u-1'' ''vonage_sms'' (JObj ?payload) comm_db of
      Inl _ \<Rightarrow> False | Inr ((dup, i), d') \<Rightarrow> \<not> dup"
    by code_simp
  then obtain i d' where run: "receive_webhook sample_env (\<lambda>_. []) ''u-1'' ''vonage_sms'' (JObj ?payload) comm_db = Inr ((False, i), d')"
    by (auto split: sum.splits)
  have "distinct (webhook_keys comm_db)" by (simp add: webhook_keys_def comm_db_def authored_defs)
  moreover have "extract_webhook_event_id (\<lambda>_. []) u ''vonage_sms'' ?payload = JStr ''m:read''" for u
    by (simp add: extract_webhook_event_id_def vonage_def dget_def)
  ultimately show ?thesis using webhook_redelivery_changes_nothing [OF run] run by metis
qed

section \<open>Statuses that do not exist\<close>

definition CommunicationStatus :: "string list" where
  "CommunicationStatus =
     [''PENDING'', ''QUEUED'', ''SENT'', ''DELIVERED'', ''FAILED'', ''BOUNCED'', ''REJECTED'', ''CANCELLED'']"

text \<open>A receipt of Vonage that a message was submitted, coming at any time, gives its communication a
  status that is none of the statuses of communications, even when the message was already
  reported as delivered.\<close>

theorem submitted_receipt_leaves_the_statuses:
  assumes "process_delivery_webhook provider ty payload d = Inr d'" and "vonage provider" and "lower ty = ''submitted''"
    and "dget payload ''message_uuid'' (JStr []) = JStr ref" and "ref \<noteq> []"
    and "attempt_by_reference ref d = Inr (Some a)" and "communication_of a d = Some c"
  shows "\<exists>c'. find_row com_id (com_id c) (t_communications d') = Some c' \<and> com_status c' = ''SUCCESS'' \<and>
    com_status c' \<notin> set CommunicationStatus"
proof -
  have "apply_delivery a ref (vonage_channel provider) ''SUCCESS'' (vonage_failure ty payload)
      (JObj [(''webhook_event_type'', JStr ty), (''provider'', JStr provider), (''payload'', JObj payload)]) d = Inr d'"
    using assms by (auto simp: process_delivery_webhook_def process_vonage_delivery_def vonage_status_def vonage_def)
  then have comms: "t_communications d' = upd_row com_id (com_id c) (\<lambda>c. c\<lparr>com_status := ''SUCCESS''\<rparr>) (t_communications d)"
    using apply_delivery_Inr assms(7) by fastforce
  have "find_row com_id (com_id c) (t_communications d) = Some c"
    using assms(7) find_row_SomeD [of com_id "ca_communication_id a" "t_communications d" c] by (simp add: communication_of_def)
  then show ?thesis
    unfolding comms by (subst find_row_upd_row_same) (simp_all add: CommunicationStatus_def)
qed

definition delivered_db :: db where
  "delivered_db = comm_db
     \<lparr>t_communications := [\<lparr>com_id = 70, com_business_id = 1, com_customer_id = Some 2, com_channel = ''SMS'', com_purpose = ''REMINDER'',
        com_status = ''DELIVERED'', com_idempotency_key = ''k'', com_brain_version_id = Some 1001, com_decision_evidence = None,
        com_enquiry_id = None, com_quote_id = None, com_booking_id = None, com_service_execution_id = None, com_invoice_id = None,
        com_provider_reference = Some ''m'', com_created_at = 10, com_deleted = False\<rparr>],
      t_comm_attempts := [\<lparr>ca_id = 71, ca_communication_id = 70, ca_provider_name = ''vonage_sms'', ca_provider_reference = Some ''m'',
        ca_status = ''DELIVERED'', ca_error = None, ca_provider_response = None, ca_created_at = 10\<rparr>]\<rparr>"

theorem submitted_receipt_leaves_the_statuses_witness:
  "\<exists>d' c'. process_delivery_webhook ''vonage_sms'' ''submitted'' [(''message_uuid'', JStr ''m'')] delivered_db = Inr d' \<and>
     find_row com_id 70 (t_communications d') = Some c' \<and> com_status c' = ''SUCCESS'' \<and> com_status c' \<notin> set CommunicationStatus"
proof -
  have "case process_delivery_webhook ''vonage_sms'' ''submitted'' [(''message_uuid'', JStr ''m'')] delivered_db of
      Inl _ \<Rightarrow> False | Inr d' \<Rightarrow> True"
    by code_simp
  then obtain d' where run: "process_delivery_webhook ''vonage_sms'' ''submitted'' [(''message_uuid'', JStr ''m'')] delivered_db = Inr d'"
    by (auto split: sum.splits)
  have "attempt_by_reference ''m'' delivered_db = Inr (Some (hd (t_comm_attempts delivered_db)))"
    "communication_of (hd (t_comm_attempts delivered_db)) delivered_db = Some (hd (t_communications delivered_db))"
    "com_id (hd (t_communications delivered_db)) = 70"
    by (simp_all add: attempt_by_reference_def communication_of_def delivered_db_def)
  moreover have "lower ''submitted'' = ''submitted''" by code_simp
  ultimately show ?thesis
    using submitted_receipt_leaves_the_statuses [OF run, of "''m''" "hd (t_comm_attempts delivered_db)" "hd (t_communications delivered_db)"] run
    by (simp add: vonage_def dget_def)
qed

section \<open>Templates\<close>

text \<open>
  Versions of every template are numbered from one without gaps, in the order of their creation.
\<close>

definition versions_of :: "uuid \<Rightarrow> db \<Rightarrow> CommunicationTemplateVersion list" where
  "versions_of i d = filter (\<lambda>v. tv_template_id v = i) (t_template_versions d)"

definition versions_numbered :: "db \<Rightarrow> bool" where
  "versions_numbered d \<longleftrightarrow>
     (\<forall>i. map tv_version_number (versions_of i d) = [1..<Suc (length (versions_of i d))]) \<and>
     (\<forall>v\<in>set (t_template_versions d). tv_template_id v < fresh d \<and> tv_id v < fresh d) \<and>
     keys_distinct tv_id (t_template_versions d)"

lemma length_list_versions: "length (list_versions i d) = length (versions_of i d)"
  by (simp add: list_versions_def versions_of_def)

lemma versions_of_append:
  "t_template_versions d' = t_template_versions d @ [v] \<Longrightarrow>
     versions_of i d' = versions_of i d @ (if tv_template_id v = i then [v] else [])"
  by (simp add: versions_of_def)

lemma numbered_add:
  assumes old: "versions_numbered d" and new: "t_template_versions d' = t_template_versions d @ [v]"
    and "fresh d \<le> tv_id v" "tv_id v < fresh d'" "tv_template_id v < fresh d'"
    and "tv_version_number v = Suc (length (versions_of (tv_template_id v) d))"
  shows "versions_numbered d'" and "get_template_version (tv_id v) d' = Some v" and "last (versions_of (tv_template_id v) d') = v"
proof -
  have unknown: "tv_id v \<notin> tv_id ` set (t_template_versions d)"
    using assms(3) old by (force simp: versions_numbered_def)
  have "map tv_version_number (versions_of i d') = [1..<Suc (length (versions_of i d'))]" for i
    using old assms(6) by (auto simp: versions_of_append [OF new] versions_numbered_def)
  then show "versions_numbered d'"
    using assms unknown by (fastforce simp: versions_numbered_def keys_distinct_def)
  show "get_template_version (tv_id v) d' = Some v"
    using unknown new by (simp add: get_template_version_def find_row_append find_row_None_iff [THEN iffD2])
  show "last (versions_of (tv_template_id v) d') = v"
    by (simp add: versions_of_append [OF new])
qed

lemma put_template_tables [simp]:
  "t_template_versions (put_template t d) = t_template_versions d" "fresh (put_template t d) = fresh d"
  "map tpl_id (t_templates (put_template t d)) = map tpl_id (t_templates d)"
  by (simp_all add: put_template_def ids_upd_row)

definition template_ids_ok :: "db \<Rightarrow> bool" where
  "template_ids_ok d \<longleftrightarrow> keys_distinct tpl_id (t_templates d) \<and> (\<forall>t\<in>set (t_templates d). tpl_id t < fresh d)"

lemma template_ids_map:
  "template_ids_ok d \<longleftrightarrow> distinct (map tpl_id (t_templates d)) \<and> list_all (\<lambda>i. i < fresh d) (map tpl_id (t_templates d))"
  by (simp add: template_ids_ok_def keys_distinct_def list_all_iff)

lemma get_template_in:
  "get_template business_id i d = Inr t \<Longrightarrow> t \<in> set (t_templates d) \<and> tpl_id t = i"
  by (auto simp: get_template_def bindE_Inr_iff requireE_Inr_iff dest!: scalar_in)

text \<open>C33: Creating and updating templates keeps the versions of every template numbered from one in the order
  of their creation, and makes the new version the active one with the text asked for.\<close>

theorem template_versions_stay_numbered:
  assumes "versions_numbered d" and "template_ids_ok d"
    and "create_template ev business_id b user_id d = Inr (t, d') \<or> update_template business_id i b user_id d = Inr (t, d')"
  shows "versions_numbered d' \<and> template_ids_ok d' \<and>
    (\<exists>v. tpl_active_version_id t = Some (tv_id v) \<and> get_template_version (tv_id v) d' = Some v \<and> last (versions_of (tpl_id t) d') = v \<and>
       tv_body v = tb_body b \<and> tv_subject v = tb_subject b)"
  using assms(3)
proof
  assume run: "create_template ev business_id b user_id d = Inr (t, d')"
  let ?v = "new_template_version (Suc (fresh d)) (fresh d) 1 b user_id"
  have none: "versions_of (fresh d) d = []"
    using assms(1) by (force simp: versions_of_def versions_numbered_def filter_empty_conv)
  have t: "tpl_id t = fresh d" "tpl_active_version_id t = Some (tv_id ?v)"
    and d': "t_template_versions d' = t_template_versions d @ [?v]" "fresh d' = Suc (Suc (fresh d))"
      "map tpl_id (t_templates d') = map tpl_id (t_templates d) @ [fresh d]"
    using run by (auto simp: create_template_def bindE_Inr_iff Let_def used_id_def fresh_id_def new_template_version_def)
  have "template_ids_ok d'"
    using assms(2) by (auto simp: template_ids_map d' list_all_iff)
  then show ?thesis
    using numbered_add [OF assms(1) d'(1)] t d'(2) none by (auto simp: new_template_version_def)
next
  assume run: "update_template business_id i b user_id d = Inr (t, d')"
  then obtain t0 where t0: "get_template business_id i d = Inr t0"
    by (auto simp: update_template_def bindE_Inr_iff)
  then have old: "t0 \<in> set (t_templates d)" "tpl_id t0 = i" "i < fresh d"
    using get_template_in [OF t0] assms(2) by (auto simp: template_ids_ok_def)
  let ?v = "new_template_version (fresh d) i (Suc (length (versions_of i d))) b user_id"
  have t: "tpl_id t = i" "tpl_active_version_id t = Some (tv_id ?v)"
    and d': "t_template_versions d' = t_template_versions d @ [?v]" "fresh d' = Suc (fresh d)"
      "map tpl_id (t_templates d') = map tpl_id (t_templates d)"
    using run t0 old(2)
    by (auto simp: update_template_def bindE_Inr_iff Let_def used_id_def fresh_id_def new_template_version_def length_list_versions)
  have "template_ids_ok d'"
    using assms(2) by (auto simp: template_ids_map d' list_all_iff)
  then show ?thesis
    using numbered_add [OF assms(1) d'(1)] t d'(2) old(3) by (auto simp: new_template_version_def)
qed

definition greeting :: "string \<Rightarrow> template_body" where
  "greeting text =
     \<lparr>tb_channel = ''EMAIL'', tb_purpose = ''REMINDER'', tb_name = ''Greeting'', tb_subject = Some ''Hello'', tb_body = text, tb_variables = None\<rparr>"

theorem template_versions_stay_numbered_witness:
  "\<exists>t d'. create_template sample_env 1 (greeting ''Dear {{ name }}'') 5 comm_db = Inr (t, d') \<and> versions_numbered d' \<and> template_ids_ok d'"
proof -
  obtain t d' where run: "create_template sample_env 1 (greeting ''Dear {{ name }}'') 5 comm_db = Inr (t, d')"
    by (simp add: create_template_def template_schema_def greeting_def Let_def)
  moreover have "versions_numbered comm_db" "template_ids_ok comm_db"
    by (simp_all add: versions_numbered_def versions_of_def template_ids_ok_def keys_distinct_def comm_db_def authored_defs)
  ultimately show ?thesis using template_versions_stay_numbered by blast
qed

text \<open>Deactivating a template changes nothing of what is sent: the texts are rendered from it as before.\<close>

theorem deactivated_templates_still_render:
  assumes "deactivate_template business_id i d = Inr (t, d')" and "template_ids_ok d"
  shows "resolve_and_render b channel purpose vars d' = resolve_and_render b channel purpose vars d"
proof -
  obtain t0 where t0: "t0 \<in> set (t_templates d)" "tpl_id t0 = i" and d': "d' = put_template (t0\<lparr>tpl_status := ''INACTIVE''\<rparr>) d"
    using assms(1) get_template_in
    by (fastforce simp: deactivate_template_def set_template_status_def bindE_Inr_iff Let_def)
  let ?h = "\<lambda>r. if tpl_id r = i then r\<lparr>tpl_status := ''INACTIVE''\<rparr> else r"
  have "r = t0" if "r \<in> set (t_templates d)" "tpl_id r = i" for r
    using that t0 assms(2) by (auto simp: template_ids_ok_def keys_distinct_def distinct_map dest: inj_onD)
  then have "t_templates d' = map ?h (t_templates d)"
    using t0(2) by (auto simp: d' put_template_def upd_row_def)
  then have "list_templates b (Some channel) (Some purpose) 1 0 d' = map ?h (list_templates b (Some channel) (Some purpose) 1 0 d)"
    by (simp add: list_templates_def page_def filter_map o_def sort_desc_map take_map if_distrib [where f = tpl_created_at] cong: if_cong)
  moreover have "get_template_version j d' = get_template_version j d" for j
    by (simp add: get_template_version_def d')
  ultimately show ?thesis
    by (cases "list_templates b (Some channel) (Some purpose) 1 0 d") (auto simp: resolve_and_render_def)
qed

definition template_db :: db where
  "template_db = comm_db
     \<lparr>t_templates := [\<lparr>tpl_id = 80, tpl_business_id = 1, tpl_channel = ''EMAIL'', tpl_purpose = ''REMINDER'', tpl_name = ''Greeting'',
        tpl_active_version_id = Some 81, tpl_status = ''ACTIVE'', tpl_approval_state = ''PENDING'', tpl_created_at = 10, tpl_deleted = False\<rparr>],
      t_template_versions := [\<lparr>tv_id = 81, tv_template_id = 80, tv_version_number = 1, tv_subject = None, tv_body = ''Hello'',
        tv_variables = JNull, tv_created_by = None\<rparr>]\<rparr>"

theorem deactivated_templates_still_render_witness:
  "\<exists>t d'. deactivate_template 1 80 template_db = Inr (t, d') \<and> tpl_status t = ''INACTIVE'' \<and>
     resolve_and_render 1 ''EMAIL'' ''REMINDER'' (JObj []) d' = Inr (Some [], ''Hello'')"
proof -
  obtain t d' where run: "deactivate_template 1 80 template_db = Inr (t, d')" and st: "tpl_status t = ''INACTIVE''"
    by (simp add: deactivate_template_def set_template_status_def get_template_def template_db_def Let_def)
  have ids: "template_ids_ok template_db"
    by (simp add: template_ids_ok_def keys_distinct_def template_db_def comm_db_def authored_defs)
  have before: "resolve_and_render 1 ''EMAIL'' ''REMINDER'' (JObj []) template_db = Inr (Some [], ''Hello'')"
    by code_simp
  then show ?thesis
    using deactivated_templates_still_render [OF run ids, of 1 "''EMAIL''" "''REMINDER''" "JObj []"] run st by simp
qed

section \<open>Channels of a purpose\<close>

lemma upsert_purpose_config_found:
  assumes run: "upsert_purpose_config q d = Inr (c, d')" and ids: "keys_distinct bcp_id (t_purposes d)" and live: "\<not> bcp_deleted q"
  shows "get_purpose_config (bcp_business_id q) (bcp_purpose q) d' = Inr (Some c) \<and> bcp_enabled c = bcp_enabled q \<and>
    (bcp_permitted_channels q \<noteq> JNull \<longrightarrow> bcp_permitted_channels c = bcp_permitted_channels q)"
proof -
  let ?P = "\<lambda>c. bcp_business_id c = bcp_business_id q \<and> bcp_purpose c = bcp_purpose q \<and> \<not> bcp_deleted c"
  obtain found where found: "scalar_one_or_none (filter ?P (t_purposes d)) = Inr found"
    using run by (auto simp: upsert_purpose_config_def get_purpose_config_def bindE_Inr_iff)
  show ?thesis
  proof (cases found)
    case None
    then have "filter ?P (t_purposes d) = []" using found by (auto dest: scalar_one_or_none_Inr_NoneD)
    then show ?thesis
      using run found None live
      by (auto simp: upsert_purpose_config_def get_purpose_config_def used_id_def)
  next
    case (Some e)
    then have one: "filter ?P (t_purposes d) = [e]" using found by (auto dest: scalar_one_or_none_Inr_SomeD)
    then have e: "?P e" using filter_eq_ConsD [of ?P "t_purposes d" e "[]"] by auto
    have c: "c = e\<lparr>bcp_enabled := bcp_enabled q, bcp_permitted_channels :=
          (if bcp_permitted_channels q = JNull then bcp_permitted_channels e else bcp_permitted_channels q)\<rparr>"
        "t_purposes d' = upd_row bcp_id (bcp_id e) (\<lambda>_. c) (t_purposes d)"
      using run found Some by (auto simp: upsert_purpose_config_def get_purpose_config_def Let_def)
    then have "filter ?P (t_purposes d') = [c]"
      using filter_upd_row_single [OF one ids, of c] e by simp
    then show ?thesis using c(1) by (simp add: get_purpose_config_def)
  qed
qed

lemma emit_config_event_purposes: "emit_config_event ev agg kind k b i w en d = Inr d' \<Longrightarrow> t_purposes d' = t_purposes d"
  by (auto simp: emit_config_event_def emit_business_event_def used_id_def split: if_splits)

text \<open>The channels permitted for a purpose never restrict it: the endpoint admits only objects, the policy
  heeds only lists, so once a business has enabled a purpose with any permitted channels, the
  purpose stands in the way of no communication on any channel.\<close>

theorem permitted_channels_never_restrict:
  assumes "put_purpose_config ev business_id purpose (Some True) (Some channels) d = Inr (c, d')"
    and "keys_distinct bcp_id (t_purposes d)" and "rc_purpose rc = upper purpose"
  shows "bcp_permitted_channels c = JObj channels \<and> purpose_gate business_id rc d' = Inr None"
proof -
  let ?q = "\<lparr>bcp_id = fresh_id d, bcp_business_id = business_id, bcp_purpose = upper purpose, bcp_enabled = True,
             bcp_permitted_channels = JObj channels, bcp_deleted = False\<rparr>"
  obtain d1 where up: "upsert_purpose_config ?q d = Inr (c, d1)" and "t_purposes d' = t_purposes d1"
    using assms(1) by (auto simp: put_purpose_config_def bindE_Inr_iff opt_obj_def dest!: emit_config_event_purposes)
  then have "get_purpose_config business_id (upper purpose) d' = Inr (Some c)" "bcp_enabled c" "bcp_permitted_channels c = JObj channels"
    using upsert_purpose_config_found [OF up assms(2)] by (simp_all add: get_purpose_config_def)
  then show ?thesis using assms(3) by (simp add: purpose_gate_def)
qed

theorem permitted_channels_never_restrict_witness:
  "\<exists>c d'. put_purpose_config sample_env 1 ''reminder'' (Some True) (Some [(''EMAIL'', JBool True)]) comm_db = Inr (c, d') \<and>
     purpose_gate 1 \<lparr>rc_recipient_type = ''CUSTOMER'', rc_customer_id = Some 2, rc_address = ''ann'', rc_channel = ''SMS'',
       rc_purpose = ''REMINDER''\<rparr> d' = Inr None"
proof -
  have "case put_purpose_config sample_env 1 ''reminder'' (Some True) (Some [(''EMAIL'', JBool True)]) comm_db of
      Inl _ \<Rightarrow> False | Inr _ \<Rightarrow> True"
    by code_simp
  then obtain c d' where run: "put_purpose_config sample_env 1 ''reminder'' (Some True) (Some [(''EMAIL'', JBool True)]) comm_db = Inr (c, d')"
    by (auto split: sum.splits)
  have ids: "keys_distinct bcp_id (t_purposes comm_db)" by (simp add: keys_distinct_def comm_db_def)
  have "upper ''reminder'' = ''REMINDER''" by code_simp
  then show ?thesis using permitted_channels_never_restrict [OF run ids] run by simp
qed

end
