(* ===== verification/Session_Ops.thy ===== *)
theory Session_Ops
  imports FPrelude
begin

text \<open>
  Operations on the session of a request.  One that raises keeps what it has done so far, so an
  operation is a function from a state to a result or an exception, and the state as it stands
  then: a caller that catches the exception goes on with that state.  The locale
  \<open>session_relation\<close> is the interface of what every step of a session keeps.
\<close>

section \<open>Operations\<close>

type_synonym ('s, 'a) session_op = "'s \<Rightarrow> (err + 'a) \<times> 's"

definition return_op :: "'a \<Rightarrow> ('s, 'a) session_op" where
  "return_op x d = (Inr x, d)"

definition raise_op :: "err \<Rightarrow> ('s, 'a) session_op" where
  "raise_op e d = (Inl e, d)"

definition bind_op :: "('s, 'a) session_op \<Rightarrow> ('a \<Rightarrow> ('s, 'b) session_op) \<Rightarrow> ('s, 'b) session_op" where
  "bind_op m f d = (case m d of (Inl e, d1) \<Rightarrow> (Inl e, d1) | (Inr x, d1) \<Rightarrow> f x d1)"

definition read_op :: "('s \<Rightarrow> err + 'a) \<Rightarrow> ('s, 'a) session_op" where
  "read_op f d = (f d, d)"

definition write_op :: "('s \<Rightarrow> 's) \<Rightarrow> ('s, unit) session_op" where
  "write_op f d = (Inr (), f d)"

text \<open>A service method whose exceptions come before its first change.\<close>

definition lift_op :: "('s \<Rightarrow> err + 'a \<times> 's) \<Rightarrow> ('s, 'a) session_op" where
  "lift_op f d = (case f d of Inl e \<Rightarrow> (Inl e, d) | Inr (x, d1) \<Rightarrow> (Inr x, d1))"

text \<open>\<open>try\<close> with an \<open>except Exception\<close>, and a condition that raises.\<close>

definition catch_op :: "('s, 'a) session_op \<Rightarrow> (err \<Rightarrow> ('s, 'a) session_op) \<Rightarrow> ('s, 'a) session_op" where
  "catch_op m h d = (case m d of (Inl e, d1) \<Rightarrow> h e d1 | (Inr x, d1) \<Rightarrow> (Inr x, d1))"

definition check_op :: "bool \<Rightarrow> err \<Rightarrow> ('s, unit) session_op" where
  "check_op b e = (if b then return_op () else raise_op e)"

lemmas op_defs = return_op_def raise_op_def bind_op_def read_op_def write_op_def lift_op_def
lemmas session_defs = op_defs catch_op_def check_op_def

lemma bind_op_Inr:
  "bind_op m f d = (Inr y, d') \<longleftrightarrow> (\<exists>x d1. m d = (Inr x, d1) \<and> f x d1 = (Inr y, d'))"
  by (auto simp: bind_op_def split: prod.splits sum.splits)

lemma bind_opE:
  assumes "bind_op m f d = (Inr y, d')"
  obtains x d1 where "m d = (Inr x, d1)" "f x d1 = (Inr y, d')"
  using assms by (auto simp: bind_op_Inr)

lemma bind_op_cases:
  assumes "bind_op m f d = (r, d')"
  obtains (raised) e where "m d = (Inl e, d')" "r = Inl e"
    | (returned) x d1 where "m d = (Inr x, d1)" "f x d1 = (r, d')"
  using assms by (auto simp: bind_op_def split: prod.splits sum.splits)

lemma basic_op_Inr:
  "return_op x d = (Inr y, d') \<longleftrightarrow> y = x \<and> d' = d"
  "raise_op e d = (Inr y, d') \<longleftrightarrow> False"
  "read_op g d = (Inr y, d') \<longleftrightarrow> g d = Inr y \<and> d' = d"
  "write_op w d = (Inr u, d') \<longleftrightarrow> d' = w d"
  "lift_op l d = (Inr y, d') \<longleftrightarrow> l d = Inr (y, d')"
  "check_op b e d = (Inr u, d') \<longleftrightarrow> b \<and> d' = d"
  by (auto simp: session_defs split: sum.splits prod.splits)

section \<open>What every step of a session keeps\<close>

locale session_relation =
  fixes step :: "'s \<Rightarrow> 's \<Rightarrow> bool"
  assumes step_refl: "step d d"
    and step_trans: "step d d1 \<Longrightarrow> step d1 d2 \<Longrightarrow> step d d2"
begin

definition steady :: "('s, 'a) session_op \<Rightarrow> bool" where
  "steady f \<longleftrightarrow> (\<forall>d. step d (snd (f d)))"

lemma steady_return: "steady (return_op x)"
  and steady_raise: "steady (raise_op e)"
  and steady_read: "steady (read_op g)"
  by (simp_all add: steady_def return_op_def raise_op_def read_op_def step_refl)

lemma steady_check: "steady (check_op b e)"
  by (simp add: check_op_def steady_return steady_raise)

lemma steady_write: "(\<And>d. step d (g d)) \<Longrightarrow> steady (write_op g)"
  by (simp add: steady_def write_op_def)

lemma steady_lift: "(\<And>d x d'. f d = Inr (x, d') \<Longrightarrow> step d d') \<Longrightarrow> steady (lift_op f)"
  by (auto simp: steady_def lift_op_def step_refl split: sum.split)

lemma steady_bind: "steady m \<Longrightarrow> (\<And>x. steady (f x)) \<Longrightarrow> steady (bind_op m f)"
  unfolding steady_def bind_op_def by (auto split: prod.split sum.split intro: step_trans) (metis snd_conv step_trans)+

lemma steady_catch: "steady m \<Longrightarrow> (\<And>e. steady (h e)) \<Longrightarrow> steady (catch_op m h)"
  unfolding steady_def catch_op_def by (auto split: prod.split sum.split intro: step_trans) (metis snd_conv step_trans)+

lemma steady_if: "(b \<Longrightarrow> steady f) \<Longrightarrow> (\<not> b \<Longrightarrow> steady g) \<Longrightarrow> steady (if b then f else g)"
  by simp

lemmas steady_intros =
  steady_return steady_raise steady_read steady_check steady_write steady_lift steady_bind steady_catch steady_if

lemma steadyD: "steady f \<Longrightarrow> f d = (x, d') \<Longrightarrow> step d d'"
  unfolding steady_def by (metis snd_conv)

end

end
