(* ===== verification/Calendar_Sync.thy ===== *)
theory Calendar_Sync
  imports Completion Adapters Session_Ops
begin

text \<open>
  The synchronisation of bookings with the calendar of a business
  (src/backend/app/domain/calendar/sync_service.py and calendar/repository.py) and the endpoints
  that connect, select and disconnect a calendar (api/v1/calendar.py).

  The encryption of tokens, Google's token endpoint and Google's calendar are parameters.  The
  booking that the service gets has its offer loaded and neither its customer nor its business:
  touching these in an asynchronous session raises, which the code swallows, so the event carries
  neither of them.
\<close>

type_synonym 'a op = "(db, 'a) session_op"

section \<open>Calendars\<close>

record CalendarEvent =
  cev_title :: string
  cev_start :: timestamp
  cev_end :: timestamp
  cev_description :: string
  cev_location :: "string option"
  cev_attendees :: "string list option"
  cev_metadata :: "(string \<times> string) list"
  cev_ical_uid :: string

record CalendarEventResult =
  cer_event_id :: string
  cer_success :: bool
  cer_error :: "string option"

record calendar_provider =
  cal_create_event :: "CalendarEvent \<Rightarrow> err + CalendarEventResult"
  cal_update_event :: "string \<Rightarrow> CalendarEvent \<Rightarrow> err + CalendarEventResult"
  cal_delete_event :: "string \<Rightarrow> err + CalendarEventResult"

definition stub_failure :: "string \<Rightarrow> err + CalendarEventResult" where
  "stub_failure i = Inr \<lparr>cer_event_id = i, cer_success = False, cer_error = Some ''Calendar provider not configured (stub)''\<rparr>"

definition StubCalendarProvider :: calendar_provider where
  "StubCalendarProvider =
     \<lparr>cal_create_event = (\<lambda>e. stub_failure []), cal_update_event = (\<lambda>i e. stub_failure i), cal_delete_event = stub_failure\<rparr>"

text \<open>
  Decryption and the refresh of a token may raise; a refresh returns the access token, the seconds
  it is valid for and perhaps a new refresh token.
\<close>

record calendar_world =
  cw_secret :: string
  cw_encrypt :: "string \<Rightarrow> string"
  cw_decrypt :: "string \<Rightarrow> string option"
  cw_refresh :: "string \<Rightarrow> (string \<times> int \<times> string option) option"
  cw_google :: "string \<Rightarrow> string \<Rightarrow> calendar_provider"

section \<open>Rows\<close>

definition get_connection :: "uuid \<Rightarrow> db \<Rightarrow> err + CalendarConnection option" where
  "get_connection business_id d =
     scalar_one_or_none (filter (\<lambda>c. cal_business_id c = business_id \<and> \<not> cal_deleted c) (t_calendars d))"

text \<open>A business is unique among connections, deleted ones included.\<close>

definition insert_connection :: "CalendarConnection \<Rightarrow> db \<Rightarrow> err + db" where
  "insert_connection c d =
     (if cal_business_id c \<in> cal_business_id ` set (t_calendars d)
      then Inl (IntegrityError ''calendar_connections.business_id'')
      else Inr (used_id (d\<lparr>t_calendars := t_calendars d @ [c]\<rparr>)))"

definition put_connection :: "CalendarConnection \<Rightarrow> db \<Rightarrow> db" where
  "put_connection c d = d\<lparr>t_calendars := upd_row cal_id (cal_id c) (\<lambda>_. c) (t_calendars d)\<rparr>"

definition delete_connection :: "CalendarConnection \<Rightarrow> db \<Rightarrow> db" where
  "delete_connection c =
     put_connection (c\<lparr>cal_deleted := True, cal_status := ''disconnected'', cal_access_token_encrypted := None,
                       cal_refresh_token_encrypted := None, cal_token_expiry := None\<rparr>)"

definition get_sync_by_booking :: "uuid \<Rightarrow> db \<Rightarrow> err + CalendarEventSyncRecord option" where
  "get_sync_by_booking i d = scalar_one_or_none (filter (\<lambda>r. csr_booking_id r = i \<and> \<not> csr_deleted r) (t_calendar_syncs d))"

definition get_by_booking_event_id :: "string \<Rightarrow> db \<Rightarrow> err + CalendarEventSyncRecord option" where
  "get_by_booking_event_id i d =
     scalar_one_or_none (filter (\<lambda>r. csr_booking_event_id r = i \<and> \<not> csr_deleted r) (t_calendar_syncs d))"

definition get_syncs_by_business :: "uuid \<Rightarrow> db \<Rightarrow> CalendarEventSyncRecord list" where
  "get_syncs_by_business i d =
     sort_desc csr_created_at (filter (\<lambda>r. csr_business_id r = i \<and> \<not> csr_deleted r) (t_calendar_syncs d))"

definition insert_sync :: "CalendarEventSyncRecord \<Rightarrow> db \<Rightarrow> err + unit \<times> db" where
  "insert_sync r d =
     (if csr_booking_event_id r \<in> csr_booking_event_id ` set (t_calendar_syncs d)
      then Inl (IntegrityError ''calendar_event_sync_records.booking_event_id'')
      else Inr ((), used_id (d\<lparr>t_calendar_syncs := t_calendar_syncs d @ [r]\<rparr>)))"

definition put_sync :: "CalendarEventSyncRecord \<Rightarrow> db \<Rightarrow> db" where
  "put_sync r d = d\<lparr>t_calendar_syncs := upd_row csr_id (csr_id r) (\<lambda>_. r) (t_calendar_syncs d)\<rparr>"

text \<open>A new row is inserted, an existing one updated.\<close>

definition save_sync :: "bool \<Rightarrow> CalendarEventSyncRecord \<Rightarrow> unit op" where
  "save_sync exists r = (if exists then write_op (put_sync r) else lift_op (insert_sync r))"

section \<open>Tokens\<close>

definition token_is_expired :: "env \<Rightarrow> timestamp option \<Rightarrow> bool" where
  "token_is_expired ev expiry = (case expiry of None \<Rightarrow> True | Some t \<Rightarrow> env_now ev \<ge> t - 5 * us_per_minute)"

definition refreshed :: "env \<Rightarrow> calendar_world \<Rightarrow> string \<times> int \<times> string option \<Rightarrow> CalendarConnection \<Rightarrow> CalendarConnection" where
  "refreshed ev cw t c =
     (case t of (access, expires_in, new_refresh) \<Rightarrow>
        c\<lparr>cal_access_token_encrypted := Some (cw_encrypt cw access),
          cal_token_expiry := Some (env_now ev + expires_in * us_per_second),
          cal_refresh_token_encrypted :=
            (case new_refresh of None \<Rightarrow> cal_refresh_token_encrypted c
             | Some r \<Rightarrow> if r = [] then cal_refresh_token_encrypted c else Some (cw_encrypt cw r))\<rparr>)"

text \<open>A failure while the token is refreshed is swallowed.\<close>

definition ensure_valid_token :: "env \<Rightarrow> calendar_world \<Rightarrow> CalendarConnection \<Rightarrow> (string option \<times> CalendarConnection) op" where
  "ensure_valid_token ev cw c =
     (case cal_access_token_encrypted c of
        None \<Rightarrow> return_op (None, c)
      | Some enc \<Rightarrow>
          if enc = [] \<or> cw_secret cw = [] then return_op (None, c) else
          bind_op (read_op (\<lambda>_. requireE (ValueError ''InvalidToken'') (cw_decrypt cw enc))) (\<lambda>access.
          if \<not> token_is_expired ev (cal_token_expiry c) then return_op (Some access, c) else
          case Option.bind (case cal_refresh_token_encrypted c of None \<Rightarrow> None | Some r \<Rightarrow> if r = [] then None else cw_decrypt cw r)
                 (cw_refresh cw) of
            None \<Rightarrow> return_op (None, c)
          | Some t \<Rightarrow> bind_op (write_op (put_connection (refreshed ev cw t c))) (\<lambda>_. return_op (Some (fst t), refreshed ev cw t c))))"

definition resolve_provider :: "env \<Rightarrow> calendar_world \<Rightarrow> CalendarConnection \<Rightarrow> (calendar_provider \<times> CalendarConnection) op" where
  "resolve_provider ev cw c =
     bind_op (ensure_valid_token ev cw c) (\<lambda>(token, c').
     return_op (case token of
         None \<Rightarrow> StubCalendarProvider
       | Some t \<Rightarrow> if t = [] then StubCalendarProvider else cw_google cw t (cal_calendar_id c'), c'))"

definition resolve_active_connection :: "uuid \<Rightarrow> db \<Rightarrow> err + CalendarConnection option" where
  "resolve_active_connection business_id d =
     bindE (get_connection business_id d) (\<lambda>found.
     Inr (case found of None \<Rightarrow> None | Some c \<Rightarrow> if cal_status c = ''active'' then Some c else None))"

section \<open>Events\<close>

definition booking_event_id :: "uuid \<Rightarrow> string" where
  "booking_event_id i = ''fielded-booking-'' @ nat_str i"

fun join_lines :: "string list \<Rightarrow> string" where
  "join_lines [] = []"
| "join_lines [x] = x"
| "join_lines (x # y # xs) = x @ [CHR 0x0A] @ join_lines (y # xs)"

definition build_calendar_event :: "Booking \<Rightarrow> db \<Rightarrow> CalendarEvent" where
  "build_calendar_event b d =
     (let offer = find_row so_id (bk_service_offer_id b) (t_service_offers d)
      in \<lparr>cev_title = (case offer of None \<Rightarrow> ''Service Booking'' | Some so \<Rightarrow> so_name so),
          cev_start = bk_requested_at b, cev_end = bk_requested_at b + us_per_hour,
          cev_description = join_lines
            ([''FIELDed Booking Reference: '' @ bk_reference b] @
             (case bk_notes b of None \<Rightarrow> [] | Some n \<Rightarrow> if n = [] then [] else [''Notes: '' @ n]) @
             [''Booking ID: '' @ nat_str (bk_id b)] @
             (case offer of None \<Rightarrow> [] | Some so \<Rightarrow> if so_delivery_mode so = [] then [] else [''Delivery: '' @ so_delivery_mode so])),
          cev_location = None, cev_attendees = None,
          cev_metadata = [(''booking_id'', nat_str (bk_id b)), (''booking_reference'', bk_reference b),
            (''business_id'', nat_str (bk_business_id b)), (''customer_id'', nat_str (bk_customer_id b)), (''source'', ''FIELDed'')],
          cev_ical_uid = bk_reference b @ ''@fielded.online''\<rparr>)"

definition build_evidence :: "CalendarEvent \<Rightarrow> CalendarEventResult \<Rightarrow> json_obj" where
  "build_evidence e r =
     [(''event_title'', JStr (cev_title e)), (''event_start'', JStr (isoformat (utc_datetime (cev_start e)))),
      (''event_end'', JStr (isoformat (utc_datetime (cev_end e)))), (''provider_reference'', JStr (cer_event_id r)),
      (''provider_success'', JBool (cer_success r))]"

definition new_sync :: "env \<Rightarrow> uuid \<Rightarrow> Booking \<Rightarrow> CalendarConnection \<Rightarrow> CalendarEventSyncRecord" where
  "new_sync ev i b c =
     \<lparr>csr_id = i, csr_business_id = bk_business_id b, csr_booking_id = bk_id b, csr_booking_event_id = booking_event_id (bk_id b),
      csr_calendar_event_id = None, csr_provider = cal_provider c, csr_calendar_id = cal_calendar_id c, csr_status = ''PENDING'',
      csr_last_synced_at = None, csr_last_error = None, csr_attempt_count = 0, csr_sync_evidence = None,
      csr_created_at = env_now ev, csr_deleted = False\<rparr>"

text \<open>\<open>result.error or ...\<close>.\<close>

definition error_or :: "string option \<Rightarrow> string \<Rightarrow> string" where
  "error_or e dflt = (case e of None \<Rightarrow> dflt | Some m \<Rightarrow> if m = [] then dflt else m)"

definition update_event ::
  "env \<Rightarrow> calendar_provider \<Rightarrow> CalendarEventSyncRecord \<Rightarrow> string \<Rightarrow> CalendarEvent \<Rightarrow> CalendarEventSyncRecord op" where
  "update_event ev p r i e =
     bind_op (read_op (\<lambda>_. cal_update_event p i e)) (\<lambda>res.
     let r' = (if cer_success res
               then r\<lparr>csr_status := ''SYNCED'', csr_last_synced_at := Some (env_now ev), csr_last_error := None,
                      csr_attempt_count := csr_attempt_count r + 1, csr_sync_evidence := Some (build_evidence e res)\<rparr>
               else r\<lparr>csr_last_error := Some (error_or (cer_error res) ''Failed to update calendar event''),
                      csr_attempt_count := csr_attempt_count r + 1\<rparr>)
     in bind_op (write_op (put_sync r')) (\<lambda>_. return_op r'))"

definition record_failure ::
  "CalendarConnection \<Rightarrow> string \<Rightarrow> bool \<Rightarrow> CalendarEventSyncRecord \<Rightarrow> CalendarEvent \<Rightarrow> CalendarEventSyncRecord op" where
  "record_failure c msg exists r e =
     (let r' = r\<lparr>csr_status := ''FAILED'', csr_last_error := Some msg, csr_attempt_count := csr_attempt_count r + 1,
                 csr_sync_evidence := Some [(''event_title'', JStr (cev_title e)), (''error'', JStr msg)]\<rparr>
      in bind_op (save_sync exists r') (\<lambda>_.
         bind_op (write_op (put_connection (c\<lparr>cal_last_error := Some msg\<rparr>))) (\<lambda>_. return_op r')))"

definition create_event ::
  "env \<Rightarrow> calendar_provider \<Rightarrow> CalendarConnection \<Rightarrow> bool \<Rightarrow> CalendarEventSyncRecord \<Rightarrow> CalendarEvent \<Rightarrow> CalendarEventSyncRecord op" where
  "create_event ev p c exists r e =
     bind_op (read_op (\<lambda>_. cal_create_event p e)) (\<lambda>res.
     if cer_success res \<and> cer_event_id res \<noteq> [] then
       (let r' = r\<lparr>csr_calendar_event_id := Some (cer_event_id res), csr_status := ''SYNCED'',
                   csr_last_synced_at := Some (env_now ev), csr_last_error := None,
                   csr_attempt_count := csr_attempt_count r + 1, csr_sync_evidence := Some (build_evidence e res)\<rparr>
        in bind_op (save_sync exists r') (\<lambda>_.
           bind_op (write_op (put_connection (c\<lparr>cal_last_synced_at := Some (env_now ev)\<rparr>))) (\<lambda>_. return_op r')))
     else record_failure c (error_or (cer_error res) ''Unknown calendar provider error'') exists r e)"

section \<open>Synchronisation\<close>

definition sync_booking_confirmed :: "env \<Rightarrow> calendar_world \<Rightarrow> Booking \<Rightarrow> CalendarEventSyncRecord option op" where
  "sync_booking_confirmed ev cw b =
     bind_op (read_op (resolve_active_connection (bk_business_id b))) (\<lambda>found.
     case found of
       None \<Rightarrow> return_op None
     | Some c0 \<Rightarrow>
         bind_op (resolve_provider ev cw c0) (\<lambda>(p, c).
         bind_op (read_op (\<lambda>d. Inr (build_calendar_event b d, new_sync ev (fresh_id d) b c))) (\<lambda>(e, new).
         bind_op (read_op (get_by_booking_event_id (booking_event_id (bk_id b)))) (\<lambda>existing.
         bind_op (case existing of
             None \<Rightarrow> create_event ev p c False new e
           | Some r \<Rightarrow>
               (case csr_calendar_event_id r of
                  None \<Rightarrow> create_event ev p c True r e
                | Some i \<Rightarrow> if i = [] then create_event ev p c True r e else update_event ev p r i e))
           (\<lambda>r. return_op (Some r))))))"

definition sync_booking_updated :: "env \<Rightarrow> calendar_world \<Rightarrow> Booking \<Rightarrow> CalendarEventSyncRecord option op" where
  "sync_booking_updated ev cw b =
     bind_op (read_op (resolve_active_connection (bk_business_id b))) (\<lambda>found.
     case found of
       None \<Rightarrow> return_op None
     | Some c0 \<Rightarrow>
         bind_op (read_op (get_sync_by_booking (bk_id b))) (\<lambda>existing.
         case Option.bind existing (\<lambda>r. map_option (Pair r) (csr_calendar_event_id r)) of
           None \<Rightarrow> sync_booking_confirmed ev cw b
         | Some (r, i) \<Rightarrow>
             if i = [] then sync_booking_confirmed ev cw b else
             bind_op (resolve_provider ev cw c0) (\<lambda>(p, c).
             bind_op (read_op (\<lambda>d. Inr (build_calendar_event b d))) (\<lambda>e.
             bind_op (update_event ev p r i e) (\<lambda>r'. return_op (Some r'))))))"

definition sync_booking_cancelled :: "env \<Rightarrow> calendar_world \<Rightarrow> Booking \<Rightarrow> CalendarEventSyncRecord option op" where
  "sync_booking_cancelled ev cw b =
     bind_op (read_op (resolve_active_connection (bk_business_id b))) (\<lambda>found.
     case found of
       None \<Rightarrow> return_op None
     | Some c0 \<Rightarrow>
         bind_op (read_op (get_sync_by_booking (bk_id b))) (\<lambda>existing.
         case Option.bind existing (\<lambda>r. map_option (Pair r) (csr_calendar_event_id r)) of
           None \<Rightarrow> return_op None
         | Some (r, i) \<Rightarrow>
             if i = [] then return_op None else
             bind_op (resolve_provider ev cw c0) (\<lambda>(p, c).
             bind_op (read_op (\<lambda>_. cal_delete_event p i)) (\<lambda>res.
             let r' = (if cer_success res
                       then r\<lparr>csr_status := ''CANCELLED'', csr_last_synced_at := Some (env_now ev), csr_last_error := None\<rparr>
                       else r\<lparr>csr_last_error := Some (error_or (cer_error res) ''Failed to cancel calendar event''),
                              csr_attempt_count := csr_attempt_count r + 1\<rparr>)
             in bind_op (write_op (put_sync r')) (\<lambda>_. return_op (Some r'))))))"

section \<open>Endpoints\<close>

text \<open>
  The callback, once its state has been matched to the business and its code exchanged for tokens.
\<close>

definition oauth_connected ::
  "env \<Rightarrow> calendar_world \<Rightarrow> uuid \<Rightarrow> string \<Rightarrow> string \<Rightarrow> int \<Rightarrow> db \<Rightarrow> err + db" where
  "oauth_connected ev cw business_id access refresh expires_in d =
     (let enc = Some (cw_encrypt cw access);
          ref = (if refresh = [] then None else Some (cw_encrypt cw refresh));
          expiry = Some (env_now ev + expires_in * us_per_second)
      in bindE (get_connection business_id d) (\<lambda>found.
         case found of
           None \<Rightarrow>
             insert_connection
               \<lparr>cal_id = fresh_id d, cal_business_id = business_id, cal_provider = ''google'', cal_calendar_id = ''primary'',
                cal_access_token_encrypted = enc, cal_refresh_token_encrypted = ref, cal_token_expiry = expiry, cal_status = ''active'',
                cal_last_error = None, cal_last_synced_at = None, cal_deleted = False\<rparr> d
         | Some c \<Rightarrow>
             Inr (put_connection (c\<lparr>cal_access_token_encrypted := enc, cal_refresh_token_encrypted := ref, cal_token_expiry := expiry,
                                   cal_status := ''active'', cal_last_error := None\<rparr>) d)))"

definition disconnect_calendar :: "uuid \<Rightarrow> db \<Rightarrow> err + db" where
  "disconnect_calendar business_id d =
     bindE (get_connection business_id d) (\<lambda>found.
     bindE (requireE (NotFoundError ''No calendar connection found for this business'') found) (\<lambda>c. Inr (delete_connection c d)))"

definition select_calendar :: "uuid \<Rightarrow> string \<Rightarrow> db \<Rightarrow> err + CalendarConnection \<times> db" where
  "select_calendar business_id calendar_id d =
     bindE (resolve_active_connection business_id d) (\<lambda>found.
     bindE (requireE (ValidationError ''No active calendar connection. Connect first.'') found) (\<lambda>c.
     let c' = c\<lparr>cal_calendar_id := calendar_id\<rparr> in Inr (c', put_connection c' d)))"

definition available_calendars_token :: "calendar_world \<Rightarrow> uuid \<Rightarrow> db \<Rightarrow> err + string" where
  "available_calendars_token cw business_id d =
     bindE (resolve_active_connection business_id d) (\<lambda>found.
     bindE (requireE (ValidationError ''No active calendar connection. Connect first.'') found) (\<lambda>c.
     bindE (requireE (ValidationError ''Calendar tokens missing. Reconnect required.'')
              (case cal_access_token_encrypted c of None \<Rightarrow> None | Some t \<Rightarrow> if t = [] then None else Some t)) (\<lambda>enc.
     requireE (ValueError ''InvalidToken'') (cw_decrypt cw enc))))"

end
