(* ===== verification/Booking_Automation.thy ===== *)
theory Booking_Automation
  imports Calendar_Sync Orchestration
begin

text \<open>
  The automation behind bookings (src/backend/app/domain/booking_automation/service.py and
  booking_automation/repository.py): each operation of an event is tracked in a row of its own,
  committed on its own, and retried on its own.

  The state of a session is the database as last committed and as it stands.  An error of the
  database inside a statement leaves a session in which every further statement raises until it is
  rolled back; other exceptions leave it usable.  Rows that the session has read stay readable.
\<close>

section \<open>Rows\<close>

definition OP_CALENDAR_SYNC :: string where "OP_CALENDAR_SYNC = ''CALENDAR_SYNC''"

definition OP_SERVICE_EXECUTION :: string where "OP_SERVICE_EXECUTION = ''SERVICE_EXECUTION''"

definition OP_PAYMENT_PREP :: string where "OP_PAYMENT_PREP = ''PAYMENT_PREP''"

definition MAX_ATTEMPTS :: nat where "MAX_ATTEMPTS = 5"

definition get_by_booking_and_operation :: "uuid \<Rightarrow> string \<Rightarrow> db \<Rightarrow> err + BookingAutomationStatus option" where
  "get_by_booking_and_operation i op d =
     scalar_one_or_none (filter (\<lambda>r. bas_booking_id r = i \<and> bas_operation_type r = op) (t_automation d))"

definition get_automation_status :: "uuid \<Rightarrow> db \<Rightarrow> BookingAutomationStatus list" where
  "get_automation_status i d = filter (\<lambda>r. bas_booking_id r = i) (t_automation d)"

definition get_automation_by_business :: "uuid \<Rightarrow> db \<Rightarrow> BookingAutomationStatus list" where
  "get_automation_by_business i d = filter (\<lambda>r. bas_business_id r = i) (t_automation d)"

text \<open>Operation and booking are unique together.\<close>

definition insert_automation :: "BookingAutomationStatus \<Rightarrow> db \<Rightarrow> err + BookingAutomationStatus \<times> db" where
  "insert_automation r d =
     (if (bas_operation_type r, bas_booking_id r) \<in> (\<lambda>r. (bas_operation_type r, bas_booking_id r)) ` set (t_automation d)
      then Inl (IntegrityError ''booking_automation_status'')
      else Inr (r, used_id (d\<lparr>t_automation := t_automation d @ [r]\<rparr>)))"

definition put_automation :: "BookingAutomationStatus \<Rightarrow> db \<Rightarrow> db" where
  "put_automation r d = d\<lparr>t_automation := upd_row bas_id (bas_id r) (\<lambda>_. r) (t_automation d)\<rparr>"

text \<open>Rows without a time of retry come first.\<close>

definition retry_order :: "BookingAutomationStatus list \<Rightarrow> BookingAutomationStatus list" where
  "retry_order rs =
     filter (\<lambda>r. bas_next_retry_at r = None) rs @
     sort_key (\<lambda>r. the (bas_next_retry_at r)) (filter (\<lambda>r. bas_next_retry_at r \<noteq> None) rs)"

definition retryable :: "env \<Rightarrow> BookingAutomationStatus \<Rightarrow> bool" where
  "retryable ev r \<longleftrightarrow> bas_status r = ''FAILED'' \<and> bas_attempt_count r < 5 \<and>
     (case bas_next_retry_at r of None \<Rightarrow> True | Some t \<Rightarrow> t \<le> env_now ev)"

definition get_retryable :: "env \<Rightarrow> nat \<Rightarrow> db \<Rightarrow> BookingAutomationStatus list" where
  "get_retryable ev batch_size d = take batch_size (retry_order (filter (retryable ev) (t_automation d)))"

definition mark_success :: "env \<Rightarrow> json_obj option \<Rightarrow> BookingAutomationStatus \<Rightarrow> BookingAutomationStatus" where
  "mark_success ev evidence r =
     r\<lparr>bas_status := ''SUCCESS'', bas_last_attempted_at := Some (env_now ev), bas_last_error := None,
       bas_next_retry_at := None, bas_result_evidence := evidence\<rparr>"

definition mark_op_failed :: "env \<Rightarrow> string \<Rightarrow> nat \<Rightarrow> BookingAutomationStatus \<Rightarrow> BookingAutomationStatus" where
  "mark_op_failed ev msg retry_after_seconds r =
     r\<lparr>bas_status := ''FAILED'', bas_last_attempted_at := Some (env_now ev), bas_last_error := Some (take 1000 msg),
       bas_next_retry_at := Some (env_now ev + int retry_after_seconds * us_per_second)\<rparr>"

definition mark_exhausted :: "env \<Rightarrow> string \<Rightarrow> BookingAutomationStatus \<Rightarrow> BookingAutomationStatus" where
  "mark_exhausted ev msg r =
     r\<lparr>bas_status := ''EXHAUSTED'', bas_last_attempted_at := Some (env_now ev), bas_last_error := Some (take 1000 msg),
       bas_next_retry_at := None\<rparr>"

definition mark_not_applicable :: "env \<Rightarrow> BookingAutomationStatus \<Rightarrow> BookingAutomationStatus" where
  "mark_not_applicable ev r =
     r\<lparr>bas_status := ''NOT_APPLICABLE'', bas_last_attempted_at := Some (env_now ev), bas_next_retry_at := None\<rparr>"

text \<open>A failed attempt is counted; the fifth is the last.\<close>

definition failed_attempt :: "env \<Rightarrow> err \<Rightarrow> BookingAutomationStatus \<Rightarrow> BookingAutomationStatus" where
  "failed_attempt ev e r =
     (let msg = take 1000 (err_text e); r' = r\<lparr>bas_attempt_count := bas_attempt_count r + 1\<rparr>
      in if bas_attempt_count r' \<ge> MAX_ATTEMPTS then mark_exhausted ev msg r' else mark_op_failed ev msg 60 r')"

section \<open>Operations\<close>

type_synonym evidence = "json_obj option"

definition result :: "string \<Rightarrow> json_obj \<Rightarrow> evidence" where
  "result s extra = Some ((''result'', JStr s) # extra)"

definition opt_text :: "string option \<Rightarrow> json" where
  "opt_text s = (case s of None \<Rightarrow> JNull | Some x \<Rightarrow> JStr x)"

definition do_calendar_sync_for_booking :: "env \<Rightarrow> calendar_world \<Rightarrow> Booking \<Rightarrow> evidence op" where
  "do_calendar_sync_for_booking ev cw b =
     bind_op (if bk_status b = Bkg_CANCELLED then sync_booking_cancelled ev cw b else sync_booking_confirmed ev cw b) (\<lambda>res.
     case res of
       None \<Rightarrow> return_op (result ''no_active_connection'' [])
     | Some r \<Rightarrow>
         if csr_status r = ''SYNCED'' then
           return_op (result ''synced'' [(''calendar_event_id'', opt_text (csr_calendar_event_id r)), (''provider'', JStr (csr_provider r))])
         else if csr_status r = ''FAILED'' then raise_op (ProviderError (error_or (csr_last_error r) ''Calendar sync failed''))
         else return_op (result (csr_status r) []))"

definition booking_for :: "string \<Rightarrow> uuid \<Rightarrow> Booking op" where
  "booking_for what i = read_op (\<lambda>d. requireE (ValueError (''Booking not found for '' @ what)) (find_booking i d))"

definition do_calendar_sync :: "env \<Rightarrow> calendar_world \<Rightarrow> uuid \<Rightarrow> evidence op" where
  "do_calendar_sync ev cw i = bind_op (booking_for ''calendar sync'' i) (do_calendar_sync_for_booking ev cw)"

definition do_calendar_cancel :: "env \<Rightarrow> calendar_world \<Rightarrow> uuid \<Rightarrow> evidence op" where
  "do_calendar_cancel ev cw i =
     bind_op (booking_for ''calendar cancel'' i) (\<lambda>b.
     bind_op (sync_booking_cancelled ev cw b) (\<lambda>res.
     case res of
       None \<Rightarrow> return_op (result ''nothing_to_cancel'' [])
     | Some r \<Rightarrow>
         if csr_status r = ''CANCELLED'' then return_op (result ''cancelled'' [(''calendar_event_id'', opt_text (csr_calendar_event_id r))])
         else (case csr_last_error r of
                 None \<Rightarrow> return_op (result (csr_status r) [])
               | Some m \<Rightarrow> if m = [] then return_op (result (csr_status r) []) else raise_op (ProviderError m))))"

definition do_create_service_execution_for_booking :: "env \<Rightarrow> Booking \<Rightarrow> evidence op" where
  "do_create_service_execution_for_booking ev b =
     bind_op (lift_op (create_from_booking ev (bk_id b) (bk_business_id b))) (\<lambda>x.
     return_op (result ''created'' [(''service_execution_id'', JStr (nat_str (ex_id x)))]))"

definition do_create_service_execution :: "env \<Rightarrow> uuid \<Rightarrow> evidence op" where
  "do_create_service_execution ev i =
     bind_op (booking_for ''service execution'' i) (do_create_service_execution_for_booking ev)"

definition already_exists :: "ServiceExecution \<Rightarrow> evidence" where
  "already_exists x = result ''already_exists'' [(''service_execution_id'', JStr (nat_str (ex_id x)))]"

definition do_service_execution_not_applicable :: "uuid \<Rightarrow> evidence op" where
  "do_service_execution_not_applicable i =
     bind_op (read_op (get_execution_by_booking_id i)) (\<lambda>existing.
     return_op (case existing of None \<Rightarrow> None | Some x \<Rightarrow> already_exists x))"

definition do_service_execution_already_done :: "env \<Rightarrow> uuid \<Rightarrow> evidence op" where
  "do_service_execution_already_done ev i =
     bind_op (read_op (get_execution_by_booking_id i)) (\<lambda>existing.
     case existing of None \<Rightarrow> do_create_service_execution ev i | Some x \<Rightarrow> return_op (already_exists x))"

definition do_payment_prep_for_booking :: "Booking \<Rightarrow> evidence op" where
  "do_payment_prep_for_booking b =
     bind_op (read_op (get_execution_by_booking_id (bk_id b))) (\<lambda>found.
     case found of
       None \<Rightarrow> return_op (result ''no_execution_yet'' [])
     | Some x \<Rightarrow>
         bind_op (read_op (get_by_service_execution_id (ex_id x))) (\<lambda>invoice.
         return_op (case invoice of
             None \<Rightarrow> result ''no_invoice_yet'' []
           | Some iv \<Rightarrow> result ''ready'' [(''invoice_id'', JStr (nat_str (inv_id iv))), (''invoice_total'', JStr (money_str (inv_total iv))),
                                       (''invoice_currency'', JStr (inv_currency iv))])))"

definition do_payment_prep :: "uuid \<Rightarrow> evidence op" where
  "do_payment_prep i = bind_op (booking_for ''payment prep'' i) do_payment_prep_for_booking"

section \<open>Running an operation\<close>

text \<open>Errors of the database, after which the session has to be rolled back.\<close>

fun poisons :: "err \<Rightarrow> bool" where
  "poisons (IntegrityError _) = True"
| "poisons (DataError _) = True"
| "poisons _ = False"

text \<open>The session: as last committed, and as it stands.\<close>

type_synonym session = "db \<times> db"

text \<open>What leaves a handler early: an exception, with the session it leaves behind.\<close>

type_synonym outcome = "(err \<times> session) + session"

definition new_automation :: "uuid \<Rightarrow> uuid \<Rightarrow> uuid \<Rightarrow> string \<Rightarrow> string \<Rightarrow> BookingAutomationStatus" where
  "new_automation i business_id booking_id op event_type =
     \<lparr>bas_id = i, bas_business_id = business_id, bas_booking_id = booking_id, bas_operation_type = op,
      bas_triggering_event = event_type, bas_status = ''PENDING'', bas_attempt_count = 0, bas_last_error = None,
      bas_last_attempted_at = None, bas_next_retry_at = None, bas_result_evidence = None\<rparr>"

definition get_or_create_status ::
  "uuid \<Rightarrow> uuid \<Rightarrow> string \<Rightarrow> string \<Rightarrow> db \<Rightarrow> err + BookingAutomationStatus \<times> db" where
  "get_or_create_status business_id booking_id op event_type d =
     bindE (get_by_booking_and_operation booking_id op d) (\<lambda>existing.
     case existing of
       Some r \<Rightarrow> Inr (r, d)
     | None \<Rightarrow> insert_automation (new_automation (fresh_id d) business_id booking_id op event_type) d)"

definition run_operation ::
  "env \<Rightarrow> uuid \<Rightarrow> uuid \<Rightarrow> string \<Rightarrow> string \<Rightarrow> (uuid \<Rightarrow> evidence op) \<Rightarrow> session \<Rightarrow> outcome" where
  "run_operation ev business_id booking_id op event_type f s =
     (case get_or_create_status business_id booking_id op event_type (snd s) of
        Inl e \<Rightarrow> Inl (e, s)
      | Inr (r, d1) \<Rightarrow>
          if bas_status r \<in> {''SUCCESS'', ''NOT_APPLICABLE''} then Inr (fst s, d1)
          else (case f (bas_booking_id r) d1 of
              (Inr evidence, d2) \<Rightarrow> (let d3 = put_automation (mark_success ev evidence r) d2 in Inr (d3, d3))
            | (Inl e, d2) \<Rightarrow>
                if poisons e then Inl (e, (fst s, d2))
                else (let d3 = put_automation (failed_attempt ev e r) d2 in Inr (d3, d3))))"

definition then_run :: "outcome \<Rightarrow> (session \<Rightarrow> outcome) \<Rightarrow> outcome" where
  "then_run o1 f = (case o1 of Inl e \<Rightarrow> Inl e | Inr s \<Rightarrow> f s)"

section \<open>Events\<close>

record automation =
  au_world :: calendar_world
  au_calendar_sync_enabled :: bool

definition handle_confirmed :: "env \<Rightarrow> automation \<Rightarrow> uuid \<Rightarrow> uuid \<Rightarrow> string \<Rightarrow> session \<Rightarrow> outcome" where
  "handle_confirmed ev au business_id i ty s =
     then_run
       (if au_calendar_sync_enabled au
        then run_operation ev business_id i OP_CALENDAR_SYNC ty (do_calendar_sync ev (au_world au)) s else Inr s)
       (run_operation ev business_id i OP_SERVICE_EXECUTION ty (do_create_service_execution ev))"

definition handle_cancelled :: "env \<Rightarrow> automation \<Rightarrow> uuid \<Rightarrow> uuid \<Rightarrow> string \<Rightarrow> session \<Rightarrow> outcome" where
  "handle_cancelled ev au business_id i ty s =
     then_run
       (if au_calendar_sync_enabled au
        then run_operation ev business_id i OP_CALENDAR_SYNC ty (do_calendar_cancel ev (au_world au)) s else Inr s)
       (run_operation ev business_id i OP_SERVICE_EXECUTION ty do_service_execution_not_applicable)"

definition handle_completed :: "env \<Rightarrow> uuid \<Rightarrow> uuid \<Rightarrow> string \<Rightarrow> session \<Rightarrow> outcome" where
  "handle_completed ev business_id i ty = run_operation ev business_id i OP_PAYMENT_PREP ty do_payment_prep"

definition handle_in_progress :: "env \<Rightarrow> uuid \<Rightarrow> uuid \<Rightarrow> string \<Rightarrow> session \<Rightarrow> outcome" where
  "handle_in_progress ev business_id i ty =
     run_operation ev business_id i OP_SERVICE_EXECUTION ty (do_service_execution_already_done ev)"

definition handle_booking_event :: "env \<Rightarrow> automation \<Rightarrow> uuid \<Rightarrow> uuid \<Rightarrow> string \<Rightarrow> session \<Rightarrow> outcome" where
  "handle_booking_event ev au business_id i ty s =
     (if ty = ''BOOKING_CONFIRMED'' then handle_confirmed ev au business_id i ty s
      else if ty = ''BOOKING_CANCELLED'' then handle_cancelled ev au business_id i ty s
      else if ty = ''BOOKING_COMPLETED'' then handle_completed ev business_id i ty s
      else if ty = ''BOOKING_IN_PROGRESS'' then handle_in_progress ev business_id i ty s
      else Inr s)"

text \<open>
  The booking of an event is a text, as the bookings' service writes it.  The exceptions of the
  handlers are swallowed; a lost session stays lost.  A text that is no identifier raises before
  the handlers, and the worker's attempt to log that raises once more; anything else is refused by
  the database, which loses the session.
\<close>

definition event_booking :: "OutboxEvent \<Rightarrow> uuid option" where
  "event_booking e = (case dget_none (event_payload e) ''booking_id'' of JStr s \<Rightarrow> uuid_of_str s | _ \<Rightarrow> None)"

definition unreadable_booking :: "json \<Rightarrow> string" where
  "unreadable_booking v =
     (case v of JStr s \<Rightarrow> ''Logger._log() got an unexpected keyword argument'' | _ \<Rightarrow> ''PendingRollbackError'')"

definition automation_process_event ::
  "env \<Rightarrow> automation \<Rightarrow> OutboxEvent \<Rightarrow> db \<Rightarrow> db \<Rightarrow> (string \<times> db) + db" where
  "automation_process_event ev au e committed d =
     (let v = dget_none (event_payload e) ''booking_id'' in
      if oe_event_type e \<notin> set BOOKING_AUTOMATION_EVENTS \<or> \<not> truthy v then Inr d else
      case event_booking e of
        None \<Rightarrow> Inl (unreadable_booking v, committed)
      | Some i \<Rightarrow>
          (case handle_booking_event ev au (oe_business_id e) i (oe_event_type e) (committed, d) of
             Inr s \<Rightarrow> Inr (snd s)
           | Inl (x, s) \<Rightarrow> if poisons x then Inl (''PendingRollbackError'', fst s) else Inr (snd s)))"

section \<open>Retries\<close>

definition retry_function :: "env \<Rightarrow> automation \<Rightarrow> string \<Rightarrow> (Booking \<Rightarrow> evidence op) option" where
  "retry_function ev au op =
     (if op = OP_CALENDAR_SYNC then Some (do_calendar_sync_for_booking ev (au_world au))
      else if op = OP_SERVICE_EXECUTION then Some (do_create_service_execution_for_booking ev)
      else if op = OP_PAYMENT_PREP then Some do_payment_prep_for_booking
      else None)"

text \<open>Whether the retry succeeded, or \<open>None\<close> when the session is lost, and the database.\<close>

definition retry_operation :: "env \<Rightarrow> automation \<Rightarrow> BookingAutomationStatus \<Rightarrow> Booking \<Rightarrow> db \<Rightarrow> bool option \<times> db" where
  "retry_operation ev au r b d =
     (case retry_function ev au (bas_operation_type r) of
        None \<Rightarrow> (Some False, put_automation (mark_exhausted ev (''Unknown operation: '' @ bas_operation_type r) r) d)
      | Some f \<Rightarrow>
          (case f b d of
             (Inr evidence, d1) \<Rightarrow> (Some True, put_automation (mark_success ev evidence r) d1)
           | (Inl e, d1) \<Rightarrow>
               if poisons e then (None, d1) else (Some False, put_automation (failed_attempt ev e r) d1)))"

text \<open>A record whose booking is gone is marked, but only the next record's commit keeps the mark.\<close>

definition retry_record :: "env \<Rightarrow> automation \<Rightarrow> BookingAutomationStatus \<Rightarrow> session \<times> nat \<Rightarrow> session \<times> nat" where
  "retry_record ev au r s =
     (case s of ((committed, d), n) \<Rightarrow>
        (case find_booking (bas_booking_id r) d of
           None \<Rightarrow> ((committed, put_automation (mark_exhausted ev ''Booking not found'' r) d), n)
         | Some b \<Rightarrow>
             (case retry_operation ev au r b d of
                (None, _) \<Rightarrow> ((committed, committed), n)
              | (Some success, d1) \<Rightarrow> ((d1, d1), if success then n + 1 else n))))"

text \<open>The session ends without a commit.\<close>

definition retry_failed_operations :: "env \<Rightarrow> automation \<Rightarrow> db \<Rightarrow> db \<times> nat" where
  "retry_failed_operations ev au d =
     (let (s, n) = fold (retry_record ev au) (get_retryable ev 20 d) ((d, d), 0) in (fst s, n))"

end
