(* ===== verification/Automation_Guarantees.thy ===== *)
theory Automation_Guarantees
  imports Booking_Automation "HOL-Library.Sublist"
begin

text \<open>
  What the booking automation and the calendar synchronisation guarantee: they never touch the
  records of the business itself, a confirmed booking gets its execution whatever the calendar
  does, and failing operations are given up after five attempts.
\<close>

section \<open>What the automation leaves alone\<close>

text \<open>
  The automation's footprint: executions are only added, and beside calendars, their
  synchronisation and its own rows nothing changes.
\<close>

definition others :: "db \<Rightarrow> db" where
  "others d = d\<lparr>t_executions := [], t_calendars := [], t_calendar_syncs := [], t_automation := [], fresh := 0\<rparr>"

definition footprint :: "db \<Rightarrow> db \<Rightarrow> bool" where
  "footprint d d' \<longleftrightarrow> others d' = others d \<and> prefix (t_executions d) (t_executions d') \<and> fresh d \<le> fresh d'"

interpretation footprint: session_relation footprint
  by unfold_locales (auto simp: footprint_def intro: prefix_order.trans)

lemma put_footprint:
  "footprint d (put_connection c d)" "footprint d (put_sync r d)" "footprint d (put_automation a d)"
  by (simp_all add: footprint_def others_def put_connection_def put_sync_def put_automation_def)

lemma insert_sync_footprint: "insert_sync r d = Inr (u, d') \<Longrightarrow> footprint d d'"
  by (auto simp: footprint_def others_def insert_sync_def used_id_def split: if_splits)

lemma insert_automation_footprint: "insert_automation r d = Inr (u, d') \<Longrightarrow> footprint d d'"
  by (auto simp: footprint_def others_def insert_automation_def used_id_def split: if_splits)

lemma create_from_booking_footprint: "create_from_booking ev i b d = Inr (x, d') \<Longrightarrow> footprint d d'"
  by (erule create_from_booking_Inr) (simp add: footprint_def others_def add_execution_def used_id_def)

lemma save_sync_footprint: "footprint.steady (save_sync exists r)"
  unfolding save_sync_def by (intro footprint.steady_intros put_footprint insert_sync_footprint)

lemma resolve_provider_footprint: "footprint.steady (resolve_provider ev cw c)"
  unfolding resolve_provider_def ensure_valid_token_def
  by (auto split: option.split prod.split intro!: footprint.steady_intros put_footprint)

lemma update_event_footprint: "footprint.steady (update_event ev p r i e)"
  unfolding update_event_def Let_def by (intro footprint.steady_intros put_footprint)

lemma create_event_footprint: "footprint.steady (create_event ev p c exists r e)"
  unfolding create_event_def record_failure_def Let_def
  by (intro footprint.steady_intros save_sync_footprint put_footprint)

lemmas calendar_footprints = resolve_provider_footprint update_event_footprint create_event_footprint put_footprint

lemma sync_footprint:
  "footprint.steady (sync_booking_confirmed ev cw b)"
  "footprint.steady (sync_booking_cancelled ev cw b)"
  unfolding sync_booking_confirmed_def sync_booking_cancelled_def Let_def
  by (auto split: option.split prod.split intro!: footprint.steady_intros calendar_footprints)

lemma operation_footprint:
  "footprint.steady (do_calendar_sync_for_booking ev cw b)"
  "footprint.steady (do_calendar_cancel ev cw i)"
  "footprint.steady (do_create_service_execution_for_booking ev b)"
  "footprint.steady (do_service_execution_not_applicable i)"
  "footprint.steady (do_payment_prep_for_booking b)"
  unfolding do_calendar_sync_for_booking_def do_calendar_cancel_def booking_for_def do_create_service_execution_for_booking_def
    do_service_execution_not_applicable_def do_payment_prep_for_booking_def
  by (auto split: option.split prod.split intro!: footprint.steady_intros sync_footprint create_from_booking_footprint)

lemma operation_footprint':
  "footprint.steady (do_calendar_sync ev cw i)"
  "footprint.steady (do_create_service_execution ev i)"
  "footprint.steady (do_service_execution_already_done ev i)"
  "footprint.steady (do_payment_prep i)"
  unfolding do_calendar_sync_def do_create_service_execution_def do_service_execution_already_done_def do_payment_prep_def booking_for_def
  by (auto split: option.split intro!: footprint.steady_intros operation_footprint)

lemma event_booking_truthy: "event_booking e = Some i \<Longrightarrow> truthy (dget_none (event_payload e) ''booking_id'')"
  by (auto simp: event_booking_def uuid_of_str_def split: json.splits if_splits)

section \<open>Sessions\<close>

text \<open>A session moves on: what is committed is what was committed, or a later state.\<close>

definition moves_on :: "session \<Rightarrow> session \<Rightarrow> bool" where
  "moves_on s s' \<longleftrightarrow> footprint (snd s) (snd s') \<and> (fst s' = fst s \<or> footprint (snd s) (fst s'))"

lemma moves_on_refl: "moves_on s s"
  by (simp add: moves_on_def footprint.step_refl)

lemma moves_on_trans:
  assumes "moves_on s s1" and "moves_on s1 s2"
  shows "moves_on s s2"
proof -
  have step: "footprint (snd s) (snd s1)" and old: "fst s1 = fst s \<or> footprint (snd s) (fst s1)"
    using assms(1) by (simp_all add: moves_on_def)
  have "fst s2 = fst s1 \<or> footprint (snd s) (fst s2)" and "footprint (snd s) (snd s2)"
    using assms(2) footprint.step_trans [OF step] by (auto simp: moves_on_def)
  then show ?thesis using old by (auto simp: moves_on_def)
qed

lemma get_or_create_footprint: "get_or_create_status b i op ty d = Inr (r, d') \<Longrightarrow> footprint d d'"
  by (auto simp: get_or_create_status_def bindE_Inr_iff footprint.step_refl dest: insert_automation_footprint split: option.splits)

fun session_of :: "outcome \<Rightarrow> session" where
  "session_of (Inl (e, s)) = s"
| "session_of (Inr s) = s"

lemma run_operation_moves:
  assumes f: "\<And>i. footprint.steady (f i)"
  shows "moves_on s (session_of (run_operation ev b i op ty f s))"
proof (cases "get_or_create_status b i op ty (snd s)")
  case (Inl e)
  then show ?thesis by (simp add: run_operation_def moves_on_refl)
next
  case (Inr rd)
  obtain r d1 where rd: "rd = (r, d1)" by (cases rd)
  then have created: "footprint (snd s) d1" using Inr get_or_create_footprint by blast
  obtain x d2 where run: "f (bas_booking_id r) d1 = (x, d2)" by (cases "f (bas_booking_id r) d1")
  then have ran: "footprint (snd s) d2" using created f footprint.steadyD footprint.step_trans by blast
  then have marked: "footprint (snd s) (put_automation r' d2)" for r'
    using put_footprint(3) footprint.step_trans by blast
  show ?thesis
    using Inr rd created run ran marked
    by (cases x) (auto simp: run_operation_def moves_on_def Let_def)
qed

lemma then_run_moves:
  assumes "moves_on s (session_of o1)" and "\<And>s1. moves_on s1 (session_of (f s1))"
  shows "moves_on s (session_of (then_run o1 f))"
proof (cases o1 rule: session_of.cases)
  case (2 s1)
  then show ?thesis using moves_on_trans [OF _ assms(2)] assms(1) by (simp add: then_run_def)
qed (use assms(1) in \<open>simp add: then_run_def\<close>)

lemma handle_booking_event_moves: "moves_on s (session_of (handle_booking_event ev au b i ty s))"
  unfolding handle_booking_event_def handle_confirmed_def handle_cancelled_def handle_completed_def handle_in_progress_def
  by (simp add: moves_on_refl then_run_moves run_operation_moves operation_footprint operation_footprint')

text \<open>Whatever a booking's event triggers and however it fails, the automation leaves bookings, quotes,
  enquiries, invoices, payments, communications and the outbox as they are and removes or changes
  no execution: it only adds executions, and otherwise writes calendar connections, their
  synchronisation and its own rows; and what it has committed is a state of that kind too.\<close>

theorem automation_keeps_business_records:
  "case automation_process_event ev au e committed d of
     Inr d' \<Rightarrow> footprint d d'
   | Inl (msg, c) \<Rightarrow> c = committed \<or> footprint d c"
proof (cases "oe_event_type e \<notin> set BOOKING_AUTOMATION_EVENTS \<or> event_booking e = None")
  case True
  then show ?thesis by (auto simp: automation_process_event_def Let_def footprint.step_refl)
next
  case False
  then obtain i where i: "event_booking e = Some i" by blast
  let ?o = "handle_booking_event ev au (oe_business_id e) i (oe_event_type e) (committed, d)"
  have "moves_on (committed, d) (session_of ?o)" by (rule handle_booking_event_moves)
  then show ?thesis
    using False i by (cases ?o rule: session_of.cases) (auto simp: automation_process_event_def Let_def moves_on_def footprint.step_refl)
qed

lemma retry_operation_footprint:
  assumes "retry_operation ev au r b d = (res, d')"
  shows "footprint d d'"
proof (cases "retry_function ev au (bas_operation_type r)")
  case None
  then show ?thesis using assms put_footprint(3) by (auto simp: retry_operation_def)
next
  case (Some f)
  then have f: "footprint.steady (f b)"
    using operation_footprint by (auto simp: retry_function_def split: if_splits)
  obtain x d1 where run: "f b d = (x, d1)" by (cases "f b d")
  then have "footprint d d1" using f footprint.steadyD by blast
  then have "footprint d (put_automation r' d1)" for r' using put_footprint(3) footprint.step_trans by blast
  then show ?thesis
    using assms Some run \<open>footprint d d1\<close> by (cases x) (auto simp: retry_operation_def split: if_splits)
qed

section \<open>A confirmed booking gets its execution\<close>

text \<open>The calendar's operations write the calendar's tables only.\<close>

definition calendar_only :: "db \<Rightarrow> db \<Rightarrow> bool" where
  "calendar_only d d' \<longleftrightarrow> t_executions d' = t_executions d \<and> t_automation d' = t_automation d \<and> t_bookings d' = t_bookings d"

interpretation calendar_only: session_relation calendar_only
  by unfold_locales (simp_all add: calendar_only_def)

lemma put_calendar_only: "calendar_only d (put_connection c d)" "calendar_only d (put_sync r d)"
  by (simp_all add: calendar_only_def put_connection_def put_sync_def)

lemma insert_sync_calendar_only: "insert_sync r d = Inr (u, d') \<Longrightarrow> calendar_only d d'"
  by (auto simp: calendar_only_def insert_sync_def used_id_def split: if_splits)

lemma do_calendar_sync_only: "calendar_only.steady (do_calendar_sync ev cw i)"
  unfolding do_calendar_sync_def do_calendar_sync_for_booking_def booking_for_def sync_booking_confirmed_def sync_booking_cancelled_def
    resolve_provider_def ensure_valid_token_def update_event_def create_event_def record_failure_def save_sync_def Let_def
  by (auto split: option.split prod.split intro!: calendar_only.steady_intros put_calendar_only insert_sync_calendar_only)

text \<open>Providers whose exceptions are not those of the database.\<close>

definition provider_safe :: "calendar_provider \<Rightarrow> bool" where
  "provider_safe p \<longleftrightarrow>
     (\<forall>e i x. (cal_create_event p e = Inl x \<or> cal_update_event p i e = Inl x \<or> cal_delete_event p i = Inl x) \<longrightarrow> \<not> poisons x)"

definition world_safe :: "calendar_world \<Rightarrow> bool" where
  "world_safe cw \<longleftrightarrow> (\<forall>t c. provider_safe (cw_google cw t c))"

text \<open>An operation that loses the session only if the database is not as required.\<close>

definition never_poisons :: "(db \<Rightarrow> bool) \<Rightarrow> 'a op \<Rightarrow> bool" where
  "never_poisons P f \<longleftrightarrow> (\<forall>d e d'. P d \<longrightarrow> f d = (Inl e, d') \<longrightarrow> \<not> poisons e)"

lemma np_return [intro]: "never_poisons P (return_op x)"
  by (simp add: never_poisons_def return_op_def)

lemma np_raise [intro]: "\<not> poisons e \<Longrightarrow> never_poisons P (raise_op e)"
  by (simp add: never_poisons_def raise_op_def)

lemma np_read [intro]: "(\<And>d e. P d \<Longrightarrow> g d = Inl e \<Longrightarrow> \<not> poisons e) \<Longrightarrow> never_poisons P (read_op g)"
  by (simp add: never_poisons_def read_op_def)

lemma np_write [intro]: "never_poisons P (write_op g)"
  by (simp add: never_poisons_def write_op_def)

lemma np_bind:
  assumes "never_poisons P m" and "\<And>d x d'. P d \<Longrightarrow> m d = (Inr x, d') \<Longrightarrow> Q x d'" and "\<And>x. never_poisons (Q x) (f x)"
  shows "never_poisons P (bind_op m f)"
  using assms unfolding never_poisons_def bind_op_def by (fastforce split: prod.splits sum.splits)

text \<open>No synchronisation row has been deleted.\<close>

definition syncs_live :: "db \<Rightarrow> bool" where
  "syncs_live d \<longleftrightarrow> (\<forall>r\<in>set (t_calendar_syncs d). \<not> csr_deleted r)"

lemma scalar_errors: "scalar_one_or_none rows = Inl e \<Longrightarrow> \<not> poisons e"
  by (cases rows rule: scalar_one_or_none.cases) auto

lemma stub_safe: "provider_safe StubCalendarProvider"
  by (simp add: provider_safe_def StubCalendarProvider_def stub_failure_def)

lemma ensure_valid_token_result:
  "ensure_valid_token ev cw c d = (x, d') \<Longrightarrow>
     t_calendar_syncs d' = t_calendar_syncs d \<and> (\<forall>e. x = Inl e \<longrightarrow> \<not> poisons e)"
  by (auto simp: ensure_valid_token_def op_defs put_connection_def requireE_def split: option.splits if_splits sum.splits prod.splits)

lemma resolve_provider_result:
  assumes "resolve_provider ev cw c d = (x, d')" and "world_safe cw"
  shows "t_calendar_syncs d' = t_calendar_syncs d" and "x = Inl e \<Longrightarrow> \<not> poisons e"
    and "x = Inr (p, c') \<Longrightarrow> provider_safe p"
proof -
  obtain y d1 where y: "ensure_valid_token ev cw c d = (y, d1)" by (cases "ensure_valid_token ev cw c d")
  note result = ensure_valid_token_result [OF y]
  show "t_calendar_syncs d' = t_calendar_syncs d" "x = Inl e \<Longrightarrow> \<not> poisons e"
    using assms(1) y result by (auto simp: resolve_provider_def op_defs split: sum.splits prod.splits)
  show "provider_safe p" if "x = Inr (p, c')"
    using assms y that stub_safe
    by (auto simp: resolve_provider_def op_defs world_safe_def split: sum.splits prod.splits option.splits if_splits)
qed

lemma update_event_safe: "provider_safe p \<Longrightarrow> never_poisons P (update_event ev p r i e)"
  unfolding update_event_def Let_def
  by (rule np_bind [where Q = "\<lambda>_ _. True"]) (auto simp: provider_safe_def intro: np_bind [where Q = "\<lambda>_ _. True"])

text \<open>A new row is inserted only when no row has its identifier.\<close>

definition insertable :: "bool \<Rightarrow> CalendarEventSyncRecord \<Rightarrow> db \<Rightarrow> bool" where
  "insertable exists r d \<longleftrightarrow> exists \<or> csr_booking_event_id r \<notin> csr_booking_event_id ` set (t_calendar_syncs d)"

lemma save_sync_safe: "never_poisons (insertable exists r) (save_sync exists r)"
  by (auto simp: never_poisons_def insertable_def save_sync_def op_defs insert_sync_def split: if_splits)

lemma insertable_same: "csr_booking_event_id r' = csr_booking_event_id r \<Longrightarrow> insertable exists r' = insertable exists r"
  by (rule ext) (simp add: insertable_def)

lemma create_event_safe:
  assumes "provider_safe p"
  shows "never_poisons (insertable exists r) (create_event ev p c exists r e)"
proof -
  have fail: "never_poisons (insertable exists r) (record_failure c msg exists r e)" for msg
  proof -
    let ?r = "r\<lparr>csr_status := ''FAILED'', csr_last_error := Some msg, csr_attempt_count := csr_attempt_count r + 1,
                 csr_sync_evidence := Some [(''event_title'', JStr (cev_title e)), (''error'', JStr msg)]\<rparr>"
    have "insertable exists r = insertable exists ?r" by (rule insertable_same) simp
    then show ?thesis
      unfolding record_failure_def Let_def
      by (auto intro!: np_bind [where Q = "\<lambda>_ _. True"] save_sync_safe)
  qed
  show ?thesis
    unfolding create_event_def Let_def
  proof (rule np_bind [where Q = "\<lambda>_. insertable exists r"])
    show "never_poisons (insertable exists r) (read_op (\<lambda>_. cal_create_event p e))"
      using assms by (auto simp: provider_safe_def)
    show "insertable exists r d'" if "insertable exists r d" "read_op (\<lambda>_. cal_create_event p e) d = (Inr x, d')" for d x d'
      using that by (simp add: read_op_def)
    fix res :: CalendarEventResult
    let ?r = "r\<lparr>csr_calendar_event_id := Some (cer_event_id res), csr_status := ''SYNCED'',
                   csr_last_synced_at := Some (env_now ev), csr_last_error := None,
                   csr_attempt_count := csr_attempt_count r + 1, csr_sync_evidence := Some (build_evidence e res)\<rparr>"
    have "insertable exists r = insertable exists ?r" by (rule insertable_same) simp
    then show "never_poisons (insertable exists r)
        (if cer_success res \<and> cer_event_id res \<noteq> [] then
           bind_op (save_sync exists ?r) (\<lambda>_.
           bind_op (write_op (put_connection (c\<lparr>cal_last_synced_at := Some (env_now ev)\<rparr>))) (\<lambda>_. return_op ?r))
         else record_failure c (error_or (cer_error res) ''Unknown calendar provider error'') exists r e)"
      using fail by (auto intro!: np_bind [where Q = "\<lambda>_ _. True"] save_sync_safe)
  qed
qed

lemma never_poisonsD: "never_poisons P f \<Longrightarrow> P d \<Longrightarrow> f d = (Inl e, d') \<Longrightarrow> \<not> poisons e"
  by (auto simp: never_poisons_def)

lemma resolve_active_errors: "resolve_active_connection b d = Inl e \<Longrightarrow> \<not> poisons e"
  by (auto simp: resolve_active_connection_def get_connection_def bindE_Inl_iff dest: scalar_errors)

lemma sync_booking_confirmed_safe:
  assumes world: "world_safe cw" and live: "syncs_live d" and run: "sync_booking_confirmed ev cw b d = (Inl e, d')"
  shows "\<not> poisons e"
proof -
  consider (conn) "resolve_active_connection (bk_business_id b) d = Inl e"
    | (active) c0 where "resolve_active_connection (bk_business_id b) d = Inr (Some c0)"
    using run by (auto simp: sync_booking_confirmed_def op_defs split: sum.splits prod.splits option.splits)
  then show ?thesis
  proof cases
    case conn
    then show ?thesis by (rule resolve_active_errors)
  next
    case active
    obtain x d1 where x: "resolve_provider ev cw c0 d = (x, d1)" by (cases "resolve_provider ev cw c0 d")
    show ?thesis
    proof (cases x)
      case (Inl e1)
      then have "e = e1" using run active x by (auto simp: sync_booking_confirmed_def op_defs split: prod.splits)
      then show ?thesis using resolve_provider_result(2) [OF x world] Inl by blast
    next
      case (Inr pc)
      obtain p c where pc: "pc = (p, c)" by (cases pc)
      have safe: "provider_safe p" and syncs: "t_calendar_syncs d1 = t_calendar_syncs d"
        using resolve_provider_result [OF x world] Inr pc by blast+
      let ?ev = "build_calendar_event b d1" and ?new = "new_sync ev (fresh_id d1) b c"
      show ?thesis
      proof (cases "get_by_booking_event_id (booking_event_id (bk_id b)) d1")
        case (Inl e1)
        then have "e = e1" using run active x Inr pc by (auto simp: sync_booking_confirmed_def op_defs)
        then show ?thesis using Inl scalar_errors by (auto simp: get_by_booking_event_id_def)
      next
        case found: (Inr existing)
        let ?body = "case existing of None \<Rightarrow> create_event ev p c False ?new ?ev
           | Some r \<Rightarrow> (case csr_calendar_event_id r of None \<Rightarrow> create_event ev p c True r ?ev
                       | Some i \<Rightarrow> if i = [] then create_event ev p c True r ?ev else update_event ev p r i ?ev)"
        have "fst (?body d1) = Inl e"
          using run active x Inr pc found
          by (auto simp: sync_booking_confirmed_def op_defs split: prod.splits sum.splits)
        then obtain d2 where body: "?body d1 = (Inl e, d2)" by (cases "?body d1") auto
        show ?thesis
        proof (cases existing)
          case None
          then have "booking_event_id (bk_id b) \<notin> csr_booking_event_id ` set (t_calendar_syncs d1)"
            using found live syncs
            by (auto simp: get_by_booking_event_id_def syncs_live_def filter_empty_conv dest!: scalar_one_or_none_Inr_NoneD)
          then have "insertable False ?new d1" by (simp add: insertable_def new_sync_def)
          then show ?thesis using never_poisonsD [OF create_event_safe [OF safe]] body None by simp
        next
          case (Some r)
          have "insertable True r d1" by (simp add: insertable_def)
          then show ?thesis
            using body Some never_poisonsD [OF create_event_safe [OF safe]] never_poisonsD [OF update_event_safe [OF safe], where P = "\<lambda>_. True"]
            by (auto split: option.splits if_splits)
        qed
      qed
    qed
  qed
qed

lemma sync_booking_cancelled_safe:
  assumes world: "world_safe cw" and run: "sync_booking_cancelled ev cw b d = (Inl e, d')"
  shows "\<not> poisons e"
proof -
  consider (conn) "resolve_active_connection (bk_business_id b) d = Inl e"
    | (sync) "get_sync_by_booking (bk_id b) d = Inl e"
    | (found) c0 r i where "resolve_active_connection (bk_business_id b) d = Inr (Some c0)"
        "get_sync_by_booking (bk_id b) d = Inr (Some r)" "csr_calendar_event_id r = Some i" "i \<noteq> []"
    using run
    by (auto simp: sync_booking_cancelled_def op_defs Option.bind_eq_Some_conv split: sum.splits prod.splits option.splits if_splits)
  then show ?thesis
  proof cases
    case conn
    then show ?thesis by (rule resolve_active_errors)
  next
    case sync
    then show ?thesis using scalar_errors by (auto simp: get_sync_by_booking_def)
  next
    case found
    obtain x d1 where x: "resolve_provider ev cw c0 d = (x, d1)" by (cases "resolve_provider ev cw c0 d")
    show ?thesis
    proof (cases x)
      case (Inl e1)
      then have "e = e1" using run found x by (auto simp: sync_booking_cancelled_def op_defs)
      then show ?thesis using resolve_provider_result(2) [OF x world] Inl by blast
    next
      case (Inr pc)
      obtain p c where pc: "pc = (p, c)" by (cases pc)
      then have "provider_safe p" using resolve_provider_result(3) [OF x world] Inr by blast
      moreover have "cal_delete_event p i = Inl e"
        using run found x Inr pc by (auto simp: sync_booking_cancelled_def op_defs Let_def split: sum.splits prod.splits)
      ultimately show ?thesis by (auto simp: provider_safe_def)
    qed
  qed
qed

lemma do_calendar_sync_safe:
  assumes world: "world_safe cw" and live: "syncs_live d" and run: "do_calendar_sync ev cw i d = (Inl e, d')"
  shows "\<not> poisons e"
proof (cases "find_booking i d")
  case None
  then show ?thesis using run by (auto simp: do_calendar_sync_def booking_for_def op_defs)
next
  case (Some b)
  let ?s = "if bk_status b = Bkg_CANCELLED then sync_booking_cancelled ev cw b else sync_booking_confirmed ev cw b"
  obtain x d1 where x: "?s d = (x, d1)" by (cases "?s d")
  show ?thesis
  proof (cases x)
    case (Inl e1)
    then have "e = e1"
      using run Some x by (simp add: do_calendar_sync_def booking_for_def do_calendar_sync_for_booking_def op_defs)
    then show ?thesis
      using x Inl sync_booking_cancelled_safe [OF world] sync_booking_confirmed_safe [OF world live] by (auto split: if_splits)
  next
    case (Inr res)
    then have "\<exists>m. e = ProviderError m"
      using run Some x
      by (auto simp: do_calendar_sync_def booking_for_def do_calendar_sync_for_booking_def op_defs split: option.splits if_splits)
    then show ?thesis by auto
  qed
qed

text \<open>Operation and booking identify a row; rows have identifiers of their own.\<close>

definition automation_ok :: "db \<Rightarrow> bool" where
  "automation_ok d \<longleftrightarrow>
     distinct (map (\<lambda>r. (bas_booking_id r, bas_operation_type r)) (t_automation d)) \<and>
     keys_distinct bas_id (t_automation d) \<and> (\<forall>r\<in>set (t_automation d). bas_id r < fresh d)"

lemma new_automation_simps [simp]:
  "bas_id (new_automation i b k op ty) = i" "bas_booking_id (new_automation i b k op ty) = k"
  "bas_operation_type (new_automation i b k op ty) = op" "bas_status (new_automation i b k op ty) = ''PENDING''"
  by (simp_all add: new_automation_def)

lemma get_or_create_cases:
  assumes ok: "automation_ok d"
  obtains (there) r where "get_or_create_status b i op ty d = Inr (r, d)" "r \<in> set (t_automation d)"
      "bas_booking_id r = i" "bas_operation_type r = op"
    | (created) "get_or_create_status b i op ty d = Inr (new_automation (fresh d) b i op ty,
          used_id (d\<lparr>t_automation := t_automation d @ [new_automation (fresh d) b i op ty]\<rparr>))"
      "\<forall>x\<in>set (t_automation d). (bas_booking_id x, bas_operation_type x) \<noteq> (i, op)"
proof -
  obtain found where "scalar_one_or_none (filter (\<lambda>r. (bas_booking_id r, bas_operation_type r) = (i, op)) (t_automation d)) = Inr found"
    using scalar_singleton_or_empty [of "\<lambda>r. (bas_booking_id r, bas_operation_type r)" "t_automation d" "(i, op)"] ok
    by (auto simp: automation_ok_def)
  then have found: "get_by_booking_and_operation i op d = Inr found"
    by (simp add: get_by_booking_and_operation_def)
  show thesis
  proof (cases found)
    case (Some r)
    then have "r \<in> set (t_automation d) \<and> bas_booking_id r = i \<and> bas_operation_type r = op"
      using found unfolding get_by_booking_and_operation_def by (blast dest: scalar_in)
    then show thesis using there found Some by (simp add: get_or_create_status_def)
  next
    case None
    then have "\<forall>x\<in>set (t_automation d). (bas_booking_id x, bas_operation_type x) \<noteq> (i, op)"
      using found by (auto simp: get_by_booking_and_operation_def filter_empty_conv dest!: scalar_one_or_none_Inr_NoneD)
    moreover from this have "(op, i) \<notin> (\<lambda>r. (bas_operation_type r, bas_booking_id r)) ` set (t_automation d)" by auto
    ultimately show thesis
      using created found None by (simp add: get_or_create_status_def insert_automation_def fresh_id_def)
  qed
qed

lemma automation_ok_maps:
  "automation_ok d \<longleftrightarrow>
     distinct (map (\<lambda>r. (bas_booking_id r, bas_operation_type r)) (t_automation d)) \<and>
     distinct (map bas_id (t_automation d)) \<and> list_all (\<lambda>i. i < fresh d) (map bas_id (t_automation d))"
  by (simp add: automation_ok_def keys_distinct_def list_all_iff)

lemma put_automation_ok:
  assumes ok: "automation_ok d" and r: "r \<in> set (t_automation d)" and "bas_id r' = bas_id r"
    and "bas_booking_id r' = bas_booking_id r" "bas_operation_type r' = bas_operation_type r"
  shows "automation_ok (put_automation r' d)"
proof -
  have ids: "distinct (map bas_id (t_automation d))" using ok by (simp add: automation_ok_maps)
  note same = map_upd_row_same [OF ids r assms(3), of bas_id] map_upd_row_same [OF ids r assms(3), of "\<lambda>r. (bas_booking_id r, bas_operation_type r)"]
  show ?thesis using ok same assms(3-5) by (simp add: automation_ok_maps put_automation_def)
qed

text \<open>The operations leave the rows of the automation to the runner.\<close>

definition same_automation :: "db \<Rightarrow> db \<Rightarrow> bool" where
  "same_automation d d' \<longleftrightarrow> t_automation d' = t_automation d \<and> fresh d \<le> fresh d'"

interpretation same_automation: session_relation same_automation
  by unfold_locales (auto simp: same_automation_def)

lemma put_same_automation: "same_automation d (put_connection c d)" "same_automation d (put_sync r d)"
  by (simp_all add: same_automation_def put_connection_def put_sync_def)

lemma insert_sync_same_automation: "insert_sync r d = Inr (u, d') \<Longrightarrow> same_automation d d'"
  by (auto simp: same_automation_def insert_sync_def used_id_def split: if_splits)

lemma create_execution_same_automation: "create_from_booking ev i b d = Inr (x, d') \<Longrightarrow> same_automation d d'"
  by (erule create_from_booking_Inr) (simp add: same_automation_def add_execution_def used_id_def)

lemma do_calendar_sync_same_automation: "same_automation.steady (do_calendar_sync ev cw i)"
  unfolding do_calendar_sync_def do_calendar_sync_for_booking_def booking_for_def sync_booking_confirmed_def sync_booking_cancelled_def
    resolve_provider_def ensure_valid_token_def update_event_def create_event_def record_failure_def save_sync_def Let_def
  by (auto split: option.split prod.split intro!: same_automation.steady_intros put_same_automation insert_sync_same_automation)

lemma do_create_execution_same_automation: "same_automation.steady (do_create_service_execution ev i)"
  unfolding do_create_service_execution_def do_create_service_execution_for_booking_def booking_for_def
  by (intro same_automation.steady_intros create_execution_same_automation)

text \<open>Databases that differ in the rows of the automation only.\<close>

definition beside :: "db \<Rightarrow> db \<Rightarrow> bool" where
  "beside d d' \<longleftrightarrow> d'\<lparr>t_automation := [], fresh := 0\<rparr> = d\<lparr>t_automation := [], fresh := 0\<rparr>"

lemma beside_tables:
  assumes "beside d d'"
  shows "t_bookings d' = t_bookings d" "t_executions d' = t_executions d" "t_calendar_syncs d' = t_calendar_syncs d"
  using arg_cong [where f = t_bookings, OF assms [unfolded beside_def]] arg_cong [where f = t_executions, OF assms [unfolded beside_def]]
    arg_cong [where f = t_calendar_syncs, OF assms [unfolded beside_def]] by simp_all

definition rows_except :: "uuid \<Rightarrow> string \<Rightarrow> db \<Rightarrow> BookingAutomationStatus set" where
  "rows_except i op d = {r \<in> set (t_automation d). (bas_booking_id r, bas_operation_type r) \<noteq> (i, op)}"

lemma get_or_create_ok:
  assumes ok: "automation_ok d"
  obtains r d1 where "get_or_create_status b i op ty d = Inr (r, d1)" "automation_ok d1" "r \<in> set (t_automation d1)"
    "bas_booking_id r = i" "bas_operation_type r = op" "rows_except i op d1 = rows_except i op d" "beside d d1"
    "r \<in> set (t_automation d) \<or> bas_status r = ''PENDING''"
  using ok
proof (cases rule: get_or_create_cases [where b = b and i = i and op = op and ty = ty])
  case (there r)
  then show ?thesis using that ok by (simp add: beside_def)
next
  case created
  let ?r = "new_automation (fresh d) b i op ty" and ?d1 = "used_id (d\<lparr>t_automation := t_automation d @ [new_automation (fresh d) b i op ty]\<rparr>)"
  have "automation_ok ?d1"
    using ok created(2) by (fastforce simp: automation_ok_def keys_distinct_def used_id_def)
  moreover have "rows_except i op ?d1 = rows_except i op d" by (auto simp: used_id_def rows_except_def)
  moreover have "beside d ?d1" by (simp add: beside_def used_id_def)
  moreover have "?r \<in> set (t_automation ?d1)" by (simp add: used_id_def)
  ultimately show ?thesis using created(1) by (intro that [of ?r ?d1]) simp_all
qed

lemma put_automation_rows:
  assumes "automation_ok d" "r \<in> set (t_automation d)" "bas_id r' = bas_id r" "bas_booking_id r' = i" "bas_operation_type r' = op"
    "bas_booking_id r = i" "bas_operation_type r = op"
  shows "rows_except i op (put_automation r' d) = rows_except i op d" and "r' \<in> set (t_automation (put_automation r' d))"
proof -
  have same: "x = r" if "x \<in> set (t_automation d)" "bas_id x = bas_id r" for x
    using assms(1,2) that by (auto simp: automation_ok_def keys_distinct_def distinct_map dest: inj_onD)
  then show "rows_except i op (put_automation r' d) = rows_except i op d"
    using assms(3-7) by (auto simp: rows_except_def put_automation_def upd_row_def)
  show "r' \<in> set (t_automation (put_automation r' d))"
    using assms(2,3) by (auto simp: put_automation_def upd_row_def image_iff)
qed

lemma marks_keep [simp]:
  "bas_id (mark_success ev x r) = bas_id r" "bas_booking_id (mark_success ev x r) = bas_booking_id r"
  "bas_operation_type (mark_success ev x r) = bas_operation_type r" "bas_status (mark_success ev x r) = ''SUCCESS''"
  "bas_id (failed_attempt ev e r) = bas_id r" "bas_booking_id (failed_attempt ev e r) = bas_booking_id r"
  "bas_operation_type (failed_attempt ev e r) = bas_operation_type r"
  by (simp_all add: mark_success_def failed_attempt_def mark_op_failed_def mark_exhausted_def Let_def)

text \<open>What a run amounts to when the operation does not lose the session.\<close>

definition ran :: "env \<Rightarrow> (uuid \<Rightarrow> evidence op) \<Rightarrow> uuid \<Rightarrow> BookingAutomationStatus \<Rightarrow> db \<Rightarrow> db \<Rightarrow> bool" where
  "ran ev f i r d1 d' \<longleftrightarrow>
     (if bas_status r \<in> {''SUCCESS'', ''NOT_APPLICABLE''} then d' = d1
      else \<exists>d2. (\<exists>x. f i d1 = (Inr x, d2) \<and> d' = put_automation (mark_success ev x r) d2 \<and> mark_success ev x r \<in> set (t_automation d')) \<or>
                (\<exists>e. f i d1 = (Inl e, d2) \<and> d' = put_automation (failed_attempt ev e r) d2))"

lemma run_operation_ok:
  assumes ok: "automation_ok d" and steady: "same_automation.steady (f i)"
    and safe: "\<And>d1 e d2. beside d d1 \<Longrightarrow> f i d1 = (Inl e, d2) \<Longrightarrow> \<not> poisons e"
  obtains r d1 s' where "run_operation ev b i op ty f (c, d) = Inr s'" "automation_ok (snd s')"
    "rows_except i op (snd s') = rows_except i op d" "beside d d1" "bas_operation_type r = op" "bas_booking_id r = i"
    "r \<in> set (t_automation d) \<or> bas_status r = ''PENDING''" "ran ev f i r d1 (snd s')"
proof -
  obtain r d1 where r: "get_or_create_status b i op ty d = Inr (r, d1)" "automation_ok d1" "r \<in> set (t_automation d1)"
      "bas_booking_id r = i" "bas_operation_type r = op" "rows_except i op d1 = rows_except i op d" "beside d d1"
      "r \<in> set (t_automation d) \<or> bas_status r = ''PENDING''"
    using get_or_create_ok [OF ok, where b = b and i = i and op = op and ty = ty] by blast
  show thesis
  proof (cases "bas_status r \<in> {''SUCCESS'', ''NOT_APPLICABLE''}")
    case True
    then have "run_operation ev b i op ty f (c, d) = Inr (c, d1)" using r(1) by (simp add: run_operation_def)
    then show thesis using that [of "(c, d1)" d1 r] r True by (simp add: ran_def)
  next
    case False
    obtain x d2 where x: "f i d1 = (x, d2)" by (cases "f i d1")
    then have same: "t_automation d2 = t_automation d1" "fresh d1 \<le> fresh d2"
      using steady same_automation.steadyD by (fastforce simp: same_automation_def)+
    then have ok2: "automation_ok d2" using r(2) by (fastforce simp: automation_ok_def)
    have rows2: "rows_except i op d2 = rows_except i op d1" using same by (simp add: rows_except_def)
    show thesis
    proof (cases x)
      case (Inr evd)
      let ?r = "mark_success ev evd r"
      have "run_operation ev b i op ty f (c, d) = Inr (put_automation ?r d2, put_automation ?r d2)"
        using r(1,4) False x Inr by (simp add: run_operation_def Let_def)
      moreover have "automation_ok (put_automation ?r d2)"
        by (rule put_automation_ok [OF ok2, of r]) (use r(3) same in simp_all)
      moreover have "rows_except i op (put_automation ?r d2) = rows_except i op d2" "?r \<in> set (t_automation (put_automation ?r d2))"
        using put_automation_rows [OF ok2, of r ?r i op] r same by simp_all
      ultimately show thesis using that [of "(put_automation ?r d2, put_automation ?r d2)" d1 r] r False x Inr rows2 by (simp add: ran_def)
    next
      case (Inl e)
      let ?r = "failed_attempt ev e r"
      have "\<not> poisons e" using safe r(7) x Inl by blast
      then have "run_operation ev b i op ty f (c, d) = Inr (put_automation ?r d2, put_automation ?r d2)"
        using r(1,4) False x Inl by (simp add: run_operation_def Let_def)
      moreover have "automation_ok (put_automation ?r d2)"
        by (rule put_automation_ok [OF ok2, of r]) (use r(3) same in simp_all)
      moreover have "rows_except i op (put_automation ?r d2) = rows_except i op d2"
        using put_automation_rows [OF ok2, of r ?r i op] r same by simp_all
      ultimately show thesis using that [of "(put_automation ?r d2, put_automation ?r d2)" d1 r] r False x Inl rows2 by (simp add: ran_def)
    qed
  qed
qed

text \<open>The execution of a booking that is confirmed and has none yet.\<close>

definition without_execution :: "uuid \<Rightarrow> Booking \<Rightarrow> db \<Rightarrow> bool" where
  "without_execution i b d \<longleftrightarrow>
     find_booking i d = Some b \<and> bk_status b \<in> {Bkg_CONFIRMED, Bkg_IN_PROGRESS} \<and> (\<forall>x\<in>set (t_executions d). ex_booking_id x \<noteq> i)"

lemma create_execution_succeeds:
  assumes "without_execution i b d"
  shows "\<exists>evd x. do_create_service_execution ev i d = (Inr evd, used_id (add_execution x d)) \<and>
    ex_booking_id x = i \<and> ex_business_id x = bk_business_id b \<and> ex_customer_id x = bk_customer_id b"
proof -
  have b: "find_booking i d = Some b" "bk_id b = i"
    using assms by (auto simp: without_execution_def find_booking_def dest: live_row_SomeD)
  have none: "filter (\<lambda>x. ex_booking_id x = i \<and> \<not> ex_deleted x) (t_executions d) = []"
    using assms by (auto simp: without_execution_def filter_empty_conv)
  have "create_from_booking ev i (bk_business_id b) d =
      Inr (new_execution ev (fresh_id d) (bk_business_id b) b, used_id (add_execution (new_execution ev (fresh_id d) (bk_business_id b) b) d))"
    using assms b none
    by (auto simp: create_from_booking_def get_execution_by_booking_id_def insert_execution_def list_ex_iff without_execution_def
          new_execution_def Let_def)
  then have "do_create_service_execution ev i d =
      (Inr (result ''created'' [(''service_execution_id'', JStr (nat_str (ex_id (new_execution ev (fresh_id d) (bk_business_id b) b))))]),
       used_id (add_execution (new_execution ev (fresh_id d) (bk_business_id b) b) d))"
    using b by (simp add: do_create_service_execution_def booking_for_def do_create_service_execution_for_booking_def op_defs)
  then show ?thesis using b(2) by (auto simp: new_execution_def)
qed

lemma do_create_execution_never_poisons:
  assumes "without_execution i b d" shows "do_create_service_execution ev i d \<noteq> (Inl e, d')"
  using create_execution_succeeds [OF assms, of ev] by auto

text \<open>Whether the execution of a booking is still to be tracked.\<close>

definition execution_pending :: "uuid \<Rightarrow> db \<Rightarrow> bool" where
  "execution_pending i d \<longleftrightarrow>
     (\<forall>r\<in>set (t_automation d). bas_booking_id r = i \<and> bas_operation_type r = OP_SERVICE_EXECUTION \<longrightarrow>
        bas_status r \<notin> {''SUCCESS'', ''NOT_APPLICABLE''})"

section \<open>A business with a calendar\<close>

definition calendar_answering :: "(err + CalendarEventResult) \<Rightarrow> calendar_world" where
  "calendar_answering answer =
     \<lparr>cw_secret = ''s'', cw_encrypt = (\<lambda>t. t), cw_decrypt = Some, cw_refresh = (\<lambda>_. None),
      cw_google = (\<lambda>t c. \<lparr>cal_create_event = (\<lambda>e. answer), cal_update_event = (\<lambda>i e. answer), cal_delete_event = (\<lambda>i. answer)\<rparr>)\<rparr>"

definition broken_calendar :: automation where
  "broken_calendar = \<lparr>au_world = calendar_answering (Inl (ProviderError ''timeout'')), au_calendar_sync_enabled = True\<rparr>"

definition connected :: CalendarConnection where
  "connected =
     \<lparr>cal_id = 90, cal_business_id = 1, cal_provider = ''google'', cal_calendar_id = ''primary'', cal_access_token_encrypted = Some ''t'',
      cal_refresh_token_encrypted = None, cal_token_expiry = Some (10 ^ 15), cal_status = ''active'', cal_last_error = None,
      cal_last_synced_at = None, cal_deleted = False\<rparr>"

definition automation_db :: "BookingStatus \<Rightarrow> BookingAutomationStatus list \<Rightarrow> db" where
  "automation_db st rows =
     (market_db Enq_BOOKED Quo_ACCEPTED)\<lparr>t_bookings := [sample_booking 40 st], t_calendars := [connected], t_automation := rows\<rparr>"

definition calendar_row :: "string \<Rightarrow> nat \<Rightarrow> BookingAutomationStatus" where
  "calendar_row st n =
     (new_automation 91 1 40 OP_CALENDAR_SYNC ''BOOKING_CONFIRMED'')\<lparr>bas_status := st, bas_attempt_count := n\<rparr>"

definition booking_event :: "string \<Rightarrow> OutboxEvent" where
  "booking_event ty =
     \<lparr>oe_id = 60, oe_business_id = 1, oe_event_type = ty, oe_aggregate_type = ''booking'', oe_aggregate_id = 40,
      oe_key_suffix = ty, oe_payload = [(''booking_id'', PUuid 40)], oe_status = Obx_PENDING,
      oe_attempt_count = 0, oe_available_at = 50, oe_processed_at = None, oe_last_error = None, oe_processing_started_at = None\<rparr>"

lemmas automation_db_defs = automation_db_def market_db_def empty_db_def calendar_row_def new_automation_def

lemma automation_db_ok: "automation_ok (automation_db st []) \<and> automation_ok (automation_db st [calendar_row s n])"
  by (simp add: automation_ok_def keys_distinct_def automation_db_defs)

lemma event_booking_sample: "event_booking (booking_event ty) = Some 40"
proof -
  have "uuid_of_str (nat_str 40) = Some 40" by code_simp
  then show ?thesis by (simp add: event_booking_def booking_event_def event_payload_def dget_none_def dget_def)
qed

text \<open>A confirmed booking gets its execution whatever the calendar does: when its event is processed, the
  execution is there afterwards, for the booking's business and customer, and the operation is
  recorded as a success.\<close>

theorem confirmed_booking_gets_execution:
  assumes "oe_event_type e = ''BOOKING_CONFIRMED''" and "event_booking e = Some i"
    and "without_execution i b d" and "execution_pending i d"
    and "automation_ok d" and "syncs_live d" and "world_safe (au_world au)"
  shows "\<exists>d'. automation_process_event ev au e c d = Inr d' \<and>
    (\<exists>x\<in>set (t_executions d'). ex_booking_id x = i \<and> ex_business_id x = bk_business_id b \<and> ex_customer_id x = bk_customer_id b) \<and>
    (\<exists>r\<in>set (t_automation d'). bas_booking_id r = i \<and> bas_operation_type r = OP_SERVICE_EXECUTION \<and> bas_status r = ''SUCCESS'')"
proof -
  let ?cal = "run_operation ev (oe_business_id e) i OP_CALENDAR_SYNC ''BOOKING_CONFIRMED'' (do_calendar_sync ev (au_world au)) (c, d)"
  have "\<exists>s1. (if au_calendar_sync_enabled au then ?cal else Inr (c, d)) = Inr s1 \<and> automation_ok (snd s1) \<and>
      rows_except i OP_CALENDAR_SYNC (snd s1) = rows_except i OP_CALENDAR_SYNC d \<and>
      t_bookings (snd s1) = t_bookings d \<and> t_executions (snd s1) = t_executions d"
  proof (cases "au_calendar_sync_enabled au")
    case False
    then show ?thesis using assms(5) by simp
  next
    case True
    obtain r d1 s1 where s1: "?cal = Inr s1" "automation_ok (snd s1)"
        "rows_except i OP_CALENDAR_SYNC (snd s1) = rows_except i OP_CALENDAR_SYNC d" "beside d d1"
        "ran ev (do_calendar_sync ev (au_world au)) i r d1 (snd s1)"
    proof (rule run_operation_ok [OF assms(5) do_calendar_sync_same_automation])
      show "\<not> poisons x" if "beside d d1" "do_calendar_sync ev (au_world au) i d1 = (Inl x, d2)" for d1 x d2
        using do_calendar_sync_safe [OF assms(7) _ that(2)] assms(6) beside_tables [OF that(1)] by (simp add: syncs_live_def)
    qed blast
    have "calendar_only d1 d2" if "do_calendar_sync ev (au_world au) i d1 = (x, d2)" for x d2
      using do_calendar_sync_only calendar_only.steadyD that by blast
    then have "t_bookings (snd s1) = t_bookings d1 \<and> t_executions (snd s1) = t_executions d1"
      using s1(5) by (auto simp: ran_def put_automation_def calendar_only_def split: if_splits)
    then show ?thesis using s1 True beside_tables [OF s1(4)] by auto
  qed
  then obtain s1 where s1: "(if au_calendar_sync_enabled au then ?cal else Inr (c, d)) = Inr s1" "automation_ok (snd s1)"
      "rows_except i OP_CALENDAR_SYNC (snd s1) = rows_except i OP_CALENDAR_SYNC d"
      "t_bookings (snd s1) = t_bookings d" "t_executions (snd s1) = t_executions d" by blast
  have pending: "execution_pending i (snd s1)"
    using assms(4) s1(3) by (force simp: execution_pending_def rows_except_def OP_CALENDAR_SYNC_def OP_SERVICE_EXECUTION_def)
  have without: "without_execution i b d1" if "beside (snd s1) d1" for d1
    using assms(3) s1(4,5) beside_tables [OF that] by (simp add: without_execution_def find_booking_def)
  obtain r d1 s2 where s2: "run_operation ev (oe_business_id e) i OP_SERVICE_EXECUTION ''BOOKING_CONFIRMED''
        (do_create_service_execution ev) (fst s1, snd s1) = Inr s2" "beside (snd s1) d1"
      "bas_operation_type r = OP_SERVICE_EXECUTION" "bas_booking_id r = i"
      "r \<in> set (t_automation (snd s1)) \<or> bas_status r = ''PENDING''" "ran ev (do_create_service_execution ev) i r d1 (snd s2)"
  proof (rule run_operation_ok [OF s1(2) do_create_execution_same_automation])
    show "\<not> poisons x" if "beside (snd s1) d1" "do_create_service_execution ev i d1 = (Inl x, d2)" for d1 x d2
      using do_create_execution_never_poisons [OF without [OF that(1)]] that(2) by blast
  qed blast
  have open_row: "bas_status r \<notin> {''SUCCESS'', ''NOT_APPLICABLE''}"
    using pending s2(3-5) by (auto simp: execution_pending_def)
  obtain evd x where x: "do_create_service_execution ev i d1 = (Inr evd, used_id (add_execution x d1))"
      "ex_booking_id x = i" "ex_business_id x = bk_business_id b" "ex_customer_id x = bk_customer_id b"
    using create_execution_succeeds [OF without [OF s2(2)], of ev] by blast
  have "snd s2 = put_automation (mark_success ev evd r) (used_id (add_execution x d1))"
      "mark_success ev evd r \<in> set (t_automation (snd s2))"
    using s2(6) open_row x(1) by (auto simp: ran_def)
  then have "x \<in> set (t_executions (snd s2))" "\<exists>r\<in>set (t_automation (snd s2)). bas_booking_id r = i \<and>
      bas_operation_type r = OP_SERVICE_EXECUTION \<and> bas_status r = ''SUCCESS''"
    using s2(3,4) by (auto simp: put_automation_def used_id_def add_execution_def intro!: bexI [of _ "mark_success ev evd r"])
  moreover have "automation_process_event ev au e c d = Inr (snd s2)"
    using assms(1,2) s1(1) s2(1)
    by (simp add: automation_process_event_def event_booking_truthy BOOKING_AUTOMATION_EVENTS_def handle_booking_event_def
        handle_confirmed_def then_run_def Let_def)
  ultimately show ?thesis using x by blast
qed

theorem confirmed_booking_gets_execution_witness:
  "\<exists>d'. automation_process_event sample_env broken_calendar (booking_event ''BOOKING_CONFIRMED'') empty_db (automation_db Bkg_CONFIRMED []) = Inr d' \<and>
     (\<exists>x\<in>set (t_executions d'). ex_booking_id x = 40)"
proof -
  have "without_execution 40 (sample_booking 40 Bkg_CONFIRMED) (automation_db Bkg_CONFIRMED [])"
    by (simp add: without_execution_def find_booking_def live_row_def automation_db_defs sample_booking_def)
  moreover have "execution_pending 40 (automation_db Bkg_CONFIRMED [])" "syncs_live (automation_db Bkg_CONFIRMED [])"
    by (simp_all add: execution_pending_def syncs_live_def automation_db_defs)
  moreover have "world_safe (au_world broken_calendar)"
    by (simp add: world_safe_def provider_safe_def broken_calendar_def calendar_answering_def)
  moreover have "oe_event_type (booking_event ''BOOKING_CONFIRMED'') = ''BOOKING_CONFIRMED''" by (simp add: booking_event_def)
  ultimately show ?thesis
    using confirmed_booking_gets_execution [of "booking_event ''BOOKING_CONFIRMED''" 40] event_booking_sample automation_db_ok by blast
qed

section \<open>Cancelled bookings\<close>

lemma run_operation_closed:
  assumes ok: "automation_ok d" and r: "r \<in> set (t_automation d)" "bas_booking_id r = i" "bas_operation_type r = op"
    and status: "bas_status r \<in> {''SUCCESS'', ''NOT_APPLICABLE''}"
  shows "run_operation ev b i op ty f (c, d) = Inr (c, d)"
  using ok
proof (cases rule: get_or_create_cases [where b = b and i = i and op = op and ty = ty])
  case (there r')
  then have "r' = r"
    using ok r by (auto simp: automation_ok_def distinct_map dest: inj_onD)
  then show ?thesis using there status by (simp add: run_operation_def)
next
  case created
  then show ?thesis using r by blast
qed

lemma not_applicable_same_automation: "same_automation.steady (do_service_execution_not_applicable i)"
  unfolding do_service_execution_not_applicable_def by (intro same_automation.steady_intros)

lemma do_not_applicable_reads: "do_service_execution_not_applicable i d = (x, d') \<Longrightarrow> d' = d \<and> (\<forall>e. x = Inl e \<longrightarrow> \<not> poisons e)"
  by (auto simp: do_service_execution_not_applicable_def op_defs get_execution_by_booking_id_def dest: scalar_errors split: sum.splits)

text \<open>A booking that was confirmed and synchronised stays in the calendar when it is cancelled: the
  operation counts as done since the confirmation, so the cancellation is never sent and no
  synchronisation row changes.\<close>

theorem cancelled_booking_stays_in_calendar:
  assumes "oe_event_type e = ''BOOKING_CANCELLED''" and "event_booking e = Some i" and "automation_ok d"
    and "r \<in> set (t_automation d)" and "bas_booking_id r = i" and "bas_operation_type r = OP_CALENDAR_SYNC" and "bas_status r = ''SUCCESS''"
  shows "\<exists>d'. automation_process_event ev au e c d = Inr d' \<and> t_calendar_syncs d' = t_calendar_syncs d \<and> t_calendars d' = t_calendars d"
proof -
  have closed: "run_operation ev (oe_business_id e) i OP_CALENDAR_SYNC ''BOOKING_CANCELLED'' f (c, d) = Inr (c, d)" for f
    using assms by (intro run_operation_closed [OF assms(3,4)]) auto
  obtain r' d1 s2 where s2: "run_operation ev (oe_business_id e) i OP_SERVICE_EXECUTION ''BOOKING_CANCELLED''
        do_service_execution_not_applicable (c, d) = Inr s2" "beside d d1" "ran ev do_service_execution_not_applicable i r' d1 (snd s2)"
  proof (rule run_operation_ok [OF assms(3) not_applicable_same_automation])
    show "\<not> poisons x" if "do_service_execution_not_applicable i d1 = (Inl x, d2)" for d1 x d2
      using do_not_applicable_reads [OF that] by blast
  qed blast
  have "t_calendar_syncs (snd s2) = t_calendar_syncs d1 \<and> t_calendars (snd s2) = t_calendars d1"
    using s2(3) do_not_applicable_reads by (auto simp: ran_def put_automation_def split: if_splits dest!: do_not_applicable_reads)
  moreover have "t_calendars d1 = t_calendars d"
    using arg_cong [where f = t_calendars, OF s2(2) [unfolded beside_def]] by simp
  moreover have "automation_process_event ev au e c d = Inr (snd s2)"
    using assms(1,2) closed s2(1)
    by (auto simp: automation_process_event_def event_booking_truthy BOOKING_AUTOMATION_EVENTS_def handle_booking_event_def
        handle_cancelled_def then_run_def Let_def)
  ultimately show ?thesis using beside_tables(3) [OF s2(2)] by simp
qed

theorem cancelled_booking_stays_in_calendar_witness:
  "\<exists>d'. automation_process_event sample_env broken_calendar (booking_event ''BOOKING_CANCELLED'') empty_db
       (automation_db Bkg_CANCELLED [calendar_row ''SUCCESS'' 0]) = Inr d' \<and>
     t_calendar_syncs d' = t_calendar_syncs (automation_db Bkg_CANCELLED [calendar_row ''SUCCESS'' 0])"
proof -
  have "calendar_row ''SUCCESS'' 0 \<in> set (t_automation (automation_db Bkg_CANCELLED [calendar_row ''SUCCESS'' 0]))"
      "bas_booking_id (calendar_row ''SUCCESS'' 0) = 40" "bas_operation_type (calendar_row ''SUCCESS'' 0) = OP_CALENDAR_SYNC"
      "bas_status (calendar_row ''SUCCESS'' 0) = ''SUCCESS''" "oe_event_type (booking_event ''BOOKING_CANCELLED'') = ''BOOKING_CANCELLED''"
    by (simp_all add: automation_db_defs booking_event_def)
  then show ?thesis
    using cancelled_booking_stays_in_calendar [of "booking_event ''BOOKING_CANCELLED''" 40 "automation_db Bkg_CANCELLED [calendar_row ''SUCCESS'' 0]"
        "calendar_row ''SUCCESS'' 0" sample_env broken_calendar empty_db] event_booking_sample automation_db_ok by blast
qed

section \<open>Calendars that were disconnected\<close>

text \<open>A business that has disconnected its calendar cannot connect one again: the connection is only marked as
  deleted, the callback looks for a live one, and the row it then inserts violates the uniqueness of the business.\<close>

theorem disconnected_calendar_cannot_reconnect:
  assumes "disconnect_calendar business_id d = Inr d'" and "distinct (map cal_business_id (t_calendars d))"
    and "keys_distinct cal_id (t_calendars d)"
  shows "oauth_connected ev cw business_id access refresh expires_in d' = Inl (IntegrityError ''calendar_connections.business_id'')"
proof -
  obtain c where found: "get_connection business_id d = Inr (Some c)" and d': "d' = delete_connection c d"
    using assms(1) by (auto simp: disconnect_calendar_def bindE_Inr_iff requireE_Inr_iff)
  then have c: "c \<in> set (t_calendars d)" "cal_business_id c = business_id"
    unfolding get_connection_def by (blast dest: scalar_in)+
  have same: "x = c" if "x \<in> set (t_calendars d)" "cal_business_id x = business_id" for x
    using that c assms(2) by (auto simp: distinct_map dest: inj_onD)
  have "filter (\<lambda>x. cal_business_id x = business_id \<and> \<not> cal_deleted x) (t_calendars d') = []"
    using same c(2) by (fastforce simp: d' delete_connection_def put_connection_def filter_empty_conv upd_row_def)
  moreover have "map cal_business_id (t_calendars d') = map cal_business_id (t_calendars d)"
    using map_upd_row_same [of cal_id "t_calendars d" c _ cal_business_id] assms(3) c(1)
    by (simp add: d' delete_connection_def put_connection_def keys_distinct_def)
  then have "business_id \<in> cal_business_id ` set (t_calendars d')"
    using c by (metis imageI list.set_map)
  ultimately show ?thesis by (simp add: oauth_connected_def get_connection_def insert_connection_def Let_def)
qed

theorem disconnected_calendar_cannot_reconnect_witness:
  "\<exists>d'. disconnect_calendar 1 (automation_db Bkg_CONFIRMED []) = Inr d' \<and>
     oauth_connected sample_env (au_world broken_calendar) 1 ''t'' ''r'' 3600 d' = Inl (IntegrityError ''calendar_connections.business_id'')"
proof -
  obtain d' where run: "disconnect_calendar 1 (automation_db Bkg_CONFIRMED []) = Inr d'"
    by (simp add: disconnect_calendar_def get_connection_def automation_db_defs connected_def)
  have "distinct (map cal_business_id (t_calendars (automation_db Bkg_CONFIRMED [])))" "keys_distinct cal_id (t_calendars (automation_db Bkg_CONFIRMED []))"
    by (simp_all add: automation_db_defs keys_distinct_def)
  then show ?thesis using disconnected_calendar_cannot_reconnect [OF run] run by blast
qed

section \<open>Retries end\<close>

text \<open>The attempts that failed operations have left.\<close>

definition attempts_left :: "BookingAutomationStatus \<Rightarrow> nat" where
  "attempts_left r = (if bas_status r = ''FAILED'' then 5 - bas_attempt_count r else 0)"

definition retry_budget :: "db \<Rightarrow> nat" where
  "retry_budget d = sum_list (map attempts_left (t_automation d))"

lemma sum_list_replace_less:
  fixes g :: "'r \<Rightarrow> nat"
  assumes "distinct (map key rows)" "r \<in> set rows" "key r' = key r" "g r' < g r"
  shows "sum_list (map g (upd_row key (key r') (\<lambda>_. r') rows)) < sum_list (map g rows)"
  using assms
proof (induction rows)
  case (Cons a rows)
  show ?case
  proof (cases "a = r")
    case True
    then have "upd_row key (key r') (\<lambda>_. r') rows = rows"
      using Cons.prems(1,3) by (intro upd_row_unknown) simp
    then show ?thesis using True Cons.prems(3,4) by simp
  next
    case False
    then have "r \<in> set rows" "key a \<noteq> key r'" using Cons.prems(1-3) by auto
    then show ?thesis using Cons by simp
  qed
qed simp

lemma retry_function_same_automation:
  assumes "retry_function ev au op = Some f"
  shows "same_automation.steady (f b)"
proof -
  have "same_automation.steady (do_calendar_sync_for_booking ev cw b)" for cw
    unfolding do_calendar_sync_for_booking_def sync_booking_confirmed_def sync_booking_cancelled_def
      resolve_provider_def ensure_valid_token_def update_event_def create_event_def record_failure_def save_sync_def Let_def
    by (auto split: option.split prod.split intro!: same_automation.steady_intros put_same_automation insert_sync_same_automation)
  moreover have "same_automation.steady (do_create_service_execution_for_booking ev b)"
    unfolding do_create_service_execution_for_booking_def
    by (intro same_automation.steady_intros create_execution_same_automation)
  moreover have "same_automation.steady (do_payment_prep_for_booking b)"
    unfolding do_payment_prep_for_booking_def by (auto split: option.split intro!: same_automation.steady_intros)
  ultimately show ?thesis using assms by (auto simp: retry_function_def split: if_splits)
qed

text \<open>One retry of a record that is due, its session kept.\<close>

inductive retry_step :: "automation \<Rightarrow> db \<Rightarrow> db \<Rightarrow> bool" for au where
  retried: "r \<in> set (t_automation d) \<Longrightarrow> retryable ev r \<Longrightarrow> find_booking (bas_booking_id r) d = Some b \<Longrightarrow>
     retry_operation ev au r b d = (Some success, d') \<Longrightarrow> retry_step au d d'"

lemma retry_step_budget:
  assumes "retry_step au d d'" and ok: "automation_ok d"
  shows "automation_ok d' \<and> retry_budget d' < retry_budget d"
  using assms(1)
proof cases
  case (retried r ev b success)
  have left: "attempts_left r > 0"
    using retried(2) by (simp add: retryable_def attempts_left_def)
  have put: "automation_ok (put_automation r' d1) \<and> retry_budget (put_automation r' d1) < retry_budget d"
    if "same_automation d d1" "bas_id r' = bas_id r" "bas_booking_id r' = bas_booking_id r" "bas_operation_type r' = bas_operation_type r"
      "attempts_left r' < attempts_left r" for r' d1
  proof
    have same: "t_automation d1 = t_automation d" and ok1: "automation_ok d1"
      using that(1) ok by (fastforce simp: same_automation_def automation_ok_def)+
    show "automation_ok (put_automation r' d1)"
      using put_automation_ok [OF ok1, of r r'] retried(1) same that(2-4) by simp
    show "retry_budget (put_automation r' d1) < retry_budget d"
      using sum_list_replace_less [of bas_id "t_automation d" r r' attempts_left] ok retried(1) that(2,5) same
      by (simp add: retry_budget_def put_automation_def automation_ok_maps)
  qed
  have fewer: "attempts_left (mark_success ev x r) < attempts_left r" "attempts_left (mark_exhausted ev m r) < attempts_left r"
      "attempts_left (failed_attempt ev e r) < attempts_left r" for x m e
    using left
    by (auto simp: attempts_left_def mark_success_def mark_exhausted_def failed_attempt_def mark_op_failed_def MAX_ATTEMPTS_def Let_def
          split: if_splits)
  have keep: "bas_id (mark_exhausted ev m r) = bas_id r" "bas_booking_id (mark_exhausted ev m r) = bas_booking_id r"
      "bas_operation_type (mark_exhausted ev m r) = bas_operation_type r" for m
    by (simp_all add: mark_exhausted_def)
  show ?thesis
  proof (cases "retry_function ev au (bas_operation_type r)")
    case None
    then show ?thesis using retried(4) put [OF same_automation.step_refl] keep fewer by (auto simp: retry_operation_def)
  next
    case (Some f)
    obtain x d1 where x: "f b d = (x, d1)" by (cases "f b d")
    then have "same_automation d d1" using retry_function_same_automation [OF Some] same_automation.steadyD by blast
    then show ?thesis
      using retried(4) Some x put [of d1] fewer by (cases x) (auto simp: retry_operation_def split: if_splits)
  qed
qed

text \<open>C34: Retrying comes to an end: no sequence of retries that keep their sessions is longer than the attempts the
  failed operations have left, which are at most five for each.\<close>

theorem retries_come_to_an_end:
  assumes "(retry_step au ^^ n) d d'" and "automation_ok d"
  shows "n \<le> retry_budget d \<and> retry_budget d \<le> 5 * length (t_automation d)"
proof
  have "automation_ok d' \<and> n + retry_budget d' \<le> retry_budget d"
    using assms(1)
  proof (induction n arbitrary: d')
    case 0
    then show ?case using assms(2) by simp
  next
    case (Suc n)
    then obtain d1 where "(retry_step au ^^ n) d d1" "retry_step au d1 d'" by auto
    then show ?case using Suc.IH [of d1] retry_step_budget [of au d1 d'] by simp
  qed
  then show "n \<le> retry_budget d" by simp
  have "sum_list (map attempts_left rs) \<le> 5 * length rs" for rs
  proof (induction rs)
    case (Cons r rs)
    have "attempts_left r \<le> 5" by (simp add: attempts_left_def)
    then show ?case using Cons.IH by simp
  qed simp
  then show "retry_budget d \<le> 5 * length (t_automation d)"
    by (simp add: retry_budget_def)
qed

theorem retries_come_to_an_end_witness:
  "\<exists>d'. retry_step broken_calendar (automation_db Bkg_CONFIRMED [calendar_row ''FAILED'' 3]) d' \<and>
     1 \<le> retry_budget (automation_db Bkg_CONFIRMED [calendar_row ''FAILED'' 3]) \<and>
     retry_budget (automation_db Bkg_CONFIRMED [calendar_row ''FAILED'' 3]) \<le> 5"
proof -
  let ?d = "automation_db Bkg_CONFIRMED [calendar_row ''FAILED'' 3]"
  have r: "calendar_row ''FAILED'' 3 \<in> set (t_automation ?d)" "retryable sample_env (calendar_row ''FAILED'' 3)"
    by (simp_all add: automation_db_defs retryable_def)
  have b: "find_booking (bas_booking_id (calendar_row ''FAILED'' 3)) ?d = Some (sample_booking 40 Bkg_CONFIRMED)"
    by (simp add: find_booking_def live_row_def automation_db_defs sample_booking_def)
  have "fst (retry_operation sample_env broken_calendar (calendar_row ''FAILED'' 3) (sample_booking 40 Bkg_CONFIRMED) ?d) = Some False"
    by code_simp
  then obtain d' where "retry_operation sample_env broken_calendar (calendar_row ''FAILED'' 3) (sample_booking 40 Bkg_CONFIRMED) ?d = (Some False, d')"
    by (cases "retry_operation sample_env broken_calendar (calendar_row ''FAILED'' 3) (sample_booking 40 Bkg_CONFIRMED) ?d") auto
  then have step: "retry_step broken_calendar ?d d'" using r b by (blast intro: retried)
  then have "(retry_step broken_calendar ^^ 1) ?d d'" by (simp add: eq_OO)
  moreover have "length (t_automation ?d) = 1" by (simp add: automation_db_defs)
  ultimately show ?thesis using retries_come_to_an_end [of 1 broken_calendar ?d d'] automation_db_ok step by auto
qed

end
