(* ===== verification/Worker_System.thy ===== *)
theory Worker_System
  imports Automation_Guarantees Communication_Guarantees
begin

text \<open>
  The worker as it is deployed (src/backend/app/workers/outbox.py and the loop of main.py): a pass
  over the outbox with the communication, voice and automation services behind it, and then, in a
  session of its own, the retries of the automation.  The lemmas put the guarantees of the parts
  together: what a pass leaves alone, what becomes of the events it claims, and that a confirmed
  booking is executed.
\<close>

section \<open>A pass\<close>

record worker_settings =
  ws_batch_size :: nat
  ws_lease_seconds :: int
  ws_max_attempts :: nat

definition default_settings :: worker_settings where
  "default_settings = \<lparr>ws_batch_size = 10, ws_lease_seconds = 300, ws_max_attempts = 5\<rparr>"

definition outbox_worker :: "env \<Rightarrow> comm_providers \<Rightarrow> automation \<Rightarrow> worker_settings \<Rightarrow> worker" where
  "outbox_worker ev ps au st =
     \<lparr>wk_process = (\<lambda>e d. bindE (orchestrate ev ps e d) (\<lambda>(cs, d1). Inr d1)),
      wk_voice = Some (voice_process_event ev True), wk_automation = Some (automation_process_event ev au),
      wk_batch_size = ws_batch_size st, wk_lease_seconds = ws_lease_seconds st, wk_max_attempts = ws_max_attempts st\<rparr>"

definition worker_pass ::
  "env \<Rightarrow> (uuid \<Rightarrow> bool) \<Rightarrow> comm_providers \<Rightarrow> automation \<Rightarrow> worker_settings \<Rightarrow> db \<Rightarrow> db \<times> nat \<times> nat" where
  "worker_pass ev locked ps au st d =
     (let (d1, processed) = process_outbox_events (env_now ev) locked (outbox_worker ev ps au st) d;
          (d2, retried) = retry_failed_operations ev au d1
      in (d2, processed, retried))"

section \<open>What the communication services leave alone\<close>

definition silent :: "db \<Rightarrow> db" where
  "silent d = d\<lparr>t_communications := [], t_recipients := [], t_comm_attempts := [], t_comm_audit := [], t_notifications := [], fresh := 0\<rparr>"

definition comms_only :: "db \<Rightarrow> db \<Rightarrow> bool" where
  "comms_only d d' \<longleftrightarrow> silent d' = silent d"

interpretation comms_only: session_relation comms_only
  by unfold_locales (simp_all add: comms_only_def)

lemma insert_notification_only: "insert_notification n d = Inr (m, d') \<Longrightarrow> comms_only d d'"
  by (auto simp: insert_notification_def used_id_def comms_only_def silent_def split: if_splits)

lemma event_notification_only:
  assumes run: "create_event_notification ev e c d = Inr (n, d')"
  shows "comms_only d d'"
proof -
  obtain found where found: "get_notification_by_key (notification_key e c) d = Inr found"
    using run by (auto simp: create_event_notification_def Let_def bindE_Inr_iff)
  then show ?thesis
    using run insert_notification_only comms_only.step_refl
    by (cases found) (auto simp: create_event_notification_def Let_def bindE_Inr_iff)
qed

lemma add_audit_only: "comms_only d (add_audit a d)"
  by (simp add: add_audit_def used_id_def comms_only_def silent_def)

lemma execute_communication_only:
  "execute_communication ev ps e t subject body p d = Inr (c, d') \<Longrightarrow> comms_only d d'"
  by (auto simp: execute_communication_def insert_communication_def Let_def bindE_Inr_iff used_id_def add_audit_def
        comms_only_def silent_def split: if_splits)

lemma process_target_only:
  assumes run: "process_target ev ps e v d = Inr (c, d')"
  shows "comms_only d d'"
proof -
  obtain t where t: "read_target e v = Inr t"
    using run by (auto simp: process_target_def bindE_Inr_iff)
  obtain found where found: "get_communication_by_key (tg_key t) d = Inr found"
    using run t by (auto simp: process_target_def bindE_Inr_iff)
  show ?thesis
  proof (cases found)
    case (Some x)
    then show ?thesis using run t found comms_only.step_refl by (auto simp: process_target_def)
  next
    case None
    obtain n d1 where n: "create_event_notification ev e (rc_customer_id (tg_context t)) d = Inr (n, d1)"
      using run t found None by (auto simp: process_target_def bindE_Inr_iff)
    obtain p where p: "evaluate_policy ev (oe_business_id e) (tg_context t) d1 = Inr p"
      using run t found None n by (auto simp: process_target_def bindE_Inr_iff)
    have "comms_only d1 d'"
    proof (cases "pd_is_allowed p")
      case False
      then show ?thesis using run t found None n p add_audit_only by (auto simp: process_target_def)
    next
      case True
      then obtain subject body x where "execute_communication ev ps e t subject body p d1 = Inr (x, d')"
        using run t found None n p by (auto simp: process_target_def bindE_Inr_iff)
      then show ?thesis by (rule execute_communication_only)
    qed
    then show ?thesis using event_notification_only [OF n] comms_only.step_trans by blast
  qed
qed

lemma process_targets_only: "process_targets ev ps e vs d = Inr (cs, d') \<Longrightarrow> comms_only d d'"
proof (induction vs arbitrary: d cs)
  case (Cons v vs)
  then obtain c d1 cs1 where "process_target ev ps e v d = Inr (c, d1)" "process_targets ev ps e vs d1 = Inr (cs1, d')"
    by (auto simp: bindE_Inr_iff)
  then show ?case using Cons.IH process_target_only comms_only.step_trans by blast
qed (simp add: comms_only.step_refl)

lemma notify_only_only:
  assumes "notify_only ev e d = Inr (cs, d')"
  shows "comms_only d d'"
proof -
  obtain n d1 i where n: "create_event_notification ev e None d = Inr (n, d1)"
      and i: "payload_customer (dget_none (event_payload e) ''customer_id'') = Inr i"
    using assms by (auto simp: notify_only_def bindE_Inr_iff)
  show ?thesis
  proof (cases i)
    case None
    then show ?thesis
      using assms n i event_notification_only [OF n]
      by (auto simp: notify_only_def email_process_event_def email_process_event_inner_def)
  next
    case (Some c)
    then obtain m where "create_event_notification ev e (Some c) d1 = Inr (m, d')"
      using assms n i by (auto simp: notify_only_def email_process_event_def email_process_event_inner_def bindE_Inr_iff)
    then show ?thesis
      using event_notification_only n comms_only.step_trans by blast
  qed
qed

lemma orchestrate_only: "orchestrate ev ps e d = Inr (cs, d') \<Longrightarrow> comms_only d d'"
  by (erule orchestrate_cases) (blast intro: notify_only_only process_targets_only)+

lemma voice_only: "voice_process_event ev info e d = Inr d' \<Longrightarrow> comms_only d d'"
  by (auto simp: voice_process_event_def Let_def bindE_Inr_iff comms_only.step_refl intro: insert_notification_only
        split: prod.splits if_splits)

lemma route_event_only: "route_event (outbox_worker ev ps au st) e d = Inr d' \<Longrightarrow> comms_only d d'"
  by (auto simp: route_event_def outbox_worker_def bindE_Inr_iff intro: voice_only orchestrate_only split: if_splits)

section \<open>What a pass leaves alone\<close>

definition untouched :: "db \<Rightarrow> db" where
  "untouched d = (silent d)\<lparr>t_executions := [], t_calendars := [], t_calendar_syncs := [], t_automation := [], t_outbox := []\<rparr>"

definition services_only :: "db \<Rightarrow> db \<Rightarrow> bool" where
  "services_only d d' \<longleftrightarrow> untouched d' = untouched d \<and> prefix (t_executions d) (t_executions d')"

interpretation services_only: session_relation services_only
  by unfold_locales (auto simp: services_only_def intro: prefix_order.trans)

lemma comms_only_tables:
  assumes "comms_only d d'"
  shows "t_executions d' = t_executions d" "t_outbox d' = t_outbox d" "t_bookings d' = t_bookings d"
    "t_automation d' = t_automation d" "t_calendar_syncs d' = t_calendar_syncs d" "t_calendars d' = t_calendars d"
proof -
  have "f (silent d') = f (silent d)" for f :: "db \<Rightarrow> 'a"
    using assms by (simp add: comms_only_def)
  from this [of t_executions] this [of t_outbox] this [of t_bookings] this [of t_automation] this [of t_calendar_syncs]
    this [of t_calendars]
  show "t_executions d' = t_executions d" "t_outbox d' = t_outbox d" "t_bookings d' = t_bookings d"
    "t_automation d' = t_automation d" "t_calendar_syncs d' = t_calendar_syncs d" "t_calendars d' = t_calendars d"
    by (simp_all add: silent_def)
qed

lemma comms_only_services: "comms_only d d' \<Longrightarrow> services_only d d'"
  using comms_only_tables(1) [of d d'] by (simp add: services_only_def untouched_def comms_only_def)

lemma untouched_others: "untouched d = untouched (others d)"
  by (simp add: untouched_def silent_def others_def)

lemma footprint_services: "footprint d d' \<Longrightarrow> services_only d d'"
  unfolding services_only_def footprint_def by (metis untouched_others)

lemma footprint_outbox: "footprint d d' \<Longrightarrow> t_outbox d' = t_outbox d"
  unfolding footprint_def others_def by (metis db.select_convs(24) db.surjective db.update_convs)

lemma outbox_services: "services_only d (d\<lparr>t_outbox := rows\<rparr>)"
  by (simp add: services_only_def untouched_def silent_def)

section \<open>One event\<close>

lemma run_automation_cases:
  obtains (lost) msg c' where "run_automation (outbox_worker ev ps au st) e c d = Inl (msg, c')" "c' = c \<or> footprint d c'"
    | (ran) d' where "run_automation (outbox_worker ev ps au st) e c d = Inr d'" "footprint d d'"
proof (cases "run_automation (outbox_worker ev ps au st) e c d")
  case (Inl mc)
  obtain msg c' where mc: "mc = (msg, c')" by (cases mc)
  then show ?thesis
    using lost Inl automation_keeps_business_records [where ev = ev and au = au and e = e and committed = c and d = d]
    by (auto simp: run_automation_def outbox_worker_def split: if_splits)
next
  case (Inr d')
  then show ?thesis
    using ran footprint.step_refl automation_keeps_business_records [where ev = ev and au = au and e = e and committed = c and d = d]
    by (auto simp: run_automation_def outbox_worker_def split: if_splits)
qed

text \<open>The orchestrators never write to the outbox.\<close>

lemma outbox_worker_append_only: "append_only (outbox_worker ev ps au st)"
  unfolding append_only_def
proof (intro conjI allI impI)
  fix e d d' assume "route_event (outbox_worker ev ps au st) e d = Inr d'"
  then show "appends_events d d'"
    using comms_only_tables(2) route_event_only by (fastforce simp: appends_events_def)
next
  fix e c d assume grown: "appends_events c d"
  have same: "appends_events c d'" if "t_outbox d' = t_outbox d" for d'
    using grown that by (simp add: appends_events_def)
  show "case run_automation (outbox_worker ev ps au st) e c d of Inl (msg, c') \<Rightarrow> appends_events c c' | Inr d' \<Rightarrow> appends_events c d'"
    by (rule run_automation_cases [of ev ps au st e c d])
      (auto simp: appends_events_def [of c c] intro: same footprint_outbox)
qed

lemma fail_event_services: "services_only d (fail_event now w e msg d)"
  by (simp add: fail_event_def outbox_services)

lemma fail_event_rows:
  "\<exists>f. t_outbox (fail_event now w e msg d) = upd_row oe_id (oe_id e) f (t_outbox d) \<and> (\<forall>r. oe_id (f r) = oe_id r)"
  by (auto simp: fail_event_def mark_failed_def mark_retryable_def intro!: exI)

text \<open>What processing an event does to the records and to the outbox.\<close>

lemma process_event_frame:
  "services_only (fst s) (fst (process_event now (outbox_worker ev ps au st) e s)) \<and>
   (\<exists>f. t_outbox (fst (process_event now (outbox_worker ev ps au st) e s)) = upd_row oe_id (oe_id e) f (t_outbox (fst s)) \<and>
      (\<forall>r. oe_id (f r) = oe_id r))"
proof (cases "route_event (outbox_worker ev ps au st) e (fst s)")
  case (Inl x)
  then show ?thesis using fail_event_services fail_event_rows by (simp add: process_event_def)
next
  case (Inr d1)
  then have d1: "services_only (fst s) d1" "t_outbox d1 = t_outbox (fst s)"
    using route_event_only comms_only_services comms_only_tables(2) by blast+
  show ?thesis
  proof (rule run_automation_cases [of ev ps au st e "fst s" d1])
    fix m c assume lost: "run_automation (outbox_worker ev ps au st) e (fst s) d1 = Inl (m, c)" and c: "c = fst s \<or> footprint d1 c"
    have "services_only (fst s) c \<and> t_outbox c = t_outbox (fst s)"
      using c d1 services_only.step_refl services_only.step_trans footprint_services footprint_outbox by metis
    then have "services_only (fst s) (fail_event now w e msg c) \<and>
        (\<exists>f. t_outbox (fail_event now w e msg c) = upd_row oe_id (oe_id e) f (t_outbox (fst s)) \<and> (\<forall>r. oe_id (f r) = oe_id r))" for w msg
      using fail_event_services services_only.step_trans fail_event_rows by metis
    then show ?thesis using Inr lost by (simp add: process_event_def)
  next
    fix d2 assume ran: "run_automation (outbox_worker ev ps au st) e (fst s) d1 = Inr d2" and d2: "footprint d1 d2"
    then have "services_only (fst s) d2 \<and> t_outbox d2 = t_outbox (fst s)"
      using d1 services_only.step_trans footprint_services footprint_outbox by metis
    then have "services_only (fst s) (d2\<lparr>t_outbox := rows\<rparr>)" "t_outbox d2 = t_outbox (fst s)" for rows
      using outbox_services services_only.step_trans by blast+
    then show ?thesis using Inr ran by (auto simp: process_event_def mark_processed_def intro!: exI)
  qed
qed

lemma process_events_services:
  "services_only (fst s) (fst (fold (process_event now (outbox_worker ev ps au st)) es s))"
proof (induction es arbitrary: s)
  case (Cons e es)
  then show ?case
    using process_event_frame [of s now ev ps au st e] services_only.step_trans by fastforce
qed (simp add: services_only.step_refl)

section \<open>Retries\<close>

lemma retry_record_footprint:
  assumes "footprint d0 c" "footprint d0 d" and "retry_record ev au r ((c, d), n) = ((c', d'), n')"
  shows "footprint d0 c' \<and> footprint d0 d'"
proof (cases "find_booking (bas_booking_id r) d")
  case None
  then show ?thesis
    using assms put_footprint(3) footprint.step_trans by (auto simp: retry_record_def)
next
  case (Some b)
  obtain res d1 where run: "retry_operation ev au r b d = (res, d1)" by (cases "retry_operation ev au r b d")
  then have "footprint d0 d1" using assms(2) retry_operation_footprint footprint.step_trans by blast
  then show ?thesis using assms Some run by (cases res) (auto simp: retry_record_def)
qed

lemma retries_footprint: "footprint d (fst (retry_failed_operations ev au d))"
proof -
  have "footprint d (fst (fst s)) \<and> footprint d (snd (fst s)) \<Longrightarrow>
      footprint d (fst (fst (fold (retry_record ev au) rs s))) \<and> footprint d (snd (fst (fold (retry_record ev au) rs s)))" for rs s
  proof (induction rs arbitrary: s)
    case (Cons r rs)
    obtain c d1 n where "s = ((c, d1), n)" by (metis surj_pair)
    then show ?case
      using Cons retry_record_footprint [of d c d1 ev au r n] by (cases "retry_record ev au r s") (metis fold_simps(2) fst_conv snd_conv surj_pair)
  qed simp
  from this [of "((d, d), 0)" "get_retryable ev 20 d"] show ?thesis
    by (simp add: retry_failed_operations_def footprint.step_refl split: prod.split) (metis fst_conv)
qed

section \<open>Identifiers as texts\<close>

lemma digit_value_char: "d < 10 \<Longrightarrow> digit_value (digit_char d) = Some d"
proof -
  assume "d < 10"
  then have "d \<in> {0, 1, 2, 3, 4, 5, 6, 7, 8, 9}" by auto
  then show ?thesis by (auto simp: digit_char_def digit_value_def)
qed

lemma digits_value_snoc:
  "digits_value acc (s @ [c]) = 10 * digits_value acc s + (case digit_value c of None \<Rightarrow> 0 | Some d \<Rightarrow> d)"
  by (induction acc s rule: digits_value.induct) simp_all

lemma nat_str_digits: "nat_str n \<noteq> [] \<and> list_all is_digit (nat_str n) \<and> digits_value 0 (nat_str n) = n"
proof (induction n rule: nat_str.induct)
  case (1 n)
  have last: "digit_value (digit_char n) = Some (n mod 10)"
    using digit_value_char [of "n mod 10"] by (simp add: digit_char_def)
  show ?case
  proof (cases "n < 10")
    case True
    then show ?thesis using last by (simp add: nat_str.simps [of n] is_digit_def)
  next
    case False
    then have "nat_str n = nat_str (n div 10) @ [digit_char n]" by (simp add: nat_str.simps [of n])
    then show ?thesis using 1 False last by (simp add: is_digit_def digits_value_snoc)
  qed
qed

lemma uuid_of_nat_str: "uuid_of_str (nat_str n) = Some n"
  using nat_str_digits by (simp add: uuid_of_str_def)

section \<open>Announcing an event\<close>

text \<open>
  An event without targets of its own, whose title and body are texts and whose customer, if it
  names one, is an identifier: it goes to the business and to that customer.
\<close>

definition announces :: "OutboxEvent \<Rightarrow> uuid option \<Rightarrow> bool" where
  "announces e customer \<longleftrightarrow>
     \<not> truthy (dget (event_payload e) ''communication_targets'' (JList [])) \<and>
     payload_customer (dget_none (event_payload e) ''customer_id'') = Inr customer \<and>
     (\<exists>t. text_or (event_payload e) ''notification_title'' (oe_event_type e) = Inr t) \<and>
     (\<exists>t. text_or (event_payload e) ''notification_body'' (''Event: '' @ oe_event_type e) = Inr t)"

definition unannounced :: "OutboxEvent \<Rightarrow> uuid option \<Rightarrow> db \<Rightarrow> bool" where
  "unannounced e customer d \<longleftrightarrow>
     notification_key e None \<notin> ntf_idempotency_key ` set (t_notifications d) \<and>
     notification_key e customer \<notin> ntf_idempotency_key ` set (t_notifications d)"

lemma notification_key_customer: "notification_key e (Some c) \<noteq> notification_key e None"
  by (simp add: notification_key_def)

lemma unused_key: "k \<notin> ntf_idempotency_key ` set (t_notifications d) \<Longrightarrow> get_notification_by_key k d = Inr None"
proof -
  assume "k \<notin> ntf_idempotency_key ` set (t_notifications d)"
  then have "filter (\<lambda>n. ntf_idempotency_key n = k \<and> \<not> ntf_deleted n) (t_notifications d) = []"
    by (auto simp: filter_empty_conv)
  then show ?thesis by (simp add: get_notification_by_key_def)
qed

lemma create_event_notification_new:
  assumes "announces e customer" and "notification_key e c \<notin> ntf_idempotency_key ` set (t_notifications d)"
  obtains n where "create_event_notification ev e c d = Inr (n, used_id (d\<lparr>t_notifications := t_notifications d @ [n]\<rparr>))"
    "ntf_idempotency_key n = notification_key e c"
proof -
  obtain t b where "text_or (event_payload e) ''notification_title'' (oe_event_type e) = Inr t"
      "text_or (event_payload e) ''notification_body'' (''Event: '' @ oe_event_type e) = Inr b"
    using assms(1) by (auto simp: announces_def)
  then show thesis
    using that assms(2) unused_key [OF assms(2)]
    by (simp add: create_event_notification_def insert_notification_def new_notification_def Let_def)
qed

lemma announced:
  assumes "announces e customer" and "unannounced e customer d"
  shows "\<exists>d'. orchestrate ev ps e d = Inr ([], d') \<and> fresh d \<le> fresh d'"
proof -
  obtain n where n: "create_event_notification ev e None d = Inr (n, used_id (d\<lparr>t_notifications := t_notifications d @ [n]\<rparr>))"
      "ntf_idempotency_key n = notification_key e None"
    using create_event_notification_new [OF assms(1), of None d ev] assms(2) by (auto simp: unannounced_def)
  let ?d1 = "used_id (d\<lparr>t_notifications := t_notifications d @ [n]\<rparr>)"
  have "\<exists>d'. notify_only ev e d = Inr ([], d') \<and> fresh d \<le> fresh d'"
  proof (cases customer)
    case None
    then show ?thesis
      using assms(1) n by (simp add: notify_only_def announces_def email_process_event_def email_process_event_inner_def used_id_def)
  next
    case (Some c)
    then have "notification_key e (Some c) \<notin> ntf_idempotency_key ` set (t_notifications ?d1)"
      using assms(2) n(2) notification_key_customer by (simp add: unannounced_def used_id_def)
    then obtain m where "create_event_notification ev e (Some c) ?d1 = Inr (m, used_id (?d1\<lparr>t_notifications := t_notifications ?d1 @ [m]\<rparr>))"
      using create_event_notification_new [OF assms(1)] by blast
    then show ?thesis
      using assms(1) n Some by (simp add: notify_only_def announces_def email_process_event_def email_process_event_inner_def used_id_def)
  qed
  then show ?thesis using assms(1) by (simp add: orchestrate_def announces_def)
qed

section \<open>Passes\<close>

lemma ids_upd_rows: "\<forall>r. key (f r) = key r \<Longrightarrow> map key (upd_row key k f rows) = map key rows"
  by (simp add: map_key_upd_row)

lemma process_events_ids:
  "map oe_id (t_outbox (fst (fold (process_event now (outbox_worker ev ps au st)) es s))) = map oe_id (t_outbox (fst s))"
proof (induction es arbitrary: s)
  case (Cons e es)
  let ?s = "process_event now (outbox_worker ev ps au st) e s"
  obtain f where "t_outbox (fst ?s) = upd_row oe_id (oe_id e) f (t_outbox (fst s))" "\<forall>r. oe_id (f r) = oe_id r"
    using process_event_frame by blast
  then have "map oe_id (t_outbox (fst ?s)) = map oe_id (t_outbox (fst s))" by (simp add: ids_upd_rows)
  then show ?case using Cons.IH [of ?s] by simp
qed simp

lemma claim_ids: "map oe_id (snd (claim_pending_events now locked n l rows)) = map oe_id rows"
  by (simp add: claim_pending_events_eq comp_def if_distrib cong: if_cong)

text \<open>C7: A pass of the worker leaves the records of the marketplace alone: users, businesses, offers, the
  Brain, enquiries, quotes, bookings, invoices, ledger, payments and reviews stay as they are, no
  execution is removed or changed, and no event leaves the outbox or enters it.\<close>

theorem worker_pass_leaves_business_alone:
  "services_only d (fst (worker_pass ev locked ps au st d)) \<and>
   map oe_id (t_outbox (fst (worker_pass ev locked ps au st d))) = map oe_id (t_outbox d)"
proof -
  let ?w = "outbox_worker ev ps au st"
  obtain es rows where claim: "claim_pending_events (env_now ev) locked (ws_batch_size st) (ws_lease_seconds st) (t_outbox d) = (es, rows)"
    by fastforce
  let ?d1 = "fst (process_outbox_events (env_now ev) locked ?w d)"
  have d1: "?d1 = fst (fold (process_event (env_now ev) ?w) es (d\<lparr>t_outbox := rows\<rparr>, 0))"
    using claim by (simp add: process_outbox_events_def outbox_worker_def)
  have "services_only (d\<lparr>t_outbox := rows\<rparr>) ?d1"
    unfolding d1 using process_events_services [of "(d\<lparr>t_outbox := rows\<rparr>, 0)"] by simp
  then have "services_only d ?d1" by (rule services_only.step_trans [OF outbox_services])
  moreover have "map oe_id (t_outbox ?d1) = map oe_id (t_outbox d)"
    unfolding d1 using claim_ids [of "env_now ev" locked "ws_batch_size st" "ws_lease_seconds st" "t_outbox d"] claim
    by (simp add: process_events_ids)
  moreover have pass: "fst (worker_pass ev locked ps au st d) = fst (retry_failed_operations ev au ?d1)"
    by (simp add: worker_pass_def split: prod.split)
  moreover note footprint_services [OF retries_footprint [of ?d1 ev au]] footprint_outbox [OF retries_footprint [of ?d1 ev au]]
  ultimately show ?thesis
    unfolding pass using services_only.step_trans by (intro conjI) simp_all
qed



section \<open>From a confirmation to an execution\<close>

lemma distinct_chosen:
  assumes "distinct (map oe_id rows)"
  shows "distinct (map oe_id (chosen_events now locked n l rows))"
proof -
  let ?live = "filter (\<lambda>e. claimable now e \<and> \<not> locked (oe_id e)) (map (reclaim now l) rows)"
  have "distinct (map oe_id (map (reclaim now l) rows))" using assms by (simp add: comp_def)
  then have "distinct (map oe_id ?live)" by (rule distinct_map_filter)
  then have "distinct (map oe_id (sort_key oe_available_at ?live))" by (simp add: distinct_map)
  then show ?thesis unfolding chosen_events_def take_map [symmetric] by (rule distinct_take)
qed

text \<open>What later events of a batch keep.\<close>

lemma process_events_keep:
  assumes "i \<notin> oe_id ` set es" and "\<forall>r\<in>set (t_outbox (fst s)). oe_id r = i \<longrightarrow> P r"
  shows "\<forall>r\<in>set (t_outbox (fst (fold (process_event now (outbox_worker ev ps au st)) es s))). oe_id r = i \<longrightarrow> P r"
  using assms
proof (induction es arbitrary: s)
  case (Cons e es)
  let ?s = "process_event now (outbox_worker ev ps au st) e s"
  obtain f where "t_outbox (fst ?s) = upd_row oe_id (oe_id e) f (t_outbox (fst s))" "\<forall>r. oe_id (f r) = oe_id r"
    using process_event_frame by blast
  then have "\<forall>r\<in>set (t_outbox (fst ?s)). oe_id r = i \<longrightarrow> P r"
    using Cons.prems by (auto elim!: in_set_upd_rowE)
  then show ?case using Cons.IH [of ?s] Cons.prems(1) by simp
qed simp

lemma count_up: "snd s \<le> snd (fold (process_event now w) es s)"
proof (induction es arbitrary: s)
  case (Cons e es)
  have "snd s \<le> snd (process_event now w e s)"
    by (simp add: process_event_def Let_def split: sum.splits)
  then show ?case using Cons.IH [of "process_event now w e s"] by simp
qed simp

text \<open>The booking of an event is ready: confirmed, not executed, and the automation's rows are in order.\<close>

definition ready :: "automation \<Rightarrow> uuid \<Rightarrow> Booking \<Rightarrow> db \<Rightarrow> bool" where
  "ready au i b d \<longleftrightarrow>
     without_execution i b d \<and> execution_pending i d \<and> automation_ok d \<and> syncs_live d \<and> world_safe (au_world au)"

lemma confirmed_event_processed:
  assumes e: "oe_event_type e = ''BOOKING_CONFIRMED''" "oe_aggregate_type e = ''booking''" "event_booking e = Some i"
    and "announces e customer" and "unannounced e customer (fst s)" and "ready au i b (fst s)"
  shows "snd (process_event now (outbox_worker ev ps au st) e s) = snd s + 1 \<and>
    (\<exists>x\<in>set (t_executions (fst (process_event now (outbox_worker ev ps au st) e s))).
       ex_booking_id x = i \<and> ex_business_id x = bk_business_id b \<and> ex_customer_id x = bk_customer_id b) \<and>
    (\<forall>r\<in>set (t_outbox (fst (process_event now (outbox_worker ev ps au st) e s))). oe_id r = oe_id e \<longrightarrow> oe_status r = Obx_PROCESSED)"
proof -
  obtain d1 where d1: "orchestrate ev ps e (fst s) = Inr ([], d1)" "fresh (fst s) \<le> fresh d1"
    using announced [OF assms(4,5)] by blast
  note same = comms_only_tables [OF orchestrate_only [OF d1(1)]]
  have "without_execution i b d1" "execution_pending i d1" "syncs_live d1" "world_safe (au_world au)"
    using assms(6) same by (simp_all add: ready_def without_execution_def find_booking_def execution_pending_def syncs_live_def)
  moreover have "automation_ok d1"
    using assms(6) same d1(2) by (fastforce simp: ready_def automation_ok_def)
  ultimately obtain d2 where d2: "automation_process_event ev au e (fst s) d1 = Inr d2"
      "\<exists>x\<in>set (t_executions d2). ex_booking_id x = i \<and> ex_business_id x = bk_business_id b \<and> ex_customer_id x = bk_customer_id b"
    using confirmed_booking_gets_execution [OF e(1,3)] by blast
  have "route_event (outbox_worker ev ps au st) e (fst s) = Inr d1"
    using d1(1) e(1) by (simp add: route_event_def outbox_worker_def py_prefix_def)
  moreover have "run_automation (outbox_worker ev ps au st) e (fst s) d1 = Inr d2"
    using d2(1) e(1,2) by (simp add: run_automation_def outbox_worker_def BOOKING_AUTOMATION_EVENTS_def)
  ultimately show ?thesis
    using d2(2) by (auto simp: process_event_def mark_processed_def elim!: in_set_upd_rowE)
qed

text \<open>The event that a confirmation writes.\<close>

lemma confirmation_event:
  assumes "e = claim_row now
     (new_event ev0 k (bk_business_id b) (booking_event_type Bkg_CONFIRMED) ''booking'' (bk_id b) (booking_payload b Bkg_CONFIRMED))"
  shows "oe_event_type e = ''BOOKING_CONFIRMED''" "oe_aggregate_type e = ''booking''" "event_booking e = Some (bk_id b)"
    "announces e (Some (bk_customer_id b))"
proof -
  show "oe_event_type e = ''BOOKING_CONFIRMED''" "oe_aggregate_type e = ''booking''"
    unfolding assms by (simp_all add: new_event_def claim_row_def) code_simp
  show "event_booking e = Some (bk_id b)" "announces e (Some (bk_customer_id b))"
    unfolding assms
    by (simp_all add: event_booking_def announces_def event_payload_def new_event_def claim_row_def booking_payload_def dget_none_def dget_def
        uuid_of_nat_str nat_str_digits text_or_def)
qed

text \<open>What a claim returns first is processed, and stays processed for the rest of the pass.\<close>

lemma first_event_executed:
  assumes claim: "claim_pending_events (env_now ev) locked (ws_batch_size st) (ws_lease_seconds st) (t_outbox d) = (e # es, rows)"
    and ids: "distinct (map oe_id (t_outbox d))"
    and e: "oe_event_type e = ''BOOKING_CONFIRMED''" "oe_aggregate_type e = ''booking''" "event_booking e = Some i"
    and "announces e customer" "unannounced e customer d" "ready au i b d"
    and pass: "worker_pass ev locked ps au st d = (d', processed, retried)"
  shows "1 \<le> processed \<and>
    (\<exists>x\<in>set (t_executions d'). ex_booking_id x = i \<and> ex_business_id x = bk_business_id b \<and> ex_customer_id x = bk_customer_id b) \<and>
    (\<forall>r\<in>set (t_outbox d'). oe_id r = oe_id e \<longrightarrow> oe_status r = Obx_PROCESSED)"
proof -
  let ?w = "outbox_worker ev ps au st" and ?p = "process_event (env_now ev) (outbox_worker ev ps au st)"
  let ?s0 = "(d\<lparr>t_outbox := rows\<rparr>, 0)" and ?s1 = "?p e (d\<lparr>t_outbox := rows\<rparr>, 0)"
  let ?s2 = "fold ?p es ?s1"
  have run: "process_outbox_events (env_now ev) locked ?w d = ?s2"
    using claim by (simp add: process_outbox_events_def outbox_worker_def)
  have d': "d' = fst (retry_failed_operations ev au (fst ?s2))" and n: "processed = snd ?s2"
    using pass run by (auto simp: worker_pass_def split: prod.splits)
  have start: "unannounced e customer (fst ?s0)" "ready au i b (fst ?s0)"
    using assms(7,8)
    by (simp_all add: unannounced_def ready_def without_execution_def find_booking_def execution_pending_def automation_ok_def syncs_live_def)
  have first: "snd ?s1 = 1" "\<exists>x\<in>set (t_executions (fst ?s1)). ex_booking_id x = i \<and> ex_business_id x = bk_business_id b \<and> ex_customer_id x = bk_customer_id b"
      "\<forall>r\<in>set (t_outbox (fst ?s1)). oe_id r = oe_id e \<longrightarrow> oe_status r = Obx_PROCESSED"
    using confirmed_event_processed [OF e assms(6) start, of "env_now ev" ev ps st] by simp_all
  have "distinct (map oe_id (e # es))"
    using distinct_chosen [OF ids, of "env_now ev" locked "ws_batch_size st" "ws_lease_seconds st"] claim
    by (auto simp: claim_pending_events_eq comp_def)
  then have "oe_id e \<notin> oe_id ` set es" by simp
  then have row: "\<forall>r\<in>set (t_outbox (fst ?s2)). oe_id r = oe_id e \<longrightarrow> oe_status r = Obx_PROCESSED"
    using first(3) by (rule process_events_keep)
  have kept: "services_only (fst ?s1) (fst ?s2)" by (rule process_events_services)
  note retries = retries_footprint [of "fst ?s2" ev au]
  have "set (t_executions (fst ?s1)) \<subseteq> set (t_executions d')"
    using kept footprint_services [OF retries] unfolding d' services_only_def by (meson order_trans set_mono_prefix)
  moreover have "t_outbox d' = t_outbox (fst ?s2)" unfolding d' by (rule footprint_outbox [OF retries])
  moreover have "1 \<le> processed" using count_up [of ?s1 "env_now ev" ?w es] first(1) n by simp
  ultimately show ?thesis using first(2) row by auto
qed

text \<open>A claimed event that has just been written is that event, marked.\<close>

lemma claimed_new_event:
  assumes "claim_pending_events now locked n l (rows @ [x]) = (e # es, rows')" and "oe_id e = oe_id x"
    and "oe_id x \<notin> oe_id ` set rows" and "oe_status x = Obx_PENDING"
  shows "e = claim_row now x"
proof -
  let ?chosen = "chosen_events now locked n l (rows @ [x])"
  have "map (claim_row now) ?chosen = e # es"
    using assms(1) by (simp add: claim_pending_events_eq)
  then have "e \<in> claim_row now ` set ?chosen"
    unfolding set_map [symmetric] by simp
  then obtain c where c: "c \<in> set ?chosen" "e = claim_row now c" by blast
  then obtain r where r: "r \<in> set (rows @ [x])" "c = reclaim now l r"
    using chosen_eventsD(1) by blast
  have "oe_id r = oe_id x" using c(2) assms(2) r(2) by simp
  then have "r \<notin> set rows" using assms(3) by (metis imageI)
  then have "r = x" using r(1) by simp
  then show ?thesis using c(2) r(2) assms(4) by (simp add: reclaim_def lease_expired_def)
qed

text \<open>C5: From confirmation to execution: when a business confirms a booking and the next pass of the worker gets
  its event first, the event is processed and the booking has its execution after the pass, for
  its business and its customer, however the calendar, the providers and the other events of the
  batch fare.\<close>

theorem confirmed_booking_is_executed:
  assumes confirm: "transition_business_booking ev0 business_id i Bkg_CONFIRMED d0 = Inr (b, d)"
    and start: "\<forall>x\<in>set (t_executions d0). ex_booking_id x \<noteq> i"
      "execution_pending i d0" "automation_ok d0" "syncs_live d0" "world_safe (au_world au)"
      "distinct (map oe_id (t_outbox d0))" "fresh d0 \<notin> oe_id ` set (t_outbox d0)"
    and claim: "claim_pending_events (env_now ev) locked (ws_batch_size st) (ws_lease_seconds st) (t_outbox d) = (e # es, rows)"
      "oe_id e = fresh d0" "unannounced e (Some (bk_customer_id b)) d0"
    and pass: "worker_pass ev locked ps au st d = (d', processed, retried)"
  shows "1 \<le> processed \<and>
    (\<exists>x\<in>set (t_executions d'). ex_booking_id x = i \<and> ex_business_id x = business_id \<and> ex_customer_id x = bk_customer_id b) \<and>
    (\<forall>r\<in>set (t_outbox d'). oe_id r = oe_id e \<longrightarrow> oe_status r = Obx_PROCESSED)"
proof -
  obtain b0 where b0: "find_booking i d0 = Some b0" "bk_business_id b0 = business_id"
      and run: "transition_booking ev0 b0 Bkg_CONFIRMED ''business'' d0 = Inr (b, d)"
    using confirm by (auto simp: result_iffs)
  have b: "b = b0\<lparr>bk_status := Bkg_CONFIRMED\<rparr>" and "bk_id b0 = i" "\<not> bk_deleted b0"
    using run b0(1) by (auto elim!: transition_booking_Inr simp: find_booking_def dest: live_row_SomeD)
  let ?n = "new_event ev0 (fresh d0) (bk_business_id b) (booking_event_type Bkg_CONFIRMED) ''booking'' (bk_id b) (booking_payload b Bkg_CONFIRMED)"
  have same: "t_notifications (sync_enquiry b t x) = t_notifications x" "t_automation (sync_enquiry b t x) = t_automation x"
      "t_calendar_syncs (sync_enquiry b t x) = t_calendar_syncs x" for b t x
    by (simp_all add: sync_enquiry_def advance_enquiry_def put_enquiry_def split: option.split)
  have d: "emit_booking_event ev0 (bk_business_id b) (booking_event_type Bkg_CONFIRMED) (bk_id b) (booking_payload b Bkg_CONFIRMED)
      (sync_enquiry b Bkg_CONFIRMED (put_booking b d0)) = Inr d"
    using run b by (auto elim!: transition_booking_Inr)
  then have tables: "t_outbox d = t_outbox d0 @ [?n]" "t_notifications d = t_notifications d0" "t_automation d = t_automation d0"
      "t_calendar_syncs d = t_calendar_syncs d0" "fresh d = Suc (fresh d0)" "t_executions d = t_executions d0"
      "t_bookings d = upd_row bk_id i (\<lambda>_. b) (t_bookings d0)"
    using \<open>bk_id b0 = i\<close> b same by (simp_all add: emit_booking_event_def emit_Inr_iff used_id_def put_booking_def fresh_id_def)
  have "find_booking i d = Some b"
    using live_row_put_same [of bk_id bk_deleted b "t_bookings d0" b0] b0(1) b \<open>bk_id b0 = i\<close> \<open>\<not> bk_deleted b0\<close>
    by (simp add: find_booking_def tables(7))
  then have ready: "ready au (bk_id b) b d"
    using start b tables \<open>bk_id b0 = i\<close>
    by (fastforce simp: ready_def without_execution_def execution_pending_def automation_ok_def syncs_live_def)
  have e: "e = claim_row (env_now ev) ?n"
    using claimed_new_event claim(1,2) start(7) unfolding tables(1) by (simp add: new_event_def)
  have "distinct (map oe_id (t_outbox d))" using start(6,7) tables(1) by (simp add: new_event_def)
  moreover have "unannounced e (Some (bk_customer_id b)) d" using claim(3) tables(2) by (simp add: unannounced_def)
  ultimately show ?thesis
    using first_event_executed [OF claim(1) _ confirmation_event(1,2,3,4) [OF e] _ ready pass] \<open>bk_id b0 = i\<close> b b0(2) by simp
qed

theorem confirmed_booking_is_executed_witness:
  "\<exists>b d d' n m. transition_business_booking sample_env 1 40 Bkg_CONFIRMED (automation_db Bkg_ACCEPTED []) = Inr (b, d) \<and>
     worker_pass sample_env (\<lambda>_. False) reliable broken_calendar default_settings d = (d', n, m) \<and>
     (\<exists>x\<in>set (t_executions d'). ex_booking_id x = 40)"
proof -
  let ?d0 = "automation_db Bkg_ACCEPTED []"
  let ?n = "\<lambda>b. new_event sample_env 1000 1 (booking_event_type Bkg_CONFIRMED) ''booking'' 40 (booking_payload b Bkg_CONFIRMED)"
  have "\<exists>b d. transition_business_booking sample_env 1 40 Bkg_CONFIRMED ?d0 = Inr (b, d) \<and> t_outbox d = [?n b]"
    by (simp add: transition_business_booking_def get_business_booking_def get_booking_def transition_booking_def booking_authority_def
        emit_booking_event_def emit_outbox_event_def outbox_keys_def find_booking_def live_row_def automation_db_defs sample_booking_def
        put_booking_def used_id_def fresh_id_def Let_def)
  then obtain b d where run: "transition_business_booking sample_env 1 40 Bkg_CONFIRMED ?d0 = Inr (b, d)" and out: "t_outbox d = [?n b]"
    by blast
  obtain d' n m where pass: "worker_pass sample_env (\<lambda>_. False) reliable broken_calendar default_settings d = (d', n, m)"
    by (metis surj_pair)
  have claim: "claim_pending_events (env_now sample_env) (\<lambda>_. False) (ws_batch_size default_settings) (ws_lease_seconds default_settings) (t_outbox d)
      = ([claim_row 100 (?n b)], [claim_row 100 (?n b)])"
    by (simp add: out claim_pending_events_def reclaim_def lease_expired_def claimable_def new_event_def sample_env_def default_settings_def)
  have "world_safe (au_world broken_calendar)"
    by (simp add: world_safe_def provider_safe_def broken_calendar_def calendar_answering_def)
  then have "\<exists>x\<in>set (t_executions d'). ex_booking_id x = 40"
    using confirmed_booking_is_executed [OF run _ _ _ _ _ _ _ claim _ _ pass] automation_db_ok [of Bkg_ACCEPTED]
    by (auto simp: automation_db_defs execution_pending_def syncs_live_def unannounced_def new_event_def)
  then show ?thesis using run pass by blast
qed

end
