(* ===== verification/Voice_Rows.thy ===== *)
theory Voice_Rows
  imports Session_Ops Orchestration
begin

text \<open>
  The data of the call agent: its enumerations and transition tables
  (src/backend/app/domain/common/enums.py), the rows of src/backend/app/domain/voice/models.py and
  the repositories of src/backend/app/domain/voice/repository.py.

  The tables of calls stand beside the database of the other components in one record.  A Python
  object that a method holds is the row of its primary key in the session, so methods take keys,
  read the row when the code reads an attribute and update it when the code assigns one.
\<close>

section \<open>Enumerations\<close>

datatype CallType =
    Cty_TRANSACTIONAL
  | Cty_MARKETING

fun CallType_value :: "CallType \<Rightarrow> string" where
  "CallType_value Cty_TRANSACTIONAL = ''TRANSACTIONAL''"
| "CallType_value Cty_MARKETING = ''MARKETING''"

datatype CallPurpose =
    Cpu_SERVICE_CONFIRMATION
  | Cpu_BOOKING_CONFIRMATION
  | Cpu_BOOKING_REMINDER
  | Cpu_QUOTE_FOLLOW_UP
  | Cpu_RESCHEDULE
  | Cpu_CANCELLATION
  | Cpu_INVOICE_REMINDER
  | Cpu_PAYMENT_REMINDER
  | Cpu_SERVICE_COMPLETION_FOLLOW_UP
  | Cpu_INFORMATION_COLLECTION
  | Cpu_MISSED_CALL_FOLLOW_UP
  | Cpu_HUMAN_ESCALATION
  | Cpu_SERVICE_PROMOTION
  | Cpu_EXISTING_CUSTOMER_CAMPAIGN
  | Cpu_LEAD_FOLLOW_UP
  | Cpu_REACTIVATION
  | Cpu_RENEWAL_REMINDER
  | Cpu_MARKETING_CAMPAIGN

fun CallPurpose_value :: "CallPurpose \<Rightarrow> string" where
  "CallPurpose_value Cpu_SERVICE_CONFIRMATION = ''SERVICE_CONFIRMATION''"
| "CallPurpose_value Cpu_BOOKING_CONFIRMATION = ''BOOKING_CONFIRMATION''"
| "CallPurpose_value Cpu_BOOKING_REMINDER = ''BOOKING_REMINDER''"
| "CallPurpose_value Cpu_QUOTE_FOLLOW_UP = ''QUOTE_FOLLOW_UP''"
| "CallPurpose_value Cpu_RESCHEDULE = ''RESCHEDULE''"
| "CallPurpose_value Cpu_CANCELLATION = ''CANCELLATION''"
| "CallPurpose_value Cpu_INVOICE_REMINDER = ''INVOICE_REMINDER''"
| "CallPurpose_value Cpu_PAYMENT_REMINDER = ''PAYMENT_REMINDER''"
| "CallPurpose_value Cpu_SERVICE_COMPLETION_FOLLOW_UP = ''SERVICE_COMPLETION_FOLLOW_UP''"
| "CallPurpose_value Cpu_INFORMATION_COLLECTION = ''INFORMATION_COLLECTION''"
| "CallPurpose_value Cpu_MISSED_CALL_FOLLOW_UP = ''MISSED_CALL_FOLLOW_UP''"
| "CallPurpose_value Cpu_HUMAN_ESCALATION = ''HUMAN_ESCALATION''"
| "CallPurpose_value Cpu_SERVICE_PROMOTION = ''SERVICE_PROMOTION''"
| "CallPurpose_value Cpu_EXISTING_CUSTOMER_CAMPAIGN = ''EXISTING_CUSTOMER_CAMPAIGN''"
| "CallPurpose_value Cpu_LEAD_FOLLOW_UP = ''LEAD_FOLLOW_UP''"
| "CallPurpose_value Cpu_REACTIVATION = ''REACTIVATION''"
| "CallPurpose_value Cpu_RENEWAL_REMINDER = ''RENEWAL_REMINDER''"
| "CallPurpose_value Cpu_MARKETING_CAMPAIGN = ''MARKETING_CAMPAIGN''"

definition CallPurpose_members :: "CallPurpose list" where
  "CallPurpose_members =
     [Cpu_SERVICE_CONFIRMATION, Cpu_BOOKING_CONFIRMATION, Cpu_BOOKING_REMINDER, Cpu_QUOTE_FOLLOW_UP, Cpu_RESCHEDULE,
      Cpu_CANCELLATION, Cpu_INVOICE_REMINDER, Cpu_PAYMENT_REMINDER, Cpu_SERVICE_COMPLETION_FOLLOW_UP, Cpu_INFORMATION_COLLECTION,
      Cpu_MISSED_CALL_FOLLOW_UP, Cpu_HUMAN_ESCALATION, Cpu_SERVICE_PROMOTION, Cpu_EXISTING_CUSTOMER_CAMPAIGN, Cpu_LEAD_FOLLOW_UP,
      Cpu_REACTIVATION, Cpu_RENEWAL_REMINDER, Cpu_MARKETING_CAMPAIGN]"

definition CallPurpose_of :: "string \<Rightarrow> CallPurpose option" where
  "CallPurpose_of s = List.find (\<lambda>m. CallPurpose_value m = s) CallPurpose_members"

fun CALL_PURPOSE_TYPE :: "CallPurpose \<Rightarrow> CallType" where
  "CALL_PURPOSE_TYPE Cpu_SERVICE_CONFIRMATION = Cty_TRANSACTIONAL"
| "CALL_PURPOSE_TYPE Cpu_BOOKING_CONFIRMATION = Cty_TRANSACTIONAL"
| "CALL_PURPOSE_TYPE Cpu_BOOKING_REMINDER = Cty_TRANSACTIONAL"
| "CALL_PURPOSE_TYPE Cpu_QUOTE_FOLLOW_UP = Cty_TRANSACTIONAL"
| "CALL_PURPOSE_TYPE Cpu_RESCHEDULE = Cty_TRANSACTIONAL"
| "CALL_PURPOSE_TYPE Cpu_CANCELLATION = Cty_TRANSACTIONAL"
| "CALL_PURPOSE_TYPE Cpu_INVOICE_REMINDER = Cty_TRANSACTIONAL"
| "CALL_PURPOSE_TYPE Cpu_PAYMENT_REMINDER = Cty_TRANSACTIONAL"
| "CALL_PURPOSE_TYPE Cpu_SERVICE_COMPLETION_FOLLOW_UP = Cty_TRANSACTIONAL"
| "CALL_PURPOSE_TYPE Cpu_INFORMATION_COLLECTION = Cty_TRANSACTIONAL"
| "CALL_PURPOSE_TYPE Cpu_MISSED_CALL_FOLLOW_UP = Cty_TRANSACTIONAL"
| "CALL_PURPOSE_TYPE Cpu_HUMAN_ESCALATION = Cty_TRANSACTIONAL"
| "CALL_PURPOSE_TYPE Cpu_SERVICE_PROMOTION = Cty_MARKETING"
| "CALL_PURPOSE_TYPE Cpu_EXISTING_CUSTOMER_CAMPAIGN = Cty_MARKETING"
| "CALL_PURPOSE_TYPE Cpu_LEAD_FOLLOW_UP = Cty_MARKETING"
| "CALL_PURPOSE_TYPE Cpu_REACTIVATION = Cty_MARKETING"
| "CALL_PURPOSE_TYPE Cpu_RENEWAL_REMINDER = Cty_MARKETING"
| "CALL_PURPOSE_TYPE Cpu_MARKETING_CAMPAIGN = Cty_MARKETING"

datatype CallStatus =
    Call_REQUESTED
  | Call_AUTHORIZED
  | Call_QUEUED
  | Call_INITIATING
  | Call_RINGING
  | Call_CONNECTED
  | Call_IN_PROGRESS
  | Call_COMPLETED
  | Call_FAILED
  | Call_NO_ANSWER
  | Call_BUSY
  | Call_DECLINED
  | Call_CANCELLED
  | Call_EXPIRED
  | Call_ESCALATED

fun CallStatus_value :: "CallStatus \<Rightarrow> string" where
  "CallStatus_value Call_REQUESTED = ''REQUESTED''"
| "CallStatus_value Call_AUTHORIZED = ''AUTHORIZED''"
| "CallStatus_value Call_QUEUED = ''QUEUED''"
| "CallStatus_value Call_INITIATING = ''INITIATING''"
| "CallStatus_value Call_RINGING = ''RINGING''"
| "CallStatus_value Call_CONNECTED = ''CONNECTED''"
| "CallStatus_value Call_IN_PROGRESS = ''IN_PROGRESS''"
| "CallStatus_value Call_COMPLETED = ''COMPLETED''"
| "CallStatus_value Call_FAILED = ''FAILED''"
| "CallStatus_value Call_NO_ANSWER = ''NO_ANSWER''"
| "CallStatus_value Call_BUSY = ''BUSY''"
| "CallStatus_value Call_DECLINED = ''DECLINED''"
| "CallStatus_value Call_CANCELLED = ''CANCELLED''"
| "CallStatus_value Call_EXPIRED = ''EXPIRED''"
| "CallStatus_value Call_ESCALATED = ''ESCALATED''"

fun CALL_TRANSITIONS :: "CallStatus \<Rightarrow> CallStatus set" where
  "CALL_TRANSITIONS Call_REQUESTED = {Call_AUTHORIZED, Call_CANCELLED, Call_FAILED, Call_EXPIRED}"
| "CALL_TRANSITIONS Call_AUTHORIZED = {Call_QUEUED, Call_CANCELLED, Call_FAILED, Call_EXPIRED}"
| "CALL_TRANSITIONS Call_QUEUED = {Call_INITIATING, Call_CANCELLED, Call_FAILED, Call_EXPIRED}"
| "CALL_TRANSITIONS Call_INITIATING = {Call_RINGING, Call_CANCELLED, Call_FAILED, Call_EXPIRED}"
| "CALL_TRANSITIONS Call_RINGING = {Call_CONNECTED, Call_NO_ANSWER, Call_BUSY, Call_DECLINED, Call_FAILED, Call_CANCELLED, Call_EXPIRED}"
| "CALL_TRANSITIONS Call_CONNECTED = {Call_IN_PROGRESS, Call_COMPLETED, Call_FAILED, Call_ESCALATED}"
| "CALL_TRANSITIONS Call_IN_PROGRESS = {Call_COMPLETED, Call_FAILED, Call_ESCALATED}"
| "CALL_TRANSITIONS Call_COMPLETED = {}"
| "CALL_TRANSITIONS Call_FAILED = {}"
| "CALL_TRANSITIONS Call_NO_ANSWER = {}"
| "CALL_TRANSITIONS Call_BUSY = {}"
| "CALL_TRANSITIONS Call_DECLINED = {}"
| "CALL_TRANSITIONS Call_CANCELLED = {}"
| "CALL_TRANSITIONS Call_EXPIRED = {}"
| "CALL_TRANSITIONS Call_ESCALATED = {}"

datatype CallParticipantType =
    Cpt_CUSTOMER
  | Cpt_BUSINESS_MEMBER
  | Cpt_AGENT
  | Cpt_HUMAN_AGENT
  | Cpt_EXTERNAL

fun CallParticipantType_value :: "CallParticipantType \<Rightarrow> string" where
  "CallParticipantType_value Cpt_CUSTOMER = ''CUSTOMER''"
| "CallParticipantType_value Cpt_BUSINESS_MEMBER = ''BUSINESS_MEMBER''"
| "CallParticipantType_value Cpt_AGENT = ''AGENT''"
| "CallParticipantType_value Cpt_HUMAN_AGENT = ''HUMAN_AGENT''"
| "CallParticipantType_value Cpt_EXTERNAL = ''EXTERNAL''"

definition CallParticipantType_members :: "CallParticipantType list" where
  "CallParticipantType_members =
     [Cpt_CUSTOMER, Cpt_BUSINESS_MEMBER, Cpt_AGENT, Cpt_HUMAN_AGENT, Cpt_EXTERNAL]"

definition CallParticipantType_of :: "string \<Rightarrow> CallParticipantType option" where
  "CallParticipantType_of s = List.find (\<lambda>m. CallParticipantType_value m = s) CallParticipantType_members"

datatype CallAttemptStatus =
    Cat_REQUESTED
  | Cat_RINGING
  | Cat_CONNECTED
  | Cat_COMPLETED
  | Cat_FAILED
  | Cat_NO_ANSWER
  | Cat_BUSY
  | Cat_DECLINED
  | Cat_CANCELLED

fun CallAttemptStatus_value :: "CallAttemptStatus \<Rightarrow> string" where
  "CallAttemptStatus_value Cat_REQUESTED = ''REQUESTED''"
| "CallAttemptStatus_value Cat_RINGING = ''RINGING''"
| "CallAttemptStatus_value Cat_CONNECTED = ''CONNECTED''"
| "CallAttemptStatus_value Cat_COMPLETED = ''COMPLETED''"
| "CallAttemptStatus_value Cat_FAILED = ''FAILED''"
| "CallAttemptStatus_value Cat_NO_ANSWER = ''NO_ANSWER''"
| "CallAttemptStatus_value Cat_BUSY = ''BUSY''"
| "CallAttemptStatus_value Cat_DECLINED = ''DECLINED''"
| "CallAttemptStatus_value Cat_CANCELLED = ''CANCELLED''"

datatype CallSessionStatus =
    Ses_ACTIVE
  | Ses_COMPLETED
  | Ses_FAILED
  | Ses_ESCALATED

fun CallSessionStatus_value :: "CallSessionStatus \<Rightarrow> string" where
  "CallSessionStatus_value Ses_ACTIVE = ''ACTIVE''"
| "CallSessionStatus_value Ses_COMPLETED = ''COMPLETED''"
| "CallSessionStatus_value Ses_FAILED = ''FAILED''"
| "CallSessionStatus_value Ses_ESCALATED = ''ESCALATED''"

fun CALL_SESSION_TRANSITIONS :: "CallSessionStatus \<Rightarrow> CallSessionStatus set" where
  "CALL_SESSION_TRANSITIONS Ses_ACTIVE = {Ses_COMPLETED, Ses_FAILED, Ses_ESCALATED}"
| "CALL_SESSION_TRANSITIONS Ses_COMPLETED = {}"
| "CALL_SESSION_TRANSITIONS Ses_FAILED = {}"
| "CALL_SESSION_TRANSITIONS Ses_ESCALATED = {}"

datatype EscalationStatus =
    Esc_NONE
  | Esc_REQUESTED
  | Esc_ASSIGNED
  | Esc_ACCEPTED
  | Esc_RESOLVED
  | Esc_CANCELLED

fun EscalationStatus_value :: "EscalationStatus \<Rightarrow> string" where
  "EscalationStatus_value Esc_NONE = ''NONE''"
| "EscalationStatus_value Esc_REQUESTED = ''REQUESTED''"
| "EscalationStatus_value Esc_ASSIGNED = ''ASSIGNED''"
| "EscalationStatus_value Esc_ACCEPTED = ''ACCEPTED''"
| "EscalationStatus_value Esc_RESOLVED = ''RESOLVED''"
| "EscalationStatus_value Esc_CANCELLED = ''CANCELLED''"

fun ESCALATION_TRANSITIONS :: "EscalationStatus \<Rightarrow> EscalationStatus set" where
  "ESCALATION_TRANSITIONS Esc_NONE = {Esc_REQUESTED}"
| "ESCALATION_TRANSITIONS Esc_REQUESTED = {Esc_ASSIGNED, Esc_CANCELLED}"
| "ESCALATION_TRANSITIONS Esc_ASSIGNED = {Esc_ACCEPTED, Esc_CANCELLED}"
| "ESCALATION_TRANSITIONS Esc_ACCEPTED = {Esc_RESOLVED}"
| "ESCALATION_TRANSITIONS Esc_RESOLVED = {}"
| "ESCALATION_TRANSITIONS Esc_CANCELLED = {}"

datatype CampaignStatus =
    Cam_DRAFT
  | Cam_SCHEDULED
  | Cam_ACTIVE
  | Cam_PAUSED
  | Cam_COMPLETED
  | Cam_CANCELLED

fun CampaignStatus_value :: "CampaignStatus \<Rightarrow> string" where
  "CampaignStatus_value Cam_DRAFT = ''DRAFT''"
| "CampaignStatus_value Cam_SCHEDULED = ''SCHEDULED''"
| "CampaignStatus_value Cam_ACTIVE = ''ACTIVE''"
| "CampaignStatus_value Cam_PAUSED = ''PAUSED''"
| "CampaignStatus_value Cam_COMPLETED = ''COMPLETED''"
| "CampaignStatus_value Cam_CANCELLED = ''CANCELLED''"

definition CampaignStatus_members :: "CampaignStatus list" where
  "CampaignStatus_members =
     [Cam_DRAFT, Cam_SCHEDULED, Cam_ACTIVE, Cam_PAUSED, Cam_COMPLETED,
      Cam_CANCELLED]"

definition CampaignStatus_of :: "string \<Rightarrow> CampaignStatus option" where
  "CampaignStatus_of s = List.find (\<lambda>m. CampaignStatus_value m = s) CampaignStatus_members"

fun CAMPAIGN_TRANSITIONS :: "CampaignStatus \<Rightarrow> CampaignStatus set" where
  "CAMPAIGN_TRANSITIONS Cam_DRAFT = {Cam_SCHEDULED, Cam_ACTIVE, Cam_CANCELLED}"
| "CAMPAIGN_TRANSITIONS Cam_SCHEDULED = {Cam_ACTIVE, Cam_CANCELLED}"
| "CAMPAIGN_TRANSITIONS Cam_ACTIVE = {Cam_PAUSED, Cam_COMPLETED, Cam_CANCELLED}"
| "CAMPAIGN_TRANSITIONS Cam_PAUSED = {Cam_ACTIVE, Cam_CANCELLED}"
| "CAMPAIGN_TRANSITIONS Cam_COMPLETED = {}"
| "CAMPAIGN_TRANSITIONS Cam_CANCELLED = {}"

datatype CampaignRecipientStatus =
    Rcp_PENDING
  | Rcp_ELIGIBLE
  | Rcp_CONTACTED
  | Rcp_COMPLETED
  | Rcp_SKIPPED
  | Rcp_SUPPRESSED
  | Rcp_FAILED

fun CampaignRecipientStatus_value :: "CampaignRecipientStatus \<Rightarrow> string" where
  "CampaignRecipientStatus_value Rcp_PENDING = ''PENDING''"
| "CampaignRecipientStatus_value Rcp_ELIGIBLE = ''ELIGIBLE''"
| "CampaignRecipientStatus_value Rcp_CONTACTED = ''CONTACTED''"
| "CampaignRecipientStatus_value Rcp_COMPLETED = ''COMPLETED''"
| "CampaignRecipientStatus_value Rcp_SKIPPED = ''SKIPPED''"
| "CampaignRecipientStatus_value Rcp_SUPPRESSED = ''SUPPRESSED''"
| "CampaignRecipientStatus_value Rcp_FAILED = ''FAILED''"

fun CAMPAIGN_RECIPIENT_TRANSITIONS :: "CampaignRecipientStatus \<Rightarrow> CampaignRecipientStatus set" where
  "CAMPAIGN_RECIPIENT_TRANSITIONS Rcp_PENDING = {Rcp_ELIGIBLE, Rcp_SKIPPED, Rcp_SUPPRESSED, Rcp_FAILED}"
| "CAMPAIGN_RECIPIENT_TRANSITIONS Rcp_ELIGIBLE = {Rcp_CONTACTED, Rcp_SKIPPED, Rcp_SUPPRESSED, Rcp_FAILED}"
| "CAMPAIGN_RECIPIENT_TRANSITIONS Rcp_CONTACTED = {Rcp_COMPLETED, Rcp_FAILED}"
| "CAMPAIGN_RECIPIENT_TRANSITIONS Rcp_COMPLETED = {}"
| "CAMPAIGN_RECIPIENT_TRANSITIONS Rcp_SKIPPED = {}"
| "CAMPAIGN_RECIPIENT_TRANSITIONS Rcp_SUPPRESSED = {}"
| "CAMPAIGN_RECIPIENT_TRANSITIONS Rcp_FAILED = {}"

datatype CallOutcome =
    Out_CONFIRMED
  | Out_INFORMATION_COLLECTED
  | Out_RESCHEDULE_REQUESTED
  | Out_CANCELLATION_REQUESTED
  | Out_PAYMENT_ARRANGED
  | Out_COMPLAINT_LOGGED
  | Out_NOT_INTERESTED
  | Out_CALLBACK_REQUESTED
  | Out_NO_CONTACT
  | Out_OTHER

fun CallOutcome_value :: "CallOutcome \<Rightarrow> string" where
  "CallOutcome_value Out_CONFIRMED = ''CONFIRMED''"
| "CallOutcome_value Out_INFORMATION_COLLECTED = ''INFORMATION_COLLECTED''"
| "CallOutcome_value Out_RESCHEDULE_REQUESTED = ''RESCHEDULE_REQUESTED''"
| "CallOutcome_value Out_CANCELLATION_REQUESTED = ''CANCELLATION_REQUESTED''"
| "CallOutcome_value Out_PAYMENT_ARRANGED = ''PAYMENT_ARRANGED''"
| "CallOutcome_value Out_COMPLAINT_LOGGED = ''COMPLAINT_LOGGED''"
| "CallOutcome_value Out_NOT_INTERESTED = ''NOT_INTERESTED''"
| "CallOutcome_value Out_CALLBACK_REQUESTED = ''CALLBACK_REQUESTED''"
| "CallOutcome_value Out_NO_CONTACT = ''NO_CONTACT''"
| "CallOutcome_value Out_OTHER = ''OTHER''"

definition CallOutcome_members :: "CallOutcome list" where
  "CallOutcome_members =
     [Out_CONFIRMED, Out_INFORMATION_COLLECTED, Out_RESCHEDULE_REQUESTED, Out_CANCELLATION_REQUESTED, Out_PAYMENT_ARRANGED,
      Out_COMPLAINT_LOGGED, Out_NOT_INTERESTED, Out_CALLBACK_REQUESTED, Out_NO_CONTACT, Out_OTHER]"

definition CallOutcome_of :: "string \<Rightarrow> CallOutcome option" where
  "CallOutcome_of s = List.find (\<lambda>m. CallOutcome_value m = s) CallOutcome_members"

datatype AgentAction =
    Act_CONTINUE
  | Act_COLLECT_INFORMATION
  | Act_REQUEST_HUMAN
  | Act_END_CALL

fun AgentAction_value :: "AgentAction \<Rightarrow> string" where
  "AgentAction_value Act_CONTINUE = ''CONTINUE''"
| "AgentAction_value Act_COLLECT_INFORMATION = ''COLLECT_INFORMATION''"
| "AgentAction_value Act_REQUEST_HUMAN = ''REQUEST_HUMAN''"
| "AgentAction_value Act_END_CALL = ''END_CALL''"

definition AgentAction_members :: "AgentAction list" where
  "AgentAction_members =
     [Act_CONTINUE, Act_COLLECT_INFORMATION, Act_REQUEST_HUMAN, Act_END_CALL]"

definition AgentAction_of :: "string \<Rightarrow> AgentAction option" where
  "AgentAction_of s = List.find (\<lambda>m. AgentAction_value m = s) AgentAction_members"

definition TRANSACTIONAL_ONLY_OUTCOMES :: "CallOutcome list" where
  "TRANSACTIONAL_ONLY_OUTCOMES =
     [Out_CONFIRMED, Out_RESCHEDULE_REQUESTED, Out_CANCELLATION_REQUESTED, Out_PAYMENT_ARRANGED]"

definition DEFAULT_COLLECTIBLE_FIELDS :: "string list" where
  "DEFAULT_COLLECTIBLE_FIELDS = [''callback_number'', ''preferred_time'', ''notes'']"

section \<open>Rows\<close>

record VoiceCall =
  vc_id :: uuid
  vc_business_id :: uuid
  vc_customer_id :: "uuid option"
  vc_enquiry_id :: "uuid option"
  vc_quote_id :: "uuid option"
  vc_booking_id :: "uuid option"
  vc_service_execution_id :: "uuid option"
  vc_invoice_id :: "uuid option"
  vc_call_type :: CallType
  vc_purpose :: CallPurpose
  vc_status :: CallStatus
  vc_to_number :: string
  vc_from_number :: "string option"
  vc_provider :: string
  vc_provider_reference :: "string option"
  vc_brain_version_id :: "uuid option"
  vc_communication_id :: "uuid option"
  vc_campaign_id :: "uuid option"
  vc_idempotency_key :: string
  vc_requested_at :: timestamp
  vc_authorized_at :: "timestamp option"
  vc_queued_at :: "timestamp option"
  vc_initiated_at :: "timestamp option"
  vc_connected_at :: "timestamp option"
  vc_completed_at :: "timestamp option"
  vc_failed_at :: "timestamp option"
  vc_failure_code :: "string option"
  vc_failure_reason :: "string option"
  vc_created_at :: timestamp
  vc_deleted :: bool

record VoiceCallParticipant =
  vp_id :: uuid
  vp_call_id :: uuid
  vp_participant_type :: CallParticipantType
  vp_user_id :: "uuid option"
  vp_customer_id :: "uuid option"
  vp_business_member_id :: "uuid option"
  vp_phone_number :: string
  vp_display_name :: "string option"
  vp_role :: "string option"
  vp_created_at :: timestamp
  vp_deleted :: bool

record VoiceCallAttempt =
  va_id :: uuid
  va_call_id :: uuid
  va_attempt_number :: nat
  va_provider :: string
  va_provider_reference :: "string option"
  va_status :: string
  va_requested_at :: timestamp
  va_started_at :: "timestamp option"
  va_connected_at :: "timestamp option"
  va_completed_at :: "timestamp option"
  va_failure_code :: "string option"
  va_failure_reason :: "string option"
  va_retryable :: bool
  va_provider_payload_reference :: "string option"
  va_deleted :: bool

record VoiceCallSession =
  vs_id :: uuid
  vs_call_id :: uuid
  vs_session_status :: CallSessionStatus
  vs_started_at :: timestamp
  vs_ended_at :: "timestamp option"
  vs_agent_session_reference :: "string option"
  vs_language :: "string option"
  vs_human_escalation_requested :: bool
  vs_human_escalation_at :: "timestamp option"
  vs_collected_information :: json_obj
  vs_conversation_log :: "json list"
  vs_turn_count :: nat
  vs_outcome :: "CallOutcome option"
  vs_outcome_summary :: "string option"
  vs_deleted :: bool

record VoiceCallEscalation =
  ve_id :: uuid
  ve_call_id :: uuid
  ve_escalation_status :: EscalationStatus
  ve_escalation_reason :: string
  ve_requested_at :: timestamp
  ve_assigned_member_id :: "uuid option"
  ve_accepted_at :: "timestamp option"
  ve_resolved_at :: "timestamp option"
  ve_resolution_notes :: "string option"
  ve_created_at :: timestamp
  ve_deleted :: bool

record CallAgentConfiguration =
  ac_id :: uuid
  ac_business_id :: uuid
  ac_enabled :: bool
  ac_transactional_calling_enabled :: bool
  ac_marketing_calling_enabled :: bool
  ac_default_from_number :: "string option"
  ac_provider_reference :: "string option"
  ac_timezone :: "string option"
  ac_max_attempts :: int
  ac_retry_interval_seconds :: int
  ac_allowed_calling_hours :: json_obj
  ac_quiet_periods :: "json_obj list"
  ac_max_daily_attempts :: "int option"
  ac_max_weekly_attempts :: "int option"
  ac_customer_frequency_limits :: json_obj
  ac_human_escalation_enabled :: bool
  ac_recording_enabled :: bool
  ac_transcription_enabled :: bool
  ac_agent_instructions :: "string option"
  ac_webhook_signature_secret :: "string option"
  ac_deleted :: bool

record CommunicationCampaign =
  cg_id :: uuid
  cg_business_id :: uuid
  cg_name :: string
  cg_description :: "string option"
  cg_channel :: string
  cg_purpose :: string
  cg_status :: CampaignStatus
  cg_start_at :: "timestamp option"
  cg_end_at :: "timestamp option"
  cg_brain_version_id :: "uuid option"
  cg_created_by :: "uuid option"
  cg_created_at :: timestamp
  cg_deleted :: bool

record CampaignRecipient =
  rcp_id :: uuid
  rcp_campaign_id :: uuid
  rcp_customer_id :: "uuid option"
  rcp_phone_number :: string
  rcp_status :: CampaignRecipientStatus
  rcp_attempt_count :: nat
  rcp_last_attempt_at :: "timestamp option"
  rcp_completed_at :: "timestamp option"
  rcp_created_at :: timestamp
  rcp_deleted :: bool

text \<open>The database with the tables of this component, and the requests the provider of calls has received.\<close>

record voice_db =
  vd_core :: db
  t_calls :: "VoiceCall list"
  t_participants :: "VoiceCallParticipant list"
  t_call_attempts :: "VoiceCallAttempt list"
  t_call_sessions :: "VoiceCallSession list"
  t_escalations :: "VoiceCallEscalation list"
  t_agent_configs :: "CallAgentConfiguration list"
  t_campaigns :: "CommunicationCampaign list"
  t_campaign_recipients :: "CampaignRecipient list"
  vd_dialled :: "message list"

type_synonym 'a vop = "(voice_db, 'a) session_op"

definition next_id :: "voice_db \<Rightarrow> uuid" where
  "next_id s = fresh_id (vd_core s)"

definition core_used :: "voice_db \<Rightarrow> voice_db" where
  "core_used s = s\<lparr>vd_core := used_id (vd_core s)\<rparr>"

text \<open>\<open>a or b\<close> of texts.\<close>

definition or_text :: "string option \<Rightarrow> string option \<Rightarrow> string option" where
  "or_text a b = (if a = None \<or> a = Some [] then b else a)"

text \<open>A call of another component's function.\<close>

definition core_op :: "(db \<Rightarrow> err + 'a \<times> db) \<Rightarrow> 'a vop" where
  "core_op f = lift_op (\<lambda>s. bindE (f (vd_core s)) (\<lambda>(x, d). Inr (x, s\<lparr>vd_core := d\<rparr>)))"

definition core_read :: "(db \<Rightarrow> err + 'a) \<Rightarrow> 'a vop" where
  "core_read f = read_op (\<lambda>s. f (vd_core s))"

section \<open>Calls\<close>

text \<open>
  An inserted call refers to rows that exist and its idempotency key is new among the calls of the
  business.  Rows are never removed, so the row of a call that a method holds is there.
\<close>

definition refers :: "('r \<Rightarrow> uuid) \<Rightarrow> uuid option \<Rightarrow> 'r list \<Rightarrow> bool" where
  "refers key i rows = (case i of None \<Rightarrow> True | Some k \<Rightarrow> find_row key k rows \<noteq> None)"

definition call_references :: "VoiceCall \<Rightarrow> voice_db \<Rightarrow> bool" where
  "call_references c s \<longleftrightarrow>
     (let d = vd_core s in
      refers biz_id (Some (vc_business_id c)) (t_businesses d) \<and> refers usr_id (vc_customer_id c) (t_users d) \<and>
      refers enq_id (vc_enquiry_id c) (t_enquiries d) \<and> refers q_id (vc_quote_id c) (t_quotes d) \<and>
      refers bk_id (vc_booking_id c) (t_bookings d) \<and> refers ex_id (vc_service_execution_id c) (t_executions d) \<and>
      refers inv_id (vc_invoice_id c) (t_invoices d) \<and> refers bv_id (vc_brain_version_id c) (t_brain_versions d) \<and>
      refers com_id (vc_communication_id c) (t_communications d) \<and> refers cg_id (vc_campaign_id c) (t_campaigns s))"

definition call_key :: "VoiceCall \<Rightarrow> uuid \<times> string" where
  "call_key c = (vc_business_id c, vc_idempotency_key c)"

definition live_calls :: "voice_db \<Rightarrow> VoiceCall list" where
  "live_calls s = filter (\<lambda>c. \<not> vc_deleted c) (t_calls s)"

definition insert_call :: "VoiceCall \<Rightarrow> voice_db \<Rightarrow> err + uuid \<times> voice_db" where
  "insert_call c s =
     (if \<not> call_references c s then Inl (IntegrityError ''voice_calls foreign key'')
      else if call_key c \<in> call_key ` set (live_calls s) then Inl (IntegrityError ''uq_voice_calls_business_idempotency'')
      else Inr (next_id s, core_used (s\<lparr>t_calls := t_calls s @ [c\<lparr>vc_id := next_id s\<rparr>]\<rparr>)))"

definition call_object :: "uuid \<Rightarrow> voice_db \<Rightarrow> err + VoiceCall" where
  "call_object i s = requireE (NotFoundError ''voice_calls'') (find_row vc_id i (t_calls s))"

definition set_call :: "uuid \<Rightarrow> (VoiceCall \<Rightarrow> VoiceCall) \<Rightarrow> unit vop" where
  "set_call i f = write_op (\<lambda>s. s\<lparr>t_calls := upd_row vc_id i f (t_calls s)\<rparr>)"

definition call_of_business :: "uuid \<Rightarrow> uuid \<Rightarrow> voice_db \<Rightarrow> VoiceCall option" where
  "call_of_business call_id business_id s =
     find_row vc_id call_id (filter (\<lambda>c. vc_business_id c = business_id) (live_calls s))"

definition call_by_key :: "uuid \<Rightarrow> string \<Rightarrow> voice_db \<Rightarrow> err + VoiceCall option" where
  "call_by_key business_id key s = scalar_one_or_none (filter (\<lambda>c. call_key c = (business_id, key)) (live_calls s))"

definition filtered :: "string option \<Rightarrow> string \<Rightarrow> bool" where
  "filtered wanted x \<longleftrightarrow> (case wanted of None \<Rightarrow> True | Some w \<Rightarrow> w = [] \<or> x = w)"

definition calls_for_business ::
  "uuid \<Rightarrow> string option \<Rightarrow> string option \<Rightarrow> string option \<Rightarrow> nat \<Rightarrow> nat \<Rightarrow> voice_db \<Rightarrow> VoiceCall list" where
  "calls_for_business business_id call_type purpose status limit offset s =
     page vc_created_at limit offset (filter (\<lambda>c. vc_business_id c = business_id \<and>
       filtered call_type (CallType_value (vc_call_type c)) \<and> filtered purpose (CallPurpose_value (vc_purpose c)) \<and>
       filtered status (CallStatus_value (vc_status c))) (live_calls s))"

section \<open>Participants, attempts, sessions, escalations\<close>

definition insert_participant :: "VoiceCallParticipant \<Rightarrow> voice_db \<Rightarrow> err + uuid \<times> voice_db" where
  "insert_participant p s =
     (if refers usr_id (vp_user_id p) (t_users (vd_core s)) \<and> refers usr_id (vp_customer_id p) (t_users (vd_core s)) \<and>
         refers mem_id (vp_business_member_id p) (t_members (vd_core s))
      then Inr (next_id s, core_used (s\<lparr>t_participants := t_participants s @ [p\<lparr>vp_id := next_id s\<rparr>]\<rparr>))
      else Inl (IntegrityError ''voice_call_participants foreign key''))"

definition participants_for_call :: "uuid \<Rightarrow> voice_db \<Rightarrow> VoiceCallParticipant list" where
  "participants_for_call call_id s =
     sort_key vp_created_at (filter (\<lambda>p. vp_call_id p = call_id \<and> \<not> vp_deleted p) (t_participants s))"

definition attempts_for_call :: "uuid \<Rightarrow> voice_db \<Rightarrow> VoiceCallAttempt list" where
  "attempts_for_call call_id s =
     sort_key va_attempt_number (filter (\<lambda>a. va_call_id a = call_id \<and> \<not> va_deleted a) (t_call_attempts s))"

text \<open>The numbers of deleted attempts count as well.\<close>

definition next_attempt_number :: "uuid \<Rightarrow> voice_db \<Rightarrow> nat" where
  "next_attempt_number call_id s =
     Suc (fold max (map va_attempt_number (filter (\<lambda>a. va_call_id a = call_id) (t_call_attempts s))) 0)"

definition attempt_key :: "VoiceCallAttempt \<Rightarrow> uuid \<times> nat" where
  "attempt_key a = (va_call_id a, va_attempt_number a)"

definition insert_attempt :: "VoiceCallAttempt \<Rightarrow> voice_db \<Rightarrow> err + uuid \<times> voice_db" where
  "insert_attempt a s =
     (if attempt_key a \<in> attempt_key ` set (t_call_attempts s) then Inl (IntegrityError ''uq_voice_call_attempts_call_attempt'')
      else Inr (next_id s, core_used (s\<lparr>t_call_attempts := t_call_attempts s @ [a\<lparr>va_id := next_id s\<rparr>]\<rparr>)))"

definition set_attempt :: "uuid \<Rightarrow> (VoiceCallAttempt \<Rightarrow> VoiceCallAttempt) \<Rightarrow> unit vop" where
  "set_attempt i f = write_op (\<lambda>s. s\<lparr>t_call_attempts := upd_row va_id i f (t_call_attempts s)\<rparr>)"

definition insert_session :: "VoiceCallSession \<Rightarrow> voice_db \<Rightarrow> err + uuid \<times> voice_db" where
  "insert_session v s = Inr (next_id s, core_used (s\<lparr>t_call_sessions := t_call_sessions s @ [v\<lparr>vs_id := next_id s\<rparr>]\<rparr>))"

definition session_object :: "uuid \<Rightarrow> voice_db \<Rightarrow> err + VoiceCallSession" where
  "session_object i s = requireE (NotFoundError ''voice_call_sessions'') (find_row vs_id i (t_call_sessions s))"

definition set_session :: "uuid \<Rightarrow> (VoiceCallSession \<Rightarrow> VoiceCallSession) \<Rightarrow> unit vop" where
  "set_session i f = write_op (\<lambda>s. s\<lparr>t_call_sessions := upd_row vs_id i f (t_call_sessions s)\<rparr>)"

definition active_session :: "uuid \<Rightarrow> voice_db \<Rightarrow> err + VoiceCallSession option" where
  "active_session call_id s =
     scalar_one_or_none (filter (\<lambda>v. vs_call_id v = call_id \<and> vs_session_status v = Ses_ACTIVE \<and> \<not> vs_deleted v)
       (t_call_sessions s))"

definition insert_escalation :: "VoiceCallEscalation \<Rightarrow> voice_db \<Rightarrow> err + uuid \<times> voice_db" where
  "insert_escalation e s = Inr (next_id s, core_used (s\<lparr>t_escalations := t_escalations s @ [e\<lparr>ve_id := next_id s\<rparr>]\<rparr>))"

definition escalation_object :: "uuid \<Rightarrow> voice_db \<Rightarrow> err + VoiceCallEscalation" where
  "escalation_object i s = requireE (NotFoundError ''voice_call_escalations'') (find_row ve_id i (t_escalations s))"

definition set_escalation :: "uuid \<Rightarrow> (VoiceCallEscalation \<Rightarrow> VoiceCallEscalation) \<Rightarrow> unit vop" where
  "set_escalation i f = write_op (\<lambda>s. s\<lparr>t_escalations := upd_row ve_id i f (t_escalations s)\<rparr>)"

text \<open>An escalation belongs to a business through its call; the call may be deleted.\<close>

definition escalation_of_business :: "uuid \<Rightarrow> uuid \<Rightarrow> voice_db \<Rightarrow> VoiceCallEscalation option" where
  "escalation_of_business escalation_id business_id s =
     find_row ve_id escalation_id (filter (\<lambda>e. \<not> ve_deleted e \<and>
       (\<exists>c\<in>set (t_calls s). vc_id c = ve_call_id e \<and> vc_business_id c = business_id)) (t_escalations s))"

definition escalation_for_call :: "uuid \<Rightarrow> voice_db \<Rightarrow> VoiceCallEscalation option" where
  "escalation_for_call call_id s =
     first_row (sort_desc ve_created_at (filter (\<lambda>e. ve_call_id e = call_id \<and> \<not> ve_deleted e) (t_escalations s)))"

section \<open>Configuration\<close>

definition config_for_business :: "uuid \<Rightarrow> voice_db \<Rightarrow> err + CallAgentConfiguration option" where
  "config_for_business business_id s =
     scalar_one_or_none (filter (\<lambda>a. ac_business_id a = business_id \<and> \<not> ac_deleted a) (t_agent_configs s))"

section \<open>Campaigns\<close>

definition insert_campaign :: "CommunicationCampaign \<Rightarrow> voice_db \<Rightarrow> err + uuid \<times> voice_db" where
  "insert_campaign c s =
     (if refers biz_id (Some (cg_business_id c)) (t_businesses (vd_core s)) \<and>
         refers bv_id (cg_brain_version_id c) (t_brain_versions (vd_core s)) \<and> refers usr_id (cg_created_by c) (t_users (vd_core s))
      then Inr (next_id s, core_used (s\<lparr>t_campaigns := t_campaigns s @ [c\<lparr>cg_id := next_id s\<rparr>]\<rparr>))
      else Inl (IntegrityError ''communication_campaigns foreign key''))"

definition campaign_object :: "uuid \<Rightarrow> voice_db \<Rightarrow> err + CommunicationCampaign" where
  "campaign_object i s = requireE (NotFoundError ''communication_campaigns'') (find_row cg_id i (t_campaigns s))"

definition set_campaign :: "uuid \<Rightarrow> (CommunicationCampaign \<Rightarrow> CommunicationCampaign) \<Rightarrow> unit vop" where
  "set_campaign i f = write_op (\<lambda>s. s\<lparr>t_campaigns := upd_row cg_id i f (t_campaigns s)\<rparr>)"

definition campaign_of_business :: "uuid \<Rightarrow> uuid \<Rightarrow> voice_db \<Rightarrow> CommunicationCampaign option" where
  "campaign_of_business campaign_id business_id s =
     find_row cg_id campaign_id (filter (\<lambda>c. cg_business_id c = business_id \<and> \<not> cg_deleted c) (t_campaigns s))"

definition campaigns_for_business ::
  "uuid \<Rightarrow> string option \<Rightarrow> string option \<Rightarrow> string option \<Rightarrow> nat \<Rightarrow> nat \<Rightarrow> voice_db \<Rightarrow> CommunicationCampaign list" where
  "campaigns_for_business business_id status channel purpose limit offset s =
     page cg_created_at limit offset (filter (\<lambda>c. cg_business_id c = business_id \<and> \<not> cg_deleted c \<and>
       filtered status (CampaignStatus_value (cg_status c)) \<and> filtered channel (cg_channel c) \<and> filtered purpose (cg_purpose c))
       (t_campaigns s))"

definition insert_recipient :: "CampaignRecipient \<Rightarrow> voice_db \<Rightarrow> err + uuid \<times> voice_db" where
  "insert_recipient r s =
     (if refers usr_id (rcp_customer_id r) (t_users (vd_core s))
      then Inr (next_id s, core_used (s\<lparr>t_campaign_recipients := t_campaign_recipients s @ [r\<lparr>rcp_id := next_id s\<rparr>]\<rparr>))
      else Inl (IntegrityError ''campaign_recipients foreign key''))"

definition recipient_object :: "uuid \<Rightarrow> voice_db \<Rightarrow> err + CampaignRecipient" where
  "recipient_object i s = requireE (NotFoundError ''campaign_recipients'') (find_row rcp_id i (t_campaign_recipients s))"

definition set_recipient :: "uuid \<Rightarrow> (CampaignRecipient \<Rightarrow> CampaignRecipient) \<Rightarrow> unit vop" where
  "set_recipient i f = write_op (\<lambda>s. s\<lparr>t_campaign_recipients := upd_row rcp_id i f (t_campaign_recipients s)\<rparr>)"

definition recipient_of_business :: "uuid \<Rightarrow> uuid \<Rightarrow> voice_db \<Rightarrow> CampaignRecipient option" where
  "recipient_of_business recipient_id business_id s =
     find_row rcp_id recipient_id (filter (\<lambda>r. \<not> rcp_deleted r \<and>
       (\<exists>c\<in>set (t_campaigns s). cg_id c = rcp_campaign_id r \<and> cg_business_id c = business_id)) (t_campaign_recipients s))"

definition recipients_for_campaign :: "uuid \<Rightarrow> voice_db \<Rightarrow> CampaignRecipient list" where
  "recipients_for_campaign campaign_id s =
     sort_key rcp_created_at (filter (\<lambda>r. rcp_campaign_id r = campaign_id \<and> \<not> rcp_deleted r) (t_campaign_recipients s))"

end
