(* ===== verification/Voice_Lifecycle.thy ===== *)
theory Voice_Lifecycle
  imports Voice_Rows
begin

text \<open>
  The lifecycle of calls, their sessions and their escalations
  (src/backend/app/domain/voice/service.py) and the events it puts into the outbox
  (src/backend/app/domain/voice/outbox_integration.py).  \<open>info\<close> says whether messages of the level
  INFO are logged: then the service's own messages raise.

  The text of a refused transition leaves out the list of allowed statuses, whose order is open.
\<close>

section \<open>Events\<close>

definition VOICE_EVENT_TYPES :: "string list" where
  "VOICE_EVENT_TYPES =
     [''voice.call_initiated'', ''voice.call_completed'', ''voice.call_failed'', ''voice.escalation_requested'',
      ''voice.campaign_completed'']"

definition log_info :: "bool \<Rightarrow> unit vop" where
  "log_info info = read_op (\<lambda>_. log_keywords info)"

text \<open>The key \<open>f"voice:{event_type}:{aggregate_id}:{slot}"\<close>: the slot is the suffix.\<close>

definition emit_voice_event ::
  "env \<Rightarrow> bool \<Rightarrow> uuid \<Rightarrow> string \<Rightarrow> string \<Rightarrow> uuid \<Rightarrow> payload \<Rightarrow> string \<Rightarrow> bool vop" where
  "emit_voice_event ev info business_id ety agg agg_id pl slot =
     bind_op (check_op (ety \<in> set VOICE_EVENT_TYPES) (ValueError ''Unknown voice event type'')) (\<lambda>_.
     bind_op (core_read (\<lambda>d. Inr ((ety @ '':'' @ slot, agg, agg_id) \<in> set (outbox_keys d)))) (\<lambda>known.
     if known then return_op False else
     bind_op (core_op (\<lambda>d. bindE (emit_business_event ev agg business_id ety ('':'' @ slot) agg_id pl d) (\<lambda>d'. Inr ((), d')))) (\<lambda>_.
     bind_op (log_info info) (\<lambda>_. return_op True))))"

section \<open>Audit\<close>

definition call_evidence ::
  "VoiceCall \<Rightarrow> string option \<Rightarrow> string option \<Rightarrow> uuid option \<Rightarrow> string option \<Rightarrow> json_obj" where
  "call_evidence c previous new actor reason =
     [(''call_id'', JStr (nat_str (vc_id c))), (''call_type'', JStr (CallType_value (vc_call_type c))),
      (''purpose'', JStr (CallPurpose_value (vc_purpose c))), (''previous_status'', opt_json previous),
      (''new_status'', opt_json new)] @
     (case reason of None \<Rightarrow> [] | Some r \<Rightarrow> [(''reason'', JStr r)]) @
     (case actor of None \<Rightarrow> [] | Some a \<Rightarrow> [(''actor_id'', JStr (nat_str a))])"

definition voice_audit_row ::
  "uuid \<Rightarrow> string \<Rightarrow> uuid option \<Rightarrow> uuid option \<Rightarrow> VoiceCall \<Rightarrow> json_obj \<Rightarrow> CommunicationAuditEvent" where
  "voice_audit_row i ety actor brain c evidence =
     \<lparr>cae_id = i, cae_event_type = ety, cae_actor_id = actor, cae_business_id = vc_business_id c,
      cae_customer_id = vc_customer_id c, cae_channel = Some ''VOICE'',
      cae_purpose = Some (CallPurpose_value (vc_purpose c)), cae_communication_id = vc_communication_id c,
      cae_brain_version_id = (if brain = None then vc_brain_version_id c else brain),
      cae_decision_evidence = Some evidence, cae_provider_reference = None, cae_metadata = JObj evidence\<rparr>"

definition add_call_audit ::
  "string \<Rightarrow> uuid option \<Rightarrow> uuid option \<Rightarrow> VoiceCall \<Rightarrow> json_obj \<Rightarrow> unit vop" where
  "add_call_audit ety actor brain c evidence =
     core_op (\<lambda>d. Inr ((), add_audit (voice_audit_row (fresh_id d) ety actor brain c evidence) d))"

definition audit_call ::
  "uuid \<Rightarrow> string \<Rightarrow> string option \<Rightarrow> string option \<Rightarrow> uuid option \<Rightarrow> string option \<Rightarrow> uuid option \<Rightarrow> unit vop" where
  "audit_call i ety previous new actor reason brain =
     bind_op (read_op (call_object i)) (\<lambda>c.
     add_call_audit ety actor brain c (call_evidence c previous new actor reason))"

section \<open>Transitions\<close>

text \<open>The check and the assignment of the status; the result is the status before.\<close>

definition change_status :: "uuid \<Rightarrow> CallStatus \<Rightarrow> voice_db \<Rightarrow> err + CallStatus \<times> voice_db" where
  "change_status i target s =
     bindE (call_object i s) (\<lambda>c.
     if target \<notin> CALL_TRANSITIONS (vc_status c)
     then Inl (StateTransitionError (''Cannot transition call from '' @ in_quotes (CallStatus_value (vc_status c)) @
                 '' to '' @ in_quotes (CallStatus_value target)))
     else Inr (vc_status c, s\<lparr>t_calls := upd_row vc_id i (\<lambda>c. c\<lparr>vc_status := target\<rparr>) (t_calls s)\<rparr>))"

definition transition_call ::
  "bool \<Rightarrow> uuid \<Rightarrow> CallStatus \<Rightarrow> string \<Rightarrow> uuid option \<Rightarrow> string option \<Rightarrow> uuid option \<Rightarrow> unit vop" where
  "transition_call info i target ety actor reason brain =
     bind_op (lift_op (change_status i target)) (\<lambda>previous.
     bind_op (audit_call i ety (Some (CallStatus_value previous)) (Some (CallStatus_value target)) actor reason brain) (\<lambda>_.
     log_info info))"

definition end_session :: "env \<Rightarrow> uuid \<Rightarrow> CallSessionStatus \<Rightarrow> voice_db \<Rightarrow> err + unit \<times> voice_db" where
  "end_session ev i target s =
     bindE (session_object i s) (\<lambda>v.
     if target \<notin> CALL_SESSION_TRANSITIONS (vs_session_status v)
     then Inl (StateTransitionError (''Cannot transition call session from '' @
                 in_quotes (CallSessionStatus_value (vs_session_status v)) @ '' to '' @ in_quotes (CallSessionStatus_value target)))
     else Inr ((), s\<lparr>t_call_sessions := upd_row vs_id i (\<lambda>v. v\<lparr>vs_session_status := target, vs_ended_at := Some (env_now ev)\<rparr>)
                       (t_call_sessions s)\<rparr>))"

definition end_active_session :: "env \<Rightarrow> bool \<Rightarrow> uuid \<Rightarrow> CallSessionStatus \<Rightarrow> unit vop" where
  "end_active_session ev info i target =
     bind_op (read_op (active_session i)) (\<lambda>v.
     case v of
       None \<Rightarrow> return_op ()
     | Some v \<Rightarrow> bind_op (lift_op (end_session ev (vs_id v) target)) (\<lambda>_. log_info info))"

section \<open>Requesting and dialling\<close>

record call_request =
  cq_to_number :: string
  cq_purpose :: string
  cq_provider :: string
  cq_idempotency_key :: string
  cq_call_type :: "string option"
  cq_from_number :: "string option"
  cq_customer_id :: "uuid option"
  cq_enquiry_id :: "uuid option"
  cq_quote_id :: "uuid option"
  cq_booking_id :: "uuid option"
  cq_service_execution_id :: "uuid option"
  cq_invoice_id :: "uuid option"
  cq_communication_id :: "uuid option"
  cq_campaign_id :: "uuid option"
  cq_brain_version_id :: "uuid option"

definition new_call ::
  "env \<Rightarrow> uuid \<Rightarrow> CallPurpose \<Rightarrow> CallAgentConfiguration \<Rightarrow> call_request \<Rightarrow> VoiceCall" where
  "new_call ev business_id purpose config q =
     \<lparr>vc_id = 0, vc_business_id = business_id, vc_customer_id = cq_customer_id q, vc_enquiry_id = cq_enquiry_id q,
      vc_quote_id = cq_quote_id q, vc_booking_id = cq_booking_id q, vc_service_execution_id = cq_service_execution_id q,
      vc_invoice_id = cq_invoice_id q, vc_call_type = CALL_PURPOSE_TYPE purpose, vc_purpose = purpose,
      vc_status = Call_REQUESTED, vc_to_number = cq_to_number q,
      vc_from_number = or_text (cq_from_number q) (ac_default_from_number config),
      vc_provider = cq_provider q, vc_provider_reference = None, vc_brain_version_id = cq_brain_version_id q,
      vc_communication_id = cq_communication_id q, vc_campaign_id = cq_campaign_id q,
      vc_idempotency_key = cq_idempotency_key q, vc_requested_at = env_now ev, vc_authorized_at = None,
      vc_queued_at = None, vc_initiated_at = None, vc_connected_at = None, vc_completed_at = None, vc_failed_at = None,
      vc_failure_code = None, vc_failure_reason = None, vc_created_at = env_now ev, vc_deleted = False\<rparr>"

text \<open>The governed purpose, the calling class and the configuration, before anything is written.\<close>

definition call_purpose :: "call_request \<Rightarrow> err + CallPurpose" where
  "call_purpose q =
     bindE (requireE (DomainError (''Unknown call purpose: '' @ in_quotes (cq_purpose q))) (CallPurpose_of (cq_purpose q))) (\<lambda>p.
     if cq_call_type q \<noteq> None \<and> cq_call_type q \<noteq> Some (CallType_value (CALL_PURPOSE_TYPE p))
     then Inl (DomainError (''Call purpose '' @ in_quotes (cq_purpose q) @ '' cannot be used with another call type''))
     else Inr p)"

definition class_enabled :: "CallType \<Rightarrow> CallAgentConfiguration \<Rightarrow> err + unit" where
  "class_enabled ty config =
     (case ty of
        Cty_TRANSACTIONAL \<Rightarrow> guardE (ac_transactional_calling_enabled config)
                                (DomainError ''Transactional calling is disabled for this business'')
      | Cty_MARKETING \<Rightarrow> guardE (ac_marketing_calling_enabled config)
                            (DomainError ''Marketing calling is disabled for this business''))"

definition require_config :: "uuid \<Rightarrow> voice_db \<Rightarrow> err + CallAgentConfiguration" where
  "require_config business_id s =
     bindE (config_for_business business_id s) (\<lambda>c.
     requireE (DomainError ''Call Agent is not configured for this business'') c)"

definition call_permitted :: "uuid \<Rightarrow> CallPurpose \<Rightarrow> voice_db \<Rightarrow> err + CallAgentConfiguration" where
  "call_permitted business_id p s =
     bindE (require_config business_id s) (\<lambda>config.
     bindE (guardE (ac_enabled config) (DomainError ''Call Agent is disabled for this business'')) (\<lambda>_.
     bindE (class_enabled (CALL_PURPOSE_TYPE p) config) (\<lambda>_. Inr config)))"

definition request_call :: "env \<Rightarrow> bool \<Rightarrow> uuid \<Rightarrow> call_request \<Rightarrow> uuid option \<Rightarrow> string option \<Rightarrow> uuid vop" where
  "request_call ev info business_id q actor source =
     bind_op (read_op (\<lambda>_. call_purpose q)) (\<lambda>p.
     bind_op (read_op (call_permitted business_id p)) (\<lambda>config.
     bind_op (read_op (call_by_key business_id (cq_idempotency_key q))) (\<lambda>existing.
     case existing of
       Some c \<Rightarrow> return_op (vc_id c)
     | None \<Rightarrow>
         bind_op (lift_op (insert_call (new_call ev business_id p config q))) (\<lambda>i.
         bind_op (audit_call i ''CALL_REQUESTED'' None (Some (CallStatus_value Call_REQUESTED)) actor source
                    (cq_brain_version_id q)) (\<lambda>_.
         bind_op (log_info info) (\<lambda>_. return_op i))))))"

definition authorize_call :: "env \<Rightarrow> bool \<Rightarrow> uuid \<Rightarrow> uuid option \<Rightarrow> string option \<Rightarrow> uuid option \<Rightarrow> unit vop" where
  "authorize_call ev info i actor reason brain =
     bind_op (transition_call info i Call_AUTHORIZED ''CALL_AUTHORIZED'' actor reason brain) (\<lambda>_.
     set_call i (\<lambda>c. c\<lparr>vc_authorized_at := Some (env_now ev),
                      vc_brain_version_id := (if brain = None then vc_brain_version_id c else brain)\<rparr>))"

definition queue_call :: "env \<Rightarrow> bool \<Rightarrow> uuid \<Rightarrow> uuid option \<Rightarrow> string option \<Rightarrow> unit vop" where
  "queue_call ev info i actor reason =
     bind_op (transition_call info i Call_QUEUED ''CALL_QUEUED'' actor reason None) (\<lambda>_.
     set_call i (\<lambda>c. c\<lparr>vc_queued_at := Some (env_now ev)\<rparr>))"

definition mark_initiating :: "env \<Rightarrow> bool \<Rightarrow> uuid \<Rightarrow> uuid option \<Rightarrow> string option \<Rightarrow> unit vop" where
  "mark_initiating ev info i actor reason =
     bind_op (transition_call info i Call_INITIATING ''CALL_INITIATED'' actor reason None) (\<lambda>_.
     set_call i (\<lambda>c. c\<lparr>vc_initiated_at := Some (env_now ev)\<rparr>))"

definition mark_ringing :: "bool \<Rightarrow> uuid \<Rightarrow> uuid option \<Rightarrow> string option \<Rightarrow> unit vop" where
  "mark_ringing info i actor reason = transition_call info i Call_RINGING ''CALL_RINGING'' actor reason None"

definition mark_connected :: "env \<Rightarrow> bool \<Rightarrow> uuid \<Rightarrow> uuid option \<Rightarrow> string option \<Rightarrow> unit vop" where
  "mark_connected ev info i actor reason =
     bind_op (transition_call info i Call_CONNECTED ''CALL_CONNECTED'' actor reason None) (\<lambda>_.
     set_call i (\<lambda>c. c\<lparr>vc_connected_at := Some (env_now ev)\<rparr>))"

section \<open>Sessions\<close>

definition new_session :: "env \<Rightarrow> uuid \<Rightarrow> string option \<Rightarrow> string option \<Rightarrow> VoiceCallSession" where
  "new_session ev call_id language reference =
     \<lparr>vs_id = 0, vs_call_id = call_id, vs_session_status = Ses_ACTIVE, vs_started_at = env_now ev, vs_ended_at = None,
      vs_agent_session_reference = reference, vs_language = language, vs_human_escalation_requested = False,
      vs_human_escalation_at = None, vs_collected_information = [], vs_conversation_log = [], vs_turn_count = 0,
      vs_outcome = None, vs_outcome_summary = None, vs_deleted = False\<rparr>"

definition start_session ::
  "env \<Rightarrow> bool \<Rightarrow> uuid \<Rightarrow> string option \<Rightarrow> string option \<Rightarrow> uuid option \<Rightarrow> uuid vop" where
  "start_session ev info i language reference actor =
     bind_op (read_op (call_object i)) (\<lambda>c.
     bind_op (check_op (vc_status c = Call_CONNECTED)
                (StateTransitionError (''Cannot start a session for a call in status '' @
                   in_quotes (CallStatus_value (vc_status c)) @ ''. Call must be CONNECTED.''))) (\<lambda>_.
     bind_op (read_op (active_session i)) (\<lambda>existing.
     bind_op (check_op (existing = None) (ConflictError ''An active session already exists for this call'')) (\<lambda>_.
     bind_op (lift_op (insert_session (new_session ev i language reference))) (\<lambda>v.
     bind_op (transition_call info i Call_IN_PROGRESS ''CALL_IN_PROGRESS'' actor None None) (\<lambda>_.
     bind_op (audit_call i ''CALL_SESSION_STARTED'' (Some (CallStatus_value Call_IN_PROGRESS))
                (Some (CallStatus_value Call_IN_PROGRESS)) actor None None) (\<lambda>_.
     bind_op (log_info info) (\<lambda>_. return_op v))))))))"

section \<open>The ends of a call\<close>

definition call_payload :: "VoiceCall \<Rightarrow> payload \<Rightarrow> payload" where
  "call_payload c extra =
     [(''call_id'', PUuid (vc_id c)), (''purpose'', PStr (CallPurpose_value (vc_purpose c)))] @ extra @
     [(''customer_id'', puuid_opt (vc_customer_id c))]"

definition pstr_opt :: "string option \<Rightarrow> pval" where
  "pstr_opt t = (case t of None \<Rightarrow> PNone | Some x \<Rightarrow> PStr x)"

definition complete_call :: "env \<Rightarrow> bool \<Rightarrow> uuid \<Rightarrow> uuid option \<Rightarrow> string option \<Rightarrow> unit vop" where
  "complete_call ev info i actor reason =
     bind_op (transition_call info i Call_COMPLETED ''CALL_COMPLETED'' actor reason None) (\<lambda>_.
     bind_op (set_call i (\<lambda>c. c\<lparr>vc_completed_at := Some (env_now ev)\<rparr>)) (\<lambda>_.
     bind_op (end_active_session ev info i Ses_COMPLETED) (\<lambda>_.
     bind_op (read_op (call_object i)) (\<lambda>c.
     bind_op (emit_voice_event ev info (vc_business_id c) ''voice.call_completed'' ''voice_call'' i (call_payload c []) [])
       (\<lambda>_. return_op ())))))"

definition fail_call ::
  "env \<Rightarrow> bool \<Rightarrow> uuid \<Rightarrow> string option \<Rightarrow> string option \<Rightarrow> uuid option \<Rightarrow> unit vop" where
  "fail_call ev info i code reason actor =
     bind_op (transition_call info i Call_FAILED ''CALL_FAILED'' actor reason None) (\<lambda>_.
     bind_op (set_call i (\<lambda>c. c\<lparr>vc_failed_at := Some (env_now ev), vc_failure_code := code, vc_failure_reason := reason\<rparr>)) (\<lambda>_.
     bind_op (end_active_session ev info i Ses_FAILED) (\<lambda>_.
     bind_op (read_op (call_object i)) (\<lambda>c.
     bind_op (emit_voice_event ev info (vc_business_id c) ''voice.call_failed'' ''voice_call'' i
                (call_payload c [(''failure_code'', pstr_opt code), (''failure_reason'', pstr_opt reason)]) [])
       (\<lambda>_. return_op ())))))"

definition mark_no_answer :: "bool \<Rightarrow> uuid \<Rightarrow> uuid option \<Rightarrow> string option \<Rightarrow> unit vop" where
  "mark_no_answer info i actor reason = transition_call info i Call_NO_ANSWER ''CALL_NO_ANSWER'' actor reason None"

definition mark_busy :: "bool \<Rightarrow> uuid \<Rightarrow> uuid option \<Rightarrow> string option \<Rightarrow> unit vop" where
  "mark_busy info i actor reason = transition_call info i Call_BUSY ''CALL_BUSY'' actor reason None"

definition mark_declined :: "bool \<Rightarrow> uuid \<Rightarrow> uuid option \<Rightarrow> string option \<Rightarrow> unit vop" where
  "mark_declined info i actor reason = transition_call info i Call_DECLINED ''CALL_DECLINED'' actor reason None"

definition cancel_call :: "bool \<Rightarrow> uuid \<Rightarrow> uuid option \<Rightarrow> string option \<Rightarrow> unit vop" where
  "cancel_call info i actor reason = transition_call info i Call_CANCELLED ''CALL_CANCELLED'' actor reason None"

definition expire_call :: "bool \<Rightarrow> uuid \<Rightarrow> uuid option \<Rightarrow> string option \<Rightarrow> unit vop" where
  "expire_call info i actor reason = transition_call info i Call_EXPIRED ''CALL_EXPIRED'' actor reason None"

text \<open>An escalation checks the transition first and makes it last.\<close>

definition may_change_status :: "uuid \<Rightarrow> CallStatus \<Rightarrow> voice_db \<Rightarrow> err + unit" where
  "may_change_status i target s = bindE (change_status i target s) (\<lambda>_. Inr ())"

definition new_escalation :: "env \<Rightarrow> uuid \<Rightarrow> string \<Rightarrow> VoiceCallEscalation" where
  "new_escalation ev call_id reason =
     \<lparr>ve_id = 0, ve_call_id = call_id, ve_escalation_status = Esc_REQUESTED, ve_escalation_reason = reason,
      ve_requested_at = env_now ev, ve_assigned_member_id = None, ve_accepted_at = None, ve_resolved_at = None,
      ve_resolution_notes = None, ve_created_at = env_now ev, ve_deleted = False\<rparr>"

definition mark_session_escalated :: "env \<Rightarrow> uuid \<Rightarrow> unit vop" where
  "mark_session_escalated ev i =
     bind_op (read_op (active_session i)) (\<lambda>v.
     case v of
       None \<Rightarrow> return_op ()
     | Some v \<Rightarrow> set_session (vs_id v) (\<lambda>v. v\<lparr>vs_human_escalation_requested := True, vs_human_escalation_at := Some (env_now ev)\<rparr>))"

definition escalate_call :: "env \<Rightarrow> bool \<Rightarrow> uuid \<Rightarrow> string \<Rightarrow> uuid option \<Rightarrow> uuid vop" where
  "escalate_call ev info i reason actor =
     bind_op (read_op (may_change_status i Call_ESCALATED)) (\<lambda>_.
     bind_op (lift_op (insert_escalation (new_escalation ev i reason))) (\<lambda>e.
     bind_op (mark_session_escalated ev i) (\<lambda>_.
     bind_op (end_active_session ev info i Ses_ESCALATED) (\<lambda>_.
     bind_op (transition_call info i Call_ESCALATED ''CALL_ESCALATED'' actor (Some reason) None) (\<lambda>_.
     bind_op (log_info info) (\<lambda>_.
     bind_op (read_op (call_object i)) (\<lambda>c.
     bind_op (emit_voice_event ev info (vc_business_id c) ''voice.escalation_requested'' ''voice_call_escalation'' e
                [(''call_id'', PUuid i), (''escalation_id'', PUuid e), (''escalation_reason'', PStr reason),
                 (''customer_id'', puuid_opt (vc_customer_id c))] [])
       (\<lambda>_. return_op e))))))))"

section \<open>Participants and attempts\<close>

definition add_participant ::
  "env \<Rightarrow> uuid \<Rightarrow> string \<Rightarrow> string \<Rightarrow> uuid option \<Rightarrow> uuid option \<Rightarrow> uuid option \<Rightarrow> string option \<Rightarrow> string option \<Rightarrow> uuid vop" where
  "add_participant ev i participant_type phone user customer member display_name role =
     bind_op (read_op (\<lambda>_. requireE (ValueError ''not a valid CallParticipantType'') (CallParticipantType_of participant_type))) (\<lambda>ty.
     lift_op (insert_participant
       \<lparr>vp_id = 0, vp_call_id = i, vp_participant_type = ty, vp_user_id = user, vp_customer_id = customer,
        vp_business_member_id = member, vp_phone_number = phone, vp_display_name = display_name, vp_role = role,
        vp_created_at = env_now ev, vp_deleted = False\<rparr>))"

definition new_call_attempt :: "env \<Rightarrow> uuid \<Rightarrow> nat \<Rightarrow> string \<Rightarrow> string \<Rightarrow> VoiceCallAttempt" where
  "new_call_attempt ev call_id n provider status =
     \<lparr>va_id = 0, va_call_id = call_id, va_attempt_number = n, va_provider = provider, va_provider_reference = None,
      va_status = status, va_requested_at = env_now ev, va_started_at = None, va_connected_at = None,
      va_completed_at = None, va_failure_code = None, va_failure_reason = None, va_retryable = False,
      va_provider_payload_reference = None, va_deleted = False\<rparr>"

text \<open>The only caller leaves the optional arguments out.\<close>

definition record_attempt :: "env \<Rightarrow> uuid \<Rightarrow> string \<Rightarrow> string \<Rightarrow> uuid vop" where
  "record_attempt ev i provider status =
     bind_op (read_op (\<lambda>s. Inr (next_attempt_number i s))) (\<lambda>n.
     lift_op (insert_attempt (new_call_attempt ev i n provider status)))"

section \<open>Escalations\<close>

definition change_escalation :: "uuid \<Rightarrow> EscalationStatus \<Rightarrow> voice_db \<Rightarrow> err + EscalationStatus \<times> voice_db" where
  "change_escalation e target s =
     bindE (escalation_object e s) (\<lambda>x.
     if target \<notin> ESCALATION_TRANSITIONS (ve_escalation_status x)
     then Inl (StateTransitionError (''Cannot transition escalation from '' @
                 in_quotes (EscalationStatus_value (ve_escalation_status x)) @ '' to '' @ in_quotes (EscalationStatus_value target)))
     else Inr (ve_escalation_status x,
               s\<lparr>t_escalations := upd_row ve_id e (\<lambda>x. x\<lparr>ve_escalation_status := target\<rparr>) (t_escalations s)\<rparr>))"

definition call_business_id :: "uuid \<Rightarrow> voice_db \<Rightarrow> err + uuid" where
  "call_business_id call_id s =
     requireE (ConflictError ''Escalation references a missing call'')
       (map_option vc_business_id (find_row vc_id call_id (t_calls s)))"

text \<open>The evidence goes to the call, if it is not deleted.\<close>

definition transition_escalation ::
  "uuid \<Rightarrow> EscalationStatus \<Rightarrow> string \<Rightarrow> uuid option \<Rightarrow> string option \<Rightarrow> unit vop" where
  "transition_escalation e target ety actor reason =
     bind_op (lift_op (change_escalation e target)) (\<lambda>previous.
     bind_op (read_op (escalation_object e)) (\<lambda>x.
     bind_op (read_op (call_business_id (ve_call_id x))) (\<lambda>b.
     bind_op (read_op (\<lambda>s. Inr (call_of_business (ve_call_id x) b s))) (\<lambda>c.
     case c of
       None \<Rightarrow> return_op ()
     | Some c \<Rightarrow> audit_call (vc_id c) ety (Some (EscalationStatus_value previous)) (Some (EscalationStatus_value target)) actor reason None))))"

definition assign_escalation :: "uuid \<Rightarrow> uuid \<Rightarrow> uuid option \<Rightarrow> unit vop" where
  "assign_escalation e member actor =
     bind_op (transition_escalation e Esc_ASSIGNED ''CALL_ESCALATION_ASSIGNED'' actor None) (\<lambda>_.
     set_escalation e (\<lambda>x. x\<lparr>ve_assigned_member_id := Some member\<rparr>))"

definition accept_escalation :: "env \<Rightarrow> uuid \<Rightarrow> uuid option \<Rightarrow> unit vop" where
  "accept_escalation ev e actor =
     bind_op (transition_escalation e Esc_ACCEPTED ''CALL_ESCALATION_ACCEPTED'' actor None) (\<lambda>_.
     set_escalation e (\<lambda>x. x\<lparr>ve_accepted_at := Some (env_now ev)\<rparr>))"

definition resolve_escalation :: "env \<Rightarrow> uuid \<Rightarrow> string option \<Rightarrow> uuid option \<Rightarrow> unit vop" where
  "resolve_escalation ev e notes actor =
     bind_op (transition_escalation e Esc_RESOLVED ''CALL_ESCALATION_RESOLVED'' actor None) (\<lambda>_.
     set_escalation e (\<lambda>x. x\<lparr>ve_resolved_at := Some (env_now ev), ve_resolution_notes := notes\<rparr>))"

definition cancel_escalation :: "uuid \<Rightarrow> uuid option \<Rightarrow> string option \<Rightarrow> unit vop" where
  "cancel_escalation e actor reason = transition_escalation e Esc_CANCELLED ''CALL_ESCALATION_CANCELLED'' actor reason"

end
