(* ===== verification/Voice_Provider.thy ===== *)
theory Voice_Provider
  imports Voice_Lifecycle Communication_Api
begin

text \<open>
  Dialling through the provider of calls and the synchronisation with what it reports
  (src/backend/app/domain/voice/provider_service.py), and the processing of its webhooks
  (src/backend/app/domain/voice/webhook_service.py).  The provider is a function from requests to
  results; every request it gets is recorded, whatever becomes of the session.
\<close>

section \<open>Tables\<close>

definition PROVIDER_STATUS_TRANSITIONS :: "string \<Rightarrow> CallStatus option" where
  "PROVIDER_STATUS_TRANSITIONS =
     map_of [(''ringing'', Call_RINGING), (''in-progress'', Call_CONNECTED), (''completed'', Call_COMPLETED),
             (''busy'', Call_BUSY), (''no-answer'', Call_NO_ANSWER), (''failed'', Call_FAILED),
             (''canceled'', Call_CANCELLED), (''declined'', Call_DECLINED)]"

definition PROVIDER_NOOP_STATUSES :: "string list" where
  "PROVIDER_NOOP_STATUSES = [''queued'', ''accepted'', ''initiated'', ''scheduled'']"

definition INITIABLE_STATUSES :: "CallStatus list" where
  "INITIABLE_STATUSES = [Call_AUTHORIZED, Call_QUEUED, Call_INITIATING]"

definition PROVIDER_CONNECTION_FAILURES :: "CallStatus list" where
  "PROVIDER_CONNECTION_FAILURES = [Call_BUSY, Call_NO_ANSWER, Call_DECLINED]"

definition TERMINAL_CALL_STATUS :: "CallStatus \<Rightarrow> bool" where
  "TERMINAL_CALL_STATUS s \<longleftrightarrow> CALL_TRANSITIONS s = {}"

section \<open>Dialling\<close>

text \<open>A reference that an attempt holds which has not failed: the call has been dialled.\<close>

definition already_dialled :: "VoiceCall \<Rightarrow> VoiceCallAttempt list \<Rightarrow> bool" where
  "already_dialled c attempts \<longleftrightarrow>
     vc_provider_reference c \<noteq> None \<and>
     list_ex (\<lambda>a. va_provider_reference a = vc_provider_reference c \<and> va_status a \<noteq> ''FAILED'') attempts"

definition retry_too_early :: "env \<Rightarrow> CallAgentConfiguration \<Rightarrow> VoiceCallAttempt list \<Rightarrow> bool" where
  "retry_too_early ev config attempts \<longleftrightarrow>
     attempts \<noteq> [] \<and> va_status (last attempts) = ''FAILED'' \<and> va_retryable (last attempts) \<and>
     env_now ev - va_requested_at (last attempts) < ac_retry_interval_seconds config * us_per_second"

definition dial_request :: "VoiceCall \<Rightarrow> string option \<Rightarrow> message" where
  "dial_request c url =
     VoiceCallRequest (vc_to_number c) (case vc_from_number c of None \<Rightarrow> [] | Some f \<Rightarrow> f) url
       [(''call_id'', JStr (nat_str (vc_id c))), (''business_id'', JStr (nat_str (vc_business_id c))),
        (''purpose'', JStr (CallPurpose_value (vc_purpose c)))]"

definition dial :: "comm_provider \<Rightarrow> message \<Rightarrow> ProviderResult vop" where
  "dial p m s = (Inr (cpr_send p m), s\<lparr>vd_dialled := vd_dialled s @ [m]\<rparr>)"

definition audit_initiation_outcome :: "comm_provider \<Rightarrow> uuid \<Rightarrow> ProviderResult \<Rightarrow> uuid option \<Rightarrow> unit vop" where
  "audit_initiation_outcome p i r actor =
     bind_op (read_op (call_object i)) (\<lambda>c.
     add_call_audit ''CALL_PROVIDER_STATE_SYNC'' actor None c
       [(''call_id'', JStr (nat_str i)), (''call_type'', JStr (CallType_value (vc_call_type c))),
        (''purpose'', JStr (CallPurpose_value (vc_purpose c))), (''provider'', JStr (cpr_name p)),
        (''stage'', JStr ''initiation''), (''provider_reference'', opt_json (pvr_reference r)),
        (''error'', opt_json (pvr_error r)), (''retryable'', JBool (pvr_retryable r))])"

definition dialled_payload :: "comm_provider \<Rightarrow> VoiceCall \<Rightarrow> ProviderResult \<Rightarrow> payload" where
  "dialled_payload p c r =
     [(''call_id'', PUuid (vc_id c)), (''to_number'', PStr (vc_to_number c)),
      (''purpose'', PStr (CallPurpose_value (vc_purpose c))), (''provider'', PStr (cpr_name p)),
      (''provider_reference'', pstr_opt (pvr_reference r)), (''customer_id'', puuid_opt (vc_customer_id c)),
      (''campaign_id'', puuid_opt (vc_campaign_id c))]"

definition dial_succeeded ::
  "env \<Rightarrow> bool \<Rightarrow> comm_provider \<Rightarrow> uuid \<Rightarrow> uuid \<Rightarrow> ProviderResult \<Rightarrow> uuid option \<Rightarrow> unit vop" where
  "dial_succeeded ev info p i a r actor =
     bind_op (set_attempt a (\<lambda>x. x\<lparr>va_status := ''DIALED'', va_provider_reference := pvr_reference r,
                                 va_started_at := Some (env_now ev)\<rparr>)) (\<lambda>_.
     bind_op (set_call i (\<lambda>c. c\<lparr>vc_provider_reference := pvr_reference r\<rparr>)) (\<lambda>_.
     bind_op (audit_initiation_outcome p i r actor) (\<lambda>_.
     bind_op (log_info info) (\<lambda>_.
     bind_op (read_op (call_object i)) (\<lambda>c.
     bind_op (emit_voice_event ev info (vc_business_id c) ''voice.call_initiated'' ''voice_call'' i (dialled_payload p c r) (nat_str a))
       (\<lambda>_. return_op ()))))))"

definition dial_failed ::
  "env \<Rightarrow> bool \<Rightarrow> comm_provider \<Rightarrow> uuid \<Rightarrow> uuid \<Rightarrow> ProviderResult \<Rightarrow> uuid option \<Rightarrow> unit vop" where
  "dial_failed ev info p i a r actor =
     bind_op (set_attempt a (\<lambda>x. x\<lparr>va_status := ''FAILED'', va_retryable := pvr_retryable r,
                                 va_failure_code := Some ''PROVIDER_ERROR'', va_failure_reason := pvr_error r\<rparr>)) (\<lambda>_.
     bind_op (audit_initiation_outcome p i r actor) (\<lambda>_.
     if pvr_retryable r then log_info info
     else fail_call ev info i (Some ''PROVIDER_ERROR'') (pvr_error r) actor))"

text \<open>The call is brought to INITIATING, gets an attempt, and the provider its request.\<close>

definition prepare_dial :: "env \<Rightarrow> bool \<Rightarrow> uuid \<Rightarrow> uuid option \<Rightarrow> unit vop" where
  "prepare_dial ev info i actor =
     bind_op (read_op (call_object i)) (\<lambda>c.
     bind_op (if vc_status c = Call_AUTHORIZED then queue_call ev info i actor (Some ''provider orchestration dial'') else return_op ()) (\<lambda>_.
     bind_op (read_op (call_object i)) (\<lambda>c.
     if vc_status c = Call_QUEUED then mark_initiating ev info i actor (Some ''provider orchestration dial'') else return_op ())))"

definition place_call ::
  "env \<Rightarrow> bool \<Rightarrow> comm_provider \<Rightarrow> uuid \<Rightarrow> uuid option \<Rightarrow> string option \<Rightarrow> unit vop" where
  "place_call ev info p i actor url =
     bind_op (prepare_dial ev info i actor) (\<lambda>_.
     bind_op (record_attempt ev i (cpr_name p) ''REQUESTED'') (\<lambda>a.
     bind_op (read_op (call_object i)) (\<lambda>c.
     bind_op (dial p (dial_request c url)) (\<lambda>r.
     if pvr_success r then dial_succeeded ev info p i a r actor else dial_failed ev info p i a r actor))))"

definition initiate_call ::
  "env \<Rightarrow> bool \<Rightarrow> comm_provider \<Rightarrow> uuid \<Rightarrow> uuid option \<Rightarrow> string option \<Rightarrow> unit vop" where
  "initiate_call ev info p i actor url =
     bind_op (read_op (call_object i)) (\<lambda>c.
     bind_op (check_op (vc_status c \<in> set INITIABLE_STATUSES)
                (StateTransitionError (''Cannot initiate a call in status '' @ in_quotes (CallStatus_value (vc_status c))))) (\<lambda>_.
     bind_op (read_op (\<lambda>s. Inr (attempts_for_call i s))) (\<lambda>attempts.
     if already_dialled c attempts then return_op () else
     bind_op (read_op (require_config (vc_business_id c))) (\<lambda>config.
     if int (length attempts) \<ge> ac_max_attempts config
     then fail_call ev info i (Some ''MAX_ATTEMPTS_EXCEEDED'')
            (Some (''Provider attempt limit of '' @ int_str (ac_max_attempts config) @ '' reached'')) actor
     else
     bind_op (check_op (\<not> retry_too_early ev config attempts) (DomainError ''Provider retry interval not elapsed since the last dial attempt'')) (\<lambda>_.
     bind_op (check_op (or_text (vc_from_number c) None \<noteq> None) (DomainError ''Call has no from_number configured for dialing'')) (\<lambda>_.
     place_call ev info p i actor url))))))"

section \<open>Synchronisation with the provider\<close>

definition sync_attempt :: "env \<Rightarrow> CallStatus \<Rightarrow> string \<Rightarrow> VoiceCallAttempt \<Rightarrow> VoiceCallAttempt" where
  "sync_attempt ev target reason a =
     (let a = a\<lparr>va_status := CallStatus_value target\<rparr>
      in if target \<in> set PROVIDER_CONNECTION_FAILURES \<or> target = Call_FAILED
         then a\<lparr>va_failure_code := Some (CallStatus_value target), va_failure_reason := Some reason\<rparr>
         else if target = Call_COMPLETED
         then a\<lparr>va_completed_at := Some (env_now ev),
                va_connected_at := (if va_connected_at a = None then Some (env_now ev) else va_connected_at a)\<rparr>
         else if target = Call_CONNECTED then a\<lparr>va_connected_at := Some (env_now ev)\<rparr>
         else if target = Call_RINGING \<and> va_started_at a = None then a\<lparr>va_started_at := Some (env_now ev)\<rparr>
         else a)"

definition update_latest_attempt :: "uuid \<Rightarrow> (VoiceCallAttempt \<Rightarrow> VoiceCallAttempt) \<Rightarrow> unit vop" where
  "update_latest_attempt i f =
     bind_op (read_op (\<lambda>s. Inr (attempts_for_call i s))) (\<lambda>attempts.
     if attempts = [] then return_op () else set_attempt (va_id (last attempts)) f)"

definition sync_latest_attempt :: "env \<Rightarrow> uuid \<Rightarrow> CallStatus \<Rightarrow> string \<Rightarrow> unit vop" where
  "sync_latest_attempt ev i target reason = update_latest_attempt i (sync_attempt ev target reason)"

definition sync_text :: "string option" where
  "sync_text = Some ''provider state sync''"

definition apply_provider_status ::
  "env \<Rightarrow> bool \<Rightarrow> uuid \<Rightarrow> CallStatus \<Rightarrow> CallStatus \<Rightarrow> string \<Rightarrow> uuid option \<Rightarrow> unit vop" where
  "apply_provider_status ev info i current target reason actor =
     (if target = Call_COMPLETED \<and> current = Call_RINGING then
        bind_op (mark_connected ev info i actor sync_text) (\<lambda>_. complete_call ev info i actor sync_text)
      else if target \<in> set PROVIDER_CONNECTION_FAILURES \<and> current = Call_INITIATING then
        fail_call ev info i (Some (CallStatus_value target)) (Some reason) actor
      else if target = Call_FAILED then fail_call ev info i (Some ''PROVIDER_FAILED'') (Some reason) actor
      else if target = Call_RINGING then mark_ringing info i actor sync_text
      else if target = Call_CONNECTED then mark_connected ev info i actor sync_text
      else if target = Call_COMPLETED then complete_call ev info i actor sync_text
      else if target = Call_BUSY then mark_busy info i actor (Some reason)
      else if target = Call_NO_ANSWER then mark_no_answer info i actor (Some reason)
      else if target = Call_DECLINED then mark_declined info i actor (Some reason)
      else if target = Call_CANCELLED then cancel_call info i actor sync_text
      else raise_op (DomainError ''Provider status has no deterministic transition''))"

definition sync_provider_status ::
  "env \<Rightarrow> bool \<Rightarrow> uuid \<Rightarrow> string \<Rightarrow> uuid option \<Rightarrow> string option \<Rightarrow> unit vop" where
  "sync_provider_status ev info i provider_status actor failure_reason =
     (let normalized = lower (strip provider_status) in
      bind_op (read_op (\<lambda>_. requireE (DomainError (''Unknown provider call status: '' @ in_quotes provider_status))
                               (PROVIDER_STATUS_TRANSITIONS normalized))) (\<lambda>target.
      bind_op (read_op (call_object i)) (\<lambda>c.
      if TERMINAL_CALL_STATUS (vc_status c) then log_info info
      else if vc_status c = target then return_op ()
      else
        let reason = the (or_text failure_reason (Some (''provider reported '' @ in_quotes normalized)))
        in bind_op (apply_provider_status ev info i (vc_status c) target reason actor) (\<lambda>_.
           sync_latest_attempt ev i target reason))))"

section \<open>Webhooks\<close>

fun header_value :: "(string \<times> string) list \<Rightarrow> string \<Rightarrow> string option" where
  "header_value [] name = None"
| "header_value ((k, v) # hs) name = (if lower k = lower name then Some v else header_value hs name)"

text \<open>\<open>hmac\<close> is the hexadecimal HMAC-SHA256 of a body under a secret.\<close>

definition verify_webhook_signature ::
  "(string \<Rightarrow> string \<Rightarrow> string) \<Rightarrow> string \<Rightarrow> string \<Rightarrow> (string \<times> string) list \<Rightarrow> string option \<Rightarrow> bool" where
  "verify_webhook_signature hmac provider body headers secret =
     (if provider = ''mock'' then True
      else case or_text secret None of
        None \<Rightarrow> False
      | Some k \<Rightarrow>
          (case or_text (header_value headers ''x-voice-signature'') (or_text (header_value headers ''x-twilio-signature'') None) of
             None \<Rightarrow> False
           | Some v \<Rightarrow> strip v \<noteq> [] \<and> lower (strip v) = hmac k body))"

definition compose_voice_event_id :: "string \<Rightarrow> string \<Rightarrow> string" where
  "compose_voice_event_id reference event_type = reference @ '':'' @ lower (strip event_type)"

text \<open>The whole identifier and the part before its first colon are tried as references.\<close>

definition call_by_reference :: "string \<Rightarrow> voice_db \<Rightarrow> VoiceCall option" where
  "call_by_reference ref s =
     (case List.find (\<lambda>c. vc_provider_reference c = Some ref) (live_calls s) of
        Some c \<Rightarrow> Some c
      | None \<Rightarrow> List.find (\<lambda>c. list_ex (\<lambda>a. va_call_id a = vc_id c \<and> va_provider_reference a = Some ref) (t_call_attempts s))
                  (live_calls s))"

definition resolve_call_by_reference :: "string \<Rightarrow> voice_db \<Rightarrow> VoiceCall option" where
  "resolve_call_by_reference i s =
     (case call_by_reference i s of
        Some c \<Rightarrow> Some c
      | None \<Rightarrow> if CHR '':'' \<in> set i then call_by_reference (takeWhile (\<lambda>x. x \<noteq> CHR '':'') i) s else None)"

definition resolve_call :: "string \<Rightarrow> voice_db \<Rightarrow> VoiceCall option" where
  "resolve_call = resolve_call_by_reference"

definition note_noop_on_attempt :: "uuid \<Rightarrow> string \<Rightarrow> unit vop" where
  "note_noop_on_attempt i normalized = update_latest_attempt i (\<lambda>a. a\<lparr>va_status := upper normalized\<rparr>)"

definition audit_sync :: "uuid \<Rightarrow> string \<Rightarrow> string \<Rightarrow> string \<Rightarrow> CallStatus \<Rightarrow> unit vop" where
  "audit_sync i provider external_event_id event_type previous =
     bind_op (read_op (call_object i)) (\<lambda>c.
     add_call_audit ''CALL_PROVIDER_STATE_SYNC'' None None c
       [(''call_id'', JStr (nat_str i)), (''call_type'', JStr (CallType_value (vc_call_type c))),
        (''purpose'', JStr (CallPurpose_value (vc_purpose c))), (''provider'', JStr provider),
        (''provider_event_id'', JStr external_event_id), (''event_type'', JStr event_type),
        (''mapped_status'', JStr (CallStatus_value (vc_status c))), (''previous_status'', JStr (CallStatus_value previous))])"

definition set_webhook :: "uuid \<Rightarrow> (CommunicationWebhook \<Rightarrow> CommunicationWebhook) \<Rightarrow> unit vop" where
  "set_webhook w f = core_op (\<lambda>d. Inr ((), d\<lparr>t_webhooks := upd_row cwh_id w f (t_webhooks d)\<rparr>))"

definition apply_event :: "env \<Rightarrow> bool \<Rightarrow> uuid \<Rightarrow> uuid \<Rightarrow> string \<Rightarrow> string \<Rightarrow> string \<Rightarrow> unit vop" where
  "apply_event ev info w i provider external_event_id event_type =
     (let normalized = lower (strip event_type) in
      bind_op (read_op (call_object i)) (\<lambda>before.
      bind_op (if normalized \<in> set PROVIDER_NOOP_STATUSES then note_noop_on_attempt i normalized
               else if PROVIDER_STATUS_TRANSITIONS normalized \<noteq> None then sync_provider_status ev info i event_type None None
               else raise_op (DomainError (''Unknown provider call status: '' @ in_quotes event_type))) (\<lambda>_.
      bind_op (set_webhook w (\<lambda>x. x\<lparr>cwh_voice_call_id := Some i\<rparr>)) (\<lambda>_.
      bind_op (read_op (call_object i)) (\<lambda>after.
      if vc_status after \<noteq> vc_status before
      then audit_sync i provider external_event_id normalized (vc_status before) else return_op ())))))"

record webhook_answer =
  wa_duplicate :: bool
  wa_webhook_id :: uuid
  wa_call_id :: "uuid option"

definition new_webhook :: "env \<Rightarrow> uuid \<Rightarrow> string \<Rightarrow> string \<Rightarrow> string \<Rightarrow> json_obj \<Rightarrow> CommunicationWebhook" where
  "new_webhook ev i provider external_event_id event_type payload =
     \<lparr>cwh_id = i, cwh_provider = provider, cwh_external_event_id = external_event_id, cwh_event_type = event_type,
      cwh_raw_payload = payload, cwh_processing_status = ''RECEIVED'', cwh_received_at = env_now ev,
      cwh_processed_at = None, cwh_error_metadata = None, cwh_voice_call_id = None\<rparr>"

definition insert_webhook :: "env \<Rightarrow> string \<Rightarrow> string \<Rightarrow> string \<Rightarrow> json_obj \<Rightarrow> db \<Rightarrow> err + uuid \<times> db" where
  "insert_webhook ev provider external_event_id event_type payload d =
     Inr (fresh_id d, used_id (d\<lparr>t_webhooks := t_webhooks d @ [new_webhook ev (fresh_id d) provider external_event_id event_type payload]\<rparr>))"

definition process_webhook_event ::
  "env \<Rightarrow> bool \<Rightarrow> string \<Rightarrow> string \<Rightarrow> string \<Rightarrow> json_obj \<Rightarrow> uuid option \<Rightarrow> webhook_answer vop" where
  "process_webhook_event ev info provider external_event_id event_type payload call =
     bind_op (core_read (get_by_provider_event provider external_event_id)) (\<lambda>existing.
     case existing of
       Some x \<Rightarrow> bind_op (log_info info) (\<lambda>_. return_op \<lparr>wa_duplicate = True, wa_webhook_id = cwh_id x, wa_call_id = None\<rparr>)
     | None \<Rightarrow>
         bind_op (core_op (insert_webhook ev provider external_event_id event_type payload)) (\<lambda>w.
         catch_op
           (bind_op (read_op (\<lambda>s. Inr (if call \<noteq> None then call else map_option vc_id (resolve_call_by_reference external_event_id s)))) (\<lambda>resolved.
            bind_op (case resolved of None \<Rightarrow> return_op () | Some i \<Rightarrow> apply_event ev info w i provider external_event_id event_type) (\<lambda>_.
            bind_op (set_webhook w (\<lambda>x. x\<lparr>cwh_processing_status := ''PROCESSED'', cwh_processed_at := Some (env_now ev)\<rparr>)) (\<lambda>_.
            return_op \<lparr>wa_duplicate = False, wa_webhook_id = w, wa_call_id = resolved\<rparr>))))
           (\<lambda>e. bind_op (set_webhook w (\<lambda>x. x\<lparr>cwh_processing_status := ''FAILED'',
                    cwh_error_metadata := Some [(''error'', JStr (err_text e)), (''event_type'', JStr event_type)]\<rparr>)) (\<lambda>_.
                raise_op e))))"

end
