(* ===== verification/Voice_Agent.thy ===== *)
theory Voice_Agent
  imports Voice_Provider
begin

text \<open>
  The agent that leads the conversation of a connected call
  (src/backend/app/domain/voice/agent.py).  The model behind it is a parameter: a function from a
  prompt and instructions to a JSON value, or an exception.  The customer's name, which the code
  puts into the context and never reads, is left out.  Texts are in UTF-8.
\<close>

section \<open>Governance\<close>

definition load_governance :: "uuid \<Rightarrow> db \<Rightarrow> err + BrainVersion \<times> json_obj" where
  "load_governance business_id d =
     bindE (policy_brain_version business_id d) (\<lambda>version.
     case version of
       None \<Rightarrow> Inl (DomainError ''No active Business Brain version found'')
     | Some v \<Rightarrow>
         bindE (or_empty (bv_communication_config v)) (\<lambda>comm.
         case dget_none comm ''voice_agent'' of
           JObj o' \<Rightarrow> if o' = [] then Inl (DomainError ''Business Brain communication_config declares no voice_agent section'')
                      else Inr (v, o')
         | _ \<Rightarrow> Inl (DomainError ''Business Brain communication_config declares no voice_agent section'')))"

text \<open>\<open>for x in v\<close> of a JSON value.\<close>

definition iterate :: "json \<Rightarrow> err + json list" where
  "iterate v = requireE (TypeError ''object is not iterable'') (py_iter v)"

definition action_of :: "json \<Rightarrow> AgentAction option" where
  "action_of v = (case v of JStr s \<Rightarrow> AgentAction_of s | _ \<Rightarrow> None)"

definition outcome_of :: "json \<Rightarrow> CallOutcome option" where
  "outcome_of v = (case v of JStr s \<Rightarrow> CallOutcome_of s | _ \<Rightarrow> None)"

definition allowed_actions :: "json_obj \<Rightarrow> err + AgentAction list" where
  "allowed_actions brain =
     (let raw = dget_none brain ''allowed_actions'' in
      if \<not> truthy raw then Inr AgentAction_members
      else bindE (iterate raw) (\<lambda>vs.
        if list_ex (\<lambda>v. action_of v = None) vs then Inl (DomainError (''Business Brain declares unknown agent actions: '' @ py_repr raw))
        else Inr (map (\<lambda>v. the (action_of v)) vs)))"

definition collectible_fields :: "json_obj \<Rightarrow> err + string list" where
  "collectible_fields brain =
     (let raw = dget_none brain ''collectible_fields'' in
      if \<not> truthy raw then Inr DEFAULT_COLLECTIBLE_FIELDS
      else bindE (iterate raw) (\<lambda>vs. Inr (remdups (map py_str vs))))"

definition max_turns :: "json_obj \<Rightarrow> err + int" where
  "max_turns brain =
     requireE (TypeError ''int()'') (to_int (dget brain ''max_turns'' (JInt 20)))"

section \<open>Context and instructions\<close>

fun InvoicePaymentStatus_value :: "InvoicePaymentStatus \<Rightarrow> string" where
  "InvoicePaymentStatus_value Ips_UNPAID = ''unpaid''"
| "InvoicePaymentStatus_value Ips_PARTIALLY_PAID = ''partially_paid''"
| "InvoicePaymentStatus_value Ips_PAID = ''paid''"
| "InvoicePaymentStatus_value Ips_FAILED = ''failed''"
| "InvoicePaymentStatus_value Ips_REFUNDED = ''refunded''"
| "InvoicePaymentStatus_value Ips_PARTIALLY_REFUNDED = ''partially_refunded''"
| "InvoicePaymentStatus_value Ips_VOID = ''void''"

definition linked :: "('r \<Rightarrow> uuid) \<Rightarrow> uuid option \<Rightarrow> 'r list \<Rightarrow> 'r option" where
  "linked key i rows = (case i of None \<Rightarrow> None | Some k \<Rightarrow> find_row key k rows)"

definition context_entry :: "string \<Rightarrow> 'r option \<Rightarrow> ('r \<Rightarrow> json) \<Rightarrow> json_obj" where
  "context_entry k r f = (case r of None \<Rightarrow> [] | Some x \<Rightarrow> [(k, f x)])"

definition build_context :: "VoiceCall \<Rightarrow> db \<Rightarrow> json_obj" where
  "build_context c d =
     [(''call_id'', JStr (nat_str (vc_id c))), (''call_type'', JStr (CallType_value (vc_call_type c))),
      (''purpose'', JStr (CallPurpose_value (vc_purpose c))), (''to_number'', JStr (vc_to_number c))] @
     context_entry ''business_name'' (find_row biz_id (vc_business_id c) (t_businesses d)) (\<lambda>b. JStr (biz_name b)) @
     context_entry ''enquiry'' (linked enq_id (vc_enquiry_id c) (t_enquiries d)) (\<lambda>e.
       JObj [(''reference'', JStr (enq_reference e)), (''subject'', JStr (enq_subject e)),
             (''status'', JStr (EnquiryStatus_value (enq_status e)))]) @
     context_entry ''quote'' (linked q_id (vc_quote_id c) (t_quotes d)) (\<lambda>q.
       JObj [(''reference'', JStr (q_reference q)), (''amount'', JStr (money_str (q_amount q))),
             (''currency'', JStr (q_currency q)), (''status'', JStr (QuoteStatus_value (q_status q)))]) @
     context_entry ''booking'' (linked bk_id (vc_booking_id c) (t_bookings d)) (\<lambda>b.
       JObj [(''reference'', JStr (bk_reference b)), (''currency'', JStr (bk_currency b)),
             (''status'', JStr (BookingStatus_value (bk_status b)))]) @
     context_entry ''invoice'' (linked inv_id (vc_invoice_id c) (t_invoices d)) (\<lambda>v.
       JObj [(''invoice_number'', JStr (inv_invoice_number v)), (''total'', JStr (money_str (inv_total v))),
             (''currency'', JStr (inv_currency v)), (''payment_status'', JStr (InvoicePaymentStatus_value (inv_payment_status v)))])"

definition em_dash :: string where
  "em_dash = [CHR 0xE2, CHR 0x80, CHR 0x94]"

definition call_line :: "VoiceCall \<Rightarrow> string" where
  "call_line c =
     (if vc_call_type c = Cty_TRANSACTIONAL
      then ''This is a TRANSACTIONAL call about a specific service matter (purpose: '' @ CallPurpose_value (vc_purpose c) @
           '').  Complete the task, collect only the governed information, and end the call.''
      else ''This is a MARKETING call (purpose: '' @ CallPurpose_value (vc_purpose c) @
           '').  Follow the campaign script, respect the recipient'' @ [CHR 0x27] @
           ''s consent choices, and end the call politely if they are not interested.  '' @
           ''You may never confirm bookings, prices, or payment arrangements.'')"

definition hard_rules :: "string list" where
  "hard_rules =
     [''Hard rules (never break):'',
      ''- Never quote prices, availability, or policies beyond the provided context.'',
      ''- Never promise or confirm bookings, changes, or payments '' @ em_dash @
        '' request a human for anything outside your scope.'',
      ''- Only request the governed collectible fields listed below.'',
      ''- If the caller asks for a human, or a trigger below applies, request a human immediately.'']"

definition context_line :: "string \<Rightarrow> string \<Rightarrow> json_obj \<Rightarrow> string list" where
  "context_line label k context =
     (let v = dget_none context k in if truthy v then [label @ '' context: '' @ py_str v] else [])"

definition joined_lines :: "string list \<Rightarrow> string" where
  "joined_lines ls = concat (case ls of [] \<Rightarrow> [] | l # ls \<Rightarrow> l # map (\<lambda>x. CHR 0x0A # x) ls)"

definition build_instructions ::
  "VoiceCall \<Rightarrow> json_obj \<Rightarrow> CallAgentConfiguration option \<Rightarrow> json_obj \<Rightarrow> err + string" where
  "build_instructions c brain config context =
     bindE (allowed_actions brain) (\<lambda>actions.
     bindE (collectible_fields brain) (\<lambda>fields.
     bindE (max_turns brain) (\<lambda>turns.
     let triggers = dget_none brain ''escalation_triggers'';
         notes = (case config of None \<Rightarrow> None | Some a \<Rightarrow> or_text (ac_agent_instructions a) None)
     in Inr (joined_lines
       ([''You are the Call Agent for '' @ py_str (dget context ''business_name'' (JStr ''the business'')) @ ''.'',
         call_line c, []] @ hard_rules @
        [[], ''Allowed actions: '' @ py_repr (JList (map (\<lambda>a. JStr (AgentAction_value a)) actions)),
         ''Maximum turns before forced handoff: '' @ int_str turns,
         ''Collectible information fields: '' @ py_repr (JList (map JStr (sort fields)))] @
        (if truthy triggers then [''Escalation triggers: '' @ py_str triggers] else []) @
        context_line ''Booking'' ''booking'' context @ context_line ''Quote'' ''quote'' context @
        context_line ''Invoice'' ''invoice'' context @ context_line ''Enquiry'' ''enquiry'' context @
        (case notes of None \<Rightarrow> [] | Some t \<Rightarrow> [[], ''Business style notes:'', t]))))))"

section \<open>Sessions\<close>

definition log_entry :: "env \<Rightarrow> string \<Rightarrow> string \<Rightarrow> json_obj \<Rightarrow> json" where
  "log_entry ev role content extra =
     JObj ([(''role'', JStr role), (''content'', JStr content)] @ extra @ [(''at'', JStr (isoformat (utc_datetime (env_now ev))))])"

definition begin_session :: "env \<Rightarrow> bool \<Rightarrow> uuid \<Rightarrow> string option \<Rightarrow> uuid vop" where
  "begin_session ev info i language =
     bind_op (read_op (call_object i)) (\<lambda>c.
     bind_op (check_op (vc_status c = Call_CONNECTED)
                (StateTransitionError (''Call Agent can only begin on a CONNECTED call (call is '' @
                   in_quotes (CallStatus_value (vc_status c)) @ '')''))) (\<lambda>_.
     bind_op (core_read (load_governance (vc_business_id c))) (\<lambda>(version, brain).
     bind_op (read_op (require_config (vc_business_id c))) (\<lambda>config.
     bind_op (read_op (\<lambda>_. class_enabled (vc_call_type c) config)) (\<lambda>_.
     bind_op (if vc_brain_version_id c = None then set_call i (\<lambda>c. c\<lparr>vc_brain_version_id := Some (bv_id version)\<rparr>) else return_op ()) (\<lambda>_.
     bind_op (read_op (\<lambda>s. build_instructions c brain (Some config) (build_context c (vd_core s)))) (\<lambda>instructions.
     bind_op (start_session ev info i language None None) (\<lambda>v.
     bind_op (set_session v (\<lambda>x. x\<lparr>vs_conversation_log := [log_entry ev ''system'' instructions []]\<rparr>)) (\<lambda>_.
     bind_op (log_info info) (\<lambda>_. return_op v))))))))))"

section \<open>Proposals\<close>

definition outcome_permitted :: "CallType \<Rightarrow> CallOutcome \<Rightarrow> err + unit" where
  "outcome_permitted ty out =
     guardE (\<not> (ty = Cty_MARKETING \<and> out \<in> set TRANSACTIONAL_ONLY_OUTCOMES))
       (DomainError (''Marketing calls may never record the transactional outcome '' @ in_quotes (CallOutcome_value out)))"

definition is_reply :: "json \<Rightarrow> bool" where
  "is_reply v \<longleftrightarrow> (case v of JStr s \<Rightarrow> strip s \<noteq> [] | _ \<Rightarrow> False)"

definition validate_proposal :: "CallType \<Rightarrow> json_obj \<Rightarrow> json \<Rightarrow> err + json_obj" where
  "validate_proposal ty brain proposal =
     (case proposal of
        JObj o' \<Rightarrow>
          bindE (guardE (is_reply (dget_none o' ''reply'')) (DomainError ''agent proposal rejected: missing reply'')) (\<lambda>_.
          bindE (requireE (DomainError ''agent proposal rejected: unknown action'') (action_of (dget_none o' ''action''))) (\<lambda>action.
          bindE (allowed_actions brain) (\<lambda>allowed.
          bindE (guardE (action \<in> set allowed) (DomainError ''agent proposal rejected: action is not allowed by the Business Brain'')) (\<lambda>_.
          bindE (if dget_none o' ''outcome'' = JNull then Inr ()
                 else bindE (requireE (DomainError ''agent proposal rejected: unknown outcome'') (outcome_of (dget_none o' ''outcome'')))
                        (outcome_permitted ty)) (\<lambda>_.
          case dget o' ''collected_information'' (JObj []) of
            JObj _ \<Rightarrow> Inr o'
          | _ \<Rightarrow> Inl (DomainError ''agent proposal rejected: collected_information must be an object''))))))
      | _ \<Rightarrow> Inl (DomainError ''agent proposal rejected: not an object''))"

type_synonym ai_model = "string \<Rightarrow> string \<Rightarrow> err + json"

definition is_system_entry :: "json \<Rightarrow> bool" where
  "is_system_entry e \<longleftrightarrow> (case e of JObj o' \<Rightarrow> dget_none o' ''role'' = JStr ''system'' | _ \<Rightarrow> False)"

definition turn_prompt :: "VoiceCallSession \<Rightarrow> string \<Rightarrow> string" where
  "turn_prompt v utterance =
     joined_lines [''Conversation so far: '' @ py_repr (JList (filter (\<lambda>e. \<not> is_system_entry e) (vs_conversation_log v))),
                 ''Caller says: '' @ utterance, ''Propose the next turn as JSON matching the schema.'']"

definition propose ::
  "ai_model \<Rightarrow> VoiceCall \<Rightarrow> VoiceCallSession \<Rightarrow> json_obj \<Rightarrow> CallAgentConfiguration option \<Rightarrow> string \<Rightarrow> db \<Rightarrow> err + json_obj" where
  "propose ai c v brain config utterance d =
     bindE (build_instructions c brain config (build_context c d)) (\<lambda>instructions.
     bindE (ai (turn_prompt v utterance) instructions) (\<lambda>proposal.
     validate_proposal (vc_call_type c) brain proposal))"

text \<open>The turn that is forced when the budget is spent.\<close>

definition forced_proposal :: "int \<Rightarrow> bool \<Rightarrow> json_obj" where
  "forced_proposal turns human =
     (if human then
        [(''reply'', JStr (''I have reached the limit of what I can help with on this call.  Let me transfer you to a member of our team.'')),
         (''action'', JStr ''REQUEST_HUMAN''), (''collected_information'', JObj []), (''outcome'', JNull),
         (''outcome_summary'', JNull), (''escalation_reason'', JStr (''Maximum conversation turns ('' @ int_str turns @ '') reached''))]
      else
        [(''reply'', JStr (''I have reached the limit of what I can help with on this call.  Thank you for your time '' @ em_dash @ '' goodbye.'')),
         (''action'', JStr ''END_CALL''), (''collected_information'', JObj []), (''outcome'', JStr ''NO_CONTACT''),
         (''outcome_summary'', JStr (''Turn budget of '' @ int_str turns @ '' reached'')), (''escalation_reason'', JNull)])"

section \<open>Turns\<close>

fun dict_put :: "string \<Rightarrow> json \<Rightarrow> json_obj \<Rightarrow> json_obj" where
  "dict_put k v [] = [(k, v)]"
| "dict_put k v ((k', w) # kvs) = (if k = k' then (k, v) # kvs else (k', w) # dict_put k v kvs)"

definition dict_update :: "json_obj \<Rightarrow> json_obj \<Rightarrow> json_obj" where
  "dict_update d info = fold (\<lambda>(k, v). dict_put k v) info d"

definition collected_after :: "json_obj \<Rightarrow> json_obj \<Rightarrow> json_obj \<Rightarrow> err + json_obj" where
  "collected_after brain proposal before =
     bindE (collectible_fields brain) (\<lambda>fields.
     bindE (or_empty (dget_none proposal ''collected_information'')) (\<lambda>info.
     bindE (guardE (set (map fst info) \<subseteq> set fields) (DomainError ''agent attempted to collect non-governed fields'')) (\<lambda>_.
     Inr (dict_update before info))))"

definition text_or_null :: "string \<Rightarrow> json \<Rightarrow> err + string option" where
  "text_or_null column v = (if v = JNull then Inr None else bindE (text_column column v) (\<lambda>t. Inr (Some t)))"

text \<open>The outcome of a call that ends: a proposal need not have one, but then this raises.\<close>

definition ended_with :: "CallType \<Rightarrow> json_obj \<Rightarrow> err + CallOutcome \<times> string option" where
  "ended_with ty proposal =
     bindE (requireE (KeyError ''outcome'') (map_of proposal ''outcome'')) (\<lambda>v.
     bindE (requireE (ValueError ''not a valid CallOutcome'') (outcome_of v)) (\<lambda>out.
     bindE (outcome_permitted ty out) (\<lambda>_.
     bindE (text_or_null ''outcome_summary'' (dget_none proposal ''outcome_summary'')) (\<lambda>summary. Inr (out, summary)))))"

definition apply_action ::
  "CallType \<Rightarrow> json_obj \<Rightarrow> CallAgentConfiguration option \<Rightarrow> uuid \<Rightarrow> VoiceCallSession \<Rightarrow> AgentAction \<Rightarrow> json_obj \<Rightarrow> unit vop" where
  "apply_action ty brain config v row action proposal =
     (case action of
        Act_COLLECT_INFORMATION \<Rightarrow>
          bind_op (read_op (\<lambda>_. collected_after brain proposal (vs_collected_information row))) (\<lambda>merged.
          set_session v (\<lambda>x. x\<lparr>vs_collected_information := merged\<rparr>))
      | Act_REQUEST_HUMAN \<Rightarrow>
          check_op (case config of None \<Rightarrow> False | Some a \<Rightarrow> ac_human_escalation_enabled a)
            (DomainError ''Human escalation is disabled for this business'')
      | Act_END_CALL \<Rightarrow>
          bind_op (read_op (\<lambda>_. ended_with ty proposal)) (\<lambda>(out, summary).
          set_session v (\<lambda>x. x\<lparr>vs_outcome := Some out, vs_outcome_summary := summary\<rparr>))
      | Act_CONTINUE \<Rightarrow> return_op ())"

definition turn_evidence :: "VoiceCall \<Rightarrow> AgentAction \<Rightarrow> json_obj \<Rightarrow> json_obj" where
  "turn_evidence c action extra =
     [(''call_id'', JStr (nat_str (vc_id c))), (''call_type'', JStr (CallType_value (vc_call_type c))),
      (''purpose'', JStr (CallPurpose_value (vc_purpose c))), (''action'', JStr (AgentAction_value action))] @ extra"

definition audit_turn :: "uuid \<Rightarrow> AgentAction \<Rightarrow> nat \<Rightarrow> bool \<Rightarrow> unit vop" where
  "audit_turn i action n forced =
     bind_op (read_op (call_object i)) (\<lambda>c.
     add_call_audit ''CALL_AGENT_TURN'' None None c
       (turn_evidence c action [(''turn_count'', JInt (int n)), (''forced'', JBool forced)]))"

definition audit_action :: "uuid \<Rightarrow> AgentAction \<Rightarrow> uuid \<Rightarrow> unit vop" where
  "audit_action i action v =
     bind_op (read_op (call_object i)) (\<lambda>c.
     bind_op (read_op (session_object v)) (\<lambda>row.
     add_call_audit ''CALL_AGENT_ACTION_EXECUTED'' None None c
       (turn_evidence c action [(''outcome'', opt_json (map_option CallOutcome_value (vs_outcome row))),
                                (''turn_count'', JInt (int (vs_turn_count row)))])))"

definition outcome_text :: "VoiceCallSession \<Rightarrow> string" where
  "outcome_text row = (case vs_outcome row of None \<Rightarrow> ''None'' | Some out \<Rightarrow> CallOutcome_value out)"

definition execute_action :: "env \<Rightarrow> bool \<Rightarrow> uuid \<Rightarrow> uuid \<Rightarrow> AgentAction \<Rightarrow> json_obj \<Rightarrow> uuid option \<Rightarrow> unit vop" where
  "execute_action ev info i v action proposal actor =
     (case action of
        Act_REQUEST_HUMAN \<Rightarrow>
          (let raw = dget_none proposal ''escalation_reason'' in
           bind_op (read_op (\<lambda>_. if truthy raw then text_column ''escalation_reason'' raw else Inr ''agent requested handoff'')) (\<lambda>reason.
           bind_op (escalate_call ev info i reason actor) (\<lambda>_. return_op ())))
      | Act_END_CALL \<Rightarrow>
          bind_op (read_op (session_object v)) (\<lambda>row.
          complete_call ev info i actor (Some (''agent ended call: '' @ outcome_text row)))
      | _ \<Rightarrow> return_op ())"

record turn_result =
  tr_reply :: string
  tr_action :: AgentAction
  tr_outcome :: json
  tr_turn_count :: nat
  tr_forced :: bool

definition turn_log :: "env \<Rightarrow> string \<Rightarrow> string \<Rightarrow> AgentAction \<Rightarrow> bool \<Rightarrow> json list" where
  "turn_log ev utterance reply action forced =
     [log_entry ev ''customer'' utterance [],
      log_entry ev ''agent'' reply [(''action'', JStr (AgentAction_value action)), (''forced'', JBool forced)]]"

text \<open>What a proposal does: its action, the turn in the log, and the change of the call.\<close>

definition run_turn ::
  "env \<Rightarrow> bool \<Rightarrow> json_obj \<Rightarrow> CallAgentConfiguration option \<Rightarrow> uuid \<Rightarrow> uuid \<Rightarrow> string \<Rightarrow> bool \<Rightarrow> json_obj \<Rightarrow> uuid option \<Rightarrow> turn_result vop" where
  "run_turn ev info brain config i v utterance forced proposal actor =
     bind_op (read_op (\<lambda>_. requireE (ValueError ''not a valid AgentAction'') (action_of (dget_none proposal ''action'')))) (\<lambda>action.
     bind_op (read_op (call_object i)) (\<lambda>c.
     bind_op (read_op (session_object v)) (\<lambda>row.
     bind_op (apply_action (vc_call_type c) brain config v row action proposal) (\<lambda>_.
     bind_op (read_op (\<lambda>_. as_text (dget_none proposal ''reply''))) (\<lambda>reply.
     bind_op (set_session v (\<lambda>x. x\<lparr>vs_conversation_log := vs_conversation_log x @ turn_log ev utterance reply action forced,
                                 vs_turn_count := Suc (vs_turn_count x)\<rparr>)) (\<lambda>_.
     bind_op (execute_action ev info i v action proposal actor) (\<lambda>_.
     bind_op (audit_turn i action (Suc (vs_turn_count row)) forced) (\<lambda>_.
     bind_op (if action = Act_REQUEST_HUMAN \<or> action = Act_END_CALL then audit_action i action v else return_op ()) (\<lambda>_.
     return_op \<lparr>tr_reply = reply, tr_action = action, tr_outcome = dget_none proposal ''outcome'',
                tr_turn_count = Suc (vs_turn_count row), tr_forced = forced\<rparr>)))))))))"

definition handle_turn ::
  "env \<Rightarrow> bool \<Rightarrow> ai_model \<Rightarrow> uuid \<Rightarrow> string \<Rightarrow> uuid option \<Rightarrow> turn_result vop" where
  "handle_turn ev info ai i utterance actor =
     bind_op (read_op (active_session i)) (\<lambda>found.
     case found of
       None \<Rightarrow> raise_op (StateTransitionError ''No active conversation session for this call'')
     | Some row \<Rightarrow>
         bind_op (read_op (call_object i)) (\<lambda>c.
         bind_op (core_read (load_governance (vc_business_id c))) (\<lambda>(version, brain).
         bind_op (read_op (config_for_business (vc_business_id c))) (\<lambda>config.
         bind_op (read_op (\<lambda>_. max_turns brain)) (\<lambda>turns.
         let forced = int (vs_turn_count row) \<ge> turns;
             human = (case config of None \<Rightarrow> False | Some a \<Rightarrow> ac_human_escalation_enabled a)
         in
         bind_op (if forced then return_op (forced_proposal turns human)
                  else core_read (propose ai c row brain config utterance)) (\<lambda>proposal.
         run_turn ev info brain config i (vs_id row) utterance forced proposal actor))))))"

definition record_outcome :: "uuid \<Rightarrow> string \<Rightarrow> string option \<Rightarrow> uuid vop" where
  "record_outcome i outcome summary =
     bind_op (read_op (active_session i)) (\<lambda>found.
     case found of
       None \<Rightarrow> raise_op (StateTransitionError ''No active conversation session for this call'')
     | Some row \<Rightarrow>
         bind_op (read_op (\<lambda>_. requireE (DomainError (''Unknown call outcome: '' @ in_quotes outcome)) (CallOutcome_of outcome))) (\<lambda>out.
         bind_op (read_op (call_object i)) (\<lambda>c.
         bind_op (read_op (\<lambda>_. outcome_permitted (vc_call_type c) out)) (\<lambda>_.
         bind_op (set_session (vs_id row) (\<lambda>x. x\<lparr>vs_outcome := Some out, vs_outcome_summary := summary\<rparr>)) (\<lambda>_.
         bind_op (audit_action i Act_END_CALL (vs_id row)) (\<lambda>_. return_op (vs_id row)))))))"

end
