(* ===== verification/Voice_Campaigns.thy ===== *)
theory Voice_Campaigns
  imports Voice_Provider
begin

text \<open>
  Campaigns: their creation and the transitions of campaigns and recipients
  (src/backend/app/domain/voice/campaign_service.py) and their execution
  (src/backend/app/domain/voice/campaign_execution.py).

  The time zones are a parameter: the local time of an instant, None for a zone that is not found
  and an exception for a name that is refused.  A run reads the campaign's status again before each
  recipient, to see what other transactions have committed meanwhile: \<open>elsewhere\<close> gives the status
  committed before a recipient, if any.
\<close>

section \<open>Campaigns and recipients\<close>

definition create_campaign ::
  "env \<Rightarrow> bool \<Rightarrow> uuid \<Rightarrow> string \<Rightarrow> string \<Rightarrow> string \<Rightarrow> string option \<Rightarrow> timestamp option \<Rightarrow> timestamp option \<Rightarrow>
   uuid option \<Rightarrow> uuid option \<Rightarrow> uuid vop" where
  "create_campaign ev info business_id name channel purpose description start_at end_at brain created_by =
     bind_op (lift_op (insert_campaign
       \<lparr>cg_id = 0, cg_business_id = business_id, cg_name = name, cg_description = description, cg_channel = channel,
        cg_purpose = purpose, cg_status = Cam_DRAFT, cg_start_at = start_at, cg_end_at = end_at, cg_brain_version_id = brain,
        cg_created_by = created_by, cg_created_at = env_now ev, cg_deleted = False\<rparr>)) (\<lambda>i.
     bind_op (log_info info) (\<lambda>_. return_op i))"

definition change_campaign :: "uuid \<Rightarrow> CampaignStatus \<Rightarrow> voice_db \<Rightarrow> err + unit \<times> voice_db" where
  "change_campaign g target s =
     bindE (campaign_object g s) (\<lambda>c.
     if target \<notin> CAMPAIGN_TRANSITIONS (cg_status c)
     then Inl (StateTransitionError (''Cannot transition campaign from '' @ in_quotes (CampaignStatus_value (cg_status c)) @
                 '' to '' @ in_quotes (CampaignStatus_value target)))
     else Inr ((), s\<lparr>t_campaigns := upd_row cg_id g (\<lambda>c. c\<lparr>cg_status := target\<rparr>) (t_campaigns s)\<rparr>))"

definition transition_campaign :: "bool \<Rightarrow> uuid \<Rightarrow> CampaignStatus \<Rightarrow> unit vop" where
  "transition_campaign info g target = bind_op (lift_op (change_campaign g target)) (\<lambda>_. log_info info)"

definition get_campaign :: "uuid \<Rightarrow> uuid \<Rightarrow> voice_db \<Rightarrow> err + CommunicationCampaign" where
  "get_campaign campaign_id business_id s =
     requireE (NotFoundError ''Campaign not found'') (campaign_of_business campaign_id business_id s)"

definition add_recipient :: "env \<Rightarrow> uuid \<Rightarrow> string \<Rightarrow> uuid option \<Rightarrow> uuid vop" where
  "add_recipient ev campaign_id phone customer =
     lift_op (insert_recipient
       \<lparr>rcp_id = 0, rcp_campaign_id = campaign_id, rcp_customer_id = customer, rcp_phone_number = phone,
        rcp_status = Rcp_PENDING, rcp_attempt_count = 0, rcp_last_attempt_at = None, rcp_completed_at = None,
        rcp_created_at = env_now ev, rcp_deleted = False\<rparr>)"

definition moved_recipient :: "env \<Rightarrow> CampaignRecipientStatus \<Rightarrow> CampaignRecipient \<Rightarrow> CampaignRecipient" where
  "moved_recipient ev target r =
     (let r = r\<lparr>rcp_status := target\<rparr>
      in if target = Rcp_CONTACTED
         then r\<lparr>rcp_attempt_count := Suc (rcp_attempt_count r), rcp_last_attempt_at := Some (env_now ev)\<rparr>
         else if target = Rcp_COMPLETED then r\<lparr>rcp_completed_at := Some (env_now ev)\<rparr>
         else r)"

definition change_recipient :: "env \<Rightarrow> uuid \<Rightarrow> CampaignRecipientStatus \<Rightarrow> voice_db \<Rightarrow> err + unit \<times> voice_db" where
  "change_recipient ev i target s =
     bindE (recipient_object i s) (\<lambda>r.
     if target \<notin> CAMPAIGN_RECIPIENT_TRANSITIONS (rcp_status r)
     then Inl (StateTransitionError (''Cannot transition campaign recipient from '' @
                 in_quotes (CampaignRecipientStatus_value (rcp_status r)) @ '' to '' @ in_quotes (CampaignRecipientStatus_value target)))
     else Inr ((), s\<lparr>t_campaign_recipients := upd_row rcp_id i (moved_recipient ev target) (t_campaign_recipients s)\<rparr>))"

definition transition_recipient :: "env \<Rightarrow> uuid \<Rightarrow> CampaignRecipientStatus \<Rightarrow> unit vop" where
  "transition_recipient ev i target = lift_op (change_recipient ev i target)"

section \<open>Activation\<close>

definition purpose_class :: "string \<Rightarrow> err + CallType" where
  "purpose_class purpose =
     bindE (requireE (ValueError ''not a valid CallPurpose'') (CallPurpose_of purpose)) (\<lambda>p. Inr (CALL_PURPOSE_TYPE p))"

definition activate :: "env \<Rightarrow> bool \<Rightarrow> uuid \<Rightarrow> unit vop" where
  "activate ev info g =
     bind_op (read_op (campaign_object g)) (\<lambda>c.
     bind_op (read_op (\<lambda>_. purpose_class (cg_purpose c))) (\<lambda>ty.
     bind_op (check_op (\<not> (ty = Cty_MARKETING \<and> cg_brain_version_id c = None))
                (DomainError ''Marketing campaigns require a governing Brain version'')) (\<lambda>_.
     bind_op (check_op (case cg_start_at c of None \<Rightarrow> True | Some t \<Rightarrow> t \<le> env_now ev)
                (DomainError ''Campaign start_at has not been reached'')) (\<lambda>_.
     transition_campaign info g Cam_ACTIVE))))"

section \<open>The calling window\<close>

definition py_int :: "json \<Rightarrow> err + int" where
  "py_int v =
     requireE (case v of JStr _ \<Rightarrow> ValueError ''invalid literal for int()'' | _ \<Rightarrow> TypeError ''int()'') (to_int v)"

definition hour_of :: "json \<Rightarrow> json \<Rightarrow> err + int option" where
  "hour_of hour_value text_value =
     (if hour_value \<noteq> JNull then bindE (py_int hour_value) (\<lambda>h. Inr (Some h))
      else if truthy text_value then bindE (py_int (JStr (hd (split_on CHR '':'' (py_str text_value))))) (\<lambda>h. Inr (Some h))
      else Inr None)"

definition month_day :: "string \<Rightarrow> (int \<times> int) option" where
  "month_day t =
     (case map parse_int (split_on CHR ''-'' t) of
        [Some m, Some d] \<Rightarrow> Some (m, d)
      | _ \<Rightarrow> None)"

definition between :: "int \<times> int \<Rightarrow> int \<times> int \<Rightarrow> int \<times> int \<Rightarrow> bool" where
  "between a b x \<longleftrightarrow> (if a \<le> b then a \<le> x \<and> x \<le> b else a \<le> x \<or> x \<le> b)"

definition in_quiet_period :: "json_obj \<Rightarrow> datetime \<Rightarrow> bool" where
  "in_quiet_period period local =
     (let start = dget_none period ''start''; stop = dget_none period ''end'' in
      if \<not> truthy start \<or> \<not> truthy stop then False
      else case (month_day (py_str start), month_day (py_str stop)) of
        (Some a, Some b) \<Rightarrow> (case civil_from_days (dt_day local) of (y, m, d) \<Rightarrow> between a b (m, d))
      | _ \<Rightarrow> False)"

definition weekday_in :: "int \<Rightarrow> json \<Rightarrow> err + bool" where
  "weekday_in w days =
     (case days of
        JList xs \<Rightarrow> Inr (list_ex (py_eq (JInt w)) xs)
      | JObj kvs \<Rightarrow> Inr False
      | _ \<Rightarrow> Inl (TypeError ''argument is not iterable''))"

definition within_hours :: "json_obj \<Rightarrow> datetime \<Rightarrow> err + string option" where
  "within_hours hours local =
     (let days = dget_none hours ''days'' in
      bindE (if truthy days then weekday_in (dt_weekday local) days else Inr True) (\<lambda>on_day.
      if \<not> on_day then Inr (Some (''weekday '' @ int_str (dt_weekday local) @ '' outside allowed calling days'')) else
      bindE (hour_of (dget_none hours ''start_hour'') (dget_none hours ''start'')) (\<lambda>start_hour.
      bindE (hour_of (dget_none hours ''end_hour'') (dget_none hours ''end'')) (\<lambda>end_hour.
      let early = (case start_hour of None \<Rightarrow> False | Some h \<Rightarrow> dt_hour local < h);
          late = (case end_hour of None \<Rightarrow> False | Some h \<Rightarrow> dt_hour local \<ge> h)
      in Inr (if early then Some (''before allowed calling hours ('' @ int_str (the start_hour) @ '':00)'')
              else if late then Some (''after allowed calling hours ('' @ int_str (the end_hour) @ '':00)'')
              else None)))))"

type_synonym zones = "string \<Rightarrow> err + (timestamp \<Rightarrow> datetime) option"

definition local_time :: "zones \<Rightarrow> CallAgentConfiguration \<Rightarrow> timestamp \<Rightarrow> err + datetime" where
  "local_time zi config now =
     (case or_text (ac_timezone config) None of
        None \<Rightarrow> Inr (utc_datetime now)
      | Some z \<Rightarrow> bindE (zi z) (\<lambda>f. Inr (case f of None \<Rightarrow> utc_datetime now | Some g \<Rightarrow> g now)))"

definition in_calling_window :: "zones \<Rightarrow> CallAgentConfiguration \<Rightarrow> timestamp \<Rightarrow> err + bool \<times> string" where
  "in_calling_window zi config now =
     (let hours = ac_allowed_calling_hours config; quiet = ac_quiet_periods config in
      if hours = [] \<and> quiet = [] then Inr (True, ''no calling window configured'') else
      bindE (local_time zi config now) (\<lambda>local.
      bindE (if hours = [] then Inr None else within_hours hours local) (\<lambda>refusal.
      Inr (case refusal of
             Some reason \<Rightarrow> (False, reason)
           | None \<Rightarrow> if list_ex (\<lambda>p. in_quiet_period p local) quiet then (False, ''within quiet period'')
                     else (True, ''within calling window'')))))"

section \<open>Frequency\<close>

definition attempts_in_window :: "uuid \<Rightarrow> timestamp \<Rightarrow> voice_db \<Rightarrow> nat" where
  "attempts_in_window g since s =
     length (filter (\<lambda>r. rcp_campaign_id r = g \<and> \<not> rcp_deleted r \<and>
       (case rcp_last_attempt_at r of None \<Rightarrow> False | Some t \<Rightarrow> t \<ge> since)) (t_campaign_recipients s))"

definition cap_reached :: "json \<Rightarrow> nat \<Rightarrow> err + bool" where
  "cap_reached cap n = (if cap = JNull then Inr False else bindE (py_int cap) (\<lambda>m. Inr (int n \<ge> m)))"

definition cap_of :: "int option \<Rightarrow> json \<Rightarrow> json" where
  "cap_of configured limit = (case configured of None \<Rightarrow> limit | Some m \<Rightarrow> JInt m)"

text \<open>Allowed, whether the recipient's budget is spent, and the reason.\<close>

definition frequency_check ::
  "CallAgentConfiguration \<Rightarrow> uuid \<Rightarrow> CampaignRecipient \<Rightarrow> timestamp \<Rightarrow> voice_db \<Rightarrow> err + bool \<times> bool \<times> string" where
  "frequency_check config g r now s =
     (let limits = ac_customer_frequency_limits config;
          per_campaign = dget_none limits ''per_campaign'';
          daily = cap_of (ac_max_daily_attempts config) (dget_none limits ''per_day'');
          weekly = cap_of (ac_max_weekly_attempts config) (dget_none limits ''per_week'')
      in if int (rcp_attempt_count r) \<ge> ac_max_attempts config
         then Inr (False, True, ''max attempts reached ('' @ nat_str (rcp_attempt_count r) @ ''/'' @ int_str (ac_max_attempts config) @ '')'')
         else
         bindE (cap_reached per_campaign (rcp_attempt_count r)) (\<lambda>spent.
         if spent then Inr (False, True, ''per-campaign limit reached ('' @ py_str per_campaign @ '')'') else
         bindE (cap_reached daily (attempts_in_window g (now - us_per_day) s)) (\<lambda>d.
         if d then Inr (False, False, ''daily attempt limit reached ('' @ py_str daily @ '')'') else
         bindE (cap_reached weekly (attempts_in_window g (now - 7 * us_per_day) s)) (\<lambda>w.
         if w then Inr (False, False, ''weekly attempt limit reached ('' @ py_str weekly @ '')'')
         else Inr (True, False, ''within frequency limits'')))))"

section \<open>Execution\<close>

definition audit_campaign :: "uuid \<Rightarrow> string \<Rightarrow> uuid option \<Rightarrow> json_obj \<Rightarrow> uuid option \<Rightarrow> unit vop" where
  "audit_campaign g ety actor evidence recipient =
     bind_op (read_op (campaign_object g)) (\<lambda>c.
     bind_op (case recipient of
                None \<Rightarrow> return_op None
              | Some i \<Rightarrow> read_op (\<lambda>s. bindE (recipient_object i s) (\<lambda>r. Inr (rcp_customer_id r)))) (\<lambda>customer.
     core_op (\<lambda>d. Inr ((), add_audit
       \<lparr>cae_id = fresh_id d, cae_event_type = ety, cae_actor_id = actor,
        cae_business_id = cg_business_id c, cae_customer_id = customer, cae_channel = Some ''VOICE'',
        cae_purpose = Some (cg_purpose c), cae_communication_id = None, cae_brain_version_id = cg_brain_version_id c,
        cae_decision_evidence = Some evidence, cae_provider_reference = None, cae_metadata = JObj evidence\<rparr> d))))"

record campaign_results =
  cs_processed :: nat
  cs_contacted :: nat
  cs_suppressed :: nat
  cs_skipped :: nat
  cs_failed :: nat
  cs_halted :: bool
  cs_recipients :: "json_obj list"

definition no_results :: campaign_results where
  "no_results =
     \<lparr>cs_processed = 0, cs_contacted = 0, cs_suppressed = 0, cs_skipped = 0, cs_failed = 0, cs_halted = False, cs_recipients = []\<rparr>"

definition noted :: "uuid \<Rightarrow> CampaignRecipientStatus \<Rightarrow> string \<Rightarrow> campaign_results \<Rightarrow> campaign_results" where
  "noted i st reason x =
     x\<lparr>cs_recipients := cs_recipients x @ [[(''recipient_id'', JStr (nat_str i)),
          (''status'', JStr (CampaignRecipientStatus_value st)), (''reason'', JStr reason)]]\<rparr>"

definition skip_recipient :: "env \<Rightarrow> uuid \<Rightarrow> uuid \<Rightarrow> json_obj \<Rightarrow> uuid option \<Rightarrow> unit vop" where
  "skip_recipient ev g i evidence actor =
     bind_op (transition_recipient ev i Rcp_SKIPPED) (\<lambda>_.
     audit_campaign g ''CAMPAIGN_RECIPIENT_SKIPPED'' actor evidence (Some i))"

text \<open>A recipient the frequency limits refuse: failed when its budget is spent, else skipped.\<close>

definition refuse_for_frequency ::
  "env \<Rightarrow> uuid \<Rightarrow> uuid \<Rightarrow> bool \<Rightarrow> string \<Rightarrow> uuid option \<Rightarrow> campaign_results \<Rightarrow> campaign_results vop" where
  "refuse_for_frequency ev g i exhausted reason actor x =
     bind_op (if exhausted then transition_recipient ev i Rcp_FAILED
              else skip_recipient ev g i [(''reason'', JStr reason)] actor) (\<lambda>_.
     return_op (if exhausted then noted i Rcp_FAILED reason (x\<lparr>cs_failed := Suc (cs_failed x)\<rparr>)
                else noted i Rcp_SKIPPED reason (x\<lparr>cs_skipped := Suc (cs_skipped x)\<rparr>)))"

definition refuse_for_policy ::
  "env \<Rightarrow> uuid \<Rightarrow> uuid \<Rightarrow> PolicyDecision \<Rightarrow> uuid option \<Rightarrow> campaign_results \<Rightarrow> campaign_results vop" where
  "refuse_for_policy ev g i p actor x =
     (if pd_decision p = ''DENY'' then
        bind_op (transition_recipient ev i Rcp_SUPPRESSED) (\<lambda>_.
        bind_op (audit_campaign g ''CAMPAIGN_RECIPIENT_SUPPRESSED'' actor (to_evidence_dict p) (Some i)) (\<lambda>_.
        return_op (noted i Rcp_SUPPRESSED (pd_reason p) (x\<lparr>cs_suppressed := Suc (cs_suppressed x)\<rparr>))))
      else
        bind_op (skip_recipient ev g i (to_evidence_dict p) actor) (\<lambda>_.
        return_op (noted i Rcp_SKIPPED (pd_reason p) (x\<lparr>cs_skipped := Suc (cs_skipped x)\<rparr>))))"

definition campaign_call_key :: "uuid \<Rightarrow> uuid \<Rightarrow> nat \<Rightarrow> string" where
  "campaign_call_key g i n = ''campaign:'' @ nat_str g @ '':'' @ nat_str i @ '':'' @ nat_str n"

definition campaign_request :: "comm_provider \<Rightarrow> CommunicationCampaign \<Rightarrow> CampaignRecipient \<Rightarrow> call_request" where
  "campaign_request p c r =
     \<lparr>cq_to_number = rcp_phone_number r, cq_purpose = cg_purpose c, cq_provider = cpr_name p,
      cq_idempotency_key = campaign_call_key (cg_id c) (rcp_id r) (Suc (rcp_attempt_count r)), cq_call_type = None,
      cq_from_number = None, cq_customer_id = rcp_customer_id r, cq_enquiry_id = None, cq_quote_id = None,
      cq_booking_id = None, cq_service_execution_id = None, cq_invoice_id = None, cq_communication_id = None,
      cq_campaign_id = Some (cg_id c), cq_brain_version_id = cg_brain_version_id c\<rparr>"

definition FAILURE_CALL_STATUSES :: "CallStatus list" where
  "FAILURE_CALL_STATUSES =
     [Call_FAILED, Call_NO_ANSWER, Call_BUSY, Call_DECLINED, Call_CANCELLED, Call_EXPIRED]"

definition contact_recipient ::
  "env \<Rightarrow> bool \<Rightarrow> comm_provider \<Rightarrow> uuid \<Rightarrow> uuid \<Rightarrow> uuid option \<Rightarrow> campaign_results \<Rightarrow> campaign_results vop" where
  "contact_recipient ev info p g i actor x =
     bind_op (transition_recipient ev i Rcp_ELIGIBLE) (\<lambda>_.
     bind_op (read_op (campaign_object g)) (\<lambda>c.
     bind_op (read_op (recipient_object i)) (\<lambda>r.
     bind_op (request_call ev info (cg_business_id c) (campaign_request p c r) actor (Some ''campaign'')) (\<lambda>k.
     bind_op (read_op (call_object k)) (\<lambda>call.
     bind_op (if vc_status call = Call_REQUESTED then authorize_call ev info k actor None None else return_op ()) (\<lambda>_.
     bind_op (initiate_call ev info p k None None) (\<lambda>_.
     bind_op (read_op (call_object k)) (\<lambda>call.
     let failed = vc_status call \<in> set FAILURE_CALL_STATUSES; st = (if failed then Rcp_FAILED else Rcp_CONTACTED) in
     bind_op (transition_recipient ev i st) (\<lambda>_.
     bind_op (log_info info) (\<lambda>_.
     return_op ((if failed then x\<lparr>cs_failed := Suc (cs_failed x)\<rparr> else x\<lparr>cs_contacted := Suc (cs_contacted x)\<rparr>)
       \<lparr>cs_recipients := cs_recipients x @ [[(''recipient_id'', JStr (nat_str i)),
          (''status'', JStr (CampaignRecipientStatus_value st)), (''call_id'', JStr (nat_str k)),
          (''call_status'', JStr (CallStatus_value (vc_status call)))]]\<rparr>)))))))))))"

definition recipient_context :: "CommunicationCampaign \<Rightarrow> CampaignRecipient \<Rightarrow> CallType \<Rightarrow> RecipientContext" where
  "recipient_context c r ty =
     \<lparr>rc_recipient_type = ''CUSTOMER'', rc_customer_id = rcp_customer_id r, rc_address = rcp_phone_number r,
      rc_channel = ''VOICE'', rc_purpose = (if ty = Cty_MARKETING then ''MARKETING'' else ''TRANSACTIONAL'')\<rparr>"

text \<open>Window, frequency and policy, then the call.\<close>

definition process_recipient ::
  "env \<Rightarrow> bool \<Rightarrow> zones \<Rightarrow> comm_provider \<Rightarrow> CallAgentConfiguration \<Rightarrow> CallType \<Rightarrow> uuid \<Rightarrow> uuid \<Rightarrow> uuid option \<Rightarrow>
   campaign_results \<Rightarrow> campaign_results vop" where
  "process_recipient ev info zi p config ty g i actor x =
     bind_op (read_op (\<lambda>_. in_calling_window zi config (env_now ev))) (\<lambda>(in_window, window_reason).
     if \<not> in_window then
       bind_op (skip_recipient ev g i [(''reason'', JStr window_reason)] actor) (\<lambda>_.
       return_op (noted i Rcp_SKIPPED window_reason (x\<lparr>cs_skipped := Suc (cs_skipped x)\<rparr>)))
     else
     bind_op (read_op (recipient_object i)) (\<lambda>r.
     bind_op (read_op (frequency_check config g r (env_now ev))) (\<lambda>(allowed, exhausted, freq_reason).
     if \<not> allowed then refuse_for_frequency ev g i exhausted freq_reason actor x else
     bind_op (read_op (campaign_object g)) (\<lambda>c.
     bind_op (core_read (evaluate_policy ev (cg_business_id c) (recipient_context c r ty))) (\<lambda>decision.
     if pd_is_allowed decision then contact_recipient ev info p g i actor x
     else refuse_for_policy ev g i decision actor x)))))"

fun process_recipients ::
  "env \<Rightarrow> bool \<Rightarrow> zones \<Rightarrow> comm_provider \<Rightarrow> (uuid \<Rightarrow> CampaignStatus option) \<Rightarrow> CallAgentConfiguration \<Rightarrow> CallType \<Rightarrow> uuid \<Rightarrow>
   uuid option \<Rightarrow> uuid list \<Rightarrow> campaign_results \<Rightarrow> campaign_results vop" where
  "process_recipients ev info zi p elsewhere config ty g actor [] x = return_op x"
| "process_recipients ev info zi p elsewhere config ty g actor (i # is) x =
     bind_op (read_op (recipient_object i)) (\<lambda>r.
     if rcp_status r \<noteq> Rcp_PENDING then process_recipients ev info zi p elsewhere config ty g actor is x else
     let x = x\<lparr>cs_processed := Suc (cs_processed x)\<rparr> in
     bind_op (read_op (campaign_object g)) (\<lambda>c.
     if (case elsewhere i of None \<Rightarrow> cg_status c | Some st \<Rightarrow> st) \<noteq> Cam_ACTIVE
     then bind_op (log_info info) (\<lambda>_. return_op (x\<lparr>cs_halted := True\<rparr>))
     else bind_op (process_recipient ev info zi p config ty g i actor x)
            (process_recipients ev info zi p elsewhere config ty g actor is)))"

definition process_campaign ::
  "env \<Rightarrow> bool \<Rightarrow> zones \<Rightarrow> comm_provider \<Rightarrow> (uuid \<Rightarrow> CampaignStatus option) \<Rightarrow> uuid \<Rightarrow> uuid option \<Rightarrow> campaign_results vop" where
  "process_campaign ev info zi p elsewhere g actor =
     bind_op (read_op (campaign_object g)) (\<lambda>c.
     bind_op (check_op (cg_status c = Cam_ACTIVE) (StateTransitionError ''Campaign is not ACTIVE'')) (\<lambda>_.
     bind_op (read_op (require_config (cg_business_id c))) (\<lambda>config.
     bind_op (read_op (\<lambda>_. purpose_class (cg_purpose c))) (\<lambda>ty.
     bind_op (audit_campaign g ''CAMPAIGN_PROCESSING_STARTED'' actor
                [(''campaign_id'', JStr (nat_str g)), (''purpose'', JStr (cg_purpose c)), (''call_type'', JStr (CallType_value ty))]
                None) (\<lambda>_.
     bind_op (read_op (\<lambda>s. Inr (map rcp_id (recipients_for_campaign g s)))) (\<lambda>is.
     process_recipients ev info zi p elsewhere config ty g actor is no_results))))))"

section \<open>Settlement\<close>

definition OPEN_RECIPIENT_STATUSES :: "CampaignRecipientStatus list" where
  "OPEN_RECIPIENT_STATUSES = [Rcp_PENDING, Rcp_ELIGIBLE, Rcp_CONTACTED]"

definition maybe_complete_campaign :: "env \<Rightarrow> bool \<Rightarrow> uuid \<Rightarrow> uuid \<Rightarrow> unit vop" where
  "maybe_complete_campaign ev info campaign_id business_id =
     bind_op (read_op (\<lambda>s. Inr (campaign_of_business campaign_id business_id s, recipients_for_campaign campaign_id s))) (\<lambda>(found, rs).
     case found of
       None \<Rightarrow> return_op ()
     | Some c \<Rightarrow>
         if cg_status c \<noteq> Cam_ACTIVE \<or> list_ex (\<lambda>r. rcp_status r \<in> set OPEN_RECIPIENT_STATUSES) rs then return_op ()
         else
         bind_op (transition_campaign info campaign_id Cam_COMPLETED) (\<lambda>_.
         bind_op (emit_voice_event ev info business_id ''voice.campaign_completed'' ''communication_campaign'' campaign_id
                    [(''campaign_id'', PUuid campaign_id), (''name'', PStr (cg_name c)), (''purpose'', PStr (cg_purpose c))] []) (\<lambda>_.
         log_info info)))"

definition parse_campaign_key :: "string \<Rightarrow> (uuid \<times> uuid) option" where
  "parse_campaign_key key =
     (case split_on CHR '':'' key of
        [tag, g, i, n] \<Rightarrow>
          if tag = ''campaign'' then (case (uuid_of_str g, uuid_of_str i) of (Some g, Some i) \<Rightarrow> Some (g, i) | _ \<Rightarrow> None) else None
      | _ \<Rightarrow> None)"

definition settled_status :: "CallStatus \<Rightarrow> CampaignRecipientStatus option" where
  "settled_status st =
     (if st = Call_COMPLETED then Some Rcp_COMPLETED
      else if st \<in> set FAILURE_CALL_STATUSES then Some Rcp_FAILED else None)"

definition complete_campaign_recipient :: "env \<Rightarrow> bool \<Rightarrow> uuid \<Rightarrow> uuid option vop" where
  "complete_campaign_recipient ev info k =
     bind_op (read_op (call_object k)) (\<lambda>call.
     case parse_campaign_key (vc_idempotency_key call) of
       None \<Rightarrow> return_op None
     | Some (g, i) \<Rightarrow>
         bind_op (read_op (\<lambda>s. Inr (recipient_of_business i (vc_business_id call) s))) (\<lambda>found.
         case found of
           None \<Rightarrow> return_op None
         | Some r \<Rightarrow>
             if rcp_status r \<noteq> Rcp_CONTACTED then return_op (Some i)
             else case settled_status (vc_status call) of
               None \<Rightarrow> return_op (Some i)
             | Some st \<Rightarrow>
                 bind_op (transition_recipient ev i st) (\<lambda>_.
                 bind_op (log_info info) (\<lambda>_.
                 bind_op (maybe_complete_campaign ev info g (vc_business_id call)) (\<lambda>_. return_op (Some i))))))"

end
