(* ===== verification/Access.thy ===== *)
theory Access
  imports Data_Model
begin

text \<open>
  Who may call an endpoint (src/backend/app/security/authorization.py): the user of a bearer token
  and the roles of business members.  Decoding a token is a parameter.  The memberships of a user
  are loaded by a relationship of the models, which does not leave deleted rows out.
\<close>

section \<open>The current user\<close>

definition bearer_token :: "string option \<Rightarrow> err + string" where
  "bearer_token header =
     (case header of
        None \<Rightarrow> Inl (AuthenticationError ''Missing or invalid Authorization header'')
      | Some h \<Rightarrow>
          if py_prefix ''Bearer '' h then Inr (drop 7 h)
          else Inl (AuthenticationError ''Missing or invalid Authorization header''))"

definition active_user :: "uuid \<Rightarrow> db \<Rightarrow> User option" where
  "active_user i d = find_row usr_id i (filter (\<lambda>u. usr_is_active u \<and> \<not> usr_deleted u) (t_users d))"

definition get_current_user :: "(string \<Rightarrow> err + json_obj) \<Rightarrow> string option \<Rightarrow> db \<Rightarrow> err + User" where
  "get_current_user decode header d =
     bindE (bearer_token header) (\<lambda>token.
     bindE (decode token) (\<lambda>claims.
     bindE (guardE (dget_none claims ''type'' = JStr ''access'') (AuthenticationError ''Invalid token type'')) (\<lambda>_.
     bindE (guardE (truthy (dget_none claims ''sub'')) (AuthenticationError ''Token missing subject'')) (\<lambda>_.
     bindE (as_text (dget_none claims ''sub'')) (\<lambda>sub.
     bindE (requireE (AuthenticationError ''Invalid token subject'') (uuid_of_str sub)) (\<lambda>i.
     requireE (AuthenticationError ''User not found or inactive'') (active_user i d)))))))"

definition get_optional_user :: "(string \<Rightarrow> err + json_obj) \<Rightarrow> string option \<Rightarrow> db \<Rightarrow> err + User option" where
  "get_optional_user decode header d =
     (case get_current_user decode header d of
        Inr u \<Rightarrow> Inr (Some u)
      | Inl (AuthenticationError _) \<Rightarrow> Inr None
      | Inl e \<Rightarrow> Inl e)"

section \<open>Roles\<close>

fun role_hierarchy :: "BusinessMemberRole \<Rightarrow> nat" where
  "role_hierarchy Bmr_OWNER = 3"
| "role_hierarchy Bmr_ADMIN = 2"
| "role_hierarchy Bmr_STAFF = 1"

definition business_memberships :: "User \<Rightarrow> db \<Rightarrow> BusinessMember list" where
  "business_memberships u d = filter (\<lambda>m. mem_user_id m = usr_id u) (t_members d)"

definition require_business_member :: "User \<Rightarrow> db \<Rightarrow> err + User" where
  "require_business_member u d =
     bindE (guardE (business_memberships u d \<noteq> []) (AuthorizationError ''Business membership required'')) (\<lambda>_. Inr u)"

definition require_business_role :: "BusinessMemberRole \<Rightarrow> uuid \<Rightarrow> User \<Rightarrow> db \<Rightarrow> err + BusinessMember" where
  "require_business_role minimum business_id u d =
     (case List.find (\<lambda>m. mem_business_id m = business_id) (business_memberships u d) of
        None \<Rightarrow> Inl (TenantIsolationError ''Not a member of this business'')
      | Some m \<Rightarrow>
          if role_hierarchy (mem_role m) \<ge> role_hierarchy minimum then Inr m
          else Inl (AuthorizationError ''Requires a higher role''))"

lemma require_business_role_Inr:
  "require_business_role minimum business_id u d = Inr m \<Longrightarrow>
     m \<in> set (t_members d) \<and> mem_user_id m = usr_id u \<and> mem_business_id m = business_id \<and>
     role_hierarchy (mem_role m) \<ge> role_hierarchy minimum"
  by (auto simp: require_business_role_def business_memberships_def find_Some_iff split: option.splits if_splits
      dest!: nth_mem)

end
