(* ===== verification/Voice_Api.thy ===== *)
theory Voice_Api
  imports Voice_Agent Voice_Campaigns Access
begin

text \<open>
  The endpoints of calls, the call agent, escalations and campaigns, and the callbacks of the
  telephone services (src/backend/app/api/v1/voice.py, with the TwiML documents of
  src/backend/app/domain/voice/twiml.py and the signatures of
  src/backend/app/adapters/voice/twilio_security.py).

  A request commits what its session has done when it returns and rolls it back when it raises; the
  provider has then still received what it has been sent.  Decoding of tokens, keyed hashes, the
  decoding of JSON and the encoding of forms are parameters.
\<close>

section \<open>Requests\<close>

definition in_request :: "'a vop \<Rightarrow> 'a vop" where
  "in_request f s =
     (case f s of
        (Inr x, s1) \<Rightarrow> (Inr x, s1)
      | (Inl e, s1) \<Rightarrow> (Inl e, s\<lparr>vd_dialled := vd_dialled s1\<rparr>))"

definition found :: "string \<Rightarrow> 'a option \<Rightarrow> err + 'a" where
  "found what r = requireE (HTTPException 404 (what @ '' not found'')) r"

text \<open>The member of a business that an endpoint requires.\<close>

definition member_of :: "BusinessMemberRole \<Rightarrow> uuid \<Rightarrow> User \<Rightarrow> BusinessMember vop" where
  "member_of role business_id u = core_read (require_business_role role business_id u)"

definition business_call :: "uuid \<Rightarrow> uuid \<Rightarrow> VoiceCall vop" where
  "business_call call_id business_id = read_op (\<lambda>s. found ''Call'' (call_of_business call_id business_id s))"

definition business_campaign :: "uuid \<Rightarrow> uuid \<Rightarrow> CommunicationCampaign vop" where
  "business_campaign campaign_id business_id =
     read_op (\<lambda>s. found ''Campaign'' (campaign_of_business campaign_id business_id s))"

section \<open>Configuration of the agent\<close>

record config_update =
  cu_enabled :: "bool option"
  cu_transactional_calling_enabled :: "bool option"
  cu_marketing_calling_enabled :: "bool option"
  cu_default_from_number :: "string option"
  cu_provider_reference :: "string option"
  cu_timezone :: "string option"
  cu_max_attempts :: "int option"
  cu_retry_interval_seconds :: "int option"
  cu_allowed_calling_hours :: "json_obj option"
  cu_quiet_periods :: "json_obj list option"
  cu_max_daily_attempts :: "int option"
  cu_max_weekly_attempts :: "int option"
  cu_customer_frequency_limits :: "json_obj option"
  cu_human_escalation_enabled :: "bool option"
  cu_recording_enabled :: "bool option"
  cu_transcription_enabled :: "bool option"
  cu_agent_instructions :: "string option"
  cu_webhook_signature_secret :: "string option"

definition given :: "'a option \<Rightarrow> 'a \<Rightarrow> 'a" where
  "given new old = (case new of None \<Rightarrow> old | Some x \<Rightarrow> x)"

definition given_opt :: "'a option \<Rightarrow> 'a option \<Rightarrow> 'a option" where
  "given_opt new old = (if new = None then old else new)"

definition update_config :: "config_update \<Rightarrow> CallAgentConfiguration \<Rightarrow> CallAgentConfiguration" where
  "update_config u a =
     a\<lparr>ac_enabled := given (cu_enabled u) (ac_enabled a),
       ac_transactional_calling_enabled := given (cu_transactional_calling_enabled u) (ac_transactional_calling_enabled a),
       ac_marketing_calling_enabled := given (cu_marketing_calling_enabled u) (ac_marketing_calling_enabled a),
       ac_default_from_number := given_opt (cu_default_from_number u) (ac_default_from_number a),
       ac_provider_reference := given_opt (cu_provider_reference u) (ac_provider_reference a),
       ac_timezone := given_opt (cu_timezone u) (ac_timezone a),
       ac_max_attempts := given (cu_max_attempts u) (ac_max_attempts a),
       ac_retry_interval_seconds := given (cu_retry_interval_seconds u) (ac_retry_interval_seconds a),
       ac_allowed_calling_hours := given (cu_allowed_calling_hours u) (ac_allowed_calling_hours a),
       ac_quiet_periods := given (cu_quiet_periods u) (ac_quiet_periods a),
       ac_max_daily_attempts := given_opt (cu_max_daily_attempts u) (ac_max_daily_attempts a),
       ac_max_weekly_attempts := given_opt (cu_max_weekly_attempts u) (ac_max_weekly_attempts a),
       ac_customer_frequency_limits := given (cu_customer_frequency_limits u) (ac_customer_frequency_limits a),
       ac_human_escalation_enabled := given (cu_human_escalation_enabled u) (ac_human_escalation_enabled a),
       ac_recording_enabled := given (cu_recording_enabled u) (ac_recording_enabled a),
       ac_transcription_enabled := given (cu_transcription_enabled u) (ac_transcription_enabled a),
       ac_agent_instructions := given_opt (cu_agent_instructions u) (ac_agent_instructions a),
       ac_webhook_signature_secret := given_opt (cu_webhook_signature_secret u) (ac_webhook_signature_secret a)\<rparr>"

text \<open>The defaults of the columns.\<close>

definition default_config :: "uuid \<Rightarrow> uuid \<Rightarrow> CallAgentConfiguration" where
  "default_config i business_id =
     \<lparr>ac_id = i, ac_business_id = business_id, ac_enabled = False, ac_transactional_calling_enabled = False,
      ac_marketing_calling_enabled = False, ac_default_from_number = None, ac_provider_reference = None, ac_timezone = None,
      ac_max_attempts = 3, ac_retry_interval_seconds = 300, ac_allowed_calling_hours = [], ac_quiet_periods = [],
      ac_max_daily_attempts = None, ac_max_weekly_attempts = None, ac_customer_frequency_limits = [],
      ac_human_escalation_enabled = True, ac_recording_enabled = False, ac_transcription_enabled = False,
      ac_agent_instructions = None, ac_webhook_signature_secret = None, ac_deleted = False\<rparr>"

definition upsert_config :: "uuid \<Rightarrow> config_update \<Rightarrow> voice_db \<Rightarrow> err + uuid \<times> voice_db" where
  "upsert_config business_id u s =
     bindE (config_for_business business_id s) (\<lambda>existing.
     Inr (case existing of
       Some a \<Rightarrow> (ac_id a, s\<lparr>t_agent_configs := upd_row ac_id (ac_id a) (update_config u) (t_agent_configs s)\<rparr>)
     | None \<Rightarrow> (next_id s, core_used (s\<lparr>t_agent_configs :=
                  t_agent_configs s @ [update_config u (default_config (next_id s) business_id)]\<rparr>))))"

definition upsert_agent_config :: "User \<Rightarrow> uuid \<Rightarrow> config_update \<Rightarrow> uuid vop" where
  "upsert_agent_config user business_id u =
     in_request (bind_op (member_of Bmr_ADMIN business_id user) (\<lambda>_. lift_op (upsert_config business_id u)))"

definition get_agent_config :: "User \<Rightarrow> uuid \<Rightarrow> CallAgentConfiguration vop" where
  "get_agent_config user business_id =
     in_request (bind_op (member_of Bmr_STAFF business_id user) (\<lambda>_.
       read_op (\<lambda>s. bindE (config_for_business business_id s) (\<lambda>a.
         requireE (HTTPException 404 ''Call Agent not configured'') a))))"

section \<open>Calls\<close>

record voice_settings =
  vst_voice_provider :: string
  vst_twilio_auth_token :: string
  vst_public_base_url :: string

definition public_url :: "voice_settings \<Rightarrow> string \<Rightarrow> uuid \<Rightarrow> string" where
  "public_url st path i =
     rev (dropWhile (\<lambda>c. c = CHR ''/'') (rev (vst_public_base_url st))) @ ''/api/v1/webhooks/voice/'' @ path @ ''/'' @ nat_str i"

definition twiml_url :: "voice_settings \<Rightarrow> uuid \<Rightarrow> string" where
  "twiml_url st = public_url st ''twilio/twiml''"

definition gather_url :: "voice_settings \<Rightarrow> uuid \<Rightarrow> string" where
  "gather_url st = public_url st ''twilio/gather''"

definition vonage_input_url :: "voice_settings \<Rightarrow> uuid \<Rightarrow> string" where
  "vonage_input_url st = public_url st ''vonage/input''"

text \<open>\<open>hex\<close> is the random part of a key that the request does not give.\<close>

definition request_call_endpoint ::
  "env \<Rightarrow> bool \<Rightarrow> comm_provider \<Rightarrow> voice_settings \<Rightarrow> string \<Rightarrow> User \<Rightarrow> uuid \<Rightarrow> call_request \<Rightarrow> string option \<Rightarrow> bool \<Rightarrow> uuid vop" where
  "request_call_endpoint ev info p st hex user business_id q key initiate =
     in_request
       (bind_op (member_of Bmr_STAFF business_id user) (\<lambda>m.
        let actor = Some (mem_user_id m);
            q = q\<lparr>cq_provider := cpr_name p,
                  cq_idempotency_key := the (or_text key (Some (''api:'' @ nat_str (mem_user_id m) @ '':'' @ hex)))\<rparr>
        in
        bind_op (request_call ev info business_id q actor None) (\<lambda>i.
        bind_op (read_op (call_object i)) (\<lambda>c.
        bind_op (if vc_status c = Call_REQUESTED then authorize_call ev info i actor None None else return_op ()) (\<lambda>_.
        bind_op (if initiate then initiate_call ev info p i actor (Some (twiml_url st i)) else return_op ()) (\<lambda>_.
        return_op i))))))"

definition list_calls_endpoint ::
  "User \<Rightarrow> uuid \<Rightarrow> string option \<Rightarrow> string option \<Rightarrow> string option \<Rightarrow> nat \<Rightarrow> nat \<Rightarrow> VoiceCall list vop" where
  "list_calls_endpoint user business_id status purpose call_type limit offset =
     in_request (bind_op (member_of Bmr_STAFF business_id user) (\<lambda>_.
       read_op (\<lambda>s. Inr (calls_for_business business_id call_type purpose status limit offset s))))"

definition get_call_endpoint :: "User \<Rightarrow> uuid \<Rightarrow> uuid \<Rightarrow> VoiceCall vop" where
  "get_call_endpoint user business_id call_id =
     in_request (bind_op (member_of Bmr_STAFF business_id user) (\<lambda>_. business_call call_id business_id))"

definition cancel_call_endpoint :: "bool \<Rightarrow> User \<Rightarrow> uuid \<Rightarrow> uuid \<Rightarrow> string option \<Rightarrow> unit vop" where
  "cancel_call_endpoint info user business_id call_id reason =
     in_request (bind_op (member_of Bmr_STAFF business_id user) (\<lambda>m.
       bind_op (business_call call_id business_id) (\<lambda>_.
       cancel_call info call_id (Some (mem_user_id m)) reason)))"

section \<open>Conversations\<close>

definition agent_turn_endpoint ::
  "env \<Rightarrow> bool \<Rightarrow> ai_model \<Rightarrow> User \<Rightarrow> uuid \<Rightarrow> uuid \<Rightarrow> string \<Rightarrow> turn_result vop" where
  "agent_turn_endpoint ev info ai user business_id call_id utterance =
     in_request (bind_op (member_of Bmr_STAFF business_id user) (\<lambda>m.
       bind_op (business_call call_id business_id) (\<lambda>_.
       handle_turn ev info ai call_id utterance (Some (mem_user_id m)))))"

definition record_outcome_endpoint :: "User \<Rightarrow> uuid \<Rightarrow> uuid \<Rightarrow> string \<Rightarrow> string option \<Rightarrow> uuid vop" where
  "record_outcome_endpoint user business_id call_id outcome summary =
     in_request (bind_op (member_of Bmr_STAFF business_id user) (\<lambda>_.
       bind_op (business_call call_id business_id) (\<lambda>_. record_outcome call_id outcome summary)))"

section \<open>Escalations\<close>

definition list_escalations_endpoint :: "User \<Rightarrow> uuid \<Rightarrow> uuid \<Rightarrow> VoiceCallEscalation list vop" where
  "list_escalations_endpoint user business_id call_id =
     in_request (bind_op (member_of Bmr_STAFF business_id user) (\<lambda>_.
       bind_op (business_call call_id business_id) (\<lambda>_.
       read_op (\<lambda>s. Inr (case escalation_for_call call_id s of None \<Rightarrow> [] | Some e \<Rightarrow> [e])))))"

definition create_escalation_endpoint :: "env \<Rightarrow> bool \<Rightarrow> User \<Rightarrow> uuid \<Rightarrow> uuid \<Rightarrow> string \<Rightarrow> VoiceCallEscalation vop" where
  "create_escalation_endpoint ev info user business_id call_id reason =
     in_request (bind_op (member_of Bmr_STAFF business_id user) (\<lambda>m.
       bind_op (business_call call_id business_id) (\<lambda>_.
       bind_op (escalate_call ev info call_id reason (Some (mem_user_id m))) (\<lambda>_.
       read_op (\<lambda>s. requireE (HTTPException 500 ''AssertionError'') (escalation_for_call call_id s))))))"

definition business_escalation :: "uuid \<Rightarrow> uuid \<Rightarrow> VoiceCallEscalation vop" where
  "business_escalation business_id escalation_id =
     read_op (\<lambda>s. found ''Escalation'' (escalation_of_business escalation_id business_id s))"

text \<open>The call in the path of these endpoints is not looked at.\<close>

definition assign_escalation_endpoint :: "User \<Rightarrow> uuid \<Rightarrow> uuid \<Rightarrow> uuid \<Rightarrow> uuid \<Rightarrow> unit vop" where
  "assign_escalation_endpoint user business_id call_id escalation_id assigned_member_id =
     in_request (bind_op (member_of Bmr_STAFF business_id user) (\<lambda>m.
       bind_op (business_escalation business_id escalation_id) (\<lambda>_.
       bind_op (core_read (\<lambda>d. found ''Assigned member'' (find_row mem_id assigned_member_id
                  (filter (\<lambda>x. mem_business_id x = business_id \<and> \<not> mem_deleted x) (t_members d))))) (\<lambda>_.
       assign_escalation escalation_id assigned_member_id (Some (mem_user_id m))))))"

definition accept_escalation_endpoint :: "env \<Rightarrow> User \<Rightarrow> uuid \<Rightarrow> uuid \<Rightarrow> uuid \<Rightarrow> unit vop" where
  "accept_escalation_endpoint ev user business_id call_id escalation_id =
     in_request (bind_op (member_of Bmr_STAFF business_id user) (\<lambda>m.
       bind_op (business_escalation business_id escalation_id) (\<lambda>_.
       accept_escalation ev escalation_id (Some (mem_user_id m)))))"

definition resolve_escalation_endpoint :: "env \<Rightarrow> User \<Rightarrow> uuid \<Rightarrow> uuid \<Rightarrow> uuid \<Rightarrow> string option \<Rightarrow> unit vop" where
  "resolve_escalation_endpoint ev user business_id call_id escalation_id notes =
     in_request (bind_op (member_of Bmr_STAFF business_id user) (\<lambda>m.
       bind_op (business_escalation business_id escalation_id) (\<lambda>_.
       resolve_escalation ev escalation_id notes (Some (mem_user_id m)))))"

definition cancel_escalation_endpoint :: "User \<Rightarrow> uuid \<Rightarrow> uuid \<Rightarrow> uuid \<Rightarrow> string option \<Rightarrow> unit vop" where
  "cancel_escalation_endpoint user business_id call_id escalation_id reason =
     in_request (bind_op (member_of Bmr_STAFF business_id user) (\<lambda>m.
       bind_op (business_escalation business_id escalation_id) (\<lambda>_.
       cancel_escalation escalation_id (Some (mem_user_id m)) reason)))"

section \<open>Campaigns\<close>

definition create_campaign_endpoint ::
  "env \<Rightarrow> bool \<Rightarrow> User \<Rightarrow> uuid \<Rightarrow> string \<Rightarrow> string \<Rightarrow> string option \<Rightarrow> timestamp option \<Rightarrow> timestamp option \<Rightarrow> uuid option \<Rightarrow> uuid vop" where
  "create_campaign_endpoint ev info user business_id name purpose description start_at end_at brain =
     in_request (bind_op (member_of Bmr_ADMIN business_id user) (\<lambda>m.
       create_campaign ev info business_id name ''VOICE'' purpose description start_at end_at brain (Some (mem_user_id m))))"

definition list_campaigns_endpoint ::
  "User \<Rightarrow> uuid \<Rightarrow> string option \<Rightarrow> string option \<Rightarrow> nat \<Rightarrow> nat \<Rightarrow> CommunicationCampaign list vop" where
  "list_campaigns_endpoint user business_id status purpose limit offset =
     in_request (bind_op (member_of Bmr_STAFF business_id user) (\<lambda>_.
       read_op (\<lambda>s. Inr (campaigns_for_business business_id status None purpose limit offset s))))"

definition get_campaign_endpoint :: "User \<Rightarrow> uuid \<Rightarrow> uuid \<Rightarrow> CommunicationCampaign vop" where
  "get_campaign_endpoint user business_id campaign_id =
     in_request (bind_op (member_of Bmr_STAFF business_id user) (\<lambda>_. business_campaign campaign_id business_id))"

definition transition_campaign_endpoint :: "env \<Rightarrow> bool \<Rightarrow> User \<Rightarrow> uuid \<Rightarrow> uuid \<Rightarrow> string \<Rightarrow> unit vop" where
  "transition_campaign_endpoint ev info user business_id campaign_id status =
     in_request (bind_op (member_of Bmr_ADMIN business_id user) (\<lambda>_.
       bind_op (business_campaign campaign_id business_id) (\<lambda>_.
       let target = upper status in
       if target = CampaignStatus_value Cam_ACTIVE then activate ev info campaign_id
       else bind_op (read_op (\<lambda>_. requireE (ValueError ''not a valid CampaignStatus'') (CampaignStatus_of target))) (\<lambda>st.
            transition_campaign info campaign_id st))))"

definition add_campaign_recipient_endpoint :: "env \<Rightarrow> User \<Rightarrow> uuid \<Rightarrow> uuid \<Rightarrow> string \<Rightarrow> uuid option \<Rightarrow> uuid vop" where
  "add_campaign_recipient_endpoint ev user business_id campaign_id phone customer =
     in_request (bind_op (member_of Bmr_ADMIN business_id user) (\<lambda>_.
       bind_op (business_campaign campaign_id business_id) (\<lambda>_.
       add_recipient ev campaign_id phone customer)))"

definition list_campaign_recipients_endpoint :: "User \<Rightarrow> uuid \<Rightarrow> uuid \<Rightarrow> CampaignRecipient list vop" where
  "list_campaign_recipients_endpoint user business_id campaign_id =
     in_request (bind_op (member_of Bmr_STAFF business_id user) (\<lambda>_.
       bind_op (business_campaign campaign_id business_id) (\<lambda>_.
       read_op (\<lambda>s. Inr (recipients_for_campaign campaign_id s)))))"

definition execute_campaign_endpoint ::
  "env \<Rightarrow> bool \<Rightarrow> zones \<Rightarrow> comm_provider \<Rightarrow> (uuid \<Rightarrow> CampaignStatus option) \<Rightarrow> User \<Rightarrow> uuid \<Rightarrow> uuid \<Rightarrow> campaign_results vop" where
  "execute_campaign_endpoint ev info zi p elsewhere user business_id campaign_id =
     in_request (bind_op (member_of Bmr_ADMIN business_id user) (\<lambda>m.
       bind_op (business_campaign campaign_id business_id) (\<lambda>_.
       process_campaign ev info zi p elsewhere campaign_id (Some (mem_user_id m)))))"

section \<open>Status callbacks\<close>

definition first_of :: "json list \<Rightarrow> json \<Rightarrow> json" where
  "first_of vs dflt = (case List.find truthy vs of None \<Rightarrow> dflt | Some v \<Rightarrow> v)"

definition extract_voice_event :: "string \<Rightarrow> json_obj \<Rightarrow> string \<times> string" where
  "extract_voice_event new_id payload =
     (py_str (first_of [dget_none payload ''CallSid'', dget_none payload ''call_sid'', dget_none payload ''CallUUID''] (JStr new_id)),
      py_str (first_of [dget_none payload ''CallStatus'', dget_none payload ''Status''] (JStr ''unknown'')))"

definition webhook_secret :: "VoiceCall option \<Rightarrow> voice_db \<Rightarrow> err + string option" where
  "webhook_secret call s =
     (case call of
        None \<Rightarrow> Inr None
      | Some c \<Rightarrow> bindE (config_for_business (vc_business_id c) s) (\<lambda>a.
          Inr (case a of None \<Rightarrow> None | Some a \<Rightarrow> ac_webhook_signature_secret a)))"

text \<open>\<open>body\<close> is the raw body and \<open>decoded\<close> what it decodes to, if anything.\<close>

definition receive_voice_webhook ::
  "env \<Rightarrow> bool \<Rightarrow> (string \<Rightarrow> string \<Rightarrow> string) \<Rightarrow> string \<Rightarrow> string \<Rightarrow> string \<Rightarrow> json option \<Rightarrow> (string \<times> string) list \<Rightarrow> webhook_answer vop" where
  "receive_voice_webhook ev info hmac new_id provider body decoded headers =
     in_request
       (bind_op (read_op (\<lambda>_. requireE (HTTPException 400 ''Invalid JSON payload'') decoded)) (\<lambda>v.
        bind_op (read_op (\<lambda>_. as_object v)) (\<lambda>payload.
        let (sid, status) = extract_voice_event new_id payload in
        bind_op (read_op (\<lambda>s. Inr (resolve_call sid s))) (\<lambda>call.
        bind_op (if provider = ''mock'' then return_op None else read_op (webhook_secret call)) (\<lambda>secret.
        bind_op (check_op (provider = ''mock'' \<or> verify_webhook_signature hmac provider body headers secret)
                   (HTTPException 401 ''Invalid webhook signature'')) (\<lambda>_.
        bind_op (process_webhook_event ev info provider (compose_voice_event_id sid status) status payload (map_option vc_id call)) (\<lambda>r.
        bind_op (log_info info) (\<lambda>_. return_op r))))))))"

section \<open>TwiML\<close>

definition escape_text :: "string \<Rightarrow> string" where
  "escape_text t = concat (map (\<lambda>c. if c = CHR ''&'' then ''&amp;'' else if c = CHR ''<'' then ''&lt;''
     else if c = CHR ''>'' then ''&gt;'' else [c]) t)"

definition escape_attribute :: "string \<Rightarrow> string" where
  "escape_attribute t = concat (map (\<lambda>c. if c = CHR 0x22 then ''&quot;'' else if c = CHR 0x0D then ''&#13;''
     else if c = CHR 0x0A then ''&#10;'' else if c = CHR 0x09 then ''&#09;'' else escape_text [c]) t)"

definition xml_attribute :: "string \<times> string \<Rightarrow> string" where
  "xml_attribute a = '' '' @ fst a @ ''='' @ [CHR 0x22] @ escape_attribute (snd a) @ [CHR 0x22]"

definition xml_element :: "string \<Rightarrow> (string \<times> string) list \<Rightarrow> string \<Rightarrow> string" where
  "xml_element tag attributes content =
     ''<'' @ tag @ concat (map xml_attribute attributes) @
       (if content = [] then '' />'' else ''>'' @ content @ ''</'' @ tag @ ''>'')"

definition gather_response :: "string \<Rightarrow> string \<Rightarrow> string" where
  "gather_response say_text url =
     xml_element ''Response'' []
       (xml_element ''Say'' [] (escape_text say_text) @
        xml_element ''Gather'' [(''input'', ''speech''), (''action'', url), (''method'', ''POST''), (''speechTimeout'', ''auto'')] [])"

definition say_and_hangup_response :: "string \<Rightarrow> string" where
  "say_and_hangup_response say_text =
     xml_element ''Response'' [] (xml_element ''Say'' [] (escape_text say_text) @ xml_element ''Hangup'' [] [])"

definition hangup_response :: string where
  "hangup_response = xml_element ''Response'' [] (xml_element ''Hangup'' [] [])"

definition retry_gather_response :: "string \<Rightarrow> string" where
  "retry_gather_response url =
     gather_response (''I didn'' @ [CHR 0x27] @ ''t catch that. Could you please repeat it?'') url"

definition error_response :: "string option \<Rightarrow> string" where
  "error_response message =
     say_and_hangup_response (case message of None \<Rightarrow> ''An error occurred. Please try again later.'' | Some m \<Rightarrow> m)"

definition twilio_xml :: "string \<Rightarrow> string" where
  "twilio_xml t =
     ''<?xml version='' @ [CHR 0x22] @ ''1.0'' @ [CHR 0x22] @ '' encoding='' @ [CHR 0x22] @ ''UTF-8'' @ [CHR 0x22] @ ''?>'' @ t"

section \<open>Twilio's conversation\<close>

text \<open>
  \<open>sign\<close> is the base64 of an HMAC-SHA256 under a key, \<open>encode\<close> encodes a form.  The form is given in
  the order of its keys.
\<close>

definition verify_twilio_signature ::
  "(string \<Rightarrow> string \<Rightarrow> string) \<Rightarrow> ((string \<times> string) list \<Rightarrow> string) \<Rightarrow> string \<Rightarrow> (string \<times> string) list \<Rightarrow> string \<Rightarrow> string \<Rightarrow> bool" where
  "verify_twilio_signature sign encode url params token signature =
     (token \<noteq> [] \<and> signature \<noteq> [] \<and>
      signature = sign token (url @ (if params = [] then [] else encode (sort_key fst params))))"

record twilio_request =
  tw_call_id :: uuid
  tw_path :: string
  tw_signature :: string
  tw_form :: "(string \<times> string) list"

record twilio =
  tw_sign :: "string \<Rightarrow> string \<Rightarrow> string"
  tw_encode :: "(string \<times> string) list \<Rightarrow> string"
  tw_settings :: voice_settings

definition verify_twilio_request :: "twilio \<Rightarrow> twilio_request \<Rightarrow> bool" where
  "verify_twilio_request w r =
     (vst_twilio_auth_token (tw_settings w) \<noteq> [] \<and> tw_signature r \<noteq> [] \<and>
      verify_twilio_signature (tw_sign w) (tw_encode w)
        (rev (dropWhile (\<lambda>c. c = CHR ''/'') (rev (vst_public_base_url (tw_settings w)))) @ tw_path r) (tw_form r)
        (vst_twilio_auth_token (tw_settings w)) (tw_signature r))"

definition refused :: "twilio \<Rightarrow> twilio_request \<Rightarrow> bool" where
  "refused w r \<longleftrightarrow>
     vst_voice_provider (tw_settings w) = ''twilio'' \<and> vst_twilio_auth_token (tw_settings w) \<noteq> [] \<and> \<not> verify_twilio_request w r"

definition form_text :: "twilio_request \<Rightarrow> string \<Rightarrow> string option" where
  "form_text r k = map_of (tw_form r) k"

definition form_reference :: "twilio_request \<Rightarrow> string option" where
  "form_reference r = or_text (form_text r ''CallSid'') (or_text (form_text r ''CallUUID'') None)"

definition live_call :: "uuid \<Rightarrow> voice_db \<Rightarrow> VoiceCall option" where
  "live_call i s = List.find (\<lambda>c. vc_id c = i) (live_calls s)"

definition resolve_call_for_twiml :: "uuid \<Rightarrow> string option \<Rightarrow> voice_db \<Rightarrow> VoiceCall option" where
  "resolve_call_for_twiml call_id sid s =
     (case sid of
        None \<Rightarrow> live_call call_id s
      | Some ref \<Rightarrow>
          (case List.find (\<lambda>c. vc_provider_reference c = Some ref) (live_calls s) of
             Some c \<Rightarrow> if vc_id c = call_id then Some c else None
           | None \<Rightarrow> live_call call_id s))"

definition TWIML_TERMINAL_STATUSES :: "CallStatus list" where
  "TWIML_TERMINAL_STATUSES =
     [Call_COMPLETED, Call_FAILED, Call_NO_ANSWER, Call_BUSY, Call_DECLINED, Call_CANCELLED, Call_EXPIRED, Call_ESCALATED]"

text \<open>These are the statuses without transitions.\<close>

lemma TWIML_TERMINAL_STATUSES_iff: "st \<in> set TWIML_TERMINAL_STATUSES \<longleftrightarrow> TERMINAL_CALL_STATUS st"
  by (cases st) (simp_all add: TWIML_TERMINAL_STATUSES_def TERMINAL_CALL_STATUS_def)

text \<open>What a callback that finds a call ringing makes of it.\<close>

definition drive_to_connected :: "env \<Rightarrow> bool \<Rightarrow> VoiceCall \<Rightarrow> string \<Rightarrow> unit vop" where
  "drive_to_connected ev info c reason =
     (if vc_status c = Call_INITIATING then
        bind_op (mark_ringing info (vc_id c) None (Some reason)) (\<lambda>_. mark_connected ev info (vc_id c) None (Some reason))
      else if vc_status c = Call_RINGING then mark_connected ev info (vc_id c) None (Some reason)
      else return_op ())"

text \<open>The session of the call, begun when there is none: an exception is swallowed and False returned.\<close>

definition ensure_session :: "env \<Rightarrow> bool \<Rightarrow> uuid \<Rightarrow> bool vop" where
  "ensure_session ev info i =
     bind_op (read_op (active_session i)) (\<lambda>v.
     if v \<noteq> None then return_op True
     else catch_op (bind_op (begin_session ev info i None) (\<lambda>_. return_op True)) (\<lambda>_. return_op False))"

definition greeting_of :: "VoiceCall \<Rightarrow> db \<Rightarrow> string" where
  "greeting_of c d =
     ''Hello, this is '' @ (case find_row biz_id (vc_business_id c) (t_businesses d) of None \<Rightarrow> ''the business'' | Some b \<Rightarrow> biz_name b) @
     ''. Please tell me how I can help you today.''"

definition twilio_twiml_webhook :: "env \<Rightarrow> bool \<Rightarrow> twilio \<Rightarrow> twilio_request \<Rightarrow> string vop" where
  "twilio_twiml_webhook ev info w r =
     in_request
       (if refused w r then return_op (twilio_xml (error_response (Some ''Unauthorized.''))) else
        bind_op (read_op (\<lambda>s. Inr (resolve_call_for_twiml (tw_call_id r) (form_reference r) s))) (\<lambda>call.
        case call of
          None \<Rightarrow> return_op (twilio_xml (error_response None))
        | Some c \<Rightarrow>
            if vc_status c \<in> set TWIML_TERMINAL_STATUSES then return_op (twilio_xml hangup_response)
            else
            bind_op (drive_to_connected ev info c ''twilio twiml webhook'') (\<lambda>_.
            bind_op (ensure_session ev info (vc_id c)) (\<lambda>ready.
            if \<not> ready then return_op (twilio_xml (error_response (Some ''Sorry, the call agent is unavailable.'')))
            else core_read (\<lambda>d. Inr (twilio_xml (gather_response (greeting_of c d) (gather_url (tw_settings w) (vc_id c)))))))))"

text \<open>A turn of the conversation whose exceptions are swallowed: then there is no result.\<close>

definition spoken_turn :: "env \<Rightarrow> bool \<Rightarrow> ai_model \<Rightarrow> uuid \<Rightarrow> string \<Rightarrow> (turn_result \<times> CallStatus) option vop" where
  "spoken_turn ev info ai i speech =
     catch_op
       (bind_op (handle_turn ev info ai i speech None) (\<lambda>r.
        bind_op (read_op (call_object i)) (\<lambda>c. return_op (Some (r, vc_status c)))))
       (\<lambda>_. return_op None)"

definition turn_ends :: "turn_result \<Rightarrow> CallStatus \<Rightarrow> bool" where
  "turn_ends r st \<longleftrightarrow> tr_action r = Act_END_CALL \<or> tr_action r = Act_REQUEST_HUMAN \<or> st \<in> set TWIML_TERMINAL_STATUSES"

definition twilio_gather_callback :: "env \<Rightarrow> bool \<Rightarrow> ai_model \<Rightarrow> twilio \<Rightarrow> twilio_request \<Rightarrow> string vop" where
  "twilio_gather_callback ev info ai w r =
     in_request
       (if refused w r then return_op (twilio_xml (error_response (Some ''Unauthorized.''))) else
        bind_op (read_op (\<lambda>s. Inr (resolve_call_for_twiml (tw_call_id r) (form_reference r) s))) (\<lambda>call.
        case call of
          None \<Rightarrow> return_op (twilio_xml (error_response None))
        | Some c \<Rightarrow>
            let speech = strip (the (or_text (form_text r ''SpeechResult'') (Some [])));
                url = gather_url (tw_settings w) (vc_id c)
            in
            if vc_status c \<in> set TWIML_TERMINAL_STATUSES then return_op (twilio_xml hangup_response)
            else if speech = [] then return_op (twilio_xml (retry_gather_response url))
            else
            bind_op (spoken_turn ev info ai (vc_id c) speech) (\<lambda>t.
            return_op (twilio_xml (case t of
                None \<Rightarrow> error_response (Some ''Sorry, I encountered an error. Please try again.'')
              | Some (t, st) \<Rightarrow>
                  if turn_ends t st then say_and_hangup_response (tr_reply t) else gather_response (tr_reply t) url)))))"

text \<open>None is the answer for a call that is not found.\<close>

definition twilio_status_callback :: "env \<Rightarrow> bool \<Rightarrow> twilio \<Rightarrow> twilio_request \<Rightarrow> webhook_answer option vop" where
  "twilio_status_callback ev info w r =
     in_request
       (let sid = the (or_text (form_reference r) (Some []));
            status = the (or_text (form_text r ''CallStatus'') (Some ''unknown''))
        in
        bind_op (check_op (\<not> refused w r) (HTTPException 401 ''Invalid webhook signature'')) (\<lambda>_.
        bind_op (read_op (\<lambda>s. Inr (case resolve_call sid s of Some c \<Rightarrow> Some c | None \<Rightarrow> live_call (tw_call_id r) s))) (\<lambda>call.
        case call of
          None \<Rightarrow> return_op None
        | Some c \<Rightarrow>
            bind_op (process_webhook_event ev info ''twilio'' (compose_voice_event_id sid status) status
                       (map (\<lambda>(k, v). (k, JStr v)) (tw_form r)) (Some (vc_id c))) (\<lambda>a.
            return_op (Some a)))))"

section \<open>Vonage's conversation\<close>

definition ncco_talk :: "string \<Rightarrow> json" where
  "ncco_talk t = JObj [(''action'', JStr ''talk''), (''text'', JStr t)]"

definition ncco_talk_english :: "string \<Rightarrow> json" where
  "ncco_talk_english t = JObj [(''action'', JStr ''talk''), (''text'', JStr t), (''language'', JStr ''en-US'')]"

definition ncco_input :: "json_obj \<Rightarrow> string \<Rightarrow> json" where
  "ncco_input extra url =
     JObj [(''action'', JStr ''input''), (''type'', JList [JStr ''speech'']),
           (''speech'', JObj ([(''language'', JStr ''en-US''), (''endOnSilence'', JInt 2)] @ extra)),
           (''eventUrl'', JList [JStr url]), (''eventMethod'', JStr ''POST'')]"

definition ncco_hangup :: json where
  "ncco_hangup = JObj [(''action'', JStr ''hangup'')]"

definition payload_reference :: "json_obj \<Rightarrow> string option" where
  "payload_reference payload =
     (let v = first_of [dget_none payload ''uuid'', dget_none payload ''call_uuid''] JNull
      in if truthy v then Some (py_str v) else None)"

definition resolve_call_for_ncco :: "uuid \<Rightarrow> string option \<Rightarrow> voice_db \<Rightarrow> VoiceCall option" where
  "resolve_call_for_ncco = resolve_call_for_twiml"

text \<open>A body that does not decode counts as empty.\<close>

definition lenient_payload :: "json option \<Rightarrow> err + json_obj" where
  "lenient_payload decoded = (case decoded of None \<Rightarrow> Inr [] | Some v \<Rightarrow> as_object v)"

definition vonage_ncco_webhook :: "env \<Rightarrow> bool \<Rightarrow> voice_settings \<Rightarrow> uuid \<Rightarrow> json option \<Rightarrow> json list vop" where
  "vonage_ncco_webhook ev info st call_id decoded =
     in_request
       (bind_op (read_op (\<lambda>_. lenient_payload decoded)) (\<lambda>payload.
        bind_op (read_op (\<lambda>s. Inr (resolve_call_for_ncco call_id (payload_reference payload) s))) (\<lambda>call.
        case call of
          None \<Rightarrow> return_op [ncco_talk ''Sorry, this call cannot be connected. Goodbye.'']
        | Some c \<Rightarrow>
            if vc_status c \<in> set TWIML_TERMINAL_STATUSES then return_op [ncco_talk ''Goodbye.'']
            else
            bind_op (drive_to_connected ev info c ''vonage ncco webhook'') (\<lambda>_.
            bind_op (ensure_session ev info (vc_id c)) (\<lambda>ready.
            if \<not> ready then return_op [ncco_talk ''Sorry, the call agent is unavailable. Goodbye.'']
            else core_read (\<lambda>d. Inr [ncco_talk_english (greeting_of c d),
                   ncco_input [(''context'', JList [JStr ''FIELDed service call''])] (vonage_input_url st (vc_id c))]))))))"

definition transcription :: "json_obj \<Rightarrow> err + string" where
  "transcription payload =
     bindE (as_object (dget payload ''speech'' (JObj []))) (\<lambda>speech.
     let t = dget_none speech ''transcription'' in
     if truthy t then bindE (as_text t) (\<lambda>x. Inr (strip x)) else Inr [])"

definition vonage_input_webhook :: "env \<Rightarrow> bool \<Rightarrow> ai_model \<Rightarrow> voice_settings \<Rightarrow> uuid \<Rightarrow> json option \<Rightarrow> json list vop" where
  "vonage_input_webhook ev info ai st call_id decoded =
     in_request
       (bind_op (read_op (\<lambda>_. lenient_payload decoded)) (\<lambda>payload.
        bind_op (read_op (\<lambda>_. transcription payload)) (\<lambda>speech.
        bind_op (read_op (\<lambda>s. Inr (resolve_call_for_ncco call_id (payload_reference payload) s))) (\<lambda>call.
        case call of
          None \<Rightarrow> return_op [ncco_talk ''Sorry, the call could not be found. Goodbye.'']
        | Some c \<Rightarrow>
            let url = vonage_input_url st (vc_id c) in
            if vc_status c \<in> set TWIML_TERMINAL_STATUSES then return_op [ncco_talk ''Goodbye.'']
            else if speech = [] then
              return_op [ncco_talk (''Sorry, I didn'' @ [CHR 0x27] @ ''t catch that. Please try again.''), ncco_input [] url]
            else
            bind_op (spoken_turn ev info ai (vc_id c) speech) (\<lambda>t.
            return_op (case t of
                None \<Rightarrow> [ncco_talk ''Sorry, I encountered an error. Please try again.'']
              | Some (t, st) \<Rightarrow>
                  if turn_ends t st then [ncco_talk (tr_reply t), ncco_hangup]
                  else [ncco_talk_english (tr_reply t), ncco_input [] url]))))))"

definition vonage_status_map :: "string \<Rightarrow> string" where
  "vonage_status_map status =
     (case map_of [(''started'', ''initiated''), (''ringing'', ''ringing''), (''answered'', ''in-progress''),
         (''machine'', ''in-progress''), (''completed'', ''completed''), (''busy'', ''busy''), (''cancelled'', ''canceled''),
         (''failed'', ''failed''), (''rejected'', ''failed''), (''timeout'', ''no-answer''), (''unanswered'', ''no-answer'')] status of
        None \<Rightarrow> status | Some t \<Rightarrow> t)"

definition vonage_event_webhook :: "env \<Rightarrow> bool \<Rightarrow> string \<Rightarrow> uuid \<Rightarrow> json option \<Rightarrow> webhook_answer vop" where
  "vonage_event_webhook ev info new_id call_id decoded =
     in_request
       (bind_op (read_op (\<lambda>_. requireE (HTTPException 400 ''Invalid JSON payload'') decoded)) (\<lambda>v.
        bind_op (read_op (\<lambda>_. as_object v)) (\<lambda>payload.
        bind_op (read_op (\<lambda>_. as_text (dget payload ''status'' (JStr ''unknown'')))) (\<lambda>status.
        let ref = py_str (dget payload ''uuid'' (JStr new_id)); mapped = vonage_status_map status in
        bind_op (read_op (\<lambda>s. Inr (case resolve_call ref s of Some c \<Rightarrow> Some c | None \<Rightarrow> live_call call_id s))) (\<lambda>call.
        process_webhook_event ev info ''vonage'' (compose_voice_event_id ref mapped) mapped payload (map_option vc_id call))))))"

end
