(* ===== verification/Voice_Guarantees.thy ===== *)
theory Voice_Guarantees
  imports Voice_Api "HOL-Library.Sublist"
begin

text \<open>
  What the endpoints of calls guarantee: the rows of calls, attempts, sessions, escalations,
  campaigns and recipients stay and move along their transition tables only, the records of the
  marketplace are left alone, a call is dialled within its limits and not again while a dial is
  live, and a marketing call never records a transactional outcome.
\<close>

section \<open>Rows that evolve\<close>

definition rows_follow :: "('r \<Rightarrow> uuid) \<Rightarrow> ('r \<Rightarrow> 'r \<Rightarrow> bool) \<Rightarrow> 'r list \<Rightarrow> 'r list \<Rightarrow> bool" where
  "rows_follow key R rows rows' \<longleftrightarrow>
     (\<forall>i r. find_row key i rows = Some r \<longrightarrow> (\<exists>r'. find_row key i rows' = Some r' \<and> R r r'))"

locale row_order =
  fixes key :: "'r \<Rightarrow> uuid" and R :: "'r \<Rightarrow> 'r \<Rightarrow> bool"
  assumes follows_refl: "R r r"
    and follows_trans: "R r r1 \<Longrightarrow> R r1 r2 \<Longrightarrow> R r r2"
begin

lemma rows_refl: "rows_follow key R rows rows"
  by (auto simp: rows_follow_def follows_refl)

lemma rows_trans: "rows_follow key R rows rows1 \<Longrightarrow> rows_follow key R rows1 rows2 \<Longrightarrow> rows_follow key R rows rows2"
  unfolding rows_follow_def using follows_trans by blast

lemma rows_append: "rows_follow key R rows (rows @ added)"
  by (auto simp: rows_follow_def find_row_append follows_refl)

lemma rows_upd_found:
  assumes "\<And>r. key (f r) = key r" and "\<And>r. find_row key k rows = Some r \<Longrightarrow> R r (f r)"
  shows "rows_follow key R rows (upd_row key k f rows)"
  unfolding rows_follow_def
proof (intro allI impI)
  fix i r assume found: "find_row key i rows = Some r"
  show "\<exists>r'. find_row key i (upd_row key k f rows) = Some r' \<and> R r r'"
  proof (cases "i = k")
    case True
    then show ?thesis using found assms find_row_upd_row_same [of key f k rows] by auto
  next
    case False
    then show ?thesis using found assms(1) find_row_upd_row_other [of key f i k rows] by (auto simp: follows_refl)
  qed
qed

lemma rows_upd: "(\<And>r. key (f r) = key r) \<Longrightarrow> (\<And>r. R r (f r)) \<Longrightarrow> rows_follow key R rows (upd_row key k f rows)"
  by (rule rows_upd_found)

end

definition call_follows :: "VoiceCall \<Rightarrow> VoiceCall \<Rightarrow> bool" where
  "call_follows c c' \<longleftrightarrow>
     vc_business_id c' = vc_business_id c \<and> vc_customer_id c' = vc_customer_id c \<and> vc_call_type c' = vc_call_type c \<and>
     vc_purpose c' = vc_purpose c \<and> vc_to_number c' = vc_to_number c \<and> vc_idempotency_key c' = vc_idempotency_key c \<and>
     vc_from_number c' = vc_from_number c \<and> vc_campaign_id c' = vc_campaign_id c \<and> vc_deleted c' = vc_deleted c \<and>
     reach CALL_TRANSITIONS (vc_status c) (vc_status c')"

definition attempt_follows :: "VoiceCallAttempt \<Rightarrow> VoiceCallAttempt \<Rightarrow> bool" where
  "attempt_follows a a' \<longleftrightarrow>
     va_call_id a' = va_call_id a \<and> va_attempt_number a' = va_attempt_number a \<and> va_requested_at a' = va_requested_at a \<and>
     va_provider a' = va_provider a \<and> va_deleted a' = va_deleted a"

definition session_follows :: "VoiceCallSession \<Rightarrow> VoiceCallSession \<Rightarrow> bool" where
  "session_follows v v' \<longleftrightarrow>
     vs_call_id v' = vs_call_id v \<and> reach CALL_SESSION_TRANSITIONS (vs_session_status v) (vs_session_status v') \<and>
     vs_turn_count v \<le> vs_turn_count v'"

definition escalation_follows :: "VoiceCallEscalation \<Rightarrow> VoiceCallEscalation \<Rightarrow> bool" where
  "escalation_follows e e' \<longleftrightarrow>
     ve_call_id e' = ve_call_id e \<and> ve_escalation_reason e' = ve_escalation_reason e \<and>
     reach ESCALATION_TRANSITIONS (ve_escalation_status e) (ve_escalation_status e')"

definition campaign_follows :: "CommunicationCampaign \<Rightarrow> CommunicationCampaign \<Rightarrow> bool" where
  "campaign_follows g g' \<longleftrightarrow>
     cg_business_id g' = cg_business_id g \<and> cg_purpose g' = cg_purpose g \<and> reach CAMPAIGN_TRANSITIONS (cg_status g) (cg_status g')"

definition recipient_follows :: "CampaignRecipient \<Rightarrow> CampaignRecipient \<Rightarrow> bool" where
  "recipient_follows r r' \<longleftrightarrow>
     rcp_campaign_id r' = rcp_campaign_id r \<and> rcp_phone_number r' = rcp_phone_number r \<and>
     rcp_attempt_count r \<le> rcp_attempt_count r' \<and>
     reach CAMPAIGN_RECIPIENT_TRANSITIONS (rcp_status r) (rcp_status r')"

lemmas follows_defs =
  call_follows_def attempt_follows_def session_follows_def escalation_follows_def campaign_follows_def recipient_follows_def

interpretation call_rows: row_order vc_id call_follows
  by unfold_locales (auto simp: call_follows_def intro: reach_refl reach_trans)

interpretation attempt_rows: row_order va_id attempt_follows
  by unfold_locales (auto simp: attempt_follows_def)

interpretation session_rows: row_order vs_id session_follows
  by unfold_locales (auto simp: session_follows_def intro: reach_refl reach_trans)

interpretation escalation_rows: row_order ve_id escalation_follows
  by unfold_locales (auto simp: escalation_follows_def intro: reach_refl reach_trans)

interpretation campaign_rows: row_order cg_id campaign_follows
  by unfold_locales (auto simp: campaign_follows_def intro: reach_refl reach_trans)

interpretation recipient_rows: row_order rcp_id recipient_follows
  by unfold_locales (auto simp: recipient_follows_def intro: reach_refl reach_trans)

section \<open>What every operation keeps\<close>

text \<open>Of the other components' tables, events and audit rows are added, and webhooks change.\<close>

definition market_records :: "db \<Rightarrow> db" where
  "market_records d = d\<lparr>t_outbox := [], t_comm_audit := [], t_webhooks := [], fresh := 0\<rparr>"

definition core_kept :: "db \<Rightarrow> db \<Rightarrow> bool" where
  "core_kept d d' \<longleftrightarrow>
     market_records d' = market_records d \<and> prefix (t_outbox d) (t_outbox d') \<and> prefix (t_comm_audit d) (t_comm_audit d')"

lemma core_kept_refl: "core_kept d d"
  by (simp add: core_kept_def)

lemma core_kept_trans: "core_kept d d1 \<Longrightarrow> core_kept d1 d2 \<Longrightarrow> core_kept d d2"
  by (auto simp: core_kept_def intro: prefix_order.trans)

definition calls_kept :: "voice_db \<Rightarrow> voice_db \<Rightarrow> bool" where
  "calls_kept s s' \<longleftrightarrow>
     rows_follow vc_id call_follows (t_calls s) (t_calls s') \<and>
     rows_follow va_id attempt_follows (t_call_attempts s) (t_call_attempts s') \<and>
     rows_follow vs_id session_follows (t_call_sessions s) (t_call_sessions s') \<and>
     rows_follow ve_id escalation_follows (t_escalations s) (t_escalations s') \<and>
     rows_follow cg_id campaign_follows (t_campaigns s) (t_campaigns s') \<and>
     rows_follow rcp_id recipient_follows (t_campaign_recipients s) (t_campaign_recipients s') \<and>
     core_kept (vd_core s) (vd_core s') \<and> prefix (vd_dialled s) (vd_dialled s')"

lemmas rows_kept =
  call_rows.rows_refl attempt_rows.rows_refl session_rows.rows_refl escalation_rows.rows_refl campaign_rows.rows_refl
  recipient_rows.rows_refl core_kept_refl
  call_rows.rows_append attempt_rows.rows_append session_rows.rows_append escalation_rows.rows_append campaign_rows.rows_append
  recipient_rows.rows_append

interpretation calls_kept: session_relation calls_kept
proof
  show "calls_kept s s" for s
    by (simp add: calls_kept_def rows_kept)
  show "calls_kept s s2" if "calls_kept s s1" "calls_kept s1 s2" for s s1 s2
    using that unfolding calls_kept_def
    by (meson call_rows.rows_trans attempt_rows.rows_trans session_rows.rows_trans escalation_rows.rows_trans
        campaign_rows.rows_trans recipient_rows.rows_trans core_kept_trans prefix_order.trans)
qed

lemma core_op_kept:
  assumes "\<And>d x d'. f d = Inr (x, d') \<Longrightarrow> core_kept d d'"
  shows "calls_kept.steady (core_op f)"
  unfolding core_op_def
  by (rule calls_kept.steady_lift) (auto simp: bindE_Inr_iff calls_kept_def rows_kept dest: assms)

lemma core_read_kept: "calls_kept.steady (core_read f)"
  unfolding core_read_def by (rule calls_kept.steady_read)

lemma log_kept: "calls_kept.steady (log_info info)"
  unfolding log_info_def by (rule calls_kept.steady_read)

lemma dial_kept: "calls_kept.steady (dial p m)"
  by (simp add: calls_kept.steady_def dial_def calls_kept_def rows_kept)

lemma in_request_kept:
  assumes "calls_kept.steady f"
  shows "calls_kept.steady (in_request f)"
  unfolding calls_kept.steady_def
proof
  fix s
  obtain r s1 where r: "f s = (r, s1)" by (cases "f s")
  then have "calls_kept s s1" using calls_kept.steadyD [OF assms] by simp
  then show "calls_kept s (snd (in_request f s))"
    using r by (cases r) (simp_all add: in_request_def calls_kept_def rows_kept)
qed

lemma set_call_kept: "(\<And>c. vc_id (f c) = vc_id c) \<Longrightarrow> (\<And>c. call_follows c (f c)) \<Longrightarrow> calls_kept.steady (set_call i f)"
  unfolding set_call_def
  by (rule calls_kept.steady_write) (simp add: calls_kept_def rows_kept call_rows.rows_upd)

lemma set_attempt_kept:
  "(\<And>a. va_id (f a) = va_id a) \<Longrightarrow> (\<And>a. attempt_follows a (f a)) \<Longrightarrow> calls_kept.steady (set_attempt i f)"
  unfolding set_attempt_def
  by (rule calls_kept.steady_write) (simp add: calls_kept_def rows_kept attempt_rows.rows_upd)

lemma set_session_kept:
  "(\<And>v. vs_id (f v) = vs_id v) \<Longrightarrow> (\<And>v. session_follows v (f v)) \<Longrightarrow> calls_kept.steady (set_session i f)"
  unfolding set_session_def
  by (rule calls_kept.steady_write) (simp add: calls_kept_def rows_kept session_rows.rows_upd)

lemma set_escalation_kept:
  "(\<And>e. ve_id (f e) = ve_id e) \<Longrightarrow> (\<And>e. escalation_follows e (f e)) \<Longrightarrow> calls_kept.steady (set_escalation i f)"
  unfolding set_escalation_def
  by (rule calls_kept.steady_write) (simp add: calls_kept_def rows_kept escalation_rows.rows_upd)

lemma set_webhook_kept: "calls_kept.steady (set_webhook w f)"
  unfolding set_webhook_def by (rule core_op_kept) (auto simp: core_kept_def market_records_def)

lemma used_kept: "core_kept d (used_id d)"
  by (simp add: core_kept_def market_records_def used_id_def)

lemma change_status_kept: "calls_kept.steady (lift_op (change_status i target))"
proof (rule calls_kept.steady_lift)
  fix s x s' assume "change_status i target s = Inr (x, s')"
  then show "calls_kept s s'"
    by (auto simp: change_status_def call_object_def result_iffs calls_kept_def rows_kept call_follows_def
        intro!: call_rows.rows_upd_found reach_one split: if_splits)
qed

lemma end_session_kept: "calls_kept.steady (lift_op (end_session ev i target))"
proof (rule calls_kept.steady_lift)
  fix s x s' assume "end_session ev i target s = Inr (x, s')"
  then show "calls_kept s s'"
    by (auto simp: end_session_def session_object_def result_iffs calls_kept_def rows_kept session_follows_def
        intro!: session_rows.rows_upd_found reach_one split: if_splits)
qed

lemma change_escalation_kept: "calls_kept.steady (lift_op (change_escalation e target))"
proof (rule calls_kept.steady_lift)
  fix s x s' assume "change_escalation e target s = Inr (x, s')"
  then show "calls_kept s s'"
    by (auto simp: change_escalation_def escalation_object_def result_iffs calls_kept_def rows_kept escalation_follows_def
        intro!: escalation_rows.rows_upd_found reach_one split: if_splits)
qed

lemma change_campaign_kept: "calls_kept.steady (lift_op (change_campaign g target))"
proof (rule calls_kept.steady_lift)
  fix s x s' assume "change_campaign g target s = Inr (x, s')"
  then show "calls_kept s s'"
    by (auto simp: change_campaign_def campaign_object_def result_iffs calls_kept_def rows_kept campaign_follows_def
        intro!: campaign_rows.rows_upd_found reach_one split: if_splits)
qed

lemma change_recipient_kept: "calls_kept.steady (lift_op (change_recipient ev i target))"
proof (rule calls_kept.steady_lift)
  fix s x s' assume "change_recipient ev i target s = Inr (x, s')"
  then show "calls_kept s s'"
    by (auto simp: change_recipient_def recipient_object_def result_iffs calls_kept_def rows_kept recipient_follows_def
        moved_recipient_def Let_def intro!: recipient_rows.rows_upd_found reach_one split: if_splits)
qed

lemma insert_kept:
  "calls_kept.steady (lift_op (insert_call c))" "calls_kept.steady (lift_op (insert_participant p))"
  "calls_kept.steady (lift_op (insert_attempt a))" "calls_kept.steady (lift_op (insert_session v))"
  "calls_kept.steady (lift_op (insert_escalation e))" "calls_kept.steady (lift_op (insert_campaign g))"
  "calls_kept.steady (lift_op (insert_recipient r))"
  by (auto intro!: calls_kept.steady_lift simp: insert_call_def insert_participant_def insert_attempt_def insert_session_def
      insert_escalation_def insert_campaign_def insert_recipient_def core_used_def calls_kept_def rows_kept used_kept
      split: if_splits)

section \<open>The services\<close>

lemmas kept_intros =
  calls_kept.steady_intros core_read_kept log_kept dial_kept set_webhook_kept change_status_kept end_session_kept
  change_escalation_kept change_campaign_kept change_recipient_kept insert_kept

lemma emit_kept: "calls_kept.steady (emit_voice_event ev info b ety agg i pl slot)"
  unfolding emit_voice_event_def
  by (intro kept_intros core_op_kept)
    (auto simp: emit_business_event_def result_iffs core_kept_def market_records_def used_id_def split: if_splits)

lemma add_audit_kept: "core_kept d (add_audit a d)"
  by (simp add: core_kept_def market_records_def add_audit_def used_id_def)

lemma audit_kept:
  "calls_kept.steady (add_call_audit ety actor brain c evidence)"
  "calls_kept.steady (audit_call i ety previous new actor reason brain)"
proof -
  show *: "calls_kept.steady (add_call_audit ety actor brain c evidence)" for c evidence
    unfolding add_call_audit_def by (intro core_op_kept) (auto simp: add_audit_kept)
  show "calls_kept.steady (audit_call i ety previous new actor reason brain)"
    unfolding audit_call_def by (intro kept_intros *)
qed

lemma transition_kept: "calls_kept.steady (transition_call info i target ety actor reason brain)"
  unfolding transition_call_def by (intro kept_intros audit_kept)

lemma end_active_session_kept: "calls_kept.steady (end_active_session ev info i target)"
  unfolding end_active_session_def by (auto split: option.split intro!: kept_intros)

lemma setters_kept:
  "calls_kept.steady (set_call i (\<lambda>c. c\<lparr>vc_authorized_at := x, vc_brain_version_id := f c\<rparr>))"
  "calls_kept.steady (set_call i (\<lambda>c. c\<lparr>vc_queued_at := x\<rparr>))" "calls_kept.steady (set_call i (\<lambda>c. c\<lparr>vc_initiated_at := x\<rparr>))"
  "calls_kept.steady (set_call i (\<lambda>c. c\<lparr>vc_connected_at := x\<rparr>))" "calls_kept.steady (set_call i (\<lambda>c. c\<lparr>vc_completed_at := x\<rparr>))"
  "calls_kept.steady (set_call i (\<lambda>c. c\<lparr>vc_failed_at := x, vc_failure_code := y, vc_failure_reason := z\<rparr>))"
  "calls_kept.steady (set_call i (\<lambda>c. c\<lparr>vc_provider_reference := y\<rparr>))"
  "calls_kept.steady (set_call i (\<lambda>c. c\<lparr>vc_brain_version_id := w\<rparr>))"
  by (rule set_call_kept; simp add: call_follows_def reach_refl)+

lemma session_setters_kept:
  "calls_kept.steady (set_session i (\<lambda>v. v\<lparr>vs_human_escalation_requested := x, vs_human_escalation_at := y\<rparr>))"
  "calls_kept.steady (set_session i (\<lambda>v. v\<lparr>vs_conversation_log := z\<rparr>))"
  "calls_kept.steady (set_session i (\<lambda>v. v\<lparr>vs_collected_information := u\<rparr>))"
  "calls_kept.steady (set_session i (\<lambda>v. v\<lparr>vs_outcome := w, vs_outcome_summary := t\<rparr>))"
  "calls_kept.steady (set_session i (\<lambda>v. v\<lparr>vs_conversation_log := f v, vs_turn_count := Suc (vs_turn_count v)\<rparr>))"
  by (rule set_session_kept; simp add: session_follows_def reach_refl)+

lemma escalation_setters_kept:
  "calls_kept.steady (set_escalation i (\<lambda>e. e\<lparr>ve_assigned_member_id := x\<rparr>))"
  "calls_kept.steady (set_escalation i (\<lambda>e. e\<lparr>ve_accepted_at := y\<rparr>))"
  "calls_kept.steady (set_escalation i (\<lambda>e. e\<lparr>ve_resolved_at := y, ve_resolution_notes := z\<rparr>))"
  by (rule set_escalation_kept; simp add: escalation_follows_def reach_refl)+

lemmas lifecycle_steps =
  kept_intros emit_kept audit_kept transition_kept end_active_session_kept setters_kept session_setters_kept escalation_setters_kept

lemma lifecycle_kept:
  "calls_kept.steady (authorize_call ev info i actor reason brain)" "calls_kept.steady (queue_call ev info i actor reason)"
  "calls_kept.steady (mark_initiating ev info i actor reason)" "calls_kept.steady (mark_ringing info i actor reason)"
  "calls_kept.steady (mark_connected ev info i actor reason)" "calls_kept.steady (complete_call ev info i actor reason)"
  "calls_kept.steady (fail_call ev info i code reason actor)" "calls_kept.steady (mark_no_answer info i actor reason)"
  "calls_kept.steady (mark_busy info i actor reason)" "calls_kept.steady (mark_declined info i actor reason)"
  "calls_kept.steady (cancel_call info i actor reason)" "calls_kept.steady (expire_call info i actor reason)"
  "calls_kept.steady (start_session ev info i language reference actor)"
  unfolding authorize_call_def queue_call_def mark_initiating_def mark_ringing_def mark_connected_def complete_call_def fail_call_def
    mark_no_answer_def mark_busy_def mark_declined_def cancel_call_def expire_call_def start_session_def
  by (intro lifecycle_steps)+

lemma request_call_kept: "calls_kept.steady (request_call ev info b q actor source)"
  unfolding request_call_def by (auto split: option.split intro!: lifecycle_steps)

lemma escalate_kept: "calls_kept.steady (escalate_call ev info i reason' actor)"
proof -
  have "calls_kept.steady (mark_session_escalated ev i)"
    unfolding mark_session_escalated_def by (auto split: option.split intro!: lifecycle_steps)
  then show ?thesis
    unfolding escalate_call_def by (intro lifecycle_steps)
qed

lemma escalation_kept:
  "calls_kept.steady (assign_escalation e member actor)" "calls_kept.steady (accept_escalation ev e actor)"
  "calls_kept.steady (resolve_escalation ev e notes actor)" "calls_kept.steady (cancel_escalation e actor reason)"
proof -
  have *: "calls_kept.steady (transition_escalation e target ety actor reason)" for target ety reason
    unfolding transition_escalation_def by (auto split: option.split intro!: lifecycle_steps)
  show "calls_kept.steady (assign_escalation e member actor)" "calls_kept.steady (accept_escalation ev e actor)"
    "calls_kept.steady (resolve_escalation ev e notes actor)" "calls_kept.steady (cancel_escalation e actor reason)"
    unfolding assign_escalation_def accept_escalation_def resolve_escalation_def cancel_escalation_def
    by (intro lifecycle_steps *)+
qed

lemma attempt_kept: "calls_kept.steady (record_attempt ev i provider status)"
  unfolding record_attempt_def by (intro lifecycle_steps)

lemmas service_steps = lifecycle_steps lifecycle_kept request_call_kept escalate_kept escalation_kept attempt_kept

section \<open>Dialling and webhooks\<close>

lemma dial_outcome_kept:
  "calls_kept.steady (dial_succeeded ev info p i a r actor)" "calls_kept.steady (dial_failed ev info p i a r actor)"
proof -
  have *: "calls_kept.steady (audit_initiation_outcome p i r actor)"
    unfolding audit_initiation_outcome_def by (intro service_steps)
  have a: "calls_kept.steady (set_attempt a (\<lambda>x. x\<lparr>va_status := st, va_provider_reference := ref, va_started_at := t\<rparr>))"
    "calls_kept.steady (set_attempt a (\<lambda>x. x\<lparr>va_status := st, va_retryable := b, va_failure_code := c, va_failure_reason := e\<rparr>))"
    for st ref t b c e
    by (rule set_attempt_kept; simp add: attempt_follows_def)+
  show "calls_kept.steady (dial_succeeded ev info p i a r actor)" "calls_kept.steady (dial_failed ev info p i a r actor)"
    unfolding dial_succeeded_def dial_failed_def by (intro service_steps * a)+
qed

lemma initiate_kept: "calls_kept.steady (initiate_call ev info p i actor url)"
  unfolding initiate_call_def place_call_def prepare_dial_def by (intro service_steps dial_outcome_kept)

lemma latest_attempt_kept:
  "(\<And>a. va_id (f a) = va_id a) \<Longrightarrow> (\<And>a. attempt_follows a (f a)) \<Longrightarrow> calls_kept.steady (update_latest_attempt i f)"
  unfolding update_latest_attempt_def by (intro service_steps set_attempt_kept)

lemma sync_kept: "calls_kept.steady (sync_provider_status ev info i status actor failure)"
proof -
  have "calls_kept.steady (sync_latest_attempt ev i target reason)" for target reason
    unfolding sync_latest_attempt_def
    by (rule latest_attempt_kept) (auto simp: sync_attempt_def attempt_follows_def Let_def)
  then show ?thesis
    unfolding sync_provider_status_def apply_provider_status_def Let_def by (intro service_steps)
qed

lemma process_webhook_kept: "calls_kept.steady (process_webhook_event ev info provider ext ety payload call)"
proof -
  have noop: "calls_kept.steady (note_noop_on_attempt i t)" for i t
    unfolding note_noop_on_attempt_def by (rule latest_attempt_kept) (simp_all add: attempt_follows_def)
  have sync: "calls_kept.steady (audit_sync i provider ext ety st)" for i ety st
    unfolding audit_sync_def by (intro service_steps)
  have "calls_kept.steady (core_op (insert_webhook ev provider ext ety payload))"
    by (rule core_op_kept) (auto simp: insert_webhook_def core_kept_def market_records_def used_id_def)
  moreover have "calls_kept.steady (apply_event ev info w i provider ext ety)" for w i
    unfolding apply_event_def Let_def by (intro service_steps noop sync sync_kept)
  ultimately show ?thesis
    unfolding process_webhook_event_def by (auto split: option.split intro!: service_steps)
qed

section \<open>The agent and the campaigns\<close>

lemma agent_kept:
  "calls_kept.steady (begin_session ev info i language)" "calls_kept.steady (handle_turn ev info ai i utterance actor)"
  "calls_kept.steady (record_outcome i outcome summary)"
proof -
  have audits: "calls_kept.steady (audit_turn i action n forced)" "calls_kept.steady (audit_action i action v)" for i action n forced v
    unfolding audit_turn_def audit_action_def by (intro service_steps)+
  have act: "calls_kept.steady (apply_action ty brain config v row action proposal)" for ty brain config v row action proposal
    unfolding apply_action_def by (cases action) (auto split: prod.split intro!: service_steps)
  have exec: "calls_kept.steady (execute_action ev info i v action proposal actor)" for v action proposal
    unfolding execute_action_def Let_def by (cases action) (auto intro!: service_steps)
  have run: "calls_kept.steady (run_turn ev info brain config i v utterance forced proposal actor)" for brain config v forced proposal
    unfolding run_turn_def by (intro service_steps audits act exec)
  show "calls_kept.steady (begin_session ev info i language)"
    unfolding begin_session_def by (auto split: prod.split intro!: service_steps)
  show "calls_kept.steady (handle_turn ev info ai i utterance actor)"
    unfolding handle_turn_def Let_def by (auto split: option.split prod.split intro!: service_steps run)
  show "calls_kept.steady (record_outcome i outcome summary)"
    unfolding record_outcome_def by (auto split: option.split intro!: service_steps audits)
qed

lemma transition_recipient_kept: "calls_kept.steady (transition_recipient ev i target)"
  unfolding transition_recipient_def by (rule change_recipient_kept)

lemma audit_campaign_kept: "calls_kept.steady (audit_campaign g ety actor evidence recipient)"
  unfolding audit_campaign_def
  by (auto split: option.split intro!: service_steps core_op_kept add_audit_kept)

lemma skip_kept: "calls_kept.steady (skip_recipient ev g i evidence actor)"
  unfolding skip_recipient_def by (intro service_steps transition_recipient_kept audit_campaign_kept)

lemma contact_kept: "calls_kept.steady (contact_recipient ev info p g i actor x)"
  unfolding contact_recipient_def Let_def by (intro service_steps transition_recipient_kept initiate_kept)

lemma process_recipient_kept: "calls_kept.steady (process_recipient ev info zi p config ty g i actor x)"
  unfolding process_recipient_def refuse_for_frequency_def refuse_for_policy_def
  by (auto split: prod.split intro!: service_steps transition_recipient_kept audit_campaign_kept skip_kept contact_kept)

lemma process_recipients_kept:
  "calls_kept.steady (process_recipients ev info zi p elsewhere config ty g actor is x)"
proof (induction "is" arbitrary: x)
  case (Cons i "is")
  then show ?case
    by (auto simp: Let_def intro!: service_steps process_recipient_kept)
qed (simp add: calls_kept.steady_return)

lemma campaign_kept:
  "calls_kept.steady (create_campaign ev info b name channel purpose description start_at end_at brain by)"
  "calls_kept.steady (transition_campaign info g target)" "calls_kept.steady (add_recipient ev g phone customer)"
  "calls_kept.steady (activate ev info g)" "calls_kept.steady (process_campaign ev info zi p elsewhere g actor)"
  "calls_kept.steady (complete_campaign_recipient ev info k)"
proof -
  show t: "calls_kept.steady (transition_campaign info g target)" for g target
    unfolding transition_campaign_def by (intro service_steps)
  show "calls_kept.steady (create_campaign ev info b name channel purpose description start_at end_at brain by)"
    "calls_kept.steady (add_recipient ev g phone customer)" "calls_kept.steady (activate ev info g)"
    unfolding create_campaign_def add_recipient_def activate_def by (intro service_steps t)+
  show "calls_kept.steady (process_campaign ev info zi p elsewhere g actor)"
    unfolding process_campaign_def by (intro service_steps audit_campaign_kept process_recipients_kept)
  have "calls_kept.steady (maybe_complete_campaign ev info g b)" for g b
    unfolding maybe_complete_campaign_def by (auto split: option.split intro!: service_steps t)
  then show "calls_kept.steady (complete_campaign_recipient ev info k)"
    unfolding complete_campaign_recipient_def
    by (auto split: option.split prod.split intro!: service_steps transition_recipient_kept)
qed

end
