(* ===== verification/Voice_System.thy ===== *)
theory Voice_System
  imports Voice_Guarantees
begin

text \<open>
  The calls of a deployed application: the requests that reach its endpoints, in any order and from
  any caller, as a step relation.  \<open>info\<close> says whether messages of the level INFO are logged.
\<close>

section \<open>Requests in any order\<close>

inductive voice_step :: "bool \<Rightarrow> voice_db \<Rightarrow> voice_db \<Rightarrow> bool" for info where
  step_config: "voice_step info s (snd (upsert_agent_config user b u s))"
| step_request: "voice_step info s (snd (request_call_endpoint ev info p st hex user b q key initiate s))"
| step_cancel: "voice_step info s (snd (cancel_call_endpoint info user b i reason s))"
| step_turn: "voice_step info s (snd (agent_turn_endpoint ev info ai user b i utterance s))"
| step_outcome: "voice_step info s (snd (record_outcome_endpoint user b i outcome summary s))"
| step_escalate: "voice_step info s (snd (create_escalation_endpoint ev info user b i text' s))"
| step_assign: "voice_step info s (snd (assign_escalation_endpoint user b i e member s))"
| step_accept: "voice_step info s (snd (accept_escalation_endpoint ev user b i e s))"
| step_resolve: "voice_step info s (snd (resolve_escalation_endpoint ev user b i e notes s))"
| step_cancel_escalation: "voice_step info s (snd (cancel_escalation_endpoint user b i e reason s))"
| step_campaign: "voice_step info s (snd (create_campaign_endpoint ev info user b name purpose descr t0 t1 brain s))"
| step_transition: "voice_step info s (snd (transition_campaign_endpoint ev info user b g status s))"
| step_recipient: "voice_step info s (snd (add_campaign_recipient_endpoint ev user b g phone customer s))"
| step_execute: "voice_step info s (snd (execute_campaign_endpoint ev info zi p elsewhere user b g s))"
| step_webhook: "voice_step info s (snd (receive_voice_webhook ev info hmac new_id provider body decoded headers s))"
| step_twiml: "voice_step info s (snd (twilio_twiml_webhook ev info w r s))"
| step_gather: "voice_step info s (snd (twilio_gather_callback ev info ai w r s))"
| step_status: "voice_step info s (snd (twilio_status_callback ev info w r s))"
| step_ncco: "voice_step info s (snd (vonage_ncco_webhook ev info st i decoded s))"
| step_input: "voice_step info s (snd (vonage_input_webhook ev info ai st i decoded s))"
| step_event: "voice_step info s (snd (vonage_event_webhook ev info new_id i decoded s))"

definition voice_run :: "bool \<Rightarrow> voice_db \<Rightarrow> voice_db \<Rightarrow> bool" where
  "voice_run info = (voice_step info)\<^sup>*\<^sup>*"

lemma voice_run_induct:
  assumes "voice_run info s s'" "P s" "\<And>s s'. P s \<Longrightarrow> voice_step info s s' \<Longrightarrow> P s'"
  shows "P s'"
  using assms(1)[unfolded voice_run_def] assms(2,3) by (induction rule: rtranclp_induct) auto

lemma session_reads_kept:
  "calls_kept.steady (member_of role b user)" "calls_kept.steady (business_call i b)"
  "calls_kept.steady (business_campaign i b)" "calls_kept.steady (business_escalation b i)"
  unfolding member_of_def business_call_def business_campaign_def business_escalation_def
  by (intro kept_intros)+

lemmas endpoint_steps =
  in_request_kept session_reads_kept service_steps initiate_kept process_webhook_kept agent_kept campaign_kept

lemma upsert_config_kept: "calls_kept.steady (lift_op (upsert_config b u))"
  by (rule calls_kept.steady_lift)
    (auto simp: upsert_config_def result_iffs calls_kept_def rows_kept core_used_def used_kept split: option.splits)

lemma conversation_kept:
  "calls_kept.steady (drive_to_connected ev info c reason)" "calls_kept.steady (ensure_session ev info i)"
  "calls_kept.steady (spoken_turn ev info ai i speech)"
  unfolding drive_to_connected_def ensure_session_def spoken_turn_def by (intro endpoint_steps)+

lemma endpoint_kept:
  "calls_kept.steady (upsert_agent_config user b u)"
  "calls_kept.steady (request_call_endpoint ev info p st hex user b q key initiate)"
  "calls_kept.steady (cancel_call_endpoint info user b i reason)"
  "calls_kept.steady (agent_turn_endpoint ev info ai user b i utterance)"
  "calls_kept.steady (record_outcome_endpoint user b i outcome summary)"
  "calls_kept.steady (create_escalation_endpoint ev info user b i text')"
  "calls_kept.steady (assign_escalation_endpoint user b i e member)"
  "calls_kept.steady (accept_escalation_endpoint ev user b i e)"
  "calls_kept.steady (resolve_escalation_endpoint ev user b i e notes)"
  "calls_kept.steady (cancel_escalation_endpoint user b i e reason)"
  "calls_kept.steady (create_campaign_endpoint ev info user b name purpose descr t0 t1 brain)"
  "calls_kept.steady (transition_campaign_endpoint ev info user b g status)"
  "calls_kept.steady (add_campaign_recipient_endpoint ev user b g phone customer)"
  "calls_kept.steady (execute_campaign_endpoint ev info zi p elsewhere user b g)"
  unfolding upsert_agent_config_def request_call_endpoint_def cancel_call_endpoint_def agent_turn_endpoint_def
    record_outcome_endpoint_def create_escalation_endpoint_def assign_escalation_endpoint_def accept_escalation_endpoint_def
    resolve_escalation_endpoint_def cancel_escalation_endpoint_def create_campaign_endpoint_def transition_campaign_endpoint_def
    add_campaign_recipient_endpoint_def execute_campaign_endpoint_def Let_def
  by (intro endpoint_steps upsert_config_kept)+

lemma callback_kept:
  "calls_kept.steady (receive_voice_webhook ev info hmac new_id provider body decoded headers)"
  "calls_kept.steady (twilio_twiml_webhook ev info w r)" "calls_kept.steady (twilio_gather_callback ev info ai w r)"
  "calls_kept.steady (twilio_status_callback ev info w r)" "calls_kept.steady (vonage_ncco_webhook ev info st i decoded)"
  "calls_kept.steady (vonage_input_webhook ev info ai st i decoded)" "calls_kept.steady (vonage_event_webhook ev info new_id i decoded)"
  unfolding receive_voice_webhook_def twilio_twiml_webhook_def twilio_gather_callback_def twilio_status_callback_def
    vonage_ncco_webhook_def vonage_input_webhook_def vonage_event_webhook_def Let_def
  by (intro in_request_kept, auto split: option.split prod.split intro!: endpoint_steps conversation_kept)+

lemma voice_step_kept: "voice_step info s s' \<Longrightarrow> calls_kept s s'"
  by (induction rule: voice_step.induct)
    (rule calls_kept.steadyD [OF _ surjective_pairing], rule endpoint_kept callback_kept)+

lemma voice_run_kept: "voice_run info s s' \<Longrightarrow> calls_kept s s'"
  by (erule voice_run_induct [where P = "calls_kept s"])
    (auto intro: calls_kept.step_refl calls_kept.step_trans voice_step_kept)

section \<open>Dialling\<close>

text \<open>Operations without a request to the provider, which keep every attempt on record.\<close>

definition recorded_attempts :: "voice_db \<Rightarrow> (uuid \<times> nat) set" where
  "recorded_attempts s = attempt_key ` set (t_call_attempts s)"

definition undialled :: "voice_db \<Rightarrow> voice_db \<Rightarrow> bool" where
  "undialled s s' \<longleftrightarrow> vd_dialled s' = vd_dialled s \<and> recorded_attempts s \<subseteq> recorded_attempts s'"

interpretation undialled: session_relation undialled
  by unfold_locales (auto simp: undialled_def)

lemma primitives_undialled:
  "undialled.steady (core_op f)" "undialled.steady (core_read g)" "undialled.steady (log_info info)"
  "undialled.steady (set_call i h)" "undialled.steady (set_session i h2)"
  "undialled.steady (lift_op (change_status i target))" "undialled.steady (lift_op (end_session ev i st))"
  "undialled.steady (lift_op (insert_attempt a))" "undialled.steady (lift_op (insert_call c))"
proof -
  show "undialled.steady (core_op f)" for f :: "db \<Rightarrow> err + 'a \<times> db"
    unfolding core_op_def by (intro undialled.steady_lift) (auto simp: undialled_def recorded_attempts_def result_iffs)
  show "undialled.steady (lift_op (insert_attempt a))" "undialled.steady (lift_op (insert_call c))"
    "undialled.steady (lift_op (change_status i target))" "undialled.steady (lift_op (end_session ev i st))"
    by (rule undialled.steady_lift;
        auto simp: undialled_def recorded_attempts_def insert_attempt_def insert_call_def core_used_def change_status_def
          end_session_def result_iffs split: if_splits)+
qed (simp_all add: core_read_def log_info_def set_call_def set_session_def undialled.steady_read
      undialled.steady_write undialled_def recorded_attempts_def)

lemma set_attempt_undialled:
  assumes "\<And>a. attempt_key (f a) = attempt_key a"
  shows "undialled.steady (set_attempt i f)"
  unfolding set_attempt_def
proof (rule undialled.steady_write)
  fix s
  have "attempt_key ` set (upd_row va_id i f rows) = attempt_key ` set rows" for rows
    using assms by (induction rows) auto
  then show "undialled s (s\<lparr>t_call_attempts := upd_row va_id i f (t_call_attempts s)\<rparr>)"
    by (simp add: undialled_def recorded_attempts_def)
qed

lemmas undialled_intros = undialled.steady_intros primitives_undialled

lemma lifecycle_undialled:
  "undialled.steady (queue_call ev info i actor reason)" "undialled.steady (mark_initiating ev info i actor reason)"
  "undialled.steady (record_attempt ev i provider st)" "undialled.steady (fail_call ev info i code reason actor)"
  "undialled.steady (dial_succeeded ev info p i a r actor)" "undialled.steady (dial_failed ev info p i a r actor)"
proof -
  have audit: "undialled.steady (add_call_audit ety actor brain c e)" "undialled.steady (audit_call i ety x y actor reason brain)"
    for ety actor brain c e i x y reason
    unfolding add_call_audit_def audit_call_def by (intro undialled_intros)+
  have tr: "undialled.steady (transition_call info i target ety actor reason brain)" for target ety reason brain
    unfolding transition_call_def by (intro undialled_intros audit)
  have emit: "undialled.steady (emit_voice_event ev info b ety agg i pl slot)" for b ety agg pl slot
    unfolding emit_voice_event_def by (intro undialled_intros)
  have ended: "undialled.steady (end_active_session ev info i st)" for st
    unfolding end_active_session_def by (auto split: option.split intro!: undialled_intros)
  show fail: "undialled.steady (fail_call ev info i code reason actor)" for code reason
    unfolding fail_call_def by (intro undialled_intros tr emit ended)
  show "undialled.steady (queue_call ev info i actor reason)" "undialled.steady (mark_initiating ev info i actor reason)"
    "undialled.steady (record_attempt ev i provider st)"
    unfolding queue_call_def mark_initiating_def record_attempt_def by (intro undialled_intros tr)+
  have out: "undialled.steady (audit_initiation_outcome p i r actor)"
    unfolding audit_initiation_outcome_def by (intro undialled_intros audit)
  show "undialled.steady (dial_succeeded ev info p i a r actor)" "undialled.steady (dial_failed ev info p i a r actor)"
    unfolding dial_succeeded_def dial_failed_def
    by (intro undialled_intros set_attempt_undialled out emit fail; simp add: attempt_key_def)+
qed

definition same_attempts :: "voice_db \<Rightarrow> voice_db \<Rightarrow> bool" where
  "same_attempts s s' \<longleftrightarrow> t_call_attempts s' = t_call_attempts s"

interpretation same_attempts: session_relation same_attempts
  by unfold_locales (simp_all add: same_attempts_def)

lemma queue_same_attempts:
  "same_attempts.steady (queue_call ev info i actor reason)" "same_attempts.steady (mark_initiating ev info i actor reason)"
proof -
  have core: "same_attempts.steady (core_op f)" for f :: "db \<Rightarrow> err + 'a \<times> db"
    unfolding core_op_def by (intro same_attempts.steady_lift) (auto simp: same_attempts_def result_iffs)
  have tr: "same_attempts.steady (transition_call info i target ety actor reason brain)" for target ety reason brain
    unfolding transition_call_def audit_call_def add_call_audit_def log_info_def
    by (intro same_attempts.steady_intros core)
      (auto simp: same_attempts_def change_status_def result_iffs split: if_splits)
  show "same_attempts.steady (queue_call ev info i actor reason)" "same_attempts.steady (mark_initiating ev info i actor reason)"
    unfolding queue_call_def mark_initiating_def set_call_def
    by (intro same_attempts.steady_intros tr; simp add: same_attempts_def)+
qed

lemma record_attempt_Inr:
  assumes "record_attempt ev i provider st s = (Inr k, s')"
  shows "(i, next_attempt_number i s) \<in> recorded_attempts s'" "t_calls s' = t_calls s"
  using assms
  by (auto simp: record_attempt_def bind_op_Inr basic_op_Inr insert_attempt_def new_call_attempt_def core_used_def
      recorded_attempts_def attempt_key_def split: if_splits)

text \<open>The call that is dialled has the numbers of the call at the start.\<close>

lemma dial_request_follows:
  assumes "call_follows c c'" "vc_id c' = vc_id c"
  shows "dial_request c' url = dial_request c url"
  using assms by (simp add: dial_request_def call_follows_def)

lemma call_object_follows:
  assumes "calls_kept s s'" "find_row vc_id i (t_calls s) = Some c" "call_object i s' = Inr c'"
  shows "call_follows c c' \<and> vc_id c' = vc_id c"
proof -
  obtain c'' where "find_row vc_id i (t_calls s') = Some c''" "call_follows c c''"
    using assms(1,2) unfolding calls_kept_def rows_follow_def by blast
  moreover from this have "c'' = c'"
    using assms(3) by (simp add: call_object_def)
  ultimately show ?thesis
    using find_row_SomeD [OF assms(2)] find_row_SomeD by metis
qed

lemma prepare_steady:
  "undialled.steady (prepare_dial ev info i actor)" "same_attempts.steady (prepare_dial ev info i actor)"
  "calls_kept.steady (prepare_dial ev info i actor)"
  unfolding prepare_dial_def
  by (intro undialled_intros lifecycle_undialled same_attempts.steady_intros queue_same_attempts service_steps)+

lemma place_call_dials:
  assumes run: "place_call ev info p i actor url s = (r, s')"
    and call: "find_row vc_id i (t_calls s) = Some c"
  shows "vd_dialled s' = vd_dialled s \<or>
    vd_dialled s' = vd_dialled s @ [dial_request c url] \<and> (i, next_attempt_number i s) \<in> recorded_attempts s'"
  using run[unfolded place_call_def]
proof (cases rule: bind_op_cases)
  case raised
  then show ?thesis using undialled.steadyD [OF prepare_steady(1)] by (auto simp: undialled_def)
next
  case (returned u s1)
  have s1: "vd_dialled s1 = vd_dialled s" "next_attempt_number i s1 = next_attempt_number i s" "calls_kept s s1"
    using undialled.steadyD [OF prepare_steady(1) returned(1)] same_attempts.steadyD [OF prepare_steady(2) returned(1)]
      calls_kept.steadyD [OF prepare_steady(3) returned(1)]
    by (simp_all add: undialled_def same_attempts_def next_attempt_number_def)
  from returned(2) show ?thesis
  proof (cases rule: bind_op_cases)
    case raised
    then show ?thesis using undialled.steadyD [OF lifecycle_undialled(3)] s1(1) by (auto simp: undialled_def)
  next
    case (returned a s2)
    have s2: "vd_dialled s2 = vd_dialled s" "(i, next_attempt_number i s) \<in> recorded_attempts s2" "calls_kept s s2"
      using undialled.steadyD [OF lifecycle_undialled(3) returned(1)] record_attempt_Inr [OF returned(1)] s1
        calls_kept.steadyD [OF attempt_kept returned(1)]
      by (auto simp: undialled_def intro: calls_kept.step_trans)
    show ?thesis
    proof (cases "call_object i s2")
      case (Inl e)
      then show ?thesis using returned(2) s2(1) by (simp add: bind_op_def read_op_def)
    next
      case (Inr c')
      have req: "dial_request c' url = dial_request c url"
        using call_object_follows [OF s2(3) call Inr] by (auto intro: dial_request_follows)
      define s3 where "s3 = s2\<lparr>vd_dialled := vd_dialled s @ [dial_request c url]\<rparr>"
      define out where "out = (if pvr_success (cpr_send p (dial_request c url))
        then dial_succeeded ev info p i a (cpr_send p (dial_request c url)) actor
        else dial_failed ev info p i a (cpr_send p (dial_request c url)) actor)"
      have "out s3 = (r, s')"
        using returned(2) Inr s2(1) req by (simp add: bind_op_def read_op_def dial_def s3_def out_def)
      moreover have "undialled.steady out"
        unfolding out_def by (intro undialled.steady_if lifecycle_undialled)
      ultimately have "undialled s3 s'" by (auto dest: undialled.steadyD)
      then show ?thesis using s2(2) by (auto simp: undialled_def s3_def recorded_attempts_def)
    qed
  qed
qed

section \<open>Properties of the calls\<close>

text \<open>C35: Whatever requests reach the endpoints, in any order and whatever the provider and the model
  answer, a call stays the call it was requested as, for the same business, customer, purpose and
  numbers, its status moves along the transition table only, so that a call that has ended never
  changes its status again, and no record of the marketplace is changed.\<close>

theorem calls_follow_the_transition_table:
  assumes "voice_run info s s'" "find_row vc_id i (t_calls s) = Some c"
  shows "\<exists>c'. find_row vc_id i (t_calls s') = Some c' \<and> vc_business_id c' = vc_business_id c \<and>
    vc_customer_id c' = vc_customer_id c \<and> vc_call_type c' = vc_call_type c \<and> vc_purpose c' = vc_purpose c \<and>
    vc_to_number c' = vc_to_number c \<and> reach CALL_TRANSITIONS (vc_status c) (vc_status c') \<and>
    (CALL_TRANSITIONS (vc_status c) = {} \<longrightarrow> vc_status c' = vc_status c) \<and>
    market_records (vd_core s') = market_records (vd_core s)"
proof -
  have kept: "calls_kept s s'" using assms(1) by (rule voice_run_kept)
  then obtain c' where c': "find_row vc_id i (t_calls s') = Some c'" "call_follows c c'"
    using assms(2) unfolding calls_kept_def rows_follow_def by blast
  moreover have "CALL_TRANSITIONS (vc_status c) = {} \<longrightarrow> vc_status c' = vc_status c"
    using c'(2) terminal_reach [of CALL_TRANSITIONS "vc_status c" "vc_status c'"] by (auto simp: call_follows_def terminal_def)
  ultimately show ?thesis
    using kept by (auto simp: call_follows_def calls_kept_def core_kept_def)
qed


section \<open>Requests of a deployed application\<close>

lemma request_call_undialled: "undialled.steady (request_call ev info b q actor source)"
  unfolding request_call_def audit_call_def add_call_audit_def
  by (auto split: option.split intro!: undialled_intros)

lemma logged_request_raises:
  assumes "call_by_key b (cq_idempotency_key q) s = Inr None"
  shows "\<exists>e s1. request_call ev True b q actor source s = (Inl e, s1) \<and> vd_dialled s1 = vd_dialled s"
proof -
  obtain r s1 where run: "request_call ev True b q actor source s = (r, s1)" by (cases "request_call ev True b q actor source s")
  have "r \<noteq> Inr i" for i
  proof
    assume "r = Inr i"
    with run assms show False
      by (auto simp: request_call_def bind_op_Inr basic_op_Inr log_info_def log_keywords_def split: option.splits)
  qed
  then obtain e where "r = Inl e" by (cases r) auto
  moreover have "vd_dialled s1 = vd_dialled s"
    using undialled.steadyD [OF request_call_undialled run] by (simp add: undialled_def)
  ultimately show ?thesis using run by blast
qed

text \<open>The key under which a request of the user is recorded.\<close>

definition request_key :: "User \<Rightarrow> string \<Rightarrow> string option \<Rightarrow> string" where
  "request_key user hex key = the (or_text key (Some (''api:'' @ nat_str (usr_id user) @ '':'' @ hex)))"

text \<open>C37: While messages of the level INFO are logged, as the application sets up its logging, no
  request for a new call succeeds: it raises, is rolled back and reaches no provider.\<close>

theorem new_calls_fail_when_logging:
  assumes "call_by_key b (request_key user hex key) s = Inr None"
  shows "\<exists>e. request_call_endpoint ev True p st hex user b q key initiate s = (Inl e, s)"
proof (cases "require_business_role Bmr_STAFF b user (vd_core s)")
  case (Inl e)
  then show ?thesis
    by (simp add: request_call_endpoint_def in_request_def member_of_def core_read_def bind_op_def read_op_def)
next
  case (Inr m)
  then have "mem_user_id m = usr_id user" by (simp add: require_business_role_Inr)
  then obtain e s1 where "request_call ev True b (q\<lparr>cq_provider := cpr_name p, cq_idempotency_key := request_key user hex key\<rparr>)
      (Some (mem_user_id m)) None s = (Inl e, s1)" "vd_dialled s1 = vd_dialled s"
    using logged_request_raises [of b "q\<lparr>cq_provider := cpr_name p, cq_idempotency_key := request_key user hex key\<rparr>"] assms
    by fastforce
  then show ?thesis
    using Inr \<open>mem_user_id m = usr_id user\<close>
    by (simp add: request_call_endpoint_def in_request_def member_of_def core_read_def bind_op_def read_op_def request_key_def Let_def)
qed

section \<open>Examples\<close>

text \<open>A business that makes transactional calls, one of its members and a call to a customer.\<close>

definition ann :: User where
  "ann = \<lparr>usr_id = 1, usr_email = ''ann'', usr_hashed_password = [], usr_is_active = True, usr_is_verified = True, usr_deleted = False\<rparr>"

definition call_config :: CallAgentConfiguration where
  "call_config =
     \<lparr>ac_id = 40, ac_business_id = 1, ac_enabled = True, ac_transactional_calling_enabled = True,
      ac_marketing_calling_enabled = False, ac_default_from_number = Some ''100'', ac_provider_reference = None,
      ac_timezone = None, ac_max_attempts = 3, ac_retry_interval_seconds = 60, ac_allowed_calling_hours = [],
      ac_quiet_periods = [], ac_max_daily_attempts = None, ac_max_weekly_attempts = None,
      ac_customer_frequency_limits = [], ac_human_escalation_enabled = True, ac_recording_enabled = False,
      ac_transcription_enabled = False, ac_agent_instructions = None, ac_webhook_signature_secret = None, ac_deleted = False\<rparr>"

definition sample_request :: call_request where
  "sample_request =
     \<lparr>cq_to_number = ''200'', cq_purpose = ''BOOKING_CONFIRMATION'', cq_provider = ''mock'', cq_idempotency_key = ''k'',
      cq_call_type = None, cq_from_number = None, cq_customer_id = None, cq_enquiry_id = None, cq_quote_id = None,
      cq_booking_id = None, cq_service_execution_id = None, cq_invoice_id = None, cq_communication_id = None,
      cq_campaign_id = None, cq_brain_version_id = None\<rparr>"

definition sample_call :: "CallStatus \<Rightarrow> VoiceCall" where
  "sample_call status =
     (new_call sample_env 1 Cpu_BOOKING_CONFIRMATION call_config sample_request)\<lparr>vc_id := 10, vc_status := status\<rparr>"

definition calls_db :: "CallStatus \<Rightarrow> voice_db" where
  "calls_db status =
     \<lparr>vd_core = empty_db\<lparr>t_users := [ann], t_businesses := [sample_business],
        t_members := [\<lparr>mem_id = 5, mem_user_id = 1, mem_business_id = 1, mem_role = Bmr_STAFF, mem_deleted = False\<rparr>]\<rparr>,
      t_calls = [sample_call status], t_participants = [], t_call_attempts = [], t_call_sessions = [], t_escalations = [],
      t_agent_configs = [call_config], t_campaigns = [], t_campaign_recipients = [], vd_dialled = []\<rparr>"

definition calling :: comm_provider where
  "calling = \<lparr>cpr_name = ''mock'', cpr_send = (\<lambda>_. provider_ok ''r'' [])\<rparr>"

lemma calls_follow_the_transition_table_witness:
  "\<exists>s' c'. voice_run False (calls_db Call_QUEUED) s' \<and> find_row vc_id 10 (t_calls s') = Some c' \<and>
     vc_status c' = Call_CANCELLED \<and> reach CALL_TRANSITIONS Call_QUEUED (vc_status c')"
proof -
  define s' where "s' = snd (cancel_call_endpoint False ann 1 10 None (calls_db Call_QUEUED))"
  have run: "voice_run False (calls_db Call_QUEUED) s'"
    unfolding voice_run_def s'_def by (rule r_into_rtranclp) (rule voice_step.step_cancel)
  have "find_row vc_id 10 (t_calls (calls_db Call_QUEUED)) = Some (sample_call Call_QUEUED)"
    by (simp add: calls_db_def sample_call_def)
  from calls_follow_the_transition_table [OF run this]
  obtain c' where c': "find_row vc_id 10 (t_calls s') = Some c'" "reach CALL_TRANSITIONS Call_QUEUED (vc_status c')"
    by (auto simp: sample_call_def)
  have "map_option vc_status (find_row vc_id 10 (t_calls s')) = Some Call_CANCELLED"
    unfolding s'_def by code_simp
  then show ?thesis using c' run by auto
qed


lemma new_calls_fail_when_logging_witness:
  "\<exists>e. fst (request_call_endpoint sample_env True calling \<lparr>vst_voice_provider = ''mock'', vst_twilio_auth_token = [],
     vst_public_base_url = ''https://fielded.online''\<rparr> ''h'' ann 1 sample_request None True (calls_db Call_QUEUED)) = Inl e"
proof -
  have "call_by_key 1 (request_key ann ''h'' None) (calls_db Call_QUEUED) = Inr None" by code_simp
  from new_calls_fail_when_logging [OF this] show ?thesis by (metis fst_conv)
qed

end
