(* ===== verification/Members.thy ===== *)
theory Members
  imports Outbox Communication_Policy Access
begin

text \<open>
  Businesses, their profiles, members and invitations (src/backend/app/api/v1/businesses.py, with
  the rows of src/backend/app/domain/identity/models.py and token_models.py).  An endpoint is one
  transaction: it either returns with the new rows or raises and changes nothing.  Roles and
  statuses of a request arrive as members of their enumeration, as the request models require, and
  the random part of an invitation's token is a parameter.  Rows are kept in the order they were
  created in, which is the order the lists are returned in.
\<close>

section \<open>Values of requests\<close>

fun role_value :: "BusinessMemberRole \<Rightarrow> string" where
  "role_value Bmr_OWNER = ''owner''"
| "role_value Bmr_ADMIN = ''admin''"
| "role_value Bmr_STAFF = ''staff''"

fun business_status_value :: "BusinessStatus \<Rightarrow> string" where
  "business_status_value Biz_PENDING = ''pending''"
| "business_status_value Biz_ACTIVE = ''active''"
| "business_status_value Biz_SUSPENDED = ''suspended''"
| "business_status_value Biz_DEACTIVATED = ''deactivated''"

fun profile_status_value :: "BusinessProfileStatus \<Rightarrow> string" where
  "profile_status_value Bps_INCOMPLETE = ''incomplete''"
| "profile_status_value Bps_ACTIVE = ''active''"
| "profile_status_value Bps_SUSPENDED = ''suspended''"

definition URL_PATTERN :: string where
  "URL_PATTERN = ''^https?://(?:[a-zA-Z0-9](?:[a-zA-Z0-9-]{0,61}[a-zA-Z0-9])?'' @ [CHR 0x5C] @ ''.)+[a-zA-Z]{2,}(?::'' @
     [CHR 0x5C] @ ''d{1,5})?(?:/[^'' @ [CHR 0x5C] @ ''s]*)?$''"

definition validate_url :: "env \<Rightarrow> string \<Rightarrow> err + unit" where
  "validate_url ev v =
     (if \<not> (py_prefix ''https://'' v \<or> py_prefix ''http://'' v)
      then Inl (ValidationError ''URLs must start with http:// or https://'')
      else if env_re_search ev URL_PATTERN v \<noteq> Some True then Inl (ValidationError (''Malformed URL: '' @ v))
      else Inr ())"

text \<open>The validator of a link: an empty one counts as none.\<close>

definition validate_link :: "env \<Rightarrow> string option \<Rightarrow> err + string option" where
  "validate_link ev v =
     (case v of
        None \<Rightarrow> Inr None
      | Some x \<Rightarrow> if x = [] then Inr None else bindE (validate_url ev x) (\<lambda>_. Inr (Some x)))"

record social_links =
  sl_website :: "string option"
  sl_facebook :: "string option"
  sl_instagram :: "string option"
  sl_linkedin :: "string option"

definition validate_social :: "env \<Rightarrow> social_links \<Rightarrow> err + social_links" where
  "validate_social ev l =
     bindE (validate_link ev (sl_website l)) (\<lambda>w.
     bindE (validate_link ev (sl_facebook l)) (\<lambda>f.
     bindE (validate_link ev (sl_instagram l)) (\<lambda>i.
     bindE (validate_link ev (sl_linkedin l)) (\<lambda>k.
     Inr \<lparr>sl_website = w, sl_facebook = f, sl_instagram = i, sl_linkedin = k\<rparr>))))"

section \<open>Membership\<close>

definition memberships :: "uuid \<Rightarrow> uuid \<Rightarrow> db \<Rightarrow> BusinessMember list" where
  "memberships user_id business_id d =
     filter (\<lambda>m. mem_user_id m = user_id \<and> mem_business_id m = business_id \<and> \<not> mem_deleted m) (t_members d)"

definition get_user_business :: "uuid \<Rightarrow> User \<Rightarrow> db \<Rightarrow> err + Business \<times> BusinessMember" where
  "get_user_business business_id u d =
     bindE (requireE (NotFoundError ''Business not found'') (find_business business_id d)) (\<lambda>b.
     bindE (scalar_one_or_none (memberships (usr_id u) business_id d)) (\<lambda>m.
     bindE (requireE (AuthorizationError ''Not a member of this business'') m) (\<lambda>m. Inr (b, m))))"

definition check_minimum_role :: "BusinessMember \<Rightarrow> BusinessMemberRole \<Rightarrow> err + unit" where
  "check_minimum_role m minimum =
     guardE (role_hierarchy (mem_role m) \<ge> role_hierarchy minimum) (AuthorizationError (''Requires '' @ role_value minimum @ '' role or higher''))"

definition with_role :: "BusinessMemberRole \<Rightarrow> uuid \<Rightarrow> User \<Rightarrow> db \<Rightarrow> err + Business" where
  "with_role minimum business_id u d =
     bindE (get_user_business business_id u d) (\<lambda>(b, m). bindE (check_minimum_role m minimum) (\<lambda>_. Inr b))"

definition owners_of :: "uuid \<Rightarrow> db \<Rightarrow> BusinessMember list" where
  "owners_of business_id d =
     filter (\<lambda>m. mem_business_id m = business_id \<and> mem_role m = Bmr_OWNER \<and> \<not> mem_deleted m) (t_members d)"

text \<open>The second of the request, at the end of the keys of events.\<close>

definition second_suffix :: "env \<Rightarrow> string" where
  "second_suffix ev = '':'' @ int_str (env_now ev div us_per_second)"

definition insert_member :: "uuid \<Rightarrow> uuid \<Rightarrow> BusinessMemberRole \<Rightarrow> db \<Rightarrow> err + uuid \<times> db" where
  "insert_member user_id business_id role d =
     (if (user_id, business_id) \<in> (\<lambda>m. (mem_user_id m, mem_business_id m)) ` set (t_members d)
      then Inl (IntegrityError ''uq_business_member_user_business'')
      else Inr (fresh_id d, used_id (d\<lparr>t_members := t_members d @
             [\<lparr>mem_id = fresh_id d, mem_user_id = user_id, mem_business_id = business_id, mem_role = role, mem_deleted = False\<rparr>]\<rparr>)))"

definition set_member :: "uuid \<Rightarrow> (BusinessMember \<Rightarrow> BusinessMember) \<Rightarrow> db \<Rightarrow> db" where
  "set_member i f d = d\<lparr>t_members := upd_row mem_id i f (t_members d)\<rparr>"

section \<open>Businesses\<close>

definition create_business :: "string \<Rightarrow> string \<Rightarrow> string \<Rightarrow> User \<Rightarrow> db \<Rightarrow> err + uuid \<times> db" where
  "create_business name slug currency u d =
     bindE (guardE (\<forall>b\<in>set (t_businesses d). biz_slug b \<noteq> slug) (ConflictError ''A business with this slug already exists'')) (\<lambda>_.
     let b = fresh_id d;
         d1 = used_id (d\<lparr>t_businesses := t_businesses d @
           [\<lparr>biz_id = b, biz_name = name, biz_slug = slug, biz_status = Biz_PENDING, biz_currency = currency,
             biz_stripe_account_id = None, biz_stripe_connect_status = Sca_NONE, biz_stripe_charges_enabled = False,
             biz_stripe_payouts_enabled = False, biz_stripe_details = JNull, biz_platform_fee_percent = 0, biz_deleted = False\<rparr>]\<rparr>)
     in bindE (insert_member (usr_id u) b Bmr_OWNER d1) (\<lambda>(_, d2).
        Inr (b, used_id (d2\<lparr>t_profiles := t_profiles d2 @
           [\<lparr>prof_id = fresh_id d2, prof_business_id = b, prof_columns = [], prof_public_status = Bps_INCOMPLETE,
             prof_average_rating = None, prof_review_count = 0, prof_is_verified = False, prof_deleted = False\<rparr>]\<rparr>))))"

definition list_businesses :: "User \<Rightarrow> db \<Rightarrow> Business list" where
  "list_businesses u d =
     sort_key biz_name (filter (\<lambda>b. \<not> biz_deleted b \<and> memberships (usr_id u) (biz_id b) d \<noteq> []) (t_businesses d))"

definition profile_of :: "uuid \<Rightarrow> db \<Rightarrow> BusinessProfile option" where
  "profile_of business_id d = List.find (\<lambda>p. prof_business_id p = business_id) (t_profiles d)"

definition get_business :: "uuid \<Rightarrow> User \<Rightarrow> db \<Rightarrow> err + Business \<times> BusinessProfile option" where
  "get_business business_id u d =
     bindE (get_user_business business_id u d) (\<lambda>(b, _). Inr (b, profile_of business_id d))"

definition put_business :: "uuid \<Rightarrow> (Business \<Rightarrow> Business) \<Rightarrow> db \<Rightarrow> db" where
  "put_business i f d = d\<lparr>t_businesses := upd_row biz_id i f (t_businesses d)\<rparr>"

definition update_business :: "env \<Rightarrow> uuid \<Rightarrow> string option \<Rightarrow> User \<Rightarrow> db \<Rightarrow> err + unit \<times> db" where
  "update_business ev business_id name u d =
     bindE (with_role Bmr_ADMIN business_id u d) (\<lambda>_.
     case name of
       None \<Rightarrow> Inr ((), d)
     | Some n \<Rightarrow>
         bindE (emit_business_event ev ''business'' business_id ''BUSINESS_SETTINGS_UPDATED'' (second_suffix ev) business_id
           [(''notification_title'', PStr ''Business settings updated''),
            (''notification_body'', PStr ''Business name was updated.''),
            (''updated_fields'', PJson (JList [JStr ''name'']))]
           (put_business business_id (\<lambda>b. b\<lparr>biz_name := n\<rparr>) d)) (\<lambda>d1. Inr ((), d1)))"

definition transition_business :: "env \<Rightarrow> uuid \<Rightarrow> BusinessStatus \<Rightarrow> User \<Rightarrow> db \<Rightarrow> err + unit \<times> db" where
  "transition_business ev business_id target u d =
     bindE (with_role Bmr_OWNER business_id u d) (\<lambda>b.
     if target \<notin> BUSINESS_TRANSITIONS (biz_status b)
     then Inl (StateTransitionError (''Cannot transition business from '' @ in_quotes (business_status_value (biz_status b)) @
                 '' to '' @ in_quotes (business_status_value target)))
     else
       bindE (emit_business_event ev ''business'' business_id ''BUSINESS_STATUS_CHANGED''
         ('':'' @ business_status_value (biz_status b) @ '':'' @ business_status_value target @ second_suffix ev) business_id
         [(''previous_status'', PStr (business_status_value (biz_status b))), (''new_status'', PStr (business_status_value target)),
          (''changed_by'', PUuid (usr_id u))]
         (put_business business_id (\<lambda>b. b\<lparr>biz_status := target\<rparr>) d)) (\<lambda>d1. Inr ((), d1)))"

section \<open>Profiles\<close>

fun set_column :: "string \<Rightarrow> json \<Rightarrow> json_obj \<Rightarrow> json_obj" where
  "set_column k v [] = [(k, v)]"
| "set_column k v ((k', x) # cols) = (if k' = k then (k, v) # cols else (k', x) # set_column k v cols)"

definition set_columns :: "json_obj \<Rightarrow> json_obj \<Rightarrow> json_obj" where
  "set_columns updates cols = fold (\<lambda>(k, v). set_column k v) updates cols"

definition social_columns :: "social_links \<Rightarrow> json_obj" where
  "social_columns l =
     List.map_filter (\<lambda>(k, v). map_option (\<lambda>x. (k, JStr x)) v)
       [(''website'', sl_website l), (''facebook_url'', sl_facebook l), (''instagram_url'', sl_instagram l),
        (''linkedin_url'', sl_linkedin l)]"

text \<open>The columns that a request sets explicitly, the public status and the links among them.\<close>

record profile_update =
  pu_columns :: json_obj
  pu_logo_url :: "string option option"
  pu_cover_image_url :: "string option option"
  pu_social_links :: "social_links option"
  pu_public_status :: "BusinessProfileStatus option"

definition image_column :: "env \<Rightarrow> string \<Rightarrow> string option option \<Rightarrow> err + json_obj" where
  "image_column ev k v =
     (case v of
        None \<Rightarrow> Inr []
      | Some x \<Rightarrow> bindE (validate_link ev x) (\<lambda>y. Inr [(k, case y of None \<Rightarrow> JNull | Some t \<Rightarrow> JStr t)]))"

definition profile_columns :: "env \<Rightarrow> profile_update \<Rightarrow> err + json_obj \<times> social_links option" where
  "profile_columns ev q =
     bindE (case pu_social_links q of None \<Rightarrow> Inr None | Some l \<Rightarrow> bindE (validate_social ev l) (\<lambda>l. Inr (Some l))) (\<lambda>social.
     bindE (image_column ev ''logo_url'' (pu_logo_url q)) (\<lambda>logo.
     bindE (image_column ev ''cover_image_url'' (pu_cover_image_url q)) (\<lambda>cover.
     Inr (pu_columns q @ logo @ cover, social))))"

definition public_status_after :: "BusinessProfileStatus \<Rightarrow> BusinessProfileStatus option \<Rightarrow> err + BusinessProfileStatus" where
  "public_status_after current wanted =
     (case wanted of
        None \<Rightarrow> Inr current
      | Some target \<Rightarrow>
          if target \<noteq> current \<and> target \<notin> BUSINESS_PROFILE_TRANSITIONS current
          then Inl (StateTransitionError (''Cannot transition public profile from '' @ in_quotes (profile_status_value current) @
                      '' to '' @ in_quotes (profile_status_value target)))
          else Inr target)"

definition update_business_profile :: "env \<Rightarrow> uuid \<Rightarrow> profile_update \<Rightarrow> User \<Rightarrow> db \<Rightarrow> err + unit \<times> db" where
  "update_business_profile ev business_id q u d =
     bindE (profile_columns ev q) (\<lambda>(columns, social).
     bindE (with_role Bmr_ADMIN business_id u d) (\<lambda>_.
     bindE (requireE (NotFoundError ''Business profile not found'') (profile_of business_id d)) (\<lambda>p.
     bindE (public_status_after (prof_public_status p) (pu_public_status q)) (\<lambda>status.
     let links = (case social of None \<Rightarrow> [] | Some l \<Rightarrow> social_columns l);
         d1 = d\<lparr>t_profiles := upd_row prof_id (prof_id p)
                  (\<lambda>p. p\<lparr>prof_public_status := status, prof_columns := set_columns (columns @ links) (prof_columns p)\<rparr>) (t_profiles d)\<rparr>;
         fields = sort (remdups (map fst columns @ (if social = None then [] else [''social_links''])))
     in bindE (emit_business_event ev ''business_profile'' business_id ''BUSINESS_SETTINGS_UPDATED'' (second_suffix ev) (prof_id p)
          [(''notification_title'', PStr ''Business settings updated''),
           (''notification_body'', PStr ''Business profile settings were updated.''),
           (''updated_fields'', PJson (JList (map JStr fields)))] d1) (\<lambda>d2. Inr ((), d2))))))"

definition get_business_profile :: "uuid \<Rightarrow> User \<Rightarrow> db \<Rightarrow> err + BusinessProfile" where
  "get_business_profile business_id u d =
     bindE (get_user_business business_id u d) (\<lambda>_.
     requireE (NotFoundError ''Business profile not found'') (profile_of business_id d))"

section \<open>Members\<close>

definition list_members :: "uuid \<Rightarrow> User \<Rightarrow> db \<Rightarrow> err + BusinessMember list" where
  "list_members business_id u d =
     bindE (get_user_business business_id u d) (\<lambda>_.
     Inr (filter (\<lambda>m. mem_business_id m = business_id \<and> \<not> mem_deleted m) (t_members d)))"

definition add_member :: "uuid \<Rightarrow> string \<Rightarrow> BusinessMemberRole \<Rightarrow> User \<Rightarrow> db \<Rightarrow> err + uuid \<times> db" where
  "add_member business_id email role u d =
     bindE (with_role Bmr_OWNER business_id u d) (\<lambda>_.
     bindE (scalar_one_or_none (filter (\<lambda>x. usr_email x = email \<and> \<not> usr_deleted x) (t_users d))) (\<lambda>target.
     bindE (requireE (NotFoundError (''User with email '' @ email @ '' not found'')) target) (\<lambda>target.
     bindE (scalar_one_or_none (memberships (usr_id target) business_id d)) (\<lambda>existing.
     bindE (guardE (existing = None) (ConflictError ''User is already a member of this business'')) (\<lambda>_.
     insert_member (usr_id target) business_id role d)))))"

text \<open>The member of a business with an identifier, and how an event names one.\<close>

definition member_of_business :: "uuid \<Rightarrow> uuid \<Rightarrow> db \<Rightarrow> err + BusinessMember" where
  "member_of_business member_id business_id d =
     requireE (NotFoundError ''Member not found'')
       (find_row mem_id member_id (filter (\<lambda>m. mem_business_id m = business_id \<and> \<not> mem_deleted m) (t_members d)))"

definition member_name :: "BusinessMember \<Rightarrow> db \<Rightarrow> string" where
  "member_name m d = (case find_row usr_id (mem_user_id m) (t_users d) of Some x \<Rightarrow> usr_email x | None \<Rightarrow> nat_str (mem_user_id m))"

definition remove_member :: "env \<Rightarrow> uuid \<Rightarrow> uuid \<Rightarrow> User \<Rightarrow> db \<Rightarrow> err + unit \<times> db" where
  "remove_member ev business_id member_id u d =
     bindE (with_role Bmr_OWNER business_id u d) (\<lambda>_.
     bindE (member_of_business member_id business_id d) (\<lambda>m.
     bindE (guardE (mem_user_id m \<noteq> usr_id u) (ConflictError ''Cannot remove yourself from the business'')) (\<lambda>_.
     bindE (guardE (mem_role m = Bmr_OWNER \<longrightarrow> length (owners_of business_id d) > 1)
              (ConflictError ''Cannot remove the last owner of a business'')) (\<lambda>_.
     bindE (emit_business_event ev ''member'' business_id ''MEMBER_REMOVED'' (second_suffix ev) member_id
       [(''notification_title'', PStr ''Member removed''),
        (''notification_body'', PStr (member_name m d @ '' was removed from the business.''))]
       (set_member member_id (\<lambda>m. m\<lparr>mem_deleted := True\<rparr>) d)) (\<lambda>d1. Inr ((), d1))))))"

definition update_member_role :: "env \<Rightarrow> uuid \<Rightarrow> uuid \<Rightarrow> BusinessMemberRole \<Rightarrow> User \<Rightarrow> db \<Rightarrow> err + unit \<times> db" where
  "update_member_role ev business_id member_id role u d =
     bindE (with_role Bmr_OWNER business_id u d) (\<lambda>_.
     bindE (member_of_business member_id business_id d) (\<lambda>m.
     bindE (guardE (mem_role m = Bmr_OWNER \<and> role \<noteq> Bmr_OWNER \<longrightarrow> length (owners_of business_id d) > 1)
              (ConflictError ''Cannot demote the last owner of a business'')) (\<lambda>_.
     let d1 = set_member member_id (\<lambda>m. m\<lparr>mem_role := role\<rparr>) d
     in if mem_role m = role then Inr ((), d1)
        else bindE (emit_business_event ev ''member'' business_id ''MEMBER_ROLE_CHANGED'' ('':'' @ role_value role @ second_suffix ev) member_id
               [(''notification_title'', PStr ''Member role changed''),
                (''notification_body'', PStr (member_name m d @ '' role changed from '' @ role_value (mem_role m) @
                   '' to '' @ role_value role @ ''.''))] d1) (\<lambda>d2. Inr ((), d2)))))"

section \<open>Invitations\<close>

definition is_expired :: "env \<Rightarrow> MemberInvitation \<Rightarrow> bool" where
  "is_expired ev i \<longleftrightarrow> env_now ev > minv_expires_at i"

definition is_used :: "MemberInvitation \<Rightarrow> bool" where
  "is_used i \<longleftrightarrow> minv_used_at i \<noteq> None"

definition members_by_email :: "string \<Rightarrow> uuid \<Rightarrow> db \<Rightarrow> BusinessMember list" where
  "members_by_email email business_id d =
     filter (\<lambda>m. mem_business_id m = business_id \<and> \<not> mem_deleted m \<and>
       (\<exists>x\<in>set (t_users d). usr_id x = mem_user_id m \<and> usr_email x = email)) (t_members d)"

definition unused_invitations :: "string \<Rightarrow> uuid \<Rightarrow> db \<Rightarrow> MemberInvitation list" where
  "unused_invitations email business_id d =
     filter (\<lambda>i. minv_business_id i = business_id \<and> minv_email i = email \<and> minv_used_at i = None \<and> \<not> minv_deleted i)
       (t_invitations d)"

definition invitation_payload :: "MemberInvitation \<Rightarrow> Business \<Rightarrow> payload" where
  "invitation_payload i b =
     [(''notification_title'', PStr ''Member invited''),
      (''notification_body'', PStr (minv_email i @ '' was invited to join '' @ biz_name b @ '' as '' @ role_value (minv_role i) @ ''.'')),
      (''communication_targets'', PJson (JList [JObj [(''channel'', JStr ''email''), (''purpose'', JStr ''member_invitation''),
         (''recipient_address'', JStr (minv_email i)), (''recipient_type'', JStr ''MEMBER'')]])),
      (''template_variables'', PJson (JObj [(''business_name'', JStr (biz_name b)), (''role'', JStr (role_value (minv_role i))),
         (''invitation_token'', JStr (minv_token i))]))]"

definition invite_member ::
  "env \<Rightarrow> string \<Rightarrow> uuid \<Rightarrow> string \<Rightarrow> BusinessMemberRole \<Rightarrow> User \<Rightarrow> db \<Rightarrow> err + uuid \<times> db" where
  "invite_member ev token business_id address role u d =
     bindE (with_role Bmr_OWNER business_id u d) (\<lambda>b.
     let email = lower (strip address) in
     bindE (scalar_one_or_none (members_by_email email business_id d)) (\<lambda>member.
     bindE (guardE (member = None) (ConflictError ''User is already a member of this business'')) (\<lambda>_.
     bindE (scalar_one_or_none (unused_invitations email business_id d)) (\<lambda>existing.
     bindE (guardE (case existing of None \<Rightarrow> True | Some i \<Rightarrow> is_expired ev i)
              (ConflictError ''A pending invitation for this email already exists'')) (\<lambda>_.
     bindE (guardE (token \<notin> minv_token ` set (t_invitations d)) (IntegrityError ''member_invitations.token'')) (\<lambda>_.
     let i = \<lparr>minv_id = fresh_id d, minv_business_id = business_id, minv_email = email, minv_role = role, minv_token = token,
              minv_invited_by = Some (usr_id u), minv_expires_at = env_now ev + 7 * us_per_day, minv_used_at = None,
              minv_created_at = env_now ev, minv_deleted = False\<rparr>
     in bindE (emit_business_event ev ''member_invitation'' business_id ''MEMBER_INVITED'' [] (minv_id i) (invitation_payload i b)
          (used_id (d\<lparr>t_invitations := t_invitations d @ [i]\<rparr>))) (\<lambda>d1. Inr (minv_id i, d1))))))))"

definition list_member_invitations :: "env \<Rightarrow> uuid \<Rightarrow> User \<Rightarrow> db \<Rightarrow> err + MemberInvitation list" where
  "list_member_invitations ev business_id u d =
     bindE (get_user_business business_id u d) (\<lambda>_.
     Inr (filter (\<lambda>i. minv_business_id i = business_id \<and> minv_used_at i = None \<and> minv_expires_at i > env_now ev \<and> \<not> minv_deleted i)
       (t_invitations d)))"

definition accept_invitation :: "env \<Rightarrow> string \<Rightarrow> User \<Rightarrow> db \<Rightarrow> err + uuid \<times> db" where
  "accept_invitation ev token u d =
     bindE (scalar_one_or_none (filter (\<lambda>i. minv_token i = token \<and> \<not> minv_deleted i) (t_invitations d))) (\<lambda>found.
     bindE (requireE (NotFoundError ''Invitation not found'') found) (\<lambda>i.
     bindE (guardE (\<not> is_used i) (ValidationError ''Invitation has already been used'')) (\<lambda>_.
     bindE (guardE (\<not> is_expired ev i) (ValidationError ''Invitation has expired'')) (\<lambda>_.
     bindE (guardE (lower (strip (usr_email u)) = minv_email i)
              (AuthorizationError ''This invitation was issued to a different email address'')) (\<lambda>_.
     bindE (scalar_one_or_none (memberships (usr_id u) (minv_business_id i) d)) (\<lambda>existing.
     bindE (guardE (existing = None) (ConflictError ''You are already a member of this business'')) (\<lambda>_.
     bindE (insert_member (usr_id u) (minv_business_id i) (minv_role i) d) (\<lambda>(m, d1).
     let d2 = d1\<lparr>t_invitations := upd_row minv_id (minv_id i) (\<lambda>i. i\<lparr>minv_used_at := Some (env_now ev)\<rparr>) (t_invitations d1)\<rparr>
     in bindE (emit_business_event ev ''member_invitation'' (minv_business_id i) ''MEMBER_ACCEPTED'' [] (minv_id i)
          [(''notification_title'', PStr ''Member joined''),
           (''notification_body'', PStr (usr_email u @ '' joined as '' @ role_value (minv_role i) @ ''.''))] d2) (\<lambda>d3. Inr (m, d3))))))))))"

end
