(* ===== verification/Members_Guarantees.thy ===== *)
theory Members_Guarantees
  imports Members
begin

text \<open>
  What the endpoints of businesses and members guarantee: a business always has an owner, only its
  owners change who its members are, except that an invited user joins, and statuses move along
  their transition tables.
\<close>

section \<open>Requests in any order\<close>

text \<open>A request of the user \<open>u\<close>.\<close>

inductive member_step :: "User \<Rightarrow> db \<Rightarrow> db \<Rightarrow> bool" for u d d' where
  create: "create_business name slug currency u d = Inr (x, d') \<Longrightarrow> member_step u d d'"
| rename: "update_business ev b name u d = Inr (x, d') \<Longrightarrow> member_step u d d'"
| move: "transition_business ev b status u d = Inr (x, d') \<Longrightarrow> member_step u d d'"
| profile: "update_business_profile ev b q u d = Inr (x, d') \<Longrightarrow> member_step u d d'"
| add: "add_member b email role u d = Inr (x, d') \<Longrightarrow> member_step u d d'"
| remove: "remove_member ev b m u d = Inr (x, d') \<Longrightarrow> member_step u d d'"
| change_role: "update_member_role ev b m role u d = Inr (x, d') \<Longrightarrow> member_step u d d'"
| invite: "invite_member ev token b email role u d = Inr (x, d') \<Longrightarrow> member_step u d d'"
| accept: "accept_invitation ev token u d = Inr (x, d') \<Longrightarrow> member_step u d d'"

definition member_run :: "db \<Rightarrow> db \<Rightarrow> bool" where
  "member_run = (\<lambda>d d'. \<exists>u. member_step u d d')\<^sup>*\<^sup>*"

section \<open>Every business has an owner\<close>

definition owner_row :: "uuid \<Rightarrow> BusinessMember \<Rightarrow> bool" where
  "owner_row b m \<longleftrightarrow> mem_business_id m = b \<and> mem_role m = Bmr_OWNER \<and> \<not> mem_deleted m"

definition owned :: "db \<Rightarrow> bool" where
  "owned d \<longleftrightarrow>
     distinct (map mem_id (t_members d)) \<and> (\<forall>m\<in>set (t_members d). mem_id m < fresh d) \<and>
     (\<forall>b\<in>set (t_businesses d). biz_id b < fresh d) \<and>
     (\<forall>b\<in>set (t_businesses d). \<exists>m\<in>set (t_members d). owner_row (biz_id b) m)"

lemma owners_of_alt: "owners_of b d = filter (owner_row b) (t_members d)"
  by (simp add: owners_of_def owner_row_def [abs_def])

lemma member_of_business_Inr:
  "member_of_business i b d = Inr m \<Longrightarrow>
     m \<in> set (t_members d) \<and> mem_id m = i \<and> mem_business_id m = b \<and> \<not> mem_deleted m"
  by (auto simp: member_of_business_def result_iffs dest: find_row_SomeD)

lemma another_owner:
  assumes "distinct (map mem_id ms)" "length (filter P ms) > 1"
  shows "\<exists>m\<in>set ms. P m \<and> mem_id m \<noteq> i"
proof (rule ccontr)
  assume "\<not> ?thesis"
  then have "mem_id ` set (filter P ms) \<subseteq> {i}" by auto
  moreover have "distinct (map mem_id (filter P ms))" using assms(1) by (simp add: distinct_map_filter)
  ultimately have "length (filter P ms) \<le> 1"
    using card_mono [of "{i}" "mem_id ` set (filter P ms)"] distinct_card [of "map mem_id (filter P ms)"] by simp
  then show False using assms(2) by simp
qed

lemma emit_business_Inr:
  "emit_business_event ev agg b ety suffix i pl d = Inr d' \<Longrightarrow>
     t_members d' = t_members d \<and> t_businesses d' = t_businesses d \<and> t_invitations d' = t_invitations d \<and>
     t_profiles d' = t_profiles d \<and> t_users d' = t_users d \<and> fresh d' = Suc (fresh d)"
  by (auto simp: emit_business_event_def used_id_def split: if_splits)

lemma owned_same:
  assumes "owned d" "t_members d' = t_members d" "map biz_id (t_businesses d') = map biz_id (t_businesses d)" "fresh d \<le> fresh d'"
  shows "owned d'"
proof -
  have ids: "biz_id ` set (t_businesses d') = biz_id ` set (t_businesses d)"
    using assms(3) by (metis set_map)
  have "\<exists>c\<in>set (t_businesses d). biz_id c = biz_id b" if "b \<in> set (t_businesses d')" for b
    using that ids by (metis imageE imageI)
  then show ?thesis
    using assms(1,2,4) unfolding owned_def by (metis less_le_trans)
qed

lemma owned_changed:
  assumes d: "owned d" and i: "t_members d' = upd_row mem_id i f (t_members d)" "t_businesses d' = t_businesses d" "fresh d \<le> fresh d'"
    and f: "\<And>m. mem_id (f m) = mem_id m"
    and m: "member_of_business i b d = Inr m"
    and guard: "length (owners_of b d) > 1 \<or> \<not> owner_row b m \<or> owner_row b (f m)"
  shows "owned d'"
  unfolding owned_def
proof (intro conjI ballI)
  have row: "m \<in> set (t_members d)" "mem_id m = i" "mem_business_id m = b"
    using member_of_business_Inr [OF m] by simp_all
  show "distinct (map mem_id (t_members d'))"
    using d by (simp add: i owned_def map_key_upd_row f)
  show "mem_id x < fresh d'" if "x \<in> set (t_members d')" for x
    using that d i(3) f by (auto simp: i(1) owned_def upd_row_def intro: less_le_trans)
  show "biz_id x < fresh d'" if "x \<in> set (t_businesses d')" for x
    using that d i(3) by (auto simp: i(2) owned_def intro: less_le_trans)
  fix c assume c: "c \<in> set (t_businesses d')"
  show "\<exists>m\<in>set (t_members d'). owner_row (biz_id c) m"
  proof -
    obtain o1 where o1: "o1 \<in> set (t_members d)" "owner_row (biz_id c) o1"
      using d c by (auto simp: i(2) owned_def)
    have kept: "x \<in> set (t_members d')" if "x \<in> set (t_members d)" "mem_id x \<noteq> i" for x
      using that by (auto simp: i(1) upd_row_def)
    have changed: "f m \<in> set (t_members d')"
      using row by (auto simp: i(1) upd_row_def)
    show ?thesis
    proof (cases "mem_id o1 = i")
      case False
      then show ?thesis using kept o1 by blast
    next
      case True
      then have "o1 = m"
        using row(1,2) o1(1) d eq_key_imp_eq_value [of "map (\<lambda>m. (mem_id m, m)) (t_members d)"]
        by (auto simp: owned_def comp_def distinct_map inj_on_def)
      then have "biz_id c = b" "owner_row b m" using o1(2) row(3) by (auto simp: owner_row_def)
      moreover have "\<exists>x\<in>set (t_members d). owner_row b x \<and> mem_id x \<noteq> i" if "length (owners_of b d) > 1"
        using that another_owner [of "t_members d" "owner_row b"] d by (simp add: owners_of_alt owned_def)
      ultimately show ?thesis using guard changed kept by blast
    qed
  qed
qed

lemma owned_insert:
  assumes "owned d" "insert_member user b role d = Inr (x, d')"
  shows "owned d'"
  using assms by (auto simp: owned_def insert_member_def used_id_def fresh_id_def less_Suc_eq split: if_splits) force

lemma insert_member_Inr:
  "insert_member user b role d = Inr (x, d') \<Longrightarrow>
     t_businesses d' = t_businesses d \<and> t_invitations d' = t_invitations d \<and> fresh d' = Suc (fresh d) \<and>
     t_members d' = t_members d @ [\<lparr>mem_id = fresh d, mem_user_id = user, mem_business_id = b, mem_role = role, mem_deleted = False\<rparr>]"
  by (auto simp: insert_member_def used_id_def fresh_id_def split: if_splits)

lemma owned_create:
  assumes "owned d" "create_business name slug currency u d = Inr (x, d')"
  shows "owned d'"
  using assms
  by (auto simp: owned_def create_business_def result_iffs used_id_def fresh_id_def Let_def owner_row_def less_Suc_eq
      dest!: insert_member_Inr) force

lemma put_business_same [simp]: "t_members (put_business i f d) = t_members d" "fresh (put_business i f d) = fresh d"
  by (simp_all add: put_business_def)

lemma put_business_ids [simp]:
  "(\<And>b. biz_id (f b) = biz_id b) \<Longrightarrow> map biz_id (t_businesses (put_business i f d)) = map biz_id (t_businesses d)"
  by (simp add: put_business_def map_key_upd_row)

lemma business_requests_members:
  "update_business ev b name u d = Inr (x, d') \<Longrightarrow>
     t_members d' = t_members d \<and> map biz_id (t_businesses d') = map biz_id (t_businesses d) \<and> fresh d \<le> fresh d'"
  "transition_business ev b status u d = Inr (x, d') \<Longrightarrow>
     t_members d' = t_members d \<and> map biz_id (t_businesses d') = map biz_id (t_businesses d) \<and> fresh d \<le> fresh d'"
  "update_business_profile ev b q u d = Inr (x, d') \<Longrightarrow>
     t_members d' = t_members d \<and> map biz_id (t_businesses d') = map biz_id (t_businesses d) \<and> fresh d \<le> fresh d'"
  "invite_member ev token b email role u d = Inr (y, d') \<Longrightarrow>
     t_members d' = t_members d \<and> map biz_id (t_businesses d') = map biz_id (t_businesses d) \<and> fresh d \<le> fresh d'"
  by (auto simp: update_business_def transition_business_def update_business_profile_def invite_member_def result_iffs
      Let_def used_id_def split: option.splits if_splits prod.splits dest!: emit_business_Inr)

lemma owner_level: "3 \<le> role_hierarchy r \<longleftrightarrow> r = Bmr_OWNER"
  by (cases r) auto

lemma with_role_owner:
  assumes "with_role Bmr_OWNER b u d = Inr r"
  shows "\<exists>m\<in>set (memberships (usr_id u) b d). mem_role m = Bmr_OWNER"
proof -
  obtain m where "scalar_one_or_none (memberships (usr_id u) b d) = Inr (Some m)" "mem_role m = Bmr_OWNER"
    using assms by (auto simp: with_role_def get_user_business_def check_minimum_role_def result_iffs owner_level)
  then show ?thesis by (auto dest!: scalar_one_or_none_Inr_SomeD)
qed

lemma accept_invitation_Inr:
  assumes "accept_invitation ev token u d = Inr (x, d')"
  shows "\<exists>i d1. i \<in> set (t_invitations d) \<and> \<not> is_used i \<and> \<not> minv_deleted i \<and> minv_email i = lower (strip (usr_email u)) \<and>
    insert_member (usr_id u) (minv_business_id i) (minv_role i) d = Inr (x, d1) \<and>
    t_members d' = t_members d1 \<and> t_businesses d' = t_businesses d1 \<and> fresh d' = Suc (fresh d1)"
proof -
  obtain i d1 where i: "scalar_one_or_none (filter (\<lambda>i. minv_token i = token \<and> \<not> minv_deleted i) (t_invitations d)) = Inr (Some i)"
    and i': "\<not> is_used i" "lower (strip (usr_email u)) = minv_email i"
      "insert_member (usr_id u) (minv_business_id i) (minv_role i) d = Inr (x, d1)"
    and d': "t_members d' = t_members d1" "t_businesses d' = t_businesses d1" "fresh d' = Suc (fresh d1)"
    using assms unfolding accept_invitation_def by (auto simp: result_iffs Let_def dest!: emit_business_Inr)
  then show ?thesis using scalar_in [OF i] by (intro exI [of _ i] exI [of _ d1]) simp
qed

lemma owned_request: "member_step u d d' \<Longrightarrow> owned d \<Longrightarrow> owned d'"
proof (induction rule: member_step.induct)
  case (create name slug currency x)
  then show ?case by (rule owned_create [rotated])
next
  case (remove ev b i x)
  then obtain m where m: "member_of_business i b d = Inr m" and "mem_role m = Bmr_OWNER \<longrightarrow> length (owners_of b d) > 1"
    and d': "t_members d' = upd_row mem_id i (\<lambda>m. m\<lparr>mem_deleted := True\<rparr>) (t_members d)"
      "t_businesses d' = t_businesses d" "fresh d \<le> fresh d'"
    by (auto simp: remove_member_def result_iffs set_member_def dest!: emit_business_Inr)
  then have "length (owners_of b d) > 1 \<or> \<not> owner_row b m \<or> owner_row b (m\<lparr>mem_deleted := True\<rparr>)"
    by (auto simp: owner_row_def)
  then show ?case by (rule owned_changed [OF remove(2) d' _ m, rotated]) simp
next
  case (change_role ev b i role x)
  then obtain m where m: "member_of_business i b d = Inr m"
    and "mem_role m = Bmr_OWNER \<and> role \<noteq> Bmr_OWNER \<longrightarrow> length (owners_of b d) > 1"
    and d': "t_members d' = upd_row mem_id i (\<lambda>m. m\<lparr>mem_role := role\<rparr>) (t_members d)"
      "t_businesses d' = t_businesses d" "fresh d \<le> fresh d'"
    by (auto simp: update_member_role_def result_iffs set_member_def Let_def split: if_splits dest!: emit_business_Inr)
  then have "length (owners_of b d) > 1 \<or> \<not> owner_row b m \<or> owner_row b (m\<lparr>mem_role := role\<rparr>)"
    by (auto simp: owner_row_def)
  then show ?case by (rule owned_changed [OF change_role(2) d' _ m, rotated]) simp
next
  case (add b email role x)
  then show ?case by (auto simp: add_member_def result_iffs intro: owned_insert)
next
  case (accept ev token x)
  then obtain i :: MemberInvitation and d1 where inserted: "insert_member (usr_id u) (minv_business_id i) (minv_role i) d = Inr (x, d1)"
    and d': "t_members d' = t_members d1" "t_businesses d' = t_businesses d1" "fresh d' = Suc (fresh d1)"
    using accept_invitation_Inr [OF accept.hyps] by blast
  have "owned d1" using accept(2) inserted by (rule owned_insert)
  then show ?case by (rule owned_same) (simp_all add: d')
qed (auto dest!: business_requests_members intro: owned_same)

section \<open>Properties of the members\<close>

text \<open>C38: Starting from no businesses, whatever businesses are created and whatever requests change
  their members in any order, every business always has an owner who has not been removed.\<close>

theorem business_keeps_an_owner:
  assumes "member_run d d'" "t_businesses d = []" "t_members d = []" "b \<in> set (t_businesses d')"
  shows "\<exists>m\<in>set (t_members d'). mem_business_id m = biz_id b \<and> mem_role m = Bmr_OWNER \<and> \<not> mem_deleted m"
proof -
  have "owned d" using assms(2,3) by (simp add: owned_def)
  with assms(1)[unfolded member_run_def] have "owned d'"
    by (induction rule: rtranclp_induct) (auto intro: owned_request)
  then show ?thesis using assms(4) by (auto simp: owned_def owner_row_def)
qed

definition members_in :: "uuid \<Rightarrow> db \<Rightarrow> BusinessMember list" where
  "members_in c d = filter (\<lambda>m. mem_business_id m = c) (t_members d)"

lemma filter_upd_row_others:
  "(\<And>x. x \<in> set rows \<Longrightarrow> key x = k \<Longrightarrow> \<not> Q x \<and> \<not> Q (f x)) \<Longrightarrow> filter Q (upd_row key k f rows) = filter Q rows"
  by (induction rows) auto

lemma members_in_other:
  assumes "member_of_business i b d = Inr m" "owned d" "b \<noteq> c" "\<And>x. mem_business_id (f x) = mem_business_id x"
  shows "filter (\<lambda>m. mem_business_id m = c) (upd_row mem_id i f (t_members d)) = members_in c d"
proof -
  have "m \<in> set (t_members d)" "mem_id m = i" "mem_business_id m = b"
    using member_of_business_Inr [OF assms(1)] by simp_all
  moreover have "distinct (map mem_id (t_members d))" using assms(2) by (simp add: owned_def)
  ultimately have "mem_business_id x \<noteq> c" if "x \<in> set (t_members d)" "mem_id x = i" for x
    using that assms(3) by (auto simp: distinct_map inj_on_def)
  then show ?thesis
    unfolding members_in_def using assms(4) by (intro filter_upd_row_others) auto
qed

text \<open>C39: A request changes the members of an existing business only if the user who makes it is an
  owner of the business, or has an unused invitation to it, addressed to the user's own email, and
  then it adds that user, with the role of the invitation.\<close>

theorem only_owners_change_members:
  assumes "member_step u d d'" "owned d" "c \<in> biz_id ` set (t_businesses d)" "members_in c d' \<noteq> members_in c d"
  shows "(\<exists>m\<in>set (memberships (usr_id u) c d). mem_role m = Bmr_OWNER) \<or>
    (\<exists>i\<in>set (t_invitations d). minv_business_id i = c \<and> minv_email i = lower (strip (usr_email u)) \<and> \<not> is_used i \<and>
       \<not> minv_deleted i \<and>
       (\<exists>m. members_in c d' = members_in c d @ [m] \<and> mem_user_id m = usr_id u \<and> mem_role m = minv_role i))"
  using assms
proof (induction rule: member_step.induct)
  case (create name slug currency x)
  then show ?case
    by (auto simp: create_business_def result_iffs Let_def used_id_def fresh_id_def members_in_def owned_def dest!: insert_member_Inr)
next
  case (remove ev b m x)
  then show ?case
    by (cases "b = c") (auto simp: remove_member_def result_iffs set_member_def members_in_other members_in_def [of c d']
        dest!: emit_business_Inr dest: with_role_owner)
next
  case (change_role ev b m role x)
  then show ?case
    by (cases "b = c") (auto simp: update_member_role_def result_iffs set_member_def Let_def members_in_other members_in_def [of c d']
        split: if_splits dest!: emit_business_Inr dest: with_role_owner)
next
  case (add b email role x)
  then show ?case
    by (cases "b = c") (auto simp: add_member_def result_iffs members_in_def dest!: insert_member_Inr dest: with_role_owner)
next
  case (accept ev token x)
  then obtain i d1 where i: "i \<in> set (t_invitations d)" "\<not> is_used i" "\<not> minv_deleted i" "minv_email i = lower (strip (usr_email u))"
    and d1: "insert_member (usr_id u) (minv_business_id i) (minv_role i) d = Inr (x, d1)" "t_members d' = t_members d1"
    using accept_invitation_Inr [OF accept.hyps] by blast
  have "minv_business_id i = c" using accept.prems(3) insert_member_Inr [OF d1(1)] d1(2) by (auto simp: members_in_def split: if_splits)
  then show ?case using i insert_member_Inr [OF d1(1)] d1(2) by (auto simp: members_in_def)
qed (auto dest!: business_requests_members simp: members_in_def)

lemma find_first: "(\<And>y. y \<in> set ys \<Longrightarrow> \<not> Q y) \<Longrightarrow> Q x \<Longrightarrow> List.find Q (ys @ x # zs) = Some x"
  by (induction ys) auto

lemma unique_find:
  assumes "distinct (map f xs)" "x \<in> set xs" "Q x" "\<And>y. y \<in> set xs \<Longrightarrow> Q y \<Longrightarrow> f y = f x"
  shows "List.find Q xs = Some x"
proof -
  obtain ys zs where xs: "xs = ys @ x # zs" using assms(2) by (auto dest: split_list)
  have "\<not> Q y" if "y \<in> set ys" for y
  proof
    assume "Q y"
    then have "f y = f x" using assms(4) [of y] that by (simp add: xs)
    moreover have "f y \<in> f ` set ys" using that by (rule imageI)
    ultimately show False using assms(1) by (simp add: xs)
  qed
  then show ?thesis unfolding xs using assms(3) by (rule find_first)
qed

text \<open>C40: A removed member passes the role check of the other endpoints as before, and can never
  become a member again: whoever adds the user violates the unique pair of user and business.\<close>

theorem removed_member_keeps_access_and_cannot_return:
  assumes "remove_member ev b i u d = Inr (x, d')" "find_row mem_id i (t_members d) = Some m"
    and "distinct (map mem_id (t_members d))" "distinct (map (\<lambda>m. (mem_user_id m, mem_business_id m)) (t_members d))"
    and "usr_id t = mem_user_id m"
  shows "require_business_role (mem_role m) b t d' = Inr (m\<lparr>mem_deleted := True\<rparr>) \<and>
    memberships (usr_id t) b d' = [] \<and>
    insert_member (usr_id t) b role d' = Inl (IntegrityError ''uq_business_member_user_business'')"
proof -
  let ?f = "\<lambda>m. m\<lparr>mem_deleted := True\<rparr>" and ?pair = "\<lambda>m. (mem_user_id m, mem_business_id m)"
  obtain m' where m': "member_of_business i b d = Inr m'" and d': "t_members d' = upd_row mem_id i ?f (t_members d)"
    using assms(1) by (auto simp: remove_member_def result_iffs set_member_def dest!: emit_business_Inr)
  have m: "m \<in> set (t_members d)" "mem_id m = i" using find_row_SomeD [OF assms(2)] by auto
  have "m' = m"
    using member_of_business_Inr [OF m'] m assms(3) by (auto simp: distinct_map inj_on_def)
  then have b: "mem_business_id m = b" using member_of_business_Inr [OF m'] by simp
  have rows: "x = ?f m" if row: "x \<in> set (t_members d')" "mem_user_id x = usr_id t" "mem_business_id x = b" for x
  proof -
    obtain y where y: "y \<in> set (t_members d)" "x = (if mem_id y = i then ?f y else y)"
      using row(1) unfolding d' upd_row_def set_map by blast
    then have "?pair y = ?pair m" using row(2,3) b assms(5) by (auto split: if_splits)
    then have "y = m" using y(1) m(1) assms(4) by (auto simp: distinct_map dest: inj_onD)
    then show ?thesis using y(2) m(2) by simp
  qed
  have in': "?f m \<in> set (t_members d')" using m by (auto simp: d' upd_row_def)
  have "List.find (\<lambda>m. mem_business_id m = b) (business_memberships t d') = Some (?f m)"
  proof (rule unique_find [where f = ?pair])
    show "distinct (map ?pair (business_memberships t d'))"
      unfolding business_memberships_def
    proof (rule distinct_map_filter)
      have "map ?pair (t_members d') = map ?pair (t_members d)" by (simp add: d' upd_row_def)
      then show "distinct (map ?pair (t_members d'))" using assms(4) by simp
    qed
    show "?f m \<in> set (business_memberships t d')" "mem_business_id (?f m) = b"
      using in' b assms(5) by (simp_all add: business_memberships_def)
    show "?pair y = ?pair (?f m)" if "y \<in> set (business_memberships t d')" "mem_business_id y = b" for y
      using rows [of y] that by (simp add: business_memberships_def)
  qed
  moreover have "memberships (usr_id t) b d' = []"
    using rows by (fastforce simp: memberships_def filter_empty_conv)
  moreover have "(usr_id t, b) \<in> ?pair ` set (t_members d')"
    using imageI [OF in', of ?pair] b assms(5) by simp
  ultimately show ?thesis by (simp add: require_business_role_def insert_member_def)
qed

section \<open>Examples\<close>

text \<open>The owner of a business, a member of its staff and a user who is invited.\<close>

definition sample_user :: "uuid \<Rightarrow> string \<Rightarrow> User" where
  "sample_user i email =
     \<lparr>usr_id = i, usr_email = email, usr_hashed_password = [], usr_is_active = True, usr_is_verified = True, usr_deleted = False\<rparr>"

definition members_db :: db where
  "members_db =
     empty_db\<lparr>t_users := [sample_user 1 ''ann'', sample_user 2 ''bob'', sample_user 3 ''cyd''], t_businesses := [sample_business],
       t_members := [\<lparr>mem_id = 5, mem_user_id = 1, mem_business_id = 1, mem_role = Bmr_OWNER, mem_deleted = False\<rparr>,
                     \<lparr>mem_id = 6, mem_user_id = 2, mem_business_id = 1, mem_role = Bmr_STAFF, mem_deleted = False\<rparr>]\<rparr>"

definition created_db :: db where
  "created_db = snd (projr (create_business ''Shop'' ''shop'' ''GBP'' (sample_user 1 ''ann'') empty_db))"

definition added_db :: db where
  "added_db = snd (projr (add_member 1 ''cyd'' Bmr_ADMIN (sample_user 1 ''ann'') members_db))"

definition removed_db :: db where
  "removed_db = snd (projr (remove_member sample_env 1 6 (sample_user 1 ''ann'') members_db))"

lemma Inr_snd: "\<not> isl r \<Longrightarrow> fst (projr r) = x \<Longrightarrow> r = Inr (x, snd (projr r))"
  by (cases r) auto

lemma sample_requests:
  "create_business ''Shop'' ''shop'' ''GBP'' (sample_user 1 ''ann'') empty_db = Inr (1000, created_db)"
  "add_member 1 ''cyd'' Bmr_ADMIN (sample_user 1 ''ann'') members_db = Inr (1000, added_db)"
  "remove_member sample_env 1 6 (sample_user 1 ''ann'') members_db = Inr ((), removed_db)"
  unfolding created_db_def added_db_def removed_db_def by (rule Inr_snd; code_simp)+

lemma business_keeps_an_owner_witness:
  "member_run empty_db created_db \<and>
   (\<exists>b\<in>set (t_businesses created_db). \<exists>m\<in>set (t_members created_db).
      mem_business_id m = biz_id b \<and> mem_role m = Bmr_OWNER \<and> \<not> mem_deleted m)"
proof -
  have run: "member_run empty_db created_db"
    unfolding member_run_def by (rule r_into_rtranclp) (use member_step.create [OF sample_requests(1)] in blast)
  have "t_businesses created_db \<noteq> []" by code_simp
  then obtain b where "b \<in> set (t_businesses created_db)" by (cases "t_businesses created_db") auto
  then show ?thesis
    using business_keeps_an_owner [OF run] run by (auto simp: empty_db_def)
qed

lemma only_owners_change_members_witness:
  "\<exists>m\<in>set (memberships 1 1 members_db). mem_role m = Bmr_OWNER"
proof -
  have "member_step (sample_user 1 ''ann'') members_db added_db" by (rule member_step.add [OF sample_requests(2)])
  moreover have "owned members_db"
    by (auto simp: owned_def members_db_def empty_db_def sample_business_def owner_row_def)
  moreover have "1 \<in> biz_id ` set (t_businesses members_db)" "members_in 1 added_db \<noteq> members_in 1 members_db"
    "t_invitations members_db = []" by code_simp+
  ultimately show ?thesis
    using only_owners_change_members [of "sample_user 1 ''ann''" members_db added_db 1] by (simp add: sample_user_def)
qed

lemma removed_member_keeps_access_and_cannot_return_witness:
  "\<not> isl (require_business_role Bmr_STAFF 1 (sample_user 2 ''bob'') removed_db) \<and>
   isl (insert_member 2 1 Bmr_STAFF removed_db)"
proof -
  have "find_row mem_id 6 (t_members members_db) =
      Some \<lparr>mem_id = 6, mem_user_id = 2, mem_business_id = 1, mem_role = Bmr_STAFF, mem_deleted = False\<rparr>"
    by (simp add: members_db_def)
  from removed_member_keeps_access_and_cannot_return [OF sample_requests(3) this, where t = "sample_user 2 ''bob''" and role = Bmr_STAFF]
  show ?thesis by (simp add: members_db_def sample_user_def)
qed

end
