(* ===== verification/Spec2Isabelle.thy ===== *)
theory Spec2Isabelle
  imports Enquiries Reviews Stripe_Reconciliation Communication_Api Worker_System Voice_System Members_Guarantees
begin

text \<open>
  A model of the backend of FIELDed.online (src/backend/app), a marketplace in which customers
  send enquiries to businesses, businesses answer with quotes, quotes become bookings, bookings
  are executed, invoiced and paid, and paid work is reviewed.  A business decides by the rules of
  its Business Brain; an outbox with a worker carries events to notifications, communications, the
  calendar and the booking automation; a call agent telephones customers.

  Program and theories, in the order in which the code builds on itself:

  FPrelude: results with errors as values (\<open>err + 'a\<close>, one constructor per exception class of
  exceptions.py and of the libraries the code lets through), tables as lists of rows, rounding of
  money.  Py_Values: JSON values with Python's truth, equality, conversions and string functions;
  timestamps as microseconds.  Enums: the statuses and transition tables of
  domain/common/enums.py, with the locale of machines ranked so that no status is entered twice.

  Rule_Evaluator: domain/business/evaluator.py, the Brain's rules, their conditions, conflicts and
  the decision.  Pricing: domain/quote/pricing.py.  Availability: domain/booking/availability.py.
  Commercial_Policy: domain/commercial_policy.  Brain_Registry (registry.py, validation.py) and
  Brain_Authoring (service.py, approval.py, auth.py, repository.py, api/v1/brain.py): structural
  validation, the lifecycle of versions and the editing of rules; Brain_Guarantees states what they
  keep.

  Data_Model: the rows of the SQLAlchemy models, the database as a record of tables and the locale
  of repositories.  Outbox: emission of events inside the services' transactions (locale of
  emitters), the claiming repository and the worker loop of workers/.

  Lifecycle: what the services of statuses share.  Quotes, Bookings, Enquiries: the services,
  repositories and endpoints of those entities.  Completion: domain/service_execution, with the
  invoice and the ledger entry it writes.  Ledger: domain/ledger and the payment status of
  invoices.  Payments: domain/payment/service.py with the provider as a parameter.
  Stripe_Reconciliation: the events of Stripe.  Reviews: domain/review.

  Adapters, Comm_Rows, Communication_Policy, Orchestration, Communication_Api: the policy that
  decides on a message, templates and their rendering, the orchestrators of events, preferences,
  settings and delivery webhooks; Communication_Guarantees states what they keep.
  Session_Ops: operations on a session whose changes before an exception stay visible, and the
  locale of relations that every step of such an operation keeps.  Calendar_Sync and
  Booking_Automation: domain/calendar and domain/booking_automation, with Automation_Guarantees.
  Worker_System: the deployed pass of the worker with all its services.

  Access: security/authorization.py.  Members and Members_Guarantees: api/v1/businesses.py.
  Voice_Rows, Voice_Lifecycle, Voice_Provider, Voice_Campaigns, Voice_Agent: domain/voice, its rows
  and repositories, the lifecycle of calls, sessions and escalations, dialling and the provider's
  status events, campaigns, and the agent that leads a conversation.  Voice_Api: the endpoints and
  the callbacks of the telephone services (api/v1/voice.py, twiml.py, twilio_security.py).
  Voice_Guarantees and Voice_System: what every request keeps, and runs of requests.

  Correspondence.  A definition carries the name of the function it models; a service method takes
  the clock and the regular-expression engine as an environment and the database as an argument,
  and returns \<open>Inr\<close> of the result and the new database or \<open>Inl\<close> of the exception, after which the
  session of the request is rolled back.  Where an exception is caught and the session goes on, the
  operation returns its state with the exception (Session_Ops).  A request is a transaction; the
  steps of Brain_Authoring, Voice_System and Members_Guarantees are whole requests, in any order
  and from any user.  Decimals are exact rationals: the code rounds to two places where the model
  does, and the 28 digits of Python's context are never exhausted by amounts that fit the
  Numeric(12, 2) columns.  Floats are rationals too, so only comparisons of values that differ by
  less than the rounding error could differ.  Loops run over finite lists, so every definition is
  total and no fuel is needed.  \<open>info\<close> says whether messages of the level INFO are logged: the voice
  services and the worker then raise at messages with keyword fields.

  What the lemmas show.  The decision is the most restrictive outcome the rules call for, whatever
  their order; prices are non-negative amounts of two places; fees conserve the amount; times are
  admitted exactly when no rule blocks them.  The version of a Brain that is in force was validated
  and always decides, and only drafts are edited.  Quotes, bookings, enquiries and reviews exist
  only under their preconditions and move along their tables; completion bills the quote, once;
  payments stay within the balance and settlement keeps invoice and ledger in step; unsigned and
  foreign events change nothing.  Claims are exclusive, a worker pass resolves what it claimed,
  leaves the business records alone and executes confirmed bookings; communications are governed by
  permissions and repeated events send nothing; retries come to an end.  Calls follow their
  transition table whatever requests arrive, are dialled within their limits only, and cannot be
  requested at all while INFO messages are logged; every business keeps an owner, and only owners
  or invited users change who its members are.  Lemmas named after a defect show it on a concrete
  database.

  Not modelled: request parsing, response schemas and middleware; passwords and the signing of
  tokens; the conversations in which the Brain is edited through a language model, their proposals
  and the AI agent beside the call agent; the service catalogue, discovery and the public
  directory; Stripe Connect onboarding; logging set-up and seed data.  They are either glue around
  the services or text for a language model.  The clients of external services, the language model,
  keyed hashes, the decoding of JSON and tokens, time zones and the regular-expression engine are
  parameters of the definitions that use them.
\<close>

end
